(* ===== verification/Prelude.thy ===== *)
theory Prelude
  imports Main
begin

text \<open>
  What every theory of the development shares: the error values of
  \<^verbatim>\<open>src/internal/metering/domain/errors.go\<close> and of \<^verbatim>\<open>fmt.Errorf\<close>, the state-and-error
  procedures in which the Go functions with effects are written, the preservation
  rules of these procedures, and list lemmas.

  A Go function \<^verbatim>\<open>f(ctx, a) (T, error)\<close> that reads or writes the store is a
  \<^verbatim>\<open>'a => 's => (go_error + 't) * 's\<close>; a Go function that only returns an error is an
  \<^verbatim>\<open>'a => go_error + 't\<close>.  The statement
  \<^verbatim>\<open>x, err := f(a); if err != nil { return err }; rest\<close> is \<^verbatim>\<open>attempt (f a) (\<lambda>x. rest)\<close>.
\<close>

named_theorems ensures_rules \<open>what a successful run of a procedure ensures\<close>
named_theorems keeps_rules \<open>preservation of a state predicate by a procedure\<close>
named_theorems go_string_simps \<open>equations that evaluate the string functions\<close>
named_theorems f64_simps \<open>equations that evaluate float operations on exact values\<close>
named_theorems time_simps \<open>equations of the time functions\<close>
named_theorems row_simps \<open>lookup after update in the tables of the store\<close>

section \<open>Errors\<close>

datatype fmt_arg = SArg string | IArg int

text \<open>An error value: a sentinel, an error of the database driver with its message, an error made by \<^verbatim>\<open>fmt.Errorf\<close> with the verb \<^verbatim>\<open>%w\<close> (the
  wrapped error, the rest of the format and its arguments, kept unformatted) or without it,
  and an error of \<^verbatim>\<open>errors.Join\<close>.\<close>

datatype go_error =
    Sentinel string
  | NewError string "fmt_arg list"
  | Errorf go_error string "fmt_arg list"
  | JoinErr go_error go_error
  | DriverErr string

fun errors_Is :: "go_error \<Rightarrow> go_error \<Rightarrow> bool" where
  "errors_Is (Errorf e f args) t = (Errorf e f args = t \<or> errors_Is e t)"
| "errors_Is (JoinErr a b) t = (JoinErr a b = t \<or> errors_Is a t \<or> errors_Is b t)"
| "errors_Is e t = (e = t)"

definition ErrInvalidInput :: go_error where "ErrInvalidInput = Sentinel ''invalid input''"
definition ErrUnauthorized :: go_error where "ErrUnauthorized = Sentinel ''unauthorized''"
definition ErrForbidden :: go_error where "ErrForbidden = Sentinel ''forbidden''"
definition ErrNotFound :: go_error where "ErrNotFound = Sentinel ''not found''"
definition ErrConflict :: go_error where "ErrConflict = Sentinel ''conflict''"
definition ErrRateLimited :: go_error where "ErrRateLimited = Sentinel ''rate limited''"

lemmas sentinel_defs = ErrInvalidInput_def ErrUnauthorized_def ErrForbidden_def
  ErrNotFound_def ErrConflict_def ErrRateLimited_def

lemma errors_Is_refl [simp]: "errors_Is e e"
  by (cases e) auto

lemma errors_Is_sentinels [simp]:
  "\<not> errors_Is ErrNotFound ErrInvalidInput" "\<not> errors_Is ErrConflict ErrInvalidInput"
  "\<not> errors_Is ErrInvalidInput ErrNotFound" "\<not> errors_Is ErrInvalidInput ErrConflict"
  "\<not> errors_Is ErrConflict ErrNotFound" "\<not> errors_Is ErrNotFound ErrConflict"
  by (auto simp: sentinel_defs)

lemma errors_Is_Errorf_sentinel [simp]:
  "errors_Is (Errorf e f args) ErrInvalidInput = errors_Is e ErrInvalidInput"
  "errors_Is (Errorf e f args) ErrNotFound = errors_Is e ErrNotFound"
  "errors_Is (Errorf e f args) ErrConflict = errors_Is e ErrConflict"
  "errors_Is (NewError f args) ErrInvalidInput = False"
  "errors_Is (NewError f args) ErrNotFound = False"
  "errors_Is (NewError f args) ErrConflict = False"
  "errors_Is (DriverErr m) ErrInvalidInput = False"
  "errors_Is (DriverErr m) ErrNotFound = False"
  "errors_Is (DriverErr m) ErrConflict = False"
  by (auto simp: sentinel_defs)

lemma errors_Is_Join [simp]:
  "errors_Is (JoinErr a b) ErrInvalidInput = (errors_Is a ErrInvalidInput \<or> errors_Is b ErrInvalidInput)"
  "errors_Is (JoinErr a b) ErrNotFound = (errors_Is a ErrNotFound \<or> errors_Is b ErrNotFound)"
  "errors_Is (JoinErr a b) ErrConflict = (errors_Is a ErrConflict \<or> errors_Is b ErrConflict)"
  by (auto simp: sentinel_defs)

abbreviation invalid :: "string \<Rightarrow> go_error" where
  "invalid msg \<equiv> Errorf ErrInvalidInput msg []"

section \<open>Results without effects\<close>

fun try_res :: "'e + 'a \<Rightarrow> ('a \<Rightarrow> 'e + 'b) \<Rightarrow> 'e + 'b" where
  "try_res (Inl e) k = Inl e"
| "try_res (Inr x) k = k x"

definition reject_if :: "bool \<Rightarrow> 'e \<Rightarrow> 'e + 'a \<Rightarrow> 'e + 'a" where
  "reject_if b e r = (if b then Inl e else r)"

lemma try_res_eq_Inr: "try_res r k = Inr y \<longleftrightarrow> (\<exists>x. r = Inr x \<and> k x = Inr y)"
  by (cases r) auto

lemma try_res_eq_Inl: "try_res r k = Inl e \<longleftrightarrow> r = Inl e \<or> (\<exists>x. r = Inr x \<and> k x = Inl e)"
  by (cases r) auto

lemma reject_if_eq_Inr [simp]: "reject_if b e r = Inr y \<longleftrightarrow> \<not> b \<and> r = Inr y"
  by (simp add: reject_if_def)

lemma reject_if_simps [simp]: "reject_if True e r = Inl e" "reject_if False e r = r"
  by (simp_all add: reject_if_def)

text \<open>A loop \<^verbatim>\<open>for _, x := range xs\<close> whose body maps each element or returns an error.\<close>

fun map_res :: "('a \<Rightarrow> 'e + 'b) \<Rightarrow> 'a list \<Rightarrow> 'e + 'b list" where
  "map_res f [] = Inr []"
| "map_res f (x # xs) = try_res (f x) (\<lambda>y. try_res (map_res f xs) (\<lambda>ys. Inr (y # ys)))"

lemma map_res_length: "map_res f xs = Inr ys \<Longrightarrow> length ys = length xs"
  by (induction xs arbitrary: ys) (auto simp: try_res_eq_Inr)

lemma map_res_list_all2: "map_res f xs = Inr ys \<longleftrightarrow> list_all2 (\<lambda>x y. f x = Inr y) xs ys"
proof (induction xs arbitrary: ys)
  case (Cons x xs)
  then show ?case by (cases ys) (auto simp: try_res_eq_Inr)
qed auto

lemma map_res_set: "map_res f xs = Inr ys \<Longrightarrow> y \<in> set ys \<Longrightarrow> \<exists>x \<in> set xs. f x = Inr y"
  by (induction xs arbitrary: ys) (auto simp: try_res_eq_Inr)

text \<open>A loop that carries an accumulator and stops at the first error.\<close>

fun fold_res :: "('a \<Rightarrow> 'b \<Rightarrow> 'e + 'b) \<Rightarrow> 'a list \<Rightarrow> 'b \<Rightarrow> 'e + 'b" where
  "fold_res f [] acc = Inr acc"
| "fold_res f (x # xs) acc = try_res (f x acc) (fold_res f xs)"

lemma fold_res_invariant:
  assumes "fold_res f xs acc = Inr res" and "P acc"
    and "\<And>x a b. x \<in> set xs \<Longrightarrow> P a \<Longrightarrow> f x a = Inr b \<Longrightarrow> P b"
  shows "P res"
  using assms by (induction xs arbitrary: acc) (auto simp: try_res_eq_Inr)

lemma fold_res_append: "fold_res f (xs @ ys) acc = try_res (fold_res f xs acc) (fold_res f ys)"
proof (induction xs arbitrary: acc)
  case (Cons x xs)
  then show ?case by (cases "f x acc") auto
qed simp

section \<open>Procedures\<close>

type_synonym ('s, 'a) proc = "'s \<Rightarrow> (go_error + 'a) \<times> 's"

definition return_ok :: "'a \<Rightarrow> ('s, 'a) proc" where
  "return_ok x = (\<lambda>s. (Inr x, s))"

definition return_err :: "go_error \<Rightarrow> ('s, 'a) proc" where
  "return_err e = (\<lambda>s. (Inl e, s))"

definition lift_res :: "go_error + 'a \<Rightarrow> ('s, 'a) proc" where
  "lift_res r = (\<lambda>s. (r, s))"

definition attempt :: "('s, 'a) proc \<Rightarrow> ('a \<Rightarrow> ('s, 'b) proc) \<Rightarrow> ('s, 'b) proc" where
  "attempt m k = (\<lambda>s. case m s of (Inl e, t) \<Rightarrow> (Inl e, t) | (Inr x, t) \<Rightarrow> k x t)"

text \<open>A call whose error the caller inspects instead of returning it.\<close>

definition inspect :: "('s, 'a) proc \<Rightarrow> (go_error + 'a \<Rightarrow> ('s, 'b) proc) \<Rightarrow> ('s, 'b) proc" where
  "inspect m k = (\<lambda>s. case m s of (r, t) \<Rightarrow> k r t)"

text \<open>A loop \<^verbatim>\<open>for _, x := range xs\<close> that carries an accumulator and stops at an error.\<close>

fun foreach :: "'a list \<Rightarrow> 'b \<Rightarrow> ('a \<Rightarrow> 'b \<Rightarrow> ('s, 'b) proc) \<Rightarrow> ('s, 'b) proc" where
  "foreach [] acc body = return_ok acc"
| "foreach (x # xs) acc body = attempt (body x acc) (\<lambda>acc'. foreach xs acc' body)"

lemmas proc_defs = return_ok_def return_err_def lift_res_def attempt_def inspect_def

lemma proc_simps [simp]:
  "return_ok x s = (Inr x, s)" "return_err e s = (Inl e, s)" "lift_res r s = (r, s)"
  by (simp_all add: proc_defs)

lemma attempt_return_ok [simp]: "attempt (return_ok x) k = k x"
  by (simp add: proc_defs)

lemma attempt_return_err [simp]: "attempt (return_err e) k = return_err e"
  by (simp add: proc_defs)

lemma attempt_Pair [simp]:
  "attempt (Pair (Inr x)) k = k x" "attempt (Pair (Inl e)) k = Pair (Inl e)"
  by (simp_all add: proc_defs)

lemma inspect_Pair [simp]: "inspect (Pair r) k = k r"
  by (simp add: proc_defs)

lemma attempt_lift [simp]:
  "attempt (lift_res (Inl e)) k = return_err e" "attempt (lift_res (Inr x)) k = k x"
  by (simp_all add: proc_defs)

lemma attempt_apply:
  "attempt m k s = (case m s of (Inl e, t) \<Rightarrow> (Inl e, t) | (Inr x, t) \<Rightarrow> k x t)"
  by (simp add: attempt_def)

lemma inspect_apply: "inspect m k s = (case m s of (r, t) \<Rightarrow> k r t)"
  by (simp add: inspect_def)

lemma inspect_eq: "inspect m k s = r \<longleftrightarrow> (\<exists>x t. m s = (x, t) \<and> k x t = r)"
  by (cases "m s") (simp add: inspect_def)

lemma attempt_eq_Inr:
  "attempt m k s = (Inr y, t) \<longleftrightarrow> (\<exists>x u. m s = (Inr x, u) \<and> k x u = (Inr y, t))"
  by (auto simp: attempt_def split: prod.splits sum.splits)

lemma attempt_eq_Inl:
  "attempt m k s = (Inl e, t) \<longleftrightarrow> m s = (Inl e, t) \<or> (\<exists>x u. m s = (Inr x, u) \<and> k x u = (Inl e, t))"
  by (auto simp: attempt_def split: prod.splits sum.splits)

subsection \<open>Preservation\<close>

definition keeps :: "('s \<Rightarrow> bool) \<Rightarrow> ('s, 'a) proc \<Rightarrow> bool" where
  "keeps P m \<longleftrightarrow> (\<forall>s. P s \<longrightarrow> P (snd (m s)))"

lemma keepsI: "(\<And>s. P s \<Longrightarrow> P (snd (m s))) \<Longrightarrow> keeps P m"
  by (simp add: keeps_def)

lemma keepsD: "keeps P m \<Longrightarrow> P s \<Longrightarrow> P (snd (m s))"
  by (simp add: keeps_def)

lemma keeps_return [keeps_rules]:
  "keeps P (return_ok x)" "keeps P (return_err e)" "keeps P (lift_res r)" "keeps P (Pair r)"
  by (simp_all add: keeps_def)

lemma keeps_attempt [keeps_rules]:
  assumes "keeps P m" and "\<And>x. keeps P (k x)"
  shows "keeps P (attempt m k)"
proof (rule keepsI)
  fix s assume "P s"
  then have "P (snd (m s))" by (rule keepsD [OF assms(1)])
  then show "P (snd (attempt m k s))"
    using assms(2) by (auto simp: attempt_def keeps_def split: prod.splits sum.splits)
qed

lemma keeps_attempt_run:
  assumes "keeps P m" and "\<And>s x t. P s \<Longrightarrow> m s = (Inr x, t) \<Longrightarrow> P t \<Longrightarrow> P (snd (k x t))"
  shows "keeps P (attempt m k)"
proof (rule keepsI)
  fix s assume s: "P s"
  obtain r t where m: "m s = (r, t)" by (cases "m s")
  then have "P t" using keepsD [OF assms(1) s] by simp
  then show "P (snd (attempt m k s))"
    using m s assms(2) by (cases r) (auto simp: attempt_def)
qed

lemma keeps_inspect [keeps_rules]:
  assumes "keeps P m" and "\<And>r. keeps P (k r)"
  shows "keeps P (inspect m k)"
proof (rule keepsI)
  fix s assume "P s"
  then have "P (snd (m s))" by (rule keepsD [OF assms(1)])
  then show "P (snd (inspect m k s))"
    using assms(2) by (auto simp: inspect_def keeps_def split: prod.splits)
qed

lemma keeps_foreach [keeps_rules]:
  "(\<And>x acc. keeps P (body x acc)) \<Longrightarrow> keeps P (foreach xs acc body)"
proof (induction xs arbitrary: acc)
  case Nil
  then show ?case by (simp add: keeps_rules)
next
  case (Cons x xs)
  then show ?case by (simp add: keeps_rules)
qed

lemma keeps_if [keeps_rules]:
  "keeps P m \<Longrightarrow> keeps P n \<Longrightarrow> keeps P (if b then m else n)"
  by simp

lemma keeps_conj: "keeps P m \<Longrightarrow> keeps Q m \<Longrightarrow> keeps (\<lambda>s. P s \<and> Q s) m"
  by (simp add: keeps_def)

subsection \<open>Results\<close>

text \<open>Partial correctness of the successful runs: a run from a state with \<open>P\<close> that returns \<open>x\<close>
  ends in a state with \<open>Q x\<close>.\<close>

definition ensures :: "('s \<Rightarrow> bool) \<Rightarrow> ('s, 'a) proc \<Rightarrow> ('a \<Rightarrow> 's \<Rightarrow> bool) \<Rightarrow> bool" where
  "ensures P m Q \<longleftrightarrow> (\<forall>s x t. P s \<longrightarrow> m s = (Inr x, t) \<longrightarrow> Q x t)"

lemma ensuresI: "(\<And>s x t. P s \<Longrightarrow> m s = (Inr x, t) \<Longrightarrow> Q x t) \<Longrightarrow> ensures P m Q"
  by (auto simp: ensures_def)

lemma ensuresD: "ensures P m Q \<Longrightarrow> m s = (Inr x, t) \<Longrightarrow> P s \<Longrightarrow> Q x t"
  by (auto simp: ensures_def)

lemma ensures_weaken: "ensures P' m Q' \<Longrightarrow> (\<And>s. P s \<Longrightarrow> P' s) \<Longrightarrow> (\<And>x t. Q' x t \<Longrightarrow> Q x t) \<Longrightarrow> ensures P m Q"
  unfolding ensures_def by metis

lemma ensures_ok: "(\<And>s. P s \<Longrightarrow> Q x s) \<Longrightarrow> ensures P (return_ok x) Q"
  by (auto simp: ensures_def)

lemma ensures_err [ensures_rules]: "ensures P (return_err e) Q" "ensures P (Pair (Inl e)) Q"
  by (auto simp: ensures_def)

lemma ensures_lift: "(\<And>s x. P s \<Longrightarrow> r = Inr x \<Longrightarrow> Q x s) \<Longrightarrow> ensures P (lift_res r) Q"
  by (auto simp: ensures_def)

lemma ensures_attempt:
  "ensures P m R \<Longrightarrow> (\<And>x. ensures (R x) (k x) Q) \<Longrightarrow> ensures P (attempt m k) Q"
  unfolding ensures_def by (fastforce simp: attempt_eq_Inr)

lemma ensures_if: "(b \<Longrightarrow> ensures P m Q) \<Longrightarrow> (\<not> b \<Longrightarrow> ensures P n Q) \<Longrightarrow> ensures P (if b then m else n) Q"
  by simp

lemma ensures_keeps: "keeps P m \<Longrightarrow> ensures P m (\<lambda>_. P)"
  unfolding ensures_def keeps_def by (metis snd_conv)

lemma ensures_keeps_and: "keeps P m \<Longrightarrow> ensures R m Q \<Longrightarrow> ensures (\<lambda>s. P s \<and> R s) m (\<lambda>x s. P s \<and> Q x s)"
  unfolding ensures_def keeps_def by (metis snd_conv)

lemma ensures_conj: "ensures P m Q \<Longrightarrow> ensures P m Q' \<Longrightarrow> ensures P m (\<lambda>x s. Q x s \<and> Q' x s)"
  by (auto simp: ensures_def)

text \<open>A call whose error is inspected and that keeps the precondition when it fails.\<close>

lemma ensures_inspect:
  assumes "keeps P m" "ensures P m R" "\<And>e. ensures P (k (Inl e)) Q" "\<And>x. ensures (R x) (k (Inr x)) Q"
  shows "ensures P (inspect m k) Q"
proof (rule ensuresI)
  fix s y u assume s: "P s" and run: "inspect m k s = (Inr y, u)"
  obtain r t where m: "m s = (r, t)" by (cases "m s")
  have "P t" using keepsD [OF assms(1) s] m by simp
  then show "Q y u"
    using run m assms(2-4) s by (cases r) (auto simp: inspect_def ensures_def)
qed

text \<open>A loop: the invariant relates the elements done to the accumulator and the state.\<close>

lemma ensures_foreach_aux:
  "(\<And>done x acc. ensures (I done acc) (body x acc) (I (done @ [x]))) \<Longrightarrow>
   ensures (I pre acc) (foreach xs acc body) (I (pre @ xs))"
proof (induction xs arbitrary: pre acc)
  case Nil
  show ?case by (simp add: ensures_def)
next
  case (Cons x xs)
  have "ensures (I (pre @ [x]) acc') (foreach xs acc' body) (I (pre @ x # xs))" for acc'
    using Cons.IH [OF Cons.prems, where pre = "pre @ [x]"] by simp
  then show ?case by (auto intro!: ensures_attempt [OF Cons.prems])
qed

lemma ensures_foreach:
  assumes "\<And>done x acc. ensures (I done acc) (body x acc) (I (done @ [x]))"
  shows "ensures (I [] acc) (foreach xs acc body) (I xs)"
  using ensures_foreach_aux [OF assms, of "[]"] by simp

section \<open>Lists and tables\<close>

text \<open>A table is a list of rows in insertion order; a primary key is a function of the row.\<close>

definition row_find :: "('r \<Rightarrow> bool) \<Rightarrow> 'r list \<Rightarrow> 'r option" where
  "row_find p rows = List.find p rows"

text \<open>\<^verbatim>\<open>UPDATE ... WHERE p\<close>\<close>

definition row_update :: "('r \<Rightarrow> bool) \<Rightarrow> ('r \<Rightarrow> 'r) \<Rightarrow> 'r list \<Rightarrow> 'r list" where
  "row_update p f rows = map (\<lambda>r. if p r then f r else r) rows"

text \<open>\<^verbatim>\<open>DELETE ... WHERE p\<close>\<close>

definition row_delete :: "('r \<Rightarrow> bool) \<Rightarrow> 'r list \<Rightarrow> 'r list" where
  "row_delete p rows = filter (\<lambda>r. \<not> p r) rows"

text \<open>\<^verbatim>\<open>INSERT ... ON CONFLICT (key) DO UPDATE\<close>: the row with the key is replaced by
  \<^term>\<open>f old\<close>, or the new row is appended.\<close>

definition row_upsert :: "('r \<Rightarrow> 'k) \<Rightarrow> ('r \<Rightarrow> 'r) \<Rightarrow> 'r \<Rightarrow> 'r list \<Rightarrow> 'r list" where
  "row_upsert key f r rows =
    (if key r \<in> key ` set rows then row_update (\<lambda>q. key q = key r) f rows else rows @ [r])"

definition distinct_keys :: "('r \<Rightarrow> 'k) \<Rightarrow> 'r list \<Rightarrow> bool" where
  "distinct_keys key rows \<longleftrightarrow> distinct (map key rows)"

lemma row_find_Some: "row_find p rows = Some r \<Longrightarrow> p r \<and> r \<in> set rows"
  by (induction rows) (auto simp: row_find_def split: if_splits)

lemma row_find_None: "row_find p rows = None \<longleftrightarrow> (\<forall>r \<in> set rows. \<not> p r)"
  by (auto simp: row_find_def find_None_iff)

lemma row_find_Nil [simp]: "row_find p [] = None"
  by (simp add: row_find_def)

lemma row_find_Cons [simp]: "row_find p (r # rows) = (if p r then Some r else row_find p rows)"
  by (simp add: row_find_def)

lemma row_find_append: "row_find p (xs @ ys) = (case row_find p xs of None \<Rightarrow> row_find p ys | Some r \<Rightarrow> Some r)"
  by (induction xs) (auto simp: row_find_def)

lemma row_update_Nil [simp]: "row_update p f [] = []"
  by (simp add: row_update_def)

lemma row_update_Cons [simp]:
  "row_update p f (r # rows) = (if p r then f r else r) # row_update p f rows"
  by (simp add: row_update_def)

lemma length_row_update [simp]: "length (row_update p f rows) = length rows"
  by (simp add: row_update_def)

lemma map_row_update:
  "(\<And>r. p r \<Longrightarrow> key (f r) = key r) \<Longrightarrow> map key (row_update p f rows) = map key rows"
  by (induction rows) auto

lemma set_row_update: "set (row_update p f rows) \<subseteq> {r \<in> set rows. \<not> p r} \<union> f ` {r \<in> set rows. p r}"
  by (auto simp: row_update_def)

lemma row_delete_Nil [simp]: "row_delete p [] = []"
  by (simp add: row_delete_def)

lemma set_row_delete [simp]: "set (row_delete p rows) = {r \<in> set rows. \<not> p r}"
  by (auto simp: row_delete_def)

lemma distinct_keys_Nil [simp]: "distinct_keys key []"
  by (simp add: distinct_keys_def)

lemma distinct_keys_delete: "distinct_keys key rows \<Longrightarrow> distinct_keys key (row_delete p rows)"
  by (induction rows) (auto simp: distinct_keys_def row_delete_def)

lemma distinct_keys_update:
  "distinct_keys key rows \<Longrightarrow> (\<And>r. p r \<Longrightarrow> key (f r) = key r) \<Longrightarrow> distinct_keys key (row_update p f rows)"
  by (simp add: distinct_keys_def map_row_update)

lemma distinct_keys_snoc:
  "distinct_keys key rows \<Longrightarrow> key r \<notin> key ` set rows \<Longrightarrow> distinct_keys key (rows @ [r])"
  by (auto simp: distinct_keys_def)

lemma distinct_keys_upsert:
  assumes "distinct_keys key rows" and "\<And>q. key q = key r \<Longrightarrow> key (f q) = key r"
  shows "distinct_keys key (row_upsert key f r rows)"
  using assms by (auto simp: row_upsert_def intro!: distinct_keys_update distinct_keys_snoc)

lemma distinct_keys_unique:
  "distinct_keys key rows \<Longrightarrow> r \<in> set rows \<Longrightarrow> q \<in> set rows \<Longrightarrow> key r = key q \<Longrightarrow> r = q"
  by (auto simp: distinct_keys_def distinct_map dest: inj_onD)

lemma row_find_update_other:
  assumes "\<And>r. p r \<Longrightarrow> q (f r) = q r" and "row_find q rows = Some r" and "\<not> p r"
  shows "row_find q (row_update p f rows) = Some r"
  using assms by (induction rows) (auto split: if_splits)

lemma row_find_update_hit:
  assumes "\<And>r. p r \<Longrightarrow> q (f r) = q r" and "row_find q rows = Some r" and "p r"
  shows "row_find q (row_update p f rows) = Some (f r)"
  using assms by (induction rows) (auto split: if_splits)

lemma row_find_update_key:
  assumes "\<And>q. key q = k \<Longrightarrow> key (f q) = k"
  shows "row_find (\<lambda>q. key q = j) (row_update (\<lambda>q. key q = k) f rows) =
    (if j = k then map_option f (row_find (\<lambda>q. key q = j) rows) else row_find (\<lambda>q. key q = j) rows)"
  using assms by (induction rows) auto

lemma row_find_upsert:
  assumes "\<And>q. key q = key r \<Longrightarrow> key (f q) = key r"
  shows "row_find (\<lambda>q. key q = k) (row_upsert key f r rows) =
    (if k = key r then (case row_find (\<lambda>q. key q = k) rows of None \<Rightarrow> Some r | Some q \<Rightarrow> Some (f q))
     else row_find (\<lambda>q. key q = k) rows)"
proof (cases "key r \<in> key ` set rows")
  case True
  then have "row_find (\<lambda>q. key q = key r) rows \<noteq> None"
    by (auto simp: row_find_None)
  with True show ?thesis
    using row_find_update_key [of key "key r" f k rows] assms
    by (auto simp: row_upsert_def)
next
  case False
  then have "row_find (\<lambda>q. key q = key r) rows = None"
    unfolding row_find_None by (metis image_eqI)
  with False show ?thesis
    by (auto simp: row_upsert_def row_find_append split: option.splits)
qed

end
