(* ===== verification/Float64.thy ===== *)
theory Float64
  imports Complex_Main Prelude
begin

text \<open>
  IEEE 754 double precision as Go's \<^verbatim>\<open>float64\<close> has it: a value is NaN, an infinity or a finite
  rational number, and every operation rounds the exact rational result to the nearest
  double, ties to even, with gradual underflow (least exponent -1074) and overflow to an
  infinity at 2 ^ 1024.  The two zeros are one value: the program never divides by a counter
  nor asks for a sign bit.  Comparisons are false on NaN, as in Go.
  The lemmas give exactness on integers up to 2 ^ 53, where counters of whole units live.
\<close>

datatype f64 = NaN | PInf | NInf | Fin rat

section \<open>Rounding\<close>

fun bit_len :: "nat \<Rightarrow> nat" where
  "bit_len n = (if n = 0 then 0 else Suc (bit_len (n div 2)))"

declare bit_len.simps [simp del]

definition pow2 :: "int \<Rightarrow> rat" where
  "pow2 e = (if 0 \<le> e then 2 ^ nat e else 1 / 2 ^ nat (- e))"

text \<open>The greatest \<^verbatim>\<open>e\<close> with \<^verbatim>\<open>2 ^ e \<le> x\<close>, for positive \<^verbatim>\<open>x\<close>.\<close>

definition exponent :: "rat \<Rightarrow> int" where
  "exponent x = (case quotient_of x of (n, d) \<Rightarrow>
     let l = int (bit_len (nat n)) - int (bit_len (nat d)) in
     if pow2 l \<le> x then l else l - 1)"

definition round_half_even :: "rat \<Rightarrow> int" where
  "round_half_even y = (let f = \<lfloor>y\<rfloor>; d = y - of_int f in
     if d < 1 / 2 then f else if 1 / 2 < d then f + 1 else if even f then f else f + 1)"

definition ulp_exponent :: "rat \<Rightarrow> int" where
  "ulp_exponent x = max (exponent x - 52) (- 1074)"

definition round_pos :: "rat \<Rightarrow> rat" where
  "round_pos x = of_int (round_half_even (x / pow2 (ulp_exponent x))) * pow2 (ulp_exponent x)"

definition round_f64 :: "rat \<Rightarrow> f64" where
  "round_f64 x =
    (if x = 0 then Fin 0
     else if 0 < x then (let r = round_pos x in if r < 2 ^ 1024 then Fin r else PInf)
     else (let r = round_pos (- x) in if r < 2 ^ 1024 then Fin (- r) else NInf))"

definition f64_of_int :: "int \<Rightarrow> f64" where
  "f64_of_int n = round_f64 (of_int n)"

section \<open>Operations\<close>

fun f64_add :: "f64 \<Rightarrow> f64 \<Rightarrow> f64" where
  "f64_add (Fin x) (Fin y) = round_f64 (x + y)"
| "f64_add NaN b = NaN"
| "f64_add a NaN = NaN"
| "f64_add PInf NInf = NaN"
| "f64_add NInf PInf = NaN"
| "f64_add PInf b = PInf"
| "f64_add NInf b = NInf"
| "f64_add a PInf = PInf"
| "f64_add a NInf = NInf"

fun f64_neg :: "f64 \<Rightarrow> f64" where
  "f64_neg NaN = NaN"
| "f64_neg PInf = NInf"
| "f64_neg NInf = PInf"
| "f64_neg (Fin x) = Fin (- x)"

definition f64_sub :: "f64 \<Rightarrow> f64 \<Rightarrow> f64" where
  "f64_sub a b = f64_add a (f64_neg b)"

fun f64_inf :: "bool \<Rightarrow> f64" where
  "f64_inf positive = (if positive then PInf else NInf)"

fun f64_mul :: "f64 \<Rightarrow> f64 \<Rightarrow> f64" where
  "f64_mul (Fin x) (Fin y) = round_f64 (x * y)"
| "f64_mul NaN b = NaN"
| "f64_mul a NaN = NaN"
| "f64_mul (Fin x) PInf = (if x = 0 then NaN else f64_inf (0 < x))"
| "f64_mul (Fin x) NInf = (if x = 0 then NaN else f64_inf (x < 0))"
| "f64_mul PInf (Fin y) = (if y = 0 then NaN else f64_inf (0 < y))"
| "f64_mul NInf (Fin y) = (if y = 0 then NaN else f64_inf (y < 0))"
| "f64_mul PInf b = b"
| "f64_mul NInf b = f64_neg b"

fun f64_div :: "f64 \<Rightarrow> f64 \<Rightarrow> f64" where
  "f64_div (Fin x) (Fin y) = (if y = 0 then (if x = 0 then NaN else f64_inf (0 < x)) else round_f64 (x / y))"
| "f64_div NaN b = NaN"
| "f64_div a NaN = NaN"
| "f64_div (Fin x) b = Fin 0"
| "f64_div PInf (Fin y) = f64_inf (0 \<le> y)"
| "f64_div NInf (Fin y) = f64_inf (y < 0)"
| "f64_div a b = NaN"

fun f64_less :: "f64 \<Rightarrow> f64 \<Rightarrow> bool" where
  "f64_less (Fin x) (Fin y) = (x < y)"
| "f64_less NaN b = False"
| "f64_less a NaN = False"
| "f64_less NInf b = (b \<noteq> NInf)"
| "f64_less a PInf = (a \<noteq> PInf)"
| "f64_less a b = False"

text \<open>Go's \<^verbatim>\<open>==\<close> on floats.\<close>

definition f64_eq :: "f64 \<Rightarrow> f64 \<Rightarrow> bool" where
  "f64_eq a b = (a \<noteq> NaN \<and> a = b)"

instantiation f64 :: "{zero, one, plus, minus, uminus, times, divide, ord}"
begin

definition zero_f64 :: f64 where "0 = Fin 0"
definition one_f64 :: f64 where "1 = Fin 1"
definition plus_f64 :: "f64 \<Rightarrow> f64 \<Rightarrow> f64" where "a + b = f64_add a b"
definition minus_f64 :: "f64 \<Rightarrow> f64 \<Rightarrow> f64" where "a - b = f64_sub a b"
definition uminus_f64 :: "f64 \<Rightarrow> f64" where "- a = f64_neg a"
definition times_f64 :: "f64 \<Rightarrow> f64 \<Rightarrow> f64" where "a * b = f64_mul a b"
definition divide_f64 :: "f64 \<Rightarrow> f64 \<Rightarrow> f64" where "a div b = f64_div a b"
definition less_f64 :: "f64 \<Rightarrow> f64 \<Rightarrow> bool" where "a < b \<longleftrightarrow> f64_less a b"
definition less_eq_f64 :: "f64 \<Rightarrow> f64 \<Rightarrow> bool" where "a \<le> b \<longleftrightarrow> f64_less a b \<or> f64_eq a b"

instance ..

end

definition f64_IsNaN :: "f64 \<Rightarrow> bool" where
  "f64_IsNaN a = (a = NaN)"

definition f64_IsInf :: "f64 \<Rightarrow> bool" where
  "f64_IsInf a = (a = PInf \<or> a = NInf)"

text \<open>\<^verbatim>\<open>math.Min\<close> and \<^verbatim>\<open>math.Max\<close>: an infinity wins over NaN on its own side.\<close>

definition f64_Min :: "f64 \<Rightarrow> f64 \<Rightarrow> f64" where
  "f64_Min a b = (if a = NInf \<or> b = NInf then NInf else if a = NaN \<or> b = NaN then NaN
     else if a < b then a else b)"

definition f64_Max :: "f64 \<Rightarrow> f64 \<Rightarrow> f64" where
  "f64_Max a b = (if a = PInf \<or> b = PInf then PInf else if a = NaN \<or> b = NaN then NaN
     else if b < a then a else b)"

section \<open>Order\<close>

lemma f64_order [simp]:
  "Fin x < Fin y \<longleftrightarrow> x < y" "Fin x \<le> Fin y \<longleftrightarrow> x \<le> y"
  "\<not> NaN < a" "\<not> a < NaN" "\<not> NaN \<le> a" "\<not> a \<le> NaN"
  "Fin x < PInf" "NInf < Fin x" "NInf < PInf" "\<not> PInf < a" "\<not> a < NInf"
  "Fin x \<le> PInf" "NInf \<le> Fin x" "PInf \<le> PInf" "NInf \<le> NInf" "NInf \<le> PInf"
  "\<not> PInf \<le> Fin x" "\<not> Fin x \<le> NInf" "\<not> PInf \<le> NInf"
proof -
  show "\<not> PInf < a" by (cases a) (auto simp: less_f64_def)
  show "\<not> a < NaN" "\<not> a \<le> NaN" by (cases a; auto simp: less_f64_def less_eq_f64_def f64_eq_def)+
  show "\<not> a < NInf" by (cases a) (auto simp: less_f64_def)
qed (auto simp: less_f64_def less_eq_f64_def f64_eq_def)

lemma f64_less_le_trans: "(a :: f64) < b \<Longrightarrow> b \<le> c \<Longrightarrow> a < c"
  by (cases a; cases b; cases c) auto

lemma f64_le_trans: "(a :: f64) \<le> b \<Longrightarrow> b \<le> c \<Longrightarrow> a \<le> c"
  by (cases a; cases b; cases c) auto

lemma f64_not_less: "a \<noteq> NaN \<Longrightarrow> b \<noteq> NaN \<Longrightarrow> \<not> a < b \<longleftrightarrow> b \<le> (a :: f64)"
  by (cases a; cases b) auto

lemma f64_le_not_nan: "(a :: f64) \<le> b \<Longrightarrow> a \<noteq> NaN \<and> b \<noteq> NaN"
  by (cases a; cases b) auto

lemma f64_less_not_nan: "(a :: f64) < b \<Longrightarrow> a \<noteq> NaN \<and> b \<noteq> NaN"
  by (cases a; cases b) auto

lemma f64_less_asym: "(a :: f64) < b \<Longrightarrow> \<not> b \<le> a"
  by (cases a; cases b) auto

lemma f64_less_imp_le: "(a :: f64) < b \<Longrightarrow> a \<le> b"
  by (cases a; cases b) auto

lemma f64_zero [simp]: "(0 :: f64) = Fin 0" "(1 :: f64) = Fin 1"
  by (simp_all add: zero_f64_def one_f64_def)

lemma f64_ops [simp]:
  "Fin x + Fin y = round_f64 (x + y)" "- Fin x = Fin (- x)"
  "Fin x - Fin y = round_f64 (x - y)" "Fin x * Fin y = round_f64 (x * y)"
  "Fin x div Fin y = (if y = 0 then (if x = 0 then NaN else f64_inf (0 < x)) else round_f64 (x / y))"
  by (simp_all add: plus_f64_def minus_f64_def uminus_f64_def times_f64_def divide_f64_def f64_sub_def)

lemma f64_nan_absorbs [simp]:
  "NaN + a = NaN" "a + NaN = NaN" "NaN - a = NaN" "a - NaN = NaN"
proof -
  show "a + NaN = NaN" "a - NaN = NaN"
    by (cases a; simp add: plus_f64_def minus_f64_def f64_sub_def)+
qed (auto simp: plus_f64_def minus_f64_def f64_sub_def)

section \<open>Exactness\<close>

lemma pow2_pos [simp]: "0 < pow2 e"
  by (simp add: pow2_def)

lemma pow2_Suc: "pow2 (e + 1) = 2 * pow2 e"
proof (cases "0 \<le> e")
  case True
  then show ?thesis by (simp add: pow2_def nat_add_distrib)
next
  case False
  then have "nat (- e) = Suc (nat (- e - 1))" by linarith
  with False show ?thesis by (auto simp: pow2_def)
qed

lemma pow2_add: "pow2 (a + int n) = pow2 a * 2 ^ n"
proof (induction n)
  case (Suc n)
  have "pow2 (a + int (Suc n)) = pow2 ((a + int n) + 1)" by (simp add: algebra_simps)
  also have "\<dots> = 2 * pow2 (a + int n)" by (rule pow2_Suc)
  finally show ?case using Suc by simp
qed simp

lemma pow2_less_imp: "pow2 a < pow2 b \<Longrightarrow> a < b"
proof (rule ccontr)
  assume lt: "pow2 a < pow2 b" and "\<not> a < b"
  then have "a = b + int (nat (a - b))" by simp
  then have "pow2 a = pow2 b * 2 ^ nat (a - b)" using pow2_add [of b "nat (a - b)"] by simp
  moreover have "pow2 b * 1 \<le> pow2 b * 2 ^ nat (a - b)"
    by (rule mult_left_mono) (auto simp: less_imp_le)
  ultimately show False using lt by simp
qed

lemma bit_len_bounds: "0 < n \<Longrightarrow> 2 ^ (bit_len n - 1) \<le> n \<and> n < 2 ^ bit_len n \<and> 0 < bit_len n"
proof (induction n rule: bit_len.induct)
  case (1 n)
  show ?case
  proof (cases "n div 2 = 0")
    case True
    then have "n = 1" using 1 by auto
    then show ?thesis by (simp add: bit_len.simps)
  next
    case False
    with 1 have IH: "2 ^ (bit_len (n div 2) - 1) \<le> n div 2" "n div 2 < 2 ^ bit_len (n div 2)"
        "0 < bit_len (n div 2)" by auto
    obtain k where k: "bit_len (n div 2) = Suc k" using IH(3) by (cases "bit_len (n div 2)") auto
    have "bit_len n = Suc (Suc k)" using 1 k by (simp add: bit_len.simps [of n])
    then show ?thesis using IH k by auto
  qed
qed

lemma exponent_le: "0 < x \<Longrightarrow> pow2 (exponent x) \<le> x"
proof -
  assume pos: "0 < x"
  obtain n d where q: "quotient_of x = (n, d)" by (cases "quotient_of x")
  have d: "0 < d" using q by (rule quotient_of_denom_pos)
  have x: "x = of_int n / of_int d" using q by (rule quotient_of_div)
  have n: "0 < n" using pos x d by (auto simp: zero_less_divide_iff)
  let ?a = "bit_len (nat n)" and ?b = "bit_len (nat d)"
  have nb: "2 ^ (?a - 1) \<le> nat n" "0 < ?a" using bit_len_bounds [of "nat n"] n by auto
  have db: "nat d < 2 ^ ?b" using bit_len_bounds [of "nat d"] d by auto
  have n1: "(2 :: rat) ^ (?a - 1) \<le> of_int n"
  proof -
    have "int (2 ^ (?a - 1)) \<le> n" using nb(1) n by linarith
    then have "(of_int (int (2 ^ (?a - 1))) :: rat) \<le> of_int n" by (simp only: of_int_le_iff)
    then show ?thesis by simp
  qed
  have d1: "of_int d \<le> (2 :: rat) ^ ?b"
  proof -
    have "d \<le> int (2 ^ ?b)" using db d by linarith
    then have "(of_int d :: rat) \<le> of_int (int (2 ^ ?b))" by (simp only: of_int_le_iff)
    then show ?thesis by simp
  qed
  have eq: "pow2 (int ?a - int ?b - 1) * 2 ^ ?b = 2 ^ (?a - 1)"
    using pow2_add [of "int ?a - int ?b - 1" ?b] nb(2) by (simp add: pow2_def nat_diff_distrib)
  have "pow2 (int ?a - int ?b - 1) * of_int d \<le> pow2 (int ?a - int ?b - 1) * 2 ^ ?b"
    using d1 by (intro mult_left_mono) (auto simp: less_imp_le)
  also have "\<dots> = 2 ^ (?a - 1)" by (rule eq)
  also have "\<dots> \<le> of_int n" by (rule n1)
  finally have "pow2 (int ?a - int ?b - 1) * of_int d \<le> of_int n" .
  then have "pow2 (int ?a - int ?b - 1) \<le> x"
    using d by (simp add: x pos_le_divide_eq)
  then show ?thesis by (auto simp: exponent_def q Let_def)
qed

lemma round_half_even_of_int [simp]: "round_half_even (of_int m) = m"
  by (simp add: round_half_even_def)

lemma round_f64_zero [simp]: "round_f64 0 = Fin 0"
  by (simp add: round_f64_def)

lemma round_pos_exact:
  assumes "x = of_int m * pow2 (ulp_exponent x)"
  shows "round_pos x = x"
proof -
  have "pow2 (ulp_exponent x) \<noteq> 0"
    using pow2_pos [of "ulp_exponent x"] by linarith
  then have "x / pow2 (ulp_exponent x) = of_int m"
    by (subst nonzero_divide_eq_eq) (auto intro: assms)
  then have "round_pos x = of_int m * pow2 (ulp_exponent x)"
    by (simp add: round_pos_def)
  then show ?thesis using assms by simp
qed

lemma ulp_exponent_small: "0 < x \<Longrightarrow> x < 2 ^ 53 \<Longrightarrow> ulp_exponent x \<le> 0"
proof -
  assume "0 < x" "x < 2 ^ 53"
  then have "pow2 (exponent x) < pow2 53"
    using exponent_le [of x] by (simp add: pow2_def)
  then have "exponent x < 53" by (rule pow2_less_imp)
  then show ?thesis by (simp add: ulp_exponent_def)
qed

lemma round_pos_int:
  assumes "0 < n" "n < 2 ^ 53"
  shows "round_pos (of_int n) = of_int n"
proof -
  let ?u = "ulp_exponent (of_int n)"
  have "(of_int n :: rat) < of_int (2 ^ 53)" using assms(2) by (simp only: of_int_less_iff)
  then have u: "?u \<le> 0"
    using assms(1) by (intro ulp_exponent_small) (simp_all del: of_int_less_iff)
  have "pow2 ?u * 2 ^ nat (- ?u) = 1"
    using pow2_add [of ?u "nat (- ?u)"] u by (simp add: pow2_def)
  then have "(of_int n :: rat) = of_int (n * 2 ^ nat (- ?u)) * pow2 ?u"
    by (simp add: mult.assoc mult.commute)
  then show ?thesis by (rule round_pos_exact)
qed

lemma round_int [f64_simps]:
  assumes "\<bar>n\<bar> < 2 ^ 53"
  shows "round_f64 (of_int n) = Fin (of_int n)"
proof -
  have lim: "(of_int k :: rat) < 2 ^ 1024" if "k < 2 ^ 53" for k :: int
  proof -
    have "(of_int k :: rat) < of_int (2 ^ 53)" using that by (simp only: of_int_less_iff)
    also have "\<dots> \<le> 2 ^ 1024" by simp
    finally show ?thesis .
  qed
  consider "n = 0" | "0 < n" | "n < 0" by linarith
  then show ?thesis
  proof cases
    case 2
    then show ?thesis using assms round_pos_int [of n] lim [of n] by (simp add: round_f64_def)
  next
    case 3
    then show ?thesis using assms round_pos_int [of "- n"] lim [of "- n"] by (simp add: round_f64_def)
  qed simp
qed

lemma round_numeral [f64_simps]:
  "(numeral k :: int) < 2 ^ 53 \<Longrightarrow> round_f64 (numeral k) = Fin (numeral k)"
  "(numeral k :: int) < 2 ^ 53 \<Longrightarrow> round_f64 (- numeral k) = Fin (- numeral k)"
  "round_f64 1 = Fin 1" "round_f64 (- 1) = Fin (- 1)"
  using round_int [of "numeral k"] round_int [of "- numeral k"] round_int [of 1] round_int [of "- 1"]
  by simp_all

definition whole :: "f64 \<Rightarrow> bool" where
  "whole a \<longleftrightarrow> (\<exists>n :: int. 0 \<le> n \<and> n < 2 ^ 53 \<and> a = Fin (of_int n))"

lemma whole_add:
  assumes "0 \<le> m" "0 \<le> n" "m + n < 2 ^ 53"
  shows "Fin (of_int m) + Fin (of_int n) = Fin (of_int (m + n))"
  using round_int [of "m + n"] assms by simp

end
