(* ===== verification/GoStrings.thy ===== *)
theory GoStrings
  imports Prelude "HOL-Library.Sublist" "HOL-Library.Char_ord" "HOL-Library.List_Lexorder"
begin

text \<open>
  The functions of Go's \<^verbatim>\<open>strings\<close> package the program calls.  A Go string is a sequence of
  bytes, and an Isabelle \<^verbatim>\<open>string\<close> is a list of 8-bit characters, so lengths and indices agree.
  \<^verbatim>\<open>TrimSpace\<close> removes the UTF-8 encodings of every code point of \<^verbatim>\<open>unicode.IsSpace\<close>.
  \<^verbatim>\<open>ToLower\<close> and \<^verbatim>\<open>ToUpper\<close> map the ASCII letters and the two letters outside ASCII whose lower
  case is an ASCII letter; other letters outside ASCII are kept as they are.
  The lemmas show that trimming is idempotent and that a split joins back.
\<close>

section \<open>Bytes\<close>

definition byte :: "nat \<Rightarrow> char" where
  "byte n = char_of n"

abbreviation code :: "char \<Rightarrow> nat" where
  "code c \<equiv> of_char c"

definition is_upper :: "char \<Rightarrow> bool" where
  "is_upper c \<longleftrightarrow> 65 \<le> code c \<and> code c \<le> 90"

definition is_lower :: "char \<Rightarrow> bool" where
  "is_lower c \<longleftrightarrow> 97 \<le> code c \<and> code c \<le> 122"

definition is_digit :: "char \<Rightarrow> bool" where
  "is_digit c \<longleftrightarrow> 48 \<le> code c \<and> code c \<le> 57"

definition is_alnum :: "char \<Rightarrow> bool" where
  "is_alnum c \<longleftrightarrow> is_upper c \<or> is_lower c \<or> is_digit c"

section \<open>Trimming\<close>

text \<open>The UTF-8 encodings of the code points that \<^verbatim>\<open>unicode.IsSpace\<close> accepts.\<close>

definition space_seqs :: "string list" where
  "space_seqs =
    map (map char_of)
     ([[9], [10], [11], [12], [13], [32], [0xC2, 0x85], [0xC2, 0xA0], [0xE1, 0x9A, 0x80],
       [0xE2, 0x80, 0x80], [0xE2, 0x80, 0x81], [0xE2, 0x80, 0x82], [0xE2, 0x80, 0x83],
       [0xE2, 0x80, 0x84], [0xE2, 0x80, 0x85], [0xE2, 0x80, 0x86], [0xE2, 0x80, 0x87],
       [0xE2, 0x80, 0x88], [0xE2, 0x80, 0x89], [0xE2, 0x80, 0x8A], [0xE2, 0x80, 0xA8],
       [0xE2, 0x80, 0xA9], [0xE2, 0x80, 0xAF], [0xE2, 0x81, 0x9F], [0xE3, 0x80, 0x80 :: nat]] :: nat list list)"

lemma space_seqs_nonempty: "\<forall>w \<in> set space_seqs. w \<noteq> []"
  by (simp add: space_seqs_def)

text \<open>\<^verbatim>\<open>strip ws s\<close> removes the words \<^verbatim>\<open>ws\<close> from the front of \<^verbatim>\<open>s\<close> as long as one is there.\<close>

function strip :: "string list \<Rightarrow> string \<Rightarrow> string" where
  "strip ws s =
    (case List.find (\<lambda>w. w \<noteq> [] \<and> prefix w s) ws of
       None \<Rightarrow> s
     | Some w \<Rightarrow> strip ws (drop (length w) s))"
  by pat_completeness auto
termination
proof (relation "measure (length \<circ> snd)", simp)
  fix ws s w
  assume "List.find (\<lambda>w. w \<noteq> [] \<and> prefix w s) ws = Some w"
  then have "w \<noteq> []" "prefix w s"
    by (auto simp: find_Some_iff)
  then show "((ws, drop (length w) s), ws, s) \<in> measure (length \<circ> snd)"
    by (cases s) (auto simp: prefix_def)
qed

declare strip.simps [simp del]

definition TrimSpace :: "string \<Rightarrow> string" where
  "TrimSpace s = rev (strip (map rev space_seqs) (rev (strip space_seqs s)))"

text \<open>No space at either end.\<close>

definition trimmed :: "string \<Rightarrow> bool" where
  "trimmed s \<longleftrightarrow> (\<forall>w \<in> set space_seqs. \<not> prefix w s \<and> \<not> suffix w s)"

lemma strip_no_prefix: "w \<in> set ws \<Longrightarrow> w \<noteq> [] \<Longrightarrow> \<not> prefix w (strip ws s)"
proof (induction ws s rule: strip.induct)
  case (1 ws s)
  show ?case
  proof (cases "List.find (\<lambda>w. w \<noteq> [] \<and> prefix w s) ws")
    case None
    then have "strip ws s = s" by (simp add: strip.simps [of ws s])
    moreover have "\<not> prefix w s" using None 1 by (auto simp: find_None_iff)
    ultimately show ?thesis by simp
  next
    case (Some v)
    then show ?thesis
      using 1 by (simp add: strip.simps [of ws s])
  qed
qed

lemma strip_suffix: "suffix (strip ws s) s"
proof (induction ws s rule: strip.induct)
  case (1 ws s)
  show ?case
  proof (cases "List.find (\<lambda>w. w \<noteq> [] \<and> prefix w s) ws")
    case None
    then show ?thesis by (simp add: strip.simps [of ws s])
  next
    case (Some v)
    then have "suffix (strip ws (drop (length v) s)) (drop (length v) s)"
      by (rule 1)
    also have "suffix (drop (length v) s) s"
      by (rule suffix_drop)
    finally show ?thesis
      using Some by (simp add: strip.simps [of ws s])
  qed
qed

lemma strip_id: "\<forall>w \<in> set ws. \<not> prefix w s \<Longrightarrow> strip ws s = s"
proof -
  assume "\<forall>w \<in> set ws. \<not> prefix w s"
  then have "List.find (\<lambda>w. w \<noteq> [] \<and> prefix w s) ws = None"
    by (auto simp: find_None_iff)
  then show ?thesis by (simp add: strip.simps [of ws s])
qed

lemma TrimSpace_trimmed: "trimmed (TrimSpace s)"
proof -
  let ?l = "strip space_seqs s" and ?r = "strip (map rev space_seqs) (rev (strip space_seqs s))"
  have pre: "prefix (rev ?r) ?l"
    using strip_suffix [of "map rev space_seqs" "rev ?l"] by (simp add: suffix_to_prefix)
  have "\<not> prefix w (rev ?r)" if "w \<in> set space_seqs" for w
    using strip_no_prefix [of w space_seqs s] that space_seqs_nonempty pre
    by (metis prefix_order.trans)
  moreover have "\<not> suffix w (rev ?r)" if "w \<in> set space_seqs" for w
  proof -
    have "rev w \<noteq> []" using that space_seqs_nonempty by auto
    then have "\<not> prefix (rev w) ?r"
      using strip_no_prefix [of "rev w" "map rev space_seqs"] that by auto
    then show ?thesis by (simp add: suffix_to_prefix)
  qed
  ultimately show ?thesis by (simp add: trimmed_def TrimSpace_def)
qed

lemma trimmed_TrimSpace: "trimmed s \<Longrightarrow> TrimSpace s = s"
proof -
  assume t: "trimmed s"
  then have 1: "strip space_seqs s = s"
    by (intro strip_id) (simp add: trimmed_def)
  moreover have "strip (map rev space_seqs) (rev s) = rev s"
    using t by (intro strip_id) (auto simp: trimmed_def suffix_to_prefix)
  ultimately show ?thesis by (simp add: TrimSpace_def)
qed

lemma TrimSpace_idem [simp]: "TrimSpace (TrimSpace s) = TrimSpace s"
  by (simp add: TrimSpace_trimmed trimmed_TrimSpace)

text \<open>A string whose first and last bytes are ASCII letters or digits has no space to trim.\<close>

lemma trimmed_alnum_ends:
  assumes "s \<noteq> []" "\<And>c. c \<in> {hd s, last s} \<Longrightarrow> 33 \<le> code c \<and> code c < 128"
  shows "trimmed s"
proof -
  have word: "w \<noteq> [] \<and> \<not> (33 \<le> code (hd w) \<and> code (hd w) < 128)
      \<and> \<not> (33 \<le> code (last w) \<and> code (last w) < 128)" if "w \<in> set space_seqs" for w
    using that by (auto simp: space_seqs_def)
  have "\<not> prefix w s \<and> \<not> suffix w s" if "w \<in> set space_seqs" for w
  proof
    show "\<not> prefix w s"
    proof
      assume "prefix w s"
      then have "hd w = hd s" using word [OF that] by (auto simp: prefix_def)
      then show False using word [OF that] assms(2) [of "hd s"] by auto
    qed
    show "\<not> suffix w s"
    proof
      assume "suffix w s"
      then have "last w = last s" using word [OF that] by (auto simp: suffix_def)
      then show False using word [OF that] assms(2) [of "last s"] by auto
    qed
  qed
  then show ?thesis by (simp add: trimmed_def)
qed

lemma TrimSpace_Nil [simp]: "TrimSpace [] = []"
  by (rule trimmed_TrimSpace) (auto simp: trimmed_def space_seqs_def)

lemma TrimSpace_plain [go_string_simps]:
  "s \<noteq> [] \<Longrightarrow> 33 \<le> code (hd s) \<Longrightarrow> code (hd s) < 128 \<Longrightarrow> 33 \<le> code (last s) \<Longrightarrow> code (last s) < 128
   \<Longrightarrow> TrimSpace s = s"
  by (rule trimmed_TrimSpace, rule trimmed_alnum_ends) auto

section \<open>Case\<close>

definition lower_byte :: "char \<Rightarrow> char" where
  "lower_byte c = (if is_upper c then char_of (code c + 32) else c)"

definition upper_byte :: "char \<Rightarrow> char" where
  "upper_byte c = (if is_lower c then char_of (code c - 32) else c)"

text \<open>U+212A (the Kelvin sign, bytes E2 84 AA) and U+0130 (bytes C4 B0) are the two code points
  outside ASCII with an ASCII lower case, k and i.\<close>

fun ToLower :: "string \<Rightarrow> string" where
  "ToLower [] = []"
| "ToLower (a # s) =
    (if code a = 0xE2 \<and> prefix (map char_of [0x84, 0xAA :: nat]) s then CHR ''k'' # ToLower (drop 2 s)
     else if code a = 0xC4 \<and> prefix (map char_of [0xB0 :: nat]) s then CHR ''i'' # ToLower (drop 1 s)
     else lower_byte a # ToLower s)"

lemma ToLower_ascii: "\<forall>c \<in> set s. code c < 128 \<Longrightarrow> ToLower s = map lower_byte s"
  by (induction s) auto

section \<open>Runes\<close>

text \<open>The number of bytes of the first UTF-8 sequence; an ill-formed one counts as one byte.\<close>

definition cont_byte :: "string \<Rightarrow> nat \<Rightarrow> nat \<Rightarrow> nat \<Rightarrow> bool" where
  "cont_byte s i lo hi \<longleftrightarrow> i < length s \<and> lo \<le> code (s ! i) \<and> code (s ! i) \<le> hi"

definition rune_len :: "string \<Rightarrow> nat" where
  "rune_len s = (let c = (code (hd s) :: nat) in
     if 0xC2 \<le> c \<and> c \<le> 0xDF \<and> cont_byte s 1 0x80 0xBF then 2
     else if 0xE0 \<le> c \<and> c \<le> 0xEF \<and> cont_byte s 1 (if c = 0xE0 then 0xA0 else 0x80) (if c = 0xED then 0x9F else 0xBF)
        \<and> cont_byte s 2 0x80 0xBF then 3
     else if 0xF0 \<le> c \<and> c \<le> 0xF4 \<and> cont_byte s 1 (if c = 0xF0 then 0x90 else 0x80) (if c = 0xF4 then 0x8F else 0xBF)
        \<and> cont_byte s 2 0x80 0xBF \<and> cont_byte s 3 0x80 0xBF then 4
     else 1)"

lemma rune_len_pos: "0 < rune_len s"
  by (simp add: rune_len_def Let_def)

function RuneCountInString :: "string \<Rightarrow> nat" where
  "RuneCountInString s = (if s = [] then 0 else Suc (RuneCountInString (drop (rune_len s) s)))"
  by pat_completeness auto
termination
  by (relation "measure length") (simp_all add: rune_len_pos)

declare RuneCountInString.simps [simp del]

lemma RuneCount_le: "RuneCountInString s \<le> length s"
proof (induction s rule: RuneCountInString.induct)
  case (1 s)
  show ?case
  proof (cases "s = []")
    case False
    then have "RuneCountInString s = Suc (RuneCountInString (drop (rune_len s) s))"
      by (simp add: RuneCountInString.simps [of s])
    also have "\<dots> \<le> Suc (length (drop (rune_len s) s))" using 1 False by simp
    also have "\<dots> \<le> length s" using rune_len_pos [of s] False by (cases s) auto
    finally show ?thesis .
  qed (simp add: RuneCountInString.simps [of "[]"])
qed

section \<open>Splitting\<close>

fun split_on :: "char \<Rightarrow> string \<Rightarrow> string list" where
  "split_on d [] = [[]]"
| "split_on d (c # s) = (if c = d then [] # split_on d s
     else (case split_on d s of [] \<Rightarrow> [[c]] | p # ps \<Rightarrow> (c # p) # ps))"

text \<open>\<^verbatim>\<open>strings.Split(s, sep)\<close> with a separator of one byte.\<close>

definition Split_str :: "string \<Rightarrow> char \<Rightarrow> string list" where
  "Split_str s d = split_on d s"

fun Join :: "string list \<Rightarrow> string \<Rightarrow> string" where
  "Join [] sep = []"
| "Join [p] sep = p"
| "Join (p # ps) sep = p @ sep @ Join ps sep"

text \<open>\<^verbatim>\<open>strings.FieldsFunc\<close>: the maximal runs of bytes that do not satisfy the predicate.\<close>

fun fields_aux :: "(char \<Rightarrow> bool) \<Rightarrow> string \<Rightarrow> string \<Rightarrow> string list" where
  "fields_aux p acc [] = (if acc = [] then [] else [rev acc])"
| "fields_aux p acc (c # s) =
    (if p c then (if acc = [] then fields_aux p [] s else rev acc # fields_aux p [] s)
     else fields_aux p (c # acc) s)"

definition FieldsFunc :: "(char \<Rightarrow> bool) \<Rightarrow> string \<Rightarrow> string list" where
  "FieldsFunc p s = fields_aux p [] s"

definition HasPrefix :: "string \<Rightarrow> string \<Rightarrow> bool" where
  "HasPrefix s p = prefix p s"

definition TrimPrefix :: "string \<Rightarrow> string \<Rightarrow> string" where
  "TrimPrefix s p = (if prefix p s then drop (length p) s else s)"

definition Contains :: "string \<Rightarrow> string \<Rightarrow> bool" where
  "Contains s t = (\<exists>i \<in> set [0..<Suc (length s)]. prefix t (drop i s))"

lemma split_on_not_Nil [simp]: "split_on d s \<noteq> []"
  by (induction s) (auto split: list.splits)

lemma Split_not_Nil [simp]: "Split_str s d \<noteq> []"
  by (simp add: Split_str_def)

lemma Join_split_on: "Join (split_on d s) [d] = s"
proof (induction s)
  case (Cons c s)
  show ?case
  proof (cases "split_on d s")
    case (Cons p ps)
    then show ?thesis using Cons.IH by (cases ps) auto
  qed simp
qed simp

lemma Join_Split: "Join (Split_str s d) [d] = s"
  by (simp add: Split_str_def Join_split_on)

lemma Split_no_sep: "p \<in> set (Split_str s d) \<Longrightarrow> d \<notin> set p"
proof (induction s arbitrary: p)
  case (Cons c s)
  then show ?case
    by (cases "split_on d s") (auto simp: Split_str_def split: if_splits)
qed (simp add: Split_str_def)

lemma Split_single: "d \<notin> set s \<Longrightarrow> Split_str s d = [s]"
  by (induction s) (auto simp: Split_str_def)

lemma Split_length: "length (Split_str s d) = Suc (length (filter (\<lambda>c. c = d) s))"
  by (induction s) (auto simp: Split_str_def split: list.splits)

lemma Split_single_iff: "length (Split_str s d) = 1 \<longleftrightarrow> d \<notin> set s"
  by (auto simp: Split_length filter_empty_conv)

lemma Split_inj: "Split_str s d = Split_str t d \<Longrightarrow> s = t"
  by (metis Join_Split)

lemma FieldsFunc_nonempty: "f \<in> set (FieldsFunc p s) \<Longrightarrow> f \<noteq> []"
proof -
  have "f \<in> set (fields_aux p acc s) \<Longrightarrow> f \<noteq> []" for acc
    by (induction s arbitrary: acc) (auto split: if_splits)
  then show "f \<in> set (FieldsFunc p s) \<Longrightarrow> f \<noteq> []" by (simp add: FieldsFunc_def)
qed

lemma TrimPrefix_append [simp]: "TrimPrefix (p @ s) p = s"
  by (simp add: TrimPrefix_def)

lemma HasPrefix_TrimPrefix: "HasPrefix s p \<Longrightarrow> p @ TrimPrefix s p = s"
  by (auto simp: HasPrefix_def TrimPrefix_def prefix_def)

end
