(* ===== verification/GoTime.thy ===== *)
theory GoTime
  imports Main Prelude GoStrings
begin

text \<open>
  Go's \<^verbatim>\<open>time\<close> package, as far as the program uses it.  A \<^verbatim>\<open>time.Time\<close> in UTC is the number of
  nanoseconds since 0001-01-01T00:00:00Z, so the zero value (\<^verbatim>\<open>IsZero\<close>) is 0; a
  \<^verbatim>\<open>time.Duration\<close> is a number of nanoseconds.  Calendar dates are the proleptic Gregorian
  dates; \<^verbatim>\<open>AddDate\<close> normalises an overflowing month or day as \<^verbatim>\<open>time.Date\<close> does.
  The lemmas show that the calendar functions are inverse to each other and that a month or a
  year ahead is strictly later.
\<close>

type_synonym time = int
type_synonym duration = int

definition Nanosecond :: duration where "Nanosecond = 1"
definition Millisecond :: duration where "Millisecond = 1000000"
definition Second :: duration where "Second = 1000000000"
definition Minute :: duration where "Minute = 60000000000"
definition Hour :: duration where "Hour = 3600000000000"
definition day_ns :: duration where "day_ns = 86400000000000"

definition zero_time :: time where "zero_time = 0"

definition IsZero :: "time \<Rightarrow> bool" where "IsZero t = (t = zero_time)"

lemmas duration_defs = Nanosecond_def Millisecond_def Second_def Minute_def Hour_def day_ns_def

section \<open>The calendar\<close>

definition is_leap :: "int \<Rightarrow> bool" where
  "is_leap y \<longleftrightarrow> 4 dvd y \<and> (\<not> 100 dvd y \<or> 400 dvd y)"

definition days_before_year :: "int \<Rightarrow> int" where
  "days_before_year y = 365 * (y - 1) + (y - 1) div 4 - (y - 1) div 100 + (y - 1) div 400"

text \<open>Days of a year before the first of month \<^verbatim>\<open>m\<close> (1 to 13).\<close>

definition days_before_month :: "bool \<Rightarrow> int \<Rightarrow> int" where
  "days_before_month leap m =
    [0, 0, 31, 59, 90, 120, 151, 181, 212, 243, 273, 304, 334, 365] ! nat m
    + (if leap \<and> 2 < m then 1 else 0)"

text \<open>Days from 0001-01-01 to the given date; month and day may be out of range.\<close>

definition days_of_date :: "int \<Rightarrow> int \<Rightarrow> int \<Rightarrow> int" where
  "days_of_date y m d =
    (let y' = y + (m - 1) div 12; m' = (m - 1) mod 12 + 1 in
     days_before_year y' + days_before_month (is_leap y') m' + d - 1)"

definition month_of_yday :: "bool \<Rightarrow> int \<Rightarrow> int" where
  "month_of_yday leap n =
    (if n < days_before_month leap 2 then 1 else if n < days_before_month leap 3 then 2
     else if n < days_before_month leap 4 then 3 else if n < days_before_month leap 5 then 4
     else if n < days_before_month leap 6 then 5 else if n < days_before_month leap 7 then 6
     else if n < days_before_month leap 8 then 7 else if n < days_before_month leap 9 then 8
     else if n < days_before_month leap 10 then 9 else if n < days_before_month leap 11 then 10
     else if n < days_before_month leap 12 then 11 else 12)"

text \<open>The year and the day of the year, by 400-, 100-, 4- and 1-year cycles.\<close>

definition year_yday :: "int \<Rightarrow> int \<times> int" where
  "year_yday n =
    (let a = n div 146097; r = n mod 146097;
         c = min 3 (r div 36524); r1 = r - c * 36524;
         q = r1 div 1461; r2 = r1 - q * 1461;
         b = min 3 (r2 div 365)
     in (400 * a + 100 * c + 4 * q + b + 1, r2 - b * 365))"

definition date_of_days :: "int \<Rightarrow> int \<times> int \<times> int" where
  "date_of_days n =
    (case year_yday n of (y, yd) \<Rightarrow>
      let m = month_of_yday (is_leap y) yd in (y, m, yd - days_before_month (is_leap y) m + 1))"

definition day_number :: "time \<Rightarrow> int" where "day_number t = t div day_ns"
definition time_of_day :: "time \<Rightarrow> int" where "time_of_day t = t mod day_ns"

definition AddDate :: "time \<Rightarrow> int \<Rightarrow> int \<Rightarrow> int \<Rightarrow> time" where
  "AddDate t years months days =
    (case date_of_days (day_number t) of (y, m, d) \<Rightarrow>
      days_of_date (y + years) (m + months) (d + days) * day_ns + time_of_day t)"

lemmas calendar_defs = AddDate_def day_number_def time_of_day_def day_ns_def date_of_days_def
  year_yday_def month_of_yday_def is_leap_def days_of_date_def days_before_year_def Let_def

section \<open>Round trip\<close>

lemma days_before_month_simps [simp]:
  "days_before_month l 1 = 0" "days_before_month l 2 = 31"
  "days_before_month l 3 = (if l then 60 else 59)" "days_before_month l 4 = (if l then 91 else 90)"
  "days_before_month l 5 = (if l then 121 else 120)" "days_before_month l 6 = (if l then 152 else 151)"
  "days_before_month l 7 = (if l then 182 else 181)" "days_before_month l 8 = (if l then 213 else 212)"
  "days_before_month l 9 = (if l then 244 else 243)" "days_before_month l 10 = (if l then 274 else 273)"
  "days_before_month l 11 = (if l then 305 else 304)" "days_before_month l 12 = (if l then 335 else 334)"
  "days_before_month l 13 = (if l then 366 else 365)"
  by (simp_all add: days_before_month_def eval_nat_numeral)

lemma month_of_yday_range: "1 \<le> month_of_yday l n \<and> month_of_yday l n \<le> 12"
  by (simp add: month_of_yday_def)

lemma div_unique_int: "0 \<le> r \<Longrightarrow> r < k \<Longrightarrow> x = k * q + r \<Longrightarrow> x div k = (q :: int)"
  by simp

lemma div_pred_step:
  assumes "0 < (k :: int)"
  shows "x div k - (x - 1) div k = (if x mod k = 0 then 1 else 0)"
proof (cases "x mod k = 0")
  case True
  have "(x - 1) div k = x div k - 1"
    using assms True div_mult_mod_eq [of x k] by (intro div_unique_int [where r = "k - 1"]) (auto simp: algebra_simps)
  with True show ?thesis by simp
next
  case False
  have m: "0 \<le> x mod k" "x mod k < k" using assms by auto
  have "(x - 1) div k = x div k"
    using assms False m div_mult_mod_eq [of x k]
    by (intro div_unique_int [where r = "x mod k - 1"]) (auto simp: algebra_simps)
  with False show ?thesis by simp
qed

lemma year_yday_days:
  assumes "year_yday n = (y, yd)"
  shows "days_before_year y + yd = n"
proof -
  define a where "a = n div 146097"
  define r where "r = n mod 146097"
  define c where "c = min 3 (r div 36524)"
  define r1 where "r1 = r - c * 36524"
  define q where "q = r1 div 1461"
  define r2 where "r2 = r1 - q * 1461"
  define b where "b = min 3 (r2 div 365)"
  have n: "n = 146097 * a + r" "0 \<le> r" "r < 146097" by (auto simp: a_def r_def)
  have c: "0 \<le> c" "c \<le> 3" using n by (auto simp: c_def)
  have c1: "c * 36524 \<le> r" "r < 146097 \<longrightarrow> r - c * 36524 \<le> 36524"
    using n(2) by (auto simp: c_def min_def)
  have r1: "0 \<le> r1" "r1 \<le> 36524" using n(3) c1 by (auto simp: r1_def)
  have q: "0 \<le> q" "q \<le> 24" using r1 by (auto simp: q_def)
  have r2: "0 \<le> r2" using r1 by (simp add: r2_def q_def)
  have b: "0 \<le> b" "b \<le> 3" using r2 by (auto simp: b_def)
  have y: "y = 400 * a + 100 * c + 4 * q + b + 1" and yd: "yd = r2 - b * 365"
    using assms unfolding year_yday_def Let_def a_def [symmetric] r_def [symmetric] c_def [symmetric]
      r1_def [symmetric] q_def [symmetric] r2_def [symmetric] b_def [symmetric] by simp_all
  let ?y = "400 * a + 100 * c + 4 * q + b"
  have d4: "?y div 4 = 100 * a + 25 * c + q" using b by (intro div_unique_int [where r = b]) auto
  have d100: "?y div 100 = 4 * a + c" using b q by (intro div_unique_int [where r = "4 * q + b"]) auto
  have d400: "?y div 400 = a" using b q c by (intro div_unique_int [where r = "100 * c + 4 * q + b"]) auto
  have "days_before_year y = 146097 * a + 36524 * c + 1461 * q + 365 * b"
    using d4 d100 d400 by (simp add: days_before_year_def y algebra_simps)
  then show ?thesis using n(1) by (simp add: yd r2_def r1_def algebra_simps)
qed

lemma days_of_date_days: "date_of_days n = (y, m, d) \<Longrightarrow> days_of_date y m d = n"
proof -
  assume a: "date_of_days n = (y, m, d)"
  obtain yd where yd: "year_yday n = (y, yd)" and m: "m = month_of_yday (is_leap y) yd"
    and d: "d = yd - days_before_month (is_leap y) m + 1"
    using a by (cases "year_yday n") (auto simp: date_of_days_def Let_def)
  have "1 \<le> m" "m \<le> 12" using month_of_yday_range by (auto simp: m)
  then have "(m - 1) div 12 = 0" "(m - 1) mod 12 + 1 = m" by auto
  then show ?thesis using year_yday_days [OF yd] d by (simp add: days_of_date_def)
qed

lemma date_month_range: "date_of_days n = (y, m, d) \<Longrightarrow> 1 \<le> m \<and> m \<le> 12"
  using month_of_yday_range by (auto simp: date_of_days_def Let_def split: prod.splits)

lemma AddDate_id [simp]: "AddDate t 0 0 0 = t"
proof -
  obtain y m d where ymd: "date_of_days (day_number t) = (y, m, d)" by (cases "date_of_days (day_number t)") auto
  then have "days_of_date y m d = day_number t" by (rule days_of_date_days)
  then show ?thesis using ymd by (simp add: AddDate_def day_number_def time_of_day_def)
qed

lemma AddDate_days [time_simps]: "AddDate t 0 0 k = t + k * day_ns"
proof -
  obtain y m d where ymd: "date_of_days (day_number t) = (y, m, d)" by (cases "date_of_days (day_number t)") auto
  then have "days_of_date y m d = day_number t" by (rule days_of_date_days)
  then have "days_of_date y m (d + k) = day_number t + k" by (simp add: days_of_date_def Let_def)
  then show ?thesis
    using ymd by (simp add: AddDate_def day_number_def time_of_day_def algebra_simps)
qed

section \<open>Steps forward\<close>

definition month_length :: "int \<Rightarrow> int \<Rightarrow> int" where
  "month_length y m = days_of_date y (m + 1) 1 - days_of_date y m 1"

lemma leap_day_count:
  "(p400 \<longrightarrow> p100) \<Longrightarrow> (p100 \<longrightarrow> p4) \<Longrightarrow>
   365 + (if p4 then 1 else 0) - (if p100 then 1 else 0) + (if p400 then 1 else 0)
   = (if p4 \<and> (\<not> p100 \<or> p400) then 366 else (365 :: int))"
  by (cases p4; cases p100; cases p400) simp_all

lemma days_before_year_Suc: "days_before_year (y + 1) - days_before_year y = (if is_leap y then 366 else 365)"
proof -
  have leap: "is_leap y \<longleftrightarrow> y mod 4 = 0 \<and> (y mod 100 \<noteq> 0 \<or> y mod 400 = 0)"
    unfolding is_leap_def dvd_eq_mod_eq_0 ..
  have "400 dvd y \<Longrightarrow> 100 dvd y" by (rule dvd_trans [of 100 400 y]) simp_all
  moreover have "100 dvd y \<Longrightarrow> 4 dvd y" by (rule dvd_trans [of 4 100 y]) simp_all
  ultimately have imp: "y mod 400 = 0 \<longrightarrow> y mod 100 = 0" "y mod 100 = 0 \<longrightarrow> y mod 4 = 0"
    by (simp_all add: mod_eq_0_iff_dvd)
  have "days_before_year (y + 1) - days_before_year y =
      365 + (y div 4 - (y - 1) div 4) - (y div 100 - (y - 1) div 100) + (y div 400 - (y - 1) div 400)"
    by (simp add: days_before_year_def algebra_simps)
  also have "\<dots> = 365 + (if y mod 4 = 0 then 1 else 0) - (if y mod 100 = 0 then 1 else 0)
      + (if y mod 400 = 0 then 1 else 0)"
    by (simp only: div_pred_step zero_less_numeral)
  also have "\<dots> = (if is_leap y then 366 else 365)"
    unfolding leap by (rule leap_day_count [OF imp])
  finally show ?thesis .
qed

lemma month_cases:
  assumes "1 \<le> m" "m \<le> (12 :: int)"
  obtains "m = 1" | "m = 2" | "m = 3" | "m = 4" | "m = 5" | "m = 6" | "m = 7" | "m = 8" | "m = 9"
    | "m = 10" | "m = 11" | "m = 12"
proof -
  have "m = 1 \<or> m = 2 \<or> m = 3 \<or> m = 4 \<or> m = 5 \<or> m = 6 \<or> m = 7 \<or> m = 8 \<or> m = 9
    \<or> m = 10 \<or> m = 11 \<or> m = 12"
    using assms by presburger
  then show thesis using that by blast
qed

lemma month_length_bounds:
  assumes "1 \<le> m" "m \<le> 12"
  shows "28 \<le> month_length y m \<and> month_length y m \<le> 31"
  using assms
proof (cases rule: month_cases)
  case 12
  then show ?thesis using days_before_year_Suc [of y]
    by (auto simp: month_length_def days_of_date_def Let_def)
qed (auto simp: month_length_def days_of_date_def Let_def)

lemma AddDate_month:
  assumes "date_of_days (day_number t) = (y, m, d)"
  shows "AddDate t 0 1 0 = t + month_length y m * day_ns"
proof -
  have "days_of_date y m d = day_number t" using assms by (rule days_of_date_days)
  moreover have "days_of_date y (m + 1) d - days_of_date y m d = month_length y m"
    by (simp add: month_length_def days_of_date_def Let_def)
  ultimately have "days_of_date y (m + 1) d = day_number t + month_length y m" by simp
  then show ?thesis using assms
    by (simp add: AddDate_def day_number_def time_of_day_def algebra_simps)
qed

lemma AddDate_month_bounds: "t + 28 * day_ns \<le> AddDate t 0 1 0 \<and> AddDate t 0 1 0 \<le> t + 31 * day_ns"
proof -
  obtain y m d where ymd: "date_of_days (day_number t) = (y, m, d)" by (cases "date_of_days (day_number t)") auto
  then have "28 \<le> month_length y m \<and> month_length y m \<le> 31"
    using month_length_bounds date_month_range by blast
  then show ?thesis by (simp add: AddDate_month [OF ymd] day_ns_def)
qed

lemma AddDate_year_bounds: "t + 365 * day_ns \<le> AddDate t 1 0 0 \<and> AddDate t 1 0 0 \<le> t + 366 * day_ns"
proof -
  obtain y m d where ymd: "date_of_days (day_number t) = (y, m, d)" by (cases "date_of_days (day_number t)") auto
  then have "days_of_date y m d = day_number t" by (rule days_of_date_days)
  moreover have m: "(m - 1) div 12 = 0" "(m - 1) mod 12 + 1 = m" "1 \<le> m" "m \<le> 12"
    using date_month_range [OF ymd] by auto
  moreover have "365 \<le> days_of_date (y + 1) m d - days_of_date y m d"
    "days_of_date (y + 1) m d - days_of_date y m d \<le> 366"
  proof -
    let ?dm = "\<lambda>l. days_before_month l m"
    have leap2: "\<not> (is_leap y \<and> is_leap (y + 1))" unfolding is_leap_def by presburger
    have dm: "?dm True - ?dm False = (if 2 < m then 1 else 0)"
      by (simp add: days_before_month_def)
    have "days_of_date (y + 1) m d - days_of_date y m d =
        (if is_leap y then 366 else 365) + ?dm (is_leap (y + 1)) - ?dm (is_leap y)"
      using m days_before_year_Suc [of y] by (simp add: days_of_date_def Let_def)
    then show "365 \<le> days_of_date (y + 1) m d - days_of_date y m d"
      "days_of_date (y + 1) m d - days_of_date y m d \<le> 366"
      using leap2 dm by (cases "is_leap y"; cases "is_leap (y + 1)"; auto split: if_splits)+
  qed
  ultimately have "365 \<le> days_of_date (y + 1) m d - day_number t" "days_of_date (y + 1) m d - day_number t \<le> 366"
    by simp_all
  moreover have "AddDate t 1 0 0 = t + (days_of_date (y + 1) m d - day_number t) * day_ns"
    using ymd by (simp add: AddDate_def day_number_def time_of_day_def algebra_simps)
  ultimately show ?thesis by (simp add: day_ns_def)
qed

text \<open>\<^verbatim>\<open>t.Sub(u)\<close> saturates at the ends of the 64-bit duration.\<close>

definition time_Sub :: "time \<Rightarrow> time \<Rightarrow> duration" where
  "time_Sub t u = max (- (2 ^ 63)) (min (2 ^ 63 - 1) (t - u))"

text \<open>\<^verbatim>\<open>t.Truncate(d)\<close> rounds down to a multiple of \<^verbatim>\<open>d\<close> since the zero time.\<close>

definition time_Truncate :: "time \<Rightarrow> duration \<Rightarrow> time" where
  "time_Truncate t d = (if d \<le> 0 then t else t - t mod d)"

section \<open>Text\<close>

fun digits :: "nat \<Rightarrow> nat \<Rightarrow> string" where
  "digits 0 n = []"
| "digits (Suc w) n = digits w (n div 10) @ [char_of (48 + n mod 10)]"

fun decimal :: "nat \<Rightarrow> string" where
  "decimal n = (if n < 10 then [char_of (48 + n)] else decimal (n div 10) @ [char_of (48 + n mod 10)])"

declare decimal.simps [simp del]

definition pad4 :: "int \<Rightarrow> string" where
  "pad4 y = (if y < 10000 then digits 4 (nat y) else decimal (nat y))"

fun drop_zeros :: "string \<Rightarrow> string" where
  "drop_zeros [] = []"
| "drop_zeros (c # s) = (if c = CHR ''0'' then drop_zeros s else c # s)"

text \<open>\<^verbatim>\<open>t.UTC().Format(time.RFC3339Nano)\<close> for years from 0: the fraction has no trailing zeros
  and is absent when it is zero.\<close>

definition format_rfc3339nano :: "time \<Rightarrow> string" where
  "format_rfc3339nano t =
    (case date_of_days (day_number t) of (y, m, d) \<Rightarrow>
     let s = nat (time_of_day t div Second); f = nat (time_of_day t mod Second);
         frac = rev (drop_zeros (rev (digits 9 f)))
     in pad4 y @ ''-'' @ digits 2 (nat m) @ ''-'' @ digits 2 (nat d) @ ''T'' @
        digits 2 (s div 3600) @ '':'' @ digits 2 (s div 60 mod 60) @ '':'' @ digits 2 (s mod 60) @
        (if frac = [] then [] else ''.'' @ frac) @ ''Z'')"

text \<open>\<^verbatim>\<open>MarshalJSON\<close> refuses a year outside 0 to 9999.\<close>

definition json_time_ok :: "time \<Rightarrow> bool" where
  "json_time_ok t = (case date_of_days (day_number t) of (y, _) \<Rightarrow> 0 \<le> y \<and> y \<le> 9999)"

text \<open>The byte order of two formatted times, as \<^verbatim>\<open><\<close> has it on SQLite text columns and on Go strings.\<close>

definition time_text_less :: "time \<Rightarrow> time \<Rightarrow> bool" where
  "time_text_less t u \<longleftrightarrow> format_rfc3339nano t < format_rfc3339nano u"

definition time_text_le :: "time \<Rightarrow> time \<Rightarrow> bool" where
  "time_text_le t u \<longleftrightarrow> format_rfc3339nano t \<le> format_rfc3339nano u"

lemma time_text_not_less: "\<not> time_text_less t u \<longleftrightarrow> time_text_le u t"
  by (simp add: time_text_less_def time_text_le_def not_less)

lemma time_text_le_refl [simp]: "time_text_le t t"
  by (simp add: time_text_le_def)

lemma time_text_less_irrefl [simp]: "\<not> time_text_less t t"
  by (simp add: time_text_less_def)

lemma time_text_trans:
  "time_text_less t u \<Longrightarrow> time_text_less u v \<Longrightarrow> time_text_less t v"
  "time_text_le t u \<Longrightarrow> time_text_less u v \<Longrightarrow> time_text_less t v"
  "time_text_less t u \<Longrightarrow> time_text_le u v \<Longrightarrow> time_text_less t v"
  "time_text_le t u \<Longrightarrow> time_text_le u v \<Longrightarrow> time_text_le t v"
  by (auto simp: time_text_less_def time_text_le_def)

subsection \<open>Where the text order is not the order of time\<close>

text \<open>Within a second the fraction decides, and its \<^verbatim>\<open>.\<close> comes before the \<^verbatim>\<open>Z\<close> that ends the text of the
  whole second: the whole second is the greatest text of its second.\<close>

lemma append_less_same: "p @ x < p @ y \<longleftrightarrow> x < (y :: string)"
  by (induction p) auto

lemma drop_zeros_none: "drop_zeros s = [] \<longleftrightarrow> (\<forall>c \<in> set s. c = CHR ''0'')"
  by (induction s) auto

lemma digits_zero: "\<forall>c \<in> set (digits k n). c = CHR ''0'' \<Longrightarrow> n mod 10 ^ k = 0"
proof (induction k arbitrary: n)
  case 0
  then show ?case by simp
next
  case (Suc k)
  have "n div 10 mod 10 ^ k = 0" using Suc by simp
  moreover have "n mod 10 = 0"
  proof -
    have "char_of (48 + n mod 10) = CHR ''0''" using Suc.prems by simp
    then have "of_char (char_of (48 + n mod 10)) = (of_char CHR ''0'' :: nat)" by simp
    then show ?thesis by (simp del: char_of_nat)
  qed
  ultimately show ?case by (simp add: mod_mult2_eq)
qed

lemma in_seconds:
  "day_number t = t div Second div 86400" "time_of_day t div Second = t div Second mod 86400"
  "time_of_day t mod Second = t mod Second"
proof -
  have day: "day_ns = Second * 86400" by (simp add: day_ns_def Second_def)
  have pos: "0 < Second" by (simp add: Second_def)
  show "day_number t = t div Second div 86400"
    by (simp add: day_number_def day zdiv_zmult2_eq)
  have tod: "time_of_day t = Second * (t div Second mod 86400) + t mod Second"
    using zmod_zmult2_eq [of 86400 t Second] by (simp add: time_of_day_def day)
  show "time_of_day t div Second = t div Second mod 86400" "time_of_day t mod Second = t mod Second"
    unfolding tod using pos by simp_all
qed

lemma whole_second:
  assumes "t0 mod Second = 0" "t0 < t" "t < t0 + Second"
  shows "t div Second = t0 div Second" "0 < t mod Second" "t mod Second < Second"
proof -
  obtain q where "t0 = Second * q" using assms(1) by auto
  moreover define r where "r = t - t0"
  ultimately have "t = Second * q + r" "0 < r" "r < Second" "t0 = Second * q" using assms by auto
  then show "t div Second = t0 div Second" "0 < t mod Second" "t mod Second < Second" by simp_all
qed

lemma whole_second_text_later:
  assumes "t0 mod Second = 0" "t0 < t" "t < t0 + Second"
  shows "time_text_less t t0"
proof -
  note sec = whole_second [OF assms]
  let ?f = "nat (time_of_day t mod Second)"
  have "0 < ?f" "?f < 10 ^ 9" using sec(2,3) in_seconds(3) [of t] by (auto simp: Second_def)
  then have some: "rev (drop_zeros (rev (digits 9 ?f))) \<noteq> []"
    using digits_zero [of 9 ?f] by (auto simp: drop_zeros_none)
  have none: "rev (drop_zeros (rev (digits 9 (nat (time_of_day t0 mod Second))))) = []"
    unfolding in_seconds(3) assms(1) by code_simp
  obtain y m d where ymd: "date_of_days (t0 div Second div 86400) = (y, m, d)" by (cases "date_of_days (t0 div Second div 86400)")
  show ?thesis
    unfolding time_text_less_def format_rfc3339nano_def in_seconds(1,2) sec(1) ymd Let_def case_prod_conv none
    using some by (simp add: append_less_same)
qed

end
