(* ===== verification/GoAny.thy ===== *)
theory GoAny
  imports Float64 GoTime "HOL-Library.Finite_Map"
begin

text \<open>
  Values of Go's type \<^verbatim>\<open>any\<close> as they reach event metadata and filters: what
  \<^verbatim>\<open>encoding/json\<close> and the API adapters produce, and the times that filters compare.
  A \<^verbatim>\<open>map[string]any\<close> is a finite map; a nil map reads like the empty one.  Values are
  immutable here: the program copies every nested map (\<^verbatim>\<open>cloneMetadata\<close>) before it writes.
\<close>

datatype int_kind = KInt | KInt8 | KInt16 | KInt32 | KInt64 | KUint | KUint8 | KUint16 | KUint32 | KUint64

datatype any =
    ANil
  | AString string
  | ABool bool
  | AFloat f64
  | AFloat32 f64
  | AInt int_kind int
  | ATime time
  | ASlice "any list"
  | AMap "(string, any) fmap"

type_synonym metadata = "(string, any) fmap"

fun as_map :: "any \<Rightarrow> metadata option" where
  "as_map (AMap m) = Some m"
| "as_map v = None"

lemma as_map_Some [simp]: "as_map v = Some m \<longleftrightarrow> v = AMap m"
  by (cases v) auto

text \<open>Follow a path of keys through nested maps.\<close>

fun path_lookup :: "any \<Rightarrow> string list \<Rightarrow> any option" where
  "path_lookup v [] = Some v"
| "path_lookup (AMap m) (k # ks) = (case fmlookup m k of None \<Rightarrow> None | Some v \<Rightarrow> path_lookup v ks)"
| "path_lookup v (k # ks) = None"

lemma path_lookup_append:
  "path_lookup v (xs @ ys) = (case path_lookup v xs of None \<Rightarrow> None | Some w \<Rightarrow> path_lookup w ys)"
  by (induction v xs rule: path_lookup.induct) (auto split: option.splits)

lemma path_lookup_Cons_Some:
  "path_lookup v (k # ks) = Some w \<longleftrightarrow>
    (\<exists>m u. v = AMap m \<and> fmlookup m k = Some u \<and> path_lookup u ks = Some w)"
  by (cases v) (auto split: option.splits)

section \<open>JSON\<close>

text \<open>\<^verbatim>\<open>json.Marshal\<close> refuses a float that is not finite; reading the text back turns every number
  into a float64 and a time into its text.\<close>

definition finite_f64 :: "f64 \<Rightarrow> bool" where
  "finite_f64 x \<longleftrightarrow> \<not> f64_IsNaN x \<and> \<not> f64_IsInf x"

primrec json_ok :: "any \<Rightarrow> bool" where
  "json_ok ANil = True"
| "json_ok (AString s) = True"
| "json_ok (ABool b) = True"
| "json_ok (AFloat x) = finite_f64 x"
| "json_ok (AFloat32 x) = finite_f64 x"
| "json_ok (AInt k n) = True"
| "json_ok (ATime t) = True"
| "json_ok (ASlice vs) = list_all id (map json_ok vs)"
| "json_ok (AMap m) = fmpred (\<lambda>_ b. b) (fmmap json_ok m)"

primrec json_norm :: "any \<Rightarrow> any" where
  "json_norm ANil = ANil"
| "json_norm (AString s) = AString s"
| "json_norm (ABool b) = ABool b"
| "json_norm (AFloat x) = AFloat x"
| "json_norm (AFloat32 x) = AFloat x"
| "json_norm (AInt k n) = AFloat (f64_of_int n)"
| "json_norm (ATime t) = AString (format_rfc3339nano t)"
| "json_norm (ASlice vs) = ASlice (map json_norm vs)"
| "json_norm (AMap m) = AMap (fmmap json_norm m)"

definition json_roundtrip :: "metadata \<Rightarrow> go_error + metadata" where
  "json_roundtrip m =
    (if fmpred (\<lambda>_ v. json_ok v) m then Inr (fmmap json_norm m)
     else Inl (NewError ''json: unsupported value'' []))"

lemma json_norm_idem: "json_norm (json_norm v) = json_norm v"
proof (induction v)
  case (AMap m)
  have "fmmap (\<lambda>v. json_norm (json_norm v)) m = fmmap json_norm m"
  proof (rule fmap_ext)
    fix k
    show "fmlookup (fmmap (\<lambda>v. json_norm (json_norm v)) m) k = fmlookup (fmmap json_norm m) k"
      using AMap.IH by (cases "fmlookup m k") (auto intro: fmran'I)
  qed
  then show ?case by (simp add: fmap.map_comp o_def)
qed auto

end
