(* ===== verification/Meter.thy ===== *)
theory Meter
  imports GoAny GoStrings
begin

text \<open>
  The meter domain: \<^verbatim>\<open>src/internal/metering/domain/meter/dimension.go\<close> and \<^verbatim>\<open>meter.go\<close>.
  Dimensions and meters are normalised by their constructors; \<^verbatim>\<open>NormalizeMetadata\<close> checks the
  metadata of an event against the dimensions and rewrites a dotted key into nested maps.
  The lemmas give the invariant of a meter (\<^verbatim>\<open>valid_meter\<close>), what a normalised metadata map
  holds at the path of each dimension, and the case in which a later dimension overwrites
  an earlier one.
\<close>

section \<open>Types\<close>

datatype Aggregation =
    AggregationSum | AggregationCount | AggregationAverage | AggregationMinimum
  | AggregationMaximum | AggregationFirst | AggregationLast | AggregationRate
  | AggregationOther string

datatype MetadataType = MetadataString | MetadataNumber | MetadataBoolean | MetadataTypeOther string

definition DefaultEventRetentionDays :: int where "DefaultEventRetentionDays = 90"
definition MaxEventRetentionDays :: int where "MaxEventRetentionDays = 3650"

record Dimension =
  dim_name :: string
  dim_displayName :: string
  dim_description :: string
  dim_type :: MetadataType
  dim_required :: bool
  dim_deprecated :: bool

record Meter =
  mtr_id :: string
  mtr_name :: string
  mtr_description :: string
  mtr_unit :: string
  mtr_aggregation :: Aggregation
  mtr_dimensionTypes :: "(string, MetadataType) fmap"
  mtr_dimensions :: "Dimension list"
  mtr_eventRetentionDays :: int
  mtr_createdAt :: time

record MeterQuery =
  mq_id :: string
  mq_name :: string
  mq_cursor :: string
  mq_limit :: int

section \<open>Dimensions\<close>

definition dimension_byte :: "char \<Rightarrow> bool" where
  "dimension_byte c \<longleftrightarrow> is_alnum c \<or> c = CHR ''_'' \<or> c = CHR ''-''"

text \<open>\<^verbatim>\<open>^[A-Za-z0-9_-]+(\.[A-Za-z0-9_-]+)*$\<close>\<close>

definition dimensionNamePattern :: "string \<Rightarrow> bool" where
  "dimensionNamePattern s \<longleftrightarrow>
    list_all (\<lambda>p. p \<noteq> [] \<and> list_all dimension_byte p) (Split_str s (CHR ''.''))"

definition humanizeDimensionName :: "string \<Rightarrow> string" where
  "humanizeDimensionName name =
    (let parts = FieldsFunc (\<lambda>r. r = CHR ''.'' \<or> r = CHR ''_'' \<or> r = CHR ''-'') name in
     Join (map (\<lambda>part. case part of [] \<Rightarrow> [] | c # rest \<Rightarrow> upper_byte c # rest) parts) '' '')"

definition IsReservedDimensionName :: "string \<Rightarrow> bool" where
  "IsReservedDimensionName name \<longleftrightarrow> TrimSpace name = ''subject''"

fun isSupportedMetadataType :: "MetadataType \<Rightarrow> bool" where
  "isSupportedMetadataType (MetadataTypeOther s) = False"
| "isSupportedMetadataType t = True"

definition NewDimension ::
  "string \<Rightarrow> MetadataType \<Rightarrow> string \<Rightarrow> string \<Rightarrow> bool \<Rightarrow> bool list \<Rightarrow> go_error + Dimension" where
  "NewDimension name0 metadataType displayName0 description0 required deprecated =
    (let name = TrimSpace name0;
         displayName = TrimSpace displayName0;
         description = TrimSpace description0;
         isDeprecated = (case deprecated of [] \<Rightarrow> False | d # _ \<Rightarrow> d)
     in
     reject_if (name = []) (invalid '': dimension name is required'') (
     reject_if (\<not> dimensionNamePattern name)
       (Errorf ErrInvalidInput '': dimension name %q must use letters, numbers, underscores, hyphens, or dots'' [SArg name]) (
     reject_if (IsReservedDimensionName name)
       (Errorf ErrInvalidInput '': dimension name %q is reserved'' [SArg name]) (
     reject_if (\<not> isSupportedMetadataType metadataType)
       (Errorf ErrInvalidInput '': unsupported dimension type'' []) (
     Inr \<lparr>dim_name = name,
          dim_displayName = (if displayName = [] then humanizeDimensionName name else displayName),
          dim_description = description, dim_type = metadataType,
          dim_required = required, dim_deprecated = isDeprecated\<rparr>)))))"

definition RequiresValue :: "Dimension \<Rightarrow> bool" where
  "RequiresValue d \<longleftrightarrow> dim_required d \<and> \<not> dim_deprecated d"

text \<open>The loop of \<^verbatim>\<open>normalizeDimensions\<close>; the accumulator holds the normalised dimensions and the
  schema, whose keys are the names seen.\<close>

definition normalize_dimension_step ::
  "Dimension \<Rightarrow> Dimension list \<times> (string, MetadataType) fmap \<Rightarrow>
   go_error + (Dimension list \<times> (string, MetadataType) fmap)" where
  "normalize_dimension_step dimension acc =
    (case acc of (normalized, schema) \<Rightarrow>
     try_res (NewDimension (dim_name dimension) (dim_type dimension) (dim_displayName dimension)
        (dim_description dimension) (dim_required dimension) [dim_deprecated dimension]) (\<lambda>d.
     reject_if (fmlookup schema (dim_name d) \<noteq> None)
       (Errorf ErrInvalidInput '': dimension %q is already defined'' [SArg (dim_name d)])
       (Inr (normalized @ [d], fmupd (dim_name d) (dim_type d) schema))))"

definition normalizeDimensions ::
  "Dimension list \<Rightarrow> go_error + (Dimension list \<times> (string, MetadataType) fmap)" where
  "normalizeDimensions dimensions = fold_res normalize_dimension_step dimensions ([], fmempty)"

section \<open>Meters\<close>

fun IsSupportedAggregation :: "Aggregation \<Rightarrow> bool" where
  "IsSupportedAggregation (AggregationOther s) = False"
| "IsSupportedAggregation a = True"

definition normalizeEventRetentionDays :: "int \<Rightarrow> go_error + int" where
  "normalizeEventRetentionDays days =
    (if days = 0 then Inr DefaultEventRetentionDays
     else reject_if (days < 0) (invalid '': event retention days must be greater than zero'') (
     reject_if (MaxEventRetentionDays < days)
       (Errorf ErrInvalidInput '': event retention days cannot exceed %d'' [IArg MaxEventRetentionDays])
     (Inr days)))"

definition NewWithDimensions ::
  "string \<Rightarrow> string \<Rightarrow> string \<Rightarrow> string \<Rightarrow> Aggregation \<Rightarrow> Dimension list \<Rightarrow> int \<Rightarrow> time \<Rightarrow> go_error + Meter" where
  "NewWithDimensions id0 name0 description0 unit0 aggregation0 dimensions0 days0 createdAt =
    (let name = TrimSpace name0; unit = TrimSpace unit0; description = TrimSpace description0;
         aggregation = (if aggregation0 = AggregationOther [] then AggregationSum else aggregation0)
     in
     reject_if (TrimSpace id0 = []) (invalid '': meter id is required'') (
     reject_if (name = []) (invalid '': meter name is required'') (
     reject_if (unit = []) (invalid '': meter unit is required'') (
     reject_if (\<not> IsSupportedAggregation aggregation) (invalid '': unsupported aggregation'') (
     try_res (normalizeDimensions dimensions0) (\<lambda>(dimensions, dimensionTypes).
     try_res (normalizeEventRetentionDays days0) (\<lambda>days.
     reject_if (IsZero createdAt) (invalid '': created at is required'') (
     Inr \<lparr>mtr_id = id0, mtr_name = name, mtr_description = description, mtr_unit = unit,
          mtr_aggregation = aggregation, mtr_dimensionTypes = dimensionTypes,
          mtr_dimensions = dimensions, mtr_eventRetentionDays = days,
          mtr_createdAt = createdAt\<rparr>))))))))"

definition WithDescription :: "Meter \<Rightarrow> string \<Rightarrow> Meter" where
  "WithDescription m description = m\<lparr>mtr_description := TrimSpace description\<rparr>"

section \<open>Metadata\<close>

primrec clone_any :: "any \<Rightarrow> any" where
  "clone_any ANil = ANil"
| "clone_any (AString s) = AString s"
| "clone_any (ABool b) = ABool b"
| "clone_any (AFloat x) = AFloat x"
| "clone_any (AFloat32 x) = AFloat32 x"
| "clone_any (AInt k n) = AInt k n"
| "clone_any (ATime t) = ATime t"
| "clone_any (ASlice xs) = ASlice xs"
| "clone_any (AMap m) = AMap (fmmap clone_any m)"

definition cloneMetadata :: "metadata \<Rightarrow> metadata" where
  "cloneMetadata m = fmmap clone_any m"

definition metadataPathValue :: "metadata \<Rightarrow> string \<Rightarrow> any option" where
  "metadataPathValue metadata key =
    (case fmlookup metadata key of
       Some value \<Rightarrow> Some value
     | None \<Rightarrow>
         let parts = Split_str key (CHR ''.'') in
         if length parts = 1 then None else path_lookup (AMap metadata) parts)"

text \<open>Write a value below a path; the intermediate maps are created when they are absent.\<close>

fun set_path :: "string \<Rightarrow> metadata \<Rightarrow> string list \<Rightarrow> any \<Rightarrow> go_error + metadata" where
  "set_path key m [] value = Inr m"
| "set_path key m [part] value = Inr (fmupd part value m)"
| "set_path key m (part # next # rest) value =
    (case fmlookup m part of
       None \<Rightarrow> try_res (set_path key fmempty (next # rest) value) (\<lambda>node. Inr (fmupd part (AMap node) m))
     | Some (AMap node0) \<Rightarrow>
         try_res (set_path key node0 (next # rest) value) (\<lambda>node. Inr (fmupd part (AMap node) m))
     | Some _ \<Rightarrow> Inl (Errorf ErrInvalidInput '': dimension %q conflicts with existing metadata'' [SArg key]))"

definition setMetadataPathValue :: "metadata \<Rightarrow> string \<Rightarrow> any \<Rightarrow> go_error + metadata" where
  "setMetadataPathValue metadata key value = set_path key metadata (Split_str key (CHR ''.'')) value"

fun metadataValueMatches :: "any \<Rightarrow> MetadataType \<Rightarrow> bool" where
  "metadataValueMatches (AString s) t = (t = MetadataString)"
| "metadataValueMatches (ABool b) t = (t = MetadataBoolean)"
| "metadataValueMatches (AFloat x) t = (t = MetadataNumber \<and> finite_f64 x)"
| "metadataValueMatches (AFloat32 x) t = (t = MetadataNumber \<and> finite_f64 x)"
| "metadataValueMatches (AInt k n) t = (t = MetadataNumber)"
| "metadataValueMatches v t = False"

definition normalize_metadata_step :: "metadata \<Rightarrow> Dimension \<Rightarrow> metadata \<Rightarrow> go_error + metadata" where
  "normalize_metadata_step metadata dimension normalized =
    (let key = dim_name dimension in
     case metadataPathValue metadata key of
       None \<Rightarrow>
         (if RequiresValue dimension
          then Inl (Errorf ErrInvalidInput '': dimension %q is required'' [SArg key])
          else Inr normalized)
     | Some value \<Rightarrow>
         reject_if (\<not> metadataValueMatches value (dim_type dimension))
           (Errorf ErrInvalidInput '': dimension %q must be %s'' [SArg key])
           (if CHR ''.'' \<in> set key
            then try_res (setMetadataPathValue normalized key value) (\<lambda>n. Inr (fmdrop key n))
            else Inr normalized))"

definition NormalizeMetadata :: "Meter \<Rightarrow> metadata \<Rightarrow> go_error + metadata" where
  "NormalizeMetadata m metadata =
    fold_res (normalize_metadata_step metadata) (mtr_dimensions m) (cloneMetadata metadata)"

definition ValidateMetadata :: "Meter \<Rightarrow> metadata \<Rightarrow> go_error + unit" where
  "ValidateMetadata m metadata = try_res (NormalizeMetadata m metadata) (\<lambda>_. Inr ())"

section \<open>Lemmas: dimensions and meters\<close>

definition valid_dimension :: "Dimension \<Rightarrow> bool" where
  "valid_dimension d \<longleftrightarrow> dimensionNamePattern (dim_name d) \<and> dim_name d \<noteq> ''subject''
     \<and> isSupportedMetadataType (dim_type d) \<and> trimmed (dim_description d)"

definition valid_meter :: "Meter \<Rightarrow> bool" where
  "valid_meter m \<longleftrightarrow>
     mtr_name m \<noteq> [] \<and> trimmed (mtr_name m) \<and> mtr_unit m \<noteq> [] \<and> trimmed (mtr_unit m)
   \<and> IsSupportedAggregation (mtr_aggregation m)
   \<and> 1 \<le> mtr_eventRetentionDays m \<and> mtr_eventRetentionDays m \<le> MaxEventRetentionDays
   \<and> distinct (map dim_name (mtr_dimensions m))
   \<and> (\<forall>d \<in> set (mtr_dimensions m). valid_dimension d)
   \<and> fset (fmdom (mtr_dimensionTypes m)) = dim_name ` set (mtr_dimensions m)
   \<and> (\<forall>d \<in> set (mtr_dimensions m). fmlookup (mtr_dimensionTypes m) (dim_name d) = Some (dim_type d))
   \<and> \<not> IsZero (mtr_createdAt m)"

lemma NewDimension_valid:
  assumes "NewDimension n t dn ds r dep = Inr d"
  shows "valid_dimension d \<and> dim_name d = TrimSpace n \<and> dim_type d = t"
  using assms
  by (auto simp: NewDimension_def Let_def valid_dimension_def IsReservedDimensionName_def TrimSpace_trimmed)

definition dims_ok :: "Dimension list \<times> (string, MetadataType) fmap \<Rightarrow> bool" where
  "dims_ok acc \<longleftrightarrow> (case acc of (ds, schema) \<Rightarrow>
     distinct (map dim_name ds) \<and> (\<forall>d \<in> set ds. valid_dimension d)
   \<and> fset (fmdom schema) = dim_name ` set ds
   \<and> (\<forall>d \<in> set ds. fmlookup schema (dim_name d) = Some (dim_type d)))"

lemma normalize_dimension_step_ok:
  assumes "dims_ok acc" "normalize_dimension_step x acc = Inr acc'"
  shows "dims_ok acc'"
proof -
  obtain ds schema where acc: "acc = (ds, schema)" by (cases acc)
  then obtain d where d: "valid_dimension d" "fmlookup schema (dim_name d) = None"
      and acc': "acc' = (ds @ [d], fmupd (dim_name d) (dim_type d) schema)"
    using assms(2) by (auto simp: normalize_dimension_step_def try_res_eq_Inr dest: NewDimension_valid)
  have "dim_name d \<notin> dim_name ` set ds"
    using d(2) assms(1) by (auto simp: dims_ok_def acc fmdom_notI fmlookup_dom_iff)
  then show ?thesis using assms(1) d by (auto simp: dims_ok_def acc acc')
qed

lemma normalizeDimensions_ok: "normalizeDimensions ds = Inr acc \<Longrightarrow> dims_ok acc"
  unfolding normalizeDimensions_def
  by (erule fold_res_invariant [where P = dims_ok])
    (simp add: dims_ok_def, rule normalize_dimension_step_ok)

lemma normalizeEventRetentionDays_range:
  "normalizeEventRetentionDays days = Inr n \<Longrightarrow> 1 \<le> n \<and> n \<le> MaxEventRetentionDays"
  by (auto simp: normalizeEventRetentionDays_def DefaultEventRetentionDays_def MaxEventRetentionDays_def
      split: if_splits)

section \<open>Lemmas: metadata\<close>

lemma clone_any_id: "clone_any v = v"
proof (induction v)
  case (AMap m)
  have "fmmap clone_any m = m"
  proof (rule fmap_ext)
    fix k
    show "fmlookup (fmmap clone_any m) k = fmlookup m k"
      using AMap.IH by (cases "fmlookup m k") (auto intro: fmran'I)
  qed
  then show ?case by simp
qed simp_all

lemma cloneMetadata_id [simp]: "cloneMetadata m = m"
proof (rule fmap_ext)
  fix k
  show "fmlookup (cloneMetadata m) k = fmlookup m k"
    by (cases "fmlookup m k") (simp_all add: cloneMetadata_def clone_any_id)
qed

lemma set_path_same:
  "set_path key m p v = Inr m' \<Longrightarrow> p \<noteq> [] \<Longrightarrow> path_lookup (AMap m') p = Some v"
proof (induction key m p v arbitrary: m' rule: set_path.induct)
  case (3 key m part nxt rest v)
  then show ?case by (auto simp: try_res_eq_Inr split: option.splits any.splits)
qed auto

lemma path_lookup_fmempty: "q \<noteq> [] \<Longrightarrow> path_lookup (AMap fmempty) q = None"
  by (cases q) auto

lemma set_path_other:
  "set_path key m p v = Inr m' \<Longrightarrow> \<not> prefix p q \<Longrightarrow> \<not> prefix q p \<Longrightarrow>
   path_lookup (AMap m') q = path_lookup (AMap m) q"
proof (induction key m p v arbitrary: m' q rule: set_path.induct)
  case (2 key m part v)
  then show ?case by (cases q) auto
next
  case (3 key m part nxt rest v)
  then obtain k q' where q: "q = k # q'" by (cases q) auto
  show ?case
  proof (cases "k = part")
    case False
    then show ?thesis using 3(3) by (auto simp: q try_res_eq_Inr split: option.splits any.splits)
  next
    case True
    then have inc: "\<not> prefix (nxt # rest) q'" "\<not> prefix q' (nxt # rest)" using 3(4,5) q by auto
    then have "q' \<noteq> []" by auto
    show ?thesis
    proof (cases "fmlookup m part")
      case None
      then obtain node where "set_path key fmempty (nxt # rest) v = Inr node" "m' = fmupd part (AMap node) m"
        using 3(3) by (auto simp: try_res_eq_Inr)
      then show ?thesis using 3(1) [OF None _ inc] None True q path_lookup_fmempty [OF \<open>q' \<noteq> []\<close>] by simp
    next
      case (Some w)
      then obtain node0 where w: "w = AMap node0" using 3(3) by (auto split: any.splits)
      with Some obtain node where "set_path key node0 (nxt # rest) v = Inr node" "m' = fmupd part (AMap node) m"
        using 3(3) by (auto simp: try_res_eq_Inr)
      then show ?thesis using 3(2) [OF Some w _ inc] Some w True q by simp
    qed
  qed
qed auto

lemma set_path_top:
  "set_path key m p v = Inr m' \<Longrightarrow> p \<noteq> [] \<Longrightarrow> k \<noteq> hd p \<Longrightarrow> fmlookup m' k = fmlookup m k"
  by (induction key m p v arbitrary: m' rule: set_path.induct)
     (auto simp: try_res_eq_Inr split: option.splits any.splits)

text \<open>The value at the path of a key, the direct entry aside.\<close>

definition at_path :: "metadata \<Rightarrow> string \<Rightarrow> any option" where
  "at_path m key = path_lookup (AMap m) (Split_str key (CHR ''.''))"

definition dotted :: "string \<Rightarrow> bool" where
  "dotted key \<longleftrightarrow> CHR ''.'' \<in> set key"

lemma at_path_undotted: "\<not> dotted key \<Longrightarrow> at_path m key = fmlookup m key"
  by (auto simp: at_path_def dotted_def Split_single split: option.splits)

lemma metadataPathValue_undotted: "\<not> dotted key \<Longrightarrow> metadataPathValue m key = fmlookup m key"
  by (auto simp: metadataPathValue_def dotted_def Split_single split: option.splits)

lemma metadataPathValue_dotted:
  "dotted key \<Longrightarrow> metadataPathValue m key = (case fmlookup m key of Some v \<Rightarrow> Some v | None \<Rightarrow> at_path m key)"
  using Split_single_iff [of key "CHR ''.''"]
  by (auto simp: metadataPathValue_def dotted_def at_path_def Let_def split: option.splits)

lemma hd_Split_undotted: "\<not> dotted (hd (Split_str key (CHR ''.'')))"
proof -
  have "hd (Split_str key (CHR ''.'')) \<in> set (Split_str key (CHR ''.''))" by simp
  then show ?thesis unfolding dotted_def by (rule Split_no_sep)
qed

text \<open>Two keys whose paths do not meet.\<close>

definition apart :: "string \<Rightarrow> string \<Rightarrow> bool" where
  "apart a b \<longleftrightarrow> \<not> prefix (Split_str a (CHR ''.'')) (Split_str b (CHR ''.''))
                \<and> \<not> prefix (Split_str b (CHR ''.'')) (Split_str a (CHR ''.''))"

definition prefix_free :: "Dimension list \<Rightarrow> bool" where
  "prefix_free ds = sorted_wrt (\<lambda>a b. apart (dim_name a) (dim_name b)) ds"

lemma apart_sym: "apart a b \<Longrightarrow> apart b a"
  by (auto simp: apart_def)

lemma normalize_step_other:
  assumes "normalize_metadata_step metadata d n = Inr n'" and "apart (dim_name d) k"
  shows "at_path n' k = at_path n k" and "dotted k \<Longrightarrow> fmlookup n' k = fmlookup n k"
proof -
  let ?key = "dim_name d"
  have ne: "?key \<noteq> k" using assms(2) by (auto simp: apart_def)
  have pne: "Split_str k (CHR ''.'') \<noteq> []" by simp
  consider "n' = n"
    | m v where "dotted ?key" "setMetadataPathValue n ?key v = Inr m" "n' = fmdrop ?key m"
    using assms(1)
    by (auto simp: normalize_metadata_step_def dotted_def Let_def try_res_eq_Inr split: option.splits if_splits)
  then have "at_path n' k = at_path n k \<and> (dotted k \<longrightarrow> fmlookup n' k = fmlookup n k)"
  proof cases
    case 2
    have sp: "set_path ?key n (Split_str ?key (CHR ''.'')) v = Inr m" using 2 by (simp add: setMetadataPathValue_def)
    have "at_path (fmdrop ?key m) k = at_path m k"
    proof -
      have "hd (Split_str k (CHR ''.'')) \<noteq> ?key" using hd_Split_undotted [of k] 2(1) by auto
      then show ?thesis using pne by (cases "Split_str k (CHR ''.'')") (auto simp: at_path_def)
    qed
    moreover have "at_path m k = at_path n k"
      using set_path_other [OF sp] assms(2) by (simp add: at_path_def apart_def)
    moreover have "fmlookup m k = fmlookup n k" if "dotted k"
      using set_path_top [OF sp, of k] hd_Split_undotted [of ?key] that by auto
    ultimately show ?thesis using 2(3) ne by simp
  qed simp
  then show "at_path n' k = at_path n k" "dotted k \<Longrightarrow> fmlookup n' k = fmlookup n k" by auto
qed

text \<open>What a step establishes at its own key.\<close>

lemma normalize_step_own:
  assumes "normalize_metadata_step metadata d n = Inr n'"
    and "at_path n (dim_name d) = at_path metadata (dim_name d)"
    and "dotted (dim_name d) \<longrightarrow> fmlookup n (dim_name d) = fmlookup metadata (dim_name d)"
  shows "at_path n' (dim_name d) = metadataPathValue metadata (dim_name d)"
    and "dotted (dim_name d) \<longrightarrow> fmlookup n' (dim_name d) = None"
    and "(case metadataPathValue metadata (dim_name d) of None \<Rightarrow> \<not> RequiresValue d
          | Some v \<Rightarrow> metadataValueMatches v (dim_type d))"
proof -
  let ?key = "dim_name d"
  have "at_path n' ?key = metadataPathValue metadata ?key \<and> (dotted ?key \<longrightarrow> fmlookup n' ?key = None)"
  proof (cases "dotted ?key")
    case False
    then have "n' = n" using assms(1)
      by (auto simp: normalize_metadata_step_def dotted_def Let_def split: option.splits if_splits)
    then show ?thesis using False assms(2) by (simp add: at_path_undotted metadataPathValue_undotted)
  next
    case True
    show ?thesis
    proof (cases "metadataPathValue metadata ?key")
      case None
      then have "n' = n" using assms(1)
        by (auto simp: normalize_metadata_step_def Let_def split: if_splits)
      then show ?thesis using True None assms(2,3)
        by (auto simp: metadataPathValue_dotted split: option.splits)
    next
      case (Some v)
      then obtain m where sp: "set_path ?key n (Split_str ?key (CHR ''.'')) v = Inr m" and n': "n' = fmdrop ?key m"
        using assms(1) True
        by (auto simp: normalize_metadata_step_def setMetadataPathValue_def dotted_def Let_def try_res_eq_Inr
            split: if_splits)
      have "at_path m ?key = Some v" using set_path_same [OF sp] by (simp add: at_path_def)
      moreover have "at_path (fmdrop ?key m) ?key = at_path m ?key"
      proof -
        have "hd (Split_str ?key (CHR ''.'')) \<noteq> ?key" using hd_Split_undotted [of ?key] True by auto
        then show ?thesis by (cases "Split_str ?key (CHR ''.'')") (auto simp: at_path_def)
      qed
      ultimately show ?thesis using Some n' by simp
    qed
  qed
  then show "at_path n' ?key = metadataPathValue metadata ?key" "dotted ?key \<longrightarrow> fmlookup n' ?key = None"
    by auto
  show "(case metadataPathValue metadata ?key of None \<Rightarrow> \<not> RequiresValue d
          | Some v \<Rightarrow> metadataValueMatches v (dim_type d))"
    using assms(1) by (auto simp: normalize_metadata_step_def Let_def split: option.splits if_splits)
qed

text \<open>The state of the loop: the dimensions handled and those to come.\<close>

definition dim_done :: "metadata \<Rightarrow> metadata \<Rightarrow> Dimension \<Rightarrow> bool" where
  "dim_done metadata n d \<longleftrightarrow>
     at_path n (dim_name d) = metadataPathValue metadata (dim_name d)
   \<and> (dotted (dim_name d) \<longrightarrow> fmlookup n (dim_name d) = None)
   \<and> (case metadataPathValue metadata (dim_name d) of None \<Rightarrow> \<not> RequiresValue d
       | Some v \<Rightarrow> metadataValueMatches v (dim_type d))"

definition dim_todo :: "metadata \<Rightarrow> metadata \<Rightarrow> Dimension \<Rightarrow> bool" where
  "dim_todo metadata n d \<longleftrightarrow>
     at_path n (dim_name d) = at_path metadata (dim_name d)
   \<and> (dotted (dim_name d) \<longrightarrow> fmlookup n (dim_name d) = fmlookup metadata (dim_name d))"

lemma dim_done_other:
  "dim_done metadata n e \<Longrightarrow> normalize_metadata_step metadata d n = Inr n' \<Longrightarrow> apart (dim_name d) (dim_name e)
   \<Longrightarrow> dim_done metadata n' e"
  using normalize_step_other [of metadata d n n' "dim_name e"] by (simp add: dim_done_def)

lemma dim_todo_other:
  "dim_todo metadata n e \<Longrightarrow> normalize_metadata_step metadata d n = Inr n' \<Longrightarrow> apart (dim_name d) (dim_name e)
   \<Longrightarrow> dim_todo metadata n' e"
  using normalize_step_other [of metadata d n n' "dim_name e"] by (simp add: dim_todo_def)

lemma dim_todo_done:
  "dim_todo metadata n d \<Longrightarrow> normalize_metadata_step metadata d n = Inr n' \<Longrightarrow> dim_done metadata n' d"
  using normalize_step_own [of metadata d n n'] by (simp add: dim_done_def dim_todo_def)

lemma normalize_metadata_loop:
  assumes "fold_res (normalize_metadata_step metadata) todo n = Inr r"
    and "prefix_free (past @ todo)"
    and "\<forall>d \<in> set past. dim_done metadata n d" and "\<forall>d \<in> set todo. dim_todo metadata n d"
  shows "\<forall>d \<in> set (past @ todo). dim_done metadata r d"
  using assms
proof (induction todo arbitrary: past n)
  case (Cons d todo)
  obtain n' where n': "normalize_metadata_step metadata d n = Inr n'"
      and rest: "fold_res (normalize_metadata_step metadata) todo n' = Inr r"
    using Cons.prems(1) by (auto simp: try_res_eq_Inr)
  have ap: "apart (dim_name d) (dim_name e)" if "e \<in> set past \<or> e \<in> set todo" for e
    using that Cons.prems(2) by (auto simp: prefix_free_def sorted_wrt_append intro: apart_sym)
  have "prefix_free ((past @ [d]) @ todo)" using Cons.prems(2) by simp
  moreover have "\<forall>e \<in> set (past @ [d]). dim_done metadata n' e"
    using Cons.prems(3,4) n' ap by (auto intro: dim_done_other dim_todo_done)
  moreover have "\<forall>e \<in> set todo. dim_todo metadata n' e"
    using Cons.prems(4) n' ap by (auto intro: dim_todo_other)
  ultimately have "\<forall>e \<in> set ((past @ [d]) @ todo). dim_done metadata r e"
    using Cons.IH [OF rest] by blast
  then show ?case by simp
qed auto

lemma NormalizeMetadata_done:
  assumes "NormalizeMetadata m metadata = Inr r" "prefix_free (mtr_dimensions m)" "d \<in> set (mtr_dimensions m)"
  shows "dim_done metadata r d"
  using normalize_metadata_loop [of metadata "mtr_dimensions m" metadata r "[]"] assms
  by (auto simp: NormalizeMetadata_def dim_todo_def)

lemma dim_done_value: "dim_done metadata r d \<Longrightarrow> metadataPathValue r (dim_name d) = metadataPathValue metadata (dim_name d)"
  by (cases "dotted (dim_name d)")
    (auto simp: dim_done_def metadataPathValue_dotted metadataPathValue_undotted at_path_undotted split: option.splits)

section \<open>Properties\<close>

text \<open>Claim C25. A meter that the constructor accepts has a trimmed name and unit, a supported
  aggregation, a retention between 1 and 3650 days, distinct and well-formed dimension names,
  and a type schema that agrees with its dimensions.\<close>

theorem NewWithDimensions_valid:
  assumes "NewWithDimensions id0 name description unit aggregation ds days createdAt = Inr m"
  shows "valid_meter m"
proof -
  obtain dims types n where
    "normalizeDimensions ds = Inr (dims, types)" "normalizeEventRetentionDays days = Inr n"
    and m: "mtr_dimensions m = dims" "mtr_dimensionTypes m = types" "mtr_eventRetentionDays m = n"
      "mtr_name m = TrimSpace name" "mtr_unit m = TrimSpace unit" "TrimSpace name \<noteq> []" "TrimSpace unit \<noteq> []"
      "IsSupportedAggregation (mtr_aggregation m)" "\<not> IsZero (mtr_createdAt m)"
    using assms by (auto simp: NewWithDimensions_def Let_def try_res_eq_Inr split: prod.splits if_splits)
  then have "dims_ok (dims, types)" "1 \<le> n \<and> n \<le> MaxEventRetentionDays"
    by (blast dest: normalizeDimensions_ok normalizeEventRetentionDays_range)+
  then show ?thesis using m by (simp add: valid_meter_def dims_ok_def TrimSpace_trimmed)
qed

text \<open>When no dimension name is a path prefix of another, normalised metadata holds, at
  the path of every dimension, the value the event was sent with; that value has the dimension's
  type, and it is present when the dimension is required and not deprecated; a dotted key no
  longer stands at the top level.\<close>

lemma NormalizeMetadata_conforms:
  assumes "NormalizeMetadata m metadata = Inr r" and "prefix_free (mtr_dimensions m)"
    and "d \<in> set (mtr_dimensions m)"
  shows "metadataPathValue r (dim_name d) = metadataPathValue metadata (dim_name d)
    \<and> (case metadataPathValue r (dim_name d) of None \<Rightarrow> \<not> RequiresValue d
        | Some v \<Rightarrow> metadataValueMatches v (dim_type d))
    \<and> (dotted (dim_name d) \<longrightarrow> fmlookup r (dim_name d) = None)"
proof -
  have d: "dim_done metadata r d" by (rule NormalizeMetadata_done [OF assms])
  have v: "metadataPathValue r (dim_name d) = metadataPathValue metadata (dim_name d)"
    by (rule dim_done_value [OF d])
  show ?thesis using d unfolding v dim_done_def by simp
qed

definition sample_dim :: "string \<Rightarrow> Dimension" where
  "sample_dim name = \<lparr>dim_name = name, dim_displayName = name, dim_description = [],
     dim_type = MetadataString, dim_required = True, dim_deprecated = False\<rparr>"

definition sample_meter :: "Dimension list \<Rightarrow> Meter" where
  "sample_meter ds = \<lparr>mtr_id = ''m1'', mtr_name = ''api'', mtr_description = [], mtr_unit = ''call'',
     mtr_aggregation = AggregationSum, mtr_dimensionTypes = fmempty, mtr_dimensions = ds,
     mtr_eventRetentionDays = 90, mtr_createdAt = 1\<rparr>"

lemma sample_meter_simps [simp]:
  "mtr_dimensions (sample_meter ds) = ds" "dim_name (sample_dim s) = s"
  "dim_type (sample_dim s) = MetadataString" "RequiresValue (sample_dim s)"
  by (simp_all add: sample_meter_def sample_dim_def RequiresValue_def)

lemma NormalizeMetadata_sample:
  "NormalizeMetadata (sample_meter [sample_dim ''r.z'', sample_dim ''k''])
     (fmupd ''r.z'' (AString ''eu'') (fmupd ''k'' (AString ''v'') fmempty))
   = Inr (fmupd ''r'' (AMap (fmupd ''z'' (AString ''eu'') fmempty)) (fmupd ''k'' (AString ''v'') fmempty))"
  by (simp add: NormalizeMetadata_def normalize_metadata_step_def metadataPathValue_def Split_str_def
      setMetadataPathValue_def Let_def fmdrop_fmupd)

lemma NormalizeMetadata_conforms_example:
  "fmlookup (fmupd ''r'' (AMap (fmupd ''z'' (AString ''eu'') fmempty)) (fmupd ''k'' (AString ''v'') fmempty)) ''r.z'' = None
   \<and> metadataPathValue (fmupd ''r'' (AMap (fmupd ''z'' (AString ''eu'') fmempty)) (fmupd ''k'' (AString ''v'') fmempty)) ''r.z''
     = Some (AString ''eu'')"
proof -
  let ?m = "sample_meter [sample_dim ''r.z'', sample_dim ''k'']"
  have "prefix_free (mtr_dimensions ?m)"
    by (simp add: prefix_free_def apart_def Split_str_def)
  moreover have "sample_dim ''r.z'' \<in> set (mtr_dimensions ?m)" by simp
  ultimately show ?thesis
    using NormalizeMetadata_conforms [OF NormalizeMetadata_sample, of "sample_dim ''r.z''"]
    by (simp add: dotted_def metadataPathValue_def)
qed

lemma NewWithDimensions_valid_witness:
  "valid_meter \<lparr>mtr_id = ''m1'', mtr_name = ''api'', mtr_description = [], mtr_unit = ''call'',
     mtr_aggregation = AggregationSum, mtr_dimensionTypes = fmempty, mtr_dimensions = [],
     mtr_eventRetentionDays = 90, mtr_createdAt = 1\<rparr>"
  by (rule NewWithDimensions_valid [of "''m1''" "''api''" "[]" "''call''" "AggregationOther []" "[]" 0 1])
    (simp add: NewWithDimensions_def normalizeDimensions_def normalizeEventRetentionDays_def IsZero_def
      zero_time_def DefaultEventRetentionDays_def MaxEventRetentionDays_def go_string_simps)

text \<open>The result depends on the order of the dimensions when one name extends another:
  with the dimensions a.b.c and a.b, both required, an event that carries both loses the value of
  a.b.c, without an error; in the other order the event is rejected.\<close>

lemma NormalizeMetadata_overwrites:
  "(\<exists>r. NormalizeMetadata (sample_meter [sample_dim ''a.b.c'', sample_dim ''a.b''])
         (fmupd ''a.b.c'' (AString ''x'') (fmupd ''a.b'' (AString ''y'') fmempty)) = Inr r
       \<and> metadataPathValue r ''a.b.c'' = None \<and> metadataPathValue r ''a.b'' = Some (AString ''y''))
   \<and> (\<exists>e. NormalizeMetadata (sample_meter [sample_dim ''a.b'', sample_dim ''a.b.c''])
         (fmupd ''a.b.c'' (AString ''x'') (fmupd ''a.b'' (AString ''y'') fmempty)) = Inl e)"
  by (simp add: NormalizeMetadata_def normalize_metadata_step_def metadataPathValue_def Split_str_def
      setMetadataPathValue_def Let_def fmdrop_fmupd)

end
