(* ===== verification/UsageDomain.thy ===== *)
theory UsageDomain
  imports Meter
begin

text \<open>
  The usage domain values: subjects, events, the result of a bulk save, ingestion, prune and
  export records (\<^verbatim>\<open>src/internal/metering/domain/usage\<close>: \<^verbatim>\<open>subject.go\<close>, \<^verbatim>\<open>event.go\<close>,
  \<^verbatim>\<open>bulk.go\<close>, \<^verbatim>\<open>ingestion.go\<close>, \<^verbatim>\<open>prune.go\<close>, \<^verbatim>\<open>export_job.go\<close>, \<^verbatim>\<open>outbox.go\<close>).  Every
  constructor is translated with its guards in the code's order.  A Go accessor is a record
  selector.  The lemmas state what an accepted value satisfies.
\<close>

section \<open>Subjects\<close>

definition MaxSubjectLength :: nat where "MaxSubjectLength = 128"

definition subject_byte :: "char \<Rightarrow> bool" where
  "subject_byte c \<longleftrightarrow> is_alnum c \<or> c = CHR ''_'' \<or> c = CHR ''.'' \<or> c = CHR '':'' \<or> c = CHR ''-''"

text \<open>\<^verbatim>\<open>^[A-Za-z0-9][A-Za-z0-9_.:-]*$\<close>\<close>

definition subjectIdentifierPattern :: "string \<Rightarrow> bool" where
  "subjectIdentifierPattern s \<longleftrightarrow> (case s of [] \<Rightarrow> False | c # rest \<Rightarrow> is_alnum c \<and> list_all subject_byte rest)"

definition NormalizeOptionalSubject :: "string \<Rightarrow> go_error + string" where
  "NormalizeOptionalSubject value =
    (let subject = TrimSpace value in
     if subject = [] then Inr []
     else reject_if (MaxSubjectLength < length subject)
       (Errorf ErrInvalidInput '': subject cannot exceed %d characters'' [IArg (int MaxSubjectLength)]) (
     reject_if (\<not> subjectIdentifierPattern subject)
       (Errorf ErrInvalidInput '': subject %q must use letters, numbers, underscores, hyphens, dots, or colons'' [SArg subject])
     (Inr subject)))"

definition NormalizeSubject :: "string \<Rightarrow> go_error + string" where
  "NormalizeSubject value =
    try_res (NormalizeOptionalSubject value) (\<lambda>subject.
    reject_if (subject = []) (invalid '': subject is required'') (Inr subject))"

definition valid_subject :: "string \<Rightarrow> bool" where
  "valid_subject s \<longleftrightarrow> length s \<le> MaxSubjectLength \<and> subjectIdentifierPattern s"

lemma subject_byte_printable: "subject_byte c \<Longrightarrow> 33 \<le> code c \<and> code c < 128"
  by (auto simp: subject_byte_def is_alnum_def is_upper_def is_lower_def is_digit_def)

lemma pattern_bytes: "subjectIdentifierPattern s \<Longrightarrow> s \<noteq> [] \<and> (\<forall>c \<in> set s. subject_byte c)"
  by (auto simp: subjectIdentifierPattern_def subject_byte_def list_all_iff split: list.splits)

lemma valid_subject_trimmed: "valid_subject s \<Longrightarrow> trimmed s"
proof -
  assume "valid_subject s"
  then have "s \<noteq> []" "\<forall>c \<in> set s. subject_byte c" using pattern_bytes by (auto simp: valid_subject_def)
  then show ?thesis
    by (intro trimmed_alnum_ends) (auto dest: subject_byte_printable simp: last_in_set)
qed

lemma valid_subject_no_nul: "valid_subject s \<Longrightarrow> char_of (0 :: nat) \<notin> set s"
  using pattern_bytes subject_byte_printable by (fastforce simp: valid_subject_def)

lemma NormalizeOptionalSubject_ok:
  "NormalizeOptionalSubject v = Inr s \<Longrightarrow> s = TrimSpace v \<and> (s = [] \<or> valid_subject s)"
  by (auto simp: NormalizeOptionalSubject_def Let_def valid_subject_def split: if_splits)

lemma NormalizeSubject_ok: "NormalizeSubject v = Inr s \<Longrightarrow> s = TrimSpace v \<and> valid_subject s"
  by (auto simp: NormalizeSubject_def try_res_eq_Inr dest: NormalizeOptionalSubject_ok)

lemma NormalizeSubject_valid: "valid_subject s \<Longrightarrow> NormalizeSubject s = Inr s"
proof -
  assume v: "valid_subject s"
  then have "TrimSpace s = s" by (intro trimmed_TrimSpace valid_subject_trimmed)
  moreover have "s \<noteq> []" using v pattern_bytes by (auto simp: valid_subject_def)
  ultimately show ?thesis using v
    by (simp add: NormalizeSubject_def NormalizeOptionalSubject_def valid_subject_def not_less)
qed

lemma NormalizeSubject_error: "NormalizeSubject v = Inl e \<Longrightarrow> errors_Is e ErrInvalidInput"
  by (auto simp: NormalizeSubject_def NormalizeOptionalSubject_def Let_def reject_if_def split: if_splits)

section \<open>Events\<close>

record Event =
  ev_id :: string
  ev_idempotencyKey :: string
  ev_subject :: string
  ev_meterName :: string
  ev_quantity :: f64
  ev_eventTime :: time
  ev_receivedAt :: time
  ev_metadata :: metadata

definition NewEvent ::
  "string \<Rightarrow> string \<Rightarrow> string \<Rightarrow> string \<Rightarrow> f64 \<Rightarrow> time \<Rightarrow> time \<Rightarrow> metadata \<Rightarrow> go_error + Event" where
  "NewEvent id0 key0 subject0 meter0 quantity eventTime receivedAt metadata =
    (let eid = TrimSpace id0; idempotencyKey = TrimSpace key0; meterName = TrimSpace meter0 in
     reject_if (eid = []) (invalid '': event id is required'') (
     try_res (NormalizeSubject subject0) (\<lambda>subject.
     reject_if (meterName = []) (invalid '': meter is required'') (
     reject_if (quantity \<le> 0) (invalid '': quantity must be greater than zero'') (
     reject_if (IsZero eventTime) (invalid '': event time is required'') (
     reject_if (IsZero receivedAt) (invalid '': received at is required'') (
     Inr \<lparr>ev_id = eid, ev_idempotencyKey = idempotencyKey, ev_subject = subject,
          ev_meterName = meterName, ev_quantity = quantity, ev_eventTime = eventTime,
          ev_receivedAt = receivedAt, ev_metadata = metadata\<rparr>)))))))"

definition valid_event :: "Event \<Rightarrow> bool" where
  "valid_event e \<longleftrightarrow> ev_id e \<noteq> [] \<and> trimmed (ev_id e) \<and> trimmed (ev_idempotencyKey e)
     \<and> valid_subject (ev_subject e) \<and> ev_meterName e \<noteq> [] \<and> trimmed (ev_meterName e)
     \<and> \<not> ev_quantity e \<le> 0 \<and> \<not> IsZero (ev_eventTime e) \<and> \<not> IsZero (ev_receivedAt e)"

lemma NewEvent_valid: "NewEvent i k s m q et rt md = Inr e \<Longrightarrow> valid_event e"
  by (auto simp: NewEvent_def Let_def valid_event_def try_res_eq_Inr TrimSpace_trimmed dest: NormalizeSubject_ok)

lemma NewEvent_fields:
  "NewEvent i k s m q et rt md = Inr e \<Longrightarrow>
   ev_id e = TrimSpace i \<and> ev_idempotencyKey e = TrimSpace k \<and> ev_subject e = TrimSpace s
   \<and> ev_meterName e = TrimSpace m \<and> ev_quantity e = q \<and> ev_eventTime e = et
   \<and> ev_receivedAt e = rt \<and> ev_metadata e = md"
  by (auto simp: NewEvent_def Let_def try_res_eq_Inr dest: NormalizeSubject_ok)

lemma NewEvent_error: "NewEvent i k s m q et rt md = Inl e \<Longrightarrow> errors_Is e ErrInvalidInput"
  by (auto simp: NewEvent_def Let_def reject_if_def try_res_eq_Inl dest: NormalizeSubject_error split: if_splits)

section \<open>Bulk results\<close>

record BulkSaveResult =
  bsr_accepted :: "Event list"
  bsr_duplicates :: "Event list"
  bsr_replayed :: bool

definition copyEventSlice :: "Event list \<Rightarrow> Event list" where
  "copyEventSlice events = events"

definition NewBulkSaveResult :: "Event list \<Rightarrow> Event list \<Rightarrow> BulkSaveResult" where
  "NewBulkSaveResult accepted duplicates =
    \<lparr>bsr_accepted = copyEventSlice accepted, bsr_duplicates = copyEventSlice duplicates, bsr_replayed = False\<rparr>"

definition AsReplay :: "BulkSaveResult \<Rightarrow> BulkSaveResult" where
  "AsReplay r = r\<lparr>bsr_replayed := True\<rparr>"

definition bulk_Events :: "BulkSaveResult \<Rightarrow> Event list" where
  "bulk_Events r = bsr_accepted r @ bsr_duplicates r"

section \<open>Ingestion runs\<close>

datatype IngestionKind = IngestionSingle | IngestionBulk | IngestionStream | IngestionOther string

record IngestionRun =
  ir_id :: string
  ir_kind :: IngestionKind
  ir_accepted :: int
  ir_duplicates :: int
  ir_failed :: int
  ir_createdAt :: time

definition NewIngestionRun :: "string \<Rightarrow> IngestionKind \<Rightarrow> int \<Rightarrow> int \<Rightarrow> int \<Rightarrow> time \<Rightarrow> go_error + IngestionRun" where
  "NewIngestionRun id0 kind accepted duplicates failed createdAt =
    (let rid = TrimSpace id0 in
     reject_if (rid = []) (invalid '': ingestion id is required'') (
     reject_if (kind \<noteq> IngestionSingle \<and> kind \<noteq> IngestionBulk \<and> kind \<noteq> IngestionStream)
       (invalid '': ingestion kind is invalid'') (
     reject_if (accepted < 0 \<or> duplicates < 0 \<or> failed < 0) (invalid '': ingestion counts cannot be negative'') (
     reject_if (IsZero createdAt) (invalid '': ingestion created at is required'') (
     Inr \<lparr>ir_id = rid, ir_kind = kind, ir_accepted = accepted, ir_duplicates = duplicates,
          ir_failed = failed, ir_createdAt = createdAt\<rparr>)))))"

section \<open>Prune runs\<close>

record PruneRunMeter =
  prm_meterName :: string
  prm_before :: time
  prm_deleted :: int

record PruneRun =
  pr_id :: string
  pr_dryRun :: bool
  pr_deleted :: int
  pr_meters :: "PruneRunMeter list"
  pr_createdAt :: time

definition NewPruneRun :: "string \<Rightarrow> bool \<Rightarrow> int \<Rightarrow> PruneRunMeter list \<Rightarrow> time \<Rightarrow> go_error + PruneRun" where
  "NewPruneRun id0 dryRun deleted meters createdAt =
    (let rid = TrimSpace id0 in
     reject_if (rid = []) (invalid '': prune run id is required'') (
     reject_if (deleted < 0) (invalid '': deleted count cannot be negative'') (
     reject_if (IsZero createdAt) (invalid '': created at is required'') (
     Inr \<lparr>pr_id = rid, pr_dryRun = dryRun, pr_deleted = deleted, pr_meters = meters, pr_createdAt = createdAt\<rparr>))))"

definition NewPruneRunMeter :: "string \<Rightarrow> time \<Rightarrow> int \<Rightarrow> go_error + PruneRunMeter" where
  "NewPruneRunMeter name0 before deleted =
    (let meterName = TrimSpace name0 in
     reject_if (meterName = []) (invalid '': meter is required'') (
     reject_if (IsZero before) (invalid '': prune cutoff is required'') (
     reject_if (deleted < 0) (invalid '': deleted count cannot be negative'') (
     Inr \<lparr>prm_meterName = meterName, prm_before = before, prm_deleted = deleted\<rparr>))))"

section \<open>Export jobs\<close>

datatype ExportJobKind = ExportJobUsageBuckets | ExportJobKindOther string

datatype ExportJobStatus =
  ExportJobQueued | ExportJobRunning | ExportJobCompleted | ExportJobFailed | ExportJobCanceled
  | ExportJobStatusOther string

datatype ExportJobFormat = ExportJobCSV | ExportJobFormatOther string

record ExportJob =
  ej_id :: string
  ej_workspaceID :: string
  ej_kind :: ExportJobKind
  ej_status :: ExportJobStatus
  ej_format :: ExportJobFormat
  ej_queryJSON :: string
  ej_errorMessage :: string
  ej_attempts :: int
  ej_lockedUntil :: time
  ej_claimToken :: string
  ej_artifactPath :: string
  ej_artifactSize :: int
  ej_createdAt :: time
  ej_updatedAt :: time
  ej_completedAt :: time
  ej_expiredAt :: time

definition finished :: "ExportJobStatus \<Rightarrow> bool" where
  "finished status \<longleftrightarrow> status = ExportJobCompleted \<or> status = ExportJobFailed \<or> status = ExportJobCanceled"

text \<open>\<^verbatim>\<open>json_valid\<close> stands for \<^verbatim>\<open>json.Valid\<close> of \<^verbatim>\<open>encoding/json\<close>.  The constructor takes its
  arguments as a record and returns the record with its strings trimmed.\<close>

definition NewExportJob :: "(string \<Rightarrow> bool) \<Rightarrow> ExportJob \<Rightarrow> go_error + ExportJob" where
  "NewExportJob json_valid a =
    (let j = a\<lparr>ej_id := TrimSpace (ej_id a), ej_workspaceID := TrimSpace (ej_workspaceID a),
               ej_queryJSON := TrimSpace (ej_queryJSON a), ej_errorMessage := TrimSpace (ej_errorMessage a),
               ej_artifactPath := TrimSpace (ej_artifactPath a), ej_claimToken := TrimSpace (ej_claimToken a)\<rparr>
     in
     reject_if (ej_id j = []) (invalid '': export job id is required'') (
     reject_if (ej_workspaceID j = []) (invalid '': export job workspace is required'') (
     reject_if (ej_kind j \<noteq> ExportJobUsageBuckets) (invalid '': export job kind is invalid'') (
     reject_if (case ej_status j of ExportJobStatusOther s \<Rightarrow> True | _ \<Rightarrow> False)
       (invalid '': export job status is invalid'') (
     reject_if (ej_format j \<noteq> ExportJobCSV) (invalid '': export job format is invalid'') (
     reject_if (ej_queryJSON j = [] \<or> \<not> json_valid (ej_queryJSON j))
       (invalid '': export job query must be valid JSON'') (
     reject_if (IsZero (ej_createdAt j)) (invalid '': export job created at is required'') (
     reject_if (IsZero (ej_updatedAt j)) (invalid '': export job updated at is required'') (
     reject_if (IsZero (ej_completedAt j) \<and> finished (ej_status j))
       (invalid '': export job completed at is required'') (
     reject_if (ej_status j = ExportJobRunning \<and> IsZero (ej_lockedUntil j))
       (invalid '': export job lock is required'') (
     reject_if (ej_status j = ExportJobCompleted \<and> ej_artifactPath j = [])
       (invalid '': export job artifact path is required'') (
     reject_if (\<not> IsZero (ej_expiredAt j) \<and> (ej_status j \<noteq> ExportJobCompleted \<or> IsZero (ej_completedAt j)))
       (invalid '': only completed export jobs can expire'') (
     reject_if (ej_attempts j < 0) (invalid '': export job attempts cannot be negative'') (
     reject_if (ej_artifactSize j < 0) (invalid '': export job artifact size cannot be negative'') (
     Inr j)))))))))))))))"

definition valid_export_job :: "ExportJob \<Rightarrow> bool" where
  "valid_export_job j \<longleftrightarrow>
     ej_id j \<noteq> [] \<and> ej_workspaceID j \<noteq> [] \<and> 0 \<le> ej_attempts j \<and> 0 \<le> ej_artifactSize j
   \<and> (finished (ej_status j) \<longrightarrow> \<not> IsZero (ej_completedAt j))
   \<and> (ej_status j = ExportJobRunning \<longrightarrow> \<not> IsZero (ej_lockedUntil j))
   \<and> (ej_status j = ExportJobCompleted \<longrightarrow> ej_artifactPath j \<noteq> [])
   \<and> (\<not> IsZero (ej_expiredAt j) \<longrightarrow> ej_status j = ExportJobCompleted)"

lemma NewExportJob_valid_state: "NewExportJob json_valid a = Inr j \<Longrightarrow> valid_export_job j"
  by (auto simp: NewExportJob_def Let_def valid_export_job_def)

section \<open>Runs of the export cleanup\<close>

record ExportCleanupRun =
  ecr_id :: string
  ecr_workspaceID :: string
  ecr_expiredBefore :: time
  ecr_filesDeleted :: int
  ecr_bytesReclaimed :: int
  ecr_failures :: int
  ecr_createdAt :: time

definition NewExportCleanupRun :: "string \<Rightarrow> string \<Rightarrow> time \<Rightarrow> int \<Rightarrow> int \<Rightarrow> int \<Rightarrow> time \<Rightarrow> go_error + ExportCleanupRun" where
  "NewExportCleanupRun rid0 ws0 expiredBefore filesDeleted bytesReclaimed failures createdAt =
    (let rid = TrimSpace rid0; ws = TrimSpace ws0 in
     reject_if (rid = [] \<or> ws = [] \<or> IsZero expiredBefore \<or> IsZero createdAt)
       (invalid '': export cleanup run identity and timestamps are required'') (
     reject_if (filesDeleted < 0 \<or> bytesReclaimed < 0 \<or> failures < 0)
       (invalid '': export cleanup metrics cannot be negative'') (
     Inr \<lparr>ecr_id = rid, ecr_workspaceID = ws, ecr_expiredBefore = expiredBefore, ecr_filesDeleted = filesDeleted,
       ecr_bytesReclaimed = bytesReclaimed, ecr_failures = failures, ecr_createdAt = createdAt\<rparr>)))"

section \<open>Outbox messages\<close>

record OutboxMessage =
  om_ID :: string
  om_WorkspaceID :: string
  om_EventID :: string
  om_Subject :: string
  om_MeterName :: string
  om_Quantity :: f64
  om_Metadata :: metadata
  om_Attempts :: int
  om_ClaimToken :: string
  om_CreatedAt :: time

section \<open>Properties\<close>

text \<open>Normalising a subject returns its trimmed text, which is 1 to 128 bytes of the
  identifier pattern and is left unchanged when it is normalised again; every rejection is an
  invalid-input error.\<close>

lemma NormalizeSubject_spec:
  "case NormalizeSubject v of
     Inr s \<Rightarrow> s = TrimSpace v \<and> valid_subject s \<and> NormalizeSubject s = Inr s
   | Inl e \<Rightarrow> errors_Is e ErrInvalidInput"
proof (cases "NormalizeSubject v")
  case (Inl e)
  then show ?thesis using NormalizeSubject_error by simp
next
  case (Inr s)
  then show ?thesis using NormalizeSubject_ok NormalizeSubject_valid by auto
qed

text \<open>The event constructor accepts a NaN quantity: the guard is written as
  quantity <= 0, which is false on NaN, while every ordinary quantity it accepts is positive.\<close>

lemma NewEvent_quantity:
  "(case NewEvent i k s m q et rt md of Inr e \<Rightarrow> ev_quantity e = q \<and> (q = NaN \<or> 0 < q) | Inl err \<Rightarrow> errors_Is err ErrInvalidInput)
   \<and> (\<exists>e. NewEvent ''e1'' [] ''acme'' ''api'' NaN 1 1 fmempty = Inr e \<and> ev_quantity e = NaN)"
proof -
  have pos: "q = NaN \<or> 0 < q" if "\<not> q \<le> 0" using that by (cases q) (auto simp: not_le)
  then have "case NewEvent i k s m q et rt md of Inr e \<Rightarrow> ev_quantity e = q \<and> (q = NaN \<or> 0 < q)
      | Inl err \<Rightarrow> errors_Is err ErrInvalidInput"
  proof (cases "NewEvent i k s m q et rt md")
    case (Inl err)
    then show ?thesis using NewEvent_error by simp
  next
    case (Inr e)
    then have "ev_quantity e = q" "\<not> ev_quantity e \<le> 0"
      using NewEvent_fields NewEvent_valid by (simp_all add: valid_event_def)
    then show ?thesis using Inr pos by simp
  qed
  moreover have "valid_subject ''acme''"
    by (simp add: valid_subject_def MaxSubjectLength_def subjectIdentifierPattern_def subject_byte_def
        is_alnum_def is_lower_def is_upper_def is_digit_def)
  then have "\<exists>e. NewEvent ''e1'' [] ''acme'' ''api'' NaN 1 1 fmempty = Inr e \<and> ev_quantity e = NaN"
    by (simp add: NewEvent_def NormalizeSubject_valid go_string_simps IsZero_def zero_time_def)
  ultimately show ?thesis by blast
qed

end
