(* ===== verification/EntitlementTypes.thy ===== *)
theory EntitlementTypes
  imports UsageDomain
begin

text \<open>
  The types of the entitlement service (\<^verbatim>\<open>src/internal/metering/app/entitlement/service.go\<close>):
  one record per struct with the struct's fields in its order, one datatype per string
  enumeration.  A Go value of a string enumeration may hold a text without a constant (the
  zero value holds the empty one): that is the last constructor of each datatype.
\<close>

section \<open>Enumerations\<close>

definition MaxNameRunes :: nat where "MaxNameRunes = 120"
definition ent_DefaultLimit :: int where "ent_DefaultLimit = 100"
definition ent_MaxLimit :: int where "ent_MaxLimit = 1000"
definition DefaultWarningPercent :: f64 where "DefaultWarningPercent = Fin 80"
definition DefaultCheckEvaluationWait :: duration where "DefaultCheckEvaluationWait = 0"

datatype Period = PeriodDay | PeriodWeek | PeriodMonth | PeriodYear | PeriodOther string

datatype OverageState =
  StateOK | StateWarning | StateExceeded | StateNoPlan | StateNotInPlan | StateOther string

datatype EventType = EventWarning | EventExceeded | EventRecovered | EventTypeOther string

datatype AssignmentStatus = AssignmentScheduled | AssignmentActive | AssignmentEnded

datatype EnforcementMode = EnforcementAdvisory | EnforcementHard | EnforcementOther string

datatype FailurePolicy = FailOpen | FailClosed | FailurePolicyOther string

text \<open>The text of a period, as the database and the limit keys have it.\<close>

fun period_text :: "Period \<Rightarrow> string" where
  "period_text PeriodDay = ''day''"
| "period_text PeriodWeek = ''week''"
| "period_text PeriodMonth = ''month''"
| "period_text PeriodYear = ''year''"
| "period_text (PeriodOther s) = s"

section \<open>Plans and assignments\<close>

record Plan =
  pl_ID :: string
  pl_Name :: string
  pl_Description :: string
  pl_Version :: int
  pl_ParentPlanID :: string
  pl_IsCurrent :: bool
  pl_CreatedAt :: time
  pl_UpdatedAt :: time

record PlanLimit =
  lim_ID :: string
  lim_PlanID :: string
  lim_MeterName :: string
  lim_Period :: Period
  lim_Limit :: f64
  lim_WarningPercent :: f64
  lim_Enforcement :: EnforcementMode
  lim_FailurePolicy :: FailurePolicy
  lim_CreatedAt :: time
  lim_UpdatedAt :: time

record SubjectAssignment =
  sa_ID :: string
  sa_Subject :: string
  sa_PlanID :: string
  sa_PlanName :: string
  sa_PlanVersion :: int
  sa_AssignedAt :: time
  sa_PeriodAnchorAt :: time
  sa_UnassignedAt :: time
  sa_UpdatedAt :: time

section \<open>Evaluations\<close>

record EntitlementState =
  es_WorkspaceID :: string
  es_Subject :: string
  es_MeterName :: string
  es_PlanID :: string
  es_PlanName :: string
  es_Period :: Period
  es_State :: OverageState
  es_Current :: f64
  es_Limit :: f64
  es_Remaining :: f64
  es_WarningPercent :: f64
  es_Enforcement :: string
  es_FailurePolicy :: string
  es_Message :: string
  es_EvaluatedAt :: time
  es_UpdatedAt :: time

record EntitlementEvent =
  ee_ID :: string
  ee_WorkspaceID :: string
  ee_Subject :: string
  ee_MeterName :: string
  ee_PlanID :: string
  ee_PlanName :: string
  ee_Period :: Period
  ee_PreviousState :: OverageState
  ee_State :: OverageState
  ee_Type :: EventType
  ee_Current :: f64
  ee_Limit :: f64
  ee_Remaining :: f64
  ee_WarningPercent :: f64
  ee_Message :: string
  ee_CreatedAt :: time

record EntitlementPeriodSnapshot =
  ps_WorkspaceID :: string
  ps_Subject :: string
  ps_MeterName :: string
  ps_PlanID :: string
  ps_PlanName :: string
  ps_PlanVersion :: int
  ps_Period :: Period
  ps_From :: time
  ps_To :: time
  ps_State :: OverageState
  ps_Current :: f64
  ps_Limit :: f64
  ps_Included :: f64
  ps_Overage :: f64
  ps_Remaining :: f64
  ps_WarningPercent :: f64
  ps_EventCount :: int
  ps_UpdatedAt :: time

record EntitlementUsageCounter =
  uc_WorkspaceID :: string
  uc_Subject :: string
  uc_MeterName :: string
  uc_Period :: Period
  uc_From :: time
  uc_To :: time
  uc_EventCount :: int
  uc_QuantitySum :: f64
  uc_QuantityMin :: f64
  uc_QuantityMax :: f64
  uc_FirstQuantity :: f64
  uc_FirstEventTime :: time
  uc_LastQuantity :: f64
  uc_LastEventTime :: time
  uc_UpdatedAt :: time

record CheckJob =
  cj_WorkspaceID :: string
  cj_Subject :: string
  cj_MeterName :: string
  cj_RunAfter :: time
  cj_LockedUntil :: time
  cj_Attempts :: int
  cj_CreatedAt :: time
  cj_UpdatedAt :: time

record CheckDeadLetter =
  dl_ID :: string
  dl_Subject :: string
  dl_MeterName :: string
  dl_Attempts :: int
  dl_Error :: string
  dl_CreatedAt :: time

text \<open>The zero values that error returns and missing rows yield.\<close>

definition zero_counter :: EntitlementUsageCounter where
  "zero_counter = \<lparr>uc_WorkspaceID = [], uc_Subject = [], uc_MeterName = [], uc_Period = PeriodOther [],
     uc_From = zero_time, uc_To = zero_time, uc_EventCount = 0, uc_QuantitySum = 0, uc_QuantityMin = 0,
     uc_QuantityMax = 0, uc_FirstQuantity = 0, uc_FirstEventTime = zero_time, uc_LastQuantity = 0,
     uc_LastEventTime = zero_time, uc_UpdatedAt = zero_time\<rparr>"

definition zero_state :: EntitlementState where
  "zero_state = \<lparr>es_WorkspaceID = [], es_Subject = [], es_MeterName = [], es_PlanID = [], es_PlanName = [],
     es_Period = PeriodOther [], es_State = StateOther [], es_Current = 0, es_Limit = 0, es_Remaining = 0,
     es_WarningPercent = 0, es_Enforcement = [], es_FailurePolicy = [], es_Message = [], es_EvaluatedAt = zero_time, es_UpdatedAt = zero_time\<rparr>"

section \<open>Queries and commands\<close>

record PlanQuery =
  pq_ID :: string
  pq_Name :: string
  pq_CurrentOnly :: bool
  pq_Limit :: int

record AssignmentQuery =
  asq_Subject :: string
  asq_PlanID :: string
  asq_ActiveOnly :: bool
  asq_Limit :: int

record StateQuery =
  sq_Subject :: string
  sq_MeterName :: string
  sq_PlanID :: string
  sq_Period :: Period

record StateListQuery =
  slq_Subject :: string
  slq_MeterName :: string
  slq_State :: string
  slq_Limit :: int

record SnapshotQuery =
  snq_Subject :: string
  snq_MeterName :: string
  snq_PlanID :: string
  snq_State :: string
  snq_Limit :: int

record CounterQuery =
  cq_Subject :: string
  cq_MeterName :: string
  cq_Period :: Period
  cq_From :: time

record LimitCommand =
  lc_MeterName :: string
  lc_Period :: string
  lc_Limit :: f64
  lc_WarningPercent :: f64
  lc_Enforcement :: string
  lc_FailurePolicy :: string

record SavePlanCommand =
  spc_Name :: string
  spc_Description :: string
  spc_Limits :: "LimitCommand list"

record UpdatePlanCommand =
  upc_ID :: string
  upc_Name :: string
  upc_Description :: string
  upc_Limits :: "LimitCommand list"

record AssignSubjectCommand =
  asc_Subject :: string
  asc_PlanID :: string
  asc_EffectiveAt :: time

record AssignmentListQuery =
  alq_Subject :: string
  alq_PlanID :: string
  alq_IncludeHistory :: bool
  alq_Limit :: int

record CheckCommand =
  cc_Subject :: string
  cc_Meter :: string
  cc_Quantity :: f64

record ConsumptionAssessmentCommand =
  cac_Subject :: string
  cac_Meter :: string
  cac_Quantity :: f64
  cac_EventTime :: time

record UsageEvent =
  ue_Subject :: string
  ue_Meter :: string
  ue_Quantity :: f64

record ClaimCommand =
  clc_LockTTL :: duration
  clc_MaxAttempts :: int

record EvaluateCommand =
  evc_Subject :: string
  evc_Meter :: string

record CompleteCommand =
  cmc_Subject :: string
  cmc_Meter :: string
  cmc_Attempts :: int

record FailCommand =
  flc_Subject :: string
  flc_Meter :: string
  flc_Attempts :: int
  flc_RetryAfter :: duration
  flc_Error :: string

record DeadLetterCommand =
  dlc_Subject :: string
  dlc_Meter :: string
  dlc_Attempts :: int
  dlc_Error :: string

section \<open>Results\<close>

record PlanResult =
  plr_Plan :: Plan
  plr_Limits :: "PlanLimit list"

record PlanPreviewSummary =
  sum_Subjects :: int
  sum_OK :: int
  sum_Warning :: int
  sum_Exceeded :: int
  sum_RemovedLimits :: int

record PlanPreviewItem =
  pvi_MeterName :: string
  pvi_Period :: Period
  pvi_Current :: f64
  pvi_CurrentLimit :: f64
  pvi_ProposedLimit :: f64
  pvi_CurrentState :: OverageState
  pvi_ProposedState :: OverageState
  pvi_Remaining :: f64
  pvi_Overage :: f64
  pvi_Percent :: f64
  pvi_WarningPercent :: f64
  pvi_From :: time
  pvi_To :: time
  pvi_PeriodResetAt :: time
  pvi_Unit :: string
  pvi_Aggregation :: Aggregation
  pvi_EventCount :: int
  pvi_Removed :: bool
  pvi_ExistingLimitFound :: bool

record PlanPreviewSubject =
  pvs_Subject :: string
  pvs_AssignmentID :: string
  pvs_AssignmentStatus :: AssignmentStatus
  pvs_CurrentPlanID :: string
  pvs_CurrentPlanVersion :: int
  pvs_ProposedPlanID :: string
  pvs_ProposedPlanVersion :: int
  pvs_Items :: "PlanPreviewItem list"

record PlanPreviewResult =
  pvr_Current :: PlanResult
  pvr_Proposed :: PlanResult
  pvr_Summary :: PlanPreviewSummary
  pvr_Subjects :: "PlanPreviewSubject list"

record ProgressItem =
  pi_MeterName :: string
  pi_Period :: Period
  pi_State :: OverageState
  pi_Current :: f64
  pi_Limit :: f64
  pi_Remaining :: f64
  pi_Overage :: f64
  pi_Percent :: f64
  pi_WarningPercent :: f64
  pi_From :: time
  pi_To :: time
  pi_PeriodResetAt :: time
  pi_Unit :: string
  pi_Aggregation :: Aggregation
  pi_EventCount :: int

record SubjectProgressResult =
  spr_Subject :: string
  spr_Plan :: PlanResult
  spr_Items :: "ProgressItem list"

record EntitlementCheckResult =
  ecr_Allowed :: bool
  ecr_State :: OverageState
  ecr_Subject :: string
  ecr_MeterName :: string
  ecr_Quantity :: f64
  ecr_Current :: f64
  ecr_Limit :: f64
  ecr_Remaining :: f64
  ecr_Overage :: f64
  ecr_PlanID :: string
  ecr_PlanName :: string
  ecr_Period :: Period
  ecr_From :: time
  ecr_To :: time
  ecr_PeriodResetAt :: time
  ecr_RetryAfterSeconds :: int
  ecr_Message :: string

record ConsumptionAssessment =
  ca_Allowed :: bool
  ca_State :: OverageState
  ca_Subject :: string
  ca_MeterName :: string
  ca_Quantity :: f64
  ca_Current :: f64
  ca_Projected :: f64
  ca_Limit :: f64
  ca_Remaining :: f64
  ca_Overage :: f64
  ca_PlanID :: string
  ca_PlanName :: string
  ca_Period :: Period
  ca_From :: time
  ca_To :: time
  ca_PeriodResetAt :: time
  ca_RetryAfterSeconds :: int
  ca_Enforcement :: EnforcementMode
  ca_FailurePolicy :: FailurePolicy
  ca_Message :: string

record EvaluationResult =
  er_Subject :: string
  er_Meter :: string
  er_State :: "EntitlementState option"
  er_Event :: "EntitlementEvent option"
  er_Skipped :: bool
  er_Message :: string

definition zero_check_result :: EntitlementCheckResult where
  "zero_check_result = \<lparr>ecr_Allowed = False, ecr_State = StateOther [], ecr_Subject = [], ecr_MeterName = [],
     ecr_Quantity = 0, ecr_Current = 0, ecr_Limit = 0, ecr_Remaining = 0, ecr_Overage = 0, ecr_PlanID = [],
     ecr_PlanName = [], ecr_Period = PeriodOther [], ecr_From = zero_time, ecr_To = zero_time,
     ecr_PeriodResetAt = zero_time, ecr_RetryAfterSeconds = 0, ecr_Message = []\<rparr>"

definition zero_assessment :: ConsumptionAssessment where
  "zero_assessment = \<lparr>ca_Allowed = False, ca_State = StateOther [], ca_Subject = [], ca_MeterName = [],
     ca_Quantity = 0, ca_Current = 0, ca_Projected = 0, ca_Limit = 0, ca_Remaining = 0, ca_Overage = 0,
     ca_PlanID = [], ca_PlanName = [], ca_Period = PeriodOther [], ca_From = zero_time, ca_To = zero_time,
     ca_PeriodResetAt = zero_time, ca_RetryAfterSeconds = 0, ca_Enforcement = EnforcementOther [],
     ca_FailurePolicy = FailurePolicyOther [], ca_Message = []\<rparr>"

end
