(* ===== verification/EntitlementCalc.thy ===== *)
theory EntitlementCalc
  imports EntitlementTypes
begin

text \<open>
  The functions of the entitlement service that do not touch the store
  (\<^verbatim>\<open>src/internal/metering/app/entitlement/service.go\<close> from \<^verbatim>\<open>limitForMeter\<close> on, and
  \<^verbatim>\<open>projectedCounterValue\<close> of \<^verbatim>\<open>consumption.go\<close>): limits, normalisation of the texts of a
  plan, period windows, counter values and overage states.
  A locale states what a period step must satisfy for the window loop to end and to cover the
  time line; the calendar step of the code is its interpretation.
\<close>

section \<open>Limits of a plan\<close>

definition zero_limit :: PlanLimit where
  "zero_limit = \<lparr>lim_ID = [], lim_PlanID = [], lim_MeterName = [], lim_Period = PeriodOther [], lim_Limit = 0,
     lim_WarningPercent = 0, lim_Enforcement = EnforcementOther [], lim_FailurePolicy = FailurePolicyOther [],
     lim_CreatedAt = zero_time, lim_UpdatedAt = zero_time\<rparr>"

definition limitForMeter :: "PlanResult \<Rightarrow> string \<Rightarrow> PlanLimit option" where
  "limitForMeter p meterName = List.find (\<lambda>limit. lim_MeterName limit = meterName) (plr_Limits p)"

definition limitKey :: "string \<Rightarrow> Period \<Rightarrow> string" where
  "limitKey meterName period = meterName @ [char_of (0 :: nat)] @ period_text period"

definition limitsByMeterPeriod :: "PlanLimit list \<Rightarrow> (string, PlanLimit) fmap" where
  "limitsByMeterPeriod limits =
    foldl (\<lambda>result limit. fmupd (limitKey (lim_MeterName limit) (lim_Period limit)) limit result) fmempty limits"

section \<open>Normalisation\<close>

definition isFinitePositive :: "f64 \<Rightarrow> bool" where
  "isFinitePositive val \<longleftrightarrow> 0 < val \<and> \<not> f64_IsNaN val \<and> \<not> f64_IsInf val"

definition normalizePeriod :: "string \<Rightarrow> go_error + Period" where
  "normalizePeriod val =
    (let s = ToLower (TrimSpace val) in
     if s = '''' then Inr PeriodMonth
     else if s = ''day'' then Inr PeriodDay
     else if s = ''week'' then Inr PeriodWeek
     else if s = ''month'' then Inr PeriodMonth
     else if s = ''year'' then Inr PeriodYear
     else Inl (Errorf ErrInvalidInput '': unsupported plan period %q'' [SArg val]))"

definition normalizeEnforcement :: "string \<Rightarrow> go_error + EnforcementMode" where
  "normalizeEnforcement val =
    (let s = ToLower (TrimSpace val) in
     if s = '''' \<or> s = ''advisory'' then Inr EnforcementAdvisory
     else if s = ''hard'' then Inr EnforcementHard
     else Inl (Errorf ErrInvalidInput '': unsupported enforcement mode %q'' [SArg val]))"

definition normalizeFailurePolicy :: "string \<Rightarrow> go_error + FailurePolicy" where
  "normalizeFailurePolicy val =
    (let s = ToLower (TrimSpace val) in
     if s = '''' \<or> s = ''fail_open'' then Inr FailOpen
     else if s = ''fail_closed'' then Inr FailClosed
     else Inl (Errorf ErrInvalidInput '': unsupported failure policy %q'' [SArg val]))"

definition ent_normalizeLimit :: "int \<Rightarrow> int" where
  "ent_normalizeLimit limit =
    (if limit \<le> 0 then ent_DefaultLimit else if ent_MaxLimit < limit then ent_MaxLimit else limit)"

section \<open>Assignment status\<close>

text \<open>\<^verbatim>\<open>StatusAt\<close>; \<^verbatim>\<open>wall\<close> is the clock it reads when the argument is the zero time.\<close>

definition StatusAt :: "SubjectAssignment \<Rightarrow> time \<Rightarrow> time \<Rightarrow> AssignmentStatus" where
  "StatusAt a now0 wall =
    (let now = (if IsZero now0 then wall else now0) in
     if now < sa_AssignedAt a then AssignmentScheduled
     else if IsZero (sa_UnassignedAt a) \<or> now < sa_UnassignedAt a then AssignmentActive
     else AssignmentEnded)"

section \<open>Period windows\<close>

definition addPeriod :: "time \<Rightarrow> Period \<Rightarrow> time" where
  "addPeriod from period =
    (case period of
       PeriodDay \<Rightarrow> AddDate from 0 0 1
     | PeriodWeek \<Rightarrow> AddDate from 0 0 7
     | PeriodYear \<Rightarrow> AddDate from 1 0 0
     | _ \<Rightarrow> AddDate from 0 1 0)"

text \<open>A step moves at least one day ahead and at most 366 days.\<close>

lemma addPeriod_step: "from + day_ns \<le> addPeriod from p \<and> addPeriod from p \<le> from + 366 * day_ns"
  using AddDate_month_bounds [of "from"] AddDate_year_bounds [of "from"]
  by (cases p) (auto simp: addPeriod_def AddDate_days day_ns_def)

lemma addPeriod_greater [simp]: "from < addPeriod from p" "\<not> addPeriod from p \<le> from"
  using addPeriod_step [of "from" p] by (simp_all add: day_ns_def)

text \<open>The loop of \<^verbatim>\<open>periodWindow\<close>: \<^verbatim>\<open>for !now.Before(to)\<close>.\<close>

function window_loop :: "time \<Rightarrow> Period \<Rightarrow> time \<Rightarrow> time \<Rightarrow> time \<times> time" where
  "window_loop now period from to =
    (if to \<le> now then window_loop now period to (addPeriod to period) else (from, to))"
  by pat_completeness auto
termination
proof (relation "measure (\<lambda>(now, period, from, to). nat (now - to + 1))", simp)
  fix now :: time and period and "from" :: time and to :: time
  assume "to \<le> now"
  moreover have "to + 1 \<le> addPeriod to period"
    using addPeriod_greater(1) [of to period] by linarith
  ultimately show "((now, period, to, addPeriod to period), now, period, from, to)
      \<in> measure (\<lambda>(now, period, from, to). nat (now - to + 1))"
    by simp
qed

declare window_loop.simps [simp del]

definition periodWindow :: "time \<Rightarrow> time \<Rightarrow> Period \<Rightarrow> time \<times> time" where
  "periodWindow now anchor0 period =
    (let anchor = (if IsZero anchor0 then now else anchor0) in
     if now < anchor then (anchor, addPeriod anchor period)
     else window_loop now period anchor (addPeriod anchor period))"

text \<open>The window boundaries: the anchor moved by a number of steps.\<close>

fun boundary :: "(time \<Rightarrow> time) \<Rightarrow> time \<Rightarrow> nat \<Rightarrow> time" where
  "boundary step anchor 0 = anchor"
| "boundary step anchor (Suc n) = step (boundary step anchor n)"

text \<open>The interface of a period step, and what any window search over it satisfies.\<close>

locale period_step =
  fixes step :: "time \<Rightarrow> time"
  assumes step_ahead: "t + day_ns \<le> step t"
begin

lemma step_greater: "t < step t"
  using step_ahead [of t] by (simp add: day_ns_def)

lemma boundary_less: "m < n \<Longrightarrow> boundary step a m < boundary step a n"
proof (induction n)
  case (Suc n)
  then show ?case using step_greater [of "boundary step a n"]
    by (cases "m = n") (auto intro: less_trans)
qed simp

lemma boundary_le: "m \<le> n \<Longrightarrow> boundary step a m \<le> boundary step a n"
  using boundary_less [of m n a] by (cases "m = n") auto

lemma boundary_ahead: "a + int n * day_ns \<le> boundary step a n"
proof (induction n)
  case (Suc n)
  then show ?case using step_ahead [of "boundary step a n"] by (simp add: algebra_simps)
qed simp

text \<open>Every instant from the anchor on lies in exactly one window.\<close>

lemma window_exists: "a \<le> now \<Longrightarrow> \<exists>n. boundary step a n \<le> now \<and> now < boundary step a (Suc n)"
proof -
  assume a: "a \<le> now"
  have "\<exists>n. now < boundary step a n"
  proof
    show "now < boundary step a (nat (now - a + 1))"
      using boundary_ahead [of a "nat (now - a + 1)"] a by (simp add: day_ns_def)
  qed
  then have ex: "now < boundary step a (LEAST n. now < boundary step a n)" by (rule LeastI_ex)
  obtain n where n: "(LEAST n. now < boundary step a n) = Suc n"
    using ex a by (cases "LEAST n. now < boundary step a n") auto
  have "\<not> now < boundary step a n" using n by (intro not_less_Least) simp
  then show ?thesis using ex n by (intro exI [of _ n]) auto
qed

lemma window_unique:
  assumes "boundary step a m \<le> now" "now < boundary step a (Suc m)"
    and "boundary step a n \<le> now" "now < boundary step a (Suc n)"
  shows "m = n"
proof (rule ccontr)
  assume "m \<noteq> n"
  then consider "Suc m \<le> n" | "Suc n \<le> m" by linarith
  then show False
    using assms boundary_le [of "Suc m" n a] boundary_le [of "Suc n" m a] by cases auto
qed

end

interpretation add_period: period_step "\<lambda>t. addPeriod t p"
  by unfold_locales (use addPeriod_step in blast)

lemma window_loop_spec:
  assumes "from = boundary (\<lambda>t. addPeriod t p) a n" "to = addPeriod from p" "from \<le> now"
  shows "\<exists>k. n \<le> k \<and> window_loop now p from to =
      (boundary (\<lambda>t. addPeriod t p) a k, boundary (\<lambda>t. addPeriod t p) a (Suc k))
    \<and> boundary (\<lambda>t. addPeriod t p) a k \<le> now \<and> now < boundary (\<lambda>t. addPeriod t p) a (Suc k)"
  using assms
proof (induction now p "from" to arbitrary: n rule: window_loop.induct)
  case (1 now p "from" to)
  show ?case
  proof (cases "to \<le> now")
    case True
    obtain k where "Suc n \<le> k" "window_loop now p to (addPeriod to p) =
        (boundary (\<lambda>t. addPeriod t p) a k, boundary (\<lambda>t. addPeriod t p) a (Suc k))"
        "boundary (\<lambda>t. addPeriod t p) a k \<le> now" "now < boundary (\<lambda>t. addPeriod t p) a (Suc k)"
      using "1.IH" [OF True, of "Suc n"] "1.prems" True by auto
    then show ?thesis using True by (intro exI [of _ k]) (simp add: window_loop.simps [of now p "from" to])
  next
    case False
    then have "window_loop now p from to = (from, to)" by (simp add: window_loop.simps [of now p "from" to])
    then show ?thesis using "1.prems" False by (intro exI [of _ n]) auto
  qed
qed

lemma periodWindow_boundary:
  assumes "anchor \<le> now" "\<not> IsZero anchor"
  obtains k where "periodWindow now anchor p =
      (boundary (\<lambda>t. addPeriod t p) anchor k, boundary (\<lambda>t. addPeriod t p) anchor (Suc k))"
    and "boundary (\<lambda>t. addPeriod t p) anchor k \<le> now" "now < boundary (\<lambda>t. addPeriod t p) anchor (Suc k)"
  using window_loop_spec [of anchor p anchor 0 "addPeriod anchor p" now] assms that
  by (auto simp: periodWindow_def Let_def)

lemma periodWindow_cases:
  "periodWindow now anchor p =
    (if IsZero anchor then (now, addPeriod now p)
     else if now < anchor then (anchor, addPeriod anchor p)
     else window_loop now p anchor (addPeriod anchor p))"
  by (simp add: periodWindow_def Let_def window_loop.simps [of now p now] not_le)

section \<open>Counter values and states\<close>

definition counterValue :: "EntitlementUsageCounter \<Rightarrow> Aggregation \<Rightarrow> f64 \<Rightarrow> f64" where
  "counterValue counter aggregation durationSeconds =
    (if uc_EventCount counter \<le> 0 then 0
     else case aggregation of
       AggregationCount \<Rightarrow> f64_of_int (uc_EventCount counter)
     | AggregationAverage \<Rightarrow> uc_QuantitySum counter div f64_of_int (uc_EventCount counter)
     | AggregationMinimum \<Rightarrow> uc_QuantityMin counter
     | AggregationMaximum \<Rightarrow> uc_QuantityMax counter
     | AggregationFirst \<Rightarrow> uc_FirstQuantity counter
     | AggregationLast \<Rightarrow> uc_LastQuantity counter
     | AggregationRate \<Rightarrow> (if durationSeconds \<le> 0 then 0 else f64_of_int (uc_EventCount counter) div durationSeconds)
     | _ \<Rightarrow> uc_QuantitySum counter)"

definition projectedCounterValue ::
  "EntitlementUsageCounter \<Rightarrow> Aggregation \<Rightarrow> f64 \<Rightarrow> time \<Rightarrow> f64 \<Rightarrow> f64" where
  "projectedCounterValue counter aggregation quantity eventTime durationSeconds =
    (case aggregation of
       AggregationCount \<Rightarrow> f64_of_int (uc_EventCount counter + 1)
     | AggregationAverage \<Rightarrow> (uc_QuantitySum counter + quantity) div f64_of_int (uc_EventCount counter + 1)
     | AggregationMinimum \<Rightarrow>
         (if uc_EventCount counter = 0 then quantity else f64_Min (uc_QuantityMin counter) quantity)
     | AggregationMaximum \<Rightarrow>
         (if uc_EventCount counter = 0 then quantity else f64_Max (uc_QuantityMax counter) quantity)
     | AggregationFirst \<Rightarrow>
         (if uc_EventCount counter = 0 \<or> eventTime < uc_FirstEventTime counter then quantity
          else uc_FirstQuantity counter)
     | AggregationLast \<Rightarrow>
         (if uc_EventCount counter = 0 \<or> \<not> eventTime < uc_LastEventTime counter then quantity
          else uc_LastQuantity counter)
     | AggregationRate \<Rightarrow>
         (if durationSeconds \<le> 0 then 0 else f64_of_int (uc_EventCount counter + 1) div durationSeconds)
     | _ \<Rightarrow> uc_QuantitySum counter + quantity)"

definition overageState :: "f64 \<Rightarrow> f64 \<Rightarrow> f64 \<Rightarrow> f64 \<Rightarrow> OverageState" where
  "overageState percent current limit warningPercent =
    (if limit \<le> current then StateExceeded
     else if warningPercent \<le> percent then StateWarning
     else StateOK)"

definition itemState :: "f64 \<Rightarrow> f64 \<Rightarrow> f64 \<Rightarrow> f64 \<Rightarrow> OverageState" where
  "itemState percent current limit warningPercent = overageState percent current limit warningPercent"

definition worstState :: "OverageState \<Rightarrow> OverageState \<Rightarrow> OverageState" where
  "worstState current nxt =
    (if nxt = StateExceeded \<or> current = StateExceeded then StateExceeded
     else if nxt = StateWarning \<or> current = StateWarning then StateWarning
     else StateOK)"

text \<open>\<^verbatim>\<open>Duration.Seconds\<close>: whole seconds plus the nanoseconds divided by 10 ^ 9.\<close>

definition duration_Seconds :: "duration \<Rightarrow> f64" where
  "duration_Seconds d = (let s = (if 0 \<le> d then d div Second else - ((- d) div Second)); n = d - s * Second in
     f64_of_int s + f64_of_int n div Fin 1000000000)"

fun f64_Ceil_int :: "f64 \<Rightarrow> int" where
  "f64_Ceil_int (Fin x) = \<lceil>x\<rceil>"
| "f64_Ceil_int v = - (2 ^ 63)"

definition quotaRetryAfterSeconds :: "time \<Rightarrow> time \<Rightarrow> int" where
  "quotaRetryAfterSeconds now resetAt =
    (if IsZero resetAt \<or> \<not> now < resetAt then 0
     else f64_Ceil_int (duration_Seconds (time_Sub resetAt now)))"

section \<open>Evaluation records\<close>

definition entitlementMessage :: "OverageState \<Rightarrow> string" where
  "entitlementMessage state =
    (case state of
       StateExceeded \<Rightarrow> ''quota exceeded''
     | StateWarning \<Rightarrow> ''quota warning threshold reached''
     | _ \<Rightarrow> ''quota is available'')"

definition entitlementStateFromProgress :: "string \<Rightarrow> Plan \<Rightarrow> ProgressItem \<Rightarrow> time \<Rightarrow> EntitlementState" where
  "entitlementStateFromProgress subject plan item now =
    \<lparr>es_WorkspaceID = [], es_Subject = subject, es_MeterName = pi_MeterName item, es_PlanID = pl_ID plan,
     es_PlanName = pl_Name plan, es_Period = pi_Period item, es_State = pi_State item,
     es_Current = pi_Current item, es_Limit = pi_Limit item, es_Remaining = pi_Remaining item,
     es_WarningPercent = pi_WarningPercent item, es_Enforcement = [], es_FailurePolicy = [], es_Message = entitlementMessage (pi_State item),
     es_EvaluatedAt = now, es_UpdatedAt = now\<rparr>"

definition entitlementSnapshotFromProgress ::
  "string \<Rightarrow> Plan \<Rightarrow> ProgressItem \<Rightarrow> time \<Rightarrow> EntitlementPeriodSnapshot" where
  "entitlementSnapshotFromProgress subject plan item now =
    (let included0 = f64_Min (pi_Current item) (pi_Limit item);
         included = (if included0 < 0 then 0 else included0);
         overage0 = pi_Current item - pi_Limit item;
         overage = (if overage0 < 0 then 0 else overage0)
     in \<lparr>ps_WorkspaceID = [], ps_Subject = subject, ps_MeterName = pi_MeterName item, ps_PlanID = pl_ID plan,
         ps_PlanName = pl_Name plan, ps_PlanVersion = pl_Version plan, ps_Period = pi_Period item,
         ps_From = pi_From item, ps_To = pi_To item, ps_State = pi_State item, ps_Current = pi_Current item,
         ps_Limit = pi_Limit item, ps_Included = included, ps_Overage = overage,
         ps_Remaining = pi_Remaining item, ps_WarningPercent = pi_WarningPercent item,
         ps_EventCount = pi_EventCount item, ps_UpdatedAt = now\<rparr>)"

definition entitlementEventType :: "EntitlementState \<Rightarrow> OverageState \<Rightarrow> EventType option" where
  "entitlementEventType previous nxt =
    (if es_State previous = nxt then None
     else case nxt of
       StateOK \<Rightarrow> (if es_State previous = StateOther [] then None else Some EventRecovered)
     | StateWarning \<Rightarrow> Some EventWarning
     | StateExceeded \<Rightarrow> Some EventExceeded
     | _ \<Rightarrow> None)"

section \<open>Transitions\<close>

definition event_of_state :: "OverageState \<Rightarrow> EventType option" where
  "event_of_state s = (case s of StateOK \<Rightarrow> Some EventRecovered | StateWarning \<Rightarrow> Some EventWarning
     | StateExceeded \<Rightarrow> Some EventExceeded | _ \<Rightarrow> None)"

lemma entitlementEventType_Some:
  "entitlementEventType previous nxt = Some t \<longleftrightarrow>
    es_State previous \<noteq> nxt \<and> event_of_state nxt = Some t \<and> (nxt = StateOK \<longrightarrow> es_State previous \<noteq> StateOther [])"
  by (cases nxt) (auto simp: entitlementEventType_def event_of_state_def)

lemma entitlementEventType_None:
  "nxt \<in> {StateOK, StateWarning, StateExceeded} \<Longrightarrow> entitlementEventType previous nxt = None \<longleftrightarrow>
    es_State previous = nxt \<or> (nxt = StateOK \<and> es_State previous = StateOther [])"
  by (auto simp: entitlementEventType_def)

text \<open>The events that a sequence of evaluations emits, each against the state the last one stored.\<close>

fun event_trace :: "EntitlementState \<Rightarrow> OverageState list \<Rightarrow> EventType list" where
  "event_trace previous [] = []"
| "event_trace previous (s # ss) =
    (case entitlementEventType previous s of None \<Rightarrow> [] | Some t \<Rightarrow> [t]) @ event_trace (previous\<lparr>es_State := s\<rparr>) ss"

fun no_repeat :: "'a option \<Rightarrow> 'a list \<Rightarrow> bool" where
  "no_repeat p [] = True"
| "no_repeat p (x # xs) = (p \<noteq> Some x \<and> no_repeat (Some x) xs)"

lemma event_of_state_inj: "event_of_state a = Some t \<Longrightarrow> event_of_state b = Some t \<Longrightarrow> a = b"
  by (cases a; cases b; auto simp: event_of_state_def)

lemma event_trace_no_repeat:
  assumes "set ss \<subseteq> {StateOK, StateWarning, StateExceeded}"
    and "lst = event_of_state (es_State previous) \<or> (lst = None \<and> es_State previous \<in> {StateOther [], StateOK})"
  shows "no_repeat lst (event_trace previous ss)"
  using assms
proof (induction ss arbitrary: previous lst)
  case (Cons s ss)
  let ?next = "previous\<lparr>es_State := s\<rparr>"
  have s: "s \<in> {StateOK, StateWarning, StateExceeded}" using Cons.prems(1) by auto
  show ?case
  proof (cases "entitlementEventType previous s")
    case None
    then have "es_State previous = s \<or> s = StateOK \<and> es_State previous = StateOther []"
      using entitlementEventType_None [OF s] by blast
    then have "lst = event_of_state s \<or> lst = None \<and> s \<in> {StateOther [], StateOK}"
      using Cons.prems(2) by (auto simp: event_of_state_def)
    then show ?thesis using Cons None by simp
  next
    case (Some t)
    then have t: "es_State previous \<noteq> s" "event_of_state s = Some t" by (auto simp: entitlementEventType_Some)
    then have "lst \<noteq> Some t" using Cons.prems(2) event_of_state_inj [of s t "es_State previous"] by auto
    then show ?thesis using Cons Some t by simp
  qed
qed simp

section \<open>Properties\<close>

text \<open>Claim C22. The loop of periodWindow ends for every instant; from the anchor on, the window it
  returns contains the instant, ends one calendar step after it starts, starts at or after the
  anchor, is the same for every instant inside it, and is followed by the window that starts at
  its end.\<close>

theorem periodWindow_partition:
  assumes "anchor \<le> now" and "\<not> IsZero anchor"
  shows "case periodWindow now anchor p of (from, to) \<Rightarrow>
    anchor \<le> from \<and> from \<le> now \<and> now < to \<and> to = addPeriod from p
    \<and> (\<forall>t. from \<le> t \<and> t < to \<longrightarrow> periodWindow t anchor p = (from, to))
    \<and> periodWindow to anchor p = (to, addPeriod to p)"
proof -
  let ?b = "boundary (\<lambda>t. addPeriod t p) anchor"
  have win: "periodWindow t anchor p = (?b k, ?b (Suc k))" if "?b k \<le> t" "t < ?b (Suc k)" for t k
  proof -
    have "anchor \<le> t" using add_period.boundary_le [of 0 k p anchor] that by simp
    then obtain j where j: "periodWindow t anchor p = (?b j, ?b (Suc j))" "?b j \<le> t" "t < ?b (Suc j)"
      using assms(2) by (rule periodWindow_boundary)
    then have "j = k" using add_period.window_unique that by blast
    then show ?thesis using j by simp
  qed
  obtain k where k: "periodWindow now anchor p = (?b k, ?b (Suc k))" "?b k \<le> now" "now < ?b (Suc k)"
    using assms by (rule periodWindow_boundary)
  have "anchor \<le> ?b k" using add_period.boundary_le [of 0 k p anchor] by simp
  moreover have "periodWindow (?b (Suc k)) anchor p = (?b (Suc k), ?b (Suc (Suc k)))"
    by (rule win) (simp_all only: boundary.simps addPeriod_greater order_refl)
  ultimately show ?thesis using k win by auto
qed

lemma periodWindow_partition_witness:
  "case periodWindow (40 * day_ns) (2 * day_ns) PeriodWeek of (from, to) \<Rightarrow> from \<le> 40 * day_ns \<and> 40 * day_ns < to"
  using periodWindow_partition [of "2 * day_ns" "40 * day_ns" PeriodWeek]
  by (auto simp: day_ns_def IsZero_def zero_time_def)

text \<open>Month windows drift: from an assignment on January 31 the boundaries fall on March 3
  and then on the 3rd of every month, because each step adds a month to the previous boundary
  and not to the anchor.\<close>

lemma month_windows_drift:
  "map (\<lambda>n. date_of_days (day_number (boundary (\<lambda>t. addPeriod t PeriodMonth) (days_of_date 2023 1 31 * day_ns) n)))
     [0, 1, 2, 3] = [(2023, 1, 31), (2023, 3, 3), (2023, 4, 3), (2023, 5, 3)]
   \<and> periodWindow (days_of_date 2023 3 2 * day_ns) (days_of_date 2023 1 31 * day_ns) PeriodMonth
     = (days_of_date 2023 1 31 * day_ns, days_of_date 2023 3 3 * day_ns)"
proof -
  have b: "AddDate (738550 * day_ns) 0 1 0 = 738581 * day_ns" "AddDate (738581 * day_ns) 0 1 0 = 738612 * day_ns"
    "AddDate (738612 * day_ns) 0 1 0 = 738642 * day_ns"
    by (simp_all add: calendar_defs)
  have d: "days_of_date 2023 1 31 = 738550" "days_of_date 2023 3 3 = 738581" "days_of_date 2023 3 2 = 738580"
    by (simp_all add: calendar_defs)
  show ?thesis
    by (simp add: d b addPeriod_def eval_nat_numeral periodWindow_def Let_def IsZero_def zero_time_def
        window_loop.simps [of _ PeriodMonth "738550 * day_ns"])
      (simp add: calendar_defs)
qed

text \<open>However the state of a meter moves between ok, warning and exceeded, the events emitted
  never repeat a type in a row, and a subject that has never left ok has no recovery event.\<close>

lemma entitlement_events_alternate:
  assumes "set ss \<subseteq> {StateOK, StateWarning, StateExceeded}" and "es_State previous = StateOther []"
  shows "no_repeat None (event_trace previous ss) \<and>
    (set ss \<subseteq> {StateOK} \<longrightarrow> event_trace previous ss = [])"
proof
  show "no_repeat None (event_trace previous ss)"
    using assms by (intro event_trace_no_repeat) (auto simp: event_of_state_def)
  have "set ss \<subseteq> {StateOK} \<Longrightarrow> es_State p \<in> {StateOther [], StateOK} \<Longrightarrow> event_trace p ss = []" for p
    by (induction ss arbitrary: p) (auto simp: entitlementEventType_def)
  then show "set ss \<subseteq> {StateOK} \<longrightarrow> event_trace previous ss = []" using assms(2) by simp
qed

lemma entitlement_events_alternate_example:
  "no_repeat None (event_trace zero_state [StateOK, StateWarning, StateWarning, StateExceeded, StateOK, StateExceeded])
   \<and> event_trace zero_state [StateOK, StateWarning, StateWarning, StateExceeded, StateOK, StateExceeded]
     = [EventWarning, EventExceeded, EventRecovered, EventExceeded]"
  using entitlement_events_alternate
    [of "[StateOK, StateWarning, StateWarning, StateExceeded, StateOK, StateExceeded]" zero_state]
  by (simp add: zero_state_def entitlementEventType_def)

end
