(* ===== verification/UsageBatch.thy ===== *)
theory UsageBatch
  imports EntitlementCalc "HOL-Library.Product_Lexorder" "HOL-Library.List_Lexorder" "HOL-Library.Multiset"
begin

text \<open>
  The counters of a batch of events:
  \<^verbatim>\<open>src/internal/metering/adapters/internal/usagebatch/batch.go\<close>.  A Go map is a list of rows
  with distinct keys; the counters are sorted by their key, so the order of the map's
  iteration does not show.  The lemmas show that the windows counted are the windows the
  entitlement service reads, that a batch keeps one counter per key, and that a counter
  holds the count, the sum, the extremes and the ends of the events that fall in it.
\<close>

section \<open>Types\<close>

record Bounds =
  bd_From :: time
  bd_To :: time

record Assignment =
  asg_AssignedAt :: time
  asg_Anchor :: time
  asg_UnassignedAt :: "time option"

record Counter =
  ct_Subject :: string
  ct_MeterName :: string
  ct_Period :: string
  ct_PeriodStart :: time
  ct_PeriodEnd :: time
  ct_EventCount :: int
  ct_QuantitySum :: f64
  ct_QuantityMin :: f64
  ct_QuantityMax :: f64
  ct_FirstQuantity :: f64
  ct_FirstEventAt :: time
  ct_LastQuantity :: f64
  ct_LastEventAt :: time

record counterWindow =
  cw_period :: string
  cw_from :: time
  cw_to :: time

type_synonym counterKey = "string \<times> string \<times> string \<times> time"

definition counter_key :: "Counter \<Rightarrow> counterKey" where
  "counter_key c = (ct_Subject c, ct_MeterName c, ct_Period c, ct_PeriodStart c)"

section \<open>Windows\<close>

definition addCounterPeriod :: "time \<Rightarrow> string \<Rightarrow> time" where
  "addCounterPeriod from period =
    (if period = ''day'' then AddDate from 0 0 1
     else if period = ''week'' then AddDate from 0 0 7
     else if period = ''year'' then AddDate from 1 0 0
     else AddDate from 0 1 0)"

lemma addCounterPeriod_step: "from + day_ns \<le> addCounterPeriod from period"
  using AddDate_month_bounds [of "from"] AddDate_year_bounds [of "from"]
  by (auto simp: addCounterPeriod_def AddDate_days day_ns_def)

function counter_window_loop :: "time \<Rightarrow> string \<Rightarrow> time \<Rightarrow> time \<Rightarrow> time \<times> time" where
  "counter_window_loop tm period from to =
    (if to \<le> tm then counter_window_loop tm period to (addCounterPeriod to period) else (from, to))"
  by pat_completeness auto
termination
proof (relation "measure (\<lambda>(tm, period, from, to). nat (tm - to + 1))", simp)
  fix tm :: time and period and "from" :: time and to :: time
  assume "to \<le> tm"
  moreover have "to + 1 \<le> addCounterPeriod to period"
    using addCounterPeriod_step [of to period] by (simp add: day_ns_def)
  ultimately show "((tm, period, to, addCounterPeriod to period), tm, period, from, to)
      \<in> measure (\<lambda>(tm, period, from, to). nat (tm - to + 1))"
    by simp
qed

declare counter_window_loop.simps [simp del]

definition counterWindowForPeriod :: "time \<Rightarrow> time \<Rightarrow> string \<Rightarrow> counterWindow" where
  "counterWindowForPeriod tm anchor period =
    (case counter_window_loop tm period anchor (addCounterPeriod anchor period) of (from, to) \<Rightarrow>
      \<lparr>cw_period = period, cw_from = from, cw_to = to\<rparr>)"

definition counterWindows :: "time \<Rightarrow> time \<Rightarrow> counterWindow list" where
  "counterWindows tm anchor =
    (if IsZero anchor \<or> tm < anchor then []
     else map (counterWindowForPeriod tm anchor) [''day'', ''week'', ''month'', ''year''])"

interpretation add_counter_period: period_step "\<lambda>t. addCounterPeriod t period"
  by unfold_locales (rule addCounterPeriod_step)

section \<open>Aggregation\<close>

definition subject_bound_step :: "(string \<times> Bounds) list \<Rightarrow> Event \<Rightarrow> (string \<times> Bounds) list" where
  "subject_bound_step bounds event =
    (let tm = ev_eventTime event in
     row_upsert fst
       (\<lambda>(s, b). (s, \<lparr>bd_From = (if tm < bd_From b then tm else bd_From b),
                     bd_To = (if bd_To b < tm then tm else bd_To b)\<rparr>))
       (ev_subject event, \<lparr>bd_From = tm, bd_To = tm\<rparr>) bounds)"

definition SubjectBounds :: "Event list \<Rightarrow> (string \<times> Bounds) list" where
  "SubjectBounds events = foldl subject_bound_step [] events"

text \<open>\<^verbatim>\<open>activeAnchor\<close> compares the formatted texts of the times, as the store does.\<close>

definition activeAnchor :: "Assignment list \<Rightarrow> time \<Rightarrow> time option" where
  "activeAnchor assignments tm =
    map_option asg_Anchor (List.find (\<lambda>a. \<not> time_text_less tm (asg_AssignedAt a)
      \<and> (case asg_UnassignedAt a of None \<Rightarrow> True | Some u \<Rightarrow> time_text_less tm u)) assignments)"

definition new_counter :: "Event \<Rightarrow> counterWindow \<Rightarrow> Counter" where
  "new_counter event window =
    \<lparr>ct_Subject = ev_subject event, ct_MeterName = ev_meterName event, ct_Period = cw_period window,
     ct_PeriodStart = cw_from window, ct_PeriodEnd = cw_to window, ct_EventCount = 1,
     ct_QuantitySum = ev_quantity event, ct_QuantityMin = ev_quantity event, ct_QuantityMax = ev_quantity event,
     ct_FirstQuantity = ev_quantity event, ct_FirstEventAt = ev_eventTime event,
     ct_LastQuantity = ev_quantity event, ct_LastEventAt = ev_eventTime event\<rparr>"

text \<open>Go's built-in \<^verbatim>\<open>min\<close> and \<^verbatim>\<open>max\<close>: NaN when an argument is NaN.\<close>

definition go_min :: "f64 \<Rightarrow> f64 \<Rightarrow> f64" where
  "go_min a b = (if a = NaN \<or> b = NaN then NaN else if b < a then b else a)"

definition go_max :: "f64 \<Rightarrow> f64 \<Rightarrow> f64" where
  "go_max a b = (if a = NaN \<or> b = NaN then NaN else if a < b then b else a)"

definition add_to_counter :: "Event \<Rightarrow> Counter \<Rightarrow> Counter" where
  "add_to_counter event c =
    (let q = ev_quantity event; tm = ev_eventTime event in
     c\<lparr>ct_EventCount := ct_EventCount c + 1,
       ct_QuantitySum := ct_QuantitySum c + q,
       ct_QuantityMin := go_min (ct_QuantityMin c) q,
       ct_QuantityMax := go_max (ct_QuantityMax c) q,
       ct_FirstEventAt := (if tm < ct_FirstEventAt c then tm else ct_FirstEventAt c),
       ct_FirstQuantity := (if tm < ct_FirstEventAt c then q else ct_FirstQuantity c),
       ct_LastEventAt := (if \<not> tm < ct_LastEventAt c then tm else ct_LastEventAt c),
       ct_LastQuantity := (if \<not> tm < ct_LastEventAt c then q else ct_LastQuantity c)\<rparr>)"

definition count_window :: "Event \<Rightarrow> Counter list \<Rightarrow> counterWindow \<Rightarrow> Counter list" where
  "count_window event counters window =
    row_upsert counter_key (add_to_counter event) (new_counter event window) counters"

definition count_event :: "(string \<Rightarrow> Assignment list) \<Rightarrow> Counter list \<Rightarrow> Event \<Rightarrow> Counter list" where
  "count_event assignments counters event =
    (case activeAnchor (assignments (ev_subject event)) (ev_eventTime event) of
       None \<Rightarrow> counters
     | Some anchor \<Rightarrow> foldl (count_window event) counters (counterWindows (ev_eventTime event) anchor))"

definition AggregateCounters :: "Event list \<Rightarrow> (string \<Rightarrow> Assignment list) \<Rightarrow> Counter list" where
  "AggregateCounters events assignments =
    sort_key counter_key (foldl (count_event assignments) [] events)"

section \<open>Lemmas\<close>

lemma addCounterPeriod_agrees: "p \<in> {PeriodDay, PeriodWeek, PeriodMonth, PeriodYear} \<Longrightarrow>
  addCounterPeriod t (period_text p) = addPeriod t p"
  by (auto simp: addCounterPeriod_def addPeriod_def)

lemma counter_window_loop_agrees:
  assumes "p \<in> {PeriodDay, PeriodWeek, PeriodMonth, PeriodYear}"
  shows "counter_window_loop tm (period_text p) from to = window_loop tm p from to"
  using assms
proof (induction tm p "from" to rule: window_loop.induct)
  case (1 tm p "from" to)
  then have "addCounterPeriod to (period_text p) = addPeriod to p" by (intro addCounterPeriod_agrees)
  with 1 show ?case
    by (simp add: window_loop.simps [of tm p "from" to] counter_window_loop.simps [of tm _ "from" to])
qed

lemma counterWindow_agrees:
  assumes "p \<in> {PeriodDay, PeriodWeek, PeriodMonth, PeriodYear}" "anchor \<le> tm" "\<not> IsZero anchor"
  shows "counterWindowForPeriod tm anchor (period_text p) =
    \<lparr>cw_period = period_text p, cw_from = fst (periodWindow tm anchor p), cw_to = snd (periodWindow tm anchor p)\<rparr>"
  using assms counter_window_loop_agrees [OF assms(1)] addCounterPeriod_agrees [OF assms(1)]
  by (simp add: counterWindowForPeriod_def periodWindow_cases split: prod.splits)

lemma counter_window_loop_end:
  "to = addCounterPeriod from period \<Longrightarrow> counter_window_loop tm period from to = (f, u) \<Longrightarrow> u = addCounterPeriod f period"
proof (induction tm period "from" to rule: counter_window_loop.induct)
  case (1 tm period "from" to)
  have step: "(if to \<le> tm then counter_window_loop tm period to (addCounterPeriod to period) else (from, to)) = (f, u)"
    using "1.prems"(2) by (simp only: counter_window_loop.simps [of tm period "from" to])
  show ?case
  proof (cases "to \<le> tm")
    case True
    then show ?thesis using "1.IH" step by simp
  next
    case False
    then show ?thesis using "1.prems"(1) step by auto
  qed
qed

lemma counterWindow_fields:
  "cw_period (counterWindowForPeriod tm anchor period) = period"
  "cw_to (counterWindowForPeriod tm anchor period) =
    addCounterPeriod (cw_from (counterWindowForPeriod tm anchor period)) period"
  by (auto simp: counterWindowForPeriod_def intro: counter_window_loop_end split: prod.splits)

subsection \<open>One counter per key\<close>

text \<open>The keys an event counts under, and the counter it opens for a key.\<close>

definition event_keys :: "(string \<Rightarrow> Assignment list) \<Rightarrow> Event \<Rightarrow> counterKey list" where
  "event_keys assignments e =
    (case activeAnchor (assignments (ev_subject e)) (ev_eventTime e) of
       None \<Rightarrow> []
     | Some anchor \<Rightarrow> map (\<lambda>w. (ev_subject e, ev_meterName e, cw_period w, cw_from w))
         (counterWindows (ev_eventTime e) anchor))"

definition open_counter :: "counterKey \<Rightarrow> Event \<Rightarrow> Counter" where
  "open_counter k e = (case k of (s, m, period, start) \<Rightarrow>
     new_counter e \<lparr>cw_period = period, cw_from = start, cw_to = addCounterPeriod start period\<rparr>)"

definition count_option :: "counterKey \<Rightarrow> Counter option \<Rightarrow> Event \<Rightarrow> Counter option" where
  "count_option k c e = (case c of None \<Rightarrow> Some (open_counter k e) | Some c \<Rightarrow> Some (add_to_counter e c))"

text \<open>The specification of a counter: the events of the batch that fall under its key, in order.\<close>

definition counter_of :: "(string \<Rightarrow> Assignment list) \<Rightarrow> Event list \<Rightarrow> counterKey \<Rightarrow> Counter option" where
  "counter_of assignments events k =
    foldl (count_option k) None (filter (\<lambda>e. k \<in> set (event_keys assignments e)) events)"

lemma counter_key_add [simp]: "counter_key (add_to_counter e c) = counter_key c"
  by (simp add: counter_key_def add_to_counter_def Let_def)

lemma counter_key_new [simp]:
  "counter_key (new_counter e w) = (ev_subject e, ev_meterName e, cw_period w, cw_from w)"
  by (simp add: counter_key_def new_counter_def)

lemma event_keys_distinct: "distinct (event_keys assignments e)"
  by (auto simp: event_keys_def counterWindows_def counterWindow_fields split: option.splits)

lemma count_window_find:
  "row_find (\<lambda>c. counter_key c = k) (count_window e cs w) =
    (if k = counter_key (new_counter e w)
     then Some (case row_find (\<lambda>c. counter_key c = k) cs of None \<Rightarrow> new_counter e w | Some c \<Rightarrow> add_to_counter e c)
     else row_find (\<lambda>c. counter_key c = k) cs)"
  unfolding count_window_def by (subst row_find_upsert) (auto split: option.splits)

lemma count_windows_find:
  assumes "distinct (map (\<lambda>w. counter_key (new_counter e w)) ws)"
    and "\<forall>w \<in> set ws. cw_to w = addCounterPeriod (cw_from w) (cw_period w)"
  shows "row_find (\<lambda>c. counter_key c = k) (foldl (count_window e) cs ws) =
    (if k \<in> (\<lambda>w. counter_key (new_counter e w)) ` set ws
     then count_option k (row_find (\<lambda>c. counter_key c = k) cs) e
     else row_find (\<lambda>c. counter_key c = k) cs)"
  using assms
proof (induction ws arbitrary: cs)
  case (Cons w ws)
  have w: "open_counter (ev_subject e, ev_meterName e, cw_period w, cw_from w) e = new_counter e w"
    using Cons.prems(2) by (simp add: open_counter_def new_counter_def)
  show ?case
  proof (cases "k = counter_key (new_counter e w)")
    case True
    then have "k \<notin> (\<lambda>w. counter_key (new_counter e w)) ` set ws" using Cons.prems(1) by auto
    then show ?thesis using Cons True w
      by (simp add: count_window_find count_option_def split: option.splits)
  next
    case False
    then show ?thesis using Cons by (simp add: count_window_find)
  qed
qed simp

lemma count_event_find:
  "row_find (\<lambda>c. counter_key c = k) (count_event assignments cs e) =
    (if k \<in> set (event_keys assignments e) then count_option k (row_find (\<lambda>c. counter_key c = k) cs) e
     else row_find (\<lambda>c. counter_key c = k) cs)"
proof (cases "activeAnchor (assignments (ev_subject e)) (ev_eventTime e)")
  case None
  then show ?thesis by (simp add: count_event_def event_keys_def)
next
  case (Some anchor)
  let ?ws = "counterWindows (ev_eventTime e) anchor"
  have keys: "event_keys assignments e = map (\<lambda>w. counter_key (new_counter e w)) ?ws"
    using Some by (simp add: event_keys_def)
  have d: "distinct (map (\<lambda>w. counter_key (new_counter e w)) ?ws)"
    using event_keys_distinct [of assignments e] by (simp only: keys)
  have t: "\<forall>w \<in> set ?ws. cw_to w = addCounterPeriod (cw_from w) (cw_period w)"
    by (auto simp: counterWindows_def counterWindow_fields)
  show ?thesis
    using count_windows_find [OF d t, of k cs] Some by (simp add: count_event_def keys)
qed

lemma count_events_find:
  "row_find (\<lambda>c. counter_key c = k) (foldl (count_event assignments) cs events) =
    foldl (count_option k) (row_find (\<lambda>c. counter_key c = k) cs)
      (filter (\<lambda>e. k \<in> set (event_keys assignments e)) events)"
  by (induction events arbitrary: cs) (simp_all add: count_event_find)

lemma distinct_keys_count_window: "distinct_keys counter_key cs \<Longrightarrow> distinct_keys counter_key (count_window e cs w)"
  unfolding count_window_def by (rule distinct_keys_upsert) auto

lemma distinct_keys_count_windows:
  "distinct_keys counter_key cs \<Longrightarrow> distinct_keys counter_key (foldl (count_window e) cs ws)"
  by (induction ws arbitrary: cs) (auto intro: distinct_keys_count_window)

lemma distinct_keys_count_events:
  "distinct_keys counter_key cs \<Longrightarrow> distinct_keys counter_key (foldl (count_event assignments) cs events)"
  by (induction events arbitrary: cs)
    (auto simp: count_event_def intro: distinct_keys_count_windows split: option.splits)

lemma row_find_key_iff:
  "distinct_keys key rows \<Longrightarrow> row_find (\<lambda>r. key r = k) rows = Some r \<longleftrightarrow> r \<in> set rows \<and> key r = k"
proof (induction rows)
  case (Cons q rows)
  then show ?case by (auto simp: distinct_keys_def)
qed simp

lemma row_find_sort_key:
  assumes "distinct_keys key rows"
  shows "row_find (\<lambda>r. key r = k) (sort_key f rows) = row_find (\<lambda>r. key r = k) rows"
proof -
  have "mset (map key (sort_key f rows)) = mset (map key rows)" by simp
  then have d: "distinct_keys key (sort_key f rows)"
    using assms unfolding distinct_keys_def by (metis mset_eq_imp_distinct_iff)
  have "row_find (\<lambda>r. key r = k) (sort_key f rows) = Some r \<longleftrightarrow> row_find (\<lambda>r. key r = k) rows = Some r" for r
    by (simp add: row_find_key_iff d assms)
  then show ?thesis by (metis not_None_eq)
qed

lemma AggregateCounters_find:
  "row_find (\<lambda>c. counter_key c = k) (AggregateCounters events assignments) = counter_of assignments events k"
  by (simp add: AggregateCounters_def counter_of_def row_find_sort_key distinct_keys_count_events count_events_find)

lemma AggregateCounters_distinct: "distinct_keys counter_key (AggregateCounters events assignments)"
proof -
  let ?rows = "foldl (count_event assignments) [] events"
  have "distinct_keys counter_key ?rows" by (rule distinct_keys_count_events) simp
  moreover have "mset (map counter_key (sort_key counter_key ?rows)) = mset (map counter_key ?rows)" by simp
  ultimately show ?thesis
    unfolding AggregateCounters_def distinct_keys_def by (metis mset_eq_imp_distinct_iff)
qed

lemma count_option_fold:
  "foldl (count_option k) (Some c) es = Some (foldl (\<lambda>c e. add_to_counter e c) c es)"
  by (induction es arbitrary: c) (simp_all add: count_option_def)

lemma fold_add_count: "ct_EventCount (foldl (\<lambda>c e. add_to_counter e c) c es) = ct_EventCount c + int (length es)"
  by (induction es arbitrary: c) (simp_all add: add_to_counter_def Let_def)

lemma fold_add_sum:
  "ct_QuantitySum (foldl (\<lambda>c e. add_to_counter e c) c es) = foldl (\<lambda>a e. a + ev_quantity e) (ct_QuantitySum c) es"
  by (induction es arbitrary: c) (simp_all add: add_to_counter_def Let_def)

section \<open>Properties\<close>

text \<open>Claim C23. The batch of counters is the specification: one counter per key, and under each key
  the counter opened by the first event of the batch whose active assignment puts it in that
  window and fed by the later ones; its event count is the number of those events and its sum the
  float sum of their quantities in the order of the batch.\<close>

theorem AggregateCounters_spec:
  "distinct_keys counter_key (AggregateCounters events assignments)
   \<and> (let hits = filter (\<lambda>e. k \<in> set (event_keys assignments e)) events in
      case row_find (\<lambda>c. counter_key c = k) (AggregateCounters events assignments) of
        None \<Rightarrow> hits = []
      | Some c \<Rightarrow> hits \<noteq> [] \<and> counter_key c = k
          \<and> c = foldl (\<lambda>c e. add_to_counter e c) (open_counter k (hd hits)) (tl hits)
          \<and> ct_EventCount c = int (length hits)
          \<and> ct_QuantitySum c = foldl (\<lambda>a e. a + ev_quantity e) (ev_quantity (hd hits)) (tl hits))"
proof -
  define hits where "hits = filter (\<lambda>e. k \<in> set (event_keys assignments e)) events"
  have find: "row_find (\<lambda>c. counter_key c = k) (AggregateCounters events assignments) = foldl (count_option k) None hits"
    by (simp add: AggregateCounters_find counter_of_def hits_def)
  have "case row_find (\<lambda>c. counter_key c = k) (AggregateCounters events assignments) of
        None \<Rightarrow> hits = []
      | Some c \<Rightarrow> hits \<noteq> [] \<and> counter_key c = k
          \<and> c = foldl (\<lambda>c e. add_to_counter e c) (open_counter k (hd hits)) (tl hits)
          \<and> ct_EventCount c = int (length hits)
          \<and> ct_QuantitySum c = foldl (\<lambda>a e. a + ev_quantity e) (ev_quantity (hd hits)) (tl hits)"
  proof (cases hits)
    case Nil
    then show ?thesis by (simp add: find)
  next
    case (Cons e es)
    let ?c = "foldl (\<lambda>c e. add_to_counter e c) (open_counter k e) es"
    have f: "row_find (\<lambda>c. counter_key c = k) (AggregateCounters events assignments) = Some ?c"
      using Cons by (simp add: find count_option_fold) (simp add: count_option_def count_option_fold)
    then have "counter_key ?c = k" by (auto dest: row_find_Some)
    then show ?thesis using f Cons
      by (simp add: fold_add_count fold_add_sum) (simp add: open_counter_def new_counter_def split: prod.splits)
  qed
  then show ?thesis using AggregateCounters_distinct unfolding Let_def hits_def by blast
qed

text \<open>Claim C24. For an event at or after the anchor of its assignment, the window that the batch
  counts it in is the window the entitlement service reads for the same period.\<close>

theorem counterWindow_is_periodWindow:
  assumes "p \<in> {PeriodDay, PeriodWeek, PeriodMonth, PeriodYear}" and "anchor \<le> tm" and "\<not> IsZero anchor"
  shows "\<exists>w \<in> set (counterWindows tm anchor).
    cw_period w = period_text p \<and> (cw_from w, cw_to w) = periodWindow tm anchor p"
proof -
  have "counterWindowForPeriod tm anchor (period_text p) \<in> set (counterWindows tm anchor)"
    using assms by (auto simp: counterWindows_def)
  then show ?thesis using counterWindow_agrees [OF assms] by (intro bexI) auto
qed

lemma counterWindow_is_periodWindow_witness:
  "\<exists>w \<in> set (counterWindows (5 * day_ns) (2 * day_ns)).
    cw_period w = ''week'' \<and> (cw_from w, cw_to w) = periodWindow (5 * day_ns) (2 * day_ns) PeriodWeek"
  using counterWindow_is_periodWindow [of PeriodWeek "2 * day_ns" "5 * day_ns"]
  by (simp add: day_ns_def IsZero_def zero_time_def)

end
