(* ===== verification/UsageQuery.thy ===== *)
theory UsageQuery
  imports UsageDomain
begin

text \<open>
  The usage queries of \<^verbatim>\<open>src/internal/metering/domain/usage/query.go\<close> and the filter
  constructors of \<^verbatim>\<open>filter.go\<close>.  A Go \<^verbatim>\<open>map[string]string\<close> of metadata filters is given in the
  order in which the loop meets its entries, which Go leaves open.
  The lemmas give the bounds of limits, group-by lists and ranges, and the paging rule.
\<close>

section \<open>Filters\<close>

datatype FilterGroupOp = FilterGroupAnd | FilterGroupOr | FilterGroupOther string

datatype FilterConditionOp =
    FilterOpEqual | FilterOpNotEqual | FilterOpGreaterThan | FilterOpGreaterThanOrEqual
  | FilterOpLessThan | FilterOpLessThanOrEqual | FilterOpIn | FilterOpContains | FilterOpExists
  | FilterOpOther string

text \<open>The zero filter, a group, and a condition with its optional value; the struct's fields are
  private, and these are the three shapes its constructors make.\<close>

datatype Filter =
    EmptyFilter
  | FilterGroup FilterGroupOp "Filter list"
  | FilterCondition string FilterConditionOp any bool

definition NewFilterGroup :: "FilterGroupOp \<Rightarrow> Filter list \<Rightarrow> go_error + Filter" where
  "NewFilterGroup op rules =
    (reject_if (op \<noteq> FilterGroupAnd \<and> op \<noteq> FilterGroupOr)
       (invalid '': unsupported filter group operator %q'') (
     reject_if (length rules = 0) (invalid '': filter group requires at least one rule'') (
     Inr (FilterGroup op rules))))"

definition validateFilterField :: "string \<Rightarrow> go_error + unit" where
  "validateFilterField field =
    (if field \<in> set [''subject'', ''meter'', ''quantity'', ''timestamp'', ''event_time'', ''received_at'', ''idempotency_key'']
     then Inr ()
     else if HasPrefix field ''metadata.'' \<and> 0 < length (TrimPrefix field ''metadata.'') then Inr ()
     else Inl (Errorf ErrInvalidInput '': unsupported filter field %q'' [SArg field]))"

fun in_values :: "any \<Rightarrow> any list option" where
  "in_values (ASlice vs) = Some vs"
| "in_values v = None"

definition NewFilterCondition :: "string \<Rightarrow> FilterConditionOp \<Rightarrow> any \<Rightarrow> bool \<Rightarrow> go_error + Filter" where
  "NewFilterCondition field0 op val hasValue =
    (let field = TrimSpace field0 in
     try_res (validateFilterField field) (\<lambda>_.
     reject_if (case op of FilterOpOther s \<Rightarrow> True | _ \<Rightarrow> False) (invalid '': unsupported filter operator %q'') (
     if op = FilterOpExists then Inr (FilterCondition field op ANil False)
     else reject_if (\<not> hasValue) (invalid '': filter value is required'') (
     reject_if (op = FilterOpIn \<and> (case in_values val of None \<Rightarrow> True | Some vs \<Rightarrow> length vs = 0))
       (invalid '': in filter requires a non-empty value array'') (
     Inr (FilterCondition field op val True))))))"

text \<open>Whether a filter can be evaluated on an aggregate, without the single events.\<close>

fun RollupCompatible :: "Filter \<Rightarrow> bool" where
  "RollupCompatible EmptyFilter = True"
| "RollupCompatible (FilterGroup op rules) = list_all RollupCompatible rules"
| "RollupCompatible (FilterCondition field op val has) =
    (field = ''subject'' \<or> field = ''meter'' \<or> HasPrefix field ''metadata.'')"

section \<open>Types\<close>

datatype BucketSize = BucketHour | BucketDay | BucketMonth | BucketSizeOther string

definition DefaultLimit :: int where "DefaultLimit = 100"
definition MaxLimit :: int where "MaxLimit = 1000"
definition MaxGroupBy :: nat where "MaxGroupBy = 5"
definition MaxHourRange :: duration where "MaxHourRange = 31 * 24 * Hour"
definition MaxDayRange :: duration where "MaxDayRange = 366 * 24 * Hour"
definition MaxMonthYears :: int where "MaxMonthYears = 5"

record Query =
  q_subject :: string
  q_meterName :: string
  q_from :: time
  q_to :: time
  q_bucketSize :: BucketSize
  q_aggregation :: Aggregation
  q_metadata :: "(string, string) fmap"
  q_groupBy :: "string list"
  q_limit :: int
  q_filter :: Filter

record AggregateQuery =
  aq_subject :: string
  aq_meterName :: string
  aq_from :: time
  aq_to :: time
  aq_aggregation :: Aggregation
  aq_metadata :: "(string, string) fmap"
  aq_filter :: Filter

record EventCursor =
  ec_eventTime :: time
  ec_id :: string

record EventQuery =
  eq_subject :: string
  eq_meterName :: string
  eq_from :: time
  eq_to :: time
  eq_limit :: int
  eq_cursor :: EventCursor
  eq_filter :: Filter

record DimensionValueQuery =
  dvq_meterName :: string
  dvq_field :: string
  dvq_subject :: string
  dvq_from :: time
  dvq_to :: time
  dvq_limit :: int

record BreakdownQuery =
  bq_meterName :: string
  bq_field :: string
  bq_subject :: string
  bq_from :: time
  bq_to :: time
  bq_aggregation :: Aggregation
  bq_limit :: int
  bq_filter :: Filter

record EventPage =
  ep_events :: "Event list"
  ep_nextCursor :: EventCursor

record PruneQuery =
  pq_meterName :: string
  pq_before :: time

record SubjectStatsQuery =
  ssq_limit :: int
  ssq_lastEventAt :: time
  ssq_subject :: string

record RunQuery =
  rq_limit :: int
  rq_createdAt :: time
  rq_id :: string

record Bucket =
  bk_subject :: string
  bk_meterName :: string
  bk_bucketSize :: BucketSize
  bk_bucketStart :: time
  bk_quantity :: f64
  bk_group :: "(string, string) fmap"

section \<open>Limits, ranges and group-by fields\<close>

definition NormalizeLimit :: "int \<Rightarrow> int" where
  "NormalizeLimit limit = (if limit \<le> 0 then DefaultLimit else if MaxLimit < limit then MaxLimit else limit)"

definition validateRange :: "time \<Rightarrow> time \<Rightarrow> BucketSize \<Rightarrow> go_error + unit" where
  "validateRange from to bucketSize =
    (case bucketSize of
       BucketHour \<Rightarrow> reject_if (MaxHourRange < time_Sub to from)
         (invalid '': hour bucket range cannot exceed 31 days'') (Inr ())
     | BucketDay \<Rightarrow> reject_if (MaxDayRange < time_Sub to from)
         (invalid '': day bucket range cannot exceed 366 days'') (Inr ())
     | BucketMonth \<Rightarrow> reject_if (AddDate from MaxMonthYears 0 0 < to)
         (invalid '': month bucket range cannot exceed 5 years'') (Inr ())
     | BucketSizeOther s \<Rightarrow> Inr ())"

definition SplitGroupBy :: "string \<Rightarrow> string list" where
  "SplitGroupBy v = (if TrimSpace v = [] then [] else Split_str v (CHR '',''))"

definition SplitGroupByValues :: "string list \<Rightarrow> string list" where
  "SplitGroupByValues values = concat (map SplitGroupBy values)"

text \<open>The two nested loops of \<^verbatim>\<open>NormalizeGroupBy\<close>; the keys seen are the fields kept.\<close>

definition group_part_step :: "string list \<Rightarrow> string \<Rightarrow> string list" where
  "group_part_step normalized part =
    (let key = TrimSpace part in
     if key = [] then normalized else if key \<in> set normalized then normalized else normalized @ [key])"

definition NormalizeGroupBy :: "string list \<Rightarrow> go_error + string list" where
  "NormalizeGroupBy names =
    (let normalized = foldl (\<lambda>acc field. foldl group_part_step acc (SplitGroupBy field)) [] names in
     reject_if (MaxGroupBy < length normalized)
       (Errorf ErrInvalidInput '': group_by supports up to %d fields'' [IArg (int MaxGroupBy)])
       (Inr normalized))"

definition IsSubjectGroupBy :: "string \<Rightarrow> bool" where
  "IsSubjectGroupBy field \<longleftrightarrow> TrimSpace field = ''subject''"

text \<open>The loop over the metadata filters.\<close>

definition metadata_filter_step ::
  "string \<times> string \<Rightarrow> (string, string) fmap \<Rightarrow> go_error + (string, string) fmap" where
  "metadata_filter_step entry acc =
    (let key = TrimSpace (fst entry); val = TrimSpace (snd entry) in
     reject_if (key = []) (invalid '': metadata filter key is required'') (
     reject_if (val = []) (invalid '': metadata filter value is required'') (
     Inr (fmupd key val acc))))"

definition metadata_filters :: "(string \<times> string) list \<Rightarrow> go_error + (string, string) fmap" where
  "metadata_filters entries = fold_res metadata_filter_step entries fmempty"

definition default_aggregation :: "Aggregation \<Rightarrow> Aggregation" where
  "default_aggregation a = (if a = AggregationOther [] then AggregationSum else a)"

section \<open>Query constructors\<close>

definition NewPruneQuery :: "string \<Rightarrow> time \<Rightarrow> go_error + PruneQuery" where
  "NewPruneQuery name0 before =
    (let meterName = TrimSpace name0 in
     reject_if (meterName = []) (invalid '': meter is required'') (
     reject_if (IsZero before) (invalid '': prune cutoff is required'') (
     Inr \<lparr>pq_meterName = meterName, pq_before = before\<rparr>)))"

definition NewFilteredEventQuery ::
  "string \<Rightarrow> string \<Rightarrow> time \<Rightarrow> time \<Rightarrow> int \<Rightarrow> EventCursor \<Rightarrow> Filter \<Rightarrow> go_error + EventQuery" where
  "NewFilteredEventQuery subject0 name0 from to limit cursor f =
    try_res (NormalizeOptionalSubject subject0) (\<lambda>subject.
    let meterName = TrimSpace name0 in
    reject_if (\<not> IsZero from \<and> \<not> IsZero to \<and> \<not> from < to) (invalid '': valid from and to range is required'') (
    Inr \<lparr>eq_subject = subject, eq_meterName = meterName, eq_from = from, eq_to = to,
         eq_limit = NormalizeLimit limit, eq_cursor = cursor, eq_filter = f\<rparr>))"

definition NewEventQuery :: "string \<Rightarrow> string \<Rightarrow> time \<Rightarrow> time \<Rightarrow> int \<Rightarrow> EventCursor \<Rightarrow> go_error + EventQuery" where
  "NewEventQuery subject name from to limit cursor = NewFilteredEventQuery subject name from to limit cursor EmptyFilter"

definition NewEventCursor :: "time \<Rightarrow> string \<Rightarrow> go_error + EventCursor" where
  "NewEventCursor eventTime id0 =
    (let eid = TrimSpace id0 in
     reject_if (IsZero eventTime) (invalid '': cursor event time is required'') (
     reject_if (eid = []) (invalid '': cursor id is required'') (
     Inr \<lparr>ec_eventTime = eventTime, ec_id = eid\<rparr>)))"

definition zero_cursor :: EventCursor where
  "zero_cursor = \<lparr>ec_eventTime = zero_time, ec_id = []\<rparr>"

definition NewEventPage :: "Event list \<Rightarrow> int \<Rightarrow> EventPage" where
  "NewEventPage events0 limit0 =
    (let limit = nat (NormalizeLimit limit0);
         hasNext = limit < length events0;
         events = (if hasNext then take limit events0 else events0)
     in \<lparr>ep_events = events,
         ep_nextCursor = (if hasNext \<and> 0 < length events
           then let l = last events in \<lparr>ec_eventTime = ev_eventTime l, ec_id = ev_id l\<rparr>
           else zero_cursor)\<rparr>)"

definition NewDimensionValueQuery ::
  "string \<Rightarrow> string \<Rightarrow> string \<Rightarrow> time \<Rightarrow> time \<Rightarrow> int \<Rightarrow> go_error + DimensionValueQuery" where
  "NewDimensionValueQuery name0 field0 subject0 from to limit =
    (let meterName = TrimSpace name0; field = TrimPrefix (TrimSpace field0) ''metadata.'' in
     try_res (NormalizeOptionalSubject subject0) (\<lambda>subject.
     reject_if (meterName = []) (invalid '': meter is required'') (
     reject_if (field = []) (invalid '': dimension field is required'') (
     reject_if (\<not> IsZero from \<and> \<not> IsZero to \<and> \<not> from < to) (invalid '': valid from and to range is required'') (
     Inr \<lparr>dvq_meterName = meterName, dvq_field = field, dvq_subject = subject, dvq_from = from,
          dvq_to = to, dvq_limit = NormalizeLimit limit\<rparr>)))))"

definition NewBreakdownQuery ::
  "string \<Rightarrow> string \<Rightarrow> string \<Rightarrow> time \<Rightarrow> time \<Rightarrow> Aggregation \<Rightarrow> int \<Rightarrow> Filter \<Rightarrow> go_error + BreakdownQuery" where
  "NewBreakdownQuery name0 field0 subject0 from to aggregation0 limit f =
    (let meterName = TrimSpace name0; field = TrimPrefix (TrimSpace field0) ''metadata.'' in
     try_res (NormalizeOptionalSubject subject0) (\<lambda>subject.
     reject_if (meterName = []) (invalid '': meter is required'') (
     reject_if (field = []) (invalid '': breakdown field is required'') (
     reject_if (IsZero from \<or> IsZero to \<or> \<not> from < to) (invalid '': valid from and to range is required'') (
     let aggregation = default_aggregation aggregation0 in
     reject_if (\<not> IsSupportedAggregation aggregation) (invalid '': unsupported aggregation %q'') (
     Inr \<lparr>bq_meterName = meterName, bq_field = field, bq_subject = subject, bq_from = from, bq_to = to,
          bq_aggregation = aggregation, bq_limit = NormalizeLimit limit, bq_filter = f\<rparr>))))))"

definition NewAggregateQuery ::
  "string \<Rightarrow> string \<Rightarrow> time \<Rightarrow> time \<Rightarrow> Aggregation \<Rightarrow> (string \<times> string) list \<Rightarrow> Filter \<Rightarrow> go_error + AggregateQuery" where
  "NewAggregateQuery subject0 name0 from to aggregation0 entries f =
    try_res (NormalizeOptionalSubject subject0) (\<lambda>subject.
    let meterName = TrimSpace name0 in
    reject_if (meterName = []) (invalid '': meter is required'') (
    reject_if (IsZero from \<or> IsZero to \<or> \<not> from < to) (invalid '': valid from and to range is required'') (
    let aggregation = default_aggregation aggregation0 in
    reject_if (\<not> IsSupportedAggregation aggregation) (invalid '': unsupported aggregation %q'') (
    try_res (metadata_filters entries) (\<lambda>filters.
    Inr \<lparr>aq_subject = subject, aq_meterName = meterName, aq_from = from, aq_to = to,
         aq_aggregation = aggregation, aq_metadata = filters, aq_filter = f\<rparr>)))))"

definition NewSubjectStatsQuery :: "int \<Rightarrow> time \<Rightarrow> string \<Rightarrow> SubjectStatsQuery" where
  "NewSubjectStatsQuery limit lastEventAt subject =
    \<lparr>ssq_limit = NormalizeLimit limit, ssq_lastEventAt = lastEventAt, ssq_subject = TrimSpace subject\<rparr>"

definition NewRunQuery :: "int \<Rightarrow> time \<Rightarrow> string \<Rightarrow> RunQuery" where
  "NewRunQuery limit createdAt rid =
    \<lparr>rq_limit = NormalizeLimit limit, rq_createdAt = createdAt, rq_id = TrimSpace rid\<rparr>"

definition NewGroupedFilteredQuery ::
  "string \<Rightarrow> string \<Rightarrow> time \<Rightarrow> time \<Rightarrow> BucketSize \<Rightarrow> Aggregation \<Rightarrow> (string \<times> string) list \<Rightarrow> string list \<Rightarrow>
   int \<Rightarrow> Filter \<Rightarrow> go_error + Query" where
  "NewGroupedFilteredQuery subject0 name0 from to bucketSize0 aggregation0 entries groupBy limit f =
    try_res (NormalizeOptionalSubject subject0) (\<lambda>subject.
    let meterName = TrimSpace name0 in
    try_res (NormalizeGroupBy groupBy) (\<lambda>groupByFields.
    reject_if (meterName = []) (invalid '': meter is required'') (
    reject_if (IsZero from \<or> IsZero to \<or> \<not> from < to) (invalid '': valid from and to range is required'') (
    let bucketSize = (if bucketSize0 = BucketSizeOther [] then BucketDay else bucketSize0) in
    reject_if (case bucketSize of BucketSizeOther s \<Rightarrow> True | _ \<Rightarrow> False)
      (invalid '': unsupported bucket size %q'') (
    try_res (validateRange from to bucketSize) (\<lambda>_.
    let aggregation = default_aggregation aggregation0 in
    reject_if (\<not> IsSupportedAggregation aggregation) (invalid '': unsupported aggregation %q'') (
    try_res (metadata_filters entries) (\<lambda>filters.
    Inr \<lparr>q_subject = subject, q_meterName = meterName, q_from = from, q_to = to, q_bucketSize = bucketSize,
         q_aggregation = aggregation, q_metadata = filters, q_groupBy = groupByFields,
         q_limit = NormalizeLimit limit, q_filter = f\<rparr>))))))))"

definition NewFilteredQuery ::
  "string \<Rightarrow> string \<Rightarrow> time \<Rightarrow> time \<Rightarrow> BucketSize \<Rightarrow> Aggregation \<Rightarrow> (string \<times> string) list \<Rightarrow> string \<Rightarrow>
   int \<Rightarrow> Filter \<Rightarrow> go_error + Query" where
  "NewFilteredQuery subject name from to b a entries groupBy limit f =
    NewGroupedFilteredQuery subject name from to b a entries (SplitGroupBy groupBy) limit f"

definition NewQuery ::
  "string \<Rightarrow> string \<Rightarrow> time \<Rightarrow> time \<Rightarrow> BucketSize \<Rightarrow> Aggregation \<Rightarrow> (string \<times> string) list \<Rightarrow> string \<Rightarrow>
   int \<Rightarrow> go_error + Query" where
  "NewQuery subject name from to b a entries groupBy limit =
    NewFilteredQuery subject name from to b a entries groupBy limit EmptyFilter"

definition NewGroupedQuery ::
  "string \<Rightarrow> string \<Rightarrow> time \<Rightarrow> time \<Rightarrow> BucketSize \<Rightarrow> Aggregation \<Rightarrow> (string \<times> string) list \<Rightarrow> string list \<Rightarrow>
   int \<Rightarrow> go_error + Query" where
  "NewGroupedQuery subject name from to b a entries groupBy limit =
    NewGroupedFilteredQuery subject name from to b a entries groupBy limit EmptyFilter"

definition NewBucketWithGroup ::
  "string \<Rightarrow> string \<Rightarrow> BucketSize \<Rightarrow> time \<Rightarrow> f64 \<Rightarrow> (string, string) fmap \<Rightarrow> Bucket" where
  "NewBucketWithGroup subject name b start quantity grp =
    \<lparr>bk_subject = subject, bk_meterName = name, bk_bucketSize = b, bk_bucketStart = start,
     bk_quantity = quantity, bk_group = grp\<rparr>"

definition Query_GroupBy :: "Query \<Rightarrow> string" where
  "Query_GroupBy q = (case q_groupBy q of [] \<Rightarrow> [] | g # _ \<Rightarrow> g)"

definition RunQuery_HasCursor :: "RunQuery \<Rightarrow> bool" where
  "RunQuery_HasCursor q \<longleftrightarrow> \<not> IsZero (rq_createdAt q) \<and> rq_id q \<noteq> []"

definition SubjectStatsQuery_HasCursor :: "SubjectStatsQuery \<Rightarrow> bool" where
  "SubjectStatsQuery_HasCursor q \<longleftrightarrow> \<not> IsZero (ssq_lastEventAt q) \<and> ssq_subject q \<noteq> []"

definition EventCursor_IsZero :: "EventCursor \<Rightarrow> bool" where
  "EventCursor_IsZero c \<longleftrightarrow> IsZero (ec_eventTime c) \<and> ec_id c = []"

section \<open>Lemmas\<close>

lemma NormalizeLimit_range: "1 \<le> NormalizeLimit n \<and> NormalizeLimit n \<le> MaxLimit"
  by (simp add: NormalizeLimit_def DefaultLimit_def MaxLimit_def)

definition good_group :: "string list \<Rightarrow> bool" where
  "good_group gs \<longleftrightarrow> distinct gs \<and> (\<forall>g \<in> set gs. g \<noteq> [] \<and> trimmed g)"

lemma group_part_step_good: "good_group acc \<Longrightarrow> good_group (group_part_step acc part)"
  by (auto simp: good_group_def group_part_step_def Let_def TrimSpace_trimmed)

lemma foldl_keeps: "(\<And>a x. P a \<Longrightarrow> P (f a x)) \<Longrightarrow> P a \<Longrightarrow> P (foldl f a xs)"
  by (induction xs arbitrary: a) auto

lemma group_fields_good:
  "good_group acc \<Longrightarrow> good_group (foldl (\<lambda>acc field. foldl group_part_step acc (SplitGroupBy field)) acc names)"
  by (rule foldl_keeps [where P = good_group]) (auto intro: foldl_keeps group_part_step_good)

lemma NormalizeGroupBy_good:
  "NormalizeGroupBy names = Inr gs \<Longrightarrow> good_group gs \<and> length gs \<le> MaxGroupBy"
  using group_fields_good [of "[]" names] by (auto simp: NormalizeGroupBy_def Let_def good_group_def)

lemma metadata_filters_good:
  assumes "metadata_filters entries = Inr m"
  shows "\<forall>k v. fmlookup m k = Some v \<longrightarrow> k \<noteq> [] \<and> v \<noteq> [] \<and> trimmed k \<and> trimmed v"
proof -
  let ?P = "\<lambda>m. \<forall>k v. fmlookup m k = Some v \<longrightarrow> k \<noteq> [] \<and> v \<noteq> [] \<and> trimmed k \<and> trimmed v"
  show ?thesis
    using assms unfolding metadata_filters_def
    by (rule fold_res_invariant [where P = ?P])
      (auto simp: metadata_filter_step_def Let_def TrimSpace_trimmed split: if_splits)
qed

definition valid_query :: "Query \<Rightarrow> bool" where
  "valid_query q \<longleftrightarrow>
     q_meterName q \<noteq> [] \<and> (q_subject q = [] \<or> valid_subject (q_subject q))
   \<and> q_from q < q_to q \<and> \<not> IsZero (q_from q) \<and> \<not> IsZero (q_to q)
   \<and> validateRange (q_from q) (q_to q) (q_bucketSize q) = Inr ()
   \<and> q_bucketSize q \<in> {BucketHour, BucketDay, BucketMonth}
   \<and> IsSupportedAggregation (q_aggregation q)
   \<and> good_group (q_groupBy q) \<and> length (q_groupBy q) \<le> MaxGroupBy
   \<and> 1 \<le> q_limit q \<and> q_limit q \<le> MaxLimit
   \<and> (\<forall>k v. fmlookup (q_metadata q) k = Some v \<longrightarrow> k \<noteq> [] \<and> v \<noteq> [])"

lemma validateRange_duration:
  assumes "validateRange from to b = Inr ()" "from < to"
  shows "b = BucketHour \<Longrightarrow> to - from \<le> MaxHourRange" and "b = BucketDay \<Longrightarrow> to - from \<le> MaxDayRange"
  using assms
  by (auto simp: validateRange_def time_Sub_def MaxHourRange_def MaxDayRange_def Hour_def)

section \<open>Properties\<close>

text \<open>Every query the constructor accepts names a meter, has a nonempty time range within
  the bound of its bucket size, a supported bucket size and aggregation, at most five distinct
  nonempty group-by fields, a limit between 1 and 1000 and no empty metadata filter.\<close>

lemma NewGroupedFilteredQuery_valid:
  assumes "NewGroupedFilteredQuery subject name from to b a entries groupBy limit f = Inr q"
  shows "valid_query q"
proof -
  obtain s gs filters where
    s: "NormalizeOptionalSubject subject = Inr s" and g: "NormalizeGroupBy groupBy = Inr gs"
    and m: "metadata_filters entries = Inr filters"
    and q: "q_subject q = s" "q_meterName q = TrimSpace name" "q_from q = from" "q_to q = to"
      "q_groupBy q = gs" "q_metadata q = filters" "q_limit q = NormalizeLimit limit"
    and b: "q_bucketSize q \<in> {BucketHour, BucketDay, BucketMonth}"
      "validateRange from to (q_bucketSize q) = Inr ()" "IsSupportedAggregation (q_aggregation q)"
    and r: "TrimSpace name \<noteq> []" "from < to" "\<not> IsZero from" "\<not> IsZero to"
    using assms
    by (auto simp: NewGroupedFilteredQuery_def Let_def try_res_eq_Inr split: if_splits BucketSize.splits)
  have "s = [] \<or> valid_subject s" using NormalizeOptionalSubject_ok [OF s] by auto
  moreover have "good_group gs \<and> length gs \<le> MaxGroupBy" by (rule NormalizeGroupBy_good [OF g])
  moreover note metadata_filters_good [OF m] NormalizeLimit_range [of limit]
  ultimately show ?thesis using q b r by (simp add: valid_query_def)
qed

lemma NewGroupedFilteredQuery_valid_witness:
  "\<exists>q. NewGroupedFilteredQuery [] ''api'' 1 2 (BucketSizeOther []) (AggregationOther []) [] [''a,b'', ''a''] 0 EmptyFilter = Inr q
     \<and> q_groupBy q = [''a'', ''b''] \<and> valid_query q"
proof -
  have "\<exists>q. NewGroupedFilteredQuery [] ''api'' 1 2 (BucketSizeOther []) (AggregationOther []) [] [''a,b'', ''a''] 0 EmptyFilter = Inr q
     \<and> q_groupBy q = [''a'', ''b'']"
    by (simp add: NewGroupedFilteredQuery_def NormalizeOptionalSubject_def NormalizeGroupBy_def SplitGroupBy_def
        Split_str_def group_part_step_def IsZero_def zero_time_def validateRange_def time_Sub_def MaxDayRange_def Hour_def
        default_aggregation_def metadata_filters_def MaxGroupBy_def go_string_simps Let_def)
  then show ?thesis using NewGroupedFilteredQuery_valid by blast
qed

text \<open>A page holds at most the normalised limit of the events fetched, in their order, and
  its cursor is zero exactly when nothing was cut off; otherwise the cursor names the last event
  of the page.\<close>

lemma NewEventPage_spec:
  "let page = NewEventPage events limit; n = nat (NormalizeLimit limit) in
   ep_events page = take n events \<and> length (ep_events page) \<le> nat MaxLimit
   \<and> (if length events \<le> n then ep_nextCursor page = zero_cursor
      else ep_events page \<noteq> [] \<and> ep_nextCursor page =
        \<lparr>ec_eventTime = ev_eventTime (events ! (n - 1)), ec_id = ev_id (events ! (n - 1))\<rparr>)"
proof -
  define n where "n = nat (NormalizeLimit limit)"
  have n: "1 \<le> n" "n \<le> nat MaxLimit" using NormalizeLimit_range [of limit] by (auto simp: n_def)
  have l: "last (take n events) = events ! (n - 1)" "take n events \<noteq> []" if "n < length events"
  proof -
    have "length (take n events) = n" using that by simp
    moreover show "take n events \<noteq> []" using that n by auto
    ultimately show "last (take n events) = events ! (n - 1)"
      using n by (simp add: last_conv_nth)
  qed
  show ?thesis
    using n l by (auto simp: NewEventPage_def Let_def n_def [symmetric])
qed

end
