(* ===== verification/GoFmt.thy ===== *)
theory GoFmt
  imports GoAny GoStrings
begin

text \<open>
  What \<^verbatim>\<open>fmt\<close> prints of floats and of values of type \<^verbatim>\<open>any\<close>: \<^verbatim>\<open>%.4f\<close>, and \<^verbatim>\<open>fmt.Sprint\<close>, whose floats are
  \<^verbatim>\<open>%v\<close>, the shortest digits that read back as the value, with an exponent from \<^verbatim>\<open>1e+06\<close> on and below
  \<^verbatim>\<open>1e-04\<close>.  A \<^verbatim>\<open>float32\<close> prints as its value does in double precision; JSON never yields one.
\<close>

section \<open>Fixed precision\<close>

definition sign_text :: "rat \<Rightarrow> string" where
  "sign_text x = (if x < 0 then ''-'' else [])"

text \<open>\<^verbatim>\<open>%.4f\<close>: the exact value rounded to four places, ties to even.\<close>

definition fixed4 :: "f64 \<Rightarrow> string" where
  "fixed4 a = (case a of NaN \<Rightarrow> ''NaN'' | PInf \<Rightarrow> ''+Inf'' | NInf \<Rightarrow> ''-Inf''
    | Fin x \<Rightarrow> (let n = nat (round_half_even (abs x * 10000)) in
        sign_text x @ decimal (n div 10000) @ ''.'' @ digits 4 (n mod 10000)))"

section \<open>Shortest digits\<close>

text \<open>The \<^verbatim>\<open>k\<close> with \<^verbatim>\<open>10 ^ (k - 1) <= x < 10 ^ k\<close>, for positive doubles, whose range needs at most 330 steps.\<close>

primrec decimal_places_up :: "nat \<Rightarrow> rat \<Rightarrow> int" where
  "decimal_places_up 0 x = 0"
| "decimal_places_up (Suc n) x = (if x < 1 then 0 else 1 + decimal_places_up n (x / 10))"

primrec decimal_places_down :: "nat \<Rightarrow> rat \<Rightarrow> int" where
  "decimal_places_down 0 x = 0"
| "decimal_places_down (Suc n) x = (if 1 / 10 \<le> x then 0 else decimal_places_down n (x * 10) - 1)"

definition decimal_point :: "rat \<Rightarrow> int" where
  "decimal_point x = (if 1 \<le> x then decimal_places_up 330 x else decimal_places_down 330 x)"

definition pow10 :: "int \<Rightarrow> rat" where
  "pow10 e = (if 0 \<le> e then 10 ^ nat e else 1 / 10 ^ nat (- e))"

text \<open>\<^verbatim>\<open>p\<close> digits of \<^verbatim>\<open>x\<close> as a number, and the least number of digits that reads back as \<^verbatim>\<open>x\<close>.\<close>

definition rounded_digits :: "rat \<Rightarrow> nat \<Rightarrow> int" where
  "rounded_digits x p = round_half_even (x / pow10 (decimal_point x - int p))"

definition reads_back :: "rat \<Rightarrow> nat \<Rightarrow> bool" where
  "reads_back x p \<longleftrightarrow> round_f64 (of_int (rounded_digits x p) * pow10 (decimal_point x - int p)) = Fin x"

definition shortest_length :: "rat \<Rightarrow> nat" where
  "shortest_length x = (case List.find (reads_back x) [1..<17] of Some p \<Rightarrow> p | None \<Rightarrow> 17)"

text \<open>The digits and the position of the point; rounding up to a power of ten moves it.\<close>

definition shortest :: "rat \<Rightarrow> string \<times> int" where
  "shortest x =
    (let p = shortest_length x; n = rounded_digits x p; dp = decimal_point x in
     if n = 10 ^ p then (''1'', dp + 1) else (decimal (nat n), dp))"

section \<open>The format \<^verbatim>\<open>%v\<close> of a float\<close>

definition zeros :: "int \<Rightarrow> string" where
  "zeros n = replicate (nat n) (CHR ''0'')"

text \<open>\<^verbatim>\<open>d.ddde+XX\<close>\<close>

definition exponent_form :: "string \<Rightarrow> int \<Rightarrow> string" where
  "exponent_form ds dp =
    (let e = dp - 1; m = nat (abs e) in
     take 1 ds @ (if length ds \<le> 1 then [] else ''.'' @ drop 1 ds) @ ''e'' @ (if e < 0 then ''-'' else ''+'') @
     (if m < 10 then ''0'' else []) @ decimal m)"

definition plain_form :: "string \<Rightarrow> int \<Rightarrow> string" where
  "plain_form ds dp =
    (if dp \<le> 0 then ''0.'' @ zeros (- dp) @ ds
     else if int (length ds) \<le> dp then ds @ zeros (dp - int (length ds))
     else take (nat dp) ds @ ''.'' @ drop (nat dp) ds)"

definition format_v :: "f64 \<Rightarrow> string" where
  "format_v a = (case a of NaN \<Rightarrow> ''NaN'' | PInf \<Rightarrow> ''+Inf'' | NInf \<Rightarrow> ''-Inf''
    | Fin x \<Rightarrow> if x = 0 then ''0'' else (case shortest (abs x) of (ds, dp) \<Rightarrow>
        sign_text x @ (if dp - 1 < - 4 \<or> 6 \<le> dp - 1 then exponent_form ds dp else plain_form ds dp)))"

section \<open>\<^verbatim>\<open>fmt.Sprint\<close>\<close>

definition int_text :: "int \<Rightarrow> string" where
  "int_text n = (if n < 0 then ''-'' else []) @ decimal (nat (abs n))"

text \<open>\<^verbatim>\<open>time.String\<close> of a UTC time: the date and the clock of its RFC 3339 text.\<close>

definition time_text :: "time \<Rightarrow> string" where
  "time_text t = (let s = format_rfc3339nano t in
     takeWhile (\<lambda>c. c \<noteq> CHR ''T'') s @ '' '' @ butlast (tl (dropWhile (\<lambda>c. c \<noteq> CHR ''T'') s)) @ '' +0000 UTC'')"

fun join_words :: "string list \<Rightarrow> string" where
  "join_words [] = []"
| "join_words [w] = w"
| "join_words (w # ws) = w @ '' '' @ join_words ws"

primrec Sprint :: "any \<Rightarrow> string" where
  "Sprint ANil = ''<nil>''"
| "Sprint (AString s) = s"
| "Sprint (ABool b) = (if b then ''true'' else ''false'')"
| "Sprint (AFloat x) = format_v x"
| "Sprint (AFloat32 x) = format_v x"
| "Sprint (AInt k n) = int_text n"
| "Sprint (ATime t) = time_text t"
| "Sprint (ASlice vs) = ''['' @ join_words (map Sprint vs) @ '']''"
| "Sprint (AMap m) = (let texts = fmmap Sprint m in
     ''map['' @ join_words (map (\<lambda>k. k @ '':'' @ (case fmlookup texts k of Some t \<Rightarrow> t | None \<Rightarrow> []))
       (sorted_list_of_fset (fmdom m))) @ '']'')"

end
