(* ===== verification/AlertTypes.thy ===== *)
theory AlertTypes
  imports UsageQuery GoFmt
begin

text \<open>
  The data of the alerts (\<^verbatim>\<open>src/internal/metering/app/alert/service.go\<close>, \<^verbatim>\<open>delivery_jobs.go\<close>), the tables
  behind them (\<^verbatim>\<open>adapters/sqlite/queries/alerts.sql\<close>) and the functions that do not touch the store:
  validation of rules, comparison with the threshold, states, and the events of a change of state.
\<close>

section \<open>Rules, destinations, states and events\<close>

definition DefaultWindow :: duration where "DefaultWindow = Hour"
definition DefaultEvaluationInterval :: duration where "DefaultEvaluationInterval = Minute"
definition DefaultEvaluationDelay :: duration where "DefaultEvaluationDelay = 5 * Second"
definition DefaultJobLimit :: int where "DefaultJobLimit = 100"
definition alert_MaxNameRunes :: nat where "alert_MaxNameRunes = 120"

text \<open>The Go strings of the enumerations; \<^verbatim>\<open>Other\<close> is any further string.\<close>

datatype Comparator =
    ComparatorGreaterThan | ComparatorGreaterThanOrEqual | ComparatorLessThan | ComparatorLessThanOrEqual
  | ComparatorEqual | ComparatorNotEqual | ComparatorOther string

datatype StateStatus = AlertStateOK | AlertStateAlerting | AlertStateNoData | AlertStateError

datatype AlertEventType = EventTriggered | EventResolved | EventEvaluationFailed

datatype DestinationType = DestinationWebhook | DestinationTypeOther string

datatype DeliveryStatus = DeliveryDelivered | DeliveryFailed | DeliveryStatusOther string

datatype DeliveryJobStatus = JobPending | JobRunning | JobDelivered | JobDeadLetter

definition comparator_of :: "string \<Rightarrow> Comparator" where
  "comparator_of s =
    (if s = ''gt'' then ComparatorGreaterThan else if s = ''gte'' then ComparatorGreaterThanOrEqual
     else if s = ''lt'' then ComparatorLessThan else if s = ''lte'' then ComparatorLessThanOrEqual
     else if s = ''eq'' then ComparatorEqual else if s = ''neq'' then ComparatorNotEqual else ComparatorOther s)"

definition comparator_text :: "Comparator \<Rightarrow> string" where
  "comparator_text c = (case c of ComparatorGreaterThan \<Rightarrow> ''gt'' | ComparatorGreaterThanOrEqual \<Rightarrow> ''gte''
     | ComparatorLessThan \<Rightarrow> ''lt'' | ComparatorLessThanOrEqual \<Rightarrow> ''lte'' | ComparatorEqual \<Rightarrow> ''eq''
     | ComparatorNotEqual \<Rightarrow> ''neq'' | ComparatorOther s \<Rightarrow> s)"

record Rule =
  alr_ID :: string
  alr_Name :: string
  alr_MeterName :: string
  alr_Enabled :: bool
  alr_Subject :: string
  alr_Metadata :: "(string, string) fmap"
  alr_Window :: duration
  alr_Comparator :: Comparator
  alr_Threshold :: f64
  alr_EvaluationInterval :: duration
  alr_GroupBy :: string
  alr_DestinationID :: string
  alr_NextEvaluateAt :: time
  alr_CreatedAt :: time
  alr_UpdatedAt :: time

record Destination =
  ald_ID :: string
  ald_Name :: string
  ald_Type :: DestinationType
  ald_Enabled :: bool
  ald_WebhookURL :: string
  ald_WebhookSecret :: string
  ald_CreatedAt :: time
  ald_UpdatedAt :: time

record AlertState =
  als_RuleID :: string
  als_GroupKey :: string
  als_GroupValue :: string
  als_Status :: StateStatus
  als_Value :: f64
  als_Message :: string
  als_EvaluatedAt :: time
  als_UpdatedAt :: time

record AlertEvent =
  ale_ID :: string
  ale_RuleID :: string
  ale_GroupKey :: string
  ale_GroupValue :: string
  ale_Type :: AlertEventType
  ale_Value :: f64
  ale_Message :: string
  ale_CreatedAt :: time

text \<open>A delivery; its trigger type is always the webhook.\<close>

record Delivery =
  dlv_ID :: string
  dlv_EventID :: string
  dlv_Status :: DeliveryStatus
  dlv_StatusCode :: int
  dlv_Error :: string
  dlv_Duration :: duration
  dlv_AttemptedAt :: time
  dlv_CreatedAt :: time

text \<open>The payload of a delivery: what the JSON of \<^verbatim>\<open>deliveryPayload\<close> is made of.\<close>

record WebhookPayload =
  wp_Rule :: Rule
  wp_DestinationName :: string
  wp_State :: AlertState
  wp_Event :: AlertEvent

record DeliveryJob =
  djb_ID :: string
  djb_WorkspaceID :: string
  djb_EventID :: string
  djb_DestinationID :: string
  djb_Payload :: WebhookPayload
  djb_Status :: DeliveryJobStatus
  djb_Attempts :: int
  djb_NextAttemptAt :: time
  djb_LockedUntil :: "time option"
  djb_LastError :: string
  djb_CreatedAt :: time
  djb_UpdatedAt :: time
  djb_DeliveredAt :: "time option"

record EvaluationJob =
  evj_WorkspaceID :: string
  evj_RuleID :: string
  evj_RunAfter :: time
  evj_LockedUntil :: "time option"
  evj_Attempts :: int
  evj_CreatedAt :: time
  evj_UpdatedAt :: time

record EvaluationDeadLetter =
  edl_ID :: string
  edl_RuleID :: string
  edl_Attempts :: int
  edl_Error :: string
  edl_CreatedAt :: time

text \<open>The tables of the alerts.  The rows of rules, destinations, delivery jobs and dead letters carry their
  workspace; states, events and evaluation jobs belong to the workspace of their rule.\<close>

record AlertTables =
  at_destinations :: "(string \<times> Destination) list"
  at_rules :: "(string \<times> Rule) list"
  at_states :: "AlertState list"
  at_events :: "AlertEvent list"
  at_deliveries :: "Delivery list"
  at_delivery_jobs :: "DeliveryJob list"
  at_jobs :: "EvaluationJob list"
  at_dead_letters :: "(string \<times> EvaluationDeadLetter) list"

definition empty_alerts :: AlertTables where
  "empty_alerts = \<lparr>at_destinations = [], at_rules = [], at_states = [], at_events = [], at_deliveries = [],
     at_delivery_jobs = [], at_jobs = [], at_dead_letters = []\<rparr>"

section \<open>Commands and queries\<close>

record RuleQuery =
  rlq_ID :: string
  rlq_MeterName :: string
  rlq_DestinationID :: string
  rlq_Enabled :: "bool option"
  rlq_Limit :: int

record AlertUsageEvent =
  aue_Subject :: string
  aue_Meter :: string
  aue_Metadata :: metadata

text \<open>A Go \<^verbatim>\<open>map[string]string\<close> of a command is given in the order in which its loop meets the entries.\<close>

record SaveCommand =
  sc_Name :: string
  sc_MeterName :: string
  sc_Enabled :: "bool option"
  sc_Subject :: string
  sc_Metadata :: "(string \<times> string) list"
  sc_Window :: duration
  sc_Comparator :: string
  sc_Threshold :: f64
  sc_EvaluationInterval :: duration
  sc_GroupBy :: string
  sc_DestinationID :: string

record UpdateCommand =
  uc'_ID :: string
  uc'_Name :: string
  uc'_MeterName :: string
  uc'_Enabled :: "bool option"
  uc'_Subject :: "string option"
  uc'_Metadata :: "(string \<times> string) list option"
  uc'_Window :: duration
  uc'_Comparator :: string
  uc'_Threshold :: "f64 option"
  uc'_EvaluationInterval :: duration
  uc'_GroupBy :: "string option"
  uc'_DestinationID :: "string option"

record DeliveryCommand =
  dlc'_EventID :: string
  dlc'_TriggerType :: string
  dlc'_Status :: DeliveryStatus
  dlc'_StatusCode :: int
  dlc'_Error :: string
  dlc'_Duration :: duration
  dlc'_AttemptedAt :: time

section \<open>Validation\<close>

definition normalizeName :: "string \<Rightarrow> go_error + string" where
  "normalizeName value =
    (let value = TrimSpace value in
     reject_if (value = []) (JoinErr ErrInvalidInput (NewError ''name is required'' [])) (
     reject_if (alert_MaxNameRunes < RuneCountInString value) (JoinErr ErrInvalidInput (NewError ''name is too long'' [])) (
     Inr value)))"

definition normalizeRequired :: "string \<Rightarrow> string \<Rightarrow> go_error + string" where
  "normalizeRequired value message =
    (let value = TrimSpace value in
     reject_if (value = []) (JoinErr ErrInvalidInput (NewError message [])) (Inr value))"

definition normalizeDuration :: "duration \<Rightarrow> duration \<Rightarrow> duration \<Rightarrow> string \<Rightarrow> go_error + duration" where
  "normalizeDuration value least greatest label =
    (if value = 0 then Inr 0
     else reject_if (value < least) (JoinErr ErrInvalidInput (NewError ''%s must be at least %s'' [SArg label, IArg least])) (
     reject_if (greatest < value) (JoinErr ErrInvalidInput (NewError ''%s cannot exceed %s'' [SArg label, IArg greatest])) (
     Inr value)))"

definition normalizeComparator :: "Comparator \<Rightarrow> go_error + Comparator" where
  "normalizeComparator value =
    (case value of
       ComparatorOther s \<Rightarrow> if s = [] then Inr ComparatorGreaterThanOrEqual
         else Inl (JoinErr ErrInvalidInput (NewError ''unsupported comparator %q'' [SArg s]))
     | _ \<Rightarrow> Inr value)"

definition normalizeGroupBy :: "string \<Rightarrow> go_error + string" where
  "normalizeGroupBy value =
    (let value = TrimPrefix (TrimSpace value) ''metadata.'' in
     if value = [] then Inr []
     else if IsSubjectGroupBy value then Inr value
     else case NewDimension value MetadataString [] [] False [] of
       Inl _ \<Rightarrow> Inl (JoinErr ErrInvalidInput (NewError ''unsupported alert group field %q'' [SArg value]))
     | Inr _ \<Rightarrow> Inr value)"

definition normalize_metadata_entry ::
  "string \<times> string \<Rightarrow> (string, string) fmap \<Rightarrow> go_error + (string, string) fmap" where
  "normalize_metadata_entry entry metadata =
    (let key = TrimPrefix (TrimSpace (fst entry)) ''metadata.''; value = TrimSpace (snd entry) in
     reject_if (key = []) (JoinErr ErrInvalidInput (NewError ''metadata filter key is required'' [])) (
     reject_if (value = []) (JoinErr ErrInvalidInput (NewError ''metadata filter value is required'' [])) (
     Inr (fmupd key value metadata))))"

definition alert_normalizeMetadata :: "(string \<times> string) list \<Rightarrow> go_error + (string, string) fmap" where
  "alert_normalizeMetadata input = fold_res normalize_metadata_entry input fmempty"

text \<open>The entries of a stored map, in the order of their keys (Go leaves the order open).\<close>

definition map_entries :: "(string, string) fmap \<Rightarrow> (string \<times> string) list" where
  "map_entries m = map (\<lambda>k. (k, case fmlookup m k of Some v \<Rightarrow> v | None \<Rightarrow> [])) (sorted_list_of_fset (fmdom m))"

text \<open>\<^verbatim>\<open>validateRule\<close>; the metadata come as the entries that its loop meets.\<close>

definition validateRule :: "Rule \<Rightarrow> (string \<times> string) list \<Rightarrow> time \<Rightarrow> go_error + Rule" where
  "validateRule rule entries now =
    try_res (normalizeName (alr_Name rule)) (\<lambda>name.
    try_res (normalizeRequired (alr_MeterName rule) ''meter is required'') (\<lambda>meterName.
    try_res (NormalizeOptionalSubject (alr_Subject rule)) (\<lambda>subject.
    try_res (alert_normalizeMetadata entries) (\<lambda>metadata.
    try_res (normalizeDuration (alr_Window rule) Minute (366 * 24 * Hour) ''window'') (\<lambda>window.
    try_res (normalizeComparator (alr_Comparator rule)) (\<lambda>comparator.
    reject_if (f64_IsNaN (alr_Threshold rule) \<or> f64_IsInf (alr_Threshold rule))
      (JoinErr ErrInvalidInput (NewError ''threshold must be finite'' [])) (
    try_res (normalizeDuration (alr_EvaluationInterval rule) Second (24 * Hour) ''evaluation interval'') (\<lambda>interval.
    try_res (normalizeGroupBy (alr_GroupBy rule)) (\<lambda>groupBy.
    try_res (normalizeRequired (alr_DestinationID rule) ''alert destination is required'') (\<lambda>destinationID.
    Inr (rule\<lparr>alr_Name := name, alr_MeterName := meterName, alr_Subject := subject, alr_Metadata := metadata,
      alr_Window := (if window = 0 then DefaultWindow else window), alr_Comparator := comparator,
      alr_EvaluationInterval := (if interval = 0 then DefaultEvaluationInterval else interval),
      alr_GroupBy := groupBy, alr_DestinationID := destinationID,
      alr_NextEvaluateAt := (if IsZero (alr_NextEvaluateAt rule) then now else alr_NextEvaluateAt rule),
      alr_CreatedAt := (if IsZero (alr_CreatedAt rule) then now else alr_CreatedAt rule),
      alr_UpdatedAt := (if IsZero (alr_UpdatedAt rule) then now else alr_UpdatedAt rule)\<rparr>)))))))))))"

definition zero_rule :: Rule where
  "zero_rule = \<lparr>alr_ID = [], alr_Name = [], alr_MeterName = [], alr_Enabled = False, alr_Subject = [],
     alr_Metadata = fmempty, alr_Window = 0, alr_Comparator = ComparatorOther [], alr_Threshold = 0,
     alr_EvaluationInterval = 0, alr_GroupBy = [], alr_DestinationID = [], alr_NextEvaluateAt = zero_time,
     alr_CreatedAt = zero_time, alr_UpdatedAt = zero_time\<rparr>"

definition ruleFromInput :: "Rule \<Rightarrow> SaveCommand \<Rightarrow> time \<Rightarrow> go_error + Rule" where
  "ruleFromInput existing cmd now =
    validateRule (existing\<lparr>alr_Name := sc_Name cmd, alr_MeterName := sc_MeterName cmd,
      alr_Enabled := (case sc_Enabled cmd of None \<Rightarrow> True | Some b \<Rightarrow> b), alr_Subject := sc_Subject cmd,
      alr_Window := sc_Window cmd, alr_Comparator := comparator_of (sc_Comparator cmd),
      alr_Threshold := sc_Threshold cmd, alr_EvaluationInterval := sc_EvaluationInterval cmd,
      alr_GroupBy := sc_GroupBy cmd, alr_DestinationID := sc_DestinationID cmd, alr_UpdatedAt := now\<rparr>)
      (sc_Metadata cmd) now"

definition alert_normalizeLimit :: "int \<Rightarrow> int" where
  "alert_normalizeLimit value = (if value \<le> 0 then DefaultJobLimit else if MaxLimit < value then MaxLimit else value)"

section \<open>States\<close>

text \<open>Go's \<^verbatim>\<open>!=\<close> on floats is true on NaN.\<close>

definition compare :: "Comparator \<Rightarrow> f64 \<Rightarrow> f64 \<Rightarrow> bool" where
  "compare comparator value threshold =
    (case comparator of
       ComparatorGreaterThan \<Rightarrow> threshold < value
     | ComparatorGreaterThanOrEqual \<Rightarrow> threshold \<le> value
     | ComparatorLessThan \<Rightarrow> value < threshold
     | ComparatorLessThanOrEqual \<Rightarrow> value \<le> threshold
     | ComparatorEqual \<Rightarrow> f64_eq value threshold
     | ComparatorNotEqual \<Rightarrow> \<not> f64_eq value threshold
     | ComparatorOther s \<Rightarrow> threshold \<le> value)"

definition threshold_message :: "Rule \<Rightarrow> f64 \<Rightarrow> bool \<Rightarrow> string" where
  "threshold_message rule value crossed =
    (if crossed then ''value '' @ fixed4 value @ '' '' @ comparator_text (alr_Comparator rule) @ '' threshold '' @ fixed4 (alr_Threshold rule)
     else ''value '' @ fixed4 value @ '' is within threshold '' @ fixed4 (alr_Threshold rule))"

definition groupMessage :: "string \<Rightarrow> string \<Rightarrow> string \<Rightarrow> string" where
  "groupMessage groupKey groupValue message =
    (if groupKey = [] \<and> groupValue = [] then message else message @ '' for '' @ groupKey @ '' '' @ groupValue)"

definition status_state :: "string \<Rightarrow> StateStatus \<Rightarrow> f64 \<Rightarrow> string \<Rightarrow> time \<Rightarrow> AlertState" where
  "status_state ruleID status value message now =
    \<lparr>als_RuleID = ruleID, als_GroupKey = [], als_GroupValue = [], als_Status = status, als_Value = value,
     als_Message = message, als_EvaluatedAt = now, als_UpdatedAt = now\<rparr>"

definition groupedState :: "Rule \<Rightarrow> string \<Rightarrow> string \<Rightarrow> f64 \<Rightarrow> int \<Rightarrow> time \<Rightarrow> AlertState" where
  "groupedState rule groupKey groupValue value usageEvents now =
    (let state = (status_state (alr_ID rule) AlertStateOK value [] now)\<lparr>als_GroupKey := groupKey, als_GroupValue := groupValue\<rparr>;
         crossed = compare (alr_Comparator rule) value (alr_Threshold rule) in
     if usageEvents = 0
     then state\<lparr>als_Status := AlertStateNoData, als_Message := groupMessage groupKey groupValue ''no usage data in alert window''\<rparr>
     else state\<lparr>als_Status := (if crossed then AlertStateAlerting else AlertStateOK),
       als_Message := groupMessage groupKey groupValue (threshold_message rule value crossed)\<rparr>)"

text \<open>The state of a rule without groups, as \<^verbatim>\<open>evaluateGlobal\<close> computes it.\<close>

definition globalState :: "Rule \<Rightarrow> f64 \<Rightarrow> int \<Rightarrow> time \<Rightarrow> AlertState" where
  "globalState rule value usageEvents now =
    (let crossed = compare (alr_Comparator rule) value (alr_Threshold rule) in
     if usageEvents = 0
     then status_state (alr_ID rule) AlertStateNoData value ''no usage data in alert window'' now
     else status_state (alr_ID rule) (if crossed then AlertStateAlerting else AlertStateOK) value
       (threshold_message rule value crossed) now)"

definition shouldCreateEvent :: "AlertState option \<Rightarrow> AlertState \<Rightarrow> bool" where
  "shouldCreateEvent previous next_state \<longleftrightarrow>
    als_Status next_state = AlertStateAlerting \<and> (case previous of None \<Rightarrow> True | Some p \<Rightarrow> als_Status p \<noteq> AlertStateAlerting)
    \<or> (case previous of None \<Rightarrow> False | Some p \<Rightarrow> als_Status p = AlertStateAlerting \<and> als_Status next_state \<noteq> AlertStateAlerting)"

definition state_event_of :: "string \<Rightarrow> string \<Rightarrow> AlertEventType \<Rightarrow> AlertState \<Rightarrow> time \<Rightarrow> AlertEvent" where
  "state_event_of eid ruleID kind state now =
    \<lparr>ale_ID = eid, ale_RuleID = ruleID, ale_GroupKey = als_GroupKey state, ale_GroupValue = als_GroupValue state,
     ale_Type = kind, ale_Value = als_Value state, ale_Message = als_Message state, ale_CreatedAt = now\<rparr>"

definition eventForState :: "string \<Rightarrow> string \<Rightarrow> AlertState \<Rightarrow> bool \<Rightarrow> time \<Rightarrow> AlertEvent" where
  "eventForState eid ruleID state found now =
    state_event_of eid ruleID (if found \<and> als_Status state \<noteq> AlertStateAlerting then EventResolved else EventTriggered) state now"

text \<open>The switch of \<^verbatim>\<open>evaluateGlobal\<close>: the kind of event that the change of state calls for.\<close>

definition transition :: "AlertState option \<Rightarrow> AlertState \<Rightarrow> AlertEventType option" where
  "transition previous next_state =
    (if als_Status next_state = AlertStateAlerting \<and> (case previous of None \<Rightarrow> True | Some p \<Rightarrow> als_Status p \<noteq> AlertStateAlerting)
     then Some EventTriggered
     else if (case previous of None \<Rightarrow> False | Some p \<Rightarrow> als_Status p = AlertStateAlerting) \<and> als_Status next_state \<noteq> AlertStateAlerting
     then Some EventResolved else None)"

definition statePriority :: "StateStatus \<Rightarrow> int" where
  "statePriority status = (case status of AlertStateAlerting \<Rightarrow> 0 | AlertStateError \<Rightarrow> 1 | AlertStateNoData \<Rightarrow> 2 | AlertStateOK \<Rightarrow> 3)"

text \<open>The state that stands for a rule; \<^term>\<open>None\<close> is the zero value of the empty list.\<close>

definition better_state :: "AlertState \<Rightarrow> AlertState \<Rightarrow> AlertState" where
  "better_state primary state =
    (if statePriority (als_Status state) < statePriority (als_Status primary) then state
     else if statePriority (als_Status state) = statePriority (als_Status primary) \<and> als_UpdatedAt primary < als_UpdatedAt state then state
     else primary)"

definition primaryState :: "AlertState list \<Rightarrow> AlertState option" where
  "primaryState states = (case states of [] \<Rightarrow> None | s # rest \<Rightarrow> Some (foldl better_state s rest))"

section \<open>Matching of usage events\<close>

text \<open>\<^verbatim>\<open>metadataValue\<close>: the key itself, or the path its dots spell.\<close>

definition metadataValue :: "metadata \<Rightarrow> string \<Rightarrow> any option" where
  "metadataValue metadata key =
    (case fmlookup metadata key of
       Some value \<Rightarrow> Some value
     | None \<Rightarrow> let parts = Split_str key (CHR ''.'') in
         if length parts = 1 then None else path_lookup (AMap metadata) parts)"

definition ruleMatchesUsageEvent :: "Rule \<Rightarrow> AlertUsageEvent \<Rightarrow> bool" where
  "ruleMatchesUsageEvent rule event \<longleftrightarrow>
    (alr_Subject rule = [] \<or> alr_Subject rule = aue_Subject event) \<and>
    list_all (\<lambda>(key, expected). case metadataValue (aue_Metadata event) key of
        None \<Rightarrow> False | Some actual \<Rightarrow> Sprint actual = expected) (map_entries (alr_Metadata rule))"

text \<open>\<^verbatim>\<open>metadataFilter\<close>\<close>

definition metadataFilter :: "(string \<times> string) list \<Rightarrow> go_error + Filter" where
  "metadataFilter metadata =
    try_res (map_res (\<lambda>(key, value). NewFilterCondition (''metadata.'' @ key) FilterOpEqual (AString value) True) metadata) (\<lambda>conditions.
    if conditions = [] then Inr EmptyFilter
    else if length conditions = 1 then Inr (hd conditions)
    else NewFilterGroup FilterGroupAnd conditions)"

section \<open>Delivery\<close>

text \<open>The loop of \<^verbatim>\<open>deliveryRetryDelay\<close>, for the number of rounds left.\<close>

primrec delivery_doubling :: "nat \<Rightarrow> duration \<Rightarrow> duration" where
  "delivery_doubling 0 delay = (if Hour < delay then Hour else delay)"
| "delivery_doubling (Suc n) delay = (if Hour div 2 \<le> delay then Hour else delivery_doubling n (delay * 2))"

definition deliveryRetryDelay :: "duration \<Rightarrow> int \<Rightarrow> duration" where
  "deliveryRetryDelay base attempts = delivery_doubling (nat (attempts - 1)) base"

text \<open>\<^verbatim>\<open>json.Marshal\<close> refuses a payload with a float that is not finite.\<close>

definition deliveryPayload :: "Rule \<Rightarrow> Destination option \<Rightarrow> AlertState \<Rightarrow> AlertEvent \<Rightarrow> go_error + WebhookPayload" where
  "deliveryPayload rule destination state event =
    reject_if (\<not> finite_f64 (alr_Threshold rule) \<or> \<not> finite_f64 (als_Value state) \<or> \<not> finite_f64 (ale_Value event))
      (NewError ''json: unsupported value'' [])
      (Inr \<lparr>wp_Rule = rule, wp_DestinationName = (case destination of None \<Rightarrow> [] | Some d \<Rightarrow> ald_Name d),
        wp_State = state, wp_Event = event\<rparr>)"

end
