(* ===== verification/GoCrypto.thy ===== *)
theory GoCrypto
  imports GoStrings "HOL-Library.Word"
begin

unbundle bit_operations_syntax

text \<open>
  The functions of Go's \<^verbatim>\<open>crypto/sha256\<close> and \<^verbatim>\<open>encoding/base64\<close> that
  \<^verbatim>\<open>src/internal/auth/service.go\<close> hashes its tokens with: SHA-256 over bytes (FIPS 180-4) and the
  URL-safe base64 alphabet without padding.  Bytes are integers from 0 to 255.  The lemmas give the
  lengths of a digest and of its text.
\<close>

section \<open>SHA-256\<close>

type_synonym word32 = "32 word"

definition sha_ch :: "word32 \<Rightarrow> word32 \<Rightarrow> word32 \<Rightarrow> word32" where
  "sha_ch x y z = (x AND y) XOR (NOT x AND z)"

definition sha_maj :: "word32 \<Rightarrow> word32 \<Rightarrow> word32 \<Rightarrow> word32" where
  "sha_maj x y z = (x AND y) XOR (x AND z) XOR (y AND z)"

definition rotr :: "nat \<Rightarrow> word32 \<Rightarrow> word32" where
  "rotr n x = drop_bit n x OR push_bit (32 - n) x"

definition Sigma0 :: "word32 \<Rightarrow> word32" where
  "Sigma0 x = rotr 2 x XOR rotr 13 x XOR rotr 22 x"

definition Sigma1 :: "word32 \<Rightarrow> word32" where
  "Sigma1 x = rotr 6 x XOR rotr 11 x XOR rotr 25 x"

definition sigma0 :: "word32 \<Rightarrow> word32" where
  "sigma0 x = rotr 7 x XOR rotr 18 x XOR drop_bit 3 x"

definition sigma1 :: "word32 \<Rightarrow> word32" where
  "sigma1 x = rotr 17 x XOR rotr 19 x XOR drop_bit 10 x"

text \<open>The standard derives its constants from the first primes: the first 32 bits of the fractional parts of
  their cube roots for the rounds and, of the first eight, of their square roots for the start.  \<^verbatim>\<open>int_root\<close>
  finds an integer root bit by bit.\<close>

primrec int_root :: "nat \<Rightarrow> nat \<Rightarrow> nat \<Rightarrow> nat \<Rightarrow> nat" where
  "int_root k n 0 r = r"
| "int_root k n (Suc b) r = int_root k n b (if (r + 2 ^ b) ^ k \<le> n then r + 2 ^ b else r)"

definition first_primes :: "nat list" where
  "first_primes =
    [2, 3, 5, 7, 11, 13, 17, 19, 23, 29, 31, 37, 41, 43, 47, 53, 59, 61, 67, 71, 73, 79,
     83, 89, 97, 101, 103, 107, 109, 113, 127, 131, 137, 139, 149, 151, 157, 163, 167, 173, 179, 181, 191, 193,
     197, 199, 211, 223, 227, 229, 233, 239, 241, 251, 257, 263, 269, 271, 277, 281, 283, 293, 307, 311]"

definition root_bits :: "nat \<Rightarrow> nat \<Rightarrow> word32" where
  "root_bits k p = of_nat (int_root k (p * 2 ^ (32 * k)) 40 0)"

definition sha_constants :: "word32 list" where
  "sha_constants = map (root_bits 3) first_primes"

definition sha_start :: "word32 list" where
  "sha_start = map (root_bits 2) (take 8 first_primes)"

text \<open>The message schedule, latest word first.\<close>

primrec sha_extend :: "nat \<Rightarrow> word32 list \<Rightarrow> word32 list" where
  "sha_extend 0 ws = ws"
| "sha_extend (Suc n) ws = sha_extend n ((sigma1 (ws ! 1) + ws ! 6 + sigma0 (ws ! 14) + ws ! 15) # ws)"

fun sha_round :: "word32 list \<Rightarrow> word32 \<times> word32 \<Rightarrow> word32 list" where
  "sha_round [a, b, c, d, e, f, g, h] (k, w) =
    (let t1 = h + Sigma1 e + sha_ch e f g + k + w; t2 = Sigma0 a + sha_maj a b c in
     [t1 + t2, a, b, c, d + t1, e, f, g])"
| "sha_round s _ = s"

definition sha_block :: "word32 list \<Rightarrow> word32 list \<Rightarrow> word32 list" where
  "sha_block s block = map2 (+) s (foldl sha_round s (zip sha_constants (rev (sha_extend 48 (rev block)))))"

definition be_word :: "int list \<Rightarrow> word32" where
  "be_word bs = of_int (foldl (\<lambda>n b. n * 256 + b) 0 bs)"

fun be_bytes :: "nat \<Rightarrow> int \<Rightarrow> int list" where
  "be_bytes 0 n = []"
| "be_bytes (Suc k) n = be_bytes k (n div 256) @ [n mod 256]"

fun groups_of :: "nat \<Rightarrow> 'a list \<Rightarrow> 'a list list" where
  "groups_of 0 xs = []"
| "groups_of (Suc k) [] = []"
| "groups_of (Suc k) (x # xs) = (x # take k xs) # groups_of (Suc k) (drop k xs)"

definition sha_pad :: "int list \<Rightarrow> int list" where
  "sha_pad bs = bs @ 128 # replicate ((119 - length bs mod 64) mod 64) 0 @ be_bytes 8 (8 * int (length bs))"

definition Sum256 :: "int list \<Rightarrow> int list" where
  "Sum256 bs = concat (map (be_bytes 4 \<circ> uint)
    (foldl sha_block sha_start (map (map be_word \<circ> groups_of 4) (groups_of 64 (sha_pad bs)))))"

section \<open>Base64\<close>

definition base64_alphabet :: string where
  "base64_alphabet = ''ABCDEFGHIJKLMNOPQRSTUVWXYZabcdefghijklmnopqrstuvwxyz0123456789-_''"

definition base64_char :: "int \<Rightarrow> char" where
  "base64_char n = base64_alphabet ! nat (n mod 64)"

fun RawURLEncoding :: "int list \<Rightarrow> string" where
  "RawURLEncoding (a # b # c # bs) =
    map base64_char [a div 4, a mod 4 * 16 + b div 16, b mod 16 * 4 + c div 64, c mod 64] @ RawURLEncoding bs"
| "RawURLEncoding [a, b] = map base64_char [a div 4, a mod 4 * 16 + b div 16, b mod 16 * 4]"
| "RawURLEncoding [a] = map base64_char [a div 4, a mod 4 * 16]"
| "RawURLEncoding [] = []"

definition HashToken :: "string \<Rightarrow> string" where
  "HashToken token = RawURLEncoding (Sum256 (map of_char token))"

section \<open>Lemmas\<close>

text \<open>\<^verbatim>\<open>int_root\<close> finds the greatest root that the bits allow.\<close>

lemma int_root_greatest:
  "r ^ k \<le> n \<Longrightarrow> n < (r + 2 ^ b) ^ k \<Longrightarrow> int_root k n b r ^ k \<le> n \<and> n < (int_root k n b r + 1) ^ k"
  by (induction b arbitrary: r) (auto simp: mult_2 add.assoc)

lemma length_sha_start: "length sha_start = 8"
  by (simp add: sha_start_def first_primes_def)

lemma length_sha_round: "length s = 8 \<Longrightarrow> length (sha_round s x) = 8"
  by (cases "(s, x)" rule: sha_round.cases) (auto simp: Let_def)

lemma length_sha_rounds: "length s = 8 \<Longrightarrow> length (foldl sha_round s xs) = 8"
  by (induction xs arbitrary: s) (auto simp: length_sha_round)

lemma length_sha_block: "length s = 8 \<Longrightarrow> length (sha_block s block) = 8"
  by (simp add: sha_block_def length_sha_rounds)

lemma length_sha_blocks: "length s = 8 \<Longrightarrow> length (foldl sha_block s blocks) = 8"
  by (induction blocks arbitrary: s) (auto simp: length_sha_block)

lemma length_be_bytes [simp]: "length (be_bytes k n) = k"
  by (induction k arbitrary: n) auto

lemma length_Sum256: "length (Sum256 bs) = 32"
proof -
  have "length (concat (map (be_bytes 4 \<circ> uint) ws)) = 4 * length ws" for ws :: "word32 list"
    by (induction ws) auto
  then show ?thesis by (simp add: Sum256_def length_sha_blocks length_sha_start)
qed

lemma length_RawURLEncoding: "length (RawURLEncoding bs) = (4 * length bs + 2) div 3"
  by (induction bs rule: RawURLEncoding.induct) auto

lemma length_HashToken: "length (HashToken token) = 43"
  by (simp add: HashToken_def length_RawURLEncoding length_Sum256)

end
