(* ===== verification/AuthTypes.thy ===== *)
theory AuthTypes
  imports GoCrypto GoTime "HOL-Library.Finite_Map"
begin

text \<open>
  The types of the authentication service and its functions that do not touch the store:
  \<^verbatim>\<open>src/internal/auth/service.go\<close>, \<^verbatim>\<open>workspace.go\<close> and \<^verbatim>\<open>authorization.go\<close>.  Roles, kinds and actions are
  strings, as in the code.  The casbin library is a parameter, an enforcer that answers a request
  of subject, object and action; \<^verbatim>\<open>policy_allows\<close> is what the model text and the policies of
  \<^verbatim>\<open>NewCasbinAuthorizer\<close> say, and \<^verbatim>\<open>casbin_enforces\<close> that an enforcer answers by them.  The bcrypt
  library is a parameter too.
\<close>

section \<open>Stored values\<close>

record User =
  us_ID :: string
  us_Email :: string
  us_PasswordHash :: string
  us_CreatedAt :: time

record Workspace =
  wo_ID :: string
  wo_Name :: string
  wo_CreatedAt :: time

record WorkspaceMembership =
  mb_WorkspaceID :: string
  mb_UserID :: string
  mb_Role :: string
  mb_CreatedAt :: time

record WorkspaceAccess =
  wac_Workspace :: Workspace
  wac_Membership :: WorkspaceMembership

record WorkspaceMember =
  wm_WorkspaceID :: string
  wm_UserID :: string
  wm_Email :: string
  wm_Role :: string
  wm_CreatedAt :: time

record WorkspaceInvitation =
  inv_ID :: string
  inv_WorkspaceID :: string
  inv_WorkspaceName :: string
  inv_Email :: string
  inv_Role :: string
  inv_TokenHash :: string
  inv_InvitedByUserID :: string
  inv_ExpiresAt :: time
  inv_AcceptedAt :: "time option"
  inv_AcceptedByUserID :: string
  inv_RevokedAt :: "time option"
  inv_CreatedAt :: time

record Identity =
  idn_ID :: string
  idn_UserID :: string
  idn_Provider :: string
  idn_Subject :: string
  idn_Email :: string
  idn_EmailVerified :: bool
  idn_CreatedAt :: time
  idn_UpdatedAt :: time

record Session =
  ses_ID :: string
  ses_UserID :: string
  ses_WorkspaceID :: string
  ses_TokenHash :: string
  ses_Kind :: string
  ses_ExpiresAt :: time
  ses_CreatedAt :: time

record APIKey =
  key_ID :: string
  key_UserID :: string
  key_WorkspaceID :: string
  key_Name :: string
  key_TokenHash :: string
  key_Prefix :: string
  key_Scopes :: "string list"
  key_AllowedMeters :: "string list"
  key_ExpiresAt :: "time option"
  key_RevokedAt :: "time option"
  key_CreatedAt :: time
  key_LastUsedAt :: "time option"

record APIKeyEvent =
  ake_ID :: string
  ake_WorkspaceID :: string
  ake_UserID :: string
  ake_APIKeyID :: string
  ake_KeyName :: string
  ake_KeyPrefix :: string
  ake_EventType :: string
  ake_RelatedAPIKeyID :: string
  ake_EffectiveAt :: "time option"
  ake_CreatedAt :: time

record AuthTables =
  au_users :: "User list"
  au_workspaces :: "Workspace list"
  au_memberships :: "WorkspaceMembership list"
  au_invitations :: "WorkspaceInvitation list"
  au_identities :: "Identity list"
  au_sessions :: "Session list"
  au_keys :: "APIKey list"
  au_key_events :: "APIKeyEvent list"

definition empty_auth :: AuthTables where
  "empty_auth = \<lparr>au_users = [], au_workspaces = [], au_memberships = [], au_invitations = [], au_identities = [],
     au_sessions = [], au_keys = [], au_key_events = []\<rparr>"

section \<open>Commands and results\<close>

record CreateUserCommand =
  cuc_Email :: string
  cuc_Password :: string

record LoginCommand =
  lgc_Email :: string
  lgc_Password :: string

record ExternalIdentityLoginCommand =
  xlc_Provider :: string
  xlc_Subject :: string
  xlc_Email :: string
  xlc_EmailVerified :: bool
  xlc_RegistrationDisabled :: bool

record CreateAPIKeyCommand =
  ckc_UserID :: string
  ckc_Name :: string
  ckc_Scopes :: "string list"
  ckc_AllowedMeters :: "string list"
  ckc_ExpiresAt :: "time option"

record RotateAPIKeyCommand =
  rkc_UserID :: string
  rkc_ID :: string
  rkc_GracePeriod :: duration

record CreateWorkspaceInvitationCommand =
  cic_Email :: string
  cic_Role :: string

record UpdateWorkspaceMemberCommand =
  umm_UserID :: string
  umm_Role :: string

record UserResult =
  usr_ID :: string
  usr_Email :: string
  usr_WorkspaceID :: string
  usr_WorkspaceName :: string
  usr_Role :: string
  usr_CreatedAt :: time

record LoginResult =
  lgr_AccessToken :: string
  lgr_AccessExpiresAt :: time
  lgr_RefreshToken :: string
  lgr_RefreshExpiresAt :: time
  lgr_TokenType :: string
  lgr_User :: UserResult

record CreateAPIKeyResult =
  ckr_Key :: APIKey
  ckr_Token :: string

record WorkspaceInvitationResult =
  wir_Invitation :: WorkspaceInvitation
  wir_Token :: string
  wir_Status :: string

record Principal =
  prn_Kind :: string
  prn_ID :: string
  prn_User :: UserResult
  prn_WorkspaceID :: string
  prn_Role :: string
  prn_APIKeyID :: string
  prn_Scopes :: "string list"
  prn_AllowedMeters :: "string list"
  prn_ExpiresAt :: "time option"
  prn_RevokedAt :: "time option"

record Resource =
  rsc_Type :: string
  rsc_ID :: string
  rsc_Meter :: string
  rsc_Subject :: string
  rsc_Attributes :: "(string, string) fmap"

section \<open>Constants\<close>

definition defaultAccessTokenTTL :: duration where "defaultAccessTokenTTL = 15 * Minute"
definition defaultRefreshTokenTTL :: duration where "defaultRefreshTokenTTL = 30 * 24 * Hour"
definition maxAPIKeyRotationGrace :: duration where "maxAPIKeyRotationGrace = 24 * Hour"
definition defaultInvitationTTL :: duration where "defaultInvitationTTL = 7 * 24 * Hour"
definition apiKeyLastUsedInterval :: duration where "apiKeyLastUsedInterval = Minute"
definition minPasswordRunes :: nat where "minPasswordRunes = 8"
definition accessTokenPrefix :: string where "accessTokenPrefix = ''osp_at_''"
definition refreshTokenPrefix :: string where "refreshTokenPrefix = ''osp_rt_''"
definition apiKeyPrefix :: string where "apiKeyPrefix = ''osp_sk_''"
definition invitationTokenPrefix :: string where "invitationTokenPrefix = ''osp_wsi_''"
definition TokenKindAccess :: string where "TokenKindAccess = ''access''"
definition TokenKindRefresh :: string where "TokenKindRefresh = ''refresh''"
definition RoleOwner :: string where "RoleOwner = ''owner''"
definition RoleAdmin :: string where "RoleAdmin = ''admin''"
definition RoleViewer :: string where "RoleViewer = ''viewer''"
definition PrincipalKindSession :: string where "PrincipalKindSession = ''session''"
definition PrincipalKindAPIKey :: string where "PrincipalKindAPIKey = ''api_key''"

lemmas role_defs = RoleOwner_def RoleAdmin_def RoleViewer_def
lemmas principal_kind_defs = PrincipalKindSession_def PrincipalKindAPIKey_def

definition unauthorized :: go_error where
  "unauthorized = JoinErr ErrUnauthorized (NewError ''invalid credentials'' [])"

definition join_invalid :: "string \<Rightarrow> go_error" where
  "join_invalid msg = JoinErr ErrInvalidInput (NewError msg [])"

definition join_forbidden :: "string \<Rightarrow> go_error" where
  "join_forbidden msg = JoinErr ErrForbidden (NewError msg [])"

definition join_conflict :: "string \<Rightarrow> go_error" where
  "join_conflict msg = JoinErr ErrConflict (NewError msg [])"

section \<open>Normalisation\<close>

definition normalizeEmail :: "string \<Rightarrow> go_error + string" where
  "normalizeEmail email0 =
    (let email = ToLower (TrimSpace email0) in
     reject_if (email = [] \<or> \<not> Contains email ''@'') (join_invalid ''email is required'') (Inr email))"

definition validatePassword :: "string \<Rightarrow> go_error + unit" where
  "validatePassword password =
    reject_if (RuneCountInString password < minPasswordRunes) (join_invalid ''password must be at least 8 characters'') (Inr ())"

text \<open>\<^verbatim>\<open>strings.Cut\<close> at a separator of one byte.\<close>

definition Cut :: "string \<Rightarrow> char \<Rightarrow> string \<times> string \<times> bool" where
  "Cut s sep = (if sep \<in> set s then (takeWhile (\<lambda>c. c \<noteq> sep) s, tl (dropWhile (\<lambda>c. c \<noteq> sep) s), True) else (s, [], False))"

definition defaultWorkspaceName :: "string \<Rightarrow> string" where
  "defaultWorkspaceName email =
    (case Cut email CHR ''@'' of (local, _, ok) \<Rightarrow>
      if ok \<and> TrimSpace local \<noteq> [] then local @ CHR 0x27 # ''s workspace'' else ''Personal workspace'')"

definition tokenPrefix :: "string \<Rightarrow> string" where
  "tokenPrefix token = (if length token \<le> 18 then token else take 18 token)"

definition normalizeInvitableRole :: "string \<Rightarrow> go_error + string" where
  "normalizeInvitableRole role0 =
    (let role = ToLower (TrimSpace role0) in
     reject_if (role \<noteq> RoleAdmin \<and> role \<noteq> RoleViewer) (join_invalid ''role must be admin or viewer'') (Inr role))"

definition normalizeMemberRole :: "string \<Rightarrow> go_error + string" where
  "normalizeMemberRole role0 =
    (let role = ToLower (TrimSpace role0) in
     reject_if (role \<noteq> RoleOwner \<and> role \<noteq> RoleAdmin \<and> role \<noteq> RoleViewer)
       (join_invalid ''role must be owner, admin, or viewer'') (Inr role))"

text \<open>\<^verbatim>\<open>strings.EqualFold\<close>, up to the letters that \<^verbatim>\<open>ToLower\<close> covers.\<close>

definition EqualFold :: "string \<Rightarrow> string \<Rightarrow> bool" where
  "EqualFold s t \<longleftrightarrow> ToLower s = ToLower t"

definition invitationStatus :: "WorkspaceInvitation \<Rightarrow> time \<Rightarrow> string" where
  "invitationStatus invitation now =
    (if inv_AcceptedAt invitation \<noteq> None then ''accepted''
     else if inv_RevokedAt invitation \<noteq> None then ''revoked''
     else if \<not> now < inv_ExpiresAt invitation then ''expired''
     else ''pending'')"

definition requireWorkspaceRole :: "Principal \<Rightarrow> string list \<Rightarrow> go_error + unit" where
  "requireWorkspaceRole prn roles =
    reject_if (prn_Role prn \<notin> set roles) (join_forbidden ''workspace role does not allow this action'') (Inr ())"

definition RequireWorkspaceAdmin :: "Principal \<Rightarrow> go_error + unit" where
  "RequireWorkspaceAdmin prn = requireWorkspaceRole prn [RoleOwner, RoleAdmin]"

definition userResult :: "User \<Rightarrow> string \<Rightarrow> UserResult" where
  "userResult user workspaceID = \<lparr>usr_ID = us_ID user, usr_Email = us_Email user, usr_WorkspaceID = workspaceID,
     usr_WorkspaceName = [], usr_Role = [], usr_CreatedAt = us_CreatedAt user\<rparr>"

definition userResultWithAccess :: "User \<Rightarrow> WorkspaceAccess \<Rightarrow> UserResult" where
  "userResultWithAccess user access = \<lparr>usr_ID = us_ID user, usr_Email = us_Email user,
     usr_WorkspaceID = wo_ID (wac_Workspace access), usr_WorkspaceName = wo_Name (wac_Workspace access),
     usr_Role = mb_Role (wac_Membership access), usr_CreatedAt = us_CreatedAt user\<rparr>"

section \<open>Scopes and meters of API keys\<close>

definition DefaultAPIKeyScopes :: "string list" where
  "DefaultAPIKeyScopes = [''usage:write'', ''usage:read'', ''meters:read'', ''meters:write'', ''plans:read'']"

definition allowedAPIKeyScopes :: "string list" where
  "allowedAPIKeyScopes = [''usage:write'', ''usage:read'', ''meters:read'', ''meters:write'', ''alerts:read'', ''alerts:write'',
     ''exports:read'', ''exports:write'', ''plans:read'', ''plans:write'', ''system:read'', ''system:write'',
     ''usage:*'', ''meters:*'', ''alerts:*'', ''exports:*'', ''plans:*'', ''system:*'', ''*'']"

definition scope_step :: "string \<Rightarrow> string list \<Rightarrow> go_error + string list" where
  "scope_step value scopes =
    (let scope = ToLower (TrimSpace value) in
     if scope = [] then Inr scopes
     else if scope \<notin> set allowedAPIKeyScopes
     then Inl (JoinErr ErrInvalidInput (NewError ''unsupported api key scope %q'' [SArg value]))
     else if scope \<in> set scopes then Inr scopes
     else Inr (scopes @ [scope]))"

definition normalizeAPIKeyScopes :: "string list \<Rightarrow> go_error + string list" where
  "normalizeAPIKeyScopes input =
    try_res (fold_res scope_step (if input = [] then DefaultAPIKeyScopes else input) []) (\<lambda>scopes.
    reject_if (scopes = []) (join_invalid ''at least one api key scope is required'') (Inr scopes))"

definition meter_step :: "string list \<Rightarrow> string \<Rightarrow> string list" where
  "meter_step meters value =
    (let meter = TrimSpace value in if meter = [] \<or> meter \<in> set meters then meters else meters @ [meter])"

definition normalizeAllowedMeters :: "string list \<Rightarrow> string list" where
  "normalizeAllowedMeters input = foldl meter_step [] input"

definition scopeAllows :: "string list \<Rightarrow> string \<Rightarrow> bool" where
  "scopeAllows scopes action = list_ex (\<lambda>scope. scope = ''*'' \<or> scope = action \<or>
     (case Cut action CHR '':'' of (pre, _, ok) \<Rightarrow> ok \<and> scope = pre @ '':*'')) scopes"

definition meterAllows :: "string list \<Rightarrow> string \<Rightarrow> bool" where
  "meterAllows allowedMeters meter =
    (allowedMeters = [] \<or> TrimSpace meter \<noteq> [] \<and> list_ex (\<lambda>m. m = ''*'' \<or> m = meter) allowedMeters)"

definition forbidden :: "string \<Rightarrow> Resource \<Rightarrow> go_error" where
  "forbidden action resource = JoinErr ErrForbidden (NewError ''not allowed to %s %s'' [SArg action, SArg (rsc_Type resource)])"

section \<open>The policies\<close>

type_synonym enforcer = "string \<Rightarrow> string \<Rightarrow> string \<Rightarrow> go_error + bool"

definition casbin_policies :: "(string \<times> string \<times> string) list" where
  "casbin_policies = [
     (PrincipalKindSession, ''*'', ''*''),
     (PrincipalKindAPIKey, ''usage'', ''usage:read''), (PrincipalKindAPIKey, ''usage'', ''usage:write''),
     (PrincipalKindAPIKey, ''meter'', ''meters:read''), (PrincipalKindAPIKey, ''meter'', ''meters:write''),
     (PrincipalKindAPIKey, ''alert'', ''alerts:read''), (PrincipalKindAPIKey, ''alert'', ''alerts:write''),
     (PrincipalKindAPIKey, ''export'', ''exports:read''), (PrincipalKindAPIKey, ''export'', ''exports:write''),
     (PrincipalKindAPIKey, ''plan'', ''plans:read''), (PrincipalKindAPIKey, ''plan'', ''plans:write''),
     (PrincipalKindAPIKey, ''system'', ''system:read''), (PrincipalKindAPIKey, ''system'', ''system:write'')]"

text \<open>The matcher and the effect of the model text.\<close>

definition policy_allows :: "string \<Rightarrow> string \<Rightarrow> string \<Rightarrow> bool" where
  "policy_allows sub obj act = list_ex (\<lambda>(psub, pobj, pact).
     (psub = ''*'' \<or> psub = sub) \<and> (pobj = ''*'' \<or> pobj = obj) \<and> (pact = ''*'' \<or> pact = act)) casbin_policies"

definition casbin_enforces :: "enforcer \<Rightarrow> bool" where
  "casbin_enforces enforce \<longleftrightarrow> enforce = (\<lambda>sub obj act. Inr (policy_allows sub obj act))"

text \<open>\<^verbatim>\<open>strings.HasSuffix\<close>\<close>

definition HasSuffix :: "string \<Rightarrow> string \<Rightarrow> bool" where
  "HasSuffix s t = suffix t s"

section \<open>Passwords\<close>

text \<open>\<^verbatim>\<open>bcrypt.GenerateFromPassword\<close> with the salt it draws, and \<^verbatim>\<open>bcrypt.CompareHashAndPassword\<close>.\<close>

record bcrypt =
  bc_Generate :: "string \<Rightarrow> string \<Rightarrow> go_error + string"
  bc_Compare :: "string \<Rightarrow> string \<Rightarrow> bool"

section \<open>Lemmas\<close>

lemma normalizeAPIKeyScopes_ok:
  assumes "normalizeAPIKeyScopes input = Inr scopes"
  shows "scopes \<noteq> []" "distinct scopes" "set scopes \<subseteq> set allowedAPIKeyScopes"
proof -
  let ?input = "if input = [] then DefaultAPIKeyScopes else input"
  have run: "fold_res scope_step ?input [] = Inr scopes" and "scopes \<noteq> []"
    using assms by (auto simp: normalizeAPIKeyScopes_def try_res_eq_Inr)
  have "distinct scopes \<and> set scopes \<subseteq> set allowedAPIKeyScopes"
    by (rule fold_res_invariant [OF run]) (auto simp: scope_step_def Let_def split: if_splits)
  then show "scopes \<noteq> []" "distinct scopes" "set scopes \<subseteq> set allowedAPIKeyScopes"
    using \<open>scopes \<noteq> []\<close> by auto
qed

lemma normalizeAllowedMeters_ok:
  "distinct (normalizeAllowedMeters input)" "[] \<notin> set (normalizeAllowedMeters input)"
proof -
  have "distinct (foldl meter_step ms input) \<and> [] \<notin> set (foldl meter_step ms input)" if "distinct ms" "[] \<notin> set ms" for ms
    using that by (induction input arbitrary: ms) (auto simp: meter_step_def Let_def)
  from this [of "[]"] show "distinct (normalizeAllowedMeters input)" "[] \<notin> set (normalizeAllowedMeters input)"
    by (auto simp: normalizeAllowedMeters_def)
qed

lemma normalizeMemberRole_ok: "normalizeMemberRole r = Inr role \<Longrightarrow> role \<in> {RoleOwner, RoleAdmin, RoleViewer}"
  by (auto simp: normalizeMemberRole_def Let_def)

lemma normalizeInvitableRole_ok: "normalizeInvitableRole r = Inr role \<Longrightarrow> role \<in> {RoleAdmin, RoleViewer}"
  by (auto simp: normalizeInvitableRole_def Let_def)

lemma policy_allows_session: "policy_allows PrincipalKindSession obj act"
  by (simp add: policy_allows_def casbin_policies_def)

end
