(* ===== verification/SavedQueryTypes.thy ===== *)
theory SavedQueryTypes
  imports UsageQuery
begin

text \<open>
  The saved query of a user (\<^verbatim>\<open>src/internal/metering/app/savedquery/service.go\<close>).  The JSON of a query is
  taken as the object it stands for.
\<close>

record SavedQuery =
  sq_ID :: string
  sq_UserID :: string
  sq_Name :: string
  sq_Query :: metadata
  sq_GroupBy :: "string list"
  sq_BucketSize :: string
  sq_Limit :: int
  sq_Pinned :: bool
  sq_Position :: int
  sq_CreatedAt :: time
  sq_UpdatedAt :: time

end
