(* ===== verification/RollupTypes.thy ===== *)
theory RollupTypes
  imports UsageDomain
begin

text \<open>
  The rows that retention leaves of pruned events: the tables \<^verbatim>\<open>usage_hourly_rollups\<close> and
  \<^verbatim>\<open>usage_rollup_runs\<close> of \<^verbatim>\<open>src/internal/metering/adapters/sqlite/migrations/001_init.up.sql\<close>, without
  their numbers.
\<close>

record Rollup =
  ru_WorkspaceID :: string
  ru_MeterName :: string
  ru_Subject :: string
  ru_BucketStart :: time
  ru_Metadata :: metadata
  ru_EventCount :: int
  ru_QuantitySum :: f64
  ru_QuantityMin :: f64
  ru_QuantityMax :: f64
  ru_FirstQuantity :: f64
  ru_FirstEventTime :: time
  ru_FirstEventID :: string
  ru_LastQuantity :: f64
  ru_LastEventTime :: time
  ru_LastEventID :: string
  ru_RolledUpAt :: time

record RollupRun =
  rr_WorkspaceID :: string
  rr_MeterName :: string
  rr_FinalizedThrough :: time
  rr_SourceEvents :: int
  rr_RollupRows :: int
  rr_CreatedAt :: time

end
