(* ===== verification/Store.thy ===== *)
theory Store
  imports UsageBatch AlertTypes AuthTypes SavedQueryTypes RollupTypes
begin

text \<open>
  The state the services share: the tables of the SQLite store
  (\<^verbatim>\<open>src/internal/metering/adapters/sqlite\<close>, \<^verbatim>\<open>migrations/001_init.up.sql\<close>), the clock, the
  source of identifiers and a schedule of database failures.

  A table is a list of rows in insertion order.  Times are stored as RFC 3339 texts; a row holds
  the time and the comparisons of the queries go through its text (\<^verbatim>\<open>time_text_less\<close>).
  A statement either fails, by the next entry of the schedule or by a unique constraint, and
  changes nothing, or runs.  Starting and committing a transaction are statements too;
  \<^verbatim>\<open>WithinTransaction\<close> restores the tables when its body or the commit fails and joins a
  transaction that is already open.  Foreign keys to workspaces and meters are not modelled; the
  cascade of a deleted plan is.
\<close>

section \<open>Request context\<close>

record ctx =
  ctx_workspaceID :: "string option"
  ctx_principalWorkspaceID :: "string option"

definition WithWorkspaceID :: "ctx \<Rightarrow> string \<Rightarrow> ctx" where
  "WithWorkspaceID ctx id0 =
    (let workspaceID = TrimSpace id0 in
     if workspaceID = [] then ctx else ctx\<lparr>ctx_workspaceID := Some workspaceID\<rparr>)"

definition WorkspaceIDFromContext :: "ctx \<Rightarrow> string option" where
  "WorkspaceIDFromContext ctx =
    (case ctx_workspaceID ctx of
       Some w \<Rightarrow> if TrimSpace w \<noteq> [] then Some w
         else (case ctx_principalWorkspaceID ctx of
             Some p \<Rightarrow> if TrimSpace p \<noteq> [] then Some p else None | None \<Rightarrow> None)
     | None \<Rightarrow> (case ctx_principalWorkspaceID ctx of
             Some p \<Rightarrow> if TrimSpace p \<noteq> [] then Some p else None | None \<Rightarrow> None))"

definition RequireWorkspaceID :: "ctx \<Rightarrow> go_error + string" where
  "RequireWorkspaceID ctx =
    (case WorkspaceIDFromContext ctx of
       Some w \<Rightarrow> Inr w
     | None \<Rightarrow> Inl (JoinErr ErrUnauthorized (NewError ''workspace is required'' [])))"

section \<open>Results that are stored\<close>

record UsageResult =
  ur_ID :: string
  ur_IdempotencyKey :: string
  ur_Subject :: string
  ur_MeterName :: string
  ur_Quantity :: f64
  ur_EventTime :: time
  ur_ReceivedAt :: time
  ur_Metadata :: metadata
  ur_Replayed :: bool

definition zero_usage_result :: UsageResult where
  "zero_usage_result = \<lparr>ur_ID = [], ur_IdempotencyKey = [], ur_Subject = [], ur_MeterName = [], ur_Quantity = 0,
     ur_EventTime = zero_time, ur_ReceivedAt = zero_time, ur_Metadata = fmempty, ur_Replayed = False\<rparr>"

record ConsumeResult =
  cr_Accepted :: bool
  cr_Replayed :: bool
  cr_EvaluationFailed :: bool
  cr_Event :: UsageResult
  cr_Quota :: ConsumptionAssessment

definition zero_consume_result :: ConsumeResult where
  "zero_consume_result = \<lparr>cr_Accepted = False, cr_Replayed = False, cr_EvaluationFailed = False,
     cr_Event = zero_usage_result, cr_Quota = zero_assessment\<rparr>"

section \<open>Tables\<close>

record AssignmentRow =
  ar_ID :: string
  ar_WorkspaceID :: string
  ar_Subject :: string
  ar_PlanID :: string
  ar_AssignedAt :: time
  ar_PeriodAnchorAt :: time
  ar_UnassignedAt :: "time option"
  ar_UpdatedAt :: time

record JobRow =
  jr_WorkspaceID :: string
  jr_Subject :: string
  jr_MeterName :: string
  jr_RunAfter :: time
  jr_LockedUntil :: "time option"
  jr_Attempts :: int
  jr_CreatedAt :: time
  jr_UpdatedAt :: time

datatype OutboxStatus = OutboxPending | OutboxRunning | OutboxDeadLetter

record OutboxRow =
  ob_PublicID :: string
  ob_WorkspaceID :: string
  ob_EventID :: string
  ob_Subject :: string
  ob_MeterName :: string
  ob_Quantity :: f64
  ob_Metadata :: metadata
  ob_Status :: OutboxStatus
  ob_Attempts :: int
  ob_NextAttemptAt :: time
  ob_LockedUntil :: "time option"
  ob_ClaimToken :: "string option"
  ob_LastError :: string
  ob_CreatedAt :: time
  ob_UpdatedAt :: time

record DecisionRow =
  dr_WorkspaceID :: string
  dr_IdempotencyKey :: string
  dr_Response :: ConsumeResult
  dr_Subject :: string
  dr_MeterName :: string
  dr_Accepted :: bool
  dr_EvaluationFailed :: bool
  dr_Enforcement :: EnforcementMode
  dr_State :: OverageState
  dr_CreatedAt :: time

record DecisionPruneRow =
  dp_ID :: string
  dp_WorkspaceID :: string
  dp_Before :: time
  dp_DryRun :: bool
  dp_Deleted :: int
  dp_CreatedAt :: time

record RateRow =
  rw_WorkspaceID :: string
  rw_WindowStart :: time
  rw_Permitted :: int
  rw_Throttled :: int
  rw_UpdatedAt :: time

record db =
  db_meters :: "(string \<times> Meter) list"
  db_meter_counts :: "(string \<times> int) list"
  db_plans :: "(string \<times> Plan) list"
  db_limits :: "(string \<times> PlanLimit) list"
  db_assignments :: "AssignmentRow list"
  db_counters :: "EntitlementUsageCounter list"
  db_states :: "EntitlementState list"
  db_entitlement_events :: "EntitlementEvent list"
  db_snapshots :: "EntitlementPeriodSnapshot list"
  db_jobs :: "JobRow list"
  db_dead_letters :: "(string \<times> CheckDeadLetter) list"
  db_events :: "(string \<times> Event) list"
  db_outbox :: "OutboxRow list"
  db_bulk :: "((string \<times> string) \<times> BulkSaveResult) list"
  db_decisions :: "DecisionRow list"
  db_decision_prunes :: "DecisionPruneRow list"
  db_ingestions :: "(string \<times> IngestionRun) list"
  db_usage_counts :: "(string \<times> int) list"
  db_rate_windows :: "RateRow list"
  db_throttled :: "(string \<times> int) list"
  db_alerts :: AlertTables
  db_auth :: AuthTables
  db_saved_queries :: "SavedQuery list"
  db_export_jobs :: "ExportJob list"
  db_export_cleanups :: "ExportCleanupRun list"
  db_rollups :: "Rollup list"
  db_rollup_runs :: "RollupRun list"
  db_prune_runs :: "(string \<times> PruneRun) list"
  db_prune_counts :: "(string \<times> int) list"

text \<open>The store as the migrations create it.\<close>

definition empty_db :: db where
  "empty_db = \<lparr>db_meters = [], db_meter_counts = [], db_plans = [], db_limits = [], db_assignments = [], db_counters = [], db_states = [],
     db_entitlement_events = [], db_snapshots = [], db_jobs = [], db_dead_letters = [], db_events = [],
     db_outbox = [], db_bulk = [], db_decisions = [], db_decision_prunes = [], db_ingestions = [], db_usage_counts = [], db_rate_windows = [], db_throttled = [],
     db_alerts = empty_alerts, db_auth = empty_auth, db_saved_queries = [], db_export_jobs = [], db_export_cleanups = [],
     db_rollups = [], db_rollup_runs = [], db_prune_runs = [], db_prune_counts = []\<rparr>"

record world =
  w_db :: db
  w_in_tx :: bool
  w_now :: time
  w_clock :: "time list"
  w_next_id :: nat
  w_faults :: "string option list"

section \<open>Clock, identifiers and statements\<close>

text \<open>The clock yields its scheduled readings, then stands still.\<close>

definition clock_now :: "(world, time) proc" where
  "clock_now = (\<lambda>w. case w_clock w of
      [] \<Rightarrow> (Inr (w_now w), w)
    | t # ts \<Rightarrow> (Inr t, w\<lparr>w_now := t, w_clock := ts\<rparr>))"

text \<open>\<^verbatim>\<open>uuid.NewString\<close>: a text not returned before.\<close>

definition fresh_id :: "(world, string) proc" where
  "fresh_id = (\<lambda>w. (Inr (''id-'' @ decimal (w_next_id w)), w\<lparr>w_next_id := w_next_id w + 1\<rparr>))"

definition next_fault :: "world \<Rightarrow> string option" where
  "next_fault w = (case w_faults w of [] \<Rightarrow> None | f # _ \<Rightarrow> f)"

definition drop_fault :: "world \<Rightarrow> world" where
  "drop_fault w = w\<lparr>w_faults := tl (w_faults w)\<rparr>"

definition stmt :: "(db \<Rightarrow> (go_error + 'a) \<times> db) \<Rightarrow> (world, 'a) proc" where
  "stmt f = (\<lambda>w. case next_fault w of
      Some msg \<Rightarrow> (Inl (DriverErr msg), drop_fault w)
    | None \<Rightarrow> (case f (w_db w) of
        (Inl e, _) \<Rightarrow> (Inl e, drop_fault w)
      | (Inr x, d) \<Rightarrow> (Inr x, (drop_fault w)\<lparr>w_db := d\<rparr>)))"

text \<open>A query, and an update that returns the number of rows it changed.\<close>

definition query :: "(db \<Rightarrow> 'a) \<Rightarrow> (world, 'a) proc" where
  "query f = stmt (\<lambda>d. (Inr (f d), d))"

definition exec :: "(db \<Rightarrow> db) \<Rightarrow> (world, unit) proc" where
  "exec f = stmt (\<lambda>d. (Inr (), f d))"

definition execrows :: "(db \<Rightarrow> nat) \<Rightarrow> (db \<Rightarrow> db) \<Rightarrow> (world, nat) proc" where
  "execrows n f = stmt (\<lambda>d. (Inr (n d), f d))"

text \<open>An insert that a unique constraint may refuse.\<close>

definition unique_violation :: go_error where
  "unique_violation = DriverErr ''UNIQUE constraint failed''"

definition exec_unique :: "(db \<Rightarrow> bool) \<Rightarrow> (db \<Rightarrow> db) \<Rightarrow> (world, unit) proc" where
  "exec_unique ok f = stmt (\<lambda>d. if ok (f d) then (Inr (), f d) else (Inl unique_violation, d))"

fun error_text :: "go_error \<Rightarrow> string" where
  "error_text (DriverErr m) = m"
| "error_text (Sentinel m) = m"
| "error_text (NewError m _) = m"
| "error_text (Errorf e m _) = error_text e @ m"
| "error_text (JoinErr a b) = error_text a @ ''\<newline>'' @ error_text b"

definition isUniqueConstraint :: "go_error \<Rightarrow> bool" where
  "isUniqueConstraint e = Contains (ToLower (error_text e)) ''unique constraint''"

definition conflict_if_unique :: "(world, 'a) proc \<Rightarrow> (world, 'a) proc" where
  "conflict_if_unique m = inspect m (\<lambda>r. case r of
      Inl e \<Rightarrow> return_err (if isUniqueConstraint e then JoinErr ErrConflict e else e)
    | Inr x \<Rightarrow> return_ok x)"

definition with_workspace :: "ctx \<Rightarrow> (string \<Rightarrow> (world, 'a) proc) \<Rightarrow> (world, 'a) proc" where
  "with_workspace ctx k = attempt (lift_res (RequireWorkspaceID ctx)) k"

definition not_found_if_no_row :: "(world, nat) proc \<Rightarrow> (world, unit) proc" where
  "not_found_if_no_row m = attempt m (\<lambda>rows. if rows = 0 then return_err ErrNotFound else return_ok ())"

section \<open>Transactions\<close>

text \<open>\<^verbatim>\<open>WithinTransaction\<close>.  The body returns an optional error together with the variables it
  has assigned; these keep their values when the transaction is rolled back.\<close>

definition WithinTransaction ::
  "'v \<Rightarrow> (world \<Rightarrow> (go_error option \<times> 'v) \<times> world) \<Rightarrow> world \<Rightarrow> (go_error option \<times> 'v) \<times> world" where
  "WithinTransaction v0 fn w =
    (if w_in_tx w then fn w
     else case next_fault w of
       Some msg \<Rightarrow> ((Some (DriverErr msg), v0), drop_fault w)
     | None \<Rightarrow>
        (case fn ((drop_fault w)\<lparr>w_in_tx := True\<rparr>) of
          ((Some e, v), u) \<Rightarrow> ((Some e, v), u\<lparr>w_db := w_db w, w_in_tx := False\<rparr>)
        | ((None, v), u) \<Rightarrow>
            (case next_fault u of
               Some msg \<Rightarrow> ((Some (DriverErr msg), v), (drop_fault u)\<lparr>w_db := w_db w, w_in_tx := False\<rparr>)
             | None \<Rightarrow> ((None, v), (drop_fault u)\<lparr>w_in_tx := False\<rparr>))))"

text \<open>A call in a function that returns a value along with its error, and one whose error the
  function inspects.\<close>

definition try_var ::
  "'v \<Rightarrow> (world, 'a) proc \<Rightarrow> ('a \<Rightarrow> world \<Rightarrow> (go_error option \<times> 'v) \<times> world) \<Rightarrow>
   world \<Rightarrow> (go_error option \<times> 'v) \<times> world" where
  "try_var v m k w = (case m w of (Inl e, u) \<Rightarrow> ((Some e, v), u) | (Inr x, u) \<Rightarrow> k x u)"

definition inspect_var ::
  "(world, 'a) proc \<Rightarrow> (go_error + 'a \<Rightarrow> world \<Rightarrow> (go_error option \<times> 'v) \<times> world) \<Rightarrow>
   world \<Rightarrow> (go_error option \<times> 'v) \<times> world" where
  "inspect_var m k w = (case m w of (r, u) \<Rightarrow> k r u)"

definition return_var :: "go_error option \<Rightarrow> 'v \<Rightarrow> world \<Rightarrow> (go_error option \<times> 'v) \<times> world" where
  "return_var e v w = ((e, v), w)"

text \<open>A transaction whose body assigns its result only when it succeeds.\<close>

definition as_body :: "(world, 'a) proc \<Rightarrow> world \<Rightarrow> (go_error option \<times> 'a option) \<times> world" where
  "as_body m w = (case m w of (Inl e, u) \<Rightarrow> ((Some e, None), u) | (Inr x, u) \<Rightarrow> ((None, Some x), u))"

definition in_transaction :: "(world, 'a) proc \<Rightarrow> (world, 'a) proc" where
  "in_transaction m = (\<lambda>w. case WithinTransaction None (as_body m) w of
      ((Some e, _), u) \<Rightarrow> (Inl e, u)
    | ((None, Some x), u) \<Rightarrow> (Inr x, u)
    | ((None, None), u) \<Rightarrow> (Inl (NewError ''unreachable'' []), u))"

section \<open>Lemmas\<close>

lemma drop_fault_fields [simp]:
  "w_db (drop_fault w) = w_db w" "w_in_tx (drop_fault w) = w_in_tx w" "w_now (drop_fault w) = w_now w"
  "w_next_id (drop_fault w) = w_next_id w" "w_clock (drop_fault w) = w_clock w"
  by (simp_all add: drop_fault_def)

lemma clock_now_db [simp]: "w_db (snd (clock_now w)) = w_db w" "w_in_tx (snd (clock_now w)) = w_in_tx w"
  by (simp_all add: clock_now_def split: list.splits)

lemma fresh_id_db [simp]: "w_db (snd (fresh_id w)) = w_db w" "w_in_tx (snd (fresh_id w)) = w_in_tx w"
  by (simp_all add: fresh_id_def)

lemma stmt_in_tx [simp]: "w_in_tx (snd (stmt f w)) = w_in_tx w"
  by (simp add: stmt_def split: option.splits sum.splits prod.splits)

lemma stmt_ok: "stmt f w = (Inr x, u) \<Longrightarrow> f (w_db w) = (Inr x, w_db u) \<and> w_in_tx u = w_in_tx w"
  by (auto simp: stmt_def split: option.splits sum.splits prod.splits)

lemma stmt_err: "stmt f w = (Inl e, u) \<Longrightarrow> w_db u = w_db w"
  by (auto simp: stmt_def split: option.splits sum.splits prod.splits)

lemma query_db [simp]: "w_db (snd (query f w)) = w_db w"
  by (auto simp: query_def stmt_def split: option.splits)

lemma query_ok: "query f w = (Inr x, u) \<Longrightarrow> x = f (w_db w) \<and> w_db u = w_db w"
  by (auto simp: query_def dest!: stmt_ok)

subsection \<open>What a procedure may change\<close>

text \<open>A predicate on the tables alone.\<close>

definition on_db :: "(db \<Rightarrow> bool) \<Rightarrow> world \<Rightarrow> bool" where
  "on_db P w = P (w_db w)"

lemma keeps_clock [keeps_rules]: "keeps (on_db P) clock_now"
  by (simp add: keeps_def on_db_def)

lemma keeps_fresh_id [keeps_rules]: "keeps (on_db P) fresh_id"
  by (simp add: keeps_def on_db_def)

lemma keeps_query [keeps_rules]: "keeps (on_db P) (query f)"
  by (simp add: keeps_def on_db_def)

lemma keeps_stmt:
  assumes "\<And>d x d'. P d \<Longrightarrow> f d = (Inr x, d') \<Longrightarrow> P d'"
  shows "keeps (on_db P) (stmt f)"
proof (rule keepsI)
  fix w assume "on_db P w"
  then show "on_db P (snd (stmt f w))"
    using assms by (auto simp: stmt_def on_db_def split: option.splits sum.splits prod.splits)
qed

lemma keeps_exec: "(\<And>d. P d \<Longrightarrow> P (f d)) \<Longrightarrow> keeps (on_db P) (exec f)"
  unfolding exec_def by (rule keeps_stmt) auto

lemma keeps_execrows: "(\<And>d. P d \<Longrightarrow> P (f d)) \<Longrightarrow> keeps (on_db P) (execrows n f)"
  unfolding execrows_def by (rule keeps_stmt) auto

lemma keeps_exec_unique: "(\<And>d. P d \<Longrightarrow> ok (f d) \<Longrightarrow> P (f d)) \<Longrightarrow> keeps (on_db P) (exec_unique ok f)"
  unfolding exec_unique_def by (rule keeps_stmt) (auto split: if_splits)

lemma keeps_conflict [keeps_rules]: "keeps P m \<Longrightarrow> keeps P (conflict_if_unique m)"
  unfolding conflict_if_unique_def
  by (rule keeps_inspect) (auto simp: keeps_rules split: sum.splits)

lemma keeps_with_workspace [keeps_rules]: "(\<And>x. keeps P (k x)) \<Longrightarrow> keeps P (with_workspace ctx k)"
  unfolding with_workspace_def by (rule keeps_attempt) (auto simp: keeps_rules)

lemma keeps_not_found [keeps_rules]: "keeps P m \<Longrightarrow> keeps P (not_found_if_no_row m)"
  unfolding not_found_if_no_row_def by (rule keeps_attempt) (auto simp: keeps_rules)

text \<open>A transaction keeps what its body keeps: it ends with the body's tables or the ones before.\<close>

lemma in_transaction_cases:
  assumes "in_transaction m w = (r, u)"
  obtains (ran) "w_in_tx w" "m w = (r, u)"
  | (committed) x v where "\<not> w_in_tx w" "r = Inr x"
      "m ((drop_fault w)\<lparr>w_in_tx := True\<rparr>) = (Inr x, v)" "w_db u = w_db v" "\<not> w_in_tx u"
  | (rolled_back) e where "\<not> w_in_tx w" "r = Inl e" "w_db u = w_db w" "\<not> w_in_tx u"
  using assms
  by (auto simp: in_transaction_def WithinTransaction_def as_body_def split: if_splits option.splits prod.splits sum.splits)

lemma keeps_in_transaction [keeps_rules]:
  assumes "keeps (on_db P) m"
  shows "keeps (on_db P) (in_transaction m)"
proof (rule keepsI)
  fix w assume w: "on_db P w"
  obtain r u where ru: "in_transaction m w = (r, u)" by (cases "in_transaction m w")
  then show "on_db P (snd (in_transaction m w))"
  proof (cases rule: in_transaction_cases)
    case ran
    then show ?thesis using keepsD [OF assms w] ru by simp
  next
    case (committed x v)
    have "on_db P ((drop_fault w)\<lparr>w_in_tx := True\<rparr>)" using w by (simp add: on_db_def)
    then have "on_db P v" using keepsD [OF assms] committed(3) by fastforce
    then show ?thesis using committed ru by (simp add: on_db_def)
  next
    case (rolled_back e)
    then show ?thesis using w ru by (simp add: on_db_def)
  qed
qed

text \<open>A failed transaction that is not nested leaves the tables as they were.\<close>

lemma in_transaction_atomic:
  "in_transaction m w = (Inl e, u) \<Longrightarrow> \<not> w_in_tx w \<Longrightarrow> w_db u = w_db w"
  by (erule in_transaction_cases) auto

subsection \<open>What a successful procedure ensures\<close>

lemma ensures_stmt:
  assumes "\<And>d x d'. P d \<Longrightarrow> f d = (Inr x, d') \<Longrightarrow> Q x d'"
  shows "ensures (on_db P) (stmt f) (\<lambda>x. on_db (Q x))"
  using assms by (auto simp: ensures_def on_db_def dest!: stmt_ok)

lemma ensures_query:
  "(\<And>d. P d \<Longrightarrow> Q (f d) d) \<Longrightarrow> ensures (on_db P) (query f) (\<lambda>x. on_db (Q x))"
  unfolding query_def by (rule ensures_stmt) auto

lemma ensures_exec:
  "(\<And>d. P d \<Longrightarrow> Q () (f d)) \<Longrightarrow> ensures (on_db P) (exec f) (\<lambda>x. on_db (Q x))"
  unfolding exec_def by (rule ensures_stmt) auto

lemma ensures_execrows:
  "(\<And>d. P d \<Longrightarrow> Q (n d) (f d)) \<Longrightarrow> ensures (on_db P) (execrows n f) (\<lambda>x. on_db (Q x))"
  unfolding execrows_def by (rule ensures_stmt) auto

lemma ensures_exec_unique:
  "(\<And>d. P d \<Longrightarrow> ok (f d) \<Longrightarrow> Q () (f d)) \<Longrightarrow> ensures (on_db P) (exec_unique ok f) (\<lambda>x. on_db (Q x))"
  unfolding exec_unique_def by (rule ensures_stmt) (auto split: if_splits)

lemma ensures_with_workspace:
  "(\<And>ws. RequireWorkspaceID ctx = Inr ws \<Longrightarrow> ensures P (k ws) Q) \<Longrightarrow> ensures P (with_workspace ctx k) Q"
  unfolding with_workspace_def by (cases "RequireWorkspaceID ctx") (auto simp: ensures_rules)

lemma ensures_in_transaction:
  assumes "ensures (on_db P) m (\<lambda>x. on_db (Q x))"
  shows "ensures (on_db P) (in_transaction m) (\<lambda>x. on_db (Q x))"
proof (rule ensuresI)
  fix w x u assume w: "on_db P w" and run: "in_transaction m w = (Inr x, u)"
  from run show "on_db (Q x) u"
  proof (cases rule: in_transaction_cases)
    case ran
    then show ?thesis using ensuresD [OF assms _ w] by simp
  next
    case (committed y v)
    have "on_db P ((drop_fault w)\<lparr>w_in_tx := True\<rparr>)" using w by (simp add: on_db_def)
    with ensuresD [OF assms committed(3)] have "on_db (Q y) v" .
    then show ?thesis using committed by (simp add: on_db_def)
  qed simp
qed

lemma ensures_not_found:
  "ensures P m (\<lambda>rows s. rows \<noteq> 0 \<longrightarrow> Q () s) \<Longrightarrow> ensures P (not_found_if_no_row m) Q"
  unfolding not_found_if_no_row_def
  by (rule ensures_attempt, assumption) (auto simp: ensures_def split: if_splits)

text \<open>A transaction at the outermost level keeps what holds before it and after it commits.\<close>

lemma in_transaction_keeps:
  assumes "ensures (on_db P) m (\<lambda>_. on_db P)" "\<not> w_in_tx w" "on_db P w"
  shows "on_db P (snd (in_transaction m w))"
proof -
  obtain r u where run: "in_transaction m w = (r, u)" by (cases "in_transaction m w")
  show ?thesis
  proof (cases r)
    case (Inl e)
    then show ?thesis using in_transaction_atomic [of m w e u] run assms(2,3) by (simp add: on_db_def)
  next
    case (Inr x)
    then show ?thesis using ensuresD [OF ensures_in_transaction [OF assms(1)], of w x u] run assms(3) by simp
  qed
qed

subsection \<open>Between transactions\<close>

text \<open>No transaction is open and the tables satisfy a predicate: the states in which a service is
  called.\<close>

definition quiet :: "(db \<Rightarrow> bool) \<Rightarrow> world \<Rightarrow> bool" where
  "quiet P w \<longleftrightarrow> \<not> w_in_tx w \<and> P (w_db w)"

lemma keeps_quiet_prims [keeps_rules]:
  "keeps (quiet P) clock_now" "keeps (quiet P) fresh_id" "keeps (quiet P) (query f)"
  by (simp_all add: keeps_def quiet_def query_def) (auto simp: stmt_def split: option.splits)

lemma keeps_quiet_stmt:
  assumes "\<And>d x d'. P d \<Longrightarrow> f d = (Inr x, d') \<Longrightarrow> P d'"
  shows "keeps (quiet P) (stmt f)"
  using keepsD [OF keeps_stmt [of P f]] assms by (auto simp: keeps_def quiet_def on_db_def)

lemma keeps_quiet_exec: "(\<And>d. P d \<Longrightarrow> P (f d)) \<Longrightarrow> keeps (quiet P) (exec f)"
  unfolding exec_def by (rule keeps_quiet_stmt) auto

lemma keeps_quiet_execrows: "(\<And>d. P d \<Longrightarrow> P (f d)) \<Longrightarrow> keeps (quiet P) (execrows n f)"
  unfolding execrows_def by (rule keeps_quiet_stmt) auto

lemma keeps_quiet_exec_unique: "(\<And>d. P d \<Longrightarrow> ok (f d) \<Longrightarrow> P (f d)) \<Longrightarrow> keeps (quiet P) (exec_unique ok f)"
  unfolding exec_unique_def by (rule keeps_quiet_stmt) (auto split: if_splits)

lemma in_transaction_quiet:
  assumes "ensures (on_db P) m (\<lambda>_. on_db P)"
  shows "keeps (quiet P) (in_transaction m)"
proof (rule keepsI)
  fix w assume w: "quiet P w"
  obtain r u where run: "in_transaction m w = (r, u)" by (cases "in_transaction m w")
  then have "\<not> w_in_tx (snd (in_transaction m w))"
    using w run by (cases rule: in_transaction_cases) (auto simp: quiet_def)
  then show "quiet P (snd (in_transaction m w))"
    using in_transaction_keeps [OF assms, of w] w by (simp add: quiet_def on_db_def)
qed

lemma keeps_quiet_transaction: "keeps (on_db P) m \<Longrightarrow> keeps (quiet P) (in_transaction m)"
  by (intro in_transaction_quiet ensures_keeps)

text \<open>Whether a transaction is open: every operation closes what it opens.\<close>

definition tx_is :: "bool \<Rightarrow> world \<Rightarrow> bool" where
  "tx_is b w \<longleftrightarrow> w_in_tx w = b"

lemma keeps_tx_stmt [keeps_rules]: "keeps (tx_is b) (stmt f)"
  by (simp add: keeps_def tx_is_def)

lemma keeps_tx_prims [keeps_rules]:
  "keeps (tx_is b) clock_now" "keeps (tx_is b) fresh_id" "keeps (tx_is b) (query q)" "keeps (tx_is b) (exec g)"
  "keeps (tx_is b) (execrows n g)" "keeps (tx_is b) (exec_unique ok g)"
  by (simp_all add: keeps_def tx_is_def query_def exec_def execrows_def exec_unique_def)

lemma keeps_tx_transaction [keeps_rules]:
  assumes "\<And>b. keeps (tx_is b) m"
  shows "keeps (tx_is b) (in_transaction m)"
proof (rule keepsI)
  fix w assume w: "tx_is b w"
  obtain r u where run: "in_transaction m w = (r, u)" by (cases "in_transaction m w")
  then show "tx_is b (snd (in_transaction m w))"
    using w run keepsD [OF assms, of b w] by (cases rule: in_transaction_cases) (auto simp: tx_is_def)
qed

lemma keeps_quietI: "keeps (on_db P) m \<Longrightarrow> keeps (tx_is False) m \<Longrightarrow> keeps (quiet P) m"
  unfolding keeps_def quiet_def on_db_def tx_is_def by auto

text \<open>A procedure that leaves the tables as they were when it fails.\<close>

definition all_or_nothing :: "(world, 'a) proc \<Rightarrow> bool" where
  "all_or_nothing m \<longleftrightarrow> (\<forall>w e u. \<not> w_in_tx w \<longrightarrow> m w = (Inl e, u) \<longrightarrow> w_db u = w_db w)"

subsection \<open>Functions with variables\<close>

definition keeps_var :: "(world \<Rightarrow> bool) \<Rightarrow> (world \<Rightarrow> (go_error option \<times> 'v) \<times> world) \<Rightarrow> bool" where
  "keeps_var P f \<longleftrightarrow> (\<forall>w. P w \<longrightarrow> P (snd (f w)))"

lemma keeps_varD: "keeps_var P f \<Longrightarrow> P w \<Longrightarrow> P (snd (f w))"
  by (simp add: keeps_var_def)

lemma keeps_return_var [keeps_rules]: "keeps_var P (return_var e v)"
  by (simp add: keeps_var_def return_var_def)

lemma keeps_try_var [keeps_rules]:
  "keeps P m \<Longrightarrow> (\<And>x. keeps_var P (k x)) \<Longrightarrow> keeps_var P (try_var v m k)"
  unfolding keeps_var_def keeps_def try_var_def by (fastforce split: prod.splits sum.splits)

lemma keeps_inspect_var [keeps_rules]:
  "keeps P m \<Longrightarrow> (\<And>r. keeps_var P (k r)) \<Longrightarrow> keeps_var P (inspect_var m k)"
  unfolding keeps_var_def keeps_def inspect_var_def by (fastforce split: prod.splits)

lemma keeps_var_if [keeps_rules]:
  "keeps_var P f \<Longrightarrow> keeps_var P g \<Longrightarrow> keeps_var P (if b then f else g)"
  by simp

text \<open>The successful runs, and a transaction of such a function.\<close>

definition ensures_var :: "(world \<Rightarrow> bool) \<Rightarrow> (world \<Rightarrow> (go_error option \<times> 'v) \<times> world) \<Rightarrow> ('v \<Rightarrow> world \<Rightarrow> bool) \<Rightarrow> bool" where
  "ensures_var P f Q \<longleftrightarrow> (\<forall>w v u. P w \<longrightarrow> f w = ((None, v), u) \<longrightarrow> Q v u)"

lemma ensures_varD: "ensures_var P f Q \<Longrightarrow> f w = ((None, v), u) \<Longrightarrow> P w \<Longrightarrow> Q v u"
  by (auto simp: ensures_var_def)

lemma try_var_eq:
  "try_var v m k w = r \<longleftrightarrow> (\<exists>e u. m w = (Inl e, u) \<and> r = ((Some e, v), u)) \<or> (\<exists>x u. m w = (Inr x, u) \<and> k x u = r)"
  by (cases "m w"; cases "fst (m w)") (auto simp: try_var_def)

lemma ensures_var_weaken:
  "ensures_var P' f Q' \<Longrightarrow> (\<And>s. P s \<Longrightarrow> P' s) \<Longrightarrow> (\<And>x t. Q' x t \<Longrightarrow> Q x t) \<Longrightarrow> ensures_var P f Q"
  unfolding ensures_var_def by metis

lemma ensures_return_var: "(\<And>w. e = None \<Longrightarrow> P w \<Longrightarrow> Q v w) \<Longrightarrow> ensures_var P (return_var e v) Q"
  by (auto simp: ensures_var_def return_var_def)

lemma ensures_try_var:
  "ensures P m R \<Longrightarrow> (\<And>x. ensures_var (R x) (k x) Q) \<Longrightarrow> ensures_var P (try_var v m k) Q"
  unfolding ensures_def ensures_var_def by (fastforce simp: try_var_eq)

lemma ensures_inspect_var:
  assumes "keeps P m" "ensures P m R" "\<And>e. ensures_var P (k (Inl e)) Q" "\<And>x. ensures_var (R x) (k (Inr x)) Q"
  shows "ensures_var P (inspect_var m k) Q"
proof (unfold ensures_var_def, intro allI impI)
  fix w v u assume w: "P w" and run: "inspect_var m k w = ((None, v), u)"
  obtain r t where m: "m w = (r, t)" by (cases "m w")
  have "P t" using keepsD [OF assms(1) w] m by simp
  then show "Q v u"
    using run m assms(2-4) w by (cases r) (auto simp: inspect_var_def ensures_def ensures_var_def)
qed

lemma WithinTransaction_cases:
  assumes "WithinTransaction v0 f w = ((e, v), u)"
  obtains (ran) "w_in_tx w" "f w = ((e, v), u)"
  | (committed) t where "\<not> w_in_tx w" "e = None" "f ((drop_fault w)\<lparr>w_in_tx := True\<rparr>) = ((None, v), t)"
      "w_db u = w_db t" "\<not> w_in_tx u"
  | (rolled_back) x where "\<not> w_in_tx w" "e = Some x" "w_db u = w_db w" "\<not> w_in_tx u"
  using assms
  by (auto simp: WithinTransaction_def split: if_splits option.splits prod.splits)

lemma ensures_WithinTransaction:
  assumes "ensures_var (on_db P) f (\<lambda>v. on_db (Q v))"
  shows "ensures_var (on_db P) (WithinTransaction v0 f) (\<lambda>v. on_db (Q v))"
proof (unfold ensures_var_def, intro allI impI)
  fix w v u assume w: "on_db P w" and run: "WithinTransaction v0 f w = ((None, v), u)"
  from run show "on_db (Q v) u"
  proof (cases rule: WithinTransaction_cases)
    case ran
    then show ?thesis using ensures_varD [OF assms _ w] by simp
  next
    case (committed t)
    have "on_db P ((drop_fault w)\<lparr>w_in_tx := True\<rparr>)" using w by (simp add: on_db_def)
    with ensures_varD [OF assms committed(3)] have "on_db (Q v) t" .
    then show ?thesis using committed by (simp add: on_db_def)
  qed simp
qed

lemma keeps_quiet_WithinTransaction:
  assumes "ensures_var (on_db P) f (\<lambda>_. on_db P)"
  shows "keeps_var (quiet P) (WithinTransaction v0 f)"
proof (unfold keeps_var_def, intro allI impI)
  fix w assume w: "quiet P w"
  obtain e v u where run: "WithinTransaction v0 f w = ((e, v), u)" by (metis prod.collapse)
  from run show "quiet P (snd (WithinTransaction v0 f w))"
  proof (cases rule: WithinTransaction_cases)
    case (committed t)
    have "on_db P ((drop_fault w)\<lparr>w_in_tx := True\<rparr>)" using w by (simp add: on_db_def quiet_def)
    with ensures_varD [OF assms committed(3)] have "on_db P t" .
    then show ?thesis using committed run by (simp add: on_db_def quiet_def)
  qed (use w run in \<open>auto simp: quiet_def\<close>)
qed

subsection \<open>Identifiers\<close>

lemma decimal_read: "foldl (\<lambda>n c. 10 * n + (of_char c - 48 :: nat)) 0 (decimal n) = n"
proof (induction n rule: decimal.induct)
  case (1 n)
  then show ?case
    by (subst decimal.simps) (auto simp: of_char_of)
qed

lemma decimal_inject [simp]: "decimal m = decimal n \<longleftrightarrow> m = n"
  using decimal_read by metis

lemma decimal_last: "decimal n \<noteq> [] \<and> 48 \<le> code (last (decimal n)) \<and> code (last (decimal n)) < 58"
proof -
  have "code (char_of (48 + n mod 10)) = 48 + n mod 10"
    by (simp add: of_char_of)
  then show ?thesis by (subst (1 2 3) decimal.simps) (auto simp: of_char_of)
qed

definition id_text :: "nat \<Rightarrow> string" where
  "id_text n = ''id-'' @ decimal n"

lemma id_text_inject [simp]: "id_text m = id_text n \<longleftrightarrow> m = n"
  by (simp add: id_text_def)

lemma TrimSpace_id_text [simp]: "TrimSpace (id_text n) = id_text n"
  using decimal_last [of n] by (intro TrimSpace_plain) (auto simp: id_text_def)

lemma fresh_id_text: "fresh_id w = (Inr (id_text (w_next_id w)), w\<lparr>w_next_id := w_next_id w + 1\<rparr>)"
  by (simp add: fresh_id_def id_text_def)

lemma keeps_attempt_fresh:
  "(\<And>s. P s \<Longrightarrow> P (s\<lparr>w_next_id := w_next_id s + 1\<rparr>)) \<Longrightarrow> (\<And>n. keeps P (k (id_text n))) \<Longrightarrow> keeps P (attempt fresh_id k)"
  by (auto simp: keeps_def attempt_def fresh_id_text)

lemma trimmed_id_text [simp]: "trimmed (id_text n)"
  using TrimSpace_trimmed [of "id_text n"] by simp

subsection \<open>Concrete worlds\<close>

text \<open>A world without scheduled clock readings or failures, and the context of a workspace.\<close>

definition idle_world :: "db \<Rightarrow> world" where
  "idle_world d = \<lparr>w_db = d, w_in_tx = False, w_now = 0, w_clock = [], w_next_id = 0, w_faults = []\<rparr>"

definition workspace_ctx :: "string \<Rightarrow> ctx" where
  "workspace_ctx ws = \<lparr>ctx_workspaceID = Some ws, ctx_principalWorkspaceID = None\<rparr>"

end
