(* ===== verification/EntitlementRepo.thy ===== *)
theory EntitlementRepo
  imports Store
begin

text \<open>
  The SQLite repository of the entitlement service and the meter lookup:
  \<^verbatim>\<open>src/internal/metering/adapters/sqlite/entitlement_repository.go\<close>, the statements of
  \<^verbatim>\<open>queries/plans.sql\<close>, and \<^verbatim>\<open>MeterRepository.Find\<close> of \<^verbatim>\<open>meter_repository.go\<close>.  Each function takes
  the request context first, as in Go, and refuses a context without a workspace.
  An empty filter text is the SQL NULL of \<^verbatim>\<open>planStringValue\<close>: it selects every row.
\<close>

section \<open>Selections\<close>

text \<open>\<^verbatim>\<open>ORDER BY key LIMIT n\<close> and its descending form.\<close>

definition order_limit :: "('r \<Rightarrow> 'k :: linorder) \<Rightarrow> int \<Rightarrow> 'r list \<Rightarrow> 'r list" where
  "order_limit key n rows = take (nat n) (sort_key key rows)"

definition order_desc_limit :: "('r \<Rightarrow> 'k :: linorder) \<Rightarrow> int \<Rightarrow> 'r list \<Rightarrow> 'r list" where
  "order_desc_limit key n rows = take (nat n) (rev (sort_key key rows))"

definition matches :: "string \<Rightarrow> string \<Rightarrow> bool" where
  "matches filter_text column \<longleftrightarrow> filter_text = [] \<or> column = filter_text"

abbreviation ttxt :: "time \<Rightarrow> string" where
  "ttxt \<equiv> format_rfc3339nano"

section \<open>Meters\<close>

definition meter_NormalizeLimit :: "int \<Rightarrow> int" where
  "meter_NormalizeLimit limit = (if limit \<le> 0 then 50 else if 500 < limit then 500 else limit)"

definition meterFromFields :: "Meter \<Rightarrow> go_error + Meter" where
  "meterFromFields row =
    NewWithDimensions (mtr_id row) (mtr_name row) (mtr_description row) (mtr_unit row) (mtr_aggregation row)
      (mtr_dimensions row) (mtr_eventRetentionDays row) (mtr_createdAt row)"

definition Meters_Find :: "ctx \<Rightarrow> MeterQuery \<Rightarrow> (world, Meter list) proc" where
  "Meters_Find ctx q = with_workspace ctx (\<lambda>ws.
    attempt (query (\<lambda>d. order_limit mtr_name (meter_NormalizeLimit (mq_limit q))
      (map snd (filter (\<lambda>(w, m). w = ws \<and> matches (mq_id q) (mtr_id m) \<and> matches (mq_name q) (mtr_name m) \<and>
          (mq_cursor q = [] \<or> mq_cursor q < mtr_name m))
        (db_meters d))))) (\<lambda>rows.
    lift_res (map_res meterFromFields rows)))"

definition meter_named :: "string \<Rightarrow> int \<Rightarrow> MeterQuery" where
  "meter_named name limit = \<lparr>mq_id = [], mq_name = name, mq_cursor = [], mq_limit = limit\<rparr>"

section \<open>Plans\<close>

text \<open>The unique constraints of \<^verbatim>\<open>plans\<close>: (workspace, name, version), and (workspace, name) among the
  current plans.\<close>

definition plans_unique :: "db \<Rightarrow> bool" where
  "plans_unique d \<longleftrightarrow>
    distinct (map (\<lambda>(ws, p). (ws, pl_Name p, pl_Version p)) (db_plans d))
  \<and> distinct (map (\<lambda>(ws, p). (ws, pl_Name p)) (filter (\<lambda>(ws, p). pl_IsCurrent p) (db_plans d)))"

definition save_plan_row :: "string \<Rightarrow> Plan \<Rightarrow> db \<Rightarrow> db" where
  "save_plan_row ws plan d = d\<lparr>db_plans :=
    row_upsert (\<lambda>(ws, p). pl_ID p)
      (\<lambda>(ws, p). (ws, p\<lparr>pl_Name := pl_Name plan, pl_Description := pl_Description plan, pl_Version := pl_Version plan,
          pl_ParentPlanID := pl_ParentPlanID plan, pl_IsCurrent := pl_IsCurrent plan, pl_UpdatedAt := pl_UpdatedAt plan\<rparr>))
      (ws, plan) (db_plans d)\<rparr>"

definition SavePlan :: "ctx \<Rightarrow> Plan \<Rightarrow> (world, Plan) proc" where
  "SavePlan ctx plan = with_workspace ctx (\<lambda>ws.
    attempt (conflict_if_unique (exec_unique plans_unique (save_plan_row ws plan))) (\<lambda>_.
    return_ok plan))"

definition RetirePlan :: "ctx \<Rightarrow> string \<Rightarrow> time \<Rightarrow> (world, unit) proc" where
  "RetirePlan ctx pid updatedAt = with_workspace ctx (\<lambda>ws.
    let hit = (\<lambda>(w, p). w = ws \<and> pl_ID p = pid \<and> pl_IsCurrent p) in
    not_found_if_no_row (execrows (\<lambda>d. length (filter hit (db_plans d)))
      (\<lambda>d. d\<lparr>db_plans := row_update hit
         (\<lambda>(w, p). (w, p\<lparr>pl_IsCurrent := False, pl_UpdatedAt := updatedAt\<rparr>)) (db_plans d)\<rparr>)))"

definition FindPlans :: "ctx \<Rightarrow> PlanQuery \<Rightarrow> (world, Plan list) proc" where
  "FindPlans ctx q = with_workspace ctx (\<lambda>ws.
    query (\<lambda>d. order_limit (\<lambda>p. (pl_Name p, - pl_Version p)) (pq_Limit q)
      (map snd (filter (\<lambda>(w, p). w = ws \<and> matches (pq_ID q) (pl_ID p) \<and> matches (pq_Name q) (pl_Name p)
         \<and> (\<not> pq_CurrentOnly q \<or> pl_IsCurrent p)) (db_plans d)))))"

text \<open>Deleting a plan removes what references it and clears the parent of its successors.\<close>

definition delete_plan_rows :: "string \<Rightarrow> string \<Rightarrow> db \<Rightarrow> db" where
  "delete_plan_rows ws pid d =
    d\<lparr>db_plans := map (\<lambda>(w, p). (w, if pl_ParentPlanID p = pid then p\<lparr>pl_ParentPlanID := []\<rparr> else p))
         (row_delete (\<lambda>(w, p). w = ws \<and> pl_ID p = pid) (db_plans d)),
      db_limits := row_delete (\<lambda>(w, l). lim_PlanID l = pid) (db_limits d),
      db_assignments := row_delete (\<lambda>a. ar_PlanID a = pid) (db_assignments d),
      db_states := row_delete (\<lambda>s. es_PlanID s = pid) (db_states d),
      db_entitlement_events := row_delete (\<lambda>e. ee_PlanID e = pid) (db_entitlement_events d),
      db_snapshots := row_delete (\<lambda>s. ps_PlanID s = pid) (db_snapshots d)\<rparr>"

definition Repo_DeletePlan :: "ctx \<Rightarrow> string \<Rightarrow> (world, unit) proc" where
  "Repo_DeletePlan ctx pid = with_workspace ctx (\<lambda>ws.
    let hit = (\<lambda>(w, p). w = ws \<and> pl_ID p = pid) in
    not_found_if_no_row (execrows (\<lambda>d. length (filter hit (db_plans d)))
      (\<lambda>d. if filter hit (db_plans d) = [] then d else delete_plan_rows ws pid d)))"

section \<open>Limits\<close>

definition limits_unique :: "db \<Rightarrow> bool" where
  "limits_unique d \<longleftrightarrow>
    distinct (map (\<lambda>(ws, l). (ws, lim_PlanID l, lim_MeterName l, lim_Period l)) (db_limits d))"

definition save_limit_row :: "string \<Rightarrow> string \<Rightarrow> PlanLimit \<Rightarrow> db \<Rightarrow> db" where
  "save_limit_row ws planID limit d = d\<lparr>db_limits :=
    row_upsert (\<lambda>(ws, l). lim_ID l)
      (\<lambda>(ws, l). (ws, l\<lparr>lim_MeterName := lim_MeterName limit, lim_Period := lim_Period limit,
          lim_Limit := lim_Limit limit, lim_WarningPercent := lim_WarningPercent limit,
          lim_Enforcement := lim_Enforcement limit, lim_FailurePolicy := lim_FailurePolicy limit,
          lim_UpdatedAt := lim_UpdatedAt limit\<rparr>))
      (ws, limit\<lparr>lim_PlanID := planID\<rparr>) (db_limits d)\<rparr>"

definition ReplacePlanLimits :: "ctx \<Rightarrow> string \<Rightarrow> PlanLimit list \<Rightarrow> (world, unit) proc" where
  "ReplacePlanLimits ctx planID limits = with_workspace ctx (\<lambda>ws.
    attempt (exec (\<lambda>d. d\<lparr>db_limits := row_delete (\<lambda>(w, l). w = ws \<and> lim_PlanID l = planID) (db_limits d)\<rparr>)) (\<lambda>_.
    foreach limits () (\<lambda>limit _.
      conflict_if_unique (exec_unique limits_unique (save_limit_row ws planID limit)))))"

definition FindPlanLimits :: "ctx \<Rightarrow> string \<Rightarrow> (world, PlanLimit list) proc" where
  "FindPlanLimits ctx planID = with_workspace ctx (\<lambda>ws.
    query (\<lambda>d. sort_key (\<lambda>l. (lim_MeterName l, period_text (lim_Period l)))
      (map snd (filter (\<lambda>(w, l). w = ws \<and> matches planID (lim_PlanID l)) (db_limits d)))))"

definition CountAssignmentsForPlan :: "ctx \<Rightarrow> string \<Rightarrow> (world, int) proc" where
  "CountAssignmentsForPlan ctx planID = with_workspace ctx (\<lambda>ws.
    query (\<lambda>d. int (length (filter (\<lambda>a. ar_WorkspaceID a = ws \<and> ar_PlanID a = planID) (db_assignments d)))))"

section \<open>Assignments\<close>

text \<open>A column \<^verbatim>\<open>unassigned_at\<close> that is NULL or later than a time.\<close>

definition open_after :: "time \<Rightarrow> AssignmentRow \<Rightarrow> bool" where
  "open_after t a \<longleftrightarrow> (case ar_UnassignedAt a of None \<Rightarrow> True | Some u \<Rightarrow> time_text_less t u)"

definition of_subject :: "string \<Rightarrow> string \<Rightarrow> AssignmentRow \<Rightarrow> bool" where
  "of_subject ws subject a \<longleftrightarrow> ar_WorkspaceID a = ws \<and> ar_Subject a = subject"

text \<open>The row is in force at a time.\<close>

definition effective_at :: "time \<Rightarrow> AssignmentRow \<Rightarrow> bool" where
  "effective_at t a \<longleftrightarrow> time_text_le (ar_AssignedAt a) t \<and> open_after t a"

definition end_rows :: "(AssignmentRow \<Rightarrow> bool) \<Rightarrow> time \<Rightarrow> time \<Rightarrow> db \<Rightarrow> db" where
  "end_rows hit t now d = d\<lparr>db_assignments :=
    row_update hit (\<lambda>a. a\<lparr>ar_UnassignedAt := Some t, ar_UpdatedAt := now\<rparr>) (db_assignments d)\<rparr>"

definition CancelPendingPlanSubjectAssignments :: "string \<Rightarrow> string \<Rightarrow> time \<Rightarrow> db \<Rightarrow> db" where
  "CancelPendingPlanSubjectAssignments ws subject now =
    end_rows (\<lambda>a. of_subject ws subject a \<and> time_text_less now (ar_AssignedAt a) \<and> open_after now a) now now"

definition EndEffectivePlanSubjectAssignments :: "string \<Rightarrow> string \<Rightarrow> time \<Rightarrow> time \<Rightarrow> db \<Rightarrow> db" where
  "EndEffectivePlanSubjectAssignments ws subject t now =
    end_rows (\<lambda>a. of_subject ws subject a \<and> time_text_less (ar_AssignedAt a) t \<and> open_after t a) t now"

definition assignment_key :: "AssignmentRow \<Rightarrow> string \<times> string \<times> string" where
  "assignment_key a = (ar_WorkspaceID a, ar_Subject a, ttxt (ar_AssignedAt a))"

definition assignments_unique :: "db \<Rightarrow> bool" where
  "assignments_unique d \<longleftrightarrow> distinct_keys assignment_key (db_assignments d)"

definition insert_assignment :: "AssignmentRow \<Rightarrow> db \<Rightarrow> db" where
  "insert_assignment a d = d\<lparr>db_assignments := db_assignments d @ [a]\<rparr>"

definition SaveSubjectAssignment :: "ctx \<Rightarrow> SubjectAssignment \<Rightarrow> (world, SubjectAssignment) proc" where
  "SaveSubjectAssignment ctx assignment = with_workspace ctx (\<lambda>ws.
    attempt (if IsZero (sa_UpdatedAt assignment) then clock_now else return_ok (sa_UpdatedAt assignment)) (\<lambda>now.
    let effectiveAt = (if IsZero (sa_AssignedAt assignment) then now else sa_AssignedAt assignment);
        subject = sa_Subject assignment in
    attempt (exec (CancelPendingPlanSubjectAssignments ws subject now)) (\<lambda>_.
    attempt (exec (EndEffectivePlanSubjectAssignments ws subject effectiveAt now)) (\<lambda>_.
    attempt (conflict_if_unique (exec_unique assignments_unique (insert_assignment
      \<lparr>ar_ID = sa_ID assignment, ar_WorkspaceID = ws, ar_Subject = subject, ar_PlanID = sa_PlanID assignment,
       ar_AssignedAt = effectiveAt, ar_PeriodAnchorAt = sa_PeriodAnchorAt assignment, ar_UnassignedAt = None,
       ar_UpdatedAt = now\<rparr>))) (\<lambda>_.
    return_ok (assignment\<lparr>sa_AssignedAt := effectiveAt, sa_UpdatedAt := now\<rparr>))))))"

text \<open>The join of an assignment with its plan; a row whose plan is gone is dropped.\<close>

definition joined_assignment :: "db \<Rightarrow> AssignmentRow \<Rightarrow> SubjectAssignment option" where
  "joined_assignment d a =
    map_option (\<lambda>(w, p). \<lparr>sa_ID = ar_ID a, sa_Subject = ar_Subject a, sa_PlanID = ar_PlanID a,
        sa_PlanName = pl_Name p, sa_PlanVersion = pl_Version p, sa_AssignedAt = ar_AssignedAt a,
        sa_PeriodAnchorAt = ar_PeriodAnchorAt a,
        sa_UnassignedAt = (case ar_UnassignedAt a of None \<Rightarrow> zero_time | Some u \<Rightarrow> u),
        sa_UpdatedAt = ar_UpdatedAt a\<rparr>)
      (row_find (\<lambda>(w, p). w = ar_WorkspaceID a \<and> pl_ID p = ar_PlanID a) (db_plans d))"

definition joined_assignments :: "db \<Rightarrow> AssignmentRow list \<Rightarrow> SubjectAssignment list" where
  "joined_assignments d rows = List.map_filter (joined_assignment d) rows"

definition effective_assignments :: "string \<Rightarrow> string \<Rightarrow> time \<Rightarrow> db \<Rightarrow> SubjectAssignment list" where
  "effective_assignments ws subject t d =
    order_desc_limit (\<lambda>a. (ttxt (sa_AssignedAt a), ttxt (sa_UpdatedAt a))) 1
      (joined_assignments d (filter (\<lambda>a. of_subject ws subject a \<and> effective_at t a) (db_assignments d)))"

definition FindEffectiveSubjectAssignment :: "ctx \<Rightarrow> string \<Rightarrow> time \<Rightarrow> (world, SubjectAssignment) proc" where
  "FindEffectiveSubjectAssignment ctx subject t0 = with_workspace ctx (\<lambda>ws.
    attempt (if IsZero t0 then clock_now else return_ok t0) (\<lambda>t.
    attempt (query (effective_assignments ws subject t)) (\<lambda>rows.
    case rows of [] \<Rightarrow> return_err ErrNotFound | a # _ \<Rightarrow> return_ok a)))"

text \<open>The lock is the immediate transaction of SQLite: the query is the same.\<close>

definition LockEffectiveSubjectAssignment :: "ctx \<Rightarrow> string \<Rightarrow> time \<Rightarrow> (world, SubjectAssignment) proc" where
  "LockEffectiveSubjectAssignment ctx subject t0 = with_workspace ctx (\<lambda>ws.
    attempt (if IsZero t0 then clock_now else return_ok t0) (\<lambda>t.
    attempt (query (effective_assignments ws subject t)) (\<lambda>rows.
    case rows of [] \<Rightarrow> return_err ErrNotFound | a # _ \<Rightarrow> return_ok a)))"

definition FindSubjectAssignments :: "ctx \<Rightarrow> AssignmentQuery \<Rightarrow> (world, SubjectAssignment list) proc" where
  "FindSubjectAssignments ctx q = with_workspace ctx (\<lambda>ws.
    attempt clock_now (\<lambda>now.
    query (\<lambda>d. order_desc_limit (\<lambda>a. (ttxt (sa_UpdatedAt a), ttxt (sa_AssignedAt a))) (asq_Limit q)
      (rev (sort_key sa_Subject (joined_assignments d
        (filter (\<lambda>a. ar_WorkspaceID a = ws \<and> matches (asq_Subject q) (ar_Subject a)
            \<and> matches (asq_PlanID q) (ar_PlanID a) \<and> (\<not> asq_ActiveOnly q \<or> open_after now a))
          (db_assignments d))))))))"

definition Repo_DeleteSubjectAssignment :: "ctx \<Rightarrow> string \<Rightarrow> (world, unit) proc" where
  "Repo_DeleteSubjectAssignment ctx subject = with_workspace ctx (\<lambda>ws.
    attempt clock_now (\<lambda>now.
    let hit = (\<lambda>a. of_subject ws subject a \<and> open_after now a) in
    not_found_if_no_row (execrows (\<lambda>d. length (filter hit (db_assignments d))) (end_rows hit now now))))"

section \<open>States, events, snapshots and counters\<close>

definition state_key :: "EntitlementState \<Rightarrow> string \<times> string \<times> string \<times> string \<times> string" where
  "state_key s = (es_WorkspaceID s, es_Subject s, es_MeterName s, es_PlanID s, period_text (es_Period s))"

definition GetEntitlementState :: "ctx \<Rightarrow> StateQuery \<Rightarrow> (world, EntitlementState) proc" where
  "GetEntitlementState ctx q = with_workspace ctx (\<lambda>ws.
    attempt (query (\<lambda>d. row_find (\<lambda>s. state_key s =
        (ws, sq_Subject q, sq_MeterName q, sq_PlanID q, period_text (sq_Period q))) (db_states d))) (\<lambda>row.
    case row of None \<Rightarrow> return_err ErrNotFound | Some s \<Rightarrow> return_ok s))"

text \<open>The table has no columns for the enforcement and the failure policy.\<close>

definition SaveEntitlementState :: "ctx \<Rightarrow> EntitlementState \<Rightarrow> (world, unit) proc" where
  "SaveEntitlementState ctx state = with_workspace ctx (\<lambda>ws.
    let s = state\<lparr>es_WorkspaceID := ws, es_Enforcement := [], es_FailurePolicy := []\<rparr> in
    exec (\<lambda>d. d\<lparr>db_states := row_upsert state_key (\<lambda>_. s) s (db_states d)\<rparr>))"

definition FindEntitlementStates :: "ctx \<Rightarrow> StateListQuery \<Rightarrow> (world, EntitlementState list) proc" where
  "FindEntitlementStates ctx q = with_workspace ctx (\<lambda>ws.
    query (\<lambda>d. order_desc_limit (\<lambda>s. ttxt (es_UpdatedAt s)) (slq_Limit q)
      (rev (sort_key (\<lambda>s. (es_Subject s, es_MeterName s, es_PlanID s, period_text (es_Period s)))
        (filter (\<lambda>s. es_WorkspaceID s = ws \<and> matches (slq_Subject q) (es_Subject s)
            \<and> matches (slq_MeterName q) (es_MeterName s)
            \<and> (slq_State q = [] \<or> (case es_State s of StateOK \<Rightarrow> ''ok'' | StateWarning \<Rightarrow> ''warning''
                 | StateExceeded \<Rightarrow> ''exceeded'' | StateNoPlan \<Rightarrow> ''no_plan'' | StateNotInPlan \<Rightarrow> ''not_in_plan''
                 | StateOther t \<Rightarrow> t) = slq_State q)) (db_states d))))))"

definition SaveEntitlementEvent :: "ctx \<Rightarrow> EntitlementEvent \<Rightarrow> (world, unit) proc" where
  "SaveEntitlementEvent ctx event = with_workspace ctx (\<lambda>ws.
    exec_unique (\<lambda>d. distinct_keys ee_ID (db_entitlement_events d))
      (\<lambda>d. d\<lparr>db_entitlement_events := db_entitlement_events d @ [event\<lparr>ee_WorkspaceID := ws\<rparr>]\<rparr>))"

definition snapshot_key :: "EntitlementPeriodSnapshot \<Rightarrow> string \<times> string \<times> string \<times> string \<times> string \<times> string" where
  "snapshot_key s = (ps_WorkspaceID s, ps_Subject s, ps_MeterName s, ps_PlanID s, period_text (ps_Period s), ttxt (ps_From s))"

definition SaveEntitlementPeriodSnapshot :: "ctx \<Rightarrow> EntitlementPeriodSnapshot \<Rightarrow> (world, unit) proc" where
  "SaveEntitlementPeriodSnapshot ctx snapshot = with_workspace ctx (\<lambda>ws.
    let s = snapshot\<lparr>ps_WorkspaceID := ws\<rparr> in
    exec (\<lambda>d. d\<lparr>db_snapshots := row_upsert snapshot_key (\<lambda>_. s) s (db_snapshots d)\<rparr>))"

definition stored_counter_key :: "EntitlementUsageCounter \<Rightarrow> string \<times> string \<times> string \<times> string \<times> string" where
  "stored_counter_key c = (uc_WorkspaceID c, uc_Subject c, uc_MeterName c, period_text (uc_Period c), ttxt (uc_From c))"

definition find_counter :: "string \<Rightarrow> CounterQuery \<Rightarrow> db \<Rightarrow> EntitlementUsageCounter option" where
  "find_counter ws q d = row_find (\<lambda>c. stored_counter_key c =
     (ws, cq_Subject q, cq_MeterName q, period_text (cq_Period q), ttxt (cq_From q))) (db_counters d)"

definition GetEntitlementUsageCounter :: "ctx \<Rightarrow> CounterQuery \<Rightarrow> (world, EntitlementUsageCounter) proc" where
  "GetEntitlementUsageCounter ctx q = with_workspace ctx (\<lambda>ws.
    attempt (query (find_counter ws q)) (\<lambda>row.
    case row of None \<Rightarrow> return_err ErrNotFound | Some c \<Rightarrow> return_ok c))"

section \<open>Check jobs\<close>

definition job_key :: "JobRow \<Rightarrow> string \<times> string \<times> string" where
  "job_key j = (jr_WorkspaceID j, jr_Subject j, jr_MeterName j)"

definition sqliteEntitlementCheckJob :: "JobRow \<Rightarrow> CheckJob" where
  "sqliteEntitlementCheckJob row =
    \<lparr>cj_WorkspaceID = jr_WorkspaceID row, cj_Subject = jr_Subject row, cj_MeterName = jr_MeterName row,
     cj_RunAfter = jr_RunAfter row,
     cj_LockedUntil = (case jr_LockedUntil row of None \<Rightarrow> zero_time | Some t \<Rightarrow> t),
     cj_Attempts = jr_Attempts row, cj_CreatedAt = jr_CreatedAt row, cj_UpdatedAt = jr_UpdatedAt row\<rparr>"

text \<open>A lease that is absent or has ended before a time.\<close>

definition unlocked_at :: "time \<Rightarrow> JobRow \<Rightarrow> bool" where
  "unlocked_at now j \<longleftrightarrow> (case jr_LockedUntil j of None \<Rightarrow> True | Some u \<Rightarrow> time_text_less u now)"

definition enqueue_job :: "string \<Rightarrow> string \<Rightarrow> string \<Rightarrow> time \<Rightarrow> time \<Rightarrow> db \<Rightarrow> db" where
  "enqueue_job ws subject meterName runAfter now d = d\<lparr>db_jobs :=
    row_upsert job_key
      (\<lambda>j. if unlocked_at now j
           then j\<lparr>jr_RunAfter := (if time_text_less runAfter (jr_RunAfter j) then runAfter else jr_RunAfter j),
                  jr_UpdatedAt := now\<rparr>
           else j)
      \<lparr>jr_WorkspaceID = ws, jr_Subject = subject, jr_MeterName = meterName, jr_RunAfter = runAfter,
       jr_LockedUntil = None, jr_Attempts = 0, jr_CreatedAt = now, jr_UpdatedAt = now\<rparr> (db_jobs d)\<rparr>"

definition EnqueueEntitlementCheckJob :: "ctx \<Rightarrow> CheckJob \<Rightarrow> (world, unit) proc" where
  "EnqueueEntitlementCheckJob ctx job = with_workspace ctx (\<lambda>ws.
    attempt (if IsZero (cj_UpdatedAt job) then clock_now else return_ok (cj_UpdatedAt job)) (\<lambda>now.
    let runAfter = (if IsZero (cj_RunAfter job) then now else cj_RunAfter job) in
    exec (enqueue_job ws (cj_Subject job) (cj_MeterName job) runAfter now)))"

definition claimable :: "time \<Rightarrow> int \<Rightarrow> JobRow \<Rightarrow> bool" where
  "claimable now maxAttempts j \<longleftrightarrow>
    time_text_le (jr_RunAfter j) now \<and> unlocked_at now j \<and> jr_Attempts j < maxAttempts"

definition next_job :: "time \<Rightarrow> int \<Rightarrow> db \<Rightarrow> JobRow option" where
  "next_job now maxAttempts d =
    (case sort_key (\<lambda>j. (ttxt (jr_RunAfter j), ttxt (jr_CreatedAt j), jr_WorkspaceID j, jr_Subject j, jr_MeterName j))
        (filter (claimable now maxAttempts) (db_jobs d)) of
       [] \<Rightarrow> None | j # _ \<Rightarrow> Some j)"

definition claimed_job :: "time \<Rightarrow> time \<Rightarrow> JobRow \<Rightarrow> JobRow" where
  "claimed_job now lockedUntil j =
    j\<lparr>jr_Attempts := jr_Attempts j + 1, jr_LockedUntil := Some lockedUntil, jr_UpdatedAt := now\<rparr>"

text \<open>\<^verbatim>\<open>UPDATE ... WHERE key = (SELECT ... LIMIT 1) RETURNING\<close>\<close>

definition claim_job :: "time \<Rightarrow> time \<Rightarrow> int \<Rightarrow> db \<Rightarrow> JobRow option \<times> db" where
  "claim_job now lockedUntil maxAttempts d =
    (case next_job now maxAttempts d of
       None \<Rightarrow> (None, d)
     | Some j \<Rightarrow> (Some (claimed_job now lockedUntil j),
         d\<lparr>db_jobs := row_update (\<lambda>q. job_key q = job_key j) (claimed_job now lockedUntil) (db_jobs d)\<rparr>))"

definition ClaimEntitlementCheckJob :: "ctx \<Rightarrow> ClaimCommand \<Rightarrow> (world, CheckJob option) proc" where
  "ClaimEntitlementCheckJob ctx cmd =
    attempt clock_now (\<lambda>now.
    attempt (stmt (\<lambda>d. case claim_job now (now + clc_LockTTL cmd) (clc_MaxAttempts cmd) d of
        (row, d') \<Rightarrow> (Inr row, d'))) (\<lambda>row.
    return_ok (map_option sqliteEntitlementCheckJob row)))"

definition owned_job :: "string \<Rightarrow> string \<Rightarrow> string \<Rightarrow> int \<Rightarrow> JobRow \<Rightarrow> bool" where
  "owned_job ws subject meterName attempts j \<longleftrightarrow> job_key j = (ws, subject, meterName) \<and> jr_Attempts j = attempts"

definition RequeueEntitlementCheckJob :: "ctx \<Rightarrow> FailCommand \<Rightarrow> (world, unit) proc" where
  "RequeueEntitlementCheckJob ctx cmd = with_workspace ctx (\<lambda>ws.
    attempt clock_now (\<lambda>now.
    let hit = owned_job ws (flc_Subject cmd) (flc_Meter cmd) (flc_Attempts cmd) in
    not_found_if_no_row (execrows (\<lambda>d. length (filter hit (db_jobs d)))
      (\<lambda>d. d\<lparr>db_jobs := row_update hit (\<lambda>j. j\<lparr>jr_RunAfter := now + flc_RetryAfter cmd, jr_LockedUntil := None,
          jr_UpdatedAt := now\<rparr>) (db_jobs d)\<rparr>))))"

definition DeleteEntitlementCheckJob :: "ctx \<Rightarrow> CompleteCommand \<Rightarrow> (world, unit) proc" where
  "DeleteEntitlementCheckJob ctx cmd = with_workspace ctx (\<lambda>ws.
    let hit = owned_job ws (cmc_Subject cmd) (cmc_Meter cmd) (cmc_Attempts cmd) in
    not_found_if_no_row (execrows (\<lambda>d. length (filter hit (db_jobs d)))
      (\<lambda>d. d\<lparr>db_jobs := row_delete hit (db_jobs d)\<rparr>)))"

definition SaveCheckDeadLetter :: "ctx \<Rightarrow> CheckDeadLetter \<Rightarrow> (world, unit) proc" where
  "SaveCheckDeadLetter ctx deadLetter = with_workspace ctx (\<lambda>ws.
    exec_unique (\<lambda>d. distinct_keys (\<lambda>(w, l). dl_ID l) (db_dead_letters d))
      (\<lambda>d. d\<lparr>db_dead_letters := db_dead_letters d @ [(ws, deadLetter)]\<rparr>))"

end
