(* ===== verification/AlertRepo.thy ===== *)
theory AlertRepo
  imports EntitlementRepo
begin

text \<open>
  The SQLite repository of the alerts: \<^verbatim>\<open>src/internal/metering/adapters/sqlite/alert_repository.go\<close> and
  the statements of \<^verbatim>\<open>queries/alerts.sql\<close>.  The foreign keys between the alert tables are modelled: a
  state, an event and an evaluation job need their rule, a delivery and a delivery job need their
  event, and they are deleted with it.
\<close>

section \<open>Statements on the alert tables\<close>

definition on_alerts :: "(AlertTables \<Rightarrow> AlertTables) \<Rightarrow> db \<Rightarrow> db" where
  "on_alerts f d = d\<lparr>db_alerts := f (db_alerts d)\<rparr>"

definition foreign_key_violation :: go_error where
  "foreign_key_violation = DriverErr ''FOREIGN KEY constraint failed''"

text \<open>An insert that needs a parent row.\<close>

definition exec_child :: "(AlertTables \<Rightarrow> bool) \<Rightarrow> (AlertTables \<Rightarrow> AlertTables) \<Rightarrow> (world, unit) proc" where
  "exec_child parent f = stmt (\<lambda>d. if parent (db_alerts d) then (Inr (), on_alerts f d) else (Inl foreign_key_violation, d))"

definition has_rule :: "string \<Rightarrow> AlertTables \<Rightarrow> bool" where
  "has_rule ruleID t \<longleftrightarrow> list_ex (\<lambda>(w, r). alr_ID r = ruleID) (at_rules t)"

definition has_event :: "string \<Rightarrow> AlertTables \<Rightarrow> bool" where
  "has_event eventID t \<longleftrightarrow> list_ex (\<lambda>e. ale_ID e = eventID) (at_events t)"

text \<open>Descending order with ties kept in place, for \<^verbatim>\<open>ORDER BY a DESC, b ASC\<close>.\<close>

definition sort_desc :: "('r \<Rightarrow> 'k :: linorder) \<Rightarrow> 'r list \<Rightarrow> 'r list" where
  "sort_desc key rows = rev (sort_key key (rev rows))"

section \<open>Destinations\<close>

definition FindDestinations :: "ctx \<Rightarrow> string \<Rightarrow> int \<Rightarrow> (world, Destination list) proc" where
  "FindDestinations ctx did limit = with_workspace ctx (\<lambda>ws.
    query (\<lambda>d. order_desc_limit (\<lambda>x. (ttxt (ald_CreatedAt x), ald_ID x)) limit
      (map snd (filter (\<lambda>(w, x). w = ws \<and> matches did (ald_ID x)) (at_destinations (db_alerts d))))))"

definition Repo_DeleteDestination :: "ctx \<Rightarrow> string \<Rightarrow> (world, unit) proc" where
  "Repo_DeleteDestination ctx did = with_workspace ctx (\<lambda>ws.
    let hit = (\<lambda>(w, x). w = ws \<and> ald_ID x = did) in
    not_found_if_no_row (execrows (\<lambda>d. length (filter hit (at_destinations (db_alerts d))))
      (on_alerts (\<lambda>t. t\<lparr>at_destinations := row_delete hit (at_destinations t)\<rparr>))))"

section \<open>Rules\<close>

text \<open>The columns keep whole seconds of the window and the interval.\<close>

definition stored_rule :: "Rule \<Rightarrow> Rule" where
  "stored_rule rule = rule\<lparr>alr_Window := alr_Window rule div Second * Second,
     alr_EvaluationInterval := alr_EvaluationInterval rule div Second * Second\<rparr>"

definition save_rule_row :: "string \<Rightarrow> Rule \<Rightarrow> AlertTables \<Rightarrow> AlertTables" where
  "save_rule_row ws rule t = t\<lparr>at_rules := row_upsert (\<lambda>(w, r). alr_ID r)
     (\<lambda>(w, r). (w, rule\<lparr>alr_CreatedAt := alr_CreatedAt r\<rparr>)) (ws, rule) (at_rules t)\<rparr>"

definition SaveRule :: "ctx \<Rightarrow> Rule \<Rightarrow> (world, Rule) proc" where
  "SaveRule ctx rule = with_workspace ctx (\<lambda>ws.
    attempt (exec (on_alerts (save_rule_row ws (stored_rule rule)))) (\<lambda>_.
    return_ok rule))"

definition FindRules :: "ctx \<Rightarrow> RuleQuery \<Rightarrow> (world, Rule list) proc" where
  "FindRules ctx q = with_workspace ctx (\<lambda>ws.
    query (\<lambda>d. order_desc_limit (\<lambda>r. (ttxt (alr_CreatedAt r), alr_ID r)) (rlq_Limit q)
      (map snd (filter (\<lambda>(w, r). w = ws \<and> matches (rlq_ID q) (alr_ID r) \<and> matches (rlq_MeterName q) (alr_MeterName r)
         \<and> (case rlq_Enabled q of None \<Rightarrow> True | Some b \<Rightarrow> alr_Enabled r = b)
         \<and> matches (rlq_DestinationID q) (alr_DestinationID r)) (at_rules (db_alerts d))))))"

text \<open>Deleting a rule removes its states, events and evaluation job, and what hangs on its events.\<close>

definition delete_rule_rows :: "string \<Rightarrow> string \<Rightarrow> AlertTables \<Rightarrow> AlertTables" where
  "delete_rule_rows ws rid t =
    (if list_ex (\<lambda>(w, r). w = ws \<and> alr_ID r = rid) (at_rules t)
     then let gone = (\<lambda>eid. eid \<in> ale_ID ` set (filter (\<lambda>e. ale_RuleID e = rid) (at_events t))) in
       t\<lparr>at_rules := row_delete (\<lambda>(w, r). w = ws \<and> alr_ID r = rid) (at_rules t),
         at_states := row_delete (\<lambda>s. als_RuleID s = rid) (at_states t),
         at_events := row_delete (\<lambda>e. ale_RuleID e = rid) (at_events t),
         at_deliveries := row_delete (\<lambda>v. gone (dlv_EventID v)) (at_deliveries t),
         at_delivery_jobs := row_delete (\<lambda>j. gone (djb_EventID j)) (at_delivery_jobs t),
         at_jobs := row_delete (\<lambda>j. evj_RuleID j = rid) (at_jobs t)\<rparr>
     else t)"

definition DeleteRule :: "ctx \<Rightarrow> string \<Rightarrow> (world, unit) proc" where
  "DeleteRule ctx rid = with_workspace ctx (\<lambda>ws.
    not_found_if_no_row (execrows (\<lambda>d. length (filter (\<lambda>(w, r). w = ws \<and> alr_ID r = rid) (at_rules (db_alerts d))))
      (on_alerts (delete_rule_rows ws rid))))"

definition UpdateRuleNextEvaluation :: "string \<Rightarrow> time \<Rightarrow> time \<Rightarrow> (world, unit) proc" where
  "UpdateRuleNextEvaluation rid nextEvaluateAt updatedAt =
    not_found_if_no_row (execrows (\<lambda>d. length (filter (\<lambda>(w, r). alr_ID r = rid) (at_rules (db_alerts d))))
      (on_alerts (\<lambda>t. t\<lparr>at_rules := row_update (\<lambda>(w, r). alr_ID r = rid)
        (\<lambda>(w, r). (w, r\<lparr>alr_NextEvaluateAt := nextEvaluateAt, alr_UpdatedAt := updatedAt\<rparr>)) (at_rules t)\<rparr>)))"

section \<open>States\<close>

definition alert_state_key :: "AlertState \<Rightarrow> string \<times> string \<times> string" where
  "alert_state_key s = (als_RuleID s, als_GroupKey s, als_GroupValue s)"

definition save_state_row :: "AlertState \<Rightarrow> AlertTables \<Rightarrow> AlertTables" where
  "save_state_row s t = t\<lparr>at_states := row_upsert alert_state_key (\<lambda>_. s) s (at_states t)\<rparr>"

definition SaveState :: "AlertState \<Rightarrow> (world, unit) proc" where
  "SaveState s = exec_child (has_rule (als_RuleID s)) (save_state_row s)"

definition rule_in_workspace :: "string \<Rightarrow> string \<Rightarrow> AlertTables \<Rightarrow> bool" where
  "rule_in_workspace ws rid t \<longleftrightarrow> list_ex (\<lambda>(w, r). w = ws \<and> alr_ID r = rid) (at_rules t)"

definition FindState :: "ctx \<Rightarrow> string \<Rightarrow> string \<Rightarrow> string \<Rightarrow> (world, AlertState option) proc" where
  "FindState ctx rid groupKey groupValue = with_workspace ctx (\<lambda>ws.
    query (\<lambda>d. if rule_in_workspace ws rid (db_alerts d)
      then row_find (\<lambda>s. alert_state_key s = (rid, groupKey, groupValue)) (at_states (db_alerts d)) else None))"

definition FindStates :: "ctx \<Rightarrow> string \<Rightarrow> int \<Rightarrow> (world, AlertState list) proc" where
  "FindStates ctx rid limit = with_workspace ctx (\<lambda>ws.
    query (\<lambda>d. if rule_in_workspace ws rid (db_alerts d)
      then order_limit (\<lambda>s. statePriority (als_Status s)) limit
        (sort_desc (\<lambda>s. ttxt (als_UpdatedAt s)) (sort_key (\<lambda>s. (als_GroupKey s, als_GroupValue s))
          (filter (\<lambda>s. als_RuleID s = rid) (at_states (db_alerts d))))) else []))"

section \<open>Events and deliveries\<close>

definition SaveAlertEvent :: "AlertEvent \<Rightarrow> (world, unit) proc" where
  "SaveAlertEvent event = stmt (\<lambda>d.
    if ale_ID event \<in> ale_ID ` set (at_events (db_alerts d)) then (Inl unique_violation, d)
    else if has_rule (ale_RuleID event) (db_alerts d)
    then (Inr (), on_alerts (\<lambda>t. t\<lparr>at_events := at_events t @ [event]\<rparr>) d)
    else (Inl foreign_key_violation, d))"

definition SaveDelivery :: "Delivery \<Rightarrow> (world, Delivery) proc" where
  "SaveDelivery delivery =
    attempt (stmt (\<lambda>d.
      if dlv_ID delivery \<in> dlv_ID ` set (at_deliveries (db_alerts d)) then (Inl unique_violation, d)
      else if has_event (dlv_EventID delivery) (db_alerts d)
      then (Inr (), on_alerts (\<lambda>t. t\<lparr>at_deliveries := at_deliveries t @
        [delivery\<lparr>dlv_Duration := dlv_Duration delivery div Millisecond * Millisecond\<rparr>]\<rparr>) d)
      else (Inl foreign_key_violation, d))) (\<lambda>_.
    return_ok delivery)"

section \<open>Delivery jobs\<close>

text \<open>\<^verbatim>\<open>INSERT ... ON CONFLICT(event_id) DO NOTHING\<close>; another row with the same identifier is a conflict.\<close>

definition save_delivery_job_row :: "DeliveryJob \<Rightarrow> AlertTables \<Rightarrow> AlertTables" where
  "save_delivery_job_row job t =
    (if djb_EventID job \<in> djb_EventID ` set (at_delivery_jobs t) then t
     else t\<lparr>at_delivery_jobs := at_delivery_jobs t @ [job]\<rparr>)"

definition SaveDeliveryJob :: "ctx \<Rightarrow> DeliveryJob \<Rightarrow> (world, unit) proc" where
  "SaveDeliveryJob ctx job = with_workspace ctx (\<lambda>ws.
    stmt (\<lambda>d. let t = db_alerts d; t' = save_delivery_job_row (job\<lparr>djb_WorkspaceID := ws, djb_Status := JobPending,
          djb_Attempts := 0, djb_NextAttemptAt := djb_CreatedAt job, djb_UpdatedAt := djb_CreatedAt job\<rparr>) t in
      if \<not> has_event (djb_EventID job) t then (Inl foreign_key_violation, d)
      else if \<not> distinct_keys djb_ID (at_delivery_jobs t') then (Inl unique_violation, d)
      else (Inr (), on_alerts (\<lambda>_. t') d)))"

definition due_delivery :: "time \<Rightarrow> int \<Rightarrow> DeliveryJob \<Rightarrow> bool" where
  "due_delivery now maxAttempts j \<longleftrightarrow>
    time_text_le (djb_NextAttemptAt j) now
    \<and> (djb_Status j = JobPending \<or> djb_Status j = JobRunning \<and>
        (case djb_LockedUntil j of None \<Rightarrow> False | Some u \<Rightarrow> time_text_less u now))
    \<and> djb_Attempts j < maxAttempts"

definition claimed_delivery :: "time \<Rightarrow> time \<Rightarrow> DeliveryJob \<Rightarrow> DeliveryJob" where
  "claimed_delivery now lockedUntil j =
    j\<lparr>djb_Status := JobRunning, djb_Attempts := djb_Attempts j + 1, djb_LockedUntil := Some lockedUntil, djb_UpdatedAt := now\<rparr>"

text \<open>\<^verbatim>\<open>ORDER BY next_attempt_at, id\<close>: the identifier is the position of the insert, so the order of the rows.\<close>

definition next_delivery :: "time \<Rightarrow> int \<Rightarrow> AlertTables \<Rightarrow> DeliveryJob option" where
  "next_delivery now maxAttempts t =
    (case sort_key (\<lambda>j. ttxt (djb_NextAttemptAt j)) (filter (due_delivery now maxAttempts) (at_delivery_jobs t)) of
       [] \<Rightarrow> None | j # _ \<Rightarrow> Some j)"

definition claim_delivery :: "time \<Rightarrow> time \<Rightarrow> int \<Rightarrow> AlertTables \<Rightarrow> DeliveryJob option \<times> AlertTables" where
  "claim_delivery now lockedUntil maxAttempts t =
    (case next_delivery now maxAttempts t of
       None \<Rightarrow> (None, t)
     | Some j \<Rightarrow> (Some (claimed_delivery now lockedUntil j),
         t\<lparr>at_delivery_jobs := row_update (\<lambda>q. djb_ID q = djb_ID j) (claimed_delivery now lockedUntil) (at_delivery_jobs t)\<rparr>))"

definition Repo_ClaimDeliveryJob :: "time \<Rightarrow> time \<Rightarrow> int \<Rightarrow> (world, DeliveryJob) proc" where
  "Repo_ClaimDeliveryJob now lockedUntil maxAttempts =
    attempt (stmt (\<lambda>d. case claim_delivery now lockedUntil maxAttempts (db_alerts d) of
      (row, t) \<Rightarrow> (Inr row, on_alerts (\<lambda>_. t) d))) (\<lambda>row.
    case row of None \<Rightarrow> return_err ErrNotFound | Some j \<Rightarrow> return_ok j)"

text \<open>A job that a worker runs: its number of attempts tells the claims apart.\<close>

definition running_delivery :: "string \<Rightarrow> string \<Rightarrow> int \<Rightarrow> DeliveryJob \<Rightarrow> bool" where
  "running_delivery ws jid attempts j \<longleftrightarrow>
    djb_ID j = jid \<and> djb_WorkspaceID j = ws \<and> djb_Status j = JobRunning \<and> djb_Attempts j = attempts"

definition update_deliveries :: "(DeliveryJob \<Rightarrow> bool) \<Rightarrow> (DeliveryJob \<Rightarrow> DeliveryJob) \<Rightarrow> (world, unit) proc" where
  "update_deliveries hit f = not_found_if_no_row
    (execrows (\<lambda>d. length (filter hit (at_delivery_jobs (db_alerts d))))
      (on_alerts (\<lambda>t. t\<lparr>at_delivery_jobs := row_update hit f (at_delivery_jobs t)\<rparr>)))"

definition Repo_CompleteDeliveryJob :: "ctx \<Rightarrow> string \<Rightarrow> int \<Rightarrow> time \<Rightarrow> (world, unit) proc" where
  "Repo_CompleteDeliveryJob ctx jid attempts now = with_workspace ctx (\<lambda>ws.
    update_deliveries (running_delivery ws jid attempts)
      (\<lambda>j. j\<lparr>djb_Status := JobDelivered, djb_LockedUntil := None, djb_LastError := [], djb_DeliveredAt := Some now,
        djb_UpdatedAt := now\<rparr>))"

definition Repo_RetryDeliveryJob :: "ctx \<Rightarrow> string \<Rightarrow> int \<Rightarrow> time \<Rightarrow> int \<Rightarrow> string \<Rightarrow> time \<Rightarrow> (world, unit) proc" where
  "Repo_RetryDeliveryJob ctx jid attempts nextAttemptAt maxAttempts lastError now = with_workspace ctx (\<lambda>ws.
    update_deliveries (running_delivery ws jid attempts)
      (\<lambda>j. j\<lparr>djb_Status := (if maxAttempts \<le> djb_Attempts j then JobDeadLetter else JobPending),
        djb_NextAttemptAt := nextAttemptAt, djb_LockedUntil := None, djb_LastError := lastError, djb_UpdatedAt := now\<rparr>))"

definition Repo_RequeueDeliveryJob :: "ctx \<Rightarrow> string \<Rightarrow> time \<Rightarrow> (world, unit) proc" where
  "Repo_RequeueDeliveryJob ctx jid now = with_workspace ctx (\<lambda>ws.
    update_deliveries (\<lambda>j. djb_ID j = jid \<and> djb_WorkspaceID j = ws \<and> djb_Status j = JobDeadLetter)
      (\<lambda>j. j\<lparr>djb_Status := JobPending, djb_Attempts := 0, djb_NextAttemptAt := now, djb_LockedUntil := None,
        djb_LastError := [], djb_DeliveredAt := None, djb_UpdatedAt := now\<rparr>))"

definition FindDeliveryJobStatus :: "ctx \<Rightarrow> string \<Rightarrow> (world, DeliveryJobStatus) proc" where
  "FindDeliveryJobStatus ctx jid = with_workspace ctx (\<lambda>ws.
    attempt (query (\<lambda>d. row_find (\<lambda>j. djb_ID j = jid \<and> djb_WorkspaceID j = ws) (at_delivery_jobs (db_alerts d)))) (\<lambda>row.
    case row of None \<Rightarrow> return_err ErrNotFound | Some j \<Rightarrow> return_ok (djb_Status j)))"

section \<open>Evaluation jobs\<close>

definition evaluation_unlocked :: "time \<Rightarrow> EvaluationJob \<Rightarrow> bool" where
  "evaluation_unlocked now j \<longleftrightarrow> (case evj_LockedUntil j of None \<Rightarrow> True | Some u \<Rightarrow> time_text_less u now)"

definition new_evaluation_job :: "string \<Rightarrow> time \<Rightarrow> time \<Rightarrow> EvaluationJob" where
  "new_evaluation_job rid runAfter now =
    \<lparr>evj_WorkspaceID = [], evj_RuleID = rid, evj_RunAfter = runAfter, evj_LockedUntil = None, evj_Attempts = 0,
     evj_CreatedAt = now, evj_UpdatedAt = now\<rparr>"

text \<open>\<^verbatim>\<open>ON CONFLICT(rule_id) DO UPDATE ... WHERE\<close> the job is not leased.\<close>

definition enqueue_evaluation :: "string \<Rightarrow> time \<Rightarrow> time \<Rightarrow> AlertTables \<Rightarrow> AlertTables" where
  "enqueue_evaluation rid runAfter now t = t\<lparr>at_jobs := row_upsert evj_RuleID
     (\<lambda>j. if evaluation_unlocked now j
        then j\<lparr>evj_RunAfter := (if time_text_less runAfter (evj_RunAfter j) then runAfter else evj_RunAfter j), evj_UpdatedAt := now\<rparr>
        else j)
     (new_evaluation_job rid runAfter now) (at_jobs t)\<rparr>"

definition EnqueueEvaluationJob :: "string \<Rightarrow> time \<Rightarrow> time \<Rightarrow> (world, unit) proc" where
  "EnqueueEvaluationJob rid runAfter now = exec_child (has_rule rid) (enqueue_evaluation rid runAfter now)"

definition due_rules :: "time \<Rightarrow> int \<Rightarrow> AlertTables \<Rightarrow> Rule list" where
  "due_rules now limit t = order_limit (\<lambda>r. (ttxt (alr_NextEvaluateAt r), alr_ID r)) limit
     (filter (\<lambda>r. alr_Enabled r \<and> time_text_le (alr_NextEvaluateAt r) now) (map snd (at_rules t)))"

definition enqueue_due :: "time \<Rightarrow> string \<Rightarrow> AlertTables \<Rightarrow> AlertTables" where
  "enqueue_due now rid t = t\<lparr>at_jobs := row_upsert evj_RuleID
     (\<lambda>j. if evaluation_unlocked now j then j\<lparr>evj_RunAfter := now, evj_UpdatedAt := now\<rparr> else j)
     (new_evaluation_job rid now now) (at_jobs t)\<rparr>"

text \<open>The rows that the statement inserted or updated.\<close>

definition enqueued_due :: "time \<Rightarrow> int \<Rightarrow> AlertTables \<Rightarrow> string list" where
  "enqueued_due now limit t = filter (\<lambda>rid. list_all (\<lambda>j. evj_RuleID j = rid \<longrightarrow> evaluation_unlocked now j) (at_jobs t))
     (map alr_ID (due_rules now limit t))"

definition EnqueueDueEvaluationJobs :: "time \<Rightarrow> int \<Rightarrow> (world, int) proc" where
  "EnqueueDueEvaluationJobs now limit =
    attempt (execrows (\<lambda>d. length (enqueued_due now limit (db_alerts d)))
      (on_alerts (\<lambda>t. foldl (\<lambda>t rid. enqueue_due now rid t) t (map alr_ID (due_rules now limit t))))) (\<lambda>rows.
    return_ok (int rows))"

definition due_evaluation :: "time \<Rightarrow> int \<Rightarrow> EvaluationJob \<Rightarrow> bool" where
  "due_evaluation now maxAttempts j \<longleftrightarrow>
    time_text_le (evj_RunAfter j) now \<and> evaluation_unlocked now j \<and> evj_Attempts j < maxAttempts"

definition claimed_evaluation :: "time \<Rightarrow> time \<Rightarrow> EvaluationJob \<Rightarrow> EvaluationJob" where
  "claimed_evaluation now lockedUntil j =
    j\<lparr>evj_Attempts := evj_Attempts j + 1, evj_LockedUntil := Some lockedUntil, evj_UpdatedAt := now\<rparr>"

definition next_evaluation :: "time \<Rightarrow> int \<Rightarrow> AlertTables \<Rightarrow> EvaluationJob option" where
  "next_evaluation now maxAttempts t =
    (case sort_key (\<lambda>j. (ttxt (evj_RunAfter j), ttxt (evj_CreatedAt j), evj_RuleID j))
        (filter (due_evaluation now maxAttempts) (at_jobs t)) of [] \<Rightarrow> None | j # _ \<Rightarrow> Some j)"

definition claim_evaluation :: "time \<Rightarrow> time \<Rightarrow> int \<Rightarrow> AlertTables \<Rightarrow> EvaluationJob option \<times> AlertTables" where
  "claim_evaluation now lockedUntil maxAttempts t =
    (case next_evaluation now maxAttempts t of
       None \<Rightarrow> (None, t)
     | Some j \<Rightarrow> (Some (claimed_evaluation now lockedUntil j),
         t\<lparr>at_jobs := row_update (\<lambda>q. evj_RuleID q = evj_RuleID j) (claimed_evaluation now lockedUntil) (at_jobs t)\<rparr>))"

definition FindWorkspaceIDForAlertRule :: "string \<Rightarrow> (world, string) proc" where
  "FindWorkspaceIDForAlertRule rid =
    attempt (query (\<lambda>d. row_find (\<lambda>(w, r). alr_ID r = rid) (at_rules (db_alerts d)))) (\<lambda>row.
    case row of None \<Rightarrow> return_err (DriverErr ''sql: no rows in result set'') | Some (w, r) \<Rightarrow> return_ok w)"

definition Repo_ClaimEvaluationJob :: "time \<Rightarrow> time \<Rightarrow> int \<Rightarrow> (world, EvaluationJob) proc" where
  "Repo_ClaimEvaluationJob now lockedUntil maxAttempts =
    attempt (stmt (\<lambda>d. case claim_evaluation now lockedUntil maxAttempts (db_alerts d) of
      (row, t) \<Rightarrow> (Inr row, on_alerts (\<lambda>_. t) d))) (\<lambda>row.
    case row of None \<Rightarrow> return_err ErrNotFound
    | Some j \<Rightarrow> attempt (FindWorkspaceIDForAlertRule (evj_RuleID j)) (\<lambda>ws. return_ok (j\<lparr>evj_WorkspaceID := ws\<rparr>)))"

definition owned_evaluation :: "string \<Rightarrow> int \<Rightarrow> EvaluationJob \<Rightarrow> bool" where
  "owned_evaluation rid attempts j \<longleftrightarrow> evj_RuleID j = rid \<and> evj_Attempts j = attempts"

definition Repo_CompleteEvaluationJob :: "string \<Rightarrow> int \<Rightarrow> (world, unit) proc" where
  "Repo_CompleteEvaluationJob rid attempts = not_found_if_no_row
    (execrows (\<lambda>d. length (filter (owned_evaluation rid attempts) (at_jobs (db_alerts d))))
      (on_alerts (\<lambda>t. t\<lparr>at_jobs := row_delete (owned_evaluation rid attempts) (at_jobs t)\<rparr>)))"

definition Repo_RequeueEvaluationJob :: "string \<Rightarrow> int \<Rightarrow> time \<Rightarrow> time \<Rightarrow> (world, unit) proc" where
  "Repo_RequeueEvaluationJob rid attempts runAfter now = not_found_if_no_row
    (execrows (\<lambda>d. length (filter (owned_evaluation rid attempts) (at_jobs (db_alerts d))))
      (on_alerts (\<lambda>t. t\<lparr>at_jobs := row_update (owned_evaluation rid attempts)
        (\<lambda>j. j\<lparr>evj_RunAfter := runAfter, evj_LockedUntil := None, evj_UpdatedAt := now\<rparr>) (at_jobs t)\<rparr>)))"

definition SaveEvaluationDeadLetter :: "ctx \<Rightarrow> EvaluationDeadLetter \<Rightarrow> (world, unit) proc" where
  "SaveEvaluationDeadLetter ctx deadLetter = with_workspace ctx (\<lambda>ws.
    exec_unique (\<lambda>d. distinct_keys (\<lambda>(w, l). edl_ID l) (at_dead_letters (db_alerts d)))
      (on_alerts (\<lambda>t. t\<lparr>at_dead_letters := at_dead_letters t @ [(ws, deadLetter)]\<rparr>)))"

end
