(* ===== verification/AuthRepo.thy ===== *)
theory AuthRepo
  imports AlertRepo
begin

text \<open>
  The SQLite repository of users, workspaces, sessions and API keys:
  \<^verbatim>\<open>src/internal/metering/adapters/sqlite/auth_repository.go\<close> with \<^verbatim>\<open>queries/auth.sql\<close> and the
  constraints of \<^verbatim>\<open>migrations/001_init.up.sql\<close> on the \<^verbatim>\<open>auth_\<close> tables: checks, unique columns and
  foreign keys, in the order in which SQLite reports them.  No statement deletes a user or a workspace,
  so the cascades never run.
\<close>

section \<open>Statements\<close>

definition on_auth :: "(AuthTables \<Rightarrow> AuthTables) \<Rightarrow> db \<Rightarrow> db" where
  "on_auth f d = d\<lparr>db_auth := f (db_auth d)\<rparr>"

definition check_violation :: go_error where
  "check_violation = DriverErr ''CHECK constraint failed''"

definition insert_auth ::
  "bool \<Rightarrow> (AuthTables \<Rightarrow> bool) \<Rightarrow> (AuthTables \<Rightarrow> bool) \<Rightarrow> (AuthTables \<Rightarrow> AuthTables) \<Rightarrow> (world, unit) proc" where
  "insert_auth check unique parents f = stmt (\<lambda>d.
     if \<not> check then (Inl check_violation, d)
     else if \<not> unique (f (db_auth d)) then (Inl unique_violation, d)
     else if \<not> parents (db_auth d) then (Inl foreign_key_violation, d)
     else (Inr (), on_auth f d))"

definition query_auth :: "(AuthTables \<Rightarrow> 'a) \<Rightarrow> (world, 'a) proc" where
  "query_auth f = query (\<lambda>d. f (db_auth d))"

definition one_row :: "(world, 'a option) proc \<Rightarrow> (world, 'a) proc" where
  "one_row m = attempt m (\<lambda>row. case row of None \<Rightarrow> return_err ErrNotFound | Some x \<Rightarrow> return_ok x)"

definition first_of :: "'a list \<Rightarrow> 'a option" where
  "first_of xs = (case xs of [] \<Rightarrow> None | x # _ \<Rightarrow> Some x)"

definition update_auth_rows :: "(AuthTables \<Rightarrow> nat) \<Rightarrow> (AuthTables \<Rightarrow> AuthTables) \<Rightarrow> (world, nat) proc" where
  "update_auth_rows hits f = execrows (\<lambda>d. hits (db_auth d)) (on_auth f)"

section \<open>Constraints\<close>

definition users_unique :: "AuthTables \<Rightarrow> bool" where
  "users_unique t \<longleftrightarrow> distinct_keys us_ID (au_users t) \<and> distinct_keys us_Email (au_users t)"

definition workspaces_unique :: "AuthTables \<Rightarrow> bool" where
  "workspaces_unique t \<longleftrightarrow> distinct_keys wo_ID (au_workspaces t)"

definition membership_key :: "WorkspaceMembership \<Rightarrow> string \<times> string" where
  "membership_key m = (mb_WorkspaceID m, mb_UserID m)"

definition memberships_unique :: "AuthTables \<Rightarrow> bool" where
  "memberships_unique t \<longleftrightarrow> distinct_keys membership_key (au_memberships t)"

definition open_invitation :: "WorkspaceInvitation \<Rightarrow> bool" where
  "open_invitation i \<longleftrightarrow> inv_AcceptedAt i = None \<and> inv_RevokedAt i = None"

definition invitations_unique :: "AuthTables \<Rightarrow> bool" where
  "invitations_unique t \<longleftrightarrow> distinct_keys inv_ID (au_invitations t) \<and> distinct_keys inv_TokenHash (au_invitations t) \<and>
     distinct_keys (\<lambda>i. (inv_WorkspaceID i, inv_Email i)) (filter open_invitation (au_invitations t))"

definition identities_unique :: "AuthTables \<Rightarrow> bool" where
  "identities_unique t \<longleftrightarrow> distinct_keys idn_ID (au_identities t) \<and>
     distinct_keys (\<lambda>i. (idn_Provider i, idn_Subject i)) (au_identities t)"

definition sessions_unique :: "AuthTables \<Rightarrow> bool" where
  "sessions_unique t \<longleftrightarrow> distinct_keys ses_ID (au_sessions t) \<and> distinct_keys ses_TokenHash (au_sessions t)"

definition keys_unique :: "AuthTables \<Rightarrow> bool" where
  "keys_unique t \<longleftrightarrow> distinct_keys key_ID (au_keys t) \<and> distinct_keys key_TokenHash (au_keys t)"

definition key_events_unique :: "AuthTables \<Rightarrow> bool" where
  "key_events_unique t \<longleftrightarrow> distinct_keys ake_ID (au_key_events t)"

definition has_user :: "string \<Rightarrow> AuthTables \<Rightarrow> bool" where
  "has_user uid t \<longleftrightarrow> list_ex (\<lambda>u. us_ID u = uid) (au_users t)"

definition has_workspace :: "string \<Rightarrow> AuthTables \<Rightarrow> bool" where
  "has_workspace ws t \<longleftrightarrow> list_ex (\<lambda>w. wo_ID w = ws) (au_workspaces t)"

section \<open>Users and identities\<close>

definition CountUsers :: "(world, int) proc" where
  "CountUsers = query_auth (\<lambda>t. int (length (au_users t)))"

definition SaveUser :: "User \<Rightarrow> (world, User) proc" where
  "SaveUser user =
    attempt (conflict_if_unique (insert_auth True users_unique (\<lambda>_. True)
      (\<lambda>t. t\<lparr>au_users := au_users t @ [user]\<rparr>))) (\<lambda>_. return_ok user)"

definition FindUserByID :: "string \<Rightarrow> (world, User) proc" where
  "FindUserByID uid = one_row (query_auth (\<lambda>t. row_find (\<lambda>u. us_ID u = uid) (au_users t)))"

definition FindUserByEmail :: "string \<Rightarrow> (world, User) proc" where
  "FindUserByEmail email = one_row (query_auth (\<lambda>t. row_find (\<lambda>u. us_Email u = email) (au_users t)))"

definition SaveIdentity :: "Identity \<Rightarrow> (world, Identity) proc" where
  "SaveIdentity identity =
    attempt (conflict_if_unique (insert_auth True identities_unique (has_user (idn_UserID identity))
      (\<lambda>t. t\<lparr>au_identities := au_identities t @ [identity]\<rparr>))) (\<lambda>_. return_ok identity)"

definition FindIdentityByProviderSubject :: "string \<Rightarrow> string \<Rightarrow> (world, Identity) proc" where
  "FindIdentityByProviderSubject provider subject =
    one_row (query_auth (\<lambda>t. row_find (\<lambda>i. idn_Provider i = provider \<and> idn_Subject i = subject) (au_identities t)))"

section \<open>Workspaces and members\<close>

definition SaveWorkspace :: "Workspace \<Rightarrow> (world, Workspace) proc" where
  "SaveWorkspace workspace =
    attempt (conflict_if_unique (insert_auth True workspaces_unique (\<lambda>_. True)
      (\<lambda>t. t\<lparr>au_workspaces := au_workspaces t @ [workspace]\<rparr>))) (\<lambda>_. return_ok workspace)"

definition insert_membership :: "WorkspaceMembership \<Rightarrow> (world, unit) proc" where
  "insert_membership membership =
    conflict_if_unique (insert_auth True memberships_unique
      (\<lambda>t. has_workspace (mb_WorkspaceID membership) t \<and> has_user (mb_UserID membership) t)
      (\<lambda>t. t\<lparr>au_memberships := au_memberships t @ [membership]\<rparr>))"

definition SaveWorkspaceMembership :: "WorkspaceMembership \<Rightarrow> (world, WorkspaceMembership) proc" where
  "SaveWorkspaceMembership membership = attempt (insert_membership membership) (\<lambda>_. return_ok membership)"

text \<open>The join of memberships with their workspaces.\<close>

definition access_row :: "AuthTables \<Rightarrow> WorkspaceMembership \<Rightarrow> WorkspaceAccess option" where
  "access_row t m = map_option (\<lambda>w. \<lparr>wac_Workspace = w, wac_Membership = m\<rparr>)
     (row_find (\<lambda>w. wo_ID w = mb_WorkspaceID m) (au_workspaces t))"

definition access_rows :: "(WorkspaceMembership \<Rightarrow> bool) \<Rightarrow> AuthTables \<Rightarrow> WorkspaceAccess list" where
  "access_rows p t = List.map_filter (access_row t) (filter p (au_memberships t))"

definition role_rank :: "string \<Rightarrow> int" where
  "role_rank role = (if role = ''owner'' then 0 else if role = ''admin'' then 1 else 2)"

definition FindDefaultWorkspaceByUserID :: "string \<Rightarrow> (world, Workspace) proc" where
  "FindDefaultWorkspaceByUserID uid = one_row (query_auth (\<lambda>t.
     map_option wac_Workspace (first_of (sort_key
       (\<lambda>a. (role_rank (mb_Role (wac_Membership a)), ttxt (mb_CreatedAt (wac_Membership a)), wo_ID (wac_Workspace a)))
       (access_rows (\<lambda>m. mb_UserID m = uid) t)))))"

definition ListWorkspaceAccessByUserID :: "string \<Rightarrow> (world, WorkspaceAccess list) proc" where
  "ListWorkspaceAccessByUserID uid = query_auth (\<lambda>t.
     sort_key (\<lambda>a. (wo_Name (wac_Workspace a), wo_ID (wac_Workspace a))) (access_rows (\<lambda>m. mb_UserID m = uid) t))"

definition member_of :: "string \<Rightarrow> string \<Rightarrow> WorkspaceMembership \<Rightarrow> bool" where
  "member_of ws uid m \<longleftrightarrow> mb_WorkspaceID m = ws \<and> mb_UserID m = uid"

definition FindWorkspaceAccess :: "string \<Rightarrow> string \<Rightarrow> (world, WorkspaceAccess) proc" where
  "FindWorkspaceAccess ws uid = one_row (query_auth (\<lambda>t. first_of (access_rows (member_of ws uid) t)))"

definition member_row :: "AuthTables \<Rightarrow> WorkspaceMembership \<Rightarrow> WorkspaceMember option" where
  "member_row t m = map_option (\<lambda>u. \<lparr>wm_WorkspaceID = mb_WorkspaceID m, wm_UserID = mb_UserID m, wm_Email = us_Email u,
       wm_Role = mb_Role m, wm_CreatedAt = mb_CreatedAt m\<rparr>)
     (row_find (\<lambda>u. us_ID u = mb_UserID m) (au_users t))"

definition Repo_ListWorkspaceMembers :: "string \<Rightarrow> (world, WorkspaceMember list) proc" where
  "Repo_ListWorkspaceMembers ws = query_auth (\<lambda>t.
     sort_key (\<lambda>m. (role_rank (wm_Role m), wm_Email m, wm_UserID m))
       (List.map_filter (member_row t) (filter (\<lambda>m. mb_WorkspaceID m = ws) (au_memberships t))))"

definition owners :: "string \<Rightarrow> AuthTables \<Rightarrow> WorkspaceMembership list" where
  "owners ws t = filter (\<lambda>m. mb_WorkspaceID m = ws \<and> mb_Role m = RoleOwner) (au_memberships t)"

definition CountWorkspaceOwners :: "string \<Rightarrow> (world, int) proc" where
  "CountWorkspaceOwners ws = query_auth (\<lambda>t. int (length (owners ws t)))"

definition UpdateWorkspaceMembershipRole :: "string \<Rightarrow> string \<Rightarrow> string \<Rightarrow> (world, unit) proc" where
  "UpdateWorkspaceMembershipRole ws uid role =
    not_found_if_no_row (update_auth_rows (\<lambda>t. length (filter (member_of ws uid) (au_memberships t)))
      (\<lambda>t. t\<lparr>au_memberships := row_update (member_of ws uid) (\<lambda>m. m\<lparr>mb_Role := role\<rparr>) (au_memberships t)\<rparr>))"

definition DeleteWorkspaceMembership :: "string \<Rightarrow> string \<Rightarrow> (world, unit) proc" where
  "DeleteWorkspaceMembership ws uid =
    not_found_if_no_row (update_auth_rows (\<lambda>t. length (filter (member_of ws uid) (au_memberships t)))
      (\<lambda>t. t\<lparr>au_memberships := row_delete (member_of ws uid) (au_memberships t)\<rparr>))"

section \<open>Invitations\<close>

text \<open>The name of the workspace is not a column.\<close>

definition SaveWorkspaceInvitation :: "WorkspaceInvitation \<Rightarrow> (world, WorkspaceInvitation) proc" where
  "SaveWorkspaceInvitation invitation =
    attempt (conflict_if_unique (insert_auth (inv_Role invitation \<in> {RoleAdmin, RoleViewer}) invitations_unique
      (\<lambda>t. has_workspace (inv_WorkspaceID invitation) t \<and> has_user (inv_InvitedByUserID invitation) t \<and>
         (inv_AcceptedByUserID invitation \<noteq> [] \<longrightarrow> has_user (inv_AcceptedByUserID invitation) t))
      (\<lambda>t. t\<lparr>au_invitations := au_invitations t @ [invitation\<lparr>inv_WorkspaceName := []\<rparr>]\<rparr>))) (\<lambda>_. return_ok invitation)"

definition Repo_ListWorkspaceInvitations :: "string \<Rightarrow> (world, WorkspaceInvitation list) proc" where
  "Repo_ListWorkspaceInvitations ws = query_auth (\<lambda>t.
     rev (sort_key (\<lambda>i. (ttxt (inv_CreatedAt i), inv_ID i)) (filter (\<lambda>i. inv_WorkspaceID i = ws) (au_invitations t))))"

definition FindWorkspaceInvitationByTokenHash :: "string \<Rightarrow> (world, WorkspaceInvitation) proc" where
  "FindWorkspaceInvitationByTokenHash hash = one_row (query_auth (\<lambda>t. first_of (List.map_filter
     (\<lambda>i. map_option (\<lambda>w. i\<lparr>inv_WorkspaceName := wo_Name w\<rparr>) (row_find (\<lambda>w. wo_ID w = inv_WorkspaceID i) (au_workspaces t)))
     (filter (\<lambda>i. inv_TokenHash i = hash) (au_invitations t)))))"

definition acceptable :: "string \<Rightarrow> time \<Rightarrow> WorkspaceInvitation \<Rightarrow> bool" where
  "acceptable iid now i \<longleftrightarrow> inv_ID i = iid \<and> open_invitation i \<and> time_text_less now (inv_ExpiresAt i)"

definition Repo_AcceptWorkspaceInvitation :: "WorkspaceInvitation \<Rightarrow> WorkspaceMembership \<Rightarrow> time \<Rightarrow> (world, unit) proc" where
  "Repo_AcceptWorkspaceInvitation invitation membership acceptedAt = in_transaction (
    attempt (insert_membership membership) (\<lambda>_.
    attempt (update_auth_rows (\<lambda>t. length (filter (acceptable (inv_ID invitation) acceptedAt) (au_invitations t)))
      (\<lambda>t. t\<lparr>au_invitations := row_update (acceptable (inv_ID invitation) acceptedAt)
         (\<lambda>i. i\<lparr>inv_AcceptedAt := Some acceptedAt, inv_AcceptedByUserID := mb_UserID membership\<rparr>) (au_invitations t)\<rparr>)) (\<lambda>rows.
    if rows = 0 then return_err (join_conflict ''workspace invitation is no longer active'') else return_ok ())))"

definition revocable :: "string \<Rightarrow> string \<Rightarrow> WorkspaceInvitation \<Rightarrow> bool" where
  "revocable ws iid i \<longleftrightarrow> inv_ID i = iid \<and> inv_WorkspaceID i = ws \<and> open_invitation i"

definition Repo_RevokeWorkspaceInvitation :: "string \<Rightarrow> string \<Rightarrow> time \<Rightarrow> (world, unit) proc" where
  "Repo_RevokeWorkspaceInvitation ws iid revokedAt =
    not_found_if_no_row (update_auth_rows (\<lambda>t. length (filter (revocable ws iid) (au_invitations t)))
      (\<lambda>t. t\<lparr>au_invitations := row_update (revocable ws iid) (\<lambda>i. i\<lparr>inv_RevokedAt := Some revokedAt\<rparr>) (au_invitations t)\<rparr>))"

section \<open>Sessions\<close>

definition SaveSession :: "Session \<Rightarrow> (world, Session) proc" where
  "SaveSession session =
    attempt (conflict_if_unique (insert_auth (ses_Kind session \<in> {TokenKindAccess, TokenKindRefresh}) sessions_unique
      (\<lambda>t. has_user (ses_UserID session) t \<and> has_workspace (ses_WorkspaceID session) t)
      (\<lambda>t. t\<lparr>au_sessions := au_sessions t @ [session]\<rparr>))) (\<lambda>_. return_ok session)"

definition find_session :: "string \<Rightarrow> string \<Rightarrow> time \<Rightarrow> AuthTables \<Rightarrow> Session option" where
  "find_session hash kind now t =
    row_find (\<lambda>s. ses_TokenHash s = hash \<and> ses_Kind s = kind \<and> time_text_less now (ses_ExpiresAt s)) (au_sessions t)"

definition FindSessionByTokenHash :: "string \<Rightarrow> string \<Rightarrow> time \<Rightarrow> (world, Session) proc" where
  "FindSessionByTokenHash hash kind now = one_row (query_auth (find_session hash kind now))"

definition DeleteSessionByTokenHash :: "string \<Rightarrow> (world, unit) proc" where
  "DeleteSessionByTokenHash hash =
    exec (on_auth (\<lambda>t. t\<lparr>au_sessions := row_delete (\<lambda>s. ses_TokenHash s = hash) (au_sessions t)\<rparr>))"

section \<open>API keys\<close>

definition saveAPIKey :: "APIKey \<Rightarrow> (world, unit) proc" where
  "saveAPIKey key =
    conflict_if_unique (insert_auth True keys_unique (\<lambda>t. has_user (key_UserID key) t \<and> has_workspace (key_WorkspaceID key) t)
      (\<lambda>t. t\<lparr>au_keys := au_keys t @ [key]\<rparr>))"

definition saveAPIKeyEvent :: "APIKeyEvent \<Rightarrow> (world, unit) proc" where
  "saveAPIKeyEvent event =
    insert_auth (ake_EventType event \<in> {''created'', ''rotated'', ''revoked''}) key_events_unique (\<lambda>_. True)
      (\<lambda>t. t\<lparr>au_key_events := au_key_events t @ [event]\<rparr>)"

definition Repo_CreateAPIKey :: "APIKey \<Rightarrow> APIKeyEvent \<Rightarrow> (world, APIKey) proc" where
  "Repo_CreateAPIKey key event =
    attempt (in_transaction (attempt (saveAPIKey key) (\<lambda>_. saveAPIKeyEvent event))) (\<lambda>_. return_ok key)"

definition Repo_ListAPIKeys :: "ctx \<Rightarrow> string \<Rightarrow> (world, APIKey list) proc" where
  "Repo_ListAPIKeys ctx uid = with_workspace ctx (\<lambda>ws. query_auth (\<lambda>t.
     rev (sort_key (\<lambda>k. (ttxt (key_CreatedAt k), key_ID k))
       (filter (\<lambda>k. key_UserID k = uid \<and> key_WorkspaceID k = ws) (au_keys t)))))"

text \<open>The user of a key comes without its password hash.\<close>

definition key_principal :: "string \<Rightarrow> AuthTables \<Rightarrow> (APIKey \<times> User) option" where
  "key_principal hash t = first_of (List.map_filter
     (\<lambda>k. map_option (\<lambda>u. (k, u\<lparr>us_PasswordHash := []\<rparr>)) (row_find (\<lambda>u. us_ID u = key_UserID k) (au_users t)))
     (filter (\<lambda>k. key_TokenHash k = hash) (au_keys t)))"

definition FindAPIKeyPrincipalByTokenHash :: "string \<Rightarrow> (world, APIKey \<times> User) proc" where
  "FindAPIKeyPrincipalByTokenHash hash = one_row (query_auth (key_principal hash))"

definition key_of :: "string \<Rightarrow> string \<Rightarrow> string \<Rightarrow> APIKey \<Rightarrow> bool" where
  "key_of ws uid kid k \<longleftrightarrow> key_ID k = kid \<and> key_UserID k = uid \<and> key_WorkspaceID k = ws"

definition FindAPIKeyByID :: "ctx \<Rightarrow> string \<Rightarrow> string \<Rightarrow> (world, APIKey) proc" where
  "FindAPIKeyByID ctx uid kid = with_workspace ctx (\<lambda>ws. one_row (query_auth (\<lambda>t. row_find (key_of ws uid kid) (au_keys t))))"

definition UpdateAPIKeyLastUsed :: "string \<Rightarrow> time \<Rightarrow> (world, unit) proc" where
  "UpdateAPIKeyLastUsed kid lastUsedAt =
    exec (on_auth (\<lambda>t. t\<lparr>au_keys := row_update (\<lambda>k. key_ID k = kid) (\<lambda>k. k\<lparr>key_LastUsedAt := Some lastUsedAt\<rparr>) (au_keys t)\<rparr>))"

definition revoke_keys :: "(APIKey \<Rightarrow> bool) \<Rightarrow> time \<Rightarrow> (world, nat) proc" where
  "revoke_keys hit revokedAt = update_auth_rows (\<lambda>t. length (filter hit (au_keys t)))
     (\<lambda>t. t\<lparr>au_keys := row_update hit (\<lambda>k. k\<lparr>key_RevokedAt := Some revokedAt\<rparr>) (au_keys t)\<rparr>)"

definition Repo_RotateAPIKey :: "ctx \<Rightarrow> string \<Rightarrow> string \<Rightarrow> APIKey \<Rightarrow> time \<Rightarrow> APIKeyEvent list \<Rightarrow> (world, APIKey) proc" where
  "Repo_RotateAPIKey ctx uid sourceID replacement revokeAt events = with_workspace ctx (\<lambda>ws.
    attempt (in_transaction (
      attempt (revoke_keys (\<lambda>k. key_of ws uid sourceID k \<and> key_RevokedAt k = None) revokeAt) (\<lambda>rows.
      if rows = 0 then return_err (join_conflict ''api key is already revoked or rotating'')
      else attempt (saveAPIKey replacement) (\<lambda>_. foreach events () (\<lambda>event _. saveAPIKeyEvent event))))) (\<lambda>_.
    return_ok replacement))"

definition revoked_later :: "time \<Rightarrow> APIKey \<Rightarrow> bool" where
  "revoked_later now k \<longleftrightarrow> (case key_RevokedAt k of None \<Rightarrow> True | Some r \<Rightarrow> time_text_less now r)"

definition RevokeAPIKey :: "ctx \<Rightarrow> string \<Rightarrow> string \<Rightarrow> time \<Rightarrow> APIKeyEvent \<Rightarrow> (world, unit) proc" where
  "RevokeAPIKey ctx uid kid revokedAt event = with_workspace ctx (\<lambda>ws. in_transaction (
    attempt (revoke_keys (\<lambda>k. key_of ws uid kid k \<and> revoked_later revokedAt k) revokedAt) (\<lambda>rows.
    if rows = 0 then return_err ErrNotFound else saveAPIKeyEvent event)))"

definition Repo_ListAPIKeyEvents :: "ctx \<Rightarrow> string \<Rightarrow> int \<Rightarrow> (world, APIKeyEvent list) proc" where
  "Repo_ListAPIKeyEvents ctx uid limit = with_workspace ctx (\<lambda>ws. query_auth (\<lambda>t.
     order_desc_limit (\<lambda>e. (ttxt (ake_CreatedAt e), ake_ID e)) limit
       (filter (\<lambda>e. ake_WorkspaceID e = ws \<and> ake_UserID e = uid) (au_key_events t))))"

end
