(* ===== verification/AuthService.thy ===== *)
theory AuthService
  imports AuthRepo
begin

text \<open>
  The operations of the authentication service: \<^verbatim>\<open>src/internal/auth/service.go\<close>, \<^verbatim>\<open>workspace.go\<close>
  and \<^verbatim>\<open>authorization.go\<close>.  A token is its prefix and a text not returned before, which stands for the
  base64 of 32 random bytes; reading them may fail like a statement.  The tracker of the last uses of
  API keys is a second component of the state.  The result types of API keys copy the fields of a
  key, so an operation returns the key itself.
\<close>

section \<open>Tokens and passwords\<close>

definition newSessionToken :: "string \<Rightarrow> (world, string) proc" where
  "newSessionToken pre = attempt (query (\<lambda>_. ())) (\<lambda>_. attempt fresh_id (\<lambda>r. return_ok (pre @ r)))"

definition hashPassword :: "bcrypt \<Rightarrow> string \<Rightarrow> (world, string) proc" where
  "hashPassword bc password = attempt fresh_id (\<lambda>salt. lift_res (bc_Generate bc salt password))"

definition verifyPassword :: "bcrypt \<Rightarrow> string \<Rightarrow> string \<Rightarrow> bool" where
  "verifyPassword bc hash password = bc_Compare bc hash password"

text \<open>An error of a lookup: a row that is missing is reported as \<^verbatim>\<open>e'\<close>.\<close>

definition missing_as :: "go_error \<Rightarrow> (world, 'a) proc \<Rightarrow> (world, 'a) proc" where
  "missing_as e' m = inspect m (\<lambda>r. case r of
     Inl e \<Rightarrow> return_err (if errors_Is e ErrNotFound then e' else e) | Inr x \<Rightarrow> return_ok x)"

text \<open>A lookup that may find nothing.\<close>

definition if_found :: "(world, 'a) proc \<Rightarrow> (world, 'a option) proc" where
  "if_found m = inspect m (\<lambda>r. case r of
     Inl e \<Rightarrow> if errors_Is e ErrNotFound then return_ok None else return_err e | Inr x \<Rightarrow> return_ok (Some x))"

section \<open>Users and sessions\<close>

definition ensureDefaultWorkspace :: "User \<Rightarrow> (world, Workspace) proc" where
  "ensureDefaultWorkspace user =
    attempt (if_found (FindDefaultWorkspaceByUserID (us_ID user))) (\<lambda>found.
    case found of Some workspace \<Rightarrow> return_ok workspace
    | None \<Rightarrow>
        attempt clock_now (\<lambda>now.
        attempt fresh_id (\<lambda>wid.
        attempt (SaveWorkspace \<lparr>wo_ID = wid, wo_Name = defaultWorkspaceName (us_Email user), wo_CreatedAt = now\<rparr>) (\<lambda>workspace.
        attempt (SaveWorkspaceMembership \<lparr>mb_WorkspaceID = wo_ID workspace, mb_UserID = us_ID user, mb_Role = RoleOwner,
          mb_CreatedAt = now\<rparr>) (\<lambda>_.
        return_ok workspace)))))"

definition CreateUser :: "bcrypt \<Rightarrow> CreateUserCommand \<Rightarrow> (world, UserResult) proc" where
  "CreateUser bc cmd =
    attempt (lift_res (normalizeEmail (cuc_Email cmd))) (\<lambda>email.
    attempt (lift_res (validatePassword (cuc_Password cmd))) (\<lambda>_.
    attempt (hashPassword bc (cuc_Password cmd)) (\<lambda>passwordHash.
    attempt fresh_id (\<lambda>uid.
    attempt clock_now (\<lambda>now.
    attempt (SaveUser \<lparr>us_ID = uid, us_Email = email, us_PasswordHash = passwordHash, us_CreatedAt = now\<rparr>) (\<lambda>user.
    attempt (ensureDefaultWorkspace user) (\<lambda>workspace.
    return_ok (userResult user (wo_ID workspace)))))))))"

text \<open>The two sessions that a login and a refresh store, for a user in a workspace.\<close>

definition save_session_of :: "string \<Rightarrow> string \<Rightarrow> string \<Rightarrow> string \<Rightarrow> time \<Rightarrow> duration \<Rightarrow> (world, Session) proc" where
  "save_session_of uid ws token kind now ttl =
    attempt fresh_id (\<lambda>sid.
    SaveSession \<lparr>ses_ID = sid, ses_UserID = uid, ses_WorkspaceID = ws, ses_TokenHash = HashToken token, ses_Kind = kind,
      ses_ExpiresAt = now + ttl, ses_CreatedAt = now\<rparr>)"

definition issue_sessions :: "UserResult \<Rightarrow> (world, LoginResult) proc" where
  "issue_sessions user =
    attempt (newSessionToken accessTokenPrefix) (\<lambda>accessToken.
    attempt (newSessionToken refreshTokenPrefix) (\<lambda>refreshToken.
    attempt clock_now (\<lambda>now.
    attempt (save_session_of (usr_ID user) (usr_WorkspaceID user) accessToken TokenKindAccess now defaultAccessTokenTTL) (\<lambda>accessSession.
    attempt (save_session_of (usr_ID user) (usr_WorkspaceID user) refreshToken TokenKindRefresh now defaultRefreshTokenTTL) (\<lambda>refreshSession.
    return_ok \<lparr>lgr_AccessToken = accessToken, lgr_AccessExpiresAt = ses_ExpiresAt accessSession, lgr_RefreshToken = refreshToken,
      lgr_RefreshExpiresAt = ses_ExpiresAt refreshSession, lgr_TokenType = ''Bearer'', lgr_User = user\<rparr>)))))"

definition createLoginResultForWorkspace :: "User \<Rightarrow> string \<Rightarrow> (world, LoginResult) proc" where
  "createLoginResultForWorkspace user ws =
    attempt (missing_as (join_forbidden ''workspace membership is required'') (FindWorkspaceAccess ws (us_ID user))) (\<lambda>access.
    issue_sessions (userResultWithAccess user access))"

definition createLoginResult :: "User \<Rightarrow> (world, LoginResult) proc" where
  "createLoginResult user =
    attempt (ensureDefaultWorkspace user) (\<lambda>workspace. createLoginResultForWorkspace user (wo_ID workspace))"

definition Login :: "bcrypt \<Rightarrow> LoginCommand \<Rightarrow> (world, LoginResult) proc" where
  "Login bc cmd =
    (case normalizeEmail (lgc_Email cmd) of Inl _ \<Rightarrow> return_err unauthorized
     | Inr email \<Rightarrow>
         attempt (missing_as unauthorized (FindUserByEmail email)) (\<lambda>user.
         if \<not> verifyPassword bc (us_PasswordHash user) (lgc_Password cmd) then return_err unauthorized
         else createLoginResult user))"

text \<open>The user of a verified email address, stored first when there is none.\<close>

definition external_user :: "bool \<Rightarrow> string \<Rightarrow> (world, User) proc" where
  "external_user registrationDisabled email =
    attempt (if_found (FindUserByEmail email)) (\<lambda>found.
    case found of Some user \<Rightarrow> return_ok user
    | None \<Rightarrow>
        if registrationDisabled then return_err (join_forbidden ''registration is disabled'')
        else attempt fresh_id (\<lambda>uid. attempt clock_now (\<lambda>now.
          SaveUser \<lparr>us_ID = uid, us_Email = email, us_PasswordHash = [], us_CreatedAt = now\<rparr>)))"

definition LoginWithExternalIdentity :: "ExternalIdentityLoginCommand \<Rightarrow> (world, LoginResult) proc" where
  "LoginWithExternalIdentity cmd =
    (let provider = ToLower (TrimSpace (xlc_Provider cmd)); subject = TrimSpace (xlc_Subject cmd) in
     if provider = [] \<or> subject = [] then return_err unauthorized
     else attempt (if_found (FindIdentityByProviderSubject provider subject)) (\<lambda>found.
       case found of
         Some identity \<Rightarrow> attempt (missing_as unauthorized (FindUserByID (idn_UserID identity))) createLoginResult
       | None \<Rightarrow>
           if \<not> xlc_EmailVerified cmd then return_err unauthorized
           else case normalizeEmail (xlc_Email cmd) of Inl _ \<Rightarrow> return_err unauthorized
           | Inr email \<Rightarrow>
               attempt (external_user (xlc_RegistrationDisabled cmd) email) (\<lambda>user.
               attempt clock_now (\<lambda>now.
               attempt fresh_id (\<lambda>iid.
               attempt (SaveIdentity \<lparr>idn_ID = iid, idn_UserID = us_ID user, idn_Provider = provider, idn_Subject = subject,
                 idn_Email = email, idn_EmailVerified = True, idn_CreatedAt = now, idn_UpdatedAt = now\<rparr>) (\<lambda>_.
               createLoginResult user))))))"

definition authenticateToken :: "string \<Rightarrow> string \<Rightarrow> (world, UserResult) proc" where
  "authenticateToken token0 kind =
    (let token = TrimSpace token0 in
     if token = [] then return_err unauthorized
     else attempt clock_now (\<lambda>now.
       attempt (missing_as unauthorized (FindSessionByTokenHash (HashToken token) kind now)) (\<lambda>session.
       attempt (missing_as unauthorized (FindUserByID (ses_UserID session))) (\<lambda>user.
       let ws = TrimSpace (ses_WorkspaceID session) in
       if ws = [] then return_err (JoinErr ErrUnauthorized (NewError ''workspace is required'' []))
       else attempt (missing_as unauthorized (FindWorkspaceAccess ws (us_ID user))) (\<lambda>access.
         return_ok (userResultWithAccess user access))))))"

definition AuthenticateSession :: "string \<Rightarrow> (world, UserResult) proc" where
  "AuthenticateSession token = authenticateToken token TokenKindAccess"

definition AuthenticateSessionPrincipal :: "string \<Rightarrow> (world, Principal) proc" where
  "AuthenticateSessionPrincipal token =
    attempt (AuthenticateSession token) (\<lambda>user.
    return_ok \<lparr>prn_Kind = PrincipalKindSession, prn_ID = usr_ID user, prn_User = user, prn_WorkspaceID = usr_WorkspaceID user,
      prn_Role = usr_Role user, prn_APIKeyID = [], prn_Scopes = [], prn_AllowedMeters = [], prn_ExpiresAt = None, prn_RevokedAt = None\<rparr>)"

definition DeleteSession :: "string \<Rightarrow> (world, unit) proc" where
  "DeleteSession token0 =
    (let token = TrimSpace token0 in if token = [] then return_ok () else DeleteSessionByTokenHash (HashToken token))"

definition RefreshSession :: "string \<Rightarrow> (world, LoginResult) proc" where
  "RefreshSession token =
    attempt (authenticateToken token TokenKindRefresh) (\<lambda>user.
    attempt (DeleteSession token) (\<lambda>_.
    issue_sessions user))"

section \<open>API keys\<close>

definition apiKeyEvent :: "APIKey \<Rightarrow> string \<Rightarrow> string \<Rightarrow> time option \<Rightarrow> time \<Rightarrow> (world, APIKeyEvent) proc" where
  "apiKeyEvent key eventType relatedID effectiveAt createdAt =
    attempt fresh_id (\<lambda>eid.
    return_ok \<lparr>ake_ID = eid, ake_WorkspaceID = key_WorkspaceID key, ake_UserID = key_UserID key, ake_APIKeyID = key_ID key,
      ake_KeyName = key_Name key, ake_KeyPrefix = key_Prefix key, ake_EventType = eventType, ake_RelatedAPIKeyID = relatedID,
      ake_EffectiveAt = effectiveAt, ake_CreatedAt = createdAt\<rparr>)"

definition CreateAPIKey :: "ctx \<Rightarrow> CreateAPIKeyCommand \<Rightarrow> (world, CreateAPIKeyResult) proc" where
  "CreateAPIKey ctx cmd =
    (let uid = TrimSpace (ckc_UserID cmd); name = TrimSpace (ckc_Name cmd) in
     if uid = [] then return_err (join_invalid ''user id is required'')
     else with_workspace ctx (\<lambda>ws.
       if name = [] then return_err (join_invalid ''name is required'')
       else attempt (lift_res (normalizeAPIKeyScopes (ckc_Scopes cmd))) (\<lambda>scopes.
       attempt (case ckc_ExpiresAt cmd of None \<Rightarrow> return_ok ()
         | Some expiresAt \<Rightarrow> attempt clock_now (\<lambda>now.
             if \<not> now < expiresAt then return_err (join_invalid ''expires_at must be in the future'') else return_ok ())) (\<lambda>_.
       attempt (newSessionToken apiKeyPrefix) (\<lambda>token.
       attempt clock_now (\<lambda>now.
       attempt fresh_id (\<lambda>kid.
       let key = \<lparr>key_ID = kid, key_UserID = uid, key_WorkspaceID = ws, key_Name = name, key_TokenHash = HashToken token,
         key_Prefix = tokenPrefix token, key_Scopes = scopes, key_AllowedMeters = normalizeAllowedMeters (ckc_AllowedMeters cmd),
         key_ExpiresAt = ckc_ExpiresAt cmd, key_RevokedAt = None, key_CreatedAt = now, key_LastUsedAt = None\<rparr> in
       attempt (apiKeyEvent key ''created'' [] None now) (\<lambda>event.
       attempt (Repo_CreateAPIKey key event) (\<lambda>saved.
       return_ok \<lparr>ckr_Key = saved, ckr_Token = token\<rparr>)))))))))"

definition ListAPIKeys :: "ctx \<Rightarrow> string \<Rightarrow> (world, APIKey list) proc" where
  "ListAPIKeys ctx uid0 =
    (let uid = TrimSpace uid0 in
     if uid = [] then return_err (join_invalid ''user id is required'') else Repo_ListAPIKeys ctx uid)"

definition RotateAPIKey :: "ctx \<Rightarrow> RotateAPIKeyCommand \<Rightarrow> (world, CreateAPIKeyResult) proc" where
  "RotateAPIKey ctx cmd =
    (let uid = TrimSpace (rkc_UserID cmd); kid = TrimSpace (rkc_ID cmd) in
     if uid = [] \<or> kid = [] then return_err (join_invalid ''api key id is required'')
     else if rkc_GracePeriod cmd < 0 \<or> maxAPIKeyRotationGrace < rkc_GracePeriod cmd
     then return_err (join_invalid ''grace period must be between 0 and 24 hours'')
     else attempt (FindAPIKeyByID ctx uid kid) (\<lambda>source.
       attempt clock_now (\<lambda>now.
       if (case key_ExpiresAt source of None \<Rightarrow> False | Some t \<Rightarrow> \<not> now < t)
       then return_err (join_conflict ''expired api key cannot be rotated'')
       else if key_RevokedAt source \<noteq> None then return_err (join_conflict ''revoked api key cannot be rotated'')
       else attempt (newSessionToken apiKeyPrefix) (\<lambda>token.
       attempt fresh_id (\<lambda>rid.
       let replacement = \<lparr>key_ID = rid, key_UserID = key_UserID source, key_WorkspaceID = key_WorkspaceID source,
         key_Name = key_Name source, key_TokenHash = HashToken token, key_Prefix = tokenPrefix token, key_Scopes = key_Scopes source,
         key_AllowedMeters = key_AllowedMeters source, key_ExpiresAt = key_ExpiresAt source, key_RevokedAt = None,
         key_CreatedAt = now, key_LastUsedAt = None\<rparr>;
         revokeAt = now + rkc_GracePeriod cmd in
       attempt (apiKeyEvent source ''rotated'' rid (Some revokeAt) now) (\<lambda>rotated.
       attempt (apiKeyEvent replacement ''created'' (key_ID source) None (now + Nanosecond)) (\<lambda>created.
       attempt (Repo_RotateAPIKey ctx uid (key_ID source) replacement revokeAt [rotated, created]) (\<lambda>saved.
       return_ok \<lparr>ckr_Key = saved, ckr_Token = token\<rparr>))))))))"

definition ListAPIKeyEvents :: "ctx \<Rightarrow> string \<Rightarrow> int \<Rightarrow> (world, APIKeyEvent list) proc" where
  "ListAPIKeyEvents ctx uid0 limit =
    (let uid = TrimSpace uid0 in
     if uid = [] then return_err (join_invalid ''user id is required'')
     else Repo_ListAPIKeyEvents ctx uid (if limit \<le> 0 \<or> 200 < limit then 50 else limit))"

definition DeleteAPIKey :: "ctx \<Rightarrow> string \<Rightarrow> string \<Rightarrow> (world, unit) proc" where
  "DeleteAPIKey ctx uid0 kid0 =
    (let uid = TrimSpace uid0; kid = TrimSpace kid0 in
     if uid = [] \<or> kid = [] then return_err (join_invalid ''api key id is required'')
     else attempt (FindAPIKeyByID ctx uid kid) (\<lambda>key.
       attempt clock_now (\<lambda>now.
       attempt (apiKeyEvent key ''revoked'' [] (Some now) now) (\<lambda>event.
       RevokeAPIKey ctx uid kid now event))))"

subsection \<open>The tracker of last uses\<close>

record tracker =
  tk_lastUpdates :: "(string, time) fmap"
  tk_lastCleanup :: time

definition recent_update :: "time \<Rightarrow> time \<Rightarrow> bool" where
  "recent_update now updatedAt \<longleftrightarrow> time_Sub now updatedAt < apiKeyLastUsedInterval"

definition shouldUpdate :: "tracker \<Rightarrow> APIKey \<Rightarrow> time \<Rightarrow> bool \<times> tracker" where
  "shouldUpdate t key now =
    (if (case key_LastUsedAt key of None \<Rightarrow> False | Some used \<Rightarrow> recent_update now used) then (False, t)
     else if (case fmlookup (tk_lastUpdates t) (key_ID key) of None \<Rightarrow> False | Some prev \<Rightarrow> recent_update now prev) then (False, t)
     else let t' = (if IsZero (tk_lastCleanup t) \<or> \<not> recent_update now (tk_lastCleanup t)
         then t\<lparr>tk_lastUpdates := fmfilter (\<lambda>i. case fmlookup (tk_lastUpdates t) i of None \<Rightarrow> False | Some u \<Rightarrow> recent_update now u) (tk_lastUpdates t),
           tk_lastCleanup := now\<rparr>
         else t) in
       (True, t'\<lparr>tk_lastUpdates := fmupd (key_ID key) now (tk_lastUpdates t')\<rparr>))"

definition release :: "string \<Rightarrow> time \<Rightarrow> tracker \<Rightarrow> tracker" where
  "release kid reservedAt t =
    (if (case fmlookup (tk_lastUpdates t) kid of None \<Rightarrow> zero_time | Some u \<Rightarrow> u) = reservedAt
     then t\<lparr>tk_lastUpdates := fmdrop kid (tk_lastUpdates t)\<rparr> else t)"

definition on_world :: "(world, 'a) proc \<Rightarrow> (world \<times> tracker, 'a) proc" where
  "on_world m = (\<lambda>(w, t). case m w of (r, v) \<Rightarrow> (r, (v, t)))"

definition touch_key :: "APIKey \<Rightarrow> time \<Rightarrow> (world \<times> tracker, unit) proc" where
  "touch_key key now = (\<lambda>(w, t). case shouldUpdate t key now of
      (False, t') \<Rightarrow> (Inr (), (w, t'))
    | (True, t') \<Rightarrow> (case UpdateAPIKeyLastUsed (key_ID key) now w of
        (Inl e, v) \<Rightarrow> (Inl e, (v, release (key_ID key) now t'))
      | (Inr x, v) \<Rightarrow> (Inr (), (v, t'))))"

definition ended :: "time option \<Rightarrow> time \<Rightarrow> bool" where
  "ended t now \<longleftrightarrow> (case t of None \<Rightarrow> False | Some e \<Rightarrow> \<not> now < e)"

definition AuthenticateAPIKeyPrincipal :: "string \<Rightarrow> (world \<times> tracker, Principal) proc" where
  "AuthenticateAPIKeyPrincipal token0 =
    (let token = TrimSpace token0 in
     if token = [] then return_err unauthorized
     else attempt (on_world (missing_as unauthorized (FindAPIKeyPrincipalByTokenHash (HashToken token)))) (\<lambda>(key, user).
       attempt (on_world clock_now) (\<lambda>now.
       if ended (key_RevokedAt key) now \<or> ended (key_ExpiresAt key) now then return_err unauthorized
       else attempt (touch_key key now) (\<lambda>_.
       attempt (on_world (missing_as unauthorized (FindWorkspaceAccess (key_WorkspaceID key) (us_ID user)))) (\<lambda>access.
       let result = userResultWithAccess user access in
       return_ok \<lparr>prn_Kind = PrincipalKindAPIKey, prn_ID = key_ID key, prn_User = result, prn_WorkspaceID = key_WorkspaceID key,
         prn_Role = usr_Role result, prn_APIKeyID = key_ID key, prn_Scopes = key_Scopes key, prn_AllowedMeters = key_AllowedMeters key,
         prn_ExpiresAt = key_ExpiresAt key, prn_RevokedAt = key_RevokedAt key\<rparr>)))))"

definition AuthenticateAPIKey :: "string \<Rightarrow> (world \<times> tracker, UserResult) proc" where
  "AuthenticateAPIKey token = attempt (AuthenticateAPIKeyPrincipal token) (\<lambda>prn. return_ok (prn_User prn))"

section \<open>Authorization\<close>

definition deadline_passed :: "time option \<Rightarrow> (world, bool) proc" where
  "deadline_passed t = (case t of None \<Rightarrow> return_ok False | Some e \<Rightarrow> attempt clock_now (\<lambda>now. return_ok (\<not> now < e)))"

definition Can :: "enforcer option \<Rightarrow> Principal \<Rightarrow> string \<Rightarrow> Resource \<Rightarrow> (world, unit) proc" where
  "Can authorizer prn action resource =
    (case authorizer of None \<Rightarrow> return_ok ()
     | Some enforce \<Rightarrow>
        attempt (lift_res (enforce (prn_Kind prn) (rsc_Type resource) action)) (\<lambda>allowed.
        if \<not> allowed then return_err (forbidden action resource)
        else if prn_Kind prn = PrincipalKindSession
        then (if prn_Role prn = ''owner'' \<or> prn_Role prn = ''admin'' then return_ok ()
              else if prn_Role prn = ''viewer''
              then (if HasSuffix action '':read'' then return_ok () else return_err (forbidden action resource))
              else return_err (join_forbidden ''workspace membership is required''))
        else if prn_Role prn = RoleViewer \<and> \<not> HasSuffix action '':read'' then return_err (forbidden action resource)
        else if prn_Role prn \<noteq> RoleOwner \<and> prn_Role prn \<noteq> RoleAdmin \<and> prn_Role prn \<noteq> RoleViewer
        then return_err (join_forbidden ''workspace membership is required'')
        else attempt (deadline_passed (prn_RevokedAt prn)) (\<lambda>revoked.
          if revoked then return_err (join_forbidden ''api key is revoked'')
          else attempt (deadline_passed (prn_ExpiresAt prn)) (\<lambda>expired.
          if expired then return_err (join_forbidden ''api key is expired'')
          else if \<not> scopeAllows (prn_Scopes prn) action then return_err (forbidden action resource)
          else if \<not> meterAllows (prn_AllowedMeters prn) (rsc_Meter resource)
          then return_err (JoinErr ErrForbidden (NewError ''api key cannot access meter %q'' [SArg (rsc_Meter resource)]))
          else return_ok ()))))"

section \<open>Workspaces\<close>

definition ListWorkspaces :: "string \<Rightarrow> (world, WorkspaceAccess list) proc" where
  "ListWorkspaces uid0 =
    (let uid = TrimSpace uid0 in
     if uid = [] then return_err (join_invalid ''user id is required'') else ListWorkspaceAccessByUserID uid)"

definition SwitchWorkspace :: "string \<Rightarrow> string \<Rightarrow> (world, LoginResult) proc" where
  "SwitchWorkspace uid0 ws0 =
    (let uid = TrimSpace uid0; ws = TrimSpace ws0 in
     if uid = [] \<or> ws = [] then return_err (join_invalid ''workspace id is required'')
     else attempt (FindUserByID uid) (\<lambda>user. createLoginResultForWorkspace user ws))"

definition as_role :: "Principal \<Rightarrow> string list \<Rightarrow> (world, 'a) proc \<Rightarrow> (world, 'a) proc" where
  "as_role prn roles m = attempt (lift_res (requireWorkspaceRole prn roles)) (\<lambda>_. m)"

definition ListWorkspaceMembers :: "Principal \<Rightarrow> (world, WorkspaceMember list) proc" where
  "ListWorkspaceMembers prn = as_role prn [RoleOwner, RoleAdmin] (Repo_ListWorkspaceMembers (prn_WorkspaceID prn))"

definition ListWorkspaceInvitations :: "Principal \<Rightarrow> (world, WorkspaceInvitationResult list) proc" where
  "ListWorkspaceInvitations prn = as_role prn [RoleOwner, RoleAdmin] (
    attempt (Repo_ListWorkspaceInvitations (prn_WorkspaceID prn)) (\<lambda>invitations.
    foreach invitations [] (\<lambda>invitation results. attempt clock_now (\<lambda>now.
      return_ok (results @ [\<lparr>wir_Invitation = invitation, wir_Token = [], wir_Status = invitationStatus invitation now\<rparr>])))))"

definition check_not_member :: "string \<Rightarrow> string \<Rightarrow> (world, unit) proc" where
  "check_not_member ws uid =
    attempt (if_found (FindWorkspaceAccess ws uid)) (\<lambda>access.
    if access \<noteq> None then return_err (join_conflict ''user is already a workspace member'') else return_ok ())"

text \<open>The loop over the invitations of the address: one that is still active stops it, an expired one is revoked.\<close>

definition retire_invitation :: "string \<Rightarrow> string \<Rightarrow> WorkspaceInvitation \<Rightarrow> unit \<Rightarrow> (world, unit) proc" where
  "retire_invitation ws email existing u =
    (if \<not> EqualFold (inv_Email existing) email \<or> inv_AcceptedAt existing \<noteq> None \<or> inv_RevokedAt existing \<noteq> None then return_ok ()
     else attempt clock_now (\<lambda>now.
       if now < inv_ExpiresAt existing then return_err (join_conflict ''an active invitation already exists for this email'')
       else attempt clock_now (\<lambda>revokedAt. Repo_RevokeWorkspaceInvitation ws (inv_ID existing) revokedAt)))"

definition CreateWorkspaceInvitation :: "Principal \<Rightarrow> CreateWorkspaceInvitationCommand \<Rightarrow> (world, WorkspaceInvitationResult) proc" where
  "CreateWorkspaceInvitation prn cmd = as_role prn [RoleOwner, RoleAdmin] (
    attempt (lift_res (normalizeEmail (cic_Email cmd))) (\<lambda>email.
    attempt (lift_res (normalizeInvitableRole (cic_Role cmd))) (\<lambda>role.
    attempt (if_found (FindUserByEmail email)) (\<lambda>user.
    attempt (case user of None \<Rightarrow> return_ok () | Some u \<Rightarrow> check_not_member (prn_WorkspaceID prn) (us_ID u)) (\<lambda>_.
    attempt (Repo_ListWorkspaceInvitations (prn_WorkspaceID prn)) (\<lambda>existing.
    attempt (foreach existing () (retire_invitation (prn_WorkspaceID prn) email)) (\<lambda>_.
    attempt (newSessionToken invitationTokenPrefix) (\<lambda>token.
    attempt clock_now (\<lambda>now.
    attempt fresh_id (\<lambda>iid.
    attempt (SaveWorkspaceInvitation \<lparr>inv_ID = iid, inv_WorkspaceID = prn_WorkspaceID prn, inv_WorkspaceName = usr_WorkspaceName (prn_User prn),
      inv_Email = email, inv_Role = role, inv_TokenHash = HashToken token, inv_InvitedByUserID = usr_ID (prn_User prn),
      inv_ExpiresAt = now + defaultInvitationTTL, inv_AcceptedAt = None, inv_AcceptedByUserID = [], inv_RevokedAt = None,
      inv_CreatedAt = now\<rparr>) (\<lambda>invitation.
    return_ok \<lparr>wir_Invitation = invitation, wir_Token = token, wir_Status = ''pending''\<rparr>)))))))))))"

definition invitationByToken :: "string \<Rightarrow> (world, WorkspaceInvitation) proc" where
  "invitationByToken token0 =
    (let token = TrimSpace token0 in
     if token = [] then return_err (join_invalid ''invitation token is required'')
     else FindWorkspaceInvitationByTokenHash (HashToken token))"

definition PreviewWorkspaceInvitation :: "string \<Rightarrow> (world, WorkspaceInvitationResult) proc" where
  "PreviewWorkspaceInvitation token =
    attempt (invitationByToken token) (\<lambda>invitation.
    attempt clock_now (\<lambda>now.
    return_ok \<lparr>wir_Invitation = invitation, wir_Token = [], wir_Status = invitationStatus invitation now\<rparr>))"

definition AcceptWorkspaceInvitation :: "Principal \<Rightarrow> string \<Rightarrow> (world, LoginResult) proc" where
  "AcceptWorkspaceInvitation prn token =
    attempt (invitationByToken token) (\<lambda>invitation.
    attempt clock_now (\<lambda>seen.
    if invitationStatus invitation seen \<noteq> ''pending''
    then return_err (join_conflict ''workspace invitation is no longer active'')
    else if \<not> EqualFold (inv_Email invitation) (usr_Email (prn_User prn))
    then return_err (join_forbidden ''workspace invitation belongs to another email address'')
    else attempt (check_not_member (inv_WorkspaceID invitation) (usr_ID (prn_User prn))) (\<lambda>_.
    attempt clock_now (\<lambda>now.
    attempt (Repo_AcceptWorkspaceInvitation invitation \<lparr>mb_WorkspaceID = inv_WorkspaceID invitation, mb_UserID = usr_ID (prn_User prn),
      mb_Role = inv_Role invitation, mb_CreatedAt = now\<rparr> now) (\<lambda>_.
    attempt (FindUserByID (usr_ID (prn_User prn))) (\<lambda>user.
    createLoginResultForWorkspace user (inv_WorkspaceID invitation)))))))"

definition RevokeWorkspaceInvitation :: "Principal \<Rightarrow> string \<Rightarrow> (world, unit) proc" where
  "RevokeWorkspaceInvitation prn iid = as_role prn [RoleOwner, RoleAdmin] (
    attempt clock_now (\<lambda>now. Repo_RevokeWorkspaceInvitation (prn_WorkspaceID prn) (TrimSpace iid) now))"

text \<open>The membership that a change is about, and the check that it is not the last owner's.\<close>

definition check_owners_left :: "string \<Rightarrow> string \<Rightarrow> (world, unit) proc" where
  "check_owners_left ws msg =
    attempt (CountWorkspaceOwners ws) (\<lambda>n. if n \<le> 1 then return_err (join_conflict msg) else return_ok ())"

definition UpdateWorkspaceMember :: "Principal \<Rightarrow> UpdateWorkspaceMemberCommand \<Rightarrow> (world, unit) proc" where
  "UpdateWorkspaceMember prn cmd = as_role prn [RoleOwner] (
    attempt (lift_res (normalizeMemberRole (umm_Role cmd))) (\<lambda>role.
    attempt (FindWorkspaceAccess (prn_WorkspaceID prn) (TrimSpace (umm_UserID cmd))) (\<lambda>access.
    attempt (if mb_Role (wac_Membership access) = RoleOwner \<and> role \<noteq> RoleOwner
      then check_owners_left (prn_WorkspaceID prn) ''cannot demote the final workspace owner'' else return_ok ()) (\<lambda>_.
    UpdateWorkspaceMembershipRole (prn_WorkspaceID prn) (umm_UserID cmd) role))))"

definition RemoveWorkspaceMember :: "Principal \<Rightarrow> string \<Rightarrow> (world, unit) proc" where
  "RemoveWorkspaceMember prn uid = as_role prn [RoleOwner] (
    attempt (FindWorkspaceAccess (prn_WorkspaceID prn) (TrimSpace uid)) (\<lambda>access.
    attempt (if mb_Role (wac_Membership access) = RoleOwner
      then check_owners_left (prn_WorkspaceID prn) ''cannot remove the final workspace owner'' else return_ok ()) (\<lambda>_.
    DeleteWorkspaceMembership (prn_WorkspaceID prn) uid)))"

text \<open>A request of a session (\<^verbatim>\<open>adapters/http/auth/handler.go\<close>): the operation runs as the principal that the token names.\<close>

definition session_request :: "string \<Rightarrow> (Principal \<Rightarrow> (world, 'a) proc) \<Rightarrow> (world, 'a) proc" where
  "session_request token operation = attempt (AuthenticateSessionPrincipal token) operation"

end
