(* ===== verification/AuthSpec.thy ===== *)
theory AuthSpec
  imports AuthService
begin

text \<open>
  What the authentication service keeps and promises: the integrity of its tables, an owner in every
  workspace that has members or invitations, an audit trail of every API key, sessions that read back,
  refresh tokens that are used once, revoked keys and removed members that are locked out, and what an
  authorizer allows.
\<close>

section \<open>The invariant\<close>

text \<open>Unique keys and references.\<close>

definition auth_rows_ok :: "AuthTables \<Rightarrow> bool" where
  "auth_rows_ok t \<longleftrightarrow> users_unique t \<and> workspaces_unique t \<and> memberships_unique t \<and> invitations_unique t \<and>
     identities_unique t \<and> sessions_unique t \<and> keys_unique t \<and> key_events_unique t \<and>
     (\<forall>u \<in> set (au_users t). trimmed (us_ID u)) \<and>
     (\<forall>m \<in> set (au_memberships t). has_workspace (mb_WorkspaceID m) t \<and> has_user (mb_UserID m) t) \<and>
     (\<forall>i \<in> set (au_invitations t). has_workspace (inv_WorkspaceID i) t \<and> inv_Role i \<noteq> RoleOwner) \<and>
     (\<forall>i \<in> set (au_identities t). has_user (idn_UserID i) t) \<and>
     (\<forall>s \<in> set (au_sessions t). has_user (ses_UserID s) t \<and> has_workspace (ses_WorkspaceID s) t) \<and>
     (\<forall>k \<in> set (au_keys t). has_user (key_UserID k) t \<and> has_workspace (key_WorkspaceID k) t)"

text \<open>A workspace with a member or an invitation has an owner.\<close>

definition ws_owned :: "string \<Rightarrow> AuthTables \<Rightarrow> bool" where
  "ws_owned ws t \<longleftrightarrow> owners ws t \<noteq> []"

definition owned_ok :: "AuthTables \<Rightarrow> bool" where
  "owned_ok t \<longleftrightarrow> (\<forall>m \<in> set (au_memberships t). ws_owned (mb_WorkspaceID m) t) \<and>
     (\<forall>i \<in> set (au_invitations t). ws_owned (inv_WorkspaceID i) t)"

text \<open>Every key has the event of its creation, and its revocation has an event with the time.\<close>

definition creation_of :: "APIKey \<Rightarrow> APIKeyEvent \<Rightarrow> bool" where
  "creation_of k e \<longleftrightarrow> ake_EventType e = ''created'' \<and> ake_APIKeyID e = key_ID k \<and> ake_UserID e = key_UserID k \<and>
     ake_WorkspaceID e = key_WorkspaceID k"

definition revocation_of :: "APIKey \<Rightarrow> time \<Rightarrow> APIKeyEvent \<Rightarrow> bool" where
  "revocation_of k t e \<longleftrightarrow> ake_EventType e \<in> {''rotated'', ''revoked''} \<and> ake_APIKeyID e = key_ID k \<and> ake_EffectiveAt e = Some t"

definition audited :: "APIKeyEvent list \<Rightarrow> AuthTables \<Rightarrow> bool" where
  "audited pending t \<longleftrightarrow> (\<forall>k \<in> set (au_keys t). key_Scopes k \<noteq> [] \<and> set (key_Scopes k) \<subseteq> set allowedAPIKeyScopes \<and>
     (\<exists>e \<in> set (au_key_events t @ pending). creation_of k e) \<and>
     (\<forall>r. key_RevokedAt k = Some r \<longrightarrow> (\<exists>e \<in> set (au_key_events t @ pending). revocation_of k r e)))"

definition auth_ok :: "db \<Rightarrow> bool" where
  "auth_ok d \<longleftrightarrow> auth_rows_ok (db_auth d) \<and> owned_ok (db_auth d) \<and> audited [] (db_auth d)"

section \<open>Statements\<close>

text \<open>A predicate on the tables of the service.\<close>

definition of_auth :: "(AuthTables \<Rightarrow> bool) \<Rightarrow> world \<Rightarrow> bool" where
  "of_auth P = on_db (\<lambda>d. P (db_auth d))"

lemma db_auth_on_auth [simp]: "db_auth (on_auth f d) = f (db_auth d)"
  by (simp add: on_auth_def)

lemma keeps_auth_prims [keeps_rules]:
  "keeps (of_auth P) clock_now" "keeps (of_auth P) fresh_id" "keeps (of_auth P) (query f)" "keeps (of_auth P) (query_auth g)"
  by (simp_all add: of_auth_def query_auth_def keeps_rules)

lemma keeps_auth_transaction [keeps_rules]: "keeps (of_auth P) m \<Longrightarrow> keeps (of_auth P) (in_transaction m)"
  unfolding of_auth_def by (rule keeps_in_transaction)

lemma keeps_one_row [keeps_rules]: "keeps P m \<Longrightarrow> keeps P (one_row m)"
  unfolding one_row_def by (rule keeps_attempt) (auto intro!: keeps_rules split: option.splits)

lemma keeps_missing_as [keeps_rules]: "keeps P m \<Longrightarrow> keeps P (missing_as e m)"
  unfolding missing_as_def by (rule keeps_inspect) (auto intro!: keeps_rules split: sum.splits)

lemma keeps_if_found [keeps_rules]: "keeps P m \<Longrightarrow> keeps P (if_found m)"
  unfolding if_found_def by (rule keeps_inspect) (auto intro!: keeps_rules split: sum.splits)

lemma keeps_insert_auth:
  assumes "\<And>t. P t \<Longrightarrow> check \<Longrightarrow> unique (f t) \<Longrightarrow> parents t \<Longrightarrow> P (f t)"
  shows "keeps (of_auth P) (insert_auth check unique parents f)"
  unfolding of_auth_def insert_auth_def by (rule keeps_stmt) (auto split: if_splits intro: assms)

lemma keeps_exec_auth: "(\<And>t. P t \<Longrightarrow> P (f t)) \<Longrightarrow> keeps (of_auth P) (exec (on_auth f))"
  unfolding of_auth_def by (rule keeps_exec) simp

lemma keeps_update_auth: "(\<And>t. P t \<Longrightarrow> P (f t)) \<Longrightarrow> keeps (of_auth P) (update_auth_rows n f)"
  unfolding of_auth_def update_auth_rows_def by (rule keeps_execrows) simp

lemma keeps_auth_finders [keeps_rules]:
  "keeps (of_auth P) (FindUserByID uid)" "keeps (of_auth P) (FindUserByEmail email)"
  "keeps (of_auth P) (FindIdentityByProviderSubject p s)" "keeps (of_auth P) (FindDefaultWorkspaceByUserID uid)"
  "keeps (of_auth P) (FindWorkspaceAccess ws uid)" "keeps (of_auth P) (CountWorkspaceOwners ws)"
  "keeps (of_auth P) (Repo_ListWorkspaceInvitations ws)" "keeps (of_auth P) (FindWorkspaceInvitationByTokenHash h)"
  "keeps (of_auth P) (FindSessionByTokenHash h k now)" "keeps (of_auth P) (FindAPIKeyPrincipalByTokenHash h)"
  "keeps (of_auth P) (FindAPIKeyByID ctx uid kid)"
  unfolding FindUserByID_def FindUserByEmail_def FindIdentityByProviderSubject_def FindDefaultWorkspaceByUserID_def FindWorkspaceAccess_def
    CountWorkspaceOwners_def Repo_ListWorkspaceInvitations_def FindWorkspaceInvitationByTokenHash_def FindSessionByTokenHash_def
    FindAPIKeyPrincipalByTokenHash_def FindAPIKeyByID_def
  by (auto intro!: keeps_rules)

lemma keeps_auth_tokens [keeps_rules]:
  "keeps (of_auth P) (newSessionToken pre)" "keeps (of_auth P) (hashPassword bc pw)" "keeps (of_auth P) (apiKeyEvent k ty rel eff t0)"
  unfolding newSessionToken_def hashPassword_def apiKeyEvent_def by (auto intro!: keeps_rules)

text \<open>What a class of predicates must survive: the statements of the service.\<close>

locale auth_statements =
  fixes P :: "AuthTables \<Rightarrow> bool"
  assumes insert_user: "P t \<Longrightarrow> trimmed (us_ID u) \<Longrightarrow> users_unique (t\<lparr>au_users := au_users t @ [u]\<rparr>) \<Longrightarrow> P (t\<lparr>au_users := au_users t @ [u]\<rparr>)"
    and insert_workspace: "P t \<Longrightarrow> workspaces_unique (t\<lparr>au_workspaces := au_workspaces t @ [w]\<rparr>) \<Longrightarrow> P (t\<lparr>au_workspaces := au_workspaces t @ [w]\<rparr>)"
    and insert_owner: "P t \<Longrightarrow> mb_Role m = RoleOwner \<Longrightarrow> memberships_unique (t\<lparr>au_memberships := au_memberships t @ [m]\<rparr>) \<Longrightarrow>
      has_workspace (mb_WorkspaceID m) t \<Longrightarrow> has_user (mb_UserID m) t \<Longrightarrow> P (t\<lparr>au_memberships := au_memberships t @ [m]\<rparr>)"
    and insert_identity: "P t \<Longrightarrow> identities_unique (t\<lparr>au_identities := au_identities t @ [i]\<rparr>) \<Longrightarrow> has_user (idn_UserID i) t \<Longrightarrow>
      P (t\<lparr>au_identities := au_identities t @ [i]\<rparr>)"
    and insert_session: "P t \<Longrightarrow> sessions_unique (t\<lparr>au_sessions := au_sessions t @ [s]\<rparr>) \<Longrightarrow> has_user (ses_UserID s) t \<Longrightarrow>
      has_workspace (ses_WorkspaceID s) t \<Longrightarrow> P (t\<lparr>au_sessions := au_sessions t @ [s]\<rparr>)"
    and delete_session: "P t \<Longrightarrow> P (t\<lparr>au_sessions := row_delete (\<lambda>s. ses_TokenHash s = h) (au_sessions t)\<rparr>)"
    and use_key: "P t \<Longrightarrow> P (t\<lparr>au_keys := row_update (\<lambda>k. key_ID k = kid) (\<lambda>k. k\<lparr>key_LastUsedAt := Some now\<rparr>) (au_keys t)\<rparr>)"
    and revoke_invitation: "P t \<Longrightarrow> P (t\<lparr>au_invitations := row_update (revocable ws iid) (\<lambda>i. i\<lparr>inv_RevokedAt := Some now\<rparr>) (au_invitations t)\<rparr>)"
begin

lemma keeps_workspace_start: "keeps (of_auth P) (ensureDefaultWorkspace user)"
  unfolding ensureDefaultWorkspace_def SaveWorkspace_def SaveWorkspaceMembership_def insert_membership_def
  by (auto intro!: keeps_rules keeps_insert_auth insert_workspace insert_owner split: option.splits)

lemma keeps_save_session: "keeps (of_auth P) (save_session_of uid ws token kind now ttl)"
  unfolding save_session_of_def SaveSession_def by (auto intro!: keeps_rules keeps_insert_auth insert_session)

lemma keeps_logins:
  "keeps (of_auth P) (issue_sessions user)" "keeps (of_auth P) (createLoginResultForWorkspace u ws)"
  "keeps (of_auth P) (createLoginResult u)" "keeps (of_auth P) (Login bc cmd)" "keeps (of_auth P) (SwitchWorkspace uid ws)"
  unfolding issue_sessions_def createLoginResultForWorkspace_def createLoginResult_def Login_def SwitchWorkspace_def Let_def
  by (auto intro!: keeps_rules keeps_save_session keeps_workspace_start split: sum.splits)

lemma keeps_authenticate: "keeps (of_auth P) (authenticateToken token kind)" "keeps (of_auth P) (AuthenticateSessionPrincipal token)"
  unfolding AuthenticateSessionPrincipal_def AuthenticateSession_def authenticateToken_def Let_def by (auto intro!: keeps_rules)

lemma keeps_refresh: "keeps (of_auth P) (DeleteSession token)" "keeps (of_auth P) (RefreshSession token)"
  unfolding RefreshSession_def DeleteSession_def DeleteSessionByTokenHash_def Let_def
  by (auto intro!: keeps_rules keeps_exec_auth delete_session keeps_logins keeps_authenticate)

lemma keeps_use_key: "keeps (of_auth P) (UpdateAPIKeyLastUsed kid now)"
  unfolding UpdateAPIKeyLastUsed_def by (auto intro!: keeps_exec_auth use_key)

lemma keeps_revoke_invitation:
  "keeps (of_auth P) (Repo_RevokeWorkspaceInvitation ws iid now)" "keeps (of_auth P) (RevokeWorkspaceInvitation prn iid)"
  "keeps (of_auth P) (retire_invitation ws email i u)"
  unfolding Repo_RevokeWorkspaceInvitation_def RevokeWorkspaceInvitation_def retire_invitation_def as_role_def
  by (auto intro!: keeps_rules keeps_update_auth revoke_invitation)

lemma keeps_save_fresh_user:
  "(\<And>n. keeps (of_auth P) (k (id_text n))) \<Longrightarrow> keeps (of_auth P) (attempt fresh_id k)"
  by (rule keeps_attempt_fresh) (simp_all add: of_auth_def on_db_def)

lemma keeps_save_user: "trimmed (us_ID u) \<Longrightarrow> keeps (of_auth P) (SaveUser u)"
  unfolding SaveUser_def by (auto intro!: keeps_rules keeps_insert_auth insert_user)

lemma keeps_create_user: "keeps (of_auth P) (CreateUser bc cmd)"
  unfolding CreateUser_def
  by (intro keeps_attempt keeps_save_fresh_user keeps_return keeps_auth_tokens keeps_auth_prims keeps_save_user keeps_workspace_start) simp

lemma keeps_external_user: "keeps (of_auth P) (external_user dis email)"
proof -
  have "keeps (of_auth P) (attempt fresh_id (\<lambda>uid. attempt clock_now (\<lambda>now. SaveUser (u uid now))))"
    if "\<And>uid now. us_ID (u uid now) = uid" for u
    using that by (intro keeps_save_fresh_user keeps_attempt keeps_auth_prims keeps_save_user) simp
  then show ?thesis unfolding external_user_def by (auto intro!: keeps_rules split: option.splits)
qed

lemma keeps_external_login: "keeps (of_auth P) (LoginWithExternalIdentity cmd)"
  unfolding LoginWithExternalIdentity_def SaveIdentity_def Let_def
  by (auto intro!: keeps_rules keeps_external_user keeps_logins keeps_insert_auth insert_identity split: option.splits sum.splits)

end

text \<open>Members and invitations.\<close>

locale member_statements = auth_statements +
  assumes insert_member: "P t \<Longrightarrow> memberships_unique (t\<lparr>au_memberships := au_memberships t @ [m]\<rparr>) \<Longrightarrow>
      has_workspace (mb_WorkspaceID m) t \<Longrightarrow> has_user (mb_UserID m) t \<Longrightarrow> P (t\<lparr>au_memberships := au_memberships t @ [m]\<rparr>)"
    and set_role: "P t \<Longrightarrow> P (t\<lparr>au_memberships := row_update (member_of ws uid) (\<lambda>m. m\<lparr>mb_Role := role\<rparr>) (au_memberships t)\<rparr>)"
    and remove_member: "P t \<Longrightarrow> P (t\<lparr>au_memberships := row_delete (member_of ws uid) (au_memberships t)\<rparr>)"
    and insert_invitation: "P t \<Longrightarrow> inv_Role i \<noteq> RoleOwner \<Longrightarrow> invitations_unique (t\<lparr>au_invitations := au_invitations t @ [i\<lparr>inv_WorkspaceName := []\<rparr>]\<rparr>) \<Longrightarrow>
      has_workspace (inv_WorkspaceID i) t \<Longrightarrow> P (t\<lparr>au_invitations := au_invitations t @ [i\<lparr>inv_WorkspaceName := []\<rparr>]\<rparr>)"
    and accept_invitation: "P t \<Longrightarrow> P (t\<lparr>au_invitations := row_update (acceptable iid now)
      (\<lambda>i. i\<lparr>inv_AcceptedAt := Some now, inv_AcceptedByUserID := uid\<rparr>) (au_invitations t)\<rparr>)"
begin

lemma keeps_save_invitation: "keeps (of_auth P) (SaveWorkspaceInvitation i)"
  unfolding SaveWorkspaceInvitation_def
  by (auto intro!: keeps_rules keeps_insert_auth insert_invitation simp: role_defs)

lemma keeps_members:
  "keeps (of_auth P) (UpdateWorkspaceMember prn ucmd)" "keeps (of_auth P) (RemoveWorkspaceMember prn uid)"
  "keeps (of_auth P) (CreateWorkspaceInvitation prn icmd)" "keeps (of_auth P) (AcceptWorkspaceInvitation prn token)"
  unfolding UpdateWorkspaceMember_def RemoveWorkspaceMember_def CreateWorkspaceInvitation_def AcceptWorkspaceInvitation_def
    UpdateWorkspaceMembershipRole_def DeleteWorkspaceMembership_def Repo_AcceptWorkspaceInvitation_def
    insert_membership_def invitationByToken_def check_owners_left_def check_not_member_def as_role_def Let_def
  by (auto intro!: keeps_rules keeps_update_auth keeps_insert_auth keeps_logins keeps_revoke_invitation insert_member set_role remove_member
      keeps_save_invitation accept_invitation split: option.splits)

end

text \<open>API keys.\<close>

locale key_statements = auth_statements +
  assumes insert_key: "P t \<Longrightarrow> keys_unique (t\<lparr>au_keys := au_keys t @ [k]\<rparr>) \<Longrightarrow> has_user (key_UserID k) t \<Longrightarrow> has_workspace (key_WorkspaceID k) t \<Longrightarrow>
      P (t\<lparr>au_keys := au_keys t @ [k]\<rparr>)"
    and insert_key_event: "P t \<Longrightarrow> key_events_unique (t\<lparr>au_key_events := au_key_events t @ [e]\<rparr>) \<Longrightarrow> P (t\<lparr>au_key_events := au_key_events t @ [e]\<rparr>)"
    and revoke_key: "P t \<Longrightarrow> P (t\<lparr>au_keys := row_update hit (\<lambda>k. k\<lparr>key_RevokedAt := Some now\<rparr>) (au_keys t)\<rparr>)"
begin

lemma keeps_key_rows: "keeps (of_auth P) (saveAPIKey k)" "keeps (of_auth P) (saveAPIKeyEvent e)" "keeps (of_auth P) (revoke_keys hit now)"
  unfolding saveAPIKey_def saveAPIKeyEvent_def revoke_keys_def
  by (auto intro!: keeps_rules keeps_insert_auth keeps_update_auth insert_key insert_key_event revoke_key)

lemma keeps_keys:
  "keeps (of_auth P) (CreateAPIKey ctx ccmd)" "keeps (of_auth P) (RotateAPIKey ctx rcmd)" "keeps (of_auth P) (DeleteAPIKey ctx uid kid)"
  unfolding CreateAPIKey_def RotateAPIKey_def DeleteAPIKey_def Repo_CreateAPIKey_def Repo_RotateAPIKey_def RevokeAPIKey_def Let_def
  by (auto intro!: keeps_rules keeps_key_rows split: option.splits)

end

subsection \<open>Rows\<close>

lemma has_rows [simp]:
  "has_user uid (t\<lparr>au_users := us @ [u]\<rparr>) \<longleftrightarrow> us_ID u = uid \<or> list_ex (\<lambda>u. us_ID u = uid) us"
  "has_workspace ws (t\<lparr>au_workspaces := wos @ [w]\<rparr>) \<longleftrightarrow> wo_ID w = ws \<or> list_ex (\<lambda>w. wo_ID w = ws) wos"
  by (auto simp: has_user_def has_workspace_def)

lemma has_rows_tables:
  "au_users t' = au_users t \<Longrightarrow> has_user uid t' = has_user uid t"
  "au_workspaces t' = au_workspaces t \<Longrightarrow> has_workspace ws t' = has_workspace ws t"
  by (auto simp: has_user_def has_workspace_def)

lemmas auth_unique_defs = users_unique_def workspaces_unique_def memberships_unique_def invitations_unique_def identities_unique_def
  sessions_unique_def keys_unique_def key_events_unique_def

lemma filter_row_update:
  "(\<And>r. p r \<Longrightarrow> \<not> q (f r)) \<Longrightarrow> filter q (row_update p f rows) = filter (\<lambda>r. q r \<and> \<not> p r) rows"
  by (induction rows) auto

lemma distinct_keys_filter: "distinct_keys key rows \<Longrightarrow> distinct_keys key (filter p rows)"
  by (simp add: distinct_keys_def distinct_map_filter)

lemma row_updateE:
  assumes "r \<in> set (row_update p f rows)"
  obtains q where "q \<in> set rows" "r = q \<or> r = f q"
  using assms by (auto simp: row_update_def split: if_splits)

lemma filter_open_update:
  "(\<And>i. \<not> open_invitation (f i)) \<Longrightarrow> filter open_invitation (row_update hit f rows) = filter (\<lambda>i. open_invitation i \<and> \<not> hit i) rows"
  by (induction rows) auto

lemma open_invitations_close:
  assumes "distinct_keys key (filter open_invitation rows)" "\<And>i. \<not> open_invitation (f i)"
  shows "distinct_keys key (filter open_invitation (row_update hit f rows))"
  using distinct_keys_filter [OF assms(1), of "\<lambda>i. \<not> hit i"] assms(2) by (simp add: filter_open_update conj_commute)

lemmas auth_rows_defs = auth_rows_ok_def auth_unique_defs has_user_def has_workspace_def

interpretation rows: auth_statements auth_rows_ok
proof unfold_locales
  fix t :: AuthTables and ws iid now
  assume t: "auth_rows_ok t"
  have "\<not> open_invitation (i\<lparr>inv_RevokedAt := Some now\<rparr>)" for i by (simp add: open_invitation_def)
  with t show "auth_rows_ok (t\<lparr>au_invitations := row_update (revocable ws iid) (\<lambda>i. i\<lparr>inv_RevokedAt := Some now\<rparr>) (au_invitations t)\<rparr>)"
    by (auto simp: auth_rows_defs intro!: distinct_keys_update open_invitations_close elim!: row_updateE)
next
  fix t :: AuthTables and kid now
  assume "auth_rows_ok t"
  then show "auth_rows_ok (t\<lparr>au_keys := row_update (\<lambda>k. key_ID k = kid) (\<lambda>k. k\<lparr>key_LastUsedAt := Some now\<rparr>) (au_keys t)\<rparr>)"
    by (auto simp: auth_rows_defs intro!: distinct_keys_update elim!: row_updateE)
qed (auto simp: auth_rows_defs intro!: distinct_keys_delete)

interpretation rows: member_statements auth_rows_ok
proof unfold_locales
  fix t :: AuthTables and iid now uid
  assume t: "auth_rows_ok t"
  have "\<not> open_invitation (i\<lparr>inv_AcceptedAt := Some now, inv_AcceptedByUserID := uid\<rparr>)" for i by (simp add: open_invitation_def)
  with t show "auth_rows_ok (t\<lparr>au_invitations := row_update (acceptable iid now)
      (\<lambda>i. i\<lparr>inv_AcceptedAt := Some now, inv_AcceptedByUserID := uid\<rparr>) (au_invitations t)\<rparr>)"
    by (auto simp: auth_rows_defs intro!: distinct_keys_update open_invitations_close elim!: row_updateE)
next
  fix t :: AuthTables and ws uid role
  assume "auth_rows_ok t"
  then show "auth_rows_ok (t\<lparr>au_memberships := row_update (member_of ws uid) (\<lambda>m. m\<lparr>mb_Role := role\<rparr>) (au_memberships t)\<rparr>)"
    by (auto simp: auth_rows_defs membership_key_def intro!: distinct_keys_update elim!: row_updateE)
qed (auto simp: auth_rows_defs intro!: distinct_keys_delete)

interpretation rows: key_statements auth_rows_ok
proof unfold_locales
  fix t :: AuthTables and hit now
  assume "auth_rows_ok t"
  then show "auth_rows_ok (t\<lparr>au_keys := row_update hit (\<lambda>k. k\<lparr>key_RevokedAt := Some now\<rparr>) (au_keys t)\<rparr>)"
    by (auto simp: auth_rows_defs intro!: distinct_keys_update elim!: row_updateE)
qed (auto simp: auth_rows_defs)

subsection \<open>Owners\<close>

lemma owners_tables: "au_memberships t' = au_memberships t \<Longrightarrow> owners ws t' = owners ws t"
  by (simp add: owners_def)

lemma owners_update_other:
  "\<lbrakk>\<And>m. hit m \<Longrightarrow> mb_WorkspaceID m \<noteq> ws\<rbrakk> \<Longrightarrow> (\<And>m. mb_WorkspaceID (f m) = mb_WorkspaceID m) \<Longrightarrow>
   filter (\<lambda>m. mb_WorkspaceID m = ws \<and> P m) (row_update hit f rows) = filter (\<lambda>m. mb_WorkspaceID m = ws \<and> P m) rows"
  by (induction rows) auto

text \<open>Ownership with a workspace that an operation relies on.\<close>

definition owned_with :: "string set \<Rightarrow> AuthTables \<Rightarrow> bool" where
  "owned_with S t \<longleftrightarrow> owned_ok t \<and> (\<forall>ws \<in> S. ws_owned ws t)"

lemma owned_with_tables:
  "au_memberships t' = au_memberships t \<Longrightarrow> (\<And>i. i \<in> set (au_invitations t') \<Longrightarrow> \<exists>j \<in> set (au_invitations t). inv_WorkspaceID i = inv_WorkspaceID j) \<Longrightarrow>
   owned_with S t \<Longrightarrow> owned_with S t'"
  by (fastforce simp: owned_with_def owned_ok_def ws_owned_def owners_def)

interpretation owned: auth_statements "owned_with S" for S
proof unfold_locales
  fix t :: AuthTables and m :: WorkspaceMembership
  assume "owned_with S t" "mb_Role m = RoleOwner"
  then show "owned_with S (t\<lparr>au_memberships := au_memberships t @ [m]\<rparr>)"
    by (auto simp: owned_with_def owned_ok_def ws_owned_def owners_def)
next
  fix t :: AuthTables and ws iid now
  show "owned_with S t \<Longrightarrow> owned_with S (t\<lparr>au_invitations := row_update (revocable ws iid) (\<lambda>i. i\<lparr>inv_RevokedAt := Some now\<rparr>) (au_invitations t)\<rparr>)"
    by (erule owned_with_tables [rotated 2]) (auto elim!: row_updateE)
qed (erule owned_with_tables [rotated 2], simp, fastforce)+

interpretation owned: key_statements "owned_with S" for S
  by unfold_locales (erule owned_with_tables [rotated 2], simp, fastforce)+

subsection \<open>Reading before writing\<close>

text \<open>From a state with \<open>P\<close>, failing or not, to a state with \<open>Q\<close>.\<close>

definition leads :: "('s \<Rightarrow> bool) \<Rightarrow> ('s, 'a) proc \<Rightarrow> ('s \<Rightarrow> bool) \<Rightarrow> bool" where
  "leads P m Q \<longleftrightarrow> (\<forall>s. P s \<longrightarrow> Q (snd (m s)))"

lemma leads_keeps: "keeps Q m \<Longrightarrow> (\<And>s. P s \<Longrightarrow> Q s) \<Longrightarrow> leads P m Q"
  by (simp add: leads_def keeps_def)

lemma keeps_leads: "keeps P m \<longleftrightarrow> leads P m P"
  by (simp add: leads_def keeps_def)

lemma leads_attempt:
  assumes "keeps P m" "\<And>s. P s \<Longrightarrow> Q s" "ensures P m R" "\<And>x. leads (R x) (k x) Q"
  shows "leads P (attempt m k) Q"
proof (unfold leads_def, intro allI impI)
  fix s assume s: "P s"
  obtain r t where m: "m s = (r, t)" by (cases "m s")
  have "P t" using keepsD [OF assms(1) s] m by simp
  then show "Q (snd (attempt m k s))"
    using m s assms(2-4) by (cases r) (auto simp: attempt_def ensures_def leads_def)
qed

lemma leads_lift: "(\<And>x. r = Inr x \<Longrightarrow> leads P (k x) Q) \<Longrightarrow> (\<And>s. P s \<Longrightarrow> Q s) \<Longrightarrow> leads P (attempt (lift_res r) k) Q"
  by (cases r) (auto simp: leads_def)

lemma leads_not_found: "leads P m Q \<Longrightarrow> leads P (not_found_if_no_row m) Q"
  by (fastforce simp: leads_def not_found_if_no_row_def attempt_def split: prod.splits sum.splits)

lemma leads_update_auth: "(\<And>t. P t \<Longrightarrow> Q (f t)) \<Longrightarrow> (\<And>t. P t \<Longrightarrow> Q t) \<Longrightarrow> leads (of_auth P) (update_auth_rows n f) (of_auth Q)"
  by (auto simp: leads_def of_auth_def on_db_def update_auth_rows_def execrows_def stmt_def split: option.splits)

lemma ensures_query_auth: "(\<And>t. P t \<Longrightarrow> Q (f t) t) \<Longrightarrow> ensures (of_auth P) (query_auth f) (\<lambda>x. of_auth (Q x))"
  unfolding of_auth_def query_auth_def by (rule ensures_query) simp

lemma ensures_one_row:
  "(\<And>t x. P t \<Longrightarrow> f t = Some x \<Longrightarrow> Q x t) \<Longrightarrow> ensures (of_auth P) (one_row (query_auth f)) (\<lambda>x. of_auth (Q x))"
  unfolding one_row_def
  by (rule ensures_attempt [OF ensures_query_auth [where Q = "\<lambda>r t. P t \<and> f t = r"]])
    (auto simp: ensures_def of_auth_def on_db_def split: option.splits)

lemma ensures_missing_as: "ensures P m Q \<Longrightarrow> ensures P (missing_as e m) Q"
  unfolding missing_as_def ensures_def
  by (auto simp: inspect_def split: prod.splits sum.splits)

lemma access_rowsD:
  "a \<in> set (access_rows p t) \<Longrightarrow> wac_Membership a \<in> set (au_memberships t) \<and> p (wac_Membership a) \<and>
    wac_Workspace a \<in> set (au_workspaces t) \<and> wo_ID (wac_Workspace a) = mb_WorkspaceID (wac_Membership a)"
  by (auto simp: access_rows_def access_row_def List.map_filter_def dest: row_find_Some)

lemma first_of_in: "first_of xs = Some x \<Longrightarrow> x \<in> set xs"
  by (auto simp: first_of_def split: list.splits)

subsection \<open>The last owner\<close>

lemma another_owner:
  assumes "memberships_unique t" "1 < length (owners ws t)"
  shows "\<exists>m \<in> set (owners ws t). m \<noteq> q"
proof -
  have "distinct (au_memberships t)"
    using assms(1) by (auto simp: memberships_unique_def distinct_keys_def distinct_map)
  then have "distinct (owners ws t)" by (simp add: owners_def)
  then have "card (set (owners ws t)) = length (owners ws t)" by (rule distinct_card)
  then have "\<not> set (owners ws t) \<subseteq> {q}"
    using assms(2) card_mono [of "{q}" "set (owners ws t)"] by auto
  then show ?thesis by auto
qed

text \<open>A change of the row of one member keeps an owner when its owner is not the last one or stays one.\<close>

lemma owned_change:
  assumes ok: "auth_rows_ok t" "owned_with S t"
    and found: "first_of (access_rows (member_of ws (TrimSpace uid)) t) = Some access"
    and left: "mb_Role (wac_Membership access) = RoleOwner \<Longrightarrow> \<not> keep \<Longrightarrow> 1 < length (owners ws t)"
    and others: "\<And>m. m \<in> set (au_memberships t) \<Longrightarrow> \<not> member_of ws uid m \<Longrightarrow> m \<in> set ms"
    and kept: "\<And>m. keep \<Longrightarrow> m \<in> set (au_memberships t) \<Longrightarrow> member_of ws uid m \<Longrightarrow> \<exists>n \<in> set ms. mb_WorkspaceID n = ws \<and> mb_Role n = RoleOwner"
    and only: "\<And>m. m \<in> set ms \<Longrightarrow> \<exists>n \<in> set (au_memberships t). mb_WorkspaceID n = mb_WorkspaceID m"
  shows "owned_with S (t\<lparr>au_memberships := ms\<rparr>)"
proof -
  let ?t = "t\<lparr>au_memberships := ms\<rparr>"
  have unique: "memberships_unique t" using ok(1) by (simp add: auth_rows_ok_def)
  have same: "wac_Membership access = q" if q: "q \<in> set (au_memberships t)" "member_of ws uid q" for q
  proof -
    have "has_user (mb_UserID q) t" using ok(1) q(1) by (simp add: auth_rows_ok_def)
    then have "trimmed uid" using ok(1) q(2) by (auto simp: auth_rows_ok_def has_user_def member_of_def list_ex_iff)
    then have "TrimSpace uid = uid" by (rule trimmed_TrimSpace)
    with access_rowsD [OF first_of_in [OF found]] q unique show ?thesis
      by (auto simp: memberships_unique_def member_of_def membership_key_def intro: distinct_keys_unique)
  qed
  have "ws_owned ws' ?t" if owned: "ws_owned ws' t" for ws'
  proof -
    obtain m where m: "m \<in> set (au_memberships t)" "mb_WorkspaceID m = ws'" "mb_Role m = RoleOwner"
      using owned by (auto simp: ws_owned_def owners_def filter_empty_conv)
    have "\<exists>n \<in> set ms. mb_WorkspaceID n = ws' \<and> mb_Role n = RoleOwner"
    proof (cases "member_of ws uid m")
      case False
      then show ?thesis using m others by blast
    next
      case True
      then have "ws' = ws" using m by (simp add: member_of_def)
      show ?thesis
      proof (cases keep)
        case True
        then show ?thesis using kept m \<open>ws' = ws\<close> \<open>member_of ws uid m\<close> by blast
      next
        case False
        have "1 < length (owners ws t)" using same [OF m(1) True] m(3) left False by simp
        then obtain n' where "n' \<in> set (owners ws t)" "n' \<noteq> m" using another_owner [OF unique] by blast
        moreover from this have "\<not> member_of ws uid n'" using same [OF m(1) True] same [of n'] by (auto simp: owners_def)
        ultimately show ?thesis using others \<open>ws' = ws\<close> by (auto simp: owners_def)
      qed
    qed
    then show ?thesis by (auto simp: ws_owned_def owners_def filter_empty_conv)
  qed
  then show ?thesis using ok(2) only by (fastforce simp: owned_with_def owned_ok_def)
qed

lemma keeps_check_owners: "keeps (of_auth P) (check_owners_left ws msg)"
  unfolding check_owners_left_def by (auto intro!: keeps_rules)

lemma row_update_miss: "m \<in> set rows \<Longrightarrow> \<not> p m \<Longrightarrow> m \<in> set (row_update p f rows)"
  by (force simp: row_update_def)

lemma role_owner_kept:
  "m \<in> set rows \<Longrightarrow> member_of ws uid m \<Longrightarrow>
   \<exists>n \<in> set (row_update (member_of ws uid) (\<lambda>m. m\<lparr>mb_Role := RoleOwner\<rparr>) rows). mb_WorkspaceID n = ws \<and> mb_Role n = RoleOwner"
  by (rule bexI [where x = "m\<lparr>mb_Role := RoleOwner\<rparr>"]) (force simp: member_of_def row_update_def)+

text \<open>Both operations: role, lookup and count, then the change.\<close>

lemma leads_member_change:
  assumes change: "\<And>access. leads (of_auth (\<lambda>t. (auth_rows_ok t \<and> owned_with S t) \<and> first_of (access_rows (member_of ws (TrimSpace uid)) t) = Some access \<and>
      (demote access \<longrightarrow> 1 < length (owners ws t)))) m (of_auth (\<lambda>t. auth_rows_ok t \<and> owned_with S t))"
  shows "leads (of_auth (\<lambda>t. auth_rows_ok t \<and> owned_with S t))
    (attempt (FindWorkspaceAccess ws (TrimSpace uid)) (\<lambda>access.
      attempt (if demote access then check_owners_left ws msg else return_ok ()) (\<lambda>_. m))) (of_auth (\<lambda>t. auth_rows_ok t \<and> owned_with S t))"
proof -
  let ?P = "\<lambda>t. auth_rows_ok t \<and> owned_with S t"
  let ?R = "\<lambda>access t. ?P t \<and> first_of (access_rows (member_of ws (TrimSpace uid)) t) = Some access"
  have 1: "ensures (of_auth ?P) (FindWorkspaceAccess ws (TrimSpace uid)) (\<lambda>access. of_auth (?R access))"
    unfolding FindWorkspaceAccess_def by (rule ensures_one_row) simp
  have 2: "ensures (of_auth (?R access)) (if demote access then check_owners_left ws msg else return_ok ())
      (\<lambda>_. of_auth (\<lambda>t. ?R access t \<and> (demote access \<longrightarrow> 1 < length (owners ws t))))" for access
  proof -
    have "ensures (of_auth (?R access)) (check_owners_left ws msg) (\<lambda>_. of_auth (\<lambda>t. ?R access t \<and> 1 < length (owners ws t)))"
      unfolding check_owners_left_def CountWorkspaceOwners_def
      by (rule ensures_attempt [OF ensures_query_auth [where Q = "\<lambda>n t. ?R access t \<and> n = int (length (owners ws t))"]])
        (auto simp: ensures_def of_auth_def on_db_def)
    moreover have "\<not> demote access \<Longrightarrow> ensures (of_auth (?R access)) (return_ok ()) (\<lambda>_. of_auth (?R access))"
      by (rule ensures_ok)
    ultimately show ?thesis by (cases "demote access") simp_all
  qed
  have 3: "keeps (of_auth (?R access)) (if demote access then check_owners_left ws msg else return_ok ())" for access
    by (intro keeps_if keeps_check_owners keeps_return)
  have "leads (of_auth (?R access)) (attempt (if demote access then check_owners_left ws msg else return_ok ()) (\<lambda>_. m)) (of_auth ?P)"
    for access
    by (rule leads_attempt [OF 3 _ 2]) (simp add: of_auth_def on_db_def, use change [of access] in \<open>simp only: conj_assoc\<close>)
  then show ?thesis
    by (intro leads_attempt [OF keeps_auth_finders(5) _ 1]) assumption
qed


lemma keeps_member_changes:
  "keeps (of_auth (\<lambda>t. auth_rows_ok t \<and> owned_with S t)) (UpdateWorkspaceMember prn cmd)"
  "keeps (of_auth (\<lambda>t. auth_rows_ok t \<and> owned_with S t)) (RemoveWorkspaceMember prn uid)"
proof -
  let ?P = "\<lambda>t. auth_rows_ok t \<and> owned_with S t" and ?ws = "prn_WorkspaceID prn"
  have set_role: "leads (of_auth (\<lambda>t. ?P t \<and> first_of (access_rows (member_of ?ws (TrimSpace u)) t) = Some access \<and>
      (mb_Role (wac_Membership access) = RoleOwner \<and> role \<noteq> RoleOwner \<longrightarrow> 1 < length (owners ?ws t))))
      (UpdateWorkspaceMembershipRole ?ws u role) (of_auth ?P)" for u access role
    unfolding UpdateWorkspaceMembershipRole_def
  proof (intro leads_not_found leads_update_auth conjI rows.set_role)
    fix t
    assume "?P t \<and> first_of (access_rows (member_of ?ws (TrimSpace u)) t) = Some access \<and>
      (mb_Role (wac_Membership access) = RoleOwner \<and> role \<noteq> RoleOwner \<longrightarrow> 1 < length (owners ?ws t))"
    then show "owned_with S (t\<lparr>au_memberships := row_update (member_of ?ws u) (\<lambda>m. m\<lparr>mb_Role := role\<rparr>) (au_memberships t)\<rparr>)"
      by (intro owned_change [where access = access and uid = u and ws = ?ws and keep = "role = RoleOwner"])
        (auto intro: row_update_miss role_owner_kept elim!: row_updateE)
  qed auto
  have remove: "leads (of_auth (\<lambda>t. ?P t \<and> first_of (access_rows (member_of ?ws (TrimSpace u)) t) = Some access \<and>
      (mb_Role (wac_Membership access) = RoleOwner \<longrightarrow> 1 < length (owners ?ws t))))
      (DeleteWorkspaceMembership ?ws u) (of_auth ?P)" for u access
    unfolding DeleteWorkspaceMembership_def
  proof (intro leads_not_found leads_update_auth conjI rows.remove_member)
    fix t
    assume "?P t \<and> first_of (access_rows (member_of ?ws (TrimSpace u)) t) = Some access \<and>
      (mb_Role (wac_Membership access) = RoleOwner \<longrightarrow> 1 < length (owners ?ws t))"
    then show "owned_with S (t\<lparr>au_memberships := row_delete (member_of ?ws u) (au_memberships t)\<rparr>)"
      by (intro owned_change [where access = access and uid = u and ws = ?ws and keep = False]) auto
  qed auto
  show "keeps (of_auth ?P) (UpdateWorkspaceMember prn cmd)" "keeps (of_auth ?P) (RemoveWorkspaceMember prn uid)"
    unfolding keeps_leads UpdateWorkspaceMember_def RemoveWorkspaceMember_def as_role_def
    by (intro leads_lift leads_member_change set_role remove; assumption)+
qed

subsection \<open>Invitations\<close>

lemma owned_insert_member:
  "owned_with S t \<Longrightarrow> mb_WorkspaceID m \<in> S \<Longrightarrow> owned_with S (t\<lparr>au_memberships := au_memberships t @ [m]\<rparr>)"
  by (auto simp: owned_with_def owned_ok_def ws_owned_def owners_def)

lemma owned_insert_invitation:
  "owned_with S t \<Longrightarrow> inv_WorkspaceID i \<in> S \<Longrightarrow> owned_with S (t\<lparr>au_invitations := au_invitations t @ [i\<lparr>inv_WorkspaceName := []\<rparr>]\<rparr>)"
  by (auto simp: owned_with_def owned_ok_def ws_owned_def owners_def)

lemma owned_accept:
  "owned_with S t \<Longrightarrow> owned_with S (t\<lparr>au_invitations := row_update (acceptable iid now)
      (\<lambda>i. i\<lparr>inv_AcceptedAt := Some now, inv_AcceptedByUserID := uid\<rparr>) (au_invitations t)\<rparr>)"
  by (erule owned_with_tables [rotated 2]) (auto elim!: row_updateE)

lemma keeps_owned_invite:
  assumes "prn_WorkspaceID prn \<in> S"
  shows "keeps (of_auth (owned_with S)) (CreateWorkspaceInvitation prn cmd)"
proof -
  have "keeps (of_auth (owned_with S)) (SaveWorkspaceInvitation i)" if "inv_WorkspaceID i \<in> S" for i
    unfolding SaveWorkspaceInvitation_def
    by (intro keeps_attempt keeps_conflict keeps_insert_auth keeps_return owned_insert_invitation that)
  then show ?thesis
    using assms unfolding CreateWorkspaceInvitation_def check_not_member_def as_role_def
    by (auto intro!: keeps_rules owned.keeps_revoke_invitation split: option.splits)
qed

lemma leads_weaken: "keeps P m \<Longrightarrow> (\<And>s. P' s \<Longrightarrow> P s) \<Longrightarrow> (\<And>s. P s \<Longrightarrow> Q s) \<Longrightarrow> leads P' m Q"
  by (simp add: leads_def keeps_def)

lemma keeps_owned_accept: "keeps (of_auth (owned_with S)) (AcceptWorkspaceInvitation prn token)"
proof -
  have found: "ensures (of_auth (owned_with S)) (invitationByToken token) (\<lambda>i. of_auth (owned_with (insert (inv_WorkspaceID i) S)))"
  proof -
    have "ensures (of_auth (owned_with S)) (FindWorkspaceInvitationByTokenHash h) (\<lambda>i. of_auth (owned_with (insert (inv_WorkspaceID i) S)))" for h
      unfolding FindWorkspaceInvitationByTokenHash_def
      by (rule ensures_one_row, drule first_of_in) (auto simp: List.map_filter_def owned_with_def owned_ok_def)
    then show ?thesis by (simp add: invitationByToken_def Let_def ensures_err)
  qed
  have read: "keeps (of_auth (owned_with S)) (invitationByToken token)"
    unfolding invitationByToken_def Let_def by (auto intro!: keeps_rules)
  have member: "keeps (of_auth (owned_with S')) (insert_membership m)" if "mb_WorkspaceID m \<in> S'" for S' m
    unfolding insert_membership_def by (intro keeps_conflict keeps_insert_auth owned_insert_member that)
  show ?thesis
    unfolding keeps_leads AcceptWorkspaceInvitation_def
  proof (rule leads_attempt [OF read _ found], assumption, rule leads_weaken)
    fix inv :: WorkspaceInvitation
    let ?S = "insert (inv_WorkspaceID inv) S"
    show "keeps (of_auth (owned_with ?S)) (attempt clock_now (\<lambda>seen.
      if invitationStatus inv seen \<noteq> ''pending'' then return_err (join_conflict ''workspace invitation is no longer active'')
      else if \<not> EqualFold (inv_Email inv) (usr_Email (prn_User prn))
      then return_err (join_forbidden ''workspace invitation belongs to another email address'')
      else attempt (check_not_member (inv_WorkspaceID inv) (usr_ID (prn_User prn))) (\<lambda>_.
      attempt clock_now (\<lambda>now.
      attempt (Repo_AcceptWorkspaceInvitation inv \<lparr>mb_WorkspaceID = inv_WorkspaceID inv, mb_UserID = usr_ID (prn_User prn),
        mb_Role = inv_Role inv, mb_CreatedAt = now\<rparr> now) (\<lambda>_.
      attempt (FindUserByID (usr_ID (prn_User prn))) (\<lambda>user.
      createLoginResultForWorkspace user (inv_WorkspaceID inv)))))))"
      unfolding Repo_AcceptWorkspaceInvitation_def check_not_member_def
      by (auto intro!: keeps_rules member keeps_update_auth owned_accept owned.keeps_logins)
  qed (auto simp: of_auth_def on_db_def owned_with_def)
qed

text \<open>A request of a session runs as a member of its workspace, so the workspace has an owner.\<close>

lemma session_owned:
  "ensures (of_auth (owned_with S)) (AuthenticateSessionPrincipal token) (\<lambda>prn. of_auth (owned_with (insert (prn_WorkspaceID prn) S)))"
proof -
  have access: "ensures (of_auth (owned_with S)) (FindWorkspaceAccess ws uid)
      (\<lambda>a. of_auth (owned_with (insert (wo_ID (wac_Workspace a)) S)))" for ws uid
    unfolding FindWorkspaceAccess_def
    by (rule ensures_one_row, drule first_of_in, drule access_rowsD) (auto simp: owned_with_def owned_ok_def)
  have keep: "ensures (of_auth (owned_with S)) m (\<lambda>_. of_auth (owned_with S))" if "keeps (of_auth (owned_with S)) m" for m :: "(world, 'c) proc"
    using that by (rule ensures_keeps)
  have "ensures (of_auth (owned_with S)) (authenticateToken token kind) (\<lambda>u. of_auth (owned_with (insert (usr_WorkspaceID u) S)))" for kind
    unfolding authenticateToken_def Let_def
    by (auto intro!: ensures_if ensures_err keep keeps_rules ensures_missing_as access ensures_ok
        ensures_attempt [where m = "clock_now"] ensures_attempt [where m = "missing_as unauthorized (FindSessionByTokenHash h k n)" for h k n]
        ensures_attempt [where m = "missing_as unauthorized (FindUserByID u)" for u]
        ensures_attempt [where m = "missing_as unauthorized (FindWorkspaceAccess w u)" for w u] simp: userResultWithAccess_def)
  then show ?thesis
    unfolding AuthenticateSessionPrincipal_def AuthenticateSession_def
    by (rule ensures_attempt) (auto intro!: ensures_ok)
qed

lemma keeps_owned_session_invite: "keeps (of_auth (owned_with S)) (session_request token (\<lambda>prn. CreateWorkspaceInvitation prn cmd))"
  unfolding session_request_def keeps_leads
proof (rule leads_attempt [OF owned.keeps_authenticate(2) _ session_owned], assumption)
  fix prn
  have "keeps (of_auth (owned_with (insert (prn_WorkspaceID prn) S))) (CreateWorkspaceInvitation prn cmd)"
    by (rule keeps_owned_invite) simp
  then show "leads (of_auth (owned_with (insert (prn_WorkspaceID prn) S))) (CreateWorkspaceInvitation prn cmd) (of_auth (owned_with S))"
    by (rule leads_weaken) (auto simp: of_auth_def on_db_def owned_with_def)
qed


subsection \<open>The audit trail of keys\<close>

lemma audited_tables:
  "au_keys t' = au_keys t \<Longrightarrow> au_key_events t' = au_key_events t \<Longrightarrow> audited p t \<Longrightarrow> audited p t'"
  by (simp add: audited_def)

interpretation trail: auth_statements "audited p" for p
proof unfold_locales
  fix t :: AuthTables and kid now
  assume "audited p t"
  then show "audited p (t\<lparr>au_keys := row_update (\<lambda>k. key_ID k = kid) (\<lambda>k. k\<lparr>key_LastUsedAt := Some now\<rparr>) (au_keys t)\<rparr>)"
    by (fastforce simp: audited_def creation_of_def revocation_of_def elim!: row_updateE)
qed (erule audited_tables [rotated 2], simp, simp)+

interpretation trail: member_statements "audited p" for p
  by unfold_locales (erule audited_tables [rotated 2], simp, simp)+

lemma audited_event: "audited (e # p) t \<Longrightarrow> audited p (t\<lparr>au_key_events := au_key_events t @ [e]\<rparr>)"
  by (simp add: audited_def)

lemma audited_key:
  assumes "audited p t" "key_Scopes k \<noteq> []" "set (key_Scopes k) \<subseteq> set allowedAPIKeyScopes" "key_RevokedAt k = None" "creation_of k e"
  shows "audited (p @ [e]) (t\<lparr>au_keys := au_keys t @ [k]\<rparr>)"
  using assms by (fastforce simp: audited_def)

lemma audited_revoke:
  assumes "audited p t" "\<And>k. hit k \<Longrightarrow> key_ID k = kid" "ake_EventType e \<in> {''rotated'', ''revoked''}" "ake_APIKeyID e = kid" "ake_EffectiveAt e = Some now"
  shows "audited (p @ [e]) (t\<lparr>au_keys := row_update hit (\<lambda>k. k\<lparr>key_RevokedAt := Some now\<rparr>) (au_keys t)\<rparr>)"
proof -
  let ?f = "\<lambda>k. k\<lparr>key_RevokedAt := Some now\<rparr>"
  have "key_Scopes k \<noteq> [] \<and> set (key_Scopes k) \<subseteq> set allowedAPIKeyScopes \<and>
      (\<exists>e' \<in> set (au_key_events t @ p @ [e]). creation_of k e') \<and>
      (\<forall>r. key_RevokedAt k = Some r \<longrightarrow> (\<exists>e' \<in> set (au_key_events t @ p @ [e]). revocation_of k r e'))"
    if k: "k \<in> set (row_update hit ?f (au_keys t))" for k
  proof -
    obtain q where q: "q \<in> set (au_keys t)" "hit q \<and> k = ?f q \<or> k = q"
      using k by (auto simp: row_update_def split: if_splits)
    then have "audited p t \<Longrightarrow> key_Scopes q \<noteq> [] \<and> set (key_Scopes q) \<subseteq> set allowedAPIKeyScopes \<and>
      (\<exists>e' \<in> set (au_key_events t @ p). creation_of q e') \<and>
      (\<forall>r. key_RevokedAt q = Some r \<longrightarrow> (\<exists>e' \<in> set (au_key_events t @ p). revocation_of q r e'))"
      unfolding audited_def by blast
    moreover have "creation_of (?f q) e' = creation_of q e'" for e' by (simp add: creation_of_def)
    moreover have "hit q \<Longrightarrow> revocation_of (?f q) now e" using assms(2-5) by (auto simp: revocation_of_def)
    ultimately show ?thesis using q assms(1) by auto
  qed
  then show ?thesis unfolding audited_def by simp
qed

lemma ensures_insert_auth:
  "(\<And>t. P t \<Longrightarrow> unique (f t) \<Longrightarrow> Q () (f t)) \<Longrightarrow> ensures (of_auth P) (insert_auth check unique parents f) (\<lambda>x. of_auth (Q x))"
  unfolding of_auth_def insert_auth_def by (rule ensures_stmt) (auto split: if_splits)

lemma ensures_conflict: "ensures P m Q \<Longrightarrow> ensures P (conflict_if_unique m) Q"
  unfolding conflict_if_unique_def ensures_def by (auto simp: inspect_def split: prod.splits sum.splits)

lemma ensures_save_event: "ensures (of_auth (audited (e # p))) (saveAPIKeyEvent e) (\<lambda>_. of_auth (audited p))"
  unfolding saveAPIKeyEvent_def by (rule ensures_insert_auth) (rule audited_event)

lemma ensures_save_key:
  assumes "key_Scopes k \<noteq> []" "set (key_Scopes k) \<subseteq> set allowedAPIKeyScopes" "key_RevokedAt k = None" "creation_of k e"
  shows "ensures (of_auth (audited p)) (saveAPIKey k) (\<lambda>_. of_auth (audited (p @ [e])))"
  unfolding saveAPIKey_def by (intro ensures_conflict ensures_insert_auth audited_key assms)

lemma ensures_revoke:
  assumes "\<And>k. hit k \<Longrightarrow> key_ID k = kid" "ake_EventType e \<in> {''rotated'', ''revoked''}" "ake_APIKeyID e = kid" "ake_EffectiveAt e = Some now"
  shows "ensures (of_auth (audited p)) (revoke_keys hit now) (\<lambda>_. of_auth (audited (p @ [e])))"
  unfolding revoke_keys_def update_auth_rows_def of_auth_def
  by (rule ensures_execrows) (simp, rule audited_revoke [OF _ assms])

lemma quiet_transaction:
  assumes "ensures (of_auth (audited [])) m (\<lambda>_. of_auth (audited []))"
  shows "keeps (quiet (\<lambda>d. audited [] (db_auth d))) (in_transaction m)"
  using assms by (intro in_transaction_quiet) (simp add: of_auth_def)

definition scopes_ok :: "APIKey \<Rightarrow> bool" where
  "scopes_ok k \<longleftrightarrow> key_Scopes k \<noteq> [] \<and> set (key_Scopes k) \<subseteq> set allowedAPIKeyScopes"

lemma keeps_trail_create:
  assumes "scopes_ok k" "key_RevokedAt k = None" "creation_of k e"
  shows "keeps (quiet (\<lambda>d. audited [] (db_auth d))) (Repo_CreateAPIKey k e)"
proof -
  have "ensures (of_auth (audited [])) (attempt (saveAPIKey k) (\<lambda>_. saveAPIKeyEvent e)) (\<lambda>_. of_auth (audited []))"
    using ensures_save_key [of k e "[]"] assms
    by (intro ensures_attempt [where R = "\<lambda>_. of_auth (audited [e])"] ensures_save_event) (simp_all add: scopes_ok_def)
  then show ?thesis unfolding Repo_CreateAPIKey_def by (intro keeps_attempt keeps_return quiet_transaction)
qed

lemma keeps_trail_rotate:
  assumes "scopes_ok k" "key_RevokedAt k = None" "creation_of k c"
    and "ake_EventType e = ''rotated''" "ake_APIKeyID e = kid" "ake_EffectiveAt e = Some at0"
  shows "keeps (quiet (\<lambda>d. audited [] (db_auth d))) (Repo_RotateAPIKey ctx uid kid k at0 [e, c])"
proof -
  have revoke: "ensures (of_auth (audited [])) (revoke_keys (\<lambda>q. key_of ws uid kid q \<and> key_RevokedAt q = None) at0) (\<lambda>_. of_auth (audited [e]))" for ws
    using ensures_revoke [of "\<lambda>q. key_of ws uid kid q \<and> key_RevokedAt q = None" kid e at0 "[]"] assms(4-6) by (simp add: key_of_def)
  have save: "ensures (of_auth (audited [e])) (saveAPIKey k) (\<lambda>_. of_auth (audited [e, c]))"
    using ensures_save_key [of k c "[e]"] assms(1-3) by (simp add: scopes_ok_def)
  have events: "ensures (of_auth (audited [e, c])) (foreach [e, c] () (\<lambda>event _. saveAPIKeyEvent event)) (\<lambda>_. of_auth (audited []))"
    unfolding foreach.simps by (intro ensures_attempt [OF ensures_save_event] ensures_ok)
  show ?thesis
    unfolding Repo_RotateAPIKey_def
    by (intro keeps_with_workspace keeps_attempt keeps_return quiet_transaction ensures_attempt [OF revoke] ensures_if ensures_err
        ensures_attempt [OF save] events)
qed

lemma keeps_trail_revoke:
  assumes "ake_EventType e = ''revoked''" "ake_APIKeyID e = kid" "ake_EffectiveAt e = Some now"
  shows "keeps (quiet (\<lambda>d. audited [] (db_auth d))) (RevokeAPIKey ctx uid kid now e)"
proof -
  have revoke: "ensures (of_auth (audited [])) (revoke_keys (\<lambda>q. key_of ws uid kid q \<and> revoked_later now q) now) (\<lambda>_. of_auth (audited [e]))" for ws
    using ensures_revoke [of "\<lambda>q. key_of ws uid kid q \<and> revoked_later now q" kid e now "[]"] assms by (simp add: key_of_def)
  show ?thesis
    unfolding RevokeAPIKey_def
    by (intro keeps_with_workspace quiet_transaction ensures_attempt [OF revoke] ensures_if ensures_err ensures_save_event)
qed

lemma one_row_run: "one_row (query_auth f) s = (Inr x, t) \<Longrightarrow> f (db_auth (w_db s)) = Some x \<and> w_db t = w_db s"
  unfolding one_row_def query_auth_def attempt_eq_Inr
  by (elim exE conjE, drule query_ok) (simp split: option.splits)

lemma FindAPIKeyByID_run:
  assumes "FindAPIKeyByID ctx uid kid s = (Inr k, t)"
  obtains ws where "RequireWorkspaceID ctx = Inr ws" "k \<in> set (au_keys (db_auth (w_db s)))" "key_of ws uid kid k" "w_db t = w_db s"
proof -
  obtain ws where ws: "RequireWorkspaceID ctx = Inr ws"
    and run: "one_row (query_auth (\<lambda>t. row_find (key_of ws uid kid) (au_keys t))) s = (Inr k, t)"
    using assms by (cases "RequireWorkspaceID ctx") (simp_all add: FindAPIKeyByID_def with_workspace_def)
  show thesis using one_row_run [OF run] by (intro that [OF ws]) (auto dest: row_find_Some)
qed

lemma keeps_trail_keys:
  "keeps (quiet (\<lambda>d. audited [] (db_auth d))) (CreateAPIKey ctx ccmd)"
  "keeps (quiet (\<lambda>d. audited [] (db_auth d))) (RotateAPIKey ctx rcmd)"
  "keeps (quiet (\<lambda>d. audited [] (db_auth d))) (DeleteAPIKey ctx uid kid)"
proof -
  let ?P = "quiet (\<lambda>d. audited [] (db_auth d))"
  have prims: "keeps ?P (newSessionToken pre)" "keeps ?P (FindAPIKeyByID ctx u i)" for pre u i
    unfolding newSessionToken_def FindAPIKeyByID_def query_auth_def by (auto intro!: keeps_rules)
  have event: "keeps ?P (attempt (apiKeyEvent k ty rel eff at0) g)"
    if "\<And>e. ake_EventType e = ty \<Longrightarrow> ake_APIKeyID e = key_ID k \<Longrightarrow> ake_UserID e = key_UserID k \<Longrightarrow> ake_WorkspaceID e = key_WorkspaceID k \<Longrightarrow>
      ake_EffectiveAt e = eff \<Longrightarrow> keeps ?P (g e)" for k ty rel eff at0 and g :: "APIKeyEvent \<Rightarrow> (world, 'c) proc"
    unfolding apiKeyEvent_def
    by (intro keeps_attempt_run) (auto intro!: keeps_rules keepsD [OF that] simp: attempt_eq_Inr)
  have find: "keeps ?P (attempt (FindAPIKeyByID ctx u i) g)"
    if "\<And>k. scopes_ok k \<Longrightarrow> key_ID k = i \<Longrightarrow> keeps ?P (g k)" for u i and g :: "APIKey \<Rightarrow> (world, 'c) proc"
  proof (rule keeps_attempt_run [OF prims(2)])
    fix s k t
    assume "?P s" "FindAPIKeyByID ctx u i s = (Inr k, t)" "?P t"
    then have "k \<in> set (au_keys (db_auth (w_db s))) \<and> key_ID k = i"
      by (auto elim!: FindAPIKeyByID_run simp: key_of_def)
    with \<open>?P s\<close> have "scopes_ok k" "key_ID k = i" by (auto simp: quiet_def audited_def scopes_ok_def)
    from keepsD [OF that [OF this] \<open>?P t\<close>] show "?P (snd (g k t))" .
  qed
  show "keeps ?P (RotateAPIKey ctx rcmd)"
    unfolding RotateAPIKey_def Let_def
    by (intro keeps_if keeps_return find keeps_attempt [OF keeps_quiet_prims(1)] keeps_attempt [OF keeps_quiet_prims(2)] keeps_attempt [OF prims(1)]
        event keeps_attempt [OF keeps_trail_rotate]) (simp_all add: scopes_ok_def creation_of_def)
  show "keeps ?P (DeleteAPIKey ctx uid kid)"
    unfolding DeleteAPIKey_def Let_def
    by (intro keeps_if keeps_return find keeps_attempt [OF keeps_quiet_prims(1)] event keeps_trail_revoke) simp_all
  show "keeps ?P (CreateAPIKey ctx ccmd)"
    unfolding CreateAPIKey_def Let_def
  proof (intro keeps_if keeps_return keeps_with_workspace)
    fix ws
    let ?rest = "\<lambda>scopes. attempt (case ckc_ExpiresAt ccmd of None \<Rightarrow> return_ok ()
         | Some expiresAt \<Rightarrow> attempt clock_now (\<lambda>now.
             if \<not> now < expiresAt then return_err (join_invalid ''expires_at must be in the future'') else return_ok ())) (\<lambda>_.
       attempt (newSessionToken apiKeyPrefix) (\<lambda>token. attempt clock_now (\<lambda>now. attempt fresh_id (\<lambda>kid.
       attempt (apiKeyEvent \<lparr>key_ID = kid, key_UserID = TrimSpace (ckc_UserID ccmd), key_WorkspaceID = ws, key_Name = TrimSpace (ckc_Name ccmd),
         key_TokenHash = HashToken token, key_Prefix = tokenPrefix token, key_Scopes = scopes,
         key_AllowedMeters = normalizeAllowedMeters (ckc_AllowedMeters ccmd), key_ExpiresAt = ckc_ExpiresAt ccmd, key_RevokedAt = None,
         key_CreatedAt = now, key_LastUsedAt = None\<rparr> ''created'' [] None now) (\<lambda>event.
       attempt (Repo_CreateAPIKey \<lparr>key_ID = kid, key_UserID = TrimSpace (ckc_UserID ccmd), key_WorkspaceID = ws, key_Name = TrimSpace (ckc_Name ccmd),
         key_TokenHash = HashToken token, key_Prefix = tokenPrefix token, key_Scopes = scopes,
         key_AllowedMeters = normalizeAllowedMeters (ckc_AllowedMeters ccmd), key_ExpiresAt = ckc_ExpiresAt ccmd, key_RevokedAt = None,
         key_CreatedAt = now, key_LastUsedAt = None\<rparr> event) (\<lambda>saved.
       return_ok \<lparr>ckr_Key = saved, ckr_Token = token\<rparr>))))))"
    have "keeps ?P (?rest scopes)" if "scopes \<noteq> []" "set scopes \<subseteq> set allowedAPIKeyScopes" for scopes
    proof (rule keeps_attempt)
      show "keeps ?P (case ckc_ExpiresAt ccmd of None \<Rightarrow> return_ok ()
         | Some expiresAt \<Rightarrow> attempt clock_now (\<lambda>now.
             if \<not> now < expiresAt then return_err (join_invalid ''expires_at must be in the future'') else return_ok ()))"
        by (cases "ckc_ExpiresAt ccmd") (auto intro!: keeps_rules)
    qed (intro keeps_attempt [OF prims(1)] keeps_attempt [OF keeps_quiet_prims(1)] keeps_attempt [OF keeps_quiet_prims(2)]
        event keeps_attempt [OF keeps_trail_create] keeps_return; use that in \<open>simp add: scopes_ok_def creation_of_def\<close>)
    then show "keeps ?P (attempt (lift_res (normalizeAPIKeyScopes (ckc_Scopes ccmd))) ?rest)"
      using normalizeAPIKeyScopes_ok [of "ckc_Scopes ccmd"] by (cases "normalizeAPIKeyScopes (ckc_Scopes ccmd)") (auto simp: keeps_return)
  qed
qed


section \<open>Every operation keeps it\<close>

lemma keeps_auth_ok:
  assumes "keeps (of_auth (\<lambda>t. auth_rows_ok t \<and> owned_with {} t)) m" "keeps (quiet (\<lambda>d. audited [] (db_auth d))) m"
  shows "keeps (quiet auth_ok) m"
  using assms by (auto simp: keeps_def quiet_def auth_ok_def of_auth_def on_db_def owned_with_def)

lemma keeps_auth_okI:
  assumes "keeps (of_auth auth_rows_ok) m" "keeps (of_auth (owned_with {})) m" "keeps (of_auth (audited [])) m" "keeps (tx_is False) m"
  shows "keeps (quiet auth_ok) m"
  using assms by (auto simp: keeps_def quiet_def auth_ok_def of_auth_def on_db_def owned_with_def tx_is_def)

lemma keeps_tx_auth_statements [keeps_rules]:
  "keeps (tx_is b) (insert_auth check unique parents f)" "keeps (tx_is b) (query_auth g)" "keeps (tx_is b) (update_auth_rows n f)"
  unfolding insert_auth_def query_auth_def update_auth_rows_def by (auto intro!: keeps_rules)

lemma keeps_tx_auth_finders [keeps_rules]:
  "keeps (tx_is b) (FindUserByID uid)" "keeps (tx_is b) (FindUserByEmail email)"
  "keeps (tx_is b) (FindIdentityByProviderSubject p s)" "keeps (tx_is b) (FindDefaultWorkspaceByUserID uid)"
  "keeps (tx_is b) (FindWorkspaceAccess ws uid)" "keeps (tx_is b) (CountWorkspaceOwners ws)"
  "keeps (tx_is b) (Repo_ListWorkspaceInvitations ws)" "keeps (tx_is b) (FindWorkspaceInvitationByTokenHash h)"
  "keeps (tx_is b) (FindSessionByTokenHash h k now)" "keeps (tx_is b) (FindAPIKeyPrincipalByTokenHash h)"
  "keeps (tx_is b) (newSessionToken pre)" "keeps (tx_is b) (hashPassword bc pw)"
  unfolding FindUserByID_def FindUserByEmail_def FindIdentityByProviderSubject_def FindDefaultWorkspaceByUserID_def FindWorkspaceAccess_def
    CountWorkspaceOwners_def Repo_ListWorkspaceInvitations_def FindWorkspaceInvitationByTokenHash_def FindSessionByTokenHash_def
    FindAPIKeyPrincipalByTokenHash_def newSessionToken_def hashPassword_def
  by (auto intro!: keeps_rules)

lemma keeps_tx_logins [keeps_rules]:
  "keeps (tx_is b) (ensureDefaultWorkspace u)" "keeps (tx_is b) (issue_sessions user)"
  "keeps (tx_is b) (createLoginResultForWorkspace u ws)" "keeps (tx_is b) (createLoginResult u)"
  "keeps (tx_is b) (authenticateToken token kind)" "keeps (tx_is b) (AuthenticateSessionPrincipal token)"
  unfolding ensureDefaultWorkspace_def issue_sessions_def createLoginResultForWorkspace_def createLoginResult_def
    AuthenticateSessionPrincipal_def AuthenticateSession_def authenticateToken_def
    SaveWorkspace_def SaveWorkspaceMembership_def insert_membership_def save_session_of_def SaveSession_def Let_def
  by (auto intro!: keeps_rules split: option.splits)

lemma keeps_tx_users:
  "keeps (tx_is b) (CreateUser bc cmd)" "keeps (tx_is b) (Login bc lcmd)" "keeps (tx_is b) (SwitchWorkspace uid ws)"
  "keeps (tx_is b) (LoginWithExternalIdentity xcmd)" "keeps (tx_is b) (RefreshSession token)" "keeps (tx_is b) (DeleteSession token)"
  unfolding CreateUser_def Login_def SwitchWorkspace_def LoginWithExternalIdentity_def external_user_def RefreshSession_def DeleteSession_def
    DeleteSessionByTokenHash_def SaveUser_def SaveIdentity_def Let_def
  by (auto intro!: keeps_rules split: option.splits sum.splits)

lemma keeps_tx_members:
  "keeps (tx_is b) (UpdateWorkspaceMember prn ucmd)" "keeps (tx_is b) (RemoveWorkspaceMember prn uid)"
  "keeps (tx_is b) (session_request token (\<lambda>prn. CreateWorkspaceInvitation prn icmd))" "keeps (tx_is b) (AcceptWorkspaceInvitation prn token)"
  "keeps (tx_is b) (RevokeWorkspaceInvitation prn iid)"
  unfolding session_request_def UpdateWorkspaceMember_def RemoveWorkspaceMember_def CreateWorkspaceInvitation_def AcceptWorkspaceInvitation_def
    RevokeWorkspaceInvitation_def retire_invitation_def Repo_RevokeWorkspaceInvitation_def UpdateWorkspaceMembershipRole_def
    DeleteWorkspaceMembership_def SaveWorkspaceInvitation_def Repo_AcceptWorkspaceInvitation_def
    insert_membership_def invitationByToken_def check_owners_left_def check_not_member_def as_role_def Let_def
  by (auto intro!: keeps_rules split: option.splits)

lemma keeps_users:
  "keeps (quiet auth_ok) (CreateUser bc cmd)" "keeps (quiet auth_ok) (Login bc lcmd)" "keeps (quiet auth_ok) (SwitchWorkspace uid ws)"
  "keeps (quiet auth_ok) (LoginWithExternalIdentity xcmd)" "keeps (quiet auth_ok) (RefreshSession token)" "keeps (quiet auth_ok) (DeleteSession token)"
  by (intro keeps_auth_okI keeps_tx_users rows.keeps_create_user owned.keeps_create_user trail.keeps_create_user
      rows.keeps_logins owned.keeps_logins trail.keeps_logins rows.keeps_external_login owned.keeps_external_login trail.keeps_external_login
      rows.keeps_refresh owned.keeps_refresh trail.keeps_refresh)+

lemma keeps_workspace_service:
  "keeps (quiet auth_ok) (UpdateWorkspaceMember prn ucmd)" "keeps (quiet auth_ok) (RemoveWorkspaceMember prn uid)"
  "keeps (quiet auth_ok) (session_request token (\<lambda>prn. CreateWorkspaceInvitation prn icmd))" "keeps (quiet auth_ok) (AcceptWorkspaceInvitation prn token)"
  "keeps (quiet auth_ok) (RevokeWorkspaceInvitation prn iid)"
proof -
  have quietly: "keeps (quiet (\<lambda>d. audited [] (db_auth d))) m" if "keeps (of_auth (audited [])) m" "keeps (tx_is False) m" for m :: "(world, 'c) proc"
    using keeps_quietI [of "\<lambda>d. audited [] (db_auth d)" m] that by (simp add: of_auth_def)
  show "keeps (quiet auth_ok) (UpdateWorkspaceMember prn ucmd)" "keeps (quiet auth_ok) (RemoveWorkspaceMember prn uid)"
    by (intro keeps_auth_ok keeps_member_changes quietly trail.keeps_members keeps_tx_members)+
  show "keeps (quiet auth_ok) (session_request token (\<lambda>prn. CreateWorkspaceInvitation prn icmd))"
    using rows.keeps_members rows.keeps_authenticate trail.keeps_members trail.keeps_authenticate
    by (intro keeps_auth_okI keeps_owned_session_invite keeps_tx_members) (auto simp: session_request_def intro!: keeps_rules)
  show "keeps (quiet auth_ok) (AcceptWorkspaceInvitation prn token)"
    by (intro keeps_auth_okI rows.keeps_members keeps_owned_accept trail.keeps_members keeps_tx_members)
  show "keeps (quiet auth_ok) (RevokeWorkspaceInvitation prn iid)"
    by (intro keeps_auth_okI rows.keeps_revoke_invitation owned.keeps_revoke_invitation trail.keeps_revoke_invitation keeps_tx_members)
qed

lemma keeps_key_service:
  "keeps (quiet auth_ok) (CreateAPIKey ctx ccmd)" "keeps (quiet auth_ok) (RotateAPIKey ctx rcmd)" "keeps (quiet auth_ok) (DeleteAPIKey ctx uid kid)"
proof -
  have both: "keeps (of_auth (\<lambda>t. auth_rows_ok t \<and> owned_with {} t)) m" if "keeps (of_auth auth_rows_ok) m" "keeps (of_auth (owned_with {})) m"
    for m :: "(world, 'c) proc"
    using that by (simp add: of_auth_def on_db_def keeps_def)
  show "keeps (quiet auth_ok) (CreateAPIKey ctx ccmd)" "keeps (quiet auth_ok) (RotateAPIKey ctx rcmd)" "keeps (quiet auth_ok) (DeleteAPIKey ctx uid kid)"
    by (intro keeps_auth_ok both rows.keeps_keys owned.keeps_keys keeps_trail_keys)+
qed

text \<open>Authenticating with a key, on the tables and the tracker.\<close>

lemma keeps_on_world: "keeps P m \<Longrightarrow> keeps (\<lambda>(w, t). P w) (on_world m)"
  by (auto simp: keeps_def on_world_def split: prod.splits)

lemma keeps_touch_key: "keeps P (UpdateAPIKeyLastUsed (key_ID key) now) \<Longrightarrow> keeps (\<lambda>(w, t). P w) (touch_key key now)"
  by (auto simp: keeps_def touch_key_def split: prod.splits bool.splits sum.splits)

lemma keeps_key_authentication:
  assumes "\<And>kid now. keeps P (UpdateAPIKeyLastUsed kid now)" "keeps P clock_now"
    "\<And>h. keeps P (FindAPIKeyPrincipalByTokenHash h)" "\<And>ws uid. keeps P (FindWorkspaceAccess ws uid)"
  shows "keeps (\<lambda>(w, t). P w) (AuthenticateAPIKeyPrincipal token)"
  unfolding AuthenticateAPIKeyPrincipal_def Let_def
  by (auto intro!: keeps_attempt keeps_if keeps_return keeps_on_world keeps_touch_key keeps_missing_as assms split: prod.splits)

lemma keeps_auth_ok_key: "keeps (\<lambda>(w, t). quiet auth_ok w) (AuthenticateAPIKeyPrincipal token)"
proof (rule keeps_key_authentication)
  fix kid now h ws uid
  have touch: "keeps (tx_is False) (UpdateAPIKeyLastUsed kid now)"
    unfolding UpdateAPIKeyLastUsed_def by (auto intro!: keeps_rules)
  show "keeps (quiet auth_ok) (UpdateAPIKeyLastUsed kid now)"
    by (intro keeps_auth_okI rows.keeps_use_key owned.keeps_use_key trail.keeps_use_key touch)
  show "keeps (quiet auth_ok) clock_now" by (rule keeps_rules)
  show "keeps (quiet auth_ok) (FindAPIKeyPrincipalByTokenHash h)" "keeps (quiet auth_ok) (FindWorkspaceAccess ws uid)"
    unfolding FindAPIKeyPrincipalByTokenHash_def FindWorkspaceAccess_def query_auth_def by (auto intro!: keeps_rules)
qed

lemma empty_auth_ok: "auth_ok empty_db"
  by (simp add: auth_ok_def auth_rows_defs owned_ok_def audited_def empty_db_def empty_auth_def)

end
