(* ===== verification/AuthAccess.thy ===== *)
theory AuthAccess
  imports AuthSpec
begin

text \<open>
  Who gets in and what they may do: the decisions of the authorizer, the principals that tokens and
  API keys name, members that were removed, sessions that were refreshed and keys that were rotated.
\<close>

section \<open>Authorization\<close>

text \<open>What a role allows, and the decision of \<^verbatim>\<open>Can\<close> at the two readings of the clock.\<close>

definition role_allows :: "string \<Rightarrow> string \<Rightarrow> bool" where
  "role_allows role action \<longleftrightarrow> role = RoleOwner \<or> role = RoleAdmin \<or> role = RoleViewer \<and> HasSuffix action '':read''"

definition may_act :: "Principal \<Rightarrow> string \<Rightarrow> Resource \<Rightarrow> time \<Rightarrow> time \<Rightarrow> bool" where
  "may_act prn action resource t1 t2 \<longleftrightarrow>
     role_allows (prn_Role prn) action \<and> policy_allows (prn_Kind prn) (rsc_Type resource) action \<and>
     (prn_Kind prn = PrincipalKindSession \<or>
       \<not> ended (prn_RevokedAt prn) t1 \<and> \<not> ended (prn_ExpiresAt prn) t2 \<and>
       scopeAllows (prn_Scopes prn) action \<and> meterAllows (prn_AllowedMeters prn) (rsc_Meter resource))"

definition clock_reading :: "world \<Rightarrow> time" where
  "clock_reading w = (case w_clock w of [] \<Rightarrow> w_now w | t # _ \<Rightarrow> t)"

lemma clock_now_reading: "fst (clock_now w) = Inr (clock_reading w)"
  by (simp add: clock_now_def clock_reading_def split: list.splits)

definition after_reading :: "time option \<Rightarrow> world \<Rightarrow> world" where
  "after_reading t w = (case t of None \<Rightarrow> w | Some _ \<Rightarrow> snd (clock_now w))"

lemma deadline_passed_run: "deadline_passed t w = (Inr (ended t (clock_reading w)), after_reading t w)"
  using clock_now_reading [of w]
  by (cases "clock_now w") (auto simp: deadline_passed_def ended_def after_reading_def attempt_def split: option.splits)


definition meter_key :: Principal where
  "meter_key = \<lparr>prn_Kind = PrincipalKindAPIKey, prn_ID = ''k'', prn_User = userResult \<lparr>us_ID = ''u'', us_Email = ''a@b'', us_PasswordHash = [], us_CreatedAt = 0\<rparr> ''w'',
     prn_WorkspaceID = ''w'', prn_Role = RoleViewer, prn_APIKeyID = ''k'', prn_Scopes = [''usage:*''], prn_AllowedMeters = [''calls''],
     prn_ExpiresAt = Some 100, prn_RevokedAt = None\<rparr>"

definition usage_of :: "string \<Rightarrow> Resource" where
  "usage_of meter = \<lparr>rsc_Type = ''usage'', rsc_ID = [], rsc_Meter = meter, rsc_Subject = [], rsc_Attributes = fmempty\<rparr>"

lemma meter_key_may_read:
  "may_act meter_key ''usage:read'' (usage_of ''calls'') t 0"
  "\<not> may_act meter_key ''usage:write'' (usage_of ''calls'') t 0"
proof -
  have "TrimSpace ''calls'' \<noteq> []" by (subst TrimSpace_plain) simp_all
  then show "may_act meter_key ''usage:read'' (usage_of ''calls'') t 0"
    by (simp add: may_act_def meter_key_def usage_of_def role_allows_def role_defs HasSuffix_def suffix_def policy_allows_def casbin_policies_def
        principal_kind_defs ended_def scopeAllows_def Cut_def meterAllows_def)
  show "\<not> may_act meter_key ''usage:write'' (usage_of ''calls'') t 0"
    by (simp add: may_act_def meter_key_def role_allows_def role_defs HasSuffix_def suffix_to_prefix prefix_def)
qed


section \<open>Principals\<close>

text \<open>A user result that names a member of a workspace with its present role.\<close>

definition is_member :: "AuthTables \<Rightarrow> UserResult \<Rightarrow> bool" where
  "is_member t u \<longleftrightarrow> (\<exists>m \<in> set (au_memberships t). member_of (usr_WorkspaceID u) (usr_ID u) m \<and> mb_Role m = usr_Role u)"

definition opened :: "AuthTables \<Rightarrow> string \<Rightarrow> string \<Rightarrow> UserResult \<Rightarrow> bool" where
  "opened t token kind u \<longleftrightarrow> (\<exists>s \<in> set (au_sessions t). ses_TokenHash s = HashToken (TrimSpace token) \<and> ses_Kind s = kind \<and> ses_UserID s = usr_ID u)"

lemma access_is_member: "a \<in> set (access_rows (member_of ws (us_ID user)) t) \<Longrightarrow> is_member t (userResultWithAccess user a)"
  by (drule access_rowsD) (auto simp: is_member_def userResultWithAccess_def member_of_def)

lemma session_sound:
  "ensures (of_auth (\<lambda>t. t = t0)) (authenticateToken token kind) (\<lambda>u w. is_member t0 u \<and> opened t0 token kind u \<and> of_auth (\<lambda>t. t = t0) w)"
proof -
  let ?P = "of_auth (\<lambda>t. t = t0)" and ?h = "HashToken (TrimSpace token)"
  have session: "ensures ?P (missing_as unauthorized (FindSessionByTokenHash ?h kind now))
      (\<lambda>s. of_auth (\<lambda>t. t = t0 \<and> s \<in> set (au_sessions t0) \<and> ses_TokenHash s = ?h \<and> ses_Kind s = kind))" for now
    unfolding FindSessionByTokenHash_def
    by (intro ensures_missing_as ensures_one_row) (auto simp: find_session_def dest: row_find_Some)
  have user: "ensures (of_auth (\<lambda>t. t = t0 \<and> C)) (missing_as unauthorized (FindUserByID uid)) (\<lambda>u. of_auth (\<lambda>t. t = t0 \<and> C \<and> us_ID u = uid))" for uid C
    unfolding FindUserByID_def by (intro ensures_missing_as ensures_one_row) (auto dest: row_find_Some)
  have access: "ensures (of_auth (\<lambda>t. t = t0 \<and> C)) (missing_as unauthorized (FindWorkspaceAccess ws (us_ID u)))
      (\<lambda>a. of_auth (\<lambda>t. t = t0 \<and> C \<and> is_member t0 (userResultWithAccess u a)))" for ws u C
    unfolding FindWorkspaceAccess_def by (intro ensures_missing_as ensures_one_row) (auto dest!: first_of_in access_is_member)
  show ?thesis
    unfolding authenticateToken_def Let_def
  proof (rule ensures_if, rule ensures_err, rule ensures_attempt [OF ensures_keeps [OF keeps_auth_prims(1)]],
      rule ensures_attempt [OF session])
    fix s
    show "ensures (of_auth (\<lambda>t. t = t0 \<and> s \<in> set (au_sessions t0) \<and> ses_TokenHash s = ?h \<and> ses_Kind s = kind))
       (attempt (missing_as unauthorized (FindUserByID (ses_UserID s))) (\<lambda>user.
          if TrimSpace (ses_WorkspaceID s) = [] then return_err (JoinErr ErrUnauthorized (NewError ''workspace is required'' []))
          else attempt (missing_as unauthorized (FindWorkspaceAccess (TrimSpace (ses_WorkspaceID s)) (us_ID user))) (\<lambda>access.
            return_ok (userResultWithAccess user access))))
       (\<lambda>u w. is_member t0 u \<and> opened t0 token kind u \<and> of_auth (\<lambda>t. t = t0) w)"
      by (rule ensures_attempt [OF user], rule ensures_if, rule ensures_err, rule ensures_attempt [OF access], rule ensures_ok)
        (auto simp: of_auth_def on_db_def opened_def userResultWithAccess_def)
  qed
qed

text \<open>The principal of an API key.\<close>

definition holds_key :: "AuthTables \<Rightarrow> string \<Rightarrow> time \<Rightarrow> Principal \<Rightarrow> bool" where
  "holds_key t token now prn \<longleftrightarrow> (\<exists>k \<in> set (au_keys t). key_TokenHash k = HashToken (TrimSpace token) \<and> prn_APIKeyID prn = key_ID k \<and>
     prn_WorkspaceID prn = key_WorkspaceID k \<and> usr_ID (prn_User prn) = key_UserID k \<and> prn_Scopes prn = key_Scopes k \<and>
     prn_AllowedMeters prn = key_AllowedMeters k \<and> prn_ExpiresAt prn = key_ExpiresAt k \<and> prn_RevokedAt prn = key_RevokedAt k \<and>
     \<not> ended (key_RevokedAt k) now \<and> \<not> ended (key_ExpiresAt k) now)"

lemma missing_as_run: "missing_as e m w = (Inr x, u) \<Longrightarrow> m w = (Inr x, u)"
  by (auto simp: missing_as_def inspect_def split: prod.splits sum.splits)

lemma on_world_run: "on_world m (w, t) = (Inr x, v, t') \<longleftrightarrow> m w = (Inr x, v) \<and> t' = t"
  by (auto simp: on_world_def split: prod.splits)

text \<open>The rights of the keys and the other tables.\<close>

definition same_rights :: "AuthTables \<Rightarrow> AuthTables \<Rightarrow> bool" where
  "same_rights t t' \<longleftrightarrow> map (\<lambda>k. k\<lparr>key_LastUsedAt := None\<rparr>) (au_keys t') = map (\<lambda>k. k\<lparr>key_LastUsedAt := None\<rparr>) (au_keys t) \<and>
     t'\<lparr>au_keys := []\<rparr> = t\<lparr>au_keys := []\<rparr>"

lemma same_rights_use:
  "same_rights t (t\<lparr>au_keys := row_update (\<lambda>k. key_ID k = kid) (\<lambda>k. k\<lparr>key_LastUsedAt := Some now\<rparr>) (au_keys t)\<rparr>)"
  by (auto simp: same_rights_def row_update_def)

lemma touch_key_run:
  "touch_key key now (w, r) = (Inr x, v, r') \<Longrightarrow> same_rights (db_auth (w_db w)) (db_auth (w_db v))"
proof -
  assume run: "touch_key key now (w, r) = (Inr x, v, r')"
  have "UpdateAPIKeyLastUsed kid now w = (y, v) \<Longrightarrow> same_rights (db_auth (w_db w)) (db_auth (w_db v))" for kid y
    using same_rights_use [of "db_auth (w_db w)" kid now]
    by (auto simp: UpdateAPIKeyLastUsed_def exec_def stmt_def same_rights_def split: option.splits)
  then show ?thesis
    using run by (auto simp: touch_key_def same_rights_def split: prod.splits bool.splits sum.splits)
qed

lemma map_filterD: "y \<in> set (List.map_filter f xs) \<Longrightarrow> \<exists>x \<in> set xs. f x = Some y"
  by (auto simp: List.map_filter_def)

lemma key_principalD:
  "key_principal h t = Some (k, u) \<Longrightarrow> k \<in> set (au_keys t) \<and> key_TokenHash k = h \<and> us_ID u = key_UserID k"
  by (auto simp: key_principal_def dest!: first_of_in map_filterD row_find_Some)

lemma same_rights_members: "same_rights t t' \<Longrightarrow> is_member t' u = is_member t u"
  unfolding same_rights_def is_member_def by (metis AuthTables.select_convs(3) AuthTables.surjective AuthTables.update_convs(7))

lemma key_sound:
  "ensures (\<lambda>(w, r). db_auth (w_db w) = t0)
     (AuthenticateAPIKeyPrincipal token)
     (\<lambda>prn (v, r). (\<exists>now. holds_key t0 token now prn) \<and> prn_Kind prn = PrincipalKindAPIKey \<and> prn_Role prn = usr_Role (prn_User prn) \<and>
        is_member t0 (prn_User prn) \<and> same_rights t0 (db_auth (w_db v)))"
proof (rule ensuresI, clarify)
  fix w r prn v r'
  let ?h = "HashToken (TrimSpace token)"
  assume run: "AuthenticateAPIKeyPrincipal token (w, r) = (Inr prn, v, r')" and t0: "t0 = db_auth (w_db w)"
  obtain key user w1 now w2 w3 access where
    key: "FindAPIKeyPrincipalByTokenHash ?h w = (Inr (key, user), w1)" and clock: "clock_now w1 = (Inr now, w2)"
    and live: "\<not> ended (key_RevokedAt key) now" "\<not> ended (key_ExpiresAt key) now"
    and touch: "touch_key key now (w2, r) = (Inr (), w3, r')"
    and access: "FindWorkspaceAccess (key_WorkspaceID key) (us_ID user) w3 = (Inr access, v)"
    and prn: "prn = \<lparr>prn_Kind = PrincipalKindAPIKey, prn_ID = key_ID key, prn_User = userResultWithAccess user access,
       prn_WorkspaceID = key_WorkspaceID key, prn_Role = usr_Role (userResultWithAccess user access), prn_APIKeyID = key_ID key,
       prn_Scopes = key_Scopes key, prn_AllowedMeters = key_AllowedMeters key, prn_ExpiresAt = key_ExpiresAt key,
       prn_RevokedAt = key_RevokedAt key\<rparr>"
    using run unfolding AuthenticateAPIKeyPrincipal_def Let_def
    by (auto simp: attempt_eq_Inr on_world_run split: if_splits dest!: missing_as_run)
  have 1: "key_principal ?h t0 = Some (key, user)" "w_db w1 = w_db w"
    using one_row_run [OF key [unfolded FindAPIKeyPrincipalByTokenHash_def]] t0 by simp_all
  have 2: "w_db w2 = w_db w" using clock clock_now_db(1) [of w1] 1 by simp
  have 3: "same_rights t0 (db_auth (w_db w3))" using touch_key_run [OF touch] 2 t0 by simp
  have 4: "first_of (access_rows (member_of (key_WorkspaceID key) (us_ID user)) (db_auth (w_db w3))) = Some access" "w_db v = w_db w3"
    using one_row_run [OF access [unfolded FindWorkspaceAccess_def]] by simp_all
  have "is_member t0 (prn_User prn)"
    using access_is_member [OF first_of_in [OF 4(1)]] same_rights_members [OF 3] prn by simp
  moreover have "holds_key t0 token now prn"
    using key_principalD [OF 1(1)] live prn by (auto simp: holds_key_def userResultWithAccess_def)
  ultimately show "(\<exists>now. holds_key (db_auth (w_db w)) token now prn) \<and> prn_Kind prn = PrincipalKindAPIKey \<and>
      prn_Role prn = usr_Role (prn_User prn) \<and> is_member (db_auth (w_db w)) (prn_User prn) \<and>
      same_rights (db_auth (w_db w)) (db_auth (w_db v))"
    using 3 4 t0 prn by auto
qed



section \<open>Removed members\<close>

text \<open>The users and the principals that any token or key names on these tables.\<close>

definition session_users :: "db \<Rightarrow> UserResult set" where
  "session_users d = {u. \<exists>token kind v. db_auth (w_db v) = db_auth d \<and> fst (authenticateToken token kind v) = Inr u}"

definition key_users :: "db \<Rightarrow> UserResult set" where
  "key_users d = {prn_User p |p. \<exists>token v. db_auth (w_db (fst v)) = db_auth d \<and> fst (AuthenticateAPIKeyPrincipal token v) = Inr p}"

lemma ensures_of_authD:
  "ensures (of_auth P) m Q \<Longrightarrow> P (db_auth (w_db w)) \<Longrightarrow> m w = (Inr x, u) \<Longrightarrow> Q x u"
  by (simp add: ensures_def of_auth_def on_db_def)

lemma session_users_members: "u \<in> session_users d \<Longrightarrow> is_member (db_auth d) u"
proof -
  assume "u \<in> session_users d"
  then obtain token kind v x where "db_auth (w_db v) = db_auth d" "authenticateToken token kind v = (Inr u, x)"
    unfolding session_users_def by (auto, metis prod.collapse)
  then show ?thesis using ensures_of_authD [OF session_sound [of "db_auth d" token kind], of v u x] by simp
qed

lemma key_users_members: "u \<in> key_users d \<Longrightarrow> is_member (db_auth d) u"
proof -
  assume "u \<in> key_users d"
  then obtain p token v x where "u = prn_User p" "db_auth (w_db (fst v)) = db_auth d" "AuthenticateAPIKeyPrincipal token v = (Inr p, x)"
    unfolding key_users_def by (auto, metis prod.collapse)
  then show ?thesis using ensuresD [OF key_sound [of "db_auth d" token], of v p x] by (cases v; cases x) auto
qed

lemma removed_no_member: "ensures P (RemoveWorkspaceMember prn uid)
   (\<lambda>_ w. \<forall>m \<in> set (au_memberships (db_auth (w_db w))). \<not> member_of (prn_WorkspaceID prn) uid m)"
proof -
  have "ensures (of_auth (\<lambda>_. True)) (DeleteWorkspaceMembership ws uid) (\<lambda>_. of_auth (\<lambda>t. \<forall>m \<in> set (au_memberships t). \<not> member_of ws uid m))" for ws
    unfolding DeleteWorkspaceMembership_def update_auth_rows_def of_auth_def
    by (intro ensures_not_found ensures_weaken [OF ensures_execrows [where Q = "\<lambda>_ d. \<forall>m \<in> set (au_memberships (db_auth d)). \<not> member_of ws uid m"]])
      (auto simp: on_db_def)
  then have "ensures (\<lambda>_. True) (DeleteWorkspaceMembership ws uid) (\<lambda>_ w. \<forall>m \<in> set (au_memberships (db_auth (w_db w))). \<not> member_of ws uid m)" for ws
    by (simp add: ensures_def of_auth_def on_db_def)
  then show ?thesis
    unfolding RemoveWorkspaceMember_def as_role_def
    by (auto simp: ensures_def attempt_eq_Inr)
qed

text \<open>Claim C13. When a member has been removed from a workspace, no session and no API key, whenever it was made, names that user in
  that workspace any more.\<close>

theorem removed_member_locked_out:
  "ensures P (RemoveWorkspaceMember prn uid)
    (\<lambda>_ w. (session_users (w_db w) \<union> key_users (w_db w)) \<inter> {u. usr_ID u = uid \<and> usr_WorkspaceID u = prn_WorkspaceID prn} = {})"
proof (rule ensures_weaken [OF removed_no_member])
  fix x w
  assume none: "\<forall>m \<in> set (au_memberships (db_auth (w_db w))). \<not> member_of (prn_WorkspaceID prn) uid m"
  have "\<not> is_member (db_auth (w_db w)) u" if "usr_ID u = uid" "usr_WorkspaceID u = prn_WorkspaceID prn" for u
    using none that by (auto simp: is_member_def)
  then show "(session_users (w_db w) \<union> key_users (w_db w)) \<inter> {u. usr_ID u = uid \<and> usr_WorkspaceID u = prn_WorkspaceID prn} = {}"
    using session_users_members key_users_members by blast
qed


section \<open>Sessions\<close>

text \<open>A token opens a session of a user in a workspace until its expiry, by the texts of the times.\<close>

definition opens :: "AuthTables \<Rightarrow> string \<Rightarrow> string \<Rightarrow> UserResult \<Rightarrow> time \<Rightarrow> bool" where
  "opens t token kind u expiry \<longleftrightarrow> (\<forall>now. map_option (\<lambda>s. (ses_UserID s, ses_WorkspaceID s)) (find_session (HashToken token) kind now t) =
     (if time_text_less now expiry then Some (usr_ID u, usr_WorkspaceID u) else None))"

definition session_for :: "string \<Rightarrow> string \<Rightarrow> UserResult \<Rightarrow> time \<Rightarrow> Session \<Rightarrow> bool" where
  "session_for token kind u expiry s \<longleftrightarrow> ses_TokenHash s = HashToken token \<and> ses_Kind s = kind \<and> ses_UserID s = usr_ID u \<and>
     ses_WorkspaceID s = usr_WorkspaceID u \<and> ses_ExpiresAt s = expiry"

lemma session_opens:
  assumes "sessions_unique t" "s \<in> set (au_sessions t)" "session_for token kind u expiry s"
  shows "opens t token kind u expiry"
proof -
  have other: "q = s" if "q \<in> set (au_sessions t)" "ses_TokenHash q = HashToken token" for q
    using distinct_keys_unique [of ses_TokenHash "au_sessions t" q s] that assms by (auto simp: sessions_unique_def session_for_def)
  show ?thesis
  proof (unfold opens_def, intro allI)
    fix now
    show "map_option (\<lambda>s. (ses_UserID s, ses_WorkspaceID s)) (find_session (HashToken token) kind now t) =
       (if time_text_less now expiry then Some (usr_ID u, usr_WorkspaceID u) else None)"
    proof (cases "find_session (HashToken token) kind now t")
      case None
      then have "\<not> time_text_less now expiry"
        using assms(2,3) by (auto simp: find_session_def row_find_None session_for_def)
      then show ?thesis using None by simp
    next
      case (Some q)
      then show ?thesis
        using other [of q] assms(3) by (auto simp: find_session_def session_for_def dest!: row_find_Some)
    qed
  qed
qed

definition new_sessions :: "Session list \<Rightarrow> LoginResult \<Rightarrow> AuthTables \<Rightarrow> bool" where
  "new_sessions ss r t \<longleftrightarrow> sessions_unique t \<and> (\<exists>a b. au_sessions t = ss @ [a, b] \<and>
     session_for (lgr_AccessToken r) TokenKindAccess (lgr_User r) (lgr_AccessExpiresAt r) a \<and>
     session_for (lgr_RefreshToken r) TokenKindRefresh (lgr_User r) (lgr_RefreshExpiresAt r) b)"

lemma new_sessions_open:
  assumes "new_sessions ss r t"
  shows "opens t (lgr_AccessToken r) TokenKindAccess (lgr_User r) (lgr_AccessExpiresAt r)"
    "opens t (lgr_RefreshToken r) TokenKindRefresh (lgr_User r) (lgr_RefreshExpiresAt r)"
  using assms by (auto simp: new_sessions_def intro: session_opens)

lemma ensures_save_session:
  "ensures (of_auth (\<lambda>t. au_sessions t = ss)) (save_session_of uid ws token kind now ttl)
    (\<lambda>s. of_auth (\<lambda>t. sessions_unique t \<and> au_sessions t = ss @ [s] \<and> ses_TokenHash s = HashToken token \<and> ses_Kind s = kind \<and> ses_UserID s = uid \<and>
      ses_WorkspaceID s = ws \<and> ses_ExpiresAt s = now + ttl))"
proof -
  have "ensures (of_auth (\<lambda>t. au_sessions t = ss)) (SaveSession s) (\<lambda>q. of_auth (\<lambda>t. q = s \<and> sessions_unique t \<and> au_sessions t = ss @ [s]))" for s
    unfolding SaveSession_def
    by (intro ensures_attempt [OF ensures_conflict [OF ensures_insert_auth [where Q = "\<lambda>_ t. sessions_unique t \<and> au_sessions t = ss @ [s]"]]])
      (auto simp: ensures_def of_auth_def on_db_def)
  note save = this
  show ?thesis
    unfolding save_session_of_def
    by (rule ensures_attempt [OF ensures_keeps [OF keeps_auth_prims(2)]], rule ensures_weaken [OF save]) (auto simp: of_auth_def on_db_def)
qed

lemma issue_sessions_new:
  "ensures (of_auth (\<lambda>t. au_sessions t = ss)) (issue_sessions u) (\<lambda>r. of_auth (\<lambda>t. new_sessions ss r t \<and> lgr_User r = u))"
proof (rule ensuresI)
  fix w r v
  assume w: "of_auth (\<lambda>t. au_sessions t = ss) w" and run: "issue_sessions u w = (Inr r, v)"
  obtain accessToken w1 refreshToken w2 now w3 a w4 b where
    1: "newSessionToken accessTokenPrefix w = (Inr accessToken, w1)" and 2: "newSessionToken refreshTokenPrefix w1 = (Inr refreshToken, w2)"
    and 3: "clock_now w2 = (Inr now, w3)"
    and 4: "save_session_of (usr_ID u) (usr_WorkspaceID u) accessToken TokenKindAccess now defaultAccessTokenTTL w3 = (Inr a, w4)"
    and 5: "save_session_of (usr_ID u) (usr_WorkspaceID u) refreshToken TokenKindRefresh now defaultRefreshTokenTTL w4 = (Inr b, v)"
    and r: "r = \<lparr>lgr_AccessToken = accessToken, lgr_AccessExpiresAt = ses_ExpiresAt a, lgr_RefreshToken = refreshToken,
      lgr_RefreshExpiresAt = ses_ExpiresAt b, lgr_TokenType = ''Bearer'', lgr_User = u\<rparr>"
    using run unfolding issue_sessions_def by (auto simp: attempt_eq_Inr)
  have "of_auth (\<lambda>t. au_sessions t = ss) w3"
    using keepsD [OF keeps_auth_prims(1), of _ w2] keepsD [OF keeps_auth_tokens(1), of _ w1] keepsD [OF keeps_auth_tokens(1), of _ w] w 1 2 3
    by (metis snd_conv)
  note a = ensuresD [OF ensures_save_session 4 this]
  have "of_auth (\<lambda>t. au_sessions t = ss @ [a]) w4" using a by (simp add: of_auth_def on_db_def)
  note b = ensuresD [OF ensures_save_session 5 this]
  show "of_auth (\<lambda>t. new_sessions ss r t \<and> lgr_User r = u) v"
    using a b r by (auto simp: of_auth_def on_db_def new_sessions_def session_for_def)
qed

lemma ensures_delete_session:
  "ensures (of_auth (\<lambda>t. t = t0)) (DeleteSessionByTokenHash h) (\<lambda>_. of_auth (\<lambda>t. au_sessions t = filter (\<lambda>s. ses_TokenHash s \<noteq> h) (au_sessions t0)))"
  unfolding DeleteSessionByTokenHash_def of_auth_def by (rule ensures_exec) (simp add: row_delete_def)


section \<open>Rotated keys\<close>

definition same_grant :: "APIKey \<Rightarrow> APIKey \<Rightarrow> bool" where
  "same_grant k q \<longleftrightarrow> key_UserID q = key_UserID k \<and> key_WorkspaceID q = key_WorkspaceID k \<and> key_Name q = key_Name k \<and>
     key_Scopes q = key_Scopes k \<and> key_AllowedMeters q = key_AllowedMeters k \<and> key_ExpiresAt q = key_ExpiresAt k"

definition unrevoked :: "APIKey \<Rightarrow> bool" where
  "unrevoked k \<longleftrightarrow> key_RevokedAt k = None"

lemma ensures_auth_transaction:
  "ensures (of_auth P) m (\<lambda>x. of_auth (Q x)) \<Longrightarrow> ensures (of_auth P) (in_transaction m) (\<lambda>x. of_auth (Q x))"
  unfolding of_auth_def by (rule ensures_in_transaction)

lemma ensures_rotate_repo:
  "ensures (of_auth (\<lambda>t. t = t0)) (Repo_RotateAPIKey ctx uid kid k revokeAt events)
    (\<lambda>q. of_auth (\<lambda>t. q = k \<and> (\<exists>ws. RequireWorkspaceID ctx = Inr ws \<and>
       au_keys t = row_update (\<lambda>q. key_of ws uid kid q \<and> unrevoked q) (\<lambda>q. q\<lparr>key_RevokedAt := Some revokeAt\<rparr>) (au_keys t0) @ [k])))"
proof -
  let ?after = "\<lambda>ws. row_update (\<lambda>q. key_of ws uid kid q \<and> unrevoked q) (\<lambda>q. q\<lparr>key_RevokedAt := Some revokeAt\<rparr>) (au_keys t0)"
  have revoke: "ensures (of_auth (\<lambda>t. t = t0)) (revoke_keys (\<lambda>q. key_of ws uid kid q \<and> key_RevokedAt q = None) revokeAt)
      (\<lambda>_. of_auth (\<lambda>t. au_keys t = ?after ws))" for ws
    unfolding revoke_keys_def update_auth_rows_def of_auth_def by (rule ensures_execrows) (simp add: unrevoked_def)
  have save: "ensures (of_auth (\<lambda>t. au_keys t = ?after ws)) (saveAPIKey k) (\<lambda>_. of_auth (\<lambda>t. au_keys t = ?after ws @ [k]))" for ws
    unfolding saveAPIKey_def by (intro ensures_conflict ensures_insert_auth) simp
  have event: "keeps (of_auth (\<lambda>t. au_keys t = ks)) (saveAPIKeyEvent e)" for ks e
    unfolding saveAPIKeyEvent_def by (rule keeps_insert_auth) simp
  have "ensures (of_auth (\<lambda>t. t = t0)) (in_transaction (
      attempt (revoke_keys (\<lambda>q. key_of ws uid kid q \<and> key_RevokedAt q = None) revokeAt) (\<lambda>rows.
      if rows = 0 then return_err (join_conflict ''api key is already revoked or rotating'')
      else attempt (saveAPIKey k) (\<lambda>_. foreach events () (\<lambda>event _. saveAPIKeyEvent event)))))
      (\<lambda>_. of_auth (\<lambda>t. au_keys t = ?after ws @ [k]))" for ws
    by (rule ensures_auth_transaction)
      (intro ensures_attempt [OF revoke] ensures_if ensures_err ensures_attempt [OF save] ensures_keeps keeps_foreach event)
  note rotated = this
  show ?thesis
    unfolding Repo_RotateAPIKey_def
    by (rule ensures_with_workspace, rule ensures_attempt [OF rotated]) (auto intro!: ensures_ok simp: of_auth_def on_db_def)
qed


end
