(* ===== verification/UsageRepo.thy ===== *)
theory UsageRepo
  imports EntitlementRepo
begin

text \<open>
  How events reach the SQLite store:
  \<^verbatim>\<open>src/internal/metering/adapters/sqlite/usage_repository.go\<close> (\<^verbatim>\<open>Save\<close>, \<^verbatim>\<open>SaveBulk\<close>, the batch
  insert, the quota counters) and \<^verbatim>\<open>ingestion_limits.go\<close>, with the statements of
  \<^verbatim>\<open>queries/usage_ingestion.sql\<close>, \<^verbatim>\<open>plans.sql\<close> and \<^verbatim>\<open>workspace_stats.sql\<close>.
\<close>

definition ErrNoRows :: go_error where "ErrNoRows = Sentinel ''sql: no rows in result set''"
definition errBulkReplay :: go_error where "errBulkReplay = Sentinel ''bulk ingestion already exists''"

definition usageInsertBatchSize :: nat where "usageInsertBatchSize = 100"

section \<open>Reading events\<close>

text \<open>A stored event passes through its constructor again when it is read.\<close>

definition eventFromFields :: "Event \<Rightarrow> go_error + Event" where
  "eventFromFields row =
    NewEvent (ev_id row) (ev_idempotencyKey row) (ev_subject row) (ev_meterName row) (ev_quantity row)
      (ev_eventTime row) (ev_receivedAt row) (ev_metadata row)"

definition read_event :: "(Event \<Rightarrow> bool) \<Rightarrow> ctx \<Rightarrow> (world, Event) proc" where
  "read_event p ctx = with_workspace ctx (\<lambda>ws.
    attempt (query (\<lambda>d. row_find (\<lambda>(w, e). w = ws \<and> p e) (db_events d))) (\<lambda>row.
    case row of None \<Rightarrow> return_err ErrNoRows | Some (w, e) \<Rightarrow> lift_res (eventFromFields e)))"

text \<open>The column of the key is NULL when the event has none, and NULL equals nothing.\<close>

definition findByIdempotencyKey :: "ctx \<Rightarrow> string \<Rightarrow> (world, Event) proc" where
  "findByIdempotencyKey ctx key = read_event (\<lambda>e. ev_idempotencyKey e \<noteq> [] \<and> ev_idempotencyKey e = key) ctx"

definition findByID :: "ctx \<Rightarrow> string \<Rightarrow> (world, Event) proc" where
  "findByID ctx eid = read_event (\<lambda>e. ev_id e = eid) ctx"

definition FindEventByIdempotencyKey :: "ctx \<Rightarrow> string \<Rightarrow> (world, Event) proc" where
  "FindEventByIdempotencyKey ctx key = inspect (findByIdempotencyKey ctx key) (\<lambda>r. case r of
      Inl e \<Rightarrow> return_err (if errors_Is e ErrNoRows then ErrNotFound else e)
    | Inr event \<Rightarrow> return_ok event)"

section \<open>Inserting events\<close>

text \<open>\<^verbatim>\<open>INSERT ... ON CONFLICT DO NOTHING RETURNING id\<close>: an event is skipped when its id is taken, or
  its key in the workspace; the accumulator holds the ids inserted.\<close>

definition taken :: "string \<Rightarrow> Event \<Rightarrow> string \<times> Event \<Rightarrow> bool" where
  "taken ws e row \<longleftrightarrow> ev_id (snd row) = ev_id e
    \<or> (ev_idempotencyKey e \<noteq> [] \<and> fst row = ws \<and> ev_idempotencyKey (snd row) = ev_idempotencyKey e)"

definition insert_event_row ::
  "string \<Rightarrow> (string \<times> Event) list \<times> string list \<Rightarrow> Event \<Rightarrow> (string \<times> Event) list \<times> string list" where
  "insert_event_row ws acc e =
    (case acc of (rows, ids) \<Rightarrow>
      if list_ex (taken ws e) rows then (rows, ids) else (rows @ [(ws, e)], ids @ [ev_id e]))"

definition insert_event_rows :: "string \<Rightarrow> Event list \<Rightarrow> db \<Rightarrow> string list \<times> db" where
  "insert_event_rows ws events d =
    (case foldl (insert_event_row ws) (db_events d, []) events of (rows, ids) \<Rightarrow>
      (ids, d\<lparr>db_events := rows\<rparr>))"

text \<open>SQLite stores NaN as NULL, which the column \<^verbatim>\<open>quantity\<close> refuses.\<close>

definition null_quantity :: go_error where
  "null_quantity = DriverErr ''NOT NULL constraint failed: usage_events.quantity''"

definition insert_statement :: "string \<Rightarrow> Event list \<Rightarrow> (world, string list) proc" where
  "insert_statement ws events = stmt (\<lambda>d.
    if list_ex (\<lambda>e. ev_quantity e = NaN) events then (Inl null_quantity, d)
    else (case insert_event_rows ws events d of (ids, d') \<Rightarrow> (Inr ids, d')))"

definition stored_form :: "Event \<Rightarrow> go_error + Event" where
  "stored_form e = try_res (json_roundtrip (ev_metadata e)) (\<lambda>m. Inr (e\<lparr>ev_metadata := m\<rparr>))"

text \<open>\<^verbatim>\<open>events[start:end]\<close> in steps of the batch size.\<close>

function chunks :: "nat \<Rightarrow> 'a list \<Rightarrow> 'a list list" where
  "chunks n xs = (if xs = [] \<or> n = 0 then [] else take n xs # chunks n (drop n xs))"
  by pat_completeness auto
termination by (relation "measure (length \<circ> snd)") auto

declare chunks.simps [simp del]

definition insertUsageEvents :: "ctx \<Rightarrow> string \<Rightarrow> Event list \<Rightarrow> (world, string list) proc" where
  "insertUsageEvents ctx ws events = foreach (chunks usageInsertBatchSize events) [] (\<lambda>chunk inserted.
    attempt (lift_res (map_res stored_form chunk)) (\<lambda>rows.
    attempt (insert_statement ws rows) (\<lambda>ids.
    return_ok (inserted @ ids))))"

section \<open>Quota counters\<close>

text \<open>SQLite's MIN and MAX of two numbers.\<close>

definition sql_min :: "f64 \<Rightarrow> f64 \<Rightarrow> f64" where "sql_min a b = (if b < a then b else a)"
definition sql_max :: "f64 \<Rightarrow> f64 \<Rightarrow> f64" where "sql_max a b = (if a < b then b else a)"

definition period_of_text :: "string \<Rightarrow> Period" where
  "period_of_text s =
    (if s = ''day'' then PeriodDay else if s = ''week'' then PeriodWeek
     else if s = ''month'' then PeriodMonth else if s = ''year'' then PeriodYear else PeriodOther s)"

definition counter_row :: "string \<Rightarrow> time \<Rightarrow> Counter \<Rightarrow> EntitlementUsageCounter" where
  "counter_row ws updatedAt c =
    \<lparr>uc_WorkspaceID = ws, uc_Subject = ct_Subject c, uc_MeterName = ct_MeterName c,
     uc_Period = period_of_text (ct_Period c), uc_From = ct_PeriodStart c, uc_To = ct_PeriodEnd c,
     uc_EventCount = ct_EventCount c, uc_QuantitySum = ct_QuantitySum c, uc_QuantityMin = ct_QuantityMin c,
     uc_QuantityMax = ct_QuantityMax c, uc_FirstQuantity = ct_FirstQuantity c, uc_FirstEventTime = ct_FirstEventAt c,
     uc_LastQuantity = ct_LastQuantity c, uc_LastEventTime = ct_LastEventAt c, uc_UpdatedAt = updatedAt\<rparr>"

text \<open>\<^verbatim>\<open>ON CONFLICT ... DO UPDATE\<close> of \<^verbatim>\<open>IncrementEntitlementUsageCounter\<close>; the event times compare as texts.\<close>

definition merge_counter :: "EntitlementUsageCounter \<Rightarrow> EntitlementUsageCounter \<Rightarrow> EntitlementUsageCounter" where
  "merge_counter n c = c\<lparr>
     uc_To := uc_To n,
     uc_EventCount := uc_EventCount c + uc_EventCount n,
     uc_QuantitySum := uc_QuantitySum c + uc_QuantitySum n,
     uc_QuantityMin := sql_min (uc_QuantityMin c) (uc_QuantityMin n),
     uc_QuantityMax := sql_max (uc_QuantityMax c) (uc_QuantityMax n),
     uc_FirstQuantity := (if time_text_less (uc_FirstEventTime n) (uc_FirstEventTime c)
       then uc_FirstQuantity n else uc_FirstQuantity c),
     uc_FirstEventTime := (if time_text_less (uc_FirstEventTime n) (uc_FirstEventTime c)
       then uc_FirstEventTime n else uc_FirstEventTime c),
     uc_LastQuantity := (if time_text_le (uc_LastEventTime c) (uc_LastEventTime n)
       then uc_LastQuantity n else uc_LastQuantity c),
     uc_LastEventTime := (if time_text_le (uc_LastEventTime c) (uc_LastEventTime n)
       then uc_LastEventTime n else uc_LastEventTime c),
     uc_UpdatedAt := uc_UpdatedAt n\<rparr>"

definition increment_counter :: "EntitlementUsageCounter \<Rightarrow> db \<Rightarrow> db" where
  "increment_counter n d = d\<lparr>db_counters := row_upsert stored_counter_key (merge_counter n) n (db_counters d)\<rparr>"

definition IncrementEntitlementUsageCounter :: "EntitlementUsageCounter \<Rightarrow> (world, unit) proc" where
  "IncrementEntitlementUsageCounter n = exec (increment_counter n)"

definition IncrementWorkspaceUsageEvents :: "string \<Rightarrow> int \<Rightarrow> (world, unit) proc" where
  "IncrementWorkspaceUsageEvents ws delta = exec (\<lambda>d. d\<lparr>db_usage_counts :=
    row_upsert fst (\<lambda>(w, n). (w, max 0 (n + delta))) (ws, delta) (db_usage_counts d)\<rparr>)"

text \<open>The assignments of a subject that may cover its events, latest first.\<close>

definition usage_assignments :: "string \<Rightarrow> string \<Rightarrow> Bounds \<Rightarrow> db \<Rightarrow> Assignment list" where
  "usage_assignments ws subject bound d =
    map (\<lambda>a. \<lparr>asg_AssignedAt = ar_AssignedAt a, asg_Anchor = ar_PeriodAnchorAt a, asg_UnassignedAt = ar_UnassignedAt a\<rparr>)
      (rev (sort_key (\<lambda>a. ttxt (ar_AssignedAt a))
        (filter (\<lambda>a. of_subject ws subject a \<and> time_text_le (ar_AssignedAt a) (bd_To bound)
            \<and> open_after (bd_From bound) a) (db_assignments d))))"

definition findUsagePlanAssignments :: "string \<Rightarrow> Event list \<Rightarrow> (world, (string \<times> Assignment list) list) proc" where
  "findUsagePlanAssignments ws events =
    foreach (sort_key fst (SubjectBounds events)) [] (\<lambda>(subject, bound) result.
      attempt (query (usage_assignments ws subject bound)) (\<lambda>rows.
      return_ok (result @ [(subject, rows)])))"

definition assignments_for :: "(string \<times> Assignment list) list \<Rightarrow> string \<Rightarrow> Assignment list" where
  "assignments_for table subject = (case map_of table subject of None \<Rightarrow> [] | Some rows \<Rightarrow> rows)"

definition applyAcceptedUsage :: "string \<Rightarrow> Event list \<Rightarrow> (world, unit) proc" where
  "applyAcceptedUsage ws events =
    (if length events = 0 then return_ok ()
     else attempt clock_now (\<lambda>updatedAt.
     attempt (findUsagePlanAssignments ws events) (\<lambda>assignments.
     attempt (foreach (AggregateCounters events (assignments_for assignments)) ()
       (\<lambda>counter _. IncrementEntitlementUsageCounter (counter_row ws updatedAt counter))) (\<lambda>_.
     IncrementWorkspaceUsageEvents ws (int (length events))))))"

section \<open>Saving\<close>

text \<open>An event that was not inserted: its id is taken, or another event has its key.\<close>

definition resolve_duplicate :: "ctx \<Rightarrow> Event \<Rightarrow> (world, Event) proc" where
  "resolve_duplicate ctx event = inspect (findByID ctx (ev_id event)) (\<lambda>r. case r of
      Inr _ \<Rightarrow> return_err ErrConflict
    | Inl e \<Rightarrow>
        if e \<noteq> ErrNoRows then return_err e
        else if ev_idempotencyKey event = [] then return_err ErrConflict
        else findByIdempotencyKey ctx (ev_idempotencyKey event))"

definition saveEventBatch :: "ctx \<Rightarrow> string \<Rightarrow> Event list \<Rightarrow> (world, BulkSaveResult) proc" where
  "saveEventBatch ctx ws events =
    attempt (insertUsageEvents ctx ws events) (\<lambda>inserted.
    attempt (foreach events ([], []) (\<lambda>event (accepted, duplicates).
      if ev_id event \<in> set inserted then return_ok (accepted @ [event], duplicates)
      else attempt (resolve_duplicate ctx event) (\<lambda>existing.
        return_ok (accepted, duplicates @ [existing])))) (\<lambda>(accepted, duplicates).
    attempt (applyAcceptedUsage ws accepted) (\<lambda>_.
    return_ok (NewBulkSaveResult accepted duplicates))))"

definition Usage_Save :: "ctx \<Rightarrow> Event \<Rightarrow> (world, Event) proc" where
  "Usage_Save ctx event = in_transaction (with_workspace ctx (\<lambda>ws.
    attempt (saveEventBatch ctx ws [event]) (\<lambda>result.
    return_ok (if length (bsr_accepted result) = 1 then hd (bsr_accepted result)
               else hd (bsr_duplicates result)))))"

definition findBulk :: "ctx \<Rightarrow> string \<Rightarrow> (world, BulkSaveResult) proc" where
  "findBulk ctx key = with_workspace ctx (\<lambda>ws.
    attempt (query (\<lambda>d. map_of (db_bulk d) (ws, key))) (\<lambda>row.
    case row of None \<Rightarrow> return_err ErrNoRows
    | Some r \<Rightarrow> lift_res (
        try_res (map_res eventFromFields (bsr_accepted r)) (\<lambda>accepted.
        try_res (map_res eventFromFields (bsr_duplicates r)) (\<lambda>duplicates.
        Inr (NewBulkSaveResult accepted duplicates))))))"

text \<open>The stored response: the events with their metadata and quantities through JSON.\<close>

definition marshalBulkResult :: "BulkSaveResult \<Rightarrow> go_error + BulkSaveResult" where
  "marshalBulkResult r =
    reject_if (list_ex (\<lambda>e. \<not> finite_f64 (ev_quantity e)) (bulk_Events r))
      (NewError ''json: unsupported value'' []) (
    try_res (map_res stored_form (bsr_accepted r)) (\<lambda>accepted.
    try_res (map_res stored_form (bsr_duplicates r)) (\<lambda>duplicates.
    Inr (NewBulkSaveResult accepted duplicates))))"

definition SaveBulkUsageIngestion :: "string \<Rightarrow> string \<Rightarrow> BulkSaveResult \<Rightarrow> (world, nat) proc" where
  "SaveBulkUsageIngestion ws key response = execrows
    (\<lambda>d. if (ws, key) \<in> fst ` set (db_bulk d) then 0 else 1)
    (\<lambda>d. if (ws, key) \<in> fst ` set (db_bulk d) then d else d\<lparr>db_bulk := db_bulk d @ [((ws, key), response)]\<rparr>)"

definition save_new_bulk :: "ctx \<Rightarrow> string \<Rightarrow> string \<Rightarrow> Event list \<Rightarrow> (world, BulkSaveResult) proc" where
  "save_new_bulk ctx ws key events =
    attempt (saveEventBatch ctx ws events) (\<lambda>result.
    if key = [] then return_ok result
    else attempt (lift_res (marshalBulkResult result)) (\<lambda>response.
      attempt clock_now (\<lambda>_.
      attempt (SaveBulkUsageIngestion ws key response) (\<lambda>rowsAffected.
      if rowsAffected = 0 then return_err errBulkReplay else return_ok result))))"

definition SaveBulk :: "ctx \<Rightarrow> string \<Rightarrow> Event list \<Rightarrow> (world, BulkSaveResult) proc" where
  "SaveBulk ctx key events = with_workspace ctx (\<lambda>ws.
    attempt (if key = [] then return_ok None
      else inspect (findBulk ctx key) (\<lambda>r. case r of
          Inr existing \<Rightarrow> return_ok (Some (AsReplay existing))
        | Inl e \<Rightarrow> if e \<noteq> ErrNoRows then return_err e else return_ok None)) (\<lambda>existing.
    case existing of Some r \<Rightarrow> return_ok r
    | None \<Rightarrow> inspect (in_transaction (save_new_bulk ctx ws key events)) (\<lambda>r. case r of
          Inr result \<Rightarrow> return_ok result
        | Inl e \<Rightarrow> if errors_Is e errBulkReplay
            then attempt (findBulk ctx key) (\<lambda>existing. return_ok (AsReplay existing))
            else return_err e)))"

definition SaveIngestionRun :: "ctx \<Rightarrow> IngestionRun \<Rightarrow> (world, IngestionRun) proc" where
  "SaveIngestionRun ctx run = with_workspace ctx (\<lambda>ws.
    attempt (exec_unique (\<lambda>d. distinct_keys (\<lambda>(w, r). ir_id r) (db_ingestions d))
      (\<lambda>d. d\<lparr>db_ingestions := db_ingestions d @ [(ws, run)]\<rparr>)) (\<lambda>_.
    return_ok run))"

section \<open>Ingestion capacity\<close>

text \<open>The upsert of \<^verbatim>\<open>ConsumeIngestionCapacity\<close>: it returns a row when the events fit in the window.\<close>

definition current_permitted :: "time \<Rightarrow> RateRow \<Rightarrow> int" where
  "current_permitted windowStart r = (if ttxt (rw_WindowStart r) = ttxt windowStart then rw_Permitted r else 0)"

definition current_throttled :: "time \<Rightarrow> RateRow \<Rightarrow> int" where
  "current_throttled windowStart r = (if ttxt (rw_WindowStart r) = ttxt windowStart then rw_Throttled r else 0)"

definition reserve_capacity :: "string \<Rightarrow> time \<Rightarrow> int \<Rightarrow> int \<Rightarrow> time \<Rightarrow> db \<Rightarrow> bool \<times> db" where
  "reserve_capacity ws windowStart requested limit updatedAt d =
    (if \<not> requested \<le> limit then (False, d)
     else case row_find (\<lambda>r. rw_WorkspaceID r = ws) (db_rate_windows d) of
       None \<Rightarrow> (True, d\<lparr>db_rate_windows := db_rate_windows d @
         [\<lparr>rw_WorkspaceID = ws, rw_WindowStart = windowStart, rw_Permitted = requested, rw_Throttled = 0,
           rw_UpdatedAt = updatedAt\<rparr>]\<rparr>)
     | Some r \<Rightarrow>
         if current_permitted windowStart r + requested \<le> limit
         then (True, d\<lparr>db_rate_windows := row_update (\<lambda>r. rw_WorkspaceID r = ws)
           (\<lambda>r. r\<lparr>rw_WindowStart := windowStart, rw_Permitted := current_permitted windowStart r + requested,
              rw_Throttled := current_throttled windowStart r, rw_UpdatedAt := updatedAt\<rparr>) (db_rate_windows d)\<rparr>)
         else (False, d))"

definition record_throttled :: "string \<Rightarrow> time \<Rightarrow> int \<Rightarrow> time \<Rightarrow> (world, unit) proc" where
  "record_throttled ws windowStart requested updatedAt = in_transaction (
    attempt (exec (\<lambda>d. d\<lparr>db_rate_windows := row_upsert rw_WorkspaceID (\<lambda>r. r)
      \<lparr>rw_WorkspaceID = ws, rw_WindowStart = windowStart, rw_Permitted = 0, rw_Throttled = 0,
       rw_UpdatedAt = updatedAt\<rparr> (db_rate_windows d)\<rparr>)) (\<lambda>_.
    attempt (exec (\<lambda>d. d\<lparr>db_rate_windows := row_update (\<lambda>r. rw_WorkspaceID r = ws)
      (\<lambda>r. r\<lparr>rw_WindowStart := windowStart, rw_Permitted := current_permitted windowStart r,
         rw_Throttled := current_throttled windowStart r + requested, rw_UpdatedAt := updatedAt\<rparr>)
      (db_rate_windows d)\<rparr>)) (\<lambda>_.
    exec (\<lambda>d. d\<lparr>db_throttled := row_upsert fst (\<lambda>(w, n). (w, n + requested)) (ws, requested) (db_throttled d)\<rparr>))))"

definition ConsumeIngestionCapacity :: "ctx \<Rightarrow> time \<Rightarrow> int \<Rightarrow> int \<Rightarrow> time \<Rightarrow> (world, bool) proc" where
  "ConsumeIngestionCapacity ctx windowStart requested limit updatedAt = with_workspace ctx (\<lambda>ws.
    attempt (stmt (\<lambda>d. case reserve_capacity ws windowStart requested limit updatedAt d of (ok, d') \<Rightarrow> (Inr ok, d'))) (\<lambda>ok.
    if ok then return_ok True
    else attempt (record_throttled ws windowStart requested updatedAt) (\<lambda>_. return_ok False)))"

end
