(* ===== verification/UsageService.thy ===== *)
theory UsageService
  imports UsageRepo
begin

text \<open>
  Recording usage: \<^verbatim>\<open>src/internal/metering/app/usage/commands.go\<close>, \<^verbatim>\<open>ingestion_limits.go\<close> and the
  results of \<^verbatim>\<open>results.go\<close>.  An event is saved together with its outbox message and its
  ingestion record in one transaction.  The metrics callbacks are not modelled: they have no
  result.
\<close>

section \<open>Commands and results\<close>

record CreateCommand =
  crc_Index :: int
  crc_IdempotencyKey :: string
  crc_Subject :: string
  crc_MeterName :: string
  crc_Quantity :: f64
  crc_EventTime :: time
  crc_Metadata :: metadata

record IngestionCommand =
  igc_Kind :: string
  igc_Accepted :: int
  igc_Duplicates :: int
  igc_Failed :: int

record BulkFailureResult =
  bf_Index :: int
  bf_Code :: string
  bf_Message :: go_error

record BulkResult =
  br_Accepted :: "UsageResult list"
  br_Duplicates :: "UsageResult list"
  br_Failed :: "BulkFailureResult list"
  br_Replayed :: bool

record IngestionLimits =
  il_MaxBatchEvents :: int
  il_RateEvents :: int
  il_RateWindow :: duration

definition MaxBulkEvents :: int where "MaxBulkEvents = 1000"

text \<open>The limits that \<^verbatim>\<open>NewService\<close> keeps.\<close>

definition service_limits :: "IngestionLimits option \<Rightarrow> IngestionLimits" where
  "service_limits options =
    (case options of
       None \<Rightarrow> \<lparr>il_MaxBatchEvents = MaxBulkEvents, il_RateEvents = 0, il_RateWindow = 0\<rparr>
     | Some l \<Rightarrow> if il_MaxBatchEvents l \<le> 0 \<or> MaxBulkEvents < il_MaxBatchEvents l
         then l\<lparr>il_MaxBatchEvents := MaxBulkEvents\<rparr> else l)"

definition eventResultFromDomain :: "Event \<Rightarrow> UsageResult" where
  "eventResultFromDomain e =
    \<lparr>ur_ID = ev_id e, ur_IdempotencyKey = ev_idempotencyKey e, ur_Subject = ev_subject e,
     ur_MeterName = ev_meterName e, ur_Quantity = ev_quantity e, ur_EventTime = ev_eventTime e,
     ur_ReceivedAt = ev_receivedAt e, ur_Metadata = ev_metadata e, ur_Replayed = False\<rparr>"

definition bulkResultFromDomain :: "BulkSaveResult \<Rightarrow> BulkResult" where
  "bulkResultFromDomain r =
    \<lparr>br_Accepted = map eventResultFromDomain (bsr_accepted r),
     br_Duplicates = map eventResultFromDomain (bsr_duplicates r), br_Failed = [],
     br_Replayed = bsr_replayed r\<rparr>"

definition NewlyAccepted :: "BulkResult \<Rightarrow> UsageResult list" where
  "NewlyAccepted r = (if br_Replayed r then [] else br_Accepted r)"

definition BulkResult_Events :: "BulkResult \<Rightarrow> UsageResult list" where
  "BulkResult_Events r = br_Accepted r @ br_Duplicates r"

section \<open>Ingestion capacity\<close>

definition rate_limited :: "duration \<Rightarrow> go_error" where
  "rate_limited retryAfter = Errorf ErrRateLimited '': retry after %s'' [IArg retryAfter]"

fun RetryAfter :: "go_error \<Rightarrow> duration" where
  "RetryAfter (Errorf e msg args) =
    (case args of [IArg n] \<Rightarrow> (if e = ErrRateLimited \<and> msg = '': retry after %s'' then n else RetryAfter e)
     | _ \<Rightarrow> RetryAfter e)"
| "RetryAfter (JoinErr a b) = (if RetryAfter a \<noteq> 0 then RetryAfter a else RetryAfter b)"
| "RetryAfter e = 0"

definition checkIngestionCapacity :: "IngestionLimits \<Rightarrow> ctx \<Rightarrow> int \<Rightarrow> (world, unit) proc" where
  "checkIngestionCapacity limits ctx requested =
    (if requested \<le> 0 \<or> il_RateEvents limits \<le> 0 \<or> il_RateWindow limits \<le> 0 then return_ok ()
     else attempt clock_now (\<lambda>now.
     let windowStart = time_Truncate now (il_RateWindow limits) in
     attempt (ConsumeIngestionCapacity ctx windowStart requested (il_RateEvents limits) now) (\<lambda>allowed.
     if allowed then return_ok ()
     else let retryAfter0 = time_Sub (windowStart + il_RateWindow limits) now;
              retryAfter = (if retryAfter0 < Second then Second else retryAfter0)
          in return_err (rate_limited retryAfter))))"

section \<open>Outbox messages\<close>

definition EnqueueUsageEventOutbox :: "OutboxRow \<Rightarrow> (world, unit) proc" where
  "EnqueueUsageEventOutbox row = exec_unique (\<lambda>d. distinct_keys ob_PublicID (db_outbox d))
    (\<lambda>d. if (ob_WorkspaceID row, ob_EventID row) \<in> (\<lambda>r. (ob_WorkspaceID r, ob_EventID r)) ` set (db_outbox d)
         then d else d\<lparr>db_outbox := db_outbox d @ [row]\<rparr>)"

definition pending_message :: "string \<Rightarrow> string \<Rightarrow> Event \<Rightarrow> metadata \<Rightarrow> time \<Rightarrow> OutboxRow" where
  "pending_message public_id ws event metadata now =
    \<lparr>ob_PublicID = public_id, ob_WorkspaceID = ws, ob_EventID = ev_id event, ob_Subject = ev_subject event,
     ob_MeterName = ev_meterName event, ob_Quantity = ev_quantity event, ob_Metadata = metadata,
     ob_Status = OutboxPending, ob_Attempts = 0, ob_NextAttemptAt = now, ob_LockedUntil = None,
     ob_ClaimToken = None, ob_LastError = [], ob_CreatedAt = now, ob_UpdatedAt = now\<rparr>"

definition EnqueueOutbox :: "ctx \<Rightarrow> Event list \<Rightarrow> time \<Rightarrow> (world, unit) proc" where
  "EnqueueOutbox ctx events now = with_workspace ctx (\<lambda>ws.
    foreach events () (\<lambda>event _.
      attempt (lift_res (json_roundtrip (ev_metadata event))) (\<lambda>metadata.
      attempt fresh_id (\<lambda>public_id.
      EnqueueUsageEventOutbox (pending_message public_id ws event metadata now)))))"

section \<open>Creating events\<close>

text \<open>The cache of meters that \<^verbatim>\<open>newEvent\<close> fills is passed and returned.\<close>

definition newEvent ::
  "ctx \<Rightarrow> CreateCommand \<Rightarrow> (string, Meter) fmap \<Rightarrow> world \<Rightarrow> (go_error option \<times> Event option \<times> (string, Meter) fmap) \<times> world" where
  "newEvent ctx cmd meters =
    try_var (None, meters) (if IsZero (crc_EventTime cmd) then clock_now else return_ok (crc_EventTime cmd)) (\<lambda>eventTime.
    try_var (None, meters) (case fmlookup meters (crc_MeterName cmd) of
        Some meter \<Rightarrow> return_ok meter
      | None \<Rightarrow> attempt (Meters_Find ctx (meter_named (crc_MeterName cmd) 0)) (\<lambda>found.
          case found of [] \<Rightarrow> return_err ErrNotFound | meter # _ \<Rightarrow> return_ok meter)) (\<lambda>meter.
    let meters = (case fmlookup meters (crc_MeterName cmd) of
        Some _ \<Rightarrow> meters | None \<Rightarrow> fmupd (crc_MeterName cmd) meter meters) in
    try_var (None, meters) (lift_res (NormalizeMetadata meter (crc_Metadata cmd))) (\<lambda>metadata.
    try_var (None, meters) fresh_id (\<lambda>eid.
    try_var (None, meters) clock_now (\<lambda>receivedAt.
    try_var (None, meters) (lift_res (NewEvent eid (crc_IdempotencyKey cmd) (crc_Subject cmd) (mtr_name meter)
        (crc_Quantity cmd) eventTime receivedAt metadata)) (\<lambda>event.
    return_var None (Some event, meters)))))))"

definition new_event :: "ctx \<Rightarrow> CreateCommand \<Rightarrow> (world, Event) proc" where
  "new_event ctx cmd = (\<lambda>w. case newEvent ctx cmd fmempty w of
      ((None, Some event, _), u) \<Rightarrow> (Inr event, u)
    | ((Some e, _), u) \<Rightarrow> (Inl e, u)
    | ((None, None, _), u) \<Rightarrow> (Inl (NewError ''unreachable'' []), u))"

definition ingestion_kind :: "string \<Rightarrow> IngestionKind" where
  "ingestion_kind kind =
    (if kind = ''single'' then IngestionSingle else if kind = ''bulk'' then IngestionBulk
     else if kind = ''stream'' then IngestionStream else IngestionOther kind)"

definition saveIngestionRun :: "ctx \<Rightarrow> IngestionCommand \<Rightarrow> (world, IngestionRun) proc" where
  "saveIngestionRun ctx cmd =
    attempt fresh_id (\<lambda>rid.
    attempt clock_now (\<lambda>now.
    attempt (lift_res (NewIngestionRun rid (ingestion_kind (igc_Kind cmd)) (igc_Accepted cmd)
      (igc_Duplicates cmd) (igc_Failed cmd) now)) (SaveIngestionRun ctx)))"

definition RecordIngestion :: "ctx \<Rightarrow> IngestionCommand \<Rightarrow> (world, IngestionRun) proc" where
  "RecordIngestion ctx cmd = saveIngestionRun ctx cmd"

definition boolInt :: "bool \<Rightarrow> int" where
  "boolInt b = (if b then 1 else 0)"

text \<open>The body of the transaction of \<^verbatim>\<open>create\<close>.\<close>

definition save_with_outbox :: "ctx \<Rightarrow> string \<Rightarrow> Event \<Rightarrow> (world, Event) proc" where
  "save_with_outbox ctx kind requested =
    attempt (Usage_Save ctx requested) (\<lambda>event.
    let replayed = (ev_id event \<noteq> ev_id requested) in
    attempt (if \<not> replayed then attempt clock_now (EnqueueOutbox ctx [event]) else return_ok ()) (\<lambda>_.
    attempt (if kind \<noteq> [] then attempt (saveIngestionRun ctx \<lparr>igc_Kind = kind, igc_Accepted = boolInt (\<not> replayed),
        igc_Duplicates = boolInt replayed, igc_Failed = 0\<rparr>) (\<lambda>_. return_ok ()) else return_ok ()) (\<lambda>_.
    return_ok event)))"

definition create :: "IngestionLimits \<Rightarrow> ctx \<Rightarrow> string \<Rightarrow> CreateCommand \<Rightarrow> (world, UsageResult) proc" where
  "create limits ctx kind cmd =
    attempt (checkIngestionCapacity limits ctx 1) (\<lambda>_.
    attempt (new_event ctx cmd) (\<lambda>requested.
    attempt (in_transaction (save_with_outbox ctx kind requested)) (\<lambda>event.
    return_ok ((eventResultFromDomain event)\<lparr>ur_Replayed := (ev_id event \<noteq> ev_id requested)\<rparr>))))"

definition Create :: "IngestionLimits \<Rightarrow> ctx \<Rightarrow> CreateCommand \<Rightarrow> (world, UsageResult) proc" where
  "Create limits ctx cmd = create limits ctx [] cmd"

definition CreateIngestion :: "IngestionLimits \<Rightarrow> ctx \<Rightarrow> string \<Rightarrow> CreateCommand \<Rightarrow> (world, UsageResult) proc" where
  "CreateIngestion limits ctx kind cmd = create limits ctx kind cmd"

definition GetByIdempotencyKey :: "ctx \<Rightarrow> string \<Rightarrow> (world, UsageResult) proc" where
  "GetByIdempotencyKey ctx key0 =
    (let key = TrimSpace key0 in
     if key = [] then return_err (invalid '': idempotency key is required'')
     else attempt (FindEventByIdempotencyKey ctx key) (\<lambda>event. return_ok (eventResultFromDomain event)))"

section \<open>Bulk creation\<close>

definition isBulkItemFailure :: "go_error \<Rightarrow> bool" where
  "isBulkItemFailure e \<longleftrightarrow> errors_Is e ErrInvalidInput \<or> errors_Is e ErrNotFound"

definition bulkFailureFromError :: "int \<Rightarrow> go_error \<Rightarrow> BulkFailureResult" where
  "bulkFailureFromError index e =
    \<lparr>bf_Index = index, bf_Code = (if errors_Is e ErrNotFound then ''not_found'' else ''invalid_input''), bf_Message = e\<rparr>"

text \<open>The loop over the commands: meters found, events made, failures met.\<close>

definition bulk_event_step ::
  "ctx \<Rightarrow> CreateCommand \<Rightarrow> (string, Meter) fmap \<times> Event list \<times> BulkFailureResult list \<Rightarrow>
   (world, (string, Meter) fmap \<times> Event list \<times> BulkFailureResult list) proc" where
  "bulk_event_step ctx cmd acc = (case acc of (meters, events, failures) \<Rightarrow> (\<lambda>w.
    case newEvent ctx cmd meters w of
      ((None, Some event, meters'), u) \<Rightarrow> (Inr (meters', events @ [event], failures), u)
    | ((Some e, _, meters'), u) \<Rightarrow>
        if isBulkItemFailure e
        then (Inr (meters', events, failures @ [bulkFailureFromError (crc_Index cmd) e]), u)
        else (Inl e, u)
    | ((None, None, _), u) \<Rightarrow> (Inl (NewError ''unreachable'' []), u)))"

definition save_bulk_with_outbox ::
  "ctx \<Rightarrow> string \<Rightarrow> string \<Rightarrow> Event list \<Rightarrow> int \<Rightarrow> (world, BulkSaveResult) proc" where
  "save_bulk_with_outbox ctx kind key events failed =
    attempt (SaveBulk ctx key events) (\<lambda>saved.
    attempt (if \<not> bsr_replayed saved then attempt clock_now (EnqueueOutbox ctx (bsr_accepted saved)) else return_ok ()) (\<lambda>_.
    attempt (if kind \<noteq> [] then
        let (accepted, duplicates) = (if bsr_replayed saved then (0, int (length (bulk_Events saved)))
              else (int (length (bsr_accepted saved)), int (length (bsr_duplicates saved)))) in
        attempt (saveIngestionRun ctx \<lparr>igc_Kind = kind, igc_Accepted = accepted, igc_Duplicates = duplicates,
          igc_Failed = failed\<rparr>) (\<lambda>_. return_ok ())
      else return_ok ()) (\<lambda>_.
    return_ok saved)))"

definition createBulk ::
  "IngestionLimits \<Rightarrow> ctx \<Rightarrow> string \<Rightarrow> string \<Rightarrow> CreateCommand list \<Rightarrow> int \<Rightarrow> (world, BulkResult) proc" where
  "createBulk limits ctx kind key0 commands initialFailures =
    (let key = TrimSpace key0 in
     if length commands = 0 then return_err (invalid '': at least one usage event is required'')
     else if il_MaxBatchEvents limits < int (length commands)
     then return_err (Errorf ErrInvalidInput '': bulk usage event limit is %d'' [IArg (il_MaxBatchEvents limits)])
     else attempt (checkIngestionCapacity limits ctx (int (length commands))) (\<lambda>_.
     attempt (foreach commands (fmempty, [], []) (bulk_event_step ctx)) (\<lambda>(meters, events, failures).
     let failed = initialFailures + int (length failures) in
     if length events = 0 then
       (let result = \<lparr>br_Accepted = [], br_Duplicates = [], br_Failed = failures, br_Replayed = False\<rparr> in
        if kind = [] then return_ok result
        else attempt (saveIngestionRun ctx \<lparr>igc_Kind = kind, igc_Accepted = 0, igc_Duplicates = 0, igc_Failed = failed\<rparr>)
          (\<lambda>_. return_ok result))
     else attempt (in_transaction (save_bulk_with_outbox ctx kind key events failed)) (\<lambda>saved.
     return_ok ((bulkResultFromDomain saved)\<lparr>br_Failed := failures\<rparr>)))))"

definition CreateBulk :: "IngestionLimits \<Rightarrow> ctx \<Rightarrow> string \<Rightarrow> CreateCommand list \<Rightarrow> (world, BulkResult) proc" where
  "CreateBulk limits ctx key commands = createBulk limits ctx [] key commands 0"

definition CreateBulkIngestion ::
  "IngestionLimits \<Rightarrow> ctx \<Rightarrow> string \<Rightarrow> string \<Rightarrow> CreateCommand list \<Rightarrow> int \<Rightarrow> (world, BulkResult) proc" where
  "CreateBulkIngestion limits ctx kind key commands initialFailures = createBulk limits ctx kind key commands initialFailures"

end
