(* ===== verification/EntitlementService.thy ===== *)
theory EntitlementService
  imports EntitlementRepo
begin

text \<open>
  The operations of the entitlement service
  (\<^verbatim>\<open>src/internal/metering/app/entitlement/service.go\<close> and \<^verbatim>\<open>consumption.go\<close>) over the store:
  plans and their versions, assignments, quota checks, evaluations and check jobs, in the
  order of the file and with its calls, clock readings and early returns.
\<close>

section \<open>Lookups\<close>

definition findPlan :: "ctx \<Rightarrow> string \<Rightarrow> (world, PlanResult) proc" where
  "findPlan ctx id0 =
    (let pid = TrimSpace id0 in
     if pid = [] then return_err (invalid '': plan id is required'')
     else attempt (FindPlans ctx \<lparr>pq_ID = pid, pq_Name = [], pq_CurrentOnly = False, pq_Limit = 1\<rparr>) (\<lambda>plans.
       case plans of
         [] \<Rightarrow> return_err ErrNotFound
       | plan # _ \<Rightarrow>
           attempt (FindPlanLimits ctx pid) (\<lambda>limits.
           return_ok \<lparr>plr_Plan = plan, plr_Limits = limits\<rparr>)))"

definition findSubjectAssignment :: "ctx \<Rightarrow> string \<Rightarrow> (world, SubjectAssignment) proc" where
  "findSubjectAssignment ctx subject = attempt clock_now (FindEffectiveSubjectAssignment ctx subject)"

definition plan_limits_of :: "ctx \<Rightarrow> Plan list \<Rightarrow> (world, (string, PlanLimit list) fmap) proc" where
  "plan_limits_of ctx plans = foreach plans fmempty (\<lambda>plan result.
    attempt (FindPlanLimits ctx (pl_ID plan)) (\<lambda>limits. return_ok (fmupd (pl_ID plan) limits result)))"

text \<open>The call of \<^verbatim>\<open>GetEntitlementUsageCounter\<close> in which a missing row leaves the zero counter.\<close>

definition counter_or_zero :: "ctx \<Rightarrow> CounterQuery \<Rightarrow> (world, EntitlementUsageCounter) proc" where
  "counter_or_zero ctx q = inspect (GetEntitlementUsageCounter ctx q) (\<lambda>r. case r of
      Inl e \<Rightarrow> if errors_Is e ErrNotFound then return_ok zero_counter else return_err e
    | Inr c \<Rightarrow> return_ok c)"

definition progressItem :: "ctx \<Rightarrow> string \<Rightarrow> SubjectAssignment \<Rightarrow> PlanLimit \<Rightarrow> (world, ProgressItem) proc" where
  "progressItem ctx subject assignment limit =
    attempt (Meters_Find ctx (meter_named (lim_MeterName limit) 1)) (\<lambda>meters.
    case meters of [] \<Rightarrow> return_err ErrNotFound
    | meter # _ \<Rightarrow>
      attempt clock_now (\<lambda>now.
      case periodWindow now (sa_PeriodAnchorAt assignment) (lim_Period limit) of (from, to) \<Rightarrow>
      attempt (counter_or_zero ctx \<lparr>cq_Subject = subject, cq_MeterName = mtr_name meter,
          cq_Period = lim_Period limit, cq_From = from\<rparr>) (\<lambda>counter.
      let current = counterValue counter (mtr_aggregation meter) (duration_Seconds (time_Sub to from));
          remaining0 = lim_Limit limit - current;
          remaining = (if remaining0 < 0 then 0 else remaining0);
          overage0 = current - lim_Limit limit;
          overage = (if overage0 < 0 then 0 else overage0);
          percent = (if 0 < lim_Limit limit then current div lim_Limit limit * Fin 100 else 0)
      in return_ok \<lparr>pi_MeterName = mtr_name meter, pi_Period = lim_Period limit,
           pi_State = overageState percent current (lim_Limit limit) (lim_WarningPercent limit),
           pi_Current = current, pi_Limit = lim_Limit limit, pi_Remaining = remaining, pi_Overage = overage,
           pi_Percent = percent, pi_WarningPercent = lim_WarningPercent limit, pi_From = from, pi_To = to,
           pi_PeriodResetAt = to, pi_Unit = mtr_unit meter, pi_Aggregation = mtr_aggregation meter,
           pi_EventCount = uc_EventCount counter\<rparr>)))"

definition previewItem :: "ctx \<Rightarrow> string \<Rightarrow> SubjectAssignment \<Rightarrow> PlanLimit \<Rightarrow> (world, PlanPreviewItem) proc" where
  "previewItem ctx subject assignment limit =
    attempt (progressItem ctx subject assignment limit) (\<lambda>item.
    return_ok \<lparr>pvi_MeterName = pi_MeterName item, pvi_Period = pi_Period item, pvi_Current = pi_Current item,
      pvi_CurrentLimit = 0, pvi_ProposedLimit = 0, pvi_CurrentState = StateOther [],
      pvi_ProposedState = StateOther [], pvi_Remaining = pi_Remaining item, pvi_Overage = pi_Overage item,
      pvi_Percent = pi_Percent item, pvi_WarningPercent = 0, pvi_From = pi_From item, pvi_To = pi_To item,
      pvi_PeriodResetAt = pi_PeriodResetAt item, pvi_Unit = pi_Unit item,
      pvi_Aggregation = pi_Aggregation item, pvi_EventCount = pi_EventCount item, pvi_Removed = False,
      pvi_ExistingLimitFound = False\<rparr>)"

section \<open>Normalisation of a plan\<close>

definition normalizeLimitCommand :: "ctx \<Rightarrow> string \<Rightarrow> LimitCommand \<Rightarrow> time \<Rightarrow> (world, PlanLimit) proc" where
  "normalizeLimitCommand ctx planID command now =
    (let meterName = TrimSpace (lc_MeterName command) in
     if meterName = [] then return_err (invalid '': meter is required'')
     else attempt (Meters_Find ctx (meter_named meterName 1)) (\<lambda>meters.
     if length meters = 0 then return_err (Errorf ErrNotFound '': meter %q was not found'' [SArg meterName])
     else attempt (lift_res (normalizePeriod (lc_Period command))) (\<lambda>period.
     if \<not> isFinitePositive (lc_Limit command) then return_err (invalid '': limit must be greater than zero'')
     else let warning = (if f64_eq (lc_WarningPercent command) 0 then DefaultWarningPercent
                         else lc_WarningPercent command) in
     if \<not> isFinitePositive warning \<or> Fin 100 < warning
     then return_err (invalid '': warning percent must be greater than zero and at most 100'')
     else attempt (lift_res (normalizeEnforcement (lc_Enforcement command))) (\<lambda>enforcement.
     attempt (lift_res (normalizeFailurePolicy (lc_FailurePolicy command))) (\<lambda>failurePolicy.
     attempt fresh_id (\<lambda>lid.
     return_ok \<lparr>lim_ID = lid, lim_PlanID = planID, lim_MeterName = meterName, lim_Period = period,
       lim_Limit = lc_Limit command, lim_WarningPercent = warning, lim_Enforcement = enforcement,
       lim_FailurePolicy = failurePolicy, lim_CreatedAt = now, lim_UpdatedAt = now\<rparr>))))))"

text \<open>The loop over the commands; the keys seen are those of the limits so far.\<close>

definition normalize_limits :: "ctx \<Rightarrow> string \<Rightarrow> LimitCommand list \<Rightarrow> time \<Rightarrow> (world, PlanLimit list) proc" where
  "normalize_limits ctx planID commands now = foreach commands [] (\<lambda>command limits.
    attempt (normalizeLimitCommand ctx planID command now) (\<lambda>limit.
    if limitKey (lim_MeterName limit) (lim_Period limit) \<in> set (map (\<lambda>l. limitKey (lim_MeterName l) (lim_Period l)) limits)
    then return_err (Errorf ErrInvalidInput '': duplicate limit for meter %q and period %q''
      [SArg (lim_MeterName limit), SArg (period_text (lim_Period limit))])
    else return_ok (limits @ [limit])))"

definition normalizePlan ::
  "ctx \<Rightarrow> string \<Rightarrow> string \<Rightarrow> string \<Rightarrow> LimitCommand list \<Rightarrow> time \<Rightarrow> (world, Plan \<times> PlanLimit list) proc" where
  "normalizePlan ctx id0 name0 description0 input createdAt0 =
    (let name = TrimSpace name0; description = TrimSpace description0 in
     attempt (if id0 = [] then fresh_id else return_ok id0) (\<lambda>pid.
     if name = [] then return_err (invalid '': plan name is required'')
     else if MaxNameRunes < RuneCountInString name
     then return_err (Errorf ErrInvalidInput '': plan name cannot exceed %d characters'' [IArg (int MaxNameRunes)])
     else attempt (if IsZero createdAt0 then clock_now else return_ok createdAt0) (\<lambda>createdAt.
     if length input = 0 then return_err (invalid '': at least one plan limit is required'')
     else attempt clock_now (\<lambda>now.
     let plan = \<lparr>pl_ID = pid, pl_Name = name, pl_Description = description, pl_Version = 1,
           pl_ParentPlanID = [], pl_IsCurrent = True, pl_CreatedAt = createdAt, pl_UpdatedAt = now\<rparr> in
     attempt (normalize_limits ctx pid input now) (\<lambda>limits.
     return_ok (plan, limits))))))"

section \<open>Plans\<close>

definition not_current :: go_error where
  "not_current = JoinErr ErrConflict (NewError ''plan version is not current'' [])"

definition CreatePlan :: "ctx \<Rightarrow> SavePlanCommand \<Rightarrow> (world, PlanResult) proc" where
  "CreatePlan ctx cmd =
    attempt clock_now (\<lambda>now.
    attempt (normalizePlan ctx [] (spc_Name cmd) (spc_Description cmd) (spc_Limits cmd) now) (\<lambda>(plan, limits).
    attempt (in_transaction (
      attempt (SavePlan ctx plan) (\<lambda>_.
      ReplacePlanLimits ctx (pl_ID plan) limits))) (\<lambda>_.
    return_ok \<lparr>plr_Plan = plan, plr_Limits = limits\<rparr>)))"

text \<open>The next version of a plan: what \<^verbatim>\<open>UpdatePlan\<close> and \<^verbatim>\<open>PreviewPlan\<close> make of the normalised command.\<close>

definition next_version :: "Plan \<Rightarrow> Plan \<Rightarrow> Plan" where
  "next_version existing plan =
    plan\<lparr>pl_Version := pl_Version existing + 1, pl_ParentPlanID := pl_ID existing, pl_IsCurrent := True\<rparr>"

definition restamp_limits :: "string \<Rightarrow> time \<Rightarrow> PlanLimit list \<Rightarrow> PlanLimit list" where
  "restamp_limits planID now limits =
    map (\<lambda>l. l\<lparr>lim_PlanID := planID, lim_CreatedAt := now, lim_UpdatedAt := now\<rparr>) limits"

definition reassign :: "ctx \<Rightarrow> Plan \<Rightarrow> time \<Rightarrow> SubjectAssignment \<Rightarrow> (world, unit) proc" where
  "reassign ctx plan now assignment =
    (let assignedAt = (if \<not> sa_AssignedAt assignment < now then sa_AssignedAt assignment + Nanosecond else now) in
     attempt fresh_id (\<lambda>aid.
     attempt (SaveSubjectAssignment ctx
       \<lparr>sa_ID = aid, sa_Subject = sa_Subject assignment, sa_PlanID = pl_ID plan, sa_PlanName = pl_Name plan,
        sa_PlanVersion = pl_Version plan, sa_AssignedAt = assignedAt,
        sa_PeriodAnchorAt = sa_PeriodAnchorAt assignment, sa_UnassignedAt = zero_time,
        sa_UpdatedAt = assignedAt\<rparr>) (\<lambda>_.
     return_ok ())))"

definition UpdatePlan :: "ctx \<Rightarrow> UpdatePlanCommand \<Rightarrow> (world, PlanResult) proc" where
  "UpdatePlan ctx cmd =
    (let pid = TrimSpace (upc_ID cmd) in
     if pid = [] then return_err (invalid '': plan id is required'')
     else attempt (findPlan ctx pid) (\<lambda>existing.
     if \<not> pl_IsCurrent (plr_Plan existing) then return_err not_current
     else attempt clock_now (\<lambda>now.
     attempt (normalizePlan ctx [] (upc_Name cmd) (upc_Description cmd) (upc_Limits cmd) now) (\<lambda>(plan0, limits0).
     let plan = next_version (plr_Plan existing) plan0;
         limits = restamp_limits (pl_ID plan) now limits0 in
     attempt (in_transaction (
       attempt (FindSubjectAssignments ctx \<lparr>asq_Subject = [], asq_PlanID = pl_ID (plr_Plan existing),
         asq_ActiveOnly = True, asq_Limit = ent_MaxLimit\<rparr>) (\<lambda>assignments.
       attempt (RetirePlan ctx (pl_ID (plr_Plan existing)) now) (\<lambda>_.
       attempt (SavePlan ctx plan) (\<lambda>_.
       attempt (ReplacePlanLimits ctx (pl_ID plan) limits) (\<lambda>_.
       foreach assignments () (\<lambda>assignment _. reassign ctx plan now assignment))))))) (\<lambda>_.
     return_ok \<lparr>plr_Plan = plan, plr_Limits = limits\<rparr>)))))"

text \<open>The first inner loop of \<^verbatim>\<open>PreviewPlan\<close>: one item per proposed limit, with the worst state.\<close>

definition preview_proposed ::
  "ctx \<Rightarrow> (string, PlanLimit) fmap \<Rightarrow> SubjectAssignment \<Rightarrow> PlanLimit \<Rightarrow> OverageState \<times> PlanPreviewItem list \<Rightarrow>
   (world, OverageState \<times> PlanPreviewItem list) proc" where
  "preview_proposed ctx currentLimits assignment limit acc =
    (case acc of (worst, items) \<Rightarrow>
     attempt (previewItem ctx (sa_Subject assignment) assignment limit) (\<lambda>item0.
     let item = item0\<lparr>pvi_ProposedLimit := lim_Limit limit,
           pvi_ProposedState := itemState (pvi_Percent item0) (pvi_Current item0) (lim_Limit limit) (lim_WarningPercent limit),
           pvi_WarningPercent := lim_WarningPercent limit\<rparr> in
     attempt (case fmlookup currentLimits (limitKey (lim_MeterName limit) (lim_Period limit)) of
         Some currentLimit \<Rightarrow>
           attempt (previewItem ctx (sa_Subject assignment) assignment currentLimit) (\<lambda>currentItem.
           return_ok (item\<lparr>pvi_CurrentLimit := lim_Limit currentLimit,
             pvi_CurrentState := itemState (pvi_Percent currentItem) (pvi_Current currentItem)
               (lim_Limit currentLimit) (lim_WarningPercent currentLimit),
             pvi_ExistingLimitFound := True\<rparr>))
       | None \<Rightarrow> return_ok (item\<lparr>pvi_CurrentState := StateNotInPlan\<rparr>)) (\<lambda>item.
     return_ok (worstState worst (pvi_ProposedState item), items @ [item]))))"

text \<open>The second inner loop: one item per current limit that the proposal drops.\<close>

definition preview_removed ::
  "ctx \<Rightarrow> PlanLimit list \<Rightarrow> SubjectAssignment \<Rightarrow> PlanLimit \<Rightarrow> int \<times> PlanPreviewItem list \<Rightarrow>
   (world, int \<times> PlanPreviewItem list) proc" where
  "preview_removed ctx proposedLimits assignment limit acc =
    (case acc of (removed, items) \<Rightarrow>
     if limitKey (lim_MeterName limit) (lim_Period limit)
        \<in> set (map (\<lambda>l. limitKey (lim_MeterName l) (lim_Period l)) proposedLimits)
     then return_ok (removed, items)
     else attempt (previewItem ctx (sa_Subject assignment) assignment limit) (\<lambda>item.
     return_ok (removed + 1, items @ [item\<lparr>pvi_CurrentLimit := lim_Limit limit,
       pvi_CurrentState := itemState (pvi_Percent item) (pvi_Current item) (lim_Limit limit) (lim_WarningPercent limit),
       pvi_ProposedState := StateNotInPlan, pvi_Removed := True, pvi_ExistingLimitFound := True\<rparr>])))"

definition preview_subject ::
  "ctx \<Rightarrow> PlanResult \<Rightarrow> Plan \<Rightarrow> PlanLimit list \<Rightarrow> time \<Rightarrow> SubjectAssignment \<Rightarrow>
   PlanPreviewSummary \<times> PlanPreviewSubject list \<Rightarrow> (world, PlanPreviewSummary \<times> PlanPreviewSubject list) proc" where
  "preview_subject ctx current proposedPlan proposedLimits now assignment acc =
    (case acc of (summary, subjects) \<Rightarrow>
     attempt (if IsZero now then clock_now else return_ok now) (\<lambda>wall.
     attempt (foreach proposedLimits (StateOK, [])
       (preview_proposed ctx (limitsByMeterPeriod (plr_Limits current)) assignment)) (\<lambda>(worst, items).
     attempt (foreach (plr_Limits current) (sum_RemovedLimits summary, items)
       (preview_removed ctx proposedLimits assignment)) (\<lambda>(removed, items).
     let summary = summary\<lparr>sum_RemovedLimits := removed\<rparr>;
         summary = (case worst of
             StateExceeded \<Rightarrow> summary\<lparr>sum_Exceeded := sum_Exceeded summary + 1\<rparr>
           | StateWarning \<Rightarrow> summary\<lparr>sum_Warning := sum_Warning summary + 1\<rparr>
           | _ \<Rightarrow> summary\<lparr>sum_OK := sum_OK summary + 1\<rparr>)
     in return_ok (summary, subjects @ [
       \<lparr>pvs_Subject = sa_Subject assignment, pvs_AssignmentID = sa_ID assignment,
        pvs_AssignmentStatus = StatusAt assignment now wall, pvs_CurrentPlanID = pl_ID (plr_Plan current),
        pvs_CurrentPlanVersion = pl_Version (plr_Plan current), pvs_ProposedPlanID = pl_ID proposedPlan,
        pvs_ProposedPlanVersion = pl_Version proposedPlan, pvs_Items = items\<rparr>])))))"

definition PreviewPlan :: "ctx \<Rightarrow> UpdatePlanCommand \<Rightarrow> (world, PlanPreviewResult) proc" where
  "PreviewPlan ctx cmd =
    (let pid = TrimSpace (upc_ID cmd) in
     if pid = [] then return_err (invalid '': plan id is required'')
     else attempt (findPlan ctx pid) (\<lambda>current.
     if \<not> pl_IsCurrent (plr_Plan current) then return_err not_current
     else attempt clock_now (\<lambda>now.
     attempt (normalizePlan ctx [] (upc_Name cmd) (upc_Description cmd) (upc_Limits cmd) now) (\<lambda>(plan0, limits0).
     let proposedPlan = next_version (plr_Plan current) plan0;
         proposedLimits = restamp_limits (pl_ID proposedPlan) now limits0 in
     attempt (FindSubjectAssignments ctx \<lparr>asq_Subject = [], asq_PlanID = pl_ID (plr_Plan current),
       asq_ActiveOnly = True, asq_Limit = ent_MaxLimit\<rparr>) (\<lambda>assignments.
     attempt (foreach assignments
       (\<lparr>sum_Subjects = int (length assignments), sum_OK = 0, sum_Warning = 0, sum_Exceeded = 0, sum_RemovedLimits = 0\<rparr>, [])
       (preview_subject ctx current proposedPlan proposedLimits now)) (\<lambda>(summary, subjects).
     return_ok \<lparr>pvr_Current = current, pvr_Proposed = \<lparr>plr_Plan = proposedPlan, plr_Limits = proposedLimits\<rparr>,
       pvr_Summary = summary, pvr_Subjects = subjects\<rparr>))))))"

definition DeletePlan :: "ctx \<Rightarrow> string \<Rightarrow> (world, unit) proc" where
  "DeletePlan ctx id0 =
    (let pid = TrimSpace id0 in
     if pid = [] then return_err (invalid '': plan id is required'')
     else attempt (CountAssignmentsForPlan ctx pid) (\<lambda>assigned.
     if 0 < assigned then return_err (JoinErr ErrConflict (NewError ''plan has assigned subjects'' []))
     else Repo_DeletePlan ctx pid))"

definition GetPlan :: "ctx \<Rightarrow> string \<Rightarrow> (world, PlanResult) proc" where
  "GetPlan ctx pid = findPlan ctx pid"

definition ListPlans :: "ctx \<Rightarrow> int \<Rightarrow> (world, PlanResult list) proc" where
  "ListPlans ctx limit =
    attempt (FindPlans ctx \<lparr>pq_ID = [], pq_Name = [], pq_CurrentOnly = True, pq_Limit = ent_normalizeLimit limit\<rparr>) (\<lambda>plans.
    if length plans = 0 then return_ok []
    else attempt (plan_limits_of ctx plans) (\<lambda>limitsByPlan.
    return_ok (map (\<lambda>plan. \<lparr>plr_Plan = plan, plr_Limits =
      (case fmlookup limitsByPlan (pl_ID plan) of None \<Rightarrow> [] | Some ls \<Rightarrow> ls)\<rparr>) plans)))"

section \<open>Assignments\<close>

definition AssignSubject :: "ctx \<Rightarrow> AssignSubjectCommand \<Rightarrow> (world, SubjectAssignment) proc" where
  "AssignSubject ctx cmd =
    attempt (lift_res (NormalizeSubject (asc_Subject cmd))) (\<lambda>subject.
    let planID = TrimSpace (asc_PlanID cmd) in
    if planID = [] then return_err (invalid '': plan id is required'')
    else attempt (findPlan ctx planID) (\<lambda>plan.
    if \<not> pl_IsCurrent (plr_Plan plan) then return_err not_current
    else attempt clock_now (\<lambda>now.
    let effectiveAt = (if IsZero (asc_EffectiveAt cmd) \<or> asc_EffectiveAt cmd < now then now else asc_EffectiveAt cmd) in
    attempt fresh_id (\<lambda>aid.
    let assignment = \<lparr>sa_ID = aid, sa_Subject = subject, sa_PlanID = pl_ID (plr_Plan plan),
          sa_PlanName = pl_Name (plr_Plan plan), sa_PlanVersion = pl_Version (plr_Plan plan),
          sa_AssignedAt = effectiveAt, sa_PeriodAnchorAt = time_Truncate effectiveAt Second,
          sa_UnassignedAt = zero_time, sa_UpdatedAt = now\<rparr> in
    in_transaction (inspect (FindEffectiveSubjectAssignment ctx subject now) (\<lambda>r.
      case r of
        Inl e \<Rightarrow> if \<not> errors_Is e ErrNotFound then return_err e else SaveSubjectAssignment ctx assignment
      | Inr current \<Rightarrow> SaveSubjectAssignment ctx
          (if \<not> IsZero (sa_PeriodAnchorAt current)
           then assignment\<lparr>sa_PeriodAnchorAt := sa_PeriodAnchorAt current\<rparr> else assignment)))))))"

definition DeleteSubjectAssignment :: "ctx \<Rightarrow> string \<Rightarrow> (world, unit) proc" where
  "DeleteSubjectAssignment ctx subject0 =
    attempt (lift_res (NormalizeSubject subject0)) (Repo_DeleteSubjectAssignment ctx)"

definition ListSubjectAssignments :: "ctx \<Rightarrow> AssignmentListQuery \<Rightarrow> (world, SubjectAssignment list) proc" where
  "ListSubjectAssignments ctx q =
    attempt (lift_res (NormalizeOptionalSubject (alq_Subject q))) (\<lambda>subject.
    FindSubjectAssignments ctx \<lparr>asq_Subject = subject, asq_PlanID = TrimSpace (alq_PlanID q),
      asq_ActiveOnly = (\<not> alq_IncludeHistory q), asq_Limit = ent_normalizeLimit (alq_Limit q)\<rparr>)"

definition ListEntitlementStates :: "ctx \<Rightarrow> StateListQuery \<Rightarrow> (world, EntitlementState list) proc" where
  "ListEntitlementStates ctx q =
    attempt (lift_res (NormalizeOptionalSubject (slq_Subject q))) (\<lambda>subject.
    FindEntitlementStates ctx \<lparr>slq_Subject = subject, slq_MeterName = TrimSpace (slq_MeterName q),
      slq_State = TrimSpace (slq_State q), slq_Limit = ent_normalizeLimit (slq_Limit q)\<rparr>)"

definition GetSubjectProgress :: "ctx \<Rightarrow> string \<Rightarrow> (world, SubjectProgressResult) proc" where
  "GetSubjectProgress ctx subject0 =
    attempt (lift_res (NormalizeSubject subject0)) (\<lambda>subject.
    attempt (findSubjectAssignment ctx subject) (\<lambda>assignment.
    attempt (findPlan ctx (sa_PlanID assignment)) (\<lambda>plan.
    attempt (foreach (plr_Limits plan) [] (\<lambda>limit items.
      attempt (progressItem ctx subject assignment limit) (\<lambda>item. return_ok (items @ [item])))) (\<lambda>items.
    return_ok \<lparr>spr_Subject = subject, spr_Plan = plan, spr_Items = items\<rparr>))))"

section \<open>Checks\<close>

definition check_message :: "bool \<Rightarrow> OverageState \<Rightarrow> string" where
  "check_message allowed state =
    (if \<not> allowed then ''quota would be exceeded''
     else if state = StateExceeded then ''quota is available; quota limit reached''
     else if state = StateWarning then ''quota is available; warning threshold reached''
     else ''quota is available'')"

definition Check :: "ctx \<Rightarrow> CheckCommand \<Rightarrow> (world, EntitlementCheckResult) proc" where
  "Check ctx cmd =
    attempt (lift_res (NormalizeSubject (cc_Subject cmd))) (\<lambda>subject.
    let meterName = TrimSpace (cc_Meter cmd) in
    if meterName = [] then return_err (invalid '': meter is required'')
    else let quantity = (if f64_eq (cc_Quantity cmd) 0 then 1 else cc_Quantity cmd) in
    if \<not> isFinitePositive quantity then return_err (invalid '': quantity must be greater than zero'')
    else let base = zero_check_result\<lparr>ecr_Subject := subject, ecr_MeterName := meterName, ecr_Quantity := quantity\<rparr> in
    inspect (findSubjectAssignment ctx subject) (\<lambda>r. case r of
      Inl e \<Rightarrow>
        if errors_Is e ErrNotFound
        then return_ok (base\<lparr>ecr_State := StateNoPlan, ecr_Message := ''subject is not assigned to a plan''\<rparr>)
        else return_err e
    | Inr assignment \<Rightarrow>
        attempt (findPlan ctx (sa_PlanID assignment)) (\<lambda>plan.
        case limitForMeter plan meterName of
          None \<Rightarrow> return_ok (base\<lparr>ecr_State := StateNotInPlan, ecr_PlanID := pl_ID (plr_Plan plan),
            ecr_PlanName := pl_Name (plr_Plan plan), ecr_Message := ''meter is not included in the subject's plan''\<rparr>)
        | Some limit \<Rightarrow>
            attempt (progressItem ctx subject assignment limit) (\<lambda>item.
            let projected = pi_Current item + quantity;
                allowed = (projected \<le> pi_Limit item);
                remaining0 = pi_Limit item - projected;
                remaining = (if remaining0 < 0 then 0 else remaining0);
                overage0 = projected - pi_Limit item;
                overage = (if overage0 < 0 then 0 else overage0);
                percent = (if 0 < pi_Limit item then projected div pi_Limit item * Fin 100 else 0);
                state0 = overageState percent projected (pi_Limit item) (pi_WarningPercent item);
                state = (if \<not> allowed then StateExceeded else state0)
            in attempt (if \<not> allowed
                 then attempt clock_now (\<lambda>now. return_ok (quotaRetryAfterSeconds now (pi_PeriodResetAt item)))
                 else return_ok 0) (\<lambda>retryAfter.
            return_ok \<lparr>ecr_Allowed = allowed, ecr_State = state, ecr_Subject = subject, ecr_MeterName = meterName,
              ecr_Quantity = quantity, ecr_Current = pi_Current item, ecr_Limit = pi_Limit item,
              ecr_Remaining = remaining, ecr_Overage = overage, ecr_PlanID = pl_ID (plr_Plan plan),
              ecr_PlanName = pl_Name (plr_Plan plan), ecr_Period = pi_Period item, ecr_From = pi_From item,
              ecr_To = pi_To item, ecr_PeriodResetAt = pi_PeriodResetAt item, ecr_RetryAfterSeconds = retryAfter,
              ecr_Message = check_message allowed state\<rparr>)))))"

section \<open>Consumption assessment\<close>

text \<open>The last part of \<^verbatim>\<open>AssessConsumption\<close>: the assessment of a projected value against a limit.\<close>

definition assess_value ::
  "ConsumptionAssessment \<Rightarrow> PlanResult \<Rightarrow> PlanLimit \<Rightarrow> time \<times> time \<Rightarrow> f64 \<Rightarrow> f64 \<Rightarrow> int \<Rightarrow> ConsumptionAssessment" where
  "assess_value base plan limit window current projected retryAfter =
    (case window of (from, to) \<Rightarrow>
     let percent = (if 0 < lim_Limit limit then projected div lim_Limit limit * Fin 100 else 0);
         state = overageState percent projected (lim_Limit limit) (lim_WarningPercent limit);
         allowed = (projected \<le> lim_Limit limit)
     in base\<lparr>ca_Allowed := allowed, ca_State := state, ca_Current := current, ca_Projected := projected,
          ca_Limit := lim_Limit limit, ca_Remaining := f64_Max (lim_Limit limit - projected) 0,
          ca_Overage := f64_Max (projected - lim_Limit limit) 0, ca_PlanID := pl_ID (plr_Plan plan),
          ca_PlanName := pl_Name (plr_Plan plan), ca_Period := lim_Period limit, ca_From := from, ca_To := to,
          ca_PeriodResetAt := to, ca_RetryAfterSeconds := retryAfter,
          ca_Message := check_message allowed state\<rparr>)"

definition AssessConsumption ::
  "ctx \<Rightarrow> ConsumptionAssessmentCommand \<Rightarrow> world \<Rightarrow> (go_error option \<times> ConsumptionAssessment) \<times> world" where
  "AssessConsumption ctx cmd =
    try_var zero_assessment (lift_res (NormalizeSubject (cac_Subject cmd))) (\<lambda>subject.
    let meterName = TrimSpace (cac_Meter cmd) in
    if meterName = [] then return_var (Some (invalid '': meter is required'')) zero_assessment
    else if \<not> isFinitePositive (cac_Quantity cmd)
    then return_var (Some (invalid '': quantity must be greater than zero'')) zero_assessment
    else try_var zero_assessment (if IsZero (cac_EventTime cmd) then clock_now else return_ok (cac_EventTime cmd)) (\<lambda>tm.
    let base = zero_assessment\<lparr>ca_Allowed := True, ca_Subject := subject, ca_MeterName := meterName,
          ca_Quantity := cac_Quantity cmd, ca_Enforcement := EnforcementAdvisory, ca_FailurePolicy := FailOpen\<rparr> in
    inspect_var (LockEffectiveSubjectAssignment ctx subject tm) (\<lambda>r. case r of
      Inl e \<Rightarrow>
        if errors_Is e ErrNotFound
        then return_var None (base\<lparr>ca_State := StateNoPlan,
          ca_Message := ''subject is not assigned to a plan; usage is accepted in advisory mode''\<rparr>)
        else return_var (Some e) base
    | Inr assignment \<Rightarrow>
        try_var base (findPlan ctx (sa_PlanID assignment)) (\<lambda>plan.
        case limitForMeter plan meterName of
          None \<Rightarrow> return_var None (base\<lparr>ca_State := StateNotInPlan, ca_PlanID := pl_ID (plr_Plan plan),
            ca_PlanName := pl_Name (plr_Plan plan),
            ca_Message := ''meter is not included in the subject's plan; usage is accepted in advisory mode''\<rparr>)
        | Some limit \<Rightarrow>
            let base = base\<lparr>ca_Enforcement := lim_Enforcement limit, ca_FailurePolicy := lim_FailurePolicy limit\<rparr> in
            try_var base (Meters_Find ctx (meter_named meterName 1)) (\<lambda>meters.
            case meters of [] \<Rightarrow> return_var (Some ErrNotFound) base
            | meter # _ \<Rightarrow>
              (let window = periodWindow tm (sa_PeriodAnchorAt assignment) (lim_Period limit);
                   seconds = duration_Seconds (time_Sub (snd window) (fst window)) in
              try_var base (counter_or_zero ctx \<lparr>cq_Subject = subject, cq_MeterName = meterName,
                  cq_Period = lim_Period limit, cq_From = fst window\<rparr>) (\<lambda>counter.
              let current = counterValue counter (mtr_aggregation meter) seconds;
                  projected = projectedCounterValue counter (mtr_aggregation meter) (cac_Quantity cmd) tm seconds in
              try_var base (if \<not> projected \<le> lim_Limit limit
                  then attempt clock_now (\<lambda>now. return_ok (quotaRetryAfterSeconds now (snd window)))
                  else return_ok 0) (\<lambda>retryAfter.
              return_var None (assess_value base plan limit window current projected retryAfter)))))))))"

section \<open>Evaluation and check jobs\<close>

text \<open>The loop of \<^verbatim>\<open>EnqueueForUsageEvents\<close>; the accumulator is the set of keys seen.\<close>

definition EnqueueForUsageEvents :: "ctx \<Rightarrow> UsageEvent list \<Rightarrow> (world, unit) proc" where
  "EnqueueForUsageEvents ctx events =
    (if length events = 0 then return_ok ()
     else attempt clock_now (\<lambda>now.
     let runAfter = now + DefaultCheckEvaluationWait in
     attempt (foreach events [] (\<lambda>event seen.
       case NormalizeOptionalSubject (ue_Subject event) of
         Inl _ \<Rightarrow> return_ok seen
       | Inr subject \<Rightarrow>
         (let meterName = TrimSpace (ue_Meter event); key = subject @ [char_of (0 :: nat)] @ meterName in
          if subject = [] \<or> meterName = [] then return_ok seen
          else if key \<in> set seen then return_ok seen
          else attempt (EnqueueEntitlementCheckJob ctx
              \<lparr>cj_WorkspaceID = [], cj_Subject = subject, cj_MeterName = meterName, cj_RunAfter = runAfter,
               cj_LockedUntil = zero_time, cj_Attempts = 0, cj_CreatedAt = now, cj_UpdatedAt = now\<rparr>) (\<lambda>_.
            return_ok (key # seen))))) (\<lambda>_.
     return_ok ())))"

definition ClaimCheckJob :: "ctx \<Rightarrow> ClaimCommand \<Rightarrow> (world, CheckJob option) proc" where
  "ClaimCheckJob ctx cmd =
    (if clc_LockTTL cmd \<le> 0 then return_err (invalid '': lock ttl must be greater than zero'')
     else if clc_MaxAttempts cmd \<le> 0 then return_err (invalid '': max attempts must be greater than zero'')
     else ClaimEntitlementCheckJob ctx cmd)"

definition state_event ::
  "string \<Rightarrow> string \<Rightarrow> Plan \<Rightarrow> ProgressItem \<Rightarrow> EntitlementState \<Rightarrow> EntitlementState \<Rightarrow> EventType \<Rightarrow> time \<Rightarrow> EntitlementEvent" where
  "state_event eid subject plan item previous state eventType now =
    \<lparr>ee_ID = eid, ee_WorkspaceID = [], ee_Subject = subject, ee_MeterName = pi_MeterName item,
     ee_PlanID = pl_ID plan, ee_PlanName = pl_Name plan, ee_Period = pi_Period item,
     ee_PreviousState = es_State previous, ee_State = es_State state, ee_Type = eventType,
     ee_Current = es_Current state, ee_Limit = es_Limit state, ee_Remaining = es_Remaining state,
     ee_WarningPercent = es_WarningPercent state, ee_Message = es_Message state, ee_CreatedAt = now\<rparr>"

definition state_or_zero :: "ctx \<Rightarrow> StateQuery \<Rightarrow> (world, EntitlementState) proc" where
  "state_or_zero ctx q = inspect (GetEntitlementState ctx q) (\<lambda>r. case r of
      Inl e \<Rightarrow> if \<not> errors_Is e ErrNotFound then return_err e else return_ok zero_state
    | Inr s \<Rightarrow> return_ok s)"

definition skipped_result :: "string \<Rightarrow> string \<Rightarrow> string \<Rightarrow> EvaluationResult" where
  "skipped_result subject meterName message =
    \<lparr>er_Subject = subject, er_Meter = meterName, er_State = None, er_Event = None, er_Skipped = True, er_Message = message\<rparr>"

definition Evaluate :: "ctx \<Rightarrow> EvaluateCommand \<Rightarrow> (world, EvaluationResult) proc" where
  "Evaluate ctx cmd =
    attempt (lift_res (NormalizeSubject (evc_Subject cmd))) (\<lambda>subject.
    let meterName = TrimSpace (evc_Meter cmd) in
    if meterName = [] then return_err (invalid '': meter is required'')
    else inspect (findSubjectAssignment ctx subject) (\<lambda>r. case r of
      Inl e \<Rightarrow>
        if errors_Is e ErrNotFound
        then return_ok (skipped_result subject meterName ''subject is not assigned to a plan'')
        else return_err e
    | Inr assignment \<Rightarrow>
        attempt (findPlan ctx (sa_PlanID assignment)) (\<lambda>plan.
        case limitForMeter plan meterName of
          None \<Rightarrow> return_ok (skipped_result subject meterName ''meter is not included in the subject's plan'')
        | Some limit \<Rightarrow>
            attempt (progressItem ctx subject assignment limit) (\<lambda>item.
            attempt clock_now (\<lambda>now.
            let state = entitlementStateFromProgress subject (plr_Plan plan) item now;
                snapshot = entitlementSnapshotFromProgress subject (plr_Plan plan) item now in
            attempt (state_or_zero ctx \<lparr>sq_Subject = subject, sq_MeterName = pi_MeterName item,
                sq_PlanID = pl_ID (plr_Plan plan), sq_Period = pi_Period item\<rparr>) (\<lambda>previous.
            attempt (case entitlementEventType previous (es_State state) of
                None \<Rightarrow> return_ok None
              | Some eventType \<Rightarrow> attempt fresh_id (\<lambda>eid.
                  return_ok (Some (state_event eid subject (plr_Plan plan) item previous state eventType now)))) (\<lambda>event.
            attempt (in_transaction (
              attempt (SaveEntitlementState ctx state) (\<lambda>_.
              attempt (SaveEntitlementPeriodSnapshot ctx snapshot) (\<lambda>_.
              case event of None \<Rightarrow> return_ok () | Some ev \<Rightarrow> SaveEntitlementEvent ctx ev)))) (\<lambda>_.
            return_ok \<lparr>er_Subject = subject, er_Meter = meterName, er_State = Some state, er_Event = event,
              er_Skipped = False, er_Message = []\<rparr>))))))))"

definition CompleteCheckJob :: "ctx \<Rightarrow> CompleteCommand \<Rightarrow> (world, unit) proc" where
  "CompleteCheckJob ctx cmd =
    attempt (lift_res (NormalizeSubject (cmc_Subject cmd))) (\<lambda>subject.
    let meterName = TrimSpace (cmc_Meter cmd) in
    if meterName = [] then return_err (invalid '': meter is required'')
    else if cmc_Attempts cmd < 1 then return_err (invalid '': attempts must be greater than zero'')
    else DeleteEntitlementCheckJob ctx (cmd\<lparr>cmc_Subject := subject, cmc_Meter := meterName\<rparr>))"

definition FailCheckJob :: "ctx \<Rightarrow> FailCommand \<Rightarrow> (world, unit) proc" where
  "FailCheckJob ctx cmd =
    attempt (lift_res (NormalizeSubject (flc_Subject cmd))) (\<lambda>subject.
    let meterName = TrimSpace (flc_Meter cmd) in
    if meterName = [] then return_err (invalid '': meter is required'')
    else if flc_Attempts cmd < 1 then return_err (invalid '': attempts must be greater than zero'')
    else if flc_RetryAfter cmd \<le> 0 then return_err (invalid '': retry after must be greater than zero'')
    else RequeueEntitlementCheckJob ctx (cmd\<lparr>flc_Subject := subject, flc_Meter := meterName\<rparr>))"

definition DeadLetterCheckJob :: "ctx \<Rightarrow> DeadLetterCommand \<Rightarrow> (world, unit) proc" where
  "DeadLetterCheckJob ctx cmd =
    attempt (lift_res (NormalizeSubject (dlc_Subject cmd))) (\<lambda>subject.
    let meterName = TrimSpace (dlc_Meter cmd) in
    if meterName = [] \<or> dlc_Attempts cmd < 1 \<or> TrimSpace (dlc_Error cmd) = [] then return_err ErrInvalidInput
    else in_transaction (
      attempt fresh_id (\<lambda>did.
      attempt clock_now (\<lambda>now.
      attempt (SaveCheckDeadLetter ctx \<lparr>dl_ID = did, dl_Subject = subject, dl_MeterName = meterName,
        dl_Attempts = dlc_Attempts cmd, dl_Error = dlc_Error cmd, dl_CreatedAt = now\<rparr>) (\<lambda>_.
      DeleteEntitlementCheckJob ctx \<lparr>cmc_Subject = subject, cmc_Meter = meterName,
        cmc_Attempts = dlc_Attempts cmd\<rparr>)))))"

end
