(* ===== verification/Consumption.thy ===== *)
theory Consumption
  imports UsageService EntitlementService
begin

text \<open>
  Consuming quota: \<^verbatim>\<open>src/internal/metering/app/consumption/service.go\<close>,
  \<^verbatim>\<open>domain/consumption/decision.go\<close> and \<^verbatim>\<open>adapters/sqlite/consumption_repository.go\<close> with
  \<^verbatim>\<open>queries/consumption_decisions.sql\<close>.  A decision is stored as the JSON text of its result; the
  row holds the value that reading that text returns, and storing fails where \<^verbatim>\<open>json.Marshal\<close>
  does.  The listing of decisions is not modelled.
\<close>

section \<open>Types\<close>

record Command =
  co_IdempotencyKey :: string
  co_Subject :: string
  co_MeterName :: string
  co_Quantity :: f64
  co_EventTime :: time
  co_Metadata :: metadata

record Decision =
  dcn_IdempotencyKey :: string
  dcn_Snapshot :: ConsumeResult
  dcn_Subject :: string
  dcn_MeterName :: string
  dcn_Accepted :: bool
  dcn_EvaluationFailed :: bool
  dcn_Enforcement :: EnforcementMode
  dcn_State :: OverageState
  dcn_CreatedAt :: time

record DecisionResult =
  dcr_IdempotencyKey :: string
  dcr_Result :: ConsumeResult
  dcr_CreatedAt :: time

record PruneCommand =
  pc_Before :: time
  pc_DryRun :: bool

record PruneResult =
  pr_ID :: string
  pr_Before :: time
  pr_Deleted :: int
  pr_DryRun :: bool
  pr_CreatedAt :: time

definition errFailOpen :: go_error where
  "errFailOpen = Sentinel ''quota evaluation failed open''"

section \<open>Snapshots\<close>

text \<open>Writing a result as JSON and reading it back: \<^verbatim>\<open>Replayed\<close> of the event is not written.\<close>

definition json_event_ok :: "UsageResult \<Rightarrow> bool" where
  "json_event_ok e \<longleftrightarrow> finite_f64 (ur_Quantity e) \<and> json_time_ok (ur_EventTime e) \<and> json_time_ok (ur_ReceivedAt e)"

definition json_assessment_ok :: "ConsumptionAssessment \<Rightarrow> bool" where
  "json_assessment_ok a \<longleftrightarrow>
    finite_f64 (ca_Quantity a) \<and> finite_f64 (ca_Current a) \<and> finite_f64 (ca_Projected a) \<and>
    finite_f64 (ca_Limit a) \<and> finite_f64 (ca_Remaining a) \<and> finite_f64 (ca_Overage a) \<and>
    json_time_ok (ca_From a) \<and> json_time_ok (ca_To a) \<and> json_time_ok (ca_PeriodResetAt a)"

definition marshal_result :: "ConsumeResult \<Rightarrow> go_error + ConsumeResult" where
  "marshal_result r =
    reject_if (\<not> json_event_ok (cr_Event r) \<or> \<not> json_assessment_ok (cr_Quota r))
      (NewError ''json: unsupported value'' []) (
    try_res (json_roundtrip (ur_Metadata (cr_Event r))) (\<lambda>metadata.
    Inr (r\<lparr>cr_Event := (cr_Event r)\<lparr>ur_Metadata := metadata, ur_Replayed := False\<rparr>\<rparr>)))"

definition FromSnapshot :: "string \<Rightarrow> ConsumeResult \<Rightarrow> time \<Rightarrow> Decision" where
  "FromSnapshot key snapshot createdAt =
    \<lparr>dcn_IdempotencyKey = key, dcn_Snapshot = snapshot, dcn_Subject = ca_Subject (cr_Quota snapshot),
     dcn_MeterName = ca_MeterName (cr_Quota snapshot), dcn_Accepted = cr_Accepted snapshot,
     dcn_EvaluationFailed = cr_EvaluationFailed snapshot, dcn_Enforcement = ca_Enforcement (cr_Quota snapshot),
     dcn_State = ca_State (cr_Quota snapshot), dcn_CreatedAt = createdAt\<rparr>"

section \<open>The decision repository\<close>

definition decision_key :: "DecisionRow \<Rightarrow> string \<times> string" where
  "decision_key row = (dr_WorkspaceID row, dr_IdempotencyKey row)"

definition find_decision :: "string \<Rightarrow> string \<Rightarrow> db \<Rightarrow> DecisionRow option" where
  "find_decision ws key d = row_find (\<lambda>row. decision_key row = (ws, key)) (db_decisions d)"

definition Decisions_Find :: "ctx \<Rightarrow> string \<Rightarrow> (world, Decision) proc" where
  "Decisions_Find ctx key = with_workspace ctx (\<lambda>ws.
    attempt (query (find_decision ws key)) (\<lambda>row.
    case row of None \<Rightarrow> return_err ErrNotFound
    | Some r \<Rightarrow> return_ok (FromSnapshot key (dr_Response r) (dr_CreatedAt r))))"

definition decision_row :: "string \<Rightarrow> Decision \<Rightarrow> DecisionRow" where
  "decision_row ws indexed =
    \<lparr>dr_WorkspaceID = ws, dr_IdempotencyKey = dcn_IdempotencyKey indexed, dr_Response = dcn_Snapshot indexed,
     dr_Subject = dcn_Subject indexed, dr_MeterName = dcn_MeterName indexed, dr_Accepted = dcn_Accepted indexed,
     dr_EvaluationFailed = dcn_EvaluationFailed indexed, dr_Enforcement = dcn_Enforcement indexed,
     dr_State = dcn_State indexed, dr_CreatedAt = dcn_CreatedAt indexed\<rparr>"

text \<open>\<^verbatim>\<open>INSERT ... ON CONFLICT DO NOTHING\<close>\<close>

definition insert_decision :: "DecisionRow \<Rightarrow> db \<Rightarrow> db" where
  "insert_decision row d =
    (case find_decision (dr_WorkspaceID row) (dr_IdempotencyKey row) d of
       Some _ \<Rightarrow> d | None \<Rightarrow> d\<lparr>db_decisions := db_decisions d @ [row]\<rparr>)"

definition Decisions_Save :: "ctx \<Rightarrow> string \<Rightarrow> ConsumeResult \<Rightarrow> (world, Decision \<times> bool) proc" where
  "Decisions_Save ctx key snapshot = with_workspace ctx (\<lambda>ws.
    attempt clock_now (\<lambda>createdAt.
    let row = decision_row ws (FromSnapshot key snapshot createdAt) in
    attempt (execrows (\<lambda>d. if find_decision ws key d = None then 1 else 0) (insert_decision row)) (\<lambda>rows.
    attempt (Decisions_Find ctx key) (\<lambda>stored.
    return_ok (stored, rows = 1)))))"

definition expired_decision :: "string \<Rightarrow> time \<Rightarrow> DecisionRow \<Rightarrow> bool" where
  "expired_decision ws before row \<longleftrightarrow> dr_WorkspaceID row = ws \<and> time_text_less (dr_CreatedAt row) before"

definition CountExpired :: "ctx \<Rightarrow> time \<Rightarrow> (world, int) proc" where
  "CountExpired ctx before = with_workspace ctx (\<lambda>ws.
    query (\<lambda>d. int (length (filter (expired_decision ws before) (db_decisions d)))))"

definition PruneExpired :: "ctx \<Rightarrow> time \<Rightarrow> (world, int) proc" where
  "PruneExpired ctx before = with_workspace ctx (\<lambda>ws.
    attempt (execrows (\<lambda>d. length (filter (expired_decision ws before) (db_decisions d)))
      (\<lambda>d. d\<lparr>db_decisions := row_delete (expired_decision ws before) (db_decisions d)\<rparr>)) (\<lambda>rows.
    return_ok (int rows)))"

definition SavePruneRun :: "ctx \<Rightarrow> PruneResult \<Rightarrow> (world, unit) proc" where
  "SavePruneRun ctx run = with_workspace ctx (\<lambda>ws.
    exec_unique (\<lambda>d. distinct_keys dp_ID (db_decision_prunes d))
      (\<lambda>d. d\<lparr>db_decision_prunes := db_decision_prunes d @
        [\<lparr>dp_ID = pr_ID run, dp_WorkspaceID = ws, dp_Before = pr_Before run, dp_DryRun = pr_DryRun run,
          dp_Deleted = pr_Deleted run, dp_CreatedAt = pr_CreatedAt run\<rparr>]\<rparr>))"

section \<open>The service\<close>

definition find_result :: "ctx \<Rightarrow> string \<Rightarrow> (world, ConsumeResult) proc" where
  "find_result ctx key = attempt (Decisions_Find ctx key) (\<lambda>stored. return_ok (dcn_Snapshot stored))"

definition persist :: "ctx \<Rightarrow> string \<Rightarrow> ConsumeResult \<Rightarrow> (world, ConsumeResult) proc" where
  "persist ctx key result =
    attempt (lift_res (marshal_result (result\<lparr>cr_Replayed := False\<rparr>))) (\<lambda>snapshot.
    attempt (Decisions_Save ctx key snapshot) (\<lambda>(stored, created).
    return_ok ((dcn_Snapshot stored)\<lparr>cr_Replayed := \<not> created\<rparr>)))"

text \<open>The calls inside the transactions, which assign the variable \<^verbatim>\<open>result\<close> of \<^verbatim>\<open>Consume\<close>.\<close>

type_synonym consume_body = "world \<Rightarrow> (go_error option \<times> ConsumeResult) \<times> world"

definition persist_into :: "ctx \<Rightarrow> string \<Rightarrow> ConsumeResult \<Rightarrow> consume_body" where
  "persist_into ctx key result =
    try_var (result\<lparr>cr_Replayed := False\<rparr>) (persist ctx key result) (return_var None)"

definition unless_decided :: "ctx \<Rightarrow> string \<Rightarrow> ConsumeResult \<Rightarrow> consume_body \<Rightarrow> consume_body" where
  "unless_decided ctx key result continue = inspect_var (find_result ctx key) (\<lambda>r. case r of
      Inr existing \<Rightarrow> return_var None (existing\<lparr>cr_Replayed := True\<rparr>)
    | Inl e \<Rightarrow> if errors_Is e ErrNotFound then continue else return_var (Some e) result)"

definition create_command :: "string \<Rightarrow> Command \<Rightarrow> CreateCommand" where
  "create_command key cmd =
    \<lparr>crc_Index = 0, crc_IdempotencyKey = key, crc_Subject = co_Subject cmd, crc_MeterName = co_MeterName cmd,
     crc_Quantity = co_Quantity cmd, crc_EventTime = co_EventTime cmd, crc_Metadata = co_Metadata cmd\<rparr>"

definition create_and_persist :: "IngestionLimits \<Rightarrow> ctx \<Rightarrow> string \<Rightarrow> Command \<Rightarrow> ConsumeResult \<Rightarrow> consume_body" where
  "create_and_persist limits ctx key cmd result =
    try_var result (Create limits ctx (create_command key cmd)) (\<lambda>event.
    persist_into ctx key (result\<lparr>cr_Accepted := True, cr_Event := event\<rparr>))"

text \<open>The body of the first transaction after the assessment.\<close>

definition consume_assessed ::
  "IngestionLimits \<Rightarrow> ctx \<Rightarrow> string \<Rightarrow> Command \<Rightarrow> go_error option \<Rightarrow> ConsumptionAssessment \<Rightarrow> consume_body" where
  "consume_assessed limits ctx key cmd err assessment =
    (let result = zero_consume_result\<lparr>cr_Quota := assessment\<rparr> in
     case err of
       Some e \<Rightarrow>
         if ca_FailurePolicy assessment = FailClosed
         then persist_into ctx key (result\<lparr>cr_EvaluationFailed := True\<rparr>)
         else return_var (Some (JoinErr errFailOpen e)) result
     | None \<Rightarrow> unless_decided ctx key result (
         inspect_var (GetByIdempotencyKey ctx key) (\<lambda>r. case r of
             Inr existing \<Rightarrow> persist_into ctx key (result\<lparr>cr_Accepted := True, cr_Event := existing\<rparr>)
           | Inl e \<Rightarrow>
               if \<not> errors_Is e ErrNotFound then return_var (Some e) result
               else if ca_Enforcement assessment = EnforcementHard \<and> \<not> ca_Allowed assessment
               then persist_into ctx key result
               else create_and_persist limits ctx key cmd result)))"

definition consume_transaction :: "IngestionLimits \<Rightarrow> ctx \<Rightarrow> string \<Rightarrow> Command \<Rightarrow> consume_body" where
  "consume_transaction limits ctx key cmd w =
    (case AssessConsumption ctx \<lparr>cac_Subject = co_Subject cmd, cac_Meter = co_MeterName cmd,
         cac_Quantity = co_Quantity cmd, cac_EventTime = co_EventTime cmd\<rparr> w of
       ((err, assessment), u) \<Rightarrow> consume_assessed limits ctx key cmd err assessment u)"

text \<open>The body of the second transaction, after an evaluation that failed open.\<close>

definition fail_open_transaction ::
  "IngestionLimits \<Rightarrow> ctx \<Rightarrow> string \<Rightarrow> Command \<Rightarrow> ConsumeResult \<Rightarrow> consume_body" where
  "fail_open_transaction limits ctx key cmd result =
    unless_decided ctx key result (create_and_persist limits ctx key cmd result)"

definition consume_once :: "IngestionLimits \<Rightarrow> ctx \<Rightarrow> string \<Rightarrow> Command \<Rightarrow> (world, ConsumeResult) proc" where
  "consume_once limits ctx key cmd w =
    (case WithinTransaction zero_consume_result (consume_transaction limits ctx key cmd) w of
       ((None, result), u) \<Rightarrow> (Inr result, u)
     | ((Some e, result), u) \<Rightarrow>
         if errors_Is e errFailOpen
         then (let result = result\<lparr>cr_EvaluationFailed := True\<rparr> in
           case WithinTransaction result (fail_open_transaction limits ctx key cmd result) u of
             ((Some saveErr, _), v) \<Rightarrow> (Inl saveErr, v)
           | ((None, result), v) \<Rightarrow> (Inr result, v))
         else (Inl e, u))"

definition Consume :: "IngestionLimits \<Rightarrow> ctx \<Rightarrow> Command \<Rightarrow> (world, ConsumeResult) proc" where
  "Consume limits ctx cmd =
    (let key = TrimSpace (co_IdempotencyKey cmd) in
     if key = [] then return_err (invalid '': idempotency key is required'')
     else inspect (find_result ctx key) (\<lambda>r. case r of
         Inr existing \<Rightarrow> return_ok (existing\<lparr>cr_Replayed := True\<rparr>)
       | Inl e \<Rightarrow> if \<not> errors_Is e ErrNotFound then return_err e else consume_once limits ctx key cmd))"

definition decisionResult :: "Decision \<Rightarrow> DecisionResult" where
  "decisionResult stored =
    \<lparr>dcr_IdempotencyKey = dcn_IdempotencyKey stored, dcr_Result = dcn_Snapshot stored,
     dcr_CreatedAt = dcn_CreatedAt stored\<rparr>"

definition GetDecision :: "ctx \<Rightarrow> string \<Rightarrow> (world, DecisionResult) proc" where
  "GetDecision ctx idempotencyKey =
    (let key = TrimSpace idempotencyKey in
     if key = [] then return_err (invalid '': idempotency key is required'')
     else attempt (Decisions_Find ctx key) (\<lambda>stored. return_ok (decisionResult stored)))"

text \<open>\<^verbatim>\<open>PruneDecisions\<close> returns its result also next to an error.\<close>

definition prune_transaction :: "ctx \<Rightarrow> PruneResult \<Rightarrow> world \<Rightarrow> (go_error option \<times> PruneResult) \<times> world" where
  "prune_transaction ctx result =
    try_var (result\<lparr>pr_Deleted := 0\<rparr>) (if pr_DryRun result then CountExpired ctx (pr_Before result)
        else PruneExpired ctx (pr_Before result)) (\<lambda>deleted.
    let result = result\<lparr>pr_Deleted := deleted\<rparr> in
    try_var result (SavePruneRun ctx result) (\<lambda>_. return_var None result))"

definition PruneDecisions :: "ctx \<Rightarrow> PruneCommand \<Rightarrow> world \<Rightarrow> (go_error option \<times> PruneResult) \<times> world" where
  "PruneDecisions ctx cmd =
    (let zero = \<lparr>pr_ID = [], pr_Before = zero_time, pr_Deleted = 0, pr_DryRun = False, pr_CreatedAt = zero_time\<rparr> in
     if IsZero (pc_Before cmd)
     then return_var (Some (invalid '': decision prune cutoff is required'')) zero
     else try_var zero fresh_id (\<lambda>pid.
     try_var zero clock_now (\<lambda>now.
     let result = \<lparr>pr_ID = pid, pr_Before = pc_Before cmd, pr_Deleted = 0, pr_DryRun = pc_DryRun cmd,
           pr_CreatedAt = now\<rparr> in
     WithinTransaction result (prune_transaction ctx result))))"

end
