(* ===== verification/FailOpenSignal.thy ===== *)
theory FailOpenSignal
  imports Consumption
begin

text \<open>
  \<^verbatim>\<open>Consume\<close> tells from its transaction, by an error that wraps \<^verbatim>\<open>errFailOpen\<close>, that the quota could
  not be evaluated.  The lemmas show that no call inside the transaction returns such an error
  itself: the signal is raised in one place.
\<close>

named_theorems unflagged_rules \<open>results and procedures that never carry the fail-open signal\<close>

section \<open>Results\<close>

lemma errFailOpen_simps [simp]:
  "errors_Is (Errorf e f args) errFailOpen = errors_Is e errFailOpen"
  "\<not> errors_Is (NewError f args) errFailOpen" "\<not> errors_Is (DriverErr m) errFailOpen"
  "\<not> errors_Is ErrInvalidInput errFailOpen" "\<not> errors_Is ErrNotFound errFailOpen" "\<not> errors_Is ErrConflict errFailOpen"
  "\<not> errors_Is ErrRateLimited errFailOpen" "\<not> errors_Is ErrUnauthorized errFailOpen" "\<not> errors_Is ErrNoRows errFailOpen"
  "errors_Is (JoinErr a b) errFailOpen = (errors_Is a errFailOpen \<or> errors_Is b errFailOpen)"
  "Errorf e f args \<noteq> errFailOpen" "JoinErr a b \<noteq> errFailOpen"
  "NewError f args \<noteq> errFailOpen" "DriverErr m \<noteq> errFailOpen"
  by (auto simp: errFailOpen_def sentinel_defs ErrNoRows_def)

definition unflagged :: "go_error + 'a \<Rightarrow> bool" where
  "unflagged r \<longleftrightarrow> (case r of Inl e \<Rightarrow> \<not> errors_Is e errFailOpen | Inr _ \<Rightarrow> True)"

lemma unflagged_simps [simp]: "unflagged (Inr x)" "unflagged (Inl e) = (\<not> errors_Is e errFailOpen)"
  by (simp_all add: unflagged_def)

lemma unflagged_reject [unflagged_rules]:
  "\<not> errors_Is e errFailOpen \<Longrightarrow> unflagged r \<Longrightarrow> unflagged (reject_if b e r)"
  by (simp add: reject_if_def)

lemma unflagged_try [unflagged_rules]: "unflagged r \<Longrightarrow> (\<And>x. unflagged (k x)) \<Longrightarrow> unflagged (try_res r k)"
  by (cases r) auto

lemma unflagged_map [unflagged_rules]: "(\<And>x. unflagged (f x)) \<Longrightarrow> unflagged (map_res f xs)"
  by (induction xs) (auto intro!: unflagged_try)

lemma unflagged_fold [unflagged_rules]: "(\<And>x acc. unflagged (f x acc)) \<Longrightarrow> unflagged (fold_res f xs acc)"
  by (induction xs arbitrary: acc) (auto intro!: unflagged_try)

lemma unflagged_subject [unflagged_rules]: "unflagged (NormalizeSubject s)"
  by (auto simp: NormalizeSubject_def NormalizeOptionalSubject_def Let_def intro!: unflagged_rules)

lemma unflagged_domain [unflagged_rules]:
  "unflagged (NewEvent i k sj m q et rt md)"
  "unflagged (NewIngestionRun i kd a d f t)" "unflagged (json_roundtrip md)" "unflagged (RequireWorkspaceID ctx)"
  "unflagged (NewDimension n mt dn ds rq dp)" "unflagged (normalizeEventRetentionDays dd)"
  by (auto simp: NewEvent_def NewIngestionRun_def json_roundtrip_def RequireWorkspaceID_def NewDimension_def
    normalizeEventRetentionDays_def Let_def intro!: unflagged_rules split: option.splits)

lemma unflagged_set_path: "unflagged (set_path key m parts x)"
  by (induction key m parts x rule: set_path.induct) (auto intro!: unflagged_rules split: option.splits any.splits)

lemma unflagged_metadata [unflagged_rules]: "unflagged (NormalizeMetadata m md)"
  unfolding NormalizeMetadata_def normalize_metadata_step_def setMetadataPathValue_def
  by (auto intro!: unflagged_rules unflagged_set_path simp: Let_def split: option.splits)

lemma unflagged_meter [unflagged_rules]: "unflagged (meterFromFields row)"
  unfolding meterFromFields_def NewWithDimensions_def normalizeDimensions_def normalize_dimension_step_def
  by (auto intro!: unflagged_rules simp: Let_def split: prod.splits)

lemma unflagged_stored [unflagged_rules]: "unflagged (stored_form e)" "unflagged (eventFromFields e)"
  "unflagged (marshal_result r)"
  unfolding stored_form_def eventFromFields_def marshal_result_def by (auto intro!: unflagged_rules)

section \<open>Procedures\<close>

definition never_flags :: "(world, 'a) proc \<Rightarrow> bool" where
  "never_flags m \<longleftrightarrow> (\<forall>w. unflagged (fst (m w)))"

lemma never_flagsD: "never_flags m \<Longrightarrow> m w = (Inl e, u) \<Longrightarrow> \<not> errors_Is e errFailOpen"
  unfolding never_flags_def by (metis fst_conv unflagged_simps(2))

lemma never_flags_basic [unflagged_rules]:
  "never_flags (return_ok x)" "\<not> errors_Is e errFailOpen \<Longrightarrow> never_flags (return_err e)"
  "unflagged r \<Longrightarrow> never_flags (lift_res r)" "never_flags clock_now" "never_flags fresh_id"
  by (auto simp: never_flags_def clock_now_def fresh_id_def split: list.splits)

lemma never_flags_attempt [unflagged_rules]:
  "never_flags m \<Longrightarrow> (\<And>x. never_flags (k x)) \<Longrightarrow> never_flags (attempt m k)"
  unfolding never_flags_def attempt_def by (auto split: prod.splits sum.splits) (metis fst_conv unflagged_simps(2))

lemma never_flags_inspect [unflagged_rules]:
  assumes "never_flags m" "\<And>r. unflagged r \<Longrightarrow> never_flags (k r)"
  shows "never_flags (inspect m k)"
  unfolding never_flags_def
proof
  fix w
  obtain r u where m: "m w = (r, u)" by (cases "m w")
  then have "unflagged r" using assms(1) unfolding never_flags_def by (metis fst_conv)
  from assms(2) [OF this] show "unflagged (fst (inspect m k w))" using m by (simp add: inspect_apply never_flags_def)
qed

lemma never_flags_foreach [unflagged_rules]: "(\<And>x acc. never_flags (body x acc)) \<Longrightarrow> never_flags (foreach xs acc body)"
  by (induction xs arbitrary: acc) (auto intro!: unflagged_rules)

lemma never_flags_stmt:
  "(\<And>d. unflagged (fst (f d))) \<Longrightarrow> never_flags (stmt f)"
  unfolding never_flags_def stmt_def
  by (auto split: option.splits prod.splits sum.splits) (metis fst_conv unflagged_simps(2))

lemma never_flags_statements [unflagged_rules]:
  "never_flags (query q)" "never_flags (exec f)" "never_flags (execrows n f)" "never_flags (exec_unique ok f)"
  unfolding query_def exec_def execrows_def exec_unique_def
  by (auto intro!: never_flags_stmt simp: unique_violation_def)

lemma never_flags_with_workspace [unflagged_rules]: "(\<And>ws. never_flags (k ws)) \<Longrightarrow> never_flags (with_workspace ctx k)"
  unfolding with_workspace_def by (intro unflagged_rules)

lemma never_flags_in_transaction [unflagged_rules]:
  assumes "never_flags m"
  shows "never_flags (in_transaction m)"
  unfolding never_flags_def
proof
  fix w
  have "\<not> errors_Is e errFailOpen" if "m v = (Inl e, u)" for v e u using never_flagsD [OF assms that] .
  then show "unflagged (fst (in_transaction m w))"
    by (auto simp: in_transaction_def WithinTransaction_def as_body_def unflagged_def
        split: if_splits option.splits prod.splits sum.splits)
qed

lemma never_flags_if [unflagged_rules]: "never_flags m \<Longrightarrow> never_flags n \<Longrightarrow> never_flags (if b then m else n)"
  by simp

section \<open>The calls of the transactions\<close>

lemma never_flags_find_result [unflagged_rules]: "never_flags (find_result ctx key)"
  unfolding find_result_def Decisions_Find_def by (auto intro!: unflagged_rules split: option.splits)

lemma never_flags_persist [unflagged_rules]: "never_flags (persist ctx key result)"
  unfolding persist_def Decisions_Save_def Decisions_Find_def Let_def
  by (auto intro!: unflagged_rules split: option.splits)

lemma never_flags_reads [unflagged_rules]:
  "never_flags (findByID ctx i)" "never_flags (findByIdempotencyKey ctx k)" "never_flags (FindEventByIdempotencyKey ctx k)"
  unfolding FindEventByIdempotencyKey_def findByID_def findByIdempotencyKey_def read_event_def
  by (auto intro!: unflagged_rules split: option.splits sum.splits)

lemma never_flags_get [unflagged_rules]: "never_flags (GetByIdempotencyKey ctx key)"
  unfolding GetByIdempotencyKey_def Let_def by (auto intro!: unflagged_rules)

lemma never_flags_capacity [unflagged_rules]: "never_flags (checkIngestionCapacity limits ctx n)"
  unfolding checkIngestionCapacity_def ConsumeIngestionCapacity_def record_throttled_def Let_def
  by (auto intro!: unflagged_rules never_flags_stmt simp: rate_limited_def split: prod.splits)

lemma never_flags_Meters_Find [unflagged_rules]: "never_flags (Meters_Find ctx q)"
  unfolding Meters_Find_def by (auto intro!: unflagged_rules)

lemma never_flags_batch [unflagged_rules]: "never_flags (saveEventBatch ctx ws events)"
  unfolding saveEventBatch_def insertUsageEvents_def insert_statement_def resolve_duplicate_def applyAcceptedUsage_def
    findUsagePlanAssignments_def IncrementEntitlementUsageCounter_def IncrementWorkspaceUsageEvents_def
  by (auto intro!: unflagged_rules never_flags_stmt simp: null_quantity_def split: prod.splits sum.splits)

lemma never_flags_save [unflagged_rules]: "never_flags (save_with_outbox ctx kind e)"
  unfolding save_with_outbox_def Usage_Save_def EnqueueOutbox_def EnqueueUsageEventOutbox_def saveIngestionRun_def
    SaveIngestionRun_def Let_def
  by (auto intro!: unflagged_rules)

text \<open>\<^verbatim>\<open>newEvent\<close> returns variables along with its error.\<close>

definition var_unflagged :: "(world \<Rightarrow> (go_error option \<times> 'v) \<times> world) \<Rightarrow> bool" where
  "var_unflagged f \<longleftrightarrow> (\<forall>w e v u. f w = ((Some e, v), u) \<longrightarrow> \<not> errors_Is e errFailOpen)"

lemma var_unflaggedD: "var_unflagged f \<Longrightarrow> f w = ((Some e, v), u) \<Longrightarrow> \<not> errors_Is e errFailOpen"
  unfolding var_unflagged_def by blast

lemma var_unflagged_try [unflagged_rules]:
  "never_flags m \<Longrightarrow> (\<And>x. var_unflagged (k x)) \<Longrightarrow> var_unflagged (try_var v m k)"
  unfolding var_unflagged_def try_var_eq by (fastforce dest: never_flagsD)

lemma var_unflagged_return [unflagged_rules]: "(case e of None \<Rightarrow> True | Some x \<Rightarrow> \<not> errors_Is x errFailOpen) \<Longrightarrow> var_unflagged (return_var e v)"
  by (auto simp: var_unflagged_def return_var_def)

lemma var_unflagged_inspect [unflagged_rules]:
  assumes "never_flags m" "\<And>r. unflagged r \<Longrightarrow> var_unflagged (k r)"
  shows "var_unflagged (inspect_var m k)"
  unfolding var_unflagged_def inspect_var_def
proof (intro allI impI)
  fix w e v u assume run: "(case m w of (r, u) \<Rightarrow> k r u) = ((Some e, v), u)"
  obtain r t where m: "m w = (r, t)" by (cases "m w")
  then have "unflagged r" using assms(1) unfolding never_flags_def by (metis fst_conv)
  from assms(2) [OF this] show "\<not> errors_Is e errFailOpen" using run m by (auto simp: var_unflagged_def)
qed

lemma var_unflagged_newEvent: "var_unflagged (newEvent ctx cmd meters)"
  unfolding newEvent_def Let_def by (auto intro!: unflagged_rules split: option.splits list.splits)

lemma never_flags_new_event [unflagged_rules]: "never_flags (new_event ctx cmd)"
  by (auto simp: never_flags_def new_event_def unflagged_def dest: var_unflaggedD [OF var_unflagged_newEvent]
      split: prod.splits option.splits)

lemma never_flags_Create [unflagged_rules]: "never_flags (Create limits ctx cmd)"
  unfolding Create_def create_def by (auto intro!: unflagged_rules)

lemma var_unflagged_persist_into [unflagged_rules]: "var_unflagged (persist_into ctx key result)"
  unfolding persist_into_def by (auto intro!: unflagged_rules)

lemma var_unflagged_create_and_persist [unflagged_rules]: "var_unflagged (create_and_persist limits ctx key cmd result)"
  unfolding create_and_persist_def by (auto intro!: unflagged_rules)

lemma var_unflagged_unless_decided [unflagged_rules]:
  "var_unflagged f \<Longrightarrow> var_unflagged (unless_decided ctx key result f)"
  unfolding unless_decided_def by (auto intro!: unflagged_rules split: sum.splits)

text \<open>The signal of the first transaction comes from its assessment alone.\<close>

lemma consume_assessed_signal:
  assumes run: "consume_assessed limits ctx key cmd err a w = ((Some e, r), u)" and signal: "errors_Is e errFailOpen"
  shows "ca_FailurePolicy a \<noteq> FailClosed \<and> r = zero_consume_result\<lparr>cr_Quota := a\<rparr> \<and> u = w"
proof (cases err)
  case None
  have "var_unflagged (consume_assessed limits ctx key cmd None a)"
    unfolding consume_assessed_def Let_def by (auto intro!: unflagged_rules split: sum.splits)
  from var_unflaggedD [OF this, of w e r u] show ?thesis using run signal None by simp
next
  case (Some x)
  show ?thesis
  proof (cases "ca_FailurePolicy a = FailClosed")
    case True
    then have "persist_into ctx key (zero_consume_result\<lparr>cr_Quota := a, cr_EvaluationFailed := True\<rparr>) w = ((Some e, r), u)"
      using run Some by (simp add: consume_assessed_def)
    from var_unflaggedD [OF var_unflagged_persist_into this] show ?thesis using signal by simp
  next
    case False
    then show ?thesis using run Some by (auto simp: consume_assessed_def return_var_def)
  qed
qed

end
