(* ===== verification/UsageLedger.thy ===== *)
theory UsageLedger
  imports UsageService "HOL-Library.Sublist"
begin

text \<open>
  What recording usage keeps and does.  \<^verbatim>\<open>ledger_ok\<close> is the integrity of the usage tables: event ids
  are unique, an idempotency key names one event of its workspace, the counted total of a
  workspace is the number of its events, and every outbox message belongs to one stored event.
  The lemmas follow an event from the insert statement through the repository and the service.
\<close>

section \<open>Integrity of the usage tables\<close>

definition keyed :: "string \<times> Event \<Rightarrow> bool" where
  "keyed row \<longleftrightarrow> ev_idempotencyKey (snd row) \<noteq> []"

definition events_unique :: "(string \<times> Event) list \<Rightarrow> bool" where
  "events_unique rows \<longleftrightarrow>
    distinct_keys (\<lambda>row. ev_id (snd row)) rows \<and>
    distinct_keys (\<lambda>row. (fst row, ev_idempotencyKey (snd row))) (filter keyed rows)"

definition usage_count :: "string \<Rightarrow> db \<Rightarrow> int" where
  "usage_count ws d = (case map_of (db_usage_counts d) ws of None \<Rightarrow> 0 | Some n \<Rightarrow> n)"

definition workspace_events :: "string \<Rightarrow> db \<Rightarrow> Event list" where
  "workspace_events ws d = map snd (filter (\<lambda>row. fst row = ws) (db_events d))"

definition counts_ok :: "db \<Rightarrow> bool" where
  "counts_ok d \<longleftrightarrow> distinct_keys fst (db_usage_counts d) \<and>
    (\<forall>ws. usage_count ws d = int (length (workspace_events ws d)))"

definition outbox_key :: "OutboxRow \<Rightarrow> string \<times> string" where
  "outbox_key m = (ob_WorkspaceID m, ob_EventID m)"

definition event_key :: "string \<times> Event \<Rightarrow> string \<times> string" where
  "event_key row = (fst row, ev_id (snd row))"

definition outbox_ok :: "db \<Rightarrow> bool" where
  "outbox_ok d \<longleftrightarrow> distinct_keys ob_PublicID (db_outbox d) \<and> distinct_keys outbox_key (db_outbox d) \<and>
    outbox_key ` set (db_outbox d) \<subseteq> event_key ` set (db_events d)"

definition events_valid :: "db \<Rightarrow> bool" where
  "events_valid d \<longleftrightarrow> (\<forall>row \<in> set (db_events d). valid_event (snd row))"

text \<open>A bulk response is stored under a key.\<close>

definition bulk_ok :: "db \<Rightarrow> bool" where
  "bulk_ok d \<longleftrightarrow> (\<forall>ws. map_of (db_bulk d) (ws, []) = None)"

definition ledger_ok :: "db \<Rightarrow> bool" where
  "ledger_ok d \<longleftrightarrow> events_unique (db_events d) \<and> events_valid d \<and> counts_ok d \<and> outbox_ok d \<and> bulk_ok d"

section \<open>Inserting events\<close>

lemma events_unique_snoc:
  assumes "events_unique rows" and "\<not> list_ex (taken ws e) rows"
  shows "events_unique (rows @ [(ws, e)])"
proof -
  have "\<And>r. r \<in> set rows \<Longrightarrow> ev_id (snd r) \<noteq> ev_id e"
    "\<And>r. r \<in> set rows \<Longrightarrow> ev_idempotencyKey e \<noteq> [] \<Longrightarrow> fst r = ws \<Longrightarrow> ev_idempotencyKey (snd r) \<noteq> ev_idempotencyKey e"
    using assms(2) by (auto simp: list_ex_iff taken_def)
  then show ?thesis
    using assms(1) by (auto simp: events_unique_def keyed_def intro!: distinct_keys_snoc) (metis image_iff snd_conv)+
qed

lemma insert_event_row_simps [simp]:
  "list_ex (taken ws e) rows \<Longrightarrow> insert_event_row ws (rows, ids) e = (rows, ids)"
  "\<not> list_ex (taken ws e) rows \<Longrightarrow> insert_event_row ws (rows, ids) e = (rows @ [(ws, e)], ids @ [ev_id e])"
  by (simp_all add: insert_event_row_def)

lemma insert_event_rows_fold:
  assumes "foldl (insert_event_row ws) (rows, ids) events = (rows', ids')" and "events_unique rows"
  obtains new where "rows' = rows @ map (Pair ws) new" "ids' = ids @ map ev_id new" "subseq new events"
    "events_unique rows'"
  using assms
proof (induction events arbitrary: rows ids thesis)
  case Nil
  then show ?case using Nil.prems(1) [of "[]"] by simp
next
  case (Cons e events)
  show ?case
  proof (cases "list_ex (taken ws e) rows")
    case True
    then have "foldl (insert_event_row ws) (rows, ids) events = (rows', ids')"
      using Cons.prems(2) by simp
    from Cons.IH [OF _ this Cons.prems(3)] obtain new where
      "rows' = rows @ map (Pair ws) new" "ids' = ids @ map ev_id new" "subseq new events" "events_unique rows'" .
    then show ?thesis using Cons.prems(1) [of new] by (simp add: list_emb_Cons)
  next
    case False
    then have "foldl (insert_event_row ws) (rows @ [(ws, e)], ids @ [ev_id e]) events = (rows', ids')"
      using Cons.prems(2) by simp
    from Cons.IH [OF _ this events_unique_snoc [OF Cons.prems(3) False]] obtain new where
      "rows' = (rows @ [(ws, e)]) @ map (Pair ws) new" "ids' = (ids @ [ev_id e]) @ map ev_id new"
      "subseq new events" "events_unique rows'" .
    then show ?thesis using Cons.prems(1) [of "e # new"] by simp
  qed
qed

text \<open>The tables after events were appended for a workspace, in their stored form.\<close>

definition stored :: "Event \<Rightarrow> Event \<Rightarrow> bool" where
  "stored e row \<longleftrightarrow> stored_form e = Inr row"

lemma stored_fields: "stored e row \<Longrightarrow> row = e\<lparr>ev_metadata := ev_metadata row\<rparr>"
  by (auto simp: stored_def stored_form_def try_res_eq_Inr)

lemma stored_id: "stored e row \<Longrightarrow> ev_id row = ev_id e"
  by (auto simp: stored_def stored_form_def try_res_eq_Inr)

lemma stored_valid: "stored e row \<Longrightarrow> valid_event row = valid_event e"
  by (auto simp: stored_def stored_form_def try_res_eq_Inr valid_event_def)

lemma stored_ids: "list_all2 stored es rows \<Longrightarrow> map ev_id rows = map ev_id es"
  by (induction rule: list_all2_induct) (auto simp: stored_id)

lemma subseq_list_all2:
  "list_all2 R xs ys \<Longrightarrow> subseq zs ys \<Longrightarrow> \<exists>us. subseq us xs \<and> list_all2 R us zs"
proof (induction arbitrary: zs rule: list_all2_induct)
  case Nil
  then show ?case by (intro exI [of _ "[]"]) (auto dest: list_emb_Nil2)
next
  case (Cons x xs y ys)
  from Cons.prems show ?case
  proof (cases rule: list_emb.cases)
    case (list_emb_Cons)
    then obtain us where "subseq us xs" "list_all2 R us zs" using Cons.IH by blast
    then show ?thesis by blast
  next
    case (list_emb_Cons2 z zs')
    then obtain us where "subseq us xs" "list_all2 R us zs'" using Cons.IH by blast
    then show ?thesis using list_emb_Cons2 Cons.hyps by (intro exI [of _ "x # us"]) auto
  qed auto
qed

definition appended :: "string \<Rightarrow> db \<Rightarrow> Event list \<Rightarrow> db \<Rightarrow> bool" where
  "appended ws d0 es d \<longleftrightarrow>
    (\<exists>rows. list_all2 stored es rows \<and> d = d0\<lparr>db_events := db_events d0 @ map (Pair ws) rows\<rparr>) \<and>
    events_unique (db_events d)"

lemma ensures_insert_statement:
  assumes "list_all2 stored chunk rows"
  shows "ensures (on_db (appended ws d0 pre)) (insert_statement ws rows)
    (\<lambda>ids. on_db (\<lambda>d. \<exists>es. ids = map ev_id es \<and> subseq es chunk \<and> appended ws d0 (pre @ es) d))"
  unfolding insert_statement_def
proof (rule ensures_stmt)
  fix d ids d'
  assume pre: "appended ws d0 pre d"
    and run: "(if list_ex (\<lambda>e. ev_quantity e = NaN) rows then (Inl null_quantity, d)
      else case insert_event_rows ws rows d of (ids, d') \<Rightarrow> (Inr ids, d')) = (Inr ids, d')"
  obtain all ids' where fold: "foldl (insert_event_row ws) (db_events d, []) rows = (all, ids')"
    by (cases "foldl (insert_event_row ws) (db_events d, []) rows")
  have unique: "events_unique (db_events d)" using pre by (auto simp: appended_def)
  from insert_event_rows_fold [OF fold unique] obtain new where
    new: "all = db_events d @ map (Pair ws) new" "ids' = map ev_id new" "subseq new rows" "events_unique all"
    by auto
  from subseq_list_all2 [OF assms new(3)] obtain es where es: "subseq es chunk" "list_all2 stored es new" by blast
  obtain old where old: "list_all2 stored pre old" "d = d0\<lparr>db_events := db_events d0 @ map (Pair ws) old\<rparr>"
    using pre by (auto simp: appended_def)
  have "ids = ids'" "d' = d\<lparr>db_events := all\<rparr>"
    using run fold by (auto simp: insert_event_rows_def split: if_splits)
  moreover have "list_all2 stored (pre @ es) (old @ new)" using old es by (simp add: list_all2_appendI)
  ultimately have "appended ws d0 (pre @ es) d'"
    unfolding appended_def using new old by (intro conjI exI [of _ "old @ new"]) auto
  moreover have "ids = map ev_id es" using \<open>ids = ids'\<close> new stored_ids [OF es(2)] by simp
  ultimately show "\<exists>es. ids = map ev_id es \<and> subseq es chunk \<and> appended ws d0 (pre @ es) d'"
    using es by blast
qed

lemma concat_chunks: "0 < n \<Longrightarrow> concat (chunks n xs) = xs"
  by (induction n xs rule: chunks.induct) (auto simp: chunks.simps)

lemma ensures_insertUsageEvents:
  "ensures (on_db (\<lambda>d. d = d0 \<and> events_unique (db_events d0))) (insertUsageEvents ctx ws events)
    (\<lambda>ids. on_db (\<lambda>d. \<exists>es. ids = map ev_id es \<and> subseq es events \<and> appended ws d0 es d))"
proof -
  define I where "I = (\<lambda>(prev :: Event list list) ids. on_db (\<lambda>d. \<exists>es. ids = map ev_id es \<and>
    subseq es (concat prev) \<and> appended ws d0 es d))"
  have body: "ensures (I prev ids)
      (attempt (lift_res (map_res stored_form chunk)) (\<lambda>rows.
       attempt (insert_statement ws rows) (\<lambda>new_ids. return_ok (ids @ new_ids)))) (I (prev @ [chunk]))"
    for prev chunk ids
  proof (rule ensuresI)
    fix s x t
    assume s: "I prev ids s" and run: "attempt (lift_res (map_res stored_form chunk)) (\<lambda>rows.
       attempt (insert_statement ws rows) (\<lambda>new_ids. return_ok (ids @ new_ids))) s = (Inr x, t)"
    from run obtain rows new_ids where rows: "map_res stored_form chunk = Inr rows"
      and ins: "insert_statement ws rows s = (Inr new_ids, t)" and x: "x = ids @ new_ids"
      by (auto simp: attempt_eq_Inr)
    have forms: "list_all2 stored chunk rows" using rows by (simp add: map_res_list_all2 stored_def [abs_def])
    from s obtain pre where pre: "ids = map ev_id pre" "subseq pre (concat prev)" "on_db (appended ws d0 pre) s"
      by (auto simp: I_def on_db_def)
    from ensuresD [OF ensures_insert_statement [OF forms] ins pre(3)] obtain es where
      "new_ids = map ev_id es" "subseq es chunk" "appended ws d0 (pre @ es) (w_db t)"
      by (auto simp: on_db_def)
    then show "I (prev @ [chunk]) x t"
      using pre x by (auto simp: I_def on_db_def intro!: exI [of _ "pre @ es"] list_emb_append_mono)
  qed
  have "ensures (I [] []) (insertUsageEvents ctx ws events) (I (chunks usageInsertBatchSize events))"
    unfolding insertUsageEvents_def by (rule ensures_foreach) (rule body)
  then show ?thesis
    by (rule ensures_weaken) (auto simp: I_def on_db_def appended_def concat_chunks usageInsertBatchSize_def)
qed

section \<open>Counting\<close>

lemma map_of_row_find: "map_of rows k = map_option snd (row_find (\<lambda>r. fst r = k) rows)"
  by (induction rows) auto

definition add_count :: "string \<Rightarrow> int \<Rightarrow> (string \<times> int) list \<Rightarrow> (string \<times> int) list" where
  "add_count ws delta rows = row_upsert fst (\<lambda>(w, n). (w, max 0 (n + delta))) (ws, delta) rows"

lemma map_of_add_count:
  "map_of (add_count ws delta rows) v =
    (if v = ws then Some (case map_of rows ws of None \<Rightarrow> delta | Some n \<Rightarrow> max 0 (n + delta)) else map_of rows v)"
proof -
  have "row_find (\<lambda>r. fst r = v) (add_count ws delta rows) =
    (if v = ws then (case row_find (\<lambda>r. fst r = v) rows of None \<Rightarrow> Some (ws, delta)
       | Some (w, n) \<Rightarrow> Some (w, max 0 (n + delta)))
     else row_find (\<lambda>r. fst r = v) rows)"
    unfolding add_count_def
    using row_find_upsert [of fst "(ws, delta)" "\<lambda>(w, n). (w, max 0 (n + delta))" v rows]
    by (auto split: option.splits)
  then show ?thesis
    by (auto simp: map_of_row_find split: option.splits)
qed

lemma distinct_add_count: "distinct_keys fst rows \<Longrightarrow> distinct_keys fst (add_count ws delta rows)"
  unfolding add_count_def by (rule distinct_keys_upsert) auto

lemma usage_count_add:
  assumes "db_usage_counts d = add_count ws n (db_usage_counts d0)" "0 \<le> n" "0 \<le> usage_count ws d0"
  shows "usage_count v d = usage_count v d0 + (if v = ws then n else 0)"
  using assms by (auto simp: usage_count_def map_of_add_count split: option.splits)

text \<open>What \<^verbatim>\<open>applyAcceptedUsage\<close> leaves alone: every table but the counters and the counts.\<close>

definition same_events :: "db \<Rightarrow> db \<Rightarrow> bool" where
  "same_events d0 d \<longleftrightarrow>
    d\<lparr>db_counters := [], db_usage_counts := []\<rparr> = d0\<lparr>db_counters := [], db_usage_counts := []\<rparr>"

lemma db_fields_cong: "d = d' \<Longrightarrow> db_events d = db_events d' \<and> db_outbox d = db_outbox d'"
  by simp

lemma same_events_tables: "same_events d0 d \<Longrightarrow> db_events d = db_events d0 \<and> db_outbox d = db_outbox d0"
  unfolding same_events_def by (drule db_fields_cong) simp

lemma keeps_findUsagePlanAssignments [keeps_rules]: "keeps (on_db P) (findUsagePlanAssignments ws events)"
  unfolding findUsagePlanAssignments_def by (auto intro!: keeps_rules split: prod.splits)

lemma ensures_applyAcceptedUsage:
  "ensures (on_db (\<lambda>d. d = d0)) (applyAcceptedUsage ws events) (\<lambda>_. on_db (\<lambda>d. same_events d0 d \<and>
     db_usage_counts d = (if events = [] then db_usage_counts d0
       else add_count ws (int (length events)) (db_usage_counts d0))))"
proof (cases "events = []")
  case True
  then show ?thesis by (simp add: applyAcceptedUsage_def ensures_def on_db_def same_events_def)
next
  case False
  let ?P = "\<lambda>d. same_events d0 d \<and> db_usage_counts d = db_usage_counts d0"
  have counters: "keeps (on_db ?P) (foreach cs () (\<lambda>c _. IncrementEntitlementUsageCounter (counter_row ws t c)))" for cs t
    unfolding IncrementEntitlementUsageCounter_def
    by (intro keeps_rules keeps_exec) (auto simp: same_events_def increment_counter_def)
  have "ensures (on_db ?P) (applyAcceptedUsage ws events) (\<lambda>_. on_db (\<lambda>d. same_events d0 d \<and>
      db_usage_counts d = add_count ws (int (length events)) (db_usage_counts d0)))"
    unfolding applyAcceptedUsage_def IncrementWorkspaceUsageEvents_def using False
    by (auto intro!: ensures_attempt [where R = "\<lambda>_. on_db ?P"] ensures_keeps keeps_rules counters ensures_exec
        simp: same_events_def add_count_def)
  then show ?thesis
    by (rule ensures_weaken) (auto simp: False on_db_def same_events_def)
qed

section \<open>Saving a batch\<close>

lemma keeps_read_event [keeps_rules]: "keeps (on_db P) (read_event p ctx)"
  unfolding read_event_def by (auto intro!: keeps_rules split: option.splits)

lemma keeps_reads [keeps_rules]:
  "keeps (on_db P) (findByID ctx i)" "keeps (on_db P) (findByIdempotencyKey ctx k)"
  "keeps (on_db P) (FindEventByIdempotencyKey ctx k)" "keeps (on_db P) (resolve_duplicate ctx e)"
  "keeps (on_db P) (findBulk ctx k)"
  unfolding findByID_def findByIdempotencyKey_def FindEventByIdempotencyKey_def resolve_duplicate_def findBulk_def
  by (auto intro!: keeps_rules split: sum.splits option.splits)

lemma subseq_filter: "subseq es xs \<Longrightarrow> distinct (map f xs) \<Longrightarrow> filter (\<lambda>x. f x \<in> f ` set es) xs = es"
proof (induction rule: list_emb.induct)
  case (list_emb_Cons es xs x)
  then have "f x \<notin> f ` set es" by (auto dest: list_emb_set)
  then show ?case using list_emb_Cons by simp
next
  case (list_emb_Cons2 x y es xs)
  have "filter (\<lambda>u. f u = f x \<or> f u \<in> f ` set es) xs = filter (\<lambda>u. f u \<in> f ` set es) xs"
    using list_emb_Cons2 by (intro filter_cong) (auto simp: image_iff)
  then show ?case using list_emb_Cons2 by simp
qed simp

text \<open>The tables after a batch was saved: the events accepted were appended in their stored form
  and counted; no other table but the quota counters changed.\<close>

definition batch_saved :: "string \<Rightarrow> db \<Rightarrow> Event list \<Rightarrow> db \<Rightarrow> bool" where
  "batch_saved ws d0 accepted d \<longleftrightarrow>
    (\<exists>rows. list_all2 stored accepted rows \<and> db_events d = db_events d0 @ map (Pair ws) rows) \<and>
    events_unique (db_events d) \<and> counts_ok d \<and>
    d\<lparr>db_counters := [], db_usage_counts := [], db_events := []\<rparr> =
      d0\<lparr>db_counters := [], db_usage_counts := [], db_events := []\<rparr>"

lemma batch_savedI:
  assumes old: "counts_ok d0" and one: "appended ws d0 accepted d1" and two: "same_events d1 d"
    and counts: "db_usage_counts d = (if accepted = [] then db_usage_counts d1
      else add_count ws (int (length accepted)) (db_usage_counts d1))"
  shows "batch_saved ws d0 accepted d"
proof -
  obtain rows where rows: "list_all2 stored accepted rows"
    and d1: "d1 = d0\<lparr>db_events := db_events d0 @ map (Pair ws) rows\<rparr>"
    using one by (auto simp: appended_def)
  have events: "db_events d = db_events d0 @ map (Pair ws) rows"
    using d1 same_events_tables [OF two] by simp
  have len: "length rows = length accepted" using rows by (simp add: list_all2_lengthD)
  have evs: "workspace_events v d = workspace_events v d0 @ (if v = ws then rows else [])" for v
    using events by (auto simp: workspace_events_def filter_map o_def)
  have cnt: "db_usage_counts d1 = db_usage_counts d0" using d1 by simp
  have "counts_ok d"
  proof (cases "accepted = []")
    case True
    then show ?thesis
      using old cnt counts len events by (simp add: counts_ok_def usage_count_def workspace_events_def)
  next
    case False
    then have added: "db_usage_counts d = add_count ws (int (length accepted)) (db_usage_counts d0)"
      using counts cnt by simp
    from added have "usage_count v d = usage_count v d0 + (if v = ws then int (length accepted) else 0)" for v
      by (rule usage_count_add) (use old in \<open>auto simp: counts_ok_def\<close>)
    then show ?thesis using old evs len distinct_add_count added by (auto simp: counts_ok_def)
  qed
  moreover have "d\<lparr>db_counters := [], db_usage_counts := [], db_events := []\<rparr> =
      d0\<lparr>db_counters := [], db_usage_counts := [], db_events := []\<rparr>"
  proof -
    have "(d\<lparr>db_counters := [], db_usage_counts := []\<rparr>)\<lparr>db_events := []\<rparr> =
        (d1\<lparr>db_counters := [], db_usage_counts := []\<rparr>)\<lparr>db_events := []\<rparr>"
      using two by (simp only: same_events_def)
    then show ?thesis using d1 by simp
  qed
  moreover have "events_unique (db_events d)"
    using one same_events_tables [OF two] by (auto simp: appended_def)
  ultimately show ?thesis using events rows by (auto simp: batch_saved_def)
qed

section \<open>Duplicates\<close>

lemma read_event_ok:
  assumes "read_event p ctx w = (Inr e, u)" and "events_valid (w_db w)" and "RequireWorkspaceID ctx = Inr ws"
  shows "\<exists>row \<in> set (db_events (w_db w)). fst row = ws \<and> p (snd row) \<and> ev_id e = ev_id (snd row) \<and> w_db u = w_db w"
proof -
  obtain row where row: "Some row = row_find (\<lambda>(w, e). w = ws \<and> p e) (db_events (w_db w))"
    and e: "eventFromFields (snd row) = Inr e" and u: "w_db u = w_db w"
    using assms(1,3)
    by (auto simp: read_event_def with_workspace_def attempt_eq_Inr dest!: query_ok split: option.splits prod.splits)
  have "row \<in> set (db_events (w_db w))" "fst row = ws" "p (snd row)"
    using row_find_Some [OF row [symmetric]] by auto
  moreover have "ev_id e = ev_id (snd row)"
    using e assms(2) \<open>row \<in> _\<close> NewEvent_fields
    by (fastforce simp: eventFromFields_def events_valid_def valid_event_def trimmed_TrimSpace)
  ultimately show ?thesis using u by blast
qed

lemma read_event_no_row:
  assumes "read_event p ctx w = (Inl ErrNoRows, u)" and "RequireWorkspaceID ctx = Inr ws"
  shows "\<forall>row \<in> set (db_events (w_db w)). fst row = ws \<longrightarrow> \<not> p (snd row)"
proof (rule ccontr)
  assume "\<not> ?thesis"
  then obtain row where "row_find (\<lambda>(w, e). w = ws \<and> p e) (db_events (w_db w)) = Some row"
    by (cases "row_find (\<lambda>(w, e). w = ws \<and> p e) (db_events (w_db w))") (auto simp: row_find_None)
  moreover have "eventFromFields e \<noteq> Inl ErrNoRows" for e
  proof
    assume "eventFromFields e = Inl ErrNoRows"
    then have "errors_Is ErrNoRows ErrInvalidInput"
      unfolding eventFromFields_def by (rule NewEvent_error)
    then show False by (simp add: ErrNoRows_def ErrInvalidInput_def)
  qed
  ultimately show False
    using assms by (auto simp: read_event_def with_workspace_def attempt_eq_Inl ErrNoRows_def query_def stmt_def
        split: option.splits prod.splits)
qed

text \<open>An event of a workspace is stored under an idempotency key.\<close>

definition stored_under :: "string \<Rightarrow> string \<Rightarrow> string \<Rightarrow> db \<Rightarrow> bool" where
  "stored_under ws key eid d \<longleftrightarrow> key \<noteq> [] \<and>
    (\<exists>row \<in> set (db_events d). fst row = ws \<and> ev_id (snd row) = eid \<and> ev_idempotencyKey (snd row) = key)"

lemma resolve_duplicate_other:
  assumes "resolve_duplicate ctx event w = (Inr e, u)" and "events_valid (w_db w)" and "RequireWorkspaceID ctx = Inr ws"
  shows "ev_id e \<noteq> ev_id event \<and> stored_under ws (ev_idempotencyKey event) (ev_id e) (w_db w)"
proof -
  obtain v where no: "findByID ctx (ev_id event) w = (Inl ErrNoRows, v)"
    and found: "findByIdempotencyKey ctx (ev_idempotencyKey event) v = (Inr e, u)"
    using assms(1) by (auto simp: resolve_duplicate_def inspect_def split: prod.splits sum.splits if_splits)
  have v: "w_db v = w_db w"
    using keepsD [OF keeps_reads(1), of "\<lambda>d. d = w_db w" w ctx "ev_id event"] no by (simp add: on_db_def)
  obtain row where row: "row \<in> set (db_events (w_db w))" "fst row = ws" "ev_id e = ev_id (snd row)"
    "ev_idempotencyKey (snd row) \<noteq> []" "ev_idempotencyKey (snd row) = ev_idempotencyKey event"
    using read_event_ok [OF found [unfolded findByIdempotencyKey_def]] assms v by auto
  then have "ev_id (snd row) \<noteq> ev_id event"
    using read_event_no_row [OF no [unfolded findByID_def] assms(3)] by auto
  then show ?thesis using row by (auto simp: stored_under_def)
qed

text \<open>The loop that sorts the events of a batch into accepted ones and duplicates.\<close>

definition sort_out :: "ctx \<Rightarrow> string list \<Rightarrow> Event \<Rightarrow> Event list \<times> Event list \<Rightarrow> (world, Event list \<times> Event list) proc" where
  "sort_out ctx inserted event acc = (case acc of (accepted, duplicates) \<Rightarrow>
    if ev_id event \<in> set inserted then return_ok (accepted @ [event], duplicates)
    else attempt (resolve_duplicate ctx event) (\<lambda>existing. return_ok (accepted, duplicates @ [existing])))"

lemma saveEventBatch_alt:
  "saveEventBatch ctx ws events =
    attempt (insertUsageEvents ctx ws events) (\<lambda>inserted.
    attempt (foreach events ([], []) (sort_out ctx inserted)) (\<lambda>(accepted, duplicates).
    attempt (applyAcceptedUsage ws accepted) (\<lambda>_.
    return_ok (NewBulkSaveResult accepted duplicates))))"
  by (simp add: saveEventBatch_def sort_out_def [abs_def])

lemma ensures_sort_out:
  assumes "events_valid D" and "RequireWorkspaceID ctx = Inr ws"
  shows "ensures (on_db (\<lambda>d. d = D)) (foreach events ([], []) (sort_out ctx inserted))
    (\<lambda>(accepted, duplicates). on_db (\<lambda>d. d = D \<and> accepted = filter (\<lambda>e. ev_id e \<in> set inserted) events
      \<and> length accepted + length duplicates = length events
      \<and> set duplicates \<subseteq> {x. \<exists>e \<in> set events. ev_id x \<noteq> ev_id e \<and> stored_under ws (ev_idempotencyKey e) (ev_id x) D}))"
proof -
  define I where "I = (\<lambda>prev (acc :: Event list \<times> Event list). on_db (\<lambda>d. d = D \<and>
    fst acc = filter (\<lambda>e. ev_id e \<in> set inserted) prev \<and> length (fst acc) + length (snd acc) = length prev \<and>
    set (snd acc) \<subseteq> {x. \<exists>e \<in> set prev. ev_id x \<noteq> ev_id e \<and> stored_under ws (ev_idempotencyKey e) (ev_id x) D}))"
  have body: "ensures (I prev acc) (sort_out ctx inserted e acc) (I (prev @ [e]))" for prev e acc
  proof (rule ensuresI)
    fix s x t assume s: "I prev acc s" and run: "sort_out ctx inserted e acc s = (Inr x, t)"
    have D: "w_db s = D" using s by (simp add: I_def on_db_def)
    show "I (prev @ [e]) x t"
    proof (cases "ev_id e \<in> set inserted")
      case True
      then have "x = (fst acc @ [e], snd acc)" "t = s"
        using run by (auto simp: sort_out_def split: prod.splits)
      then show ?thesis using s True by (fastforce simp: I_def on_db_def)
    next
      case False
      obtain existing where dup: "resolve_duplicate ctx e s = (Inr existing, t)"
        and x: "x = (fst acc, snd acc @ [existing])"
        using run False by (auto simp: sort_out_def attempt_eq_Inr split: prod.splits)
      have "w_db t = D" using keepsD [OF keeps_reads(4), of "\<lambda>d. d = D" s ctx e] dup D by (simp add: on_db_def)
      then show ?thesis
        using resolve_duplicate_other [OF dup _ assms(2)] assms(1) s False x D
        by (fastforce simp: I_def on_db_def)
    qed
  qed
  have "ensures (I [] ([], [])) (foreach events ([], []) (sort_out ctx inserted)) (I events)"
    by (rule ensures_foreach) (rule body)
  then show ?thesis
    by (rule ensures_weaken) (auto simp: I_def on_db_def)
qed

lemma appended_valid:
  assumes "appended ws d0 es d" "events_valid d0" "\<forall>e \<in> set es. valid_event e"
  shows "events_valid d"
proof -
  obtain rows where rows: "list_all2 stored es rows" "db_events d = db_events d0 @ map (Pair ws) rows"
    using assms(1) by (auto simp: appended_def)
  have "\<forall>r \<in> set rows. valid_event r"
    using rows(1) assms(3) by (induction rule: list_all2_induct) (auto simp: stored_valid)
  then show ?thesis using rows(2) assms(2) by (auto simp: events_valid_def)
qed

text \<open>A duplicate is another stored event of the workspace.\<close>

definition elsewhere :: "string \<Rightarrow> db \<Rightarrow> Event list \<Rightarrow> Event \<Rightarrow> bool" where
  "elsewhere ws d events x \<longleftrightarrow>
    (\<exists>e \<in> set events. ev_id x \<noteq> ev_id e \<and> stored_under ws (ev_idempotencyKey e) (ev_id x) d)"

lemma ensures_saveEventBatch:
  assumes distinct: "distinct (map ev_id events)" and valid: "\<forall>e \<in> set events. valid_event e"
    and ws: "RequireWorkspaceID ctx = Inr ws"
  shows "ensures (on_db (\<lambda>d. d = d0 \<and> ledger_ok d0)) (saveEventBatch ctx ws events)
    (\<lambda>r. on_db (\<lambda>d. batch_saved ws d0 (bsr_accepted r) d \<and> events_valid d \<and> \<not> bsr_replayed r
       \<and> subseq (bsr_accepted r) events \<and> set (bsr_duplicates r) \<subseteq> Collect (elsewhere ws d events)
       \<and> length (bsr_accepted r) + length (bsr_duplicates r) = length events))"
proof (rule ensuresI)
  fix s r t
  assume s: "on_db (\<lambda>d. d = d0 \<and> ledger_ok d0) s" and run: "saveEventBatch ctx ws events s = (Inr r, t)"
  from run obtain ids u acc dup v where ins: "insertUsageEvents ctx ws events s = (Inr ids, u)"
    and sort: "foreach events ([], []) (sort_out ctx ids) u = (Inr (acc, dup), v)"
    and app: "applyAcceptedUsage ws acc v = (Inr (), t)" and r: "r = NewBulkSaveResult acc dup"
    by (auto simp: saveEventBatch_alt attempt_eq_Inr split: prod.splits)
  have "on_db (\<lambda>d. d = d0 \<and> events_unique (db_events d0)) s" using s by (simp add: on_db_def ledger_ok_def)
  from ensuresD [OF ensures_insertUsageEvents ins this] obtain es where
    es: "ids = map ev_id es" "subseq es events" "appended ws d0 es (w_db u)"
    by (auto simp: on_db_def)
  have u: "events_valid (w_db u)"
    using appended_valid [OF es(3)] s valid es(2) by (auto simp: on_db_def ledger_ok_def dest: list_emb_set)
  have "on_db (\<lambda>d. d = w_db u) u" by (simp add: on_db_def)
  from ensuresD [OF ensures_sort_out [OF u ws] sort this]
  have acc: "w_db v = w_db u" "acc = filter (\<lambda>e. ev_id e \<in> set ids) events" "length acc + length dup = length events"
    "set dup \<subseteq> Collect (elsewhere ws (w_db u) events)"
    by (auto simp: on_db_def elsewhere_def)
  have "acc = es" using subseq_filter [OF es(2) distinct] acc(2) es(1) by simp
  have "on_db (\<lambda>d. d = w_db u) v" using acc by (simp add: on_db_def)
  from ensuresD [OF ensures_applyAcceptedUsage app this]
  have t: "same_events (w_db u) (w_db t)" "db_usage_counts (w_db t) = (if acc = [] then db_usage_counts (w_db u)
      else add_count ws (int (length acc)) (db_usage_counts (w_db u)))"
    by (simp_all add: on_db_def)
  have "batch_saved ws d0 acc (w_db t)"
    using batch_savedI [of d0 ws es "w_db u" "w_db t"] es s t \<open>acc = es\<close> by (simp add: on_db_def ledger_ok_def)
  moreover have "db_events (w_db t) = db_events (w_db u)" using same_events_tables [OF t(1)] by simp
  ultimately show "on_db (\<lambda>d. batch_saved ws d0 (bsr_accepted r) d \<and> events_valid d \<and> \<not> bsr_replayed r
       \<and> subseq (bsr_accepted r) events \<and> set (bsr_duplicates r) \<subseteq> Collect (elsewhere ws d events)
       \<and> length (bsr_accepted r) + length (bsr_duplicates r) = length events) t"
    using acc es u \<open>acc = es\<close>
    by (auto simp: on_db_def r NewBulkSaveResult_def copyEventSlice_def elsewhere_def stored_under_def events_valid_def)
qed

section \<open>Saving one event\<close>

lemma batch_saved_none: "batch_saved ws d0 [] d \<Longrightarrow> db_events d = db_events d0"
  by (auto simp: batch_saved_def)

lemma subseq_single: "subseq xs [x] \<Longrightarrow> xs = [x] \<or> xs = []"
  by (cases xs) (auto split: if_splits dest: list_emb_Nil2)

lemma ensures_Usage_Save:
  assumes "valid_event e" and "RequireWorkspaceID ctx = Inr ws"
  shows "ensures (on_db (\<lambda>d. d = d0 \<and> ledger_ok d0)) (Usage_Save ctx e)
    (\<lambda>r. on_db (\<lambda>d. events_valid d \<and> (if ev_id r = ev_id e then r = e \<and> batch_saved ws d0 [e] d
       else batch_saved ws d0 [] d \<and> stored_under ws (ev_idempotencyKey e) (ev_id r) d)))"
  unfolding Usage_Save_def
proof (rule ensures_in_transaction, rule ensuresI)
  fix s r t
  assume s: "on_db (\<lambda>d. d = d0 \<and> ledger_ok d0) s"
    and run: "with_workspace ctx (\<lambda>ws. attempt (saveEventBatch ctx ws [e]) (\<lambda>result.
      return_ok (if length (bsr_accepted result) = 1 then hd (bsr_accepted result)
        else hd (bsr_duplicates result)))) s = (Inr r, t)"
  then obtain b where b: "saveEventBatch ctx ws [e] s = (Inr b, t)"
    and r: "r = (if length (bsr_accepted b) = 1 then hd (bsr_accepted b) else hd (bsr_duplicates b))"
    using assms(2) by (auto simp: with_workspace_def attempt_eq_Inr)
  have post: "batch_saved ws d0 (bsr_accepted b) (w_db t)" "events_valid (w_db t)" "subseq (bsr_accepted b) [e]"
    "set (bsr_duplicates b) \<subseteq> Collect (elsewhere ws (w_db t) [e])"
    "length (bsr_accepted b) + length (bsr_duplicates b) = 1"
    using ensuresD [OF ensures_saveEventBatch [of "[e]" ctx ws d0] b s] assms by (auto simp: on_db_def)
  have "bsr_accepted b = [e] \<or> bsr_accepted b = []"
    using post(3) by (rule subseq_single)
  then show "on_db (\<lambda>d. events_valid d \<and> (if ev_id r = ev_id e then r = e \<and> batch_saved ws d0 [e] d
       else batch_saved ws d0 [] d \<and> stored_under ws (ev_idempotencyKey e) (ev_id r) d)) t"
  proof
    assume "bsr_accepted b = [e]"
    then show ?thesis using post r by (simp add: on_db_def)
  next
    assume none: "bsr_accepted b = []"
    then obtain x where "bsr_duplicates b = [x]" using post(5) by (auto simp: length_Suc_conv)
    then show ?thesis using post r none by (auto simp: on_db_def elsewhere_def)
  qed
qed

section \<open>Announcing events\<close>

definition announces :: "string \<Rightarrow> time \<Rightarrow> Event \<Rightarrow> OutboxRow \<Rightarrow> bool" where
  "announces ws now e m \<longleftrightarrow> (\<exists>public_id metadata. json_roundtrip (ev_metadata e) = Inr metadata \<and>
     m = pending_message public_id ws e metadata now)"

lemma announces_key: "announces ws now e m \<Longrightarrow> outbox_key m = (ws, ev_id e)"
  by (auto simp: announces_def outbox_key_def pending_message_def)

text \<open>One message was appended for each of the events.\<close>

definition announced :: "string \<Rightarrow> time \<Rightarrow> db \<Rightarrow> Event list \<Rightarrow> db \<Rightarrow> bool" where
  "announced ws now d0 es d \<longleftrightarrow> (\<exists>ms. list_all2 (announces ws now) es ms \<and>
     d = d0\<lparr>db_outbox := db_outbox d0 @ ms\<rparr> \<and> distinct_keys ob_PublicID (db_outbox d) \<and> distinct_keys outbox_key (db_outbox d))"

lemma announced_keys: "list_all2 (announces ws now) es ms \<Longrightarrow> map outbox_key ms = map (\<lambda>e. (ws, ev_id e)) es"
  by (induction rule: list_all2_induct) (auto simp: announces_key)

lemma EnqueueUsageEventOutbox_new:
  assumes "EnqueueUsageEventOutbox m w = (Inr (), u)" and "outbox_key m \<notin> outbox_key ` set (db_outbox (w_db w))"
  shows "w_db u = (w_db w)\<lparr>db_outbox := db_outbox (w_db w) @ [m]\<rparr> \<and> distinct_keys ob_PublicID (db_outbox (w_db u))"
proof -
  have "(ob_WorkspaceID m, ob_EventID m) \<notin> (\<lambda>r. (ob_WorkspaceID r, ob_EventID r)) ` set (db_outbox (w_db w))"
    using assms(2) by (simp add: outbox_key_def [abs_def])
  then show ?thesis
    using assms(1) by (auto simp: EnqueueUsageEventOutbox_def exec_unique_def dest!: stmt_ok split: if_splits)
qed

lemma ensures_enqueue_one:
  assumes "(ws, ev_id e) \<notin> outbox_key ` set (db_outbox d0)" and "ev_id e \<notin> ev_id ` set es"
  shows "ensures (on_db (announced ws now d0 es))
    (attempt (lift_res (json_roundtrip (ev_metadata e))) (\<lambda>metadata.
     attempt fresh_id (\<lambda>public_id. EnqueueUsageEventOutbox (pending_message public_id ws e metadata now))))
    (\<lambda>_. on_db (announced ws now d0 (es @ [e])))"
proof (rule ensuresI)
  fix s x t
  assume s: "on_db (announced ws now d0 es) s" and
    run: "attempt (lift_res (json_roundtrip (ev_metadata e))) (\<lambda>metadata.
     attempt fresh_id (\<lambda>public_id. EnqueueUsageEventOutbox (pending_message public_id ws e metadata now))) s = (Inr x, t)"
  from run obtain metadata pid u where md: "json_roundtrip (ev_metadata e) = Inr metadata"
    and fresh: "fresh_id s = (Inr pid, u)"
    and enq: "EnqueueUsageEventOutbox (pending_message pid ws e metadata now) u = (Inr (), t)"
    by (auto simp: attempt_eq_Inr)
  have u: "w_db u = w_db s" using fresh_id_db(1) [of s] fresh by simp
  obtain ms where ms: "list_all2 (announces ws now) es ms" "w_db s = d0\<lparr>db_outbox := db_outbox d0 @ ms\<rparr>"
    "distinct_keys outbox_key (db_outbox (w_db s))"
    using s by (auto simp: announced_def on_db_def)
  let ?m = "pending_message pid ws e metadata now"
  have m: "announces ws now e ?m" using md by (auto simp: announces_def)
  have "outbox_key ?m \<notin> outbox_key ` set (db_outbox (w_db s))"
  proof -
    have "outbox_key ` set ms = (\<lambda>e. (ws, ev_id e)) ` set es"
      using announced_keys [OF ms(1)] by (metis set_map)
    then have "(ws, ev_id e) \<notin> outbox_key ` set ms" using assms(2) by auto
    then show ?thesis using assms(1) ms(2) announces_key [OF m] by (auto simp: image_Un)
  qed
  with EnqueueUsageEventOutbox_new [OF enq] u
  have "w_db t = (w_db s)\<lparr>db_outbox := db_outbox (w_db s) @ [?m]\<rparr>" "distinct_keys ob_PublicID (db_outbox (w_db t))"
    by auto
  then show "on_db (announced ws now d0 (es @ [e])) t"
    using ms m \<open>outbox_key ?m \<notin> _\<close>
    by (auto simp: on_db_def announced_def intro!: exI [of _ "ms @ [?m]"] list_all2_appendI
        dest: distinct_keys_snoc [of _ _ ?m])
qed

lemma ensures_EnqueueOutbox:
  assumes "RequireWorkspaceID ctx = Inr ws" and "distinct (map ev_id events)"
    and "\<forall>e \<in> set events. (ws, ev_id e) \<notin> outbox_key ` set (db_outbox d0)"
    and "distinct_keys ob_PublicID (db_outbox d0)" "distinct_keys outbox_key (db_outbox d0)"
  shows "ensures (on_db (\<lambda>d. d = d0)) (EnqueueOutbox ctx events now) (\<lambda>_. on_db (announced ws now d0 events))"
proof -
  define ok where "ok = (\<lambda>es :: Event list. distinct (map ev_id es) \<and> (\<forall>e \<in> set es. (ws, ev_id e) \<notin> outbox_key ` set (db_outbox d0)))"
  define I where "I = (\<lambda>es (_ :: unit). on_db (\<lambda>d. ok es \<longrightarrow> announced ws now d0 es d))"
  let ?body = "\<lambda>e (_ :: unit). attempt (lift_res (json_roundtrip (ev_metadata e))) (\<lambda>metadata.
      attempt fresh_id (\<lambda>public_id. EnqueueUsageEventOutbox (pending_message public_id ws e metadata now)))"
  have "ensures (I es u) (?body e u) (I (es @ [e]))" for es u e
  proof (cases "ok (es @ [e])")
    case True
    then have "(ws, ev_id e) \<notin> outbox_key ` set (db_outbox d0)" "ev_id e \<notin> ev_id ` set es" and "ok es"
      by (auto simp: ok_def)
    from ensures_enqueue_one [OF this(1,2)] show ?thesis
      by (rule ensures_weaken) (use True \<open>ok es\<close> in \<open>auto simp: I_def on_db_def\<close>)
  next
    case False
    then show ?thesis by (simp add: I_def on_db_def ensures_def)
  qed
  then have "ensures (I [] ()) (foreach events () ?body) (I events)" by (rule ensures_foreach)
  then have "ensures (on_db (\<lambda>d. d = d0)) (foreach events () ?body) (\<lambda>_. on_db (announced ws now d0 events))"
    by (rule ensures_weaken) (use assms in \<open>auto simp: I_def ok_def on_db_def announced_def\<close>)
  then show ?thesis
    using assms(1) unfolding EnqueueOutbox_def by (intro ensures_with_workspace) auto
qed

section \<open>Recording\<close>

text \<open>The tables that recording usage does not touch.\<close>

definition other_tables :: "db \<Rightarrow> db" where
  "other_tables d = d\<lparr>db_counters := [], db_usage_counts := [], db_events := [], db_outbox := [],
     db_bulk := [], db_ingestions := [], db_rate_windows := [], db_throttled := []\<rparr>"

lemma other_tables_simps [simp]:
  "other_tables (d\<lparr>db_outbox := a\<rparr>) = other_tables d" "other_tables (d\<lparr>db_bulk := b\<rparr>) = other_tables d"
  "other_tables (d\<lparr>db_ingestions := c\<rparr>) = other_tables d" "other_tables (d\<lparr>db_rate_windows := r\<rparr>) = other_tables d"
  "other_tables (d\<lparr>db_throttled := t\<rparr>) = other_tables d" "other_tables (d\<lparr>db_usage_counts := n\<rparr>) = other_tables d"
  "other_tables (d\<lparr>db_counters := k\<rparr>) = other_tables d" "other_tables (d\<lparr>db_events := v\<rparr>) = other_tables d"
  by (simp_all add: other_tables_def)

lemma ledger_ok_frame:
  "db_events d' = db_events d \<Longrightarrow> db_bulk d' = db_bulk d \<Longrightarrow> db_outbox d' = db_outbox d \<Longrightarrow> db_usage_counts d' = db_usage_counts d \<Longrightarrow>
   ledger_ok d' = ledger_ok d"
  by (simp add: ledger_ok_def events_valid_def counts_ok_def outbox_ok_def bulk_ok_def usage_count_def workspace_events_def)

lemma stored_under_frame: "db_events d' = db_events d \<Longrightarrow> stored_under ws key eid d' = stored_under ws key eid d"
  by (simp add: stored_under_def)

lemma batch_saved_frame:
  assumes "batch_saved ws d0 es d"
  shows "db_outbox d = db_outbox d0" "other_tables d = other_tables d0" "db_bulk d = db_bulk d0"
proof -
  have eq: "d\<lparr>db_counters := [], db_usage_counts := [], db_events := []\<rparr> =
      d0\<lparr>db_counters := [], db_usage_counts := [], db_events := []\<rparr>" (is "?l = ?r")
    using assms by (simp add: batch_saved_def)
  have "db_outbox ?l = db_outbox ?r" using eq by (rule arg_cong)
  then show "db_outbox d = db_outbox d0" by simp
  have "db_bulk ?l = db_bulk ?r" using eq by (rule arg_cong)
  then show "db_bulk d = db_bulk d0" by simp
  have "other_tables ?l = other_tables ?r" using eq by (rule arg_cong)
  then show "other_tables d = other_tables d0" by simp
qed

lemma batch_saved_fresh:
  assumes "batch_saved ws d0 es d" and "outbox_ok d0"
  shows "\<forall>e \<in> set es. (ws, ev_id e) \<notin> outbox_key ` set (db_outbox d)" "distinct (map ev_id es)"
proof -
  obtain rows where rows: "list_all2 stored es rows" "db_events d = db_events d0 @ map (Pair ws) rows"
    and unique: "distinct_keys (\<lambda>row. ev_id (snd row)) (db_events d)"
    using assms(1) by (auto simp: batch_saved_def events_unique_def)
  have ids: "map ev_id rows = map ev_id es" using rows(1) by (rule stored_ids)
  have "distinct (map (\<lambda>row. ev_id (snd row)) (db_events d0) @ map ev_id rows)"
    using unique rows(2) by (simp add: distinct_keys_def o_def)
  then have fresh: "\<forall>e \<in> set es. ev_id e \<notin> (\<lambda>row. ev_id (snd row)) ` set (db_events d0)" "distinct (map ev_id es)"
    using ids by (auto simp: disjoint_iff)
  then show "distinct (map ev_id es)" by simp
  show "\<forall>e \<in> set es. (ws, ev_id e) \<notin> outbox_key ` set (db_outbox d)"
  proof
    fix e assume e: "e \<in> set es"
    show "(ws, ev_id e) \<notin> outbox_key ` set (db_outbox d)"
    proof
      assume "(ws, ev_id e) \<in> outbox_key ` set (db_outbox d)"
      then have "(ws, ev_id e) \<in> event_key ` set (db_events d0)"
        using assms(2) batch_saved_frame(1) [OF assms(1)] by (auto simp: outbox_ok_def)
      then show False using fresh(1) e by (auto simp: event_key_def)
    qed
  qed
qed

text \<open>Events saved and announced: the ledger is whole again.\<close>

lemma saved_and_announced:
  assumes old: "ledger_ok d0" and saved: "batch_saved ws d0 es d1" "events_valid d1" and "announced ws now d1 es d2"
  shows "ledger_ok d2" "db_events d2 = db_events d1" "other_tables d2 = other_tables d0"
proof -
  obtain ms where ms: "list_all2 (announces ws now) es ms" "d2 = d1\<lparr>db_outbox := db_outbox d1 @ ms\<rparr>"
    and keys: "distinct_keys ob_PublicID (db_outbox d2)" "distinct_keys outbox_key (db_outbox d2)"
    using assms(4) by (auto simp: announced_def)
  show "db_events d2 = db_events d1" using ms(2) by simp
  show "other_tables d2 = other_tables d0" using ms(2) batch_saved_frame(2) [OF saved(1)] by simp
  obtain rows where rows: "list_all2 stored es rows" "db_events d1 = db_events d0 @ map (Pair ws) rows"
    using saved(1) by (auto simp: batch_saved_def)
  have "outbox_key ` set ms = (\<lambda>e. (ws, ev_id e)) ` set es"
    using announced_keys [OF ms(1)] by (metis set_map)
  moreover have "(\<lambda>e. (ws, ev_id e)) ` set es = event_key ` set (map (Pair ws) rows)"
  proof -
    have "ev_id ` set rows = ev_id ` set es" using stored_ids [OF rows(1)] by (metis set_map)
    then have "Pair ws ` ev_id ` set rows = Pair ws ` ev_id ` set es" by simp
    then show ?thesis by (simp add: image_image event_key_def)
  qed
  ultimately have "outbox_key ` set (db_outbox d2) \<subseteq> event_key ` set (db_events d2)"
    using ms(2) rows(2) old batch_saved_frame(1) [OF saved(1)] by (auto simp: ledger_ok_def outbox_ok_def image_Un)
  then show "ledger_ok d2"
    using keys saved ms(2) old batch_saved_frame(3) [OF saved(1)]
    by (auto simp: ledger_ok_def bulk_ok_def outbox_ok_def batch_saved_def events_valid_def counts_ok_def usage_count_def workspace_events_def)
qed

text \<open>One event recorded: stored and announced, or found to be recorded already.\<close>

definition recorded :: "string \<Rightarrow> db \<Rightarrow> Event \<Rightarrow> Event \<Rightarrow> db \<Rightarrow> bool" where
  "recorded ws d0 requested event d \<longleftrightarrow> ledger_ok d \<and> other_tables d = other_tables d0 \<and>
    (if ev_id event = ev_id requested
     then event = requested \<and>
       (\<exists>row m now. stored event row \<and> db_events d = db_events d0 @ [(ws, row)] \<and>
          announces ws now event m \<and> db_outbox d = db_outbox d0 @ [m])
     else db_events d = db_events d0 \<and> db_outbox d = db_outbox d0 \<and> stored_under ws (ev_idempotencyKey requested) (ev_id event) d)"

lemma recorded_frame:
  "db_events d' = db_events d \<Longrightarrow> db_bulk d' = db_bulk d \<Longrightarrow> db_outbox d' = db_outbox d \<Longrightarrow> db_usage_counts d' = db_usage_counts d \<Longrightarrow>
   other_tables d' = other_tables d \<Longrightarrow> recorded ws d0 q e d' = recorded ws d0 q e d"
  by (simp add: recorded_def ledger_ok_frame [of d' d] stored_under_frame [of d' d])

lemma ledger_ok_simps [simp]:
  "ledger_ok (d\<lparr>db_ingestions := c\<rparr>) = ledger_ok d" "ledger_ok (d\<lparr>db_rate_windows := r\<rparr>) = ledger_ok d"
  "ledger_ok (d\<lparr>db_throttled := t\<rparr>) = ledger_ok d"
  by (rule ledger_ok_frame; simp)+

lemma recorded_ingestions [simp]: "recorded ws d0 q e (d\<lparr>db_ingestions := c\<rparr>) = recorded ws d0 q e d"
  by (rule recorded_frame) simp_all

lemma keeps_saveIngestionRun:
  assumes "\<And>d c. P d \<Longrightarrow> P (d\<lparr>db_ingestions := c\<rparr>)"
  shows "keeps (on_db P) (saveIngestionRun ctx cmd)"
  unfolding saveIngestionRun_def SaveIngestionRun_def
  by (auto intro!: keeps_rules keeps_exec_unique assms)

lemma saved_recorded:
  assumes "ledger_ok d0" "valid_event e" "events_valid d1" "batch_saved ws d0 [e] d1" "announced ws now d1 [e] d2"
  shows "recorded ws d0 e e d2"
proof -
  obtain row where "stored e row" "db_events d1 = db_events d0 @ [(ws, row)]"
    using assms(4) by (auto simp: batch_saved_def list_all2_Cons1)
  moreover obtain m where "announces ws now e m" "db_outbox d2 = db_outbox d0 @ [m]"
    using assms(5) batch_saved_frame(1) [OF assms(4)] by (auto simp: announced_def list_all2_Cons1)
  ultimately show ?thesis
    using saved_and_announced [OF assms(1,4,3,5)] by (auto simp: recorded_def)
qed

lemma duplicate_recorded:
  assumes "ledger_ok d0" "events_valid d" "batch_saved ws d0 [] d" "ev_id r \<noteq> ev_id e"
    "stored_under ws (ev_idempotencyKey e) (ev_id r) d"
  shows "recorded ws d0 e r d"
  using assms batch_saved_frame [OF assms(3)]
  by (auto simp: recorded_def ledger_ok_def bulk_ok_def outbox_ok_def batch_saved_def)

lemma ensures_save_with_outbox:
  assumes "valid_event requested" and ws: "RequireWorkspaceID ctx = Inr ws"
  shows "ensures (on_db (\<lambda>d. d = d0 \<and> ledger_ok d0)) (save_with_outbox ctx kind requested)
    (\<lambda>event. on_db (recorded ws d0 requested event))"
proof (rule ensuresI)
  fix s event t
  assume s: "on_db (\<lambda>d. d = d0 \<and> ledger_ok d0) s" and run: "save_with_outbox ctx kind requested s = (Inr event, t)"
  let ?same = "ev_id event = ev_id requested"
  from run obtain u v cmd where save: "Usage_Save ctx requested s = (Inr event, u)"
    and enq: "(if ?same then attempt clock_now (EnqueueOutbox ctx [event]) else return_ok ()) u = (Inr (), v)"
    and ing: "(if kind \<noteq> [] then attempt (saveIngestionRun ctx cmd) (\<lambda>_. return_ok ()) else return_ok ()) v = (Inr (), t)"
    unfolding save_with_outbox_def Let_def not_not attempt_eq_Inr by auto
  have old: "ledger_ok d0" using s by (simp add: on_db_def)
  have saved: "events_valid (w_db u)" "if ?same then event = requested \<and> batch_saved ws d0 [requested] (w_db u)
      else batch_saved ws d0 [] (w_db u) \<and> stored_under ws (ev_idempotencyKey requested) (ev_id event) (w_db u)"
    using ensuresD [OF ensures_Usage_Save [OF assms] save s] by (simp_all add: on_db_def)
  have "recorded ws d0 requested event (w_db v)"
  proof (cases ?same)
    case False
    then show ?thesis using duplicate_recorded [OF old saved(1)] saved(2) enq by simp
  next
    case True
    then have batch: "event = requested" "batch_saved ws d0 [event] (w_db u)" using saved by auto
    obtain now u' where "clock_now u = (Inr now, u')" "w_db u' = w_db u"
      and run': "EnqueueOutbox ctx [event] now u' = (Inr (), v)"
      using enq True by (auto simp: attempt_eq_Inr) (metis clock_now_db(1) snd_conv)
    have "outbox_ok (w_db u)" if "ledger_ok (w_db u)" using that by (simp add: ledger_ok_def)
    have keys: "distinct_keys ob_PublicID (db_outbox (w_db u))" "distinct_keys outbox_key (db_outbox (w_db u))"
      using old batch_saved_frame(1) [OF batch(2)] by (auto simp: ledger_ok_def outbox_ok_def)
    have "on_db (\<lambda>d. d = w_db u) u'" using \<open>w_db u' = w_db u\<close> by (simp add: on_db_def)
    from ensuresD [OF ensures_EnqueueOutbox [OF ws] run' this]
    have "announced ws now (w_db u) [event] (w_db v)"
      using batch_saved_fresh [OF batch(2)] old keys by (simp add: on_db_def ledger_ok_def)
    then show ?thesis using saved_recorded [OF old _ saved(1)] assms(1) batch by simp
  qed
  then have v: "on_db (recorded ws d0 requested event) v" by (simp add: on_db_def)
  have "keeps (on_db (recorded ws d0 requested event)) (saveIngestionRun ctx cmd)"
    by (rule keeps_saveIngestionRun) simp
  then have "keeps (on_db (recorded ws d0 requested event)) (if kind \<noteq> [] then attempt (saveIngestionRun ctx cmd)
      (\<lambda>_. return_ok ()) else return_ok ())"
    by (auto intro!: keeps_rules)
  from keepsD [OF this v] show "on_db (recorded ws d0 requested event) t"
    using ing by simp
qed

section \<open>Creating one event\<close>

lemma checkIngestionCapacity_keeps:
  assumes "\<And>d r. P d \<Longrightarrow> P (d\<lparr>db_rate_windows := r\<rparr>)" "\<And>d t. P d \<Longrightarrow> P (d\<lparr>db_throttled := t\<rparr>)"
  shows "keeps (on_db P) (checkIngestionCapacity limits ctx n)" "keeps (quiet P) (checkIngestionCapacity limits ctx n)"
proof -
  have "P (snd (reserve_capacity ws t n l u d))" if "P d" for ws t n l u d
    using that assms by (auto simp: reserve_capacity_def split: option.splits)
  then have 1: "keeps (on_db P) (stmt (\<lambda>d. case reserve_capacity ws t n l u d of (ok, d') \<Rightarrow> (Inr ok, d')))"
    "keeps (quiet P) (stmt (\<lambda>d. case reserve_capacity ws t n l u d of (ok, d') \<Rightarrow> (Inr ok, d')))" for ws t n l u
    by (auto intro!: keeps_stmt keeps_quiet_stmt split: prod.splits) (metis snd_conv)+
  have 2: "keeps (on_db P) (record_throttled ws t n u)" "keeps (quiet P) (record_throttled ws t n u)" for ws t n u
    unfolding record_throttled_def
    by (auto intro!: keeps_rules keeps_quiet_transaction keeps_exec assms)
  show "keeps (on_db P) (checkIngestionCapacity limits ctx n)" "keeps (quiet P) (checkIngestionCapacity limits ctx n)"
    unfolding checkIngestionCapacity_def ConsumeIngestionCapacity_def Let_def
    by (auto intro!: keeps_rules 1 2)
qed

lemma keeps_Meters_Find [keeps_rules]:
  "keeps (on_db P) (Meters_Find ctx q)" "keeps (quiet P) (Meters_Find ctx q)"
  unfolding Meters_Find_def by (auto intro!: keeps_rules)

subsection \<open>Making an event\<close>

text \<open>Nothing but the clock and the source of identifiers moves.\<close>

definition calm :: "world \<Rightarrow> world \<Rightarrow> bool" where
  "calm w u \<longleftrightarrow> w_db u = w_db w \<and> w_in_tx u = w_in_tx w \<and> w_next_id w \<le> w_next_id u"

lemma calm_refl [simp]: "calm w w"
  by (simp add: calm_def)

lemma keeps_calm [keeps_rules]:
  "keeps (calm w) clock_now" "keeps (calm w) fresh_id" "keeps (calm w) (query f)"
  by (auto simp: keeps_def calm_def fresh_id_text clock_now_def query_def stmt_def split: list.splits option.splits)

lemma keeps_calm_Meters_Find [keeps_rules]: "keeps (calm w) (Meters_Find ctx q)"
  unfolding Meters_Find_def by (auto intro!: keeps_rules)

lemma keeps_newEvent: "keeps_var (calm w) (newEvent ctx cmd meters)"
  unfolding newEvent_def Let_def by (auto intro!: keeps_rules split: option.splits list.splits)

definition made_event :: "CreateCommand \<Rightarrow> world \<Rightarrow> Event \<Rightarrow> world \<Rightarrow> bool" where
  "made_event cmd w e u \<longleftrightarrow> calm w u \<and> valid_event e \<and> ev_idempotencyKey e = TrimSpace (crc_IdempotencyKey cmd) \<and>
    ev_subject e = TrimSpace (crc_Subject cmd) \<and> ev_quantity e = crc_Quantity cmd \<and>
    (\<exists>n. ev_id e = id_text n \<and> w_next_id w \<le> n \<and> n < w_next_id u)"

lemma newEvent_ok:
  assumes run: "newEvent ctx cmd meters w = ((None, Some e, ms), u)"
  shows "made_event cmd w e u"
proof -
  from run obtain t1 w1 m w2 md eid w3 rt where
    1: "(if IsZero (crc_EventTime cmd) then clock_now else return_ok (crc_EventTime cmd)) w = (Inr t1, w1)" and
    2: "(case fmlookup meters (crc_MeterName cmd) of Some meter \<Rightarrow> return_ok meter
      | None \<Rightarrow> attempt (Meters_Find ctx (meter_named (crc_MeterName cmd) 0)) (\<lambda>found.
          case found of [] \<Rightarrow> return_err ErrNotFound | meter # _ \<Rightarrow> return_ok meter)) w1 = (Inr m, w2)" and
    3: "fresh_id w2 = (Inr eid, w3)" and 4: "clock_now w3 = (Inr rt, u)" and
    5: "NewEvent eid (crc_IdempotencyKey cmd) (crc_Subject cmd) (mtr_name m) (crc_Quantity cmd) t1 rt md = Inr e"
    by (auto simp: newEvent_def Let_def try_var_eq return_var_def)
  have "keeps (calm w) (if IsZero (crc_EventTime cmd) then clock_now else return_ok (crc_EventTime cmd))"
    by (auto intro!: keeps_rules)
  from keepsD [OF this, of w] 1 have "calm w w1" by simp
  moreover have "keeps (calm w) (case fmlookup meters (crc_MeterName cmd) of Some meter \<Rightarrow> return_ok meter
      | None \<Rightarrow> attempt (Meters_Find ctx (meter_named (crc_MeterName cmd) 0)) (\<lambda>found.
          case found of [] \<Rightarrow> return_err ErrNotFound | meter # _ \<Rightarrow> return_ok meter))"
    by (auto intro!: keeps_rules split: option.splits list.splits)
  ultimately have w2: "calm w w2" using keepsD 2 by fastforce
  have "eid = id_text (w_next_id w2)" "w_next_id w3 = w_next_id w2 + 1" using 3 by (auto simp: fresh_id_text)
  moreover have "w_next_id u = w_next_id w3" using 4 by (auto simp: clock_now_def split: list.splits)
  moreover have "calm w u" using keeps_varD [OF keeps_newEvent, of w w ctx cmd meters] run by simp
  ultimately show ?thesis
    using NewEvent_valid [OF 5] NewEvent_fields [OF 5] w2
    by (auto simp: made_event_def calm_def intro!: exI [of _ "w_next_id w2"])
qed

lemma new_event_ok: "new_event ctx cmd w = (Inr e, u) \<Longrightarrow> made_event cmd w e u"
  by (auto simp: new_event_def newEvent_ok split: prod.splits option.splits)

lemma keeps_new_event: "keeps (calm w) (new_event ctx cmd)"
proof (rule keepsI)
  fix s assume "calm w s"
  from keeps_varD [OF keeps_newEvent this, of ctx cmd fmempty]
  show "calm w (snd (new_event ctx cmd s))"
    by (auto simp: new_event_def split: prod.splits option.splits)
qed

text \<open>A service call reads before its transaction: those steps are calm.\<close>

lemma calm_quiet: "keeps (calm w) m \<Longrightarrow> quiet P w \<Longrightarrow> quiet P (snd (m w))"
  using keepsD [of "calm w" m w] by (simp add: quiet_def calm_def)

lemma calm_on_db: "keeps (calm w) m \<Longrightarrow> on_db P w \<Longrightarrow> on_db P (snd (m w))"
  using keepsD [of "calm w" m w] by (simp add: on_db_def calm_def)

lemma keeps_quiet_new_event [keeps_rules]: "keeps (quiet P) (new_event ctx cmd)" "keeps (on_db P) (new_event ctx cmd)"
  by (rule keepsI, rule calm_quiet [OF keeps_new_event], assumption)
    (rule keepsI, rule calm_on_db [OF keeps_new_event], assumption)

section \<open>Creating one event\<close>

text \<open>What \<^verbatim>\<open>create\<close> does to the tables when it succeeds.\<close>

definition created :: "string \<Rightarrow> CreateCommand \<Rightarrow> db \<Rightarrow> UsageResult \<Rightarrow> db \<Rightarrow> bool" where
  "created ws cmd d0 r d \<longleftrightarrow> ledger_ok d \<and> other_tables d = other_tables d0 \<and>
    (if ur_Replayed r
     then db_events d = db_events d0 \<and> db_outbox d = db_outbox d0 \<and> stored_under ws (TrimSpace (crc_IdempotencyKey cmd)) (ur_ID r) d
     else \<exists>e row m now. r = eventResultFromDomain e \<and> valid_event e \<and>
       ev_idempotencyKey e = TrimSpace (crc_IdempotencyKey cmd) \<and> ev_subject e = TrimSpace (crc_Subject cmd) \<and>
       ev_quantity e = crc_Quantity cmd \<and> stored e row \<and> db_events d = db_events d0 @ [(ws, row)] \<and>
       announces ws now e m \<and> db_outbox d = db_outbox d0 @ [m])"

lemma ensures_create:
  assumes ws: "RequireWorkspaceID ctx = Inr ws"
  shows "ensures (on_db (\<lambda>d. d = d0 \<and> ledger_ok d0)) (create limits ctx kind cmd) (\<lambda>r. on_db (created ws cmd d0 r))"
proof (rule ensuresI)
  fix s r t
  assume s: "on_db (\<lambda>d. d = d0 \<and> ledger_ok d0) s" and run: "create limits ctx kind cmd s = (Inr r, t)"
  from run obtain u requested v event where cap: "checkIngestionCapacity limits ctx 1 s = (Inr (), u)"
    and new: "new_event ctx cmd u = (Inr requested, v)"
    and save: "in_transaction (save_with_outbox ctx kind requested) v = (Inr event, t)"
    and r: "r = (eventResultFromDomain event)\<lparr>ur_Replayed := (ev_id event \<noteq> ev_id requested)\<rparr>"
    by (auto simp: create_def attempt_eq_Inr)
  let ?P = "\<lambda>d. ledger_ok d \<and> db_events d = db_events d0 \<and> db_outbox d = db_outbox d0 \<and> other_tables d = other_tables d0"
  have "keeps (on_db ?P) (checkIngestionCapacity limits ctx 1)"
    by (rule checkIngestionCapacity_keeps) simp_all
  from keepsD [OF this, of s] have "on_db ?P u" using s cap by (simp add: on_db_def)
  moreover have made: "made_event cmd u requested v" using new by (rule new_event_ok)
  ultimately have v: "on_db ?P v" "on_db (\<lambda>d. d = w_db v \<and> ledger_ok (w_db v)) v"
    by (simp_all add: made_event_def calm_def on_db_def)
  have "valid_event requested" using made by (simp add: made_event_def)
  from ensuresD [OF ensures_in_transaction [OF ensures_save_with_outbox [OF this ws]] save v(2)]
  have "recorded ws (w_db v) requested event (w_db t)" by (simp add: on_db_def)
  then show "on_db (created ws cmd d0 r) t"
    using v(1) made by (auto simp: on_db_def recorded_def created_def made_event_def r eventResultFromDomain_def)
qed

lemma ensures_save_ledger: "valid_event e \<Longrightarrow> ensures (on_db ledger_ok) (save_with_outbox ctx kind e) (\<lambda>_. on_db ledger_ok)"
proof (cases "RequireWorkspaceID ctx")
  case (Inl x)
  have "Usage_Save ctx e s \<noteq> (Inr y, t)" for s y t
    using Inl by (auto simp: Usage_Save_def with_workspace_def elim!: in_transaction_cases)
  then show ?thesis by (auto simp: ensures_def save_with_outbox_def attempt_eq_Inr)
next
  case (Inr ws)
  assume valid: "valid_event e"
  show ?thesis
  proof (rule ensuresI)
    fix s x t assume "on_db ledger_ok s" and run: "save_with_outbox ctx kind e s = (Inr x, t)"
    then have "on_db (\<lambda>d. d = w_db s \<and> ledger_ok (w_db s)) s" by (simp add: on_db_def)
    from ensuresD [OF ensures_save_with_outbox [OF valid Inr] run this]
    show "on_db ledger_ok t" by (simp add: on_db_def recorded_def)
  qed
qed

lemma keeps_create: "keeps (quiet ledger_ok) (create limits ctx kind cmd)"
  unfolding create_def
proof (rule keeps_attempt)
  show "keeps (quiet ledger_ok) (checkIngestionCapacity limits ctx 1)"
    by (rule checkIngestionCapacity_keeps) simp_all
next
  show "keeps (quiet ledger_ok) (attempt (new_event ctx cmd) (\<lambda>requested.
     attempt (in_transaction (save_with_outbox ctx kind requested)) (\<lambda>event.
     return_ok ((eventResultFromDomain event)\<lparr>ur_Replayed := (ev_id event \<noteq> ev_id requested)\<rparr>))))"
  proof (rule keeps_attempt_run [OF keeps_quiet_new_event(1)])
    fix s e t assume "new_event ctx cmd s = (Inr e, t)" and t: "quiet ledger_ok t"
    then have "valid_event e" using new_event_ok by (simp add: made_event_def)
    then have "keeps (quiet ledger_ok) (in_transaction (save_with_outbox ctx kind e))"
      by (intro in_transaction_quiet ensures_save_ledger)
    then have "keeps (quiet ledger_ok) (attempt (in_transaction (save_with_outbox ctx kind e)) (\<lambda>event.
       return_ok ((eventResultFromDomain event)\<lparr>ur_Replayed := (ev_id event \<noteq> ev_id e)\<rparr>)))"
      by (intro keeps_attempt keeps_return)
    from keepsD [OF this t] show "quiet ledger_ok (snd (attempt (in_transaction (save_with_outbox ctx kind e)) (\<lambda>event.
       return_ok ((eventResultFromDomain event)\<lparr>ur_Replayed := (ev_id event \<noteq> ev_id e)\<rparr>)) t))" .
  qed
qed

section \<open>Saving many events\<close>

lemma ensures_batch_frame:
  assumes "\<And>d v. P d \<Longrightarrow> P (d\<lparr>db_events := v\<rparr>)" "\<And>d c. P d \<Longrightarrow> P (d\<lparr>db_counters := c\<rparr>)"
    "\<And>d n. P d \<Longrightarrow> P (d\<lparr>db_usage_counts := n\<rparr>)"
  shows "keeps (on_db P) (saveEventBatch ctx ws events)"
proof -
  have 1: "keeps (on_db P) (insert_statement ws rows)" for rows
    unfolding insert_statement_def
    by (rule keeps_stmt) (auto simp: insert_event_rows_def intro: assms split: if_splits prod.splits)
  have 2: "keeps (on_db P) (applyAcceptedUsage ws es)" for es
    unfolding applyAcceptedUsage_def IncrementEntitlementUsageCounter_def IncrementWorkspaceUsageEvents_def increment_counter_def
    by (auto intro!: keeps_rules keeps_exec assms)
  show ?thesis
    unfolding saveEventBatch_def insertUsageEvents_def
    by (auto intro!: keeps_rules 1 2 split: prod.splits)
qed

lemma findBulk_no_row:
  assumes "findBulk ctx key w = (Inl ErrNoRows, u)" and "RequireWorkspaceID ctx = Inr ws"
  shows "map_of (db_bulk (w_db w)) (ws, key) = None"
proof (rule ccontr)
  assume "map_of (db_bulk (w_db w)) (ws, key) \<noteq> None"
  then obtain r where "map_of (db_bulk (w_db w)) (ws, key) = Some r" by auto
  moreover have "map_res eventFromFields es \<noteq> Inl ErrNoRows" for es
  proof (induction es)
    case (Cons e es)
    have "eventFromFields e \<noteq> Inl ErrNoRows"
    proof
      assume "eventFromFields e = Inl ErrNoRows"
      then have "errors_Is ErrNoRows ErrInvalidInput"
        unfolding eventFromFields_def by (rule NewEvent_error)
      then show False by (simp add: ErrNoRows_def ErrInvalidInput_def)
    qed
    then show ?case using Cons by (auto simp: try_res_eq_Inl)
  qed simp
  ultimately show False
    using assms by (auto simp: findBulk_def with_workspace_def attempt_eq_Inl ErrNoRows_def query_def stmt_def try_res_eq_Inl
        split: option.splits prod.splits)
qed

lemma findBulk_row:
  assumes "findBulk ctx key w = (Inr r, u)" and "RequireWorkspaceID ctx = Inr ws"
  shows "map_of (db_bulk (w_db w)) (ws, key) \<noteq> None" "w_db u = w_db w"
proof -
  obtain row v where "query (\<lambda>d. map_of (db_bulk d) (ws, key)) w = (Inr row, v)" "row \<noteq> None"
    using assms by (auto simp: findBulk_def with_workspace_def attempt_eq_Inr split: option.splits)
  then show "map_of (db_bulk (w_db w)) (ws, key) \<noteq> None" by (metis query_ok)
  show "w_db u = w_db w"
    using keepsD [OF keeps_reads(5), of "\<lambda>d. d = w_db w" w ctx key] assms(1) by (simp add: on_db_def)
qed

lemma SaveBulkUsageIngestion_ok:
  assumes "SaveBulkUsageIngestion ws key resp w = (Inr n, u)"
  shows "\<exists>b. w_db u = (w_db w)\<lparr>db_bulk := b\<rparr>" "n = 0 \<Longrightarrow> w_db u = w_db w"
    "key \<noteq> [] \<Longrightarrow> bulk_ok (w_db w) \<Longrightarrow> bulk_ok (w_db u)"
proof -
  have eq: "w_db u = (if (ws, key) \<in> fst ` set (db_bulk (w_db w)) then w_db w
      else (w_db w)\<lparr>db_bulk := db_bulk (w_db w) @ [((ws, key), resp)]\<rparr>)"
    "n = (if (ws, key) \<in> fst ` set (db_bulk (w_db w)) then 0 else 1)"
    using stmt_ok [OF assms [unfolded SaveBulkUsageIngestion_def execrows_def]] by simp_all
  have "w_db w = (w_db w)\<lparr>db_bulk := db_bulk (w_db w)\<rparr>" by simp
  then show "\<exists>b. w_db u = (w_db w)\<lparr>db_bulk := b\<rparr>" using eq(1) by metis
  show "n = 0 \<Longrightarrow> w_db u = w_db w" using eq by (auto split: if_splits)
  show "key \<noteq> [] \<Longrightarrow> bulk_ok (w_db w) \<Longrightarrow> bulk_ok (w_db u)"
    using eq(1) by (auto simp: bulk_ok_def map_add_def split: if_splits option.splits)
qed

lemma save_new_bulk_ok:
  assumes "save_new_bulk ctx ws key events w = (Inr r, u)"
  obtains v where "saveEventBatch ctx ws events w = (Inr r, v)" "\<exists>b. w_db u = (w_db v)\<lparr>db_bulk := b\<rparr>"
    "bulk_ok (w_db v) \<Longrightarrow> bulk_ok (w_db u)"
proof (cases "key = []")
  case True
  then have "saveEventBatch ctx ws events w = (Inr r, u)"
    using assms by (auto simp: save_new_bulk_def attempt_eq_Inr)
  moreover have "\<exists>b. w_db u = (w_db u)\<lparr>db_bulk := b\<rparr>" by (rule exI [of _ "db_bulk (w_db u)"]) simp
  ultimately show ?thesis by (rule that) assumption
next
  case False
  then obtain v resp t v' where *: "saveEventBatch ctx ws events w = (Inr r, v)" "clock_now v = (Inr t, v')"
    "\<exists>n. SaveBulkUsageIngestion ws key resp v' = (Inr n, u)"
    using assms by (auto simp: save_new_bulk_def attempt_eq_Inr split: if_splits)
  have "w_db v' = w_db v" using * clock_now_db(1) [of v] by simp
  then have "\<exists>b. w_db u = (w_db v)\<lparr>db_bulk := b\<rparr>"
    using *(3) SaveBulkUsageIngestion_ok(1) by fastforce
  moreover have "bulk_ok (w_db v) \<Longrightarrow> bulk_ok (w_db u)"
    using *(3) \<open>w_db v' = w_db v\<close> SaveBulkUsageIngestion_ok(3) [OF _ False] by metis
  ultimately show ?thesis using * that by blast
qed

lemma save_new_bulk_err:
  assumes "save_new_bulk ctx ws key events w = (Inl e, u)"
  shows "map_of (db_bulk (w_db w)) (ws, key) = None \<Longrightarrow> map_of (db_bulk (w_db u)) (ws, key) = None"
proof -
  assume none: "map_of (db_bulk (w_db w)) (ws, key) = None"
  let ?P = "\<lambda>d. map_of (db_bulk d) (ws, key) = None"
  have batch: "keeps (on_db ?P) (saveEventBatch ctx ws events)"
    by (rule ensures_batch_frame) simp_all
  have save: "SaveBulkUsageIngestion ws key resp s = (Inl x, t) \<Longrightarrow> w_db t = w_db s" for resp s t x
    by (auto simp: SaveBulkUsageIngestion_def execrows_def dest: stmt_err)
  obtain r v where v: "saveEventBatch ctx ws events w = (r, v)" by (cases "saveEventBatch ctx ws events w")
  have "?P (w_db v)" using keepsD [OF batch, of w] none v by (simp add: on_db_def)
  moreover have "w_db u = w_db v"
  proof (cases r)
    case (Inl x)
    then show ?thesis using assms v by (simp add: save_new_bulk_def attempt_apply)
  next
    case (Inr b)
    show ?thesis
    proof (cases "key = [] \<or> (\<exists>x. marshalBulkResult b = Inl x)")
      case True
      then show ?thesis using assms v Inr by (auto simp: save_new_bulk_def attempt_apply split: if_splits)
    next
      case False
      then obtain resp where resp: "key \<noteq> []" "marshalBulkResult b = Inr resp"
        by (cases "marshalBulkResult b") auto
      obtain t v' where clock: "clock_now v = (Inr t, v')" by (cases "w_clock v") (auto simp: clock_now_def)
      have "w_db v' = w_db v" using clock clock_now_db(1) [of v] by simp
      moreover have "w_db u = w_db v'"
      proof (cases "SaveBulkUsageIngestion ws key resp v'")
        case (Pair q t')
        then show ?thesis
          using assms v Inr resp clock save [of resp v' _ t'] SaveBulkUsageIngestion_ok(2) [of ws key resp v' 0 t']
          by (cases q) (auto simp: save_new_bulk_def attempt_apply split: if_splits)
      qed
      ultimately show ?thesis by simp
    qed
  qed
  ultimately show ?thesis by simp
qed

text \<open>A bulk call that succeeds either replays the stored response or saves its events.\<close>

definition bulk_saved :: "string \<Rightarrow> db \<Rightarrow> Event list \<Rightarrow> BulkSaveResult \<Rightarrow> db \<Rightarrow> bool" where
  "bulk_saved ws d0 events r d \<longleftrightarrow>
    (if bsr_replayed r then d = d0
     else bulk_ok d \<and> (\<exists>d1 b. d = d1\<lparr>db_bulk := b\<rparr> \<and> batch_saved ws d0 (bsr_accepted r) d1 \<and> events_valid d1 \<and>
       subseq (bsr_accepted r) events \<and> set (bsr_duplicates r) \<subseteq> Collect (elsewhere ws d1 events) \<and>
       length (bsr_accepted r) + length (bsr_duplicates r) = length events))"

lemma ensures_SaveBulk:
  assumes distinct: "distinct (map ev_id events)" and valid: "\<forall>e \<in> set events. valid_event e"
    and ws: "RequireWorkspaceID ctx = Inr ws"
  shows "ensures (on_db (\<lambda>d. d = d0 \<and> ledger_ok d0)) (SaveBulk ctx key events) (\<lambda>r. on_db (bulk_saved ws d0 events r))"
proof (rule ensuresI)
  fix s r t
  assume s: "on_db (\<lambda>d. d = d0 \<and> ledger_ok d0) s" and run: "SaveBulk ctx key events s = (Inr r, t)"
  let ?look = "if key = [] then return_ok None
      else inspect (findBulk ctx key) (\<lambda>r. case r of
          Inr existing \<Rightarrow> return_ok (Some (AsReplay existing))
        | Inl e \<Rightarrow> if e \<noteq> ErrNoRows then return_err e else return_ok None)"
  from run ws obtain existing u where look: "?look s = (Inr existing, u)"
    and rest: "(case existing of Some r \<Rightarrow> return_ok r
    | None \<Rightarrow> inspect (in_transaction (save_new_bulk ctx ws key events)) (\<lambda>r. case r of
          Inr result \<Rightarrow> return_ok result
        | Inl e \<Rightarrow> if errors_Is e errBulkReplay
            then attempt (findBulk ctx key) (\<lambda>existing. return_ok (AsReplay existing))
            else return_err e)) u = (Inr r, t)"
    by (auto simp: SaveBulk_def with_workspace_def attempt_eq_Inr)
  have "keeps (on_db (\<lambda>d. d = d0)) ?look"
    by (auto intro!: keeps_rules split: sum.splits)
  from keepsD [OF this, of s] have u: "w_db u = d0" using s look by (simp add: on_db_def)
  show "on_db (bulk_saved ws d0 events r) t"
  proof (cases existing)
    case (Some x)
    then have "\<exists>y. x = AsReplay y" using look by (auto simp: inspect_def split: if_splits prod.splits sum.splits)
    then show ?thesis using Some rest u by (auto simp: on_db_def bulk_saved_def AsReplay_def)
  next
    case None
    then have no_row: "map_of (db_bulk d0) (ws, key) = None"
      using look s findBulk_no_row [of ctx key s _ ws] ws
      by (auto simp: inspect_def on_db_def ledger_ok_def bulk_ok_def split: if_splits prod.splits sum.splits)
    obtain q v where tx: "in_transaction (save_new_bulk ctx ws key events) u = (q, v)"
      by (cases "in_transaction (save_new_bulk ctx ws key events) u")
    show ?thesis
    proof (cases q)
      case (Inr b)
      have "ensures (on_db (\<lambda>d. d = d0 \<and> ledger_ok d0)) (save_new_bulk ctx ws key events)
          (\<lambda>r. on_db (\<lambda>d. \<not> bsr_replayed r \<and> bulk_saved ws d0 events r d))"
      proof (rule ensuresI)
        fix s' r' t' assume s': "on_db (\<lambda>d. d = d0 \<and> ledger_ok d0) s'"
          and "save_new_bulk ctx ws key events s' = (Inr r', t')"
        from save_new_bulk_ok [OF this(2)] obtain v' where "saveEventBatch ctx ws events s' = (Inr r', v')"
          "\<exists>b. w_db t' = (w_db v')\<lparr>db_bulk := b\<rparr>" "bulk_ok (w_db v') \<Longrightarrow> bulk_ok (w_db t')"
          by blast
        then obtain b where *: "saveEventBatch ctx ws events s' = (Inr r', v')"
          "w_db t' = (w_db v')\<lparr>db_bulk := b\<rparr>" "bulk_ok (w_db v') \<Longrightarrow> bulk_ok (w_db t')"
          by blast
        note post = ensuresD [OF ensures_saveEventBatch [OF distinct valid ws] *(1) s']
        then have "bulk_ok (w_db v')"
          using s' batch_saved_frame(3) [of ws d0 "bsr_accepted r'" "w_db v'"]
          by (auto simp: on_db_def ledger_ok_def bulk_ok_def)
        then show "on_db (\<lambda>d. \<not> bsr_replayed r' \<and> bulk_saved ws d0 events r' d) t'"
          using * post by (auto simp: on_db_def bulk_saved_def)
      qed
      from ensuresD [OF ensures_in_transaction [OF this], of u b v] show ?thesis
        using tx Inr rest None u s by (auto simp: inspect_def on_db_def)
    next
      case (Inl e)
      then have replay: "findBulk ctx key v = (Inr x, t) \<Longrightarrow> False" for x
      proof -
        assume found: "findBulk ctx key v = (Inr x, t)"
        from tx Inl have "map_of (db_bulk (w_db v)) (ws, key) = None"
        proof (cases rule: in_transaction_cases)
          case ran
          then show ?thesis using save_new_bulk_err [of ctx ws key events u e v] no_row u Inl by simp
        qed (use no_row u in auto)
        then show False using findBulk_row(1) [OF found ws] by simp
      qed
      then show ?thesis
        using tx Inl rest None by (auto simp: inspect_def attempt_eq_Inr split: if_splits)
    qed
  qed
qed

section \<open>Creating many events\<close>

text \<open>The loop over the commands: the events made are valid and have identifiers of their own, and
  every command made an event or a failure.\<close>

definition made_events :: "world \<Rightarrow> Event list \<Rightarrow> world \<Rightarrow> bool" where
  "made_events w events u \<longleftrightarrow> calm w u \<and> (\<forall>e \<in> set events. valid_event e) \<and>
    (\<exists>ns. map ev_id events = map id_text ns \<and> distinct ns \<and> (\<forall>n \<in> set ns. n < w_next_id u))"

lemma made_events_distinct:
  assumes "made_events w events u"
  shows "distinct (map ev_id events)"
proof -
  obtain ns where "map ev_id events = map id_text ns" "distinct ns"
    using assms by (auto simp: made_events_def)
  then show ?thesis by (simp only:) (simp add: distinct_map inj_on_def)
qed

lemma made_events_calm:
  assumes "made_events w es u" "calm u v"
  shows "made_events w es v"
proof -
  obtain ns where "map ev_id es = map id_text ns" "distinct ns" "\<forall>n \<in> set ns. n < w_next_id u"
    using assms(1) by (auto simp: made_events_def)
  then show ?thesis
    using assms unfolding made_events_def calm_def by (intro conjI exI [of _ ns]) auto
qed

lemma made_events_snoc:
  assumes "made_events w es u" "made_event cmd u e v"
  shows "made_events w (es @ [e]) v"
proof -
  obtain ns where ns: "map ev_id es = map id_text ns" "distinct ns" "\<forall>n \<in> set ns. n < w_next_id u"
    using assms(1) by (auto simp: made_events_def)
  obtain n where n: "ev_id e = id_text n" "w_next_id u \<le> n" "n < w_next_id v"
    using assms(2) by (auto simp: made_event_def)
  show ?thesis
    using assms ns n unfolding made_events_def made_event_def calm_def
    by (intro conjI exI [of _ "ns @ [n]"]) auto
qed

lemma ensures_bulk_loop:
  "ensures (\<lambda>w. w = w0) (foreach commands (fmempty, [], []) (bulk_event_step ctx))
    (\<lambda>(meters, events, failures) w. made_events w0 events w \<and> length events + length failures = length commands)"
proof -
  define I where "I = (\<lambda>(prev :: CreateCommand list) (acc :: (string, Meter) fmap \<times> Event list \<times> BulkFailureResult list) w.
    made_events w0 (fst (snd acc)) w \<and> length (fst (snd acc)) + length (snd (snd acc)) = length prev)"
  have "ensures (I prev acc) (bulk_event_step ctx cmd acc) (I (prev @ [cmd]))" for prev cmd acc
  proof (rule ensuresI)
    fix s x t assume s: "I prev acc s" and run: "bulk_event_step ctx cmd acc s = (Inr x, t)"
    obtain ms es fs where acc: "acc = (ms, es, fs)" by (cases acc)
    obtain oe ev ms' u where new: "newEvent ctx cmd ms s = ((oe, ev, ms'), u)" by (metis prod.collapse)
    have calm: "calm s u" using keeps_varD [OF keeps_newEvent, of s s ctx cmd ms] new by simp
    show "I (prev @ [cmd]) x t"
    proof (cases oe)
      case (Some e)
      then show ?thesis
        using run new acc s made_events_calm [OF _ calm, of w0 es]
        by (auto simp: bulk_event_step_def I_def split: if_splits)
    next
      case None
      then obtain e where "ev = Some e" "x = (ms', es @ [e], fs)" "t = u"
        using run new acc by (cases ev) (auto simp: bulk_event_step_def)
      then show ?thesis
        using s acc None new made_events_snoc [OF _ newEvent_ok, of w0 es s ctx cmd ms e ms' u] by (simp add: I_def)
    qed
  qed
  then have "ensures (I [] (fmempty, [], [])) (foreach commands (fmempty, [], []) (bulk_event_step ctx)) (I commands)"
    by (rule ensures_foreach)
  then show ?thesis
    by (rule ensures_weaken) (auto simp: I_def made_events_def)
qed

lemma keeps_bulk_loop: "keeps (calm w) (foreach commands acc (bulk_event_step ctx))"
proof (rule keeps_foreach, rule keepsI)
  fix cmd s
  fix acc :: "(string, Meter) fmap \<times> Event list \<times> BulkFailureResult list"
  assume "calm w s"
  obtain ms es fs where acc: "acc = (ms, es, fs)" by (cases acc)
  from keeps_varD [OF keeps_newEvent \<open>calm w s\<close>, of ctx cmd ms]
  show "calm w (snd (bulk_event_step ctx cmd acc s))"
    unfolding acc by (auto simp: bulk_event_step_def split: prod.splits option.splits)
qed

text \<open>The body of the transaction of \<^verbatim>\<open>createBulk\<close>.\<close>

definition bulk_recorded :: "string \<Rightarrow> db \<Rightarrow> Event list \<Rightarrow> BulkSaveResult \<Rightarrow> db \<Rightarrow> bool" where
  "bulk_recorded ws d0 events r d \<longleftrightarrow> ledger_ok d \<and> other_tables d = other_tables d0 \<and>
    (if bsr_replayed r then db_events d = db_events d0 \<and> db_outbox d = db_outbox d0
     else subseq (bsr_accepted r) events \<and> length (bsr_accepted r) + length (bsr_duplicates r) = length events \<and>
       (\<exists>rows ms now. list_all2 stored (bsr_accepted r) rows \<and> db_events d = db_events d0 @ map (Pair ws) rows \<and>
         list_all2 (announces ws now) (bsr_accepted r) ms \<and> db_outbox d = db_outbox d0 @ ms))"

lemma bulk_recorded_ingestions [simp]: "bulk_recorded ws d0 es r (d\<lparr>db_ingestions := c\<rparr>) = bulk_recorded ws d0 es r d"
  by (simp add: bulk_recorded_def)

lemma saved_announced_bulk:
  assumes old: "ledger_ok d0" and saved: "bulk_saved ws d0 events r d1" "\<not> bsr_replayed r"
    and ann: "announced ws now d1 (bsr_accepted r) d2"
  shows "bulk_recorded ws d0 events r d2"
proof -
  obtain d b where d1: "d1 = d\<lparr>db_bulk := b\<rparr>" "batch_saved ws d0 (bsr_accepted r) d" "events_valid d" "bulk_ok d1"
    and sub: "subseq (bsr_accepted r) events" "length (bsr_accepted r) + length (bsr_duplicates r) = length events"
    using saved by (auto simp: bulk_saved_def)
  obtain ms where ms: "list_all2 (announces ws now) (bsr_accepted r) ms" "d2 = d1\<lparr>db_outbox := db_outbox d1 @ ms\<rparr>"
    "distinct_keys ob_PublicID (db_outbox d2)" "distinct_keys outbox_key (db_outbox d2)"
    using ann by (auto simp: announced_def)
  let ?d = "d\<lparr>db_outbox := db_outbox d @ ms\<rparr>"
  have "announced ws now d (bsr_accepted r) ?d" using ms d1(1) by (auto simp: announced_def)
  note whole = saved_and_announced [OF old d1(2,3) this]
  obtain rows where "list_all2 stored (bsr_accepted r) rows" "db_events d = db_events d0 @ map (Pair ws) rows"
    using d1(2) by (auto simp: batch_saved_def)
  moreover have "ledger_ok d2"
    using whole(1) d1(1,4) ms(2)
    by (simp add: ledger_ok_def events_valid_def counts_ok_def outbox_ok_def bulk_ok_def usage_count_def workspace_events_def)
  ultimately show ?thesis
    using whole ms(1,2) d1(1) sub saved(2) batch_saved_frame(1) [OF d1(2)] by (auto simp: bulk_recorded_def)
qed

lemma ensures_save_bulk_with_outbox:
  assumes distinct: "distinct (map ev_id events)" and valid: "\<forall>e \<in> set events. valid_event e"
    and ws: "RequireWorkspaceID ctx = Inr ws"
  shows "ensures (on_db (\<lambda>d. d = d0 \<and> ledger_ok d0)) (save_bulk_with_outbox ctx kind key events failed)
    (\<lambda>r. on_db (bulk_recorded ws d0 events r))"
proof (rule ensuresI)
  fix s r t
  assume s: "on_db (\<lambda>d. d = d0 \<and> ledger_ok d0) s"
    and run: "save_bulk_with_outbox ctx kind key events failed s = (Inr r, t)"
  from run obtain u v cmd where save: "SaveBulk ctx key events s = (Inr r, u)"
    and enq: "(if \<not> bsr_replayed r then attempt clock_now (EnqueueOutbox ctx (bsr_accepted r)) else return_ok ()) u = (Inr (), v)"
    and ing: "(if kind \<noteq> [] then attempt (saveIngestionRun ctx cmd) (\<lambda>_. return_ok ()) else return_ok ()) v = (Inr (), t)"
    unfolding save_bulk_with_outbox_def Let_def attempt_eq_Inr
    by (cases "kind = []"; cases "bsr_replayed r") auto
  have old: "ledger_ok d0" using s by (simp add: on_db_def)
  have saved: "bulk_saved ws d0 events r (w_db u)"
    using ensuresD [OF ensures_SaveBulk [OF distinct valid ws] save s] by (simp add: on_db_def)
  have "bulk_recorded ws d0 events r (w_db v)"
  proof (cases "bsr_replayed r")
    case True
    then show ?thesis using saved enq old by (simp add: bulk_saved_def bulk_recorded_def)
  next
    case False
    then obtain d b where d: "w_db u = d\<lparr>db_bulk := b\<rparr>" "batch_saved ws d0 (bsr_accepted r) d"
      using saved by (auto simp: bulk_saved_def)
    obtain now u' where clock: "clock_now u = (Inr now, u')" and run': "EnqueueOutbox ctx (bsr_accepted r) now u' = (Inr (), v)"
      using enq False by (auto simp: attempt_eq_Inr)
    have "on_db (\<lambda>d. d = w_db u) u'" using clock clock_now_db(1) [of u] by (simp add: on_db_def)
    moreover have "distinct_keys ob_PublicID (db_outbox (w_db u))" "distinct_keys outbox_key (db_outbox (w_db u))"
      using old d batch_saved_frame(1) [OF d(2)] by (auto simp: ledger_ok_def outbox_ok_def)
    ultimately have "announced ws now (w_db u) (bsr_accepted r) (w_db v)"
      using ensuresD [OF ensures_EnqueueOutbox [OF ws] run'] batch_saved_fresh [OF d(2)] old d(1)
      by (simp add: on_db_def ledger_ok_def)
    then show ?thesis using saved_announced_bulk [OF old saved False] by simp
  qed
  then have v: "on_db (bulk_recorded ws d0 events r) v" by (simp add: on_db_def)
  have "keeps (on_db (bulk_recorded ws d0 events r)) (saveIngestionRun ctx cmd)"
    by (rule keeps_saveIngestionRun) simp
  then have "keeps (on_db (bulk_recorded ws d0 events r)) (if kind \<noteq> [] then attempt (saveIngestionRun ctx cmd)
      (\<lambda>_. return_ok ()) else return_ok ())"
    by (auto intro!: keeps_rules)
  from keepsD [OF this v] show "on_db (bulk_recorded ws d0 events r) t"
    using ing by simp
qed

text \<open>What \<^verbatim>\<open>createBulk\<close> does when it succeeds.\<close>

definition bulk_created :: "string \<Rightarrow> CreateCommand list \<Rightarrow> db \<Rightarrow> BulkResult \<Rightarrow> db \<Rightarrow> bool" where
  "bulk_created ws commands d0 r d \<longleftrightarrow> ledger_ok d \<and> other_tables d = other_tables d0 \<and>
    (if br_Replayed r then db_events d = db_events d0 \<and> db_outbox d = db_outbox d0
     else length (br_Accepted r) + length (br_Duplicates r) + length (br_Failed r) = length commands \<and>
       (\<exists>es rows ms now. br_Accepted r = map eventResultFromDomain es \<and> (\<forall>e \<in> set es. valid_event e) \<and>
         list_all2 stored es rows \<and> db_events d = db_events d0 @ map (Pair ws) rows \<and>
         list_all2 (announces ws now) es ms \<and> db_outbox d = db_outbox d0 @ ms))"

lemma ensures_createBulk:
  assumes ws: "RequireWorkspaceID ctx = Inr ws"
  shows "ensures (on_db (\<lambda>d. d = d0 \<and> ledger_ok d0)) (createBulk limits ctx kind key commands initialFailures)
    (\<lambda>r. on_db (bulk_created ws commands d0 r))"
proof (rule ensuresI)
  fix s r t
  assume s: "on_db (\<lambda>d. d = d0 \<and> ledger_ok d0) s"
    and run: "createBulk limits ctx kind key commands initialFailures s = (Inr r, t)"
  let ?P = "\<lambda>d. ledger_ok d \<and> db_events d = db_events d0 \<and> db_outbox d = db_outbox d0 \<and> other_tables d = other_tables d0"
  from run obtain u meters events failures v where
    cap: "checkIngestionCapacity limits ctx (int (length commands)) s = (Inr (), u)" and
    loop: "foreach commands (fmempty, [], []) (bulk_event_step ctx) u = (Inr (meters, events, failures), v)" and
    rest: "(if length events = 0 then
       (let result = \<lparr>br_Accepted = [], br_Duplicates = [], br_Failed = failures, br_Replayed = False\<rparr> in
        if kind = [] then return_ok result
        else attempt (saveIngestionRun ctx \<lparr>igc_Kind = kind, igc_Accepted = 0, igc_Duplicates = 0,
          igc_Failed = initialFailures + int (length failures)\<rparr>) (\<lambda>_. return_ok result))
     else attempt (in_transaction (save_bulk_with_outbox ctx kind (TrimSpace key) events
         (initialFailures + int (length failures)))) (\<lambda>saved.
       return_ok ((bulkResultFromDomain saved)\<lparr>br_Failed := failures\<rparr>))) v = (Inr r, t)"
    by (auto simp: createBulk_def Let_def attempt_eq_Inr split: if_splits)
  have "keeps (on_db ?P) (checkIngestionCapacity limits ctx (int (length commands)))"
    by (rule checkIngestionCapacity_keeps) simp_all
  from keepsD [OF this, of s] have u: "on_db ?P u" using s cap by (simp add: on_db_def)
  have made: "made_events u events v" "length events + length failures = length commands"
    using ensuresD [OF ensures_bulk_loop loop] by auto
  then have v: "?P (w_db v)" using u by (simp add: made_events_def calm_def on_db_def)
  show "on_db (bulk_created ws commands d0 r) t"
  proof (cases "events = []")
    case True
    then have r: "r = \<lparr>br_Accepted = [], br_Duplicates = [], br_Failed = failures, br_Replayed = False\<rparr>"
      using rest by (auto simp: Let_def attempt_eq_Inr split: if_splits)
    have "keeps (on_db ?P) (saveIngestionRun ctx cmd)" for cmd
      by (rule keeps_saveIngestionRun) simp
    then have "?P (w_db t)"
      using rest True v keepsD [of "on_db ?P" "saveIngestionRun ctx _" v]
      by (auto simp: Let_def attempt_eq_Inr on_db_def split: if_splits) (metis snd_conv)+
    then show ?thesis
      using made True r by (auto simp: on_db_def bulk_created_def intro!: exI [of _ "[]"])
  next
    case False
    then obtain saved where save: "in_transaction (save_bulk_with_outbox ctx kind (TrimSpace key) events
         (initialFailures + int (length failures))) v = (Inr saved, t)"
      and r: "r = (bulkResultFromDomain saved)\<lparr>br_Failed := failures\<rparr>"
      using rest by (auto simp: attempt_eq_Inr)
    have "\<forall>e \<in> set events. valid_event e" using made by (simp add: made_events_def)
    note sb = ensures_save_bulk_with_outbox [OF made_events_distinct [OF made(1)] this ws]
    have "on_db (\<lambda>d. d = w_db v \<and> ledger_ok (w_db v)) v" using v by (simp add: on_db_def)
    from ensuresD [OF ensures_in_transaction [OF sb] save this]
    have rec: "bulk_recorded ws (w_db v) events saved (w_db t)" by (simp add: on_db_def)
    have "set (bsr_accepted saved) \<subseteq> set events" if "\<not> bsr_replayed saved"
      using rec that by (auto simp: bulk_recorded_def dest: list_emb_set)
    then show ?thesis
      using rec v made unfolding on_db_def bulk_created_def bulk_recorded_def r
      by (cases "bsr_replayed saved") (auto simp: bulkResultFromDomain_def made_events_def)
  qed
qed

lemma SaveBulk_no_workspace: "RequireWorkspaceID ctx = Inl e \<Longrightarrow> SaveBulk ctx key es w = (Inl e, w)"
  by (simp add: SaveBulk_def with_workspace_def)

lemma ensures_save_bulk_ledger:
  assumes "distinct (map ev_id es)" "\<forall>e \<in> set es. valid_event e"
  shows "ensures (on_db ledger_ok) (save_bulk_with_outbox ctx kind key es failed) (\<lambda>_. on_db ledger_ok)"
proof (cases "RequireWorkspaceID ctx")
  case (Inl x)
  then show ?thesis
    by (auto simp: ensures_def save_bulk_with_outbox_def attempt_eq_Inr SaveBulk_no_workspace)
next
  case (Inr ws)
  show ?thesis
  proof (rule ensuresI)
    fix s x t assume "on_db ledger_ok s" and run: "save_bulk_with_outbox ctx kind key es failed s = (Inr x, t)"
    then have "on_db (\<lambda>d. d = w_db s \<and> ledger_ok (w_db s)) s" by (simp add: on_db_def)
    from ensuresD [OF ensures_save_bulk_with_outbox [OF assms Inr] run this]
    show "on_db ledger_ok t" by (simp add: on_db_def bulk_recorded_def)
  qed
qed

lemma keeps_quiet_ingestion: "keeps (quiet ledger_ok) (saveIngestionRun ctx cmd)"
  unfolding saveIngestionRun_def SaveIngestionRun_def
  by (auto intro!: keeps_rules keeps_quiet_exec_unique)

lemma keeps_createBulk: "keeps (quiet ledger_ok) (createBulk limits ctx kind key commands initialFailures)"
proof -
  let ?rest = "\<lambda>(meters, events, failures).
     let failed = initialFailures + int (length failures) in
     if length events = 0 then
       (let result = \<lparr>br_Accepted = [], br_Duplicates = [], br_Failed = failures, br_Replayed = False\<rparr> in
        if kind = [] then return_ok result
        else attempt (saveIngestionRun ctx \<lparr>igc_Kind = kind, igc_Accepted = 0, igc_Duplicates = 0, igc_Failed = failed\<rparr>)
          (\<lambda>_. return_ok result))
     else attempt (in_transaction (save_bulk_with_outbox ctx kind (TrimSpace key) events failed)) (\<lambda>saved.
     return_ok ((bulkResultFromDomain saved)\<lparr>br_Failed := failures\<rparr>))"
  have loop: "keeps (quiet ledger_ok) (attempt (foreach commands (fmempty, [], []) (bulk_event_step ctx)) ?rest)"
  proof (rule keeps_attempt_run)
    show "keeps (quiet ledger_ok) (foreach commands (fmempty, [], []) (bulk_event_step ctx))"
      by (rule keepsI, rule calm_quiet [OF keeps_bulk_loop])
  next
    fix s x t assume run: "foreach commands (fmempty, [], []) (bulk_event_step ctx) s = (Inr x, t)"
      and t: "quiet ledger_ok t"
    obtain ms es fs where x: "x = (ms, es, fs)" by (cases x)
    have made: "made_events s es t" using ensuresD [OF ensures_bulk_loop run] x by simp
    have "\<forall>e \<in> set es. valid_event e" using made by (simp add: made_events_def)
    then have "keeps (quiet ledger_ok) (in_transaction (save_bulk_with_outbox ctx kind (TrimSpace key) es n))" for n
      by (intro in_transaction_quiet ensures_save_bulk_ledger made_events_distinct [OF made])
    then have "keeps (quiet ledger_ok) (?rest x)"
      unfolding x Let_def by (auto intro!: keeps_rules keeps_quiet_ingestion)
    from keepsD [OF this t] show "quiet ledger_ok (snd (?rest x t))" .
  qed
  have cap: "keeps (quiet ledger_ok) (checkIngestionCapacity limits ctx n)" for n
    by (rule checkIngestionCapacity_keeps) simp_all
  show ?thesis
    unfolding createBulk_def Let_def [of "TrimSpace key"]
    by (intro keeps_if keeps_return keeps_attempt cap loop)
qed

text \<open>Only the rate windows may differ after a failure.\<close>

definition only_throttled :: "db \<Rightarrow> db \<Rightarrow> bool" where
  "only_throttled d0 d \<longleftrightarrow> d\<lparr>db_rate_windows := [], db_throttled := []\<rparr> = d0\<lparr>db_rate_windows := [], db_throttled := []\<rparr>"

lemma only_throttled_simps [simp]:
  "only_throttled d d" "only_throttled d0 (d\<lparr>db_rate_windows := r\<rparr>) = only_throttled d0 d"
  "only_throttled d0 (d\<lparr>db_throttled := t\<rparr>) = only_throttled d0 d"
  by (simp_all add: only_throttled_def)

lemma create_error:
  assumes "\<not> w_in_tx w" "create limits ctx kind cmd w = (Inl e, u)"
  shows "only_throttled (w_db w) (w_db u)"
proof -
  let ?P = "only_throttled (w_db w)"
  have cap: "keeps (quiet ?P) (checkIngestionCapacity limits ctx 1)"
    by (rule checkIngestionCapacity_keeps) simp_all
  have pre: "keeps (quiet ?P) (attempt (checkIngestionCapacity limits ctx 1) (\<lambda>_. new_event ctx cmd))"
    by (intro keeps_attempt cap keeps_quiet_new_event)
  obtain r v where v: "attempt (checkIngestionCapacity limits ctx 1) (\<lambda>_. new_event ctx cmd) w = (r, v)"
    by (cases "attempt (checkIngestionCapacity limits ctx 1) (\<lambda>_. new_event ctx cmd) w")
  have "quiet ?P w" using assms(1) by (simp add: quiet_def)
  from keepsD [OF pre this] v have q: "quiet ?P v" by simp
  show ?thesis
  proof (cases r)
    case (Inl x)
    then have "u = v" using v assms(2) by (auto simp: create_def attempt_apply split: prod.splits sum.splits)
    then show ?thesis using q by (simp add: quiet_def)
  next
    case (Inr requested)
    then have "in_transaction (save_with_outbox ctx kind requested) v = (Inl e, u)"
      using v assms(2) by (auto simp: create_def attempt_apply split: prod.splits sum.splits)
    then have "w_db u = w_db v" using in_transaction_atomic q by (auto simp: quiet_def)
    then show ?thesis using q by (simp add: quiet_def)
  qed
qed

section \<open>Properties\<close>

text \<open>Claim C7. A call of \<^verbatim>\<open>Create\<close> or \<^verbatim>\<open>CreateIngestion\<close> that succeeds on a sound ledger did exactly one of
  two things: it stored one new event, valid and with the key, subject and quantity of the
  command, counted it and appended one pending outbox message for it; or it found the event
  already stored in the workspace (a replay), and events and outbox are as before.  Either way
  the ledger is sound again and no table outside usage recording changed.\<close>

theorem create_spec:
  "ensures (on_db (\<lambda>d. d = d0 \<and> ledger_ok d0)) (create limits ctx kind cmd)
    (\<lambda>r. on_db (\<lambda>d. \<exists>ws. RequireWorkspaceID ctx = Inr ws \<and> created ws cmd d0 r d))"
proof (cases "RequireWorkspaceID ctx")
  case (Inl x)
  have "Usage_Save ctx e s \<noteq> (Inr y, t)" for e s y t
    using Inl by (auto simp: Usage_Save_def with_workspace_def elim!: in_transaction_cases)
  then have "save_with_outbox ctx kind e s \<noteq> (Inr y, t)" for e s y t
    by (auto simp: save_with_outbox_def attempt_eq_Inr)
  then have "create limits ctx kind cmd s \<noteq> (Inr y, t)" for s y t
    by (auto simp: create_def attempt_eq_Inr elim!: in_transaction_cases)
  then show ?thesis by (simp add: ensures_def)
next
  case (Inr ws)
  then show ?thesis using ensures_create [OF Inr] by simp
qed


end
