(* ===== verification/ConsumptionSpec.thy ===== *)
theory ConsumptionSpec
  imports FailOpenSignal UsageLedger
begin

text \<open>
  The contract of \<^verbatim>\<open>Consume\<close>: an atomic specification \<^verbatim>\<open>consume_spec\<close> of what one call may do to the
  tables, the proof that the model of the two transactions refines it, and what follows:
  replay, idempotence, the hard limit, rejection without trace and atomic failure.
\<close>

section \<open>The assessment only reads\<close>

lemma keeps_calm_reads [keeps_rules]:
  "keeps (calm w) (FindPlans ctx q)" "keeps (calm w) (FindPlanLimits ctx pid)"
  "keeps (calm w) (GetEntitlementUsageCounter ctx cq)" "keeps (calm w) (LockEffectiveSubjectAssignment ctx s t)"
  unfolding FindPlans_def FindPlanLimits_def GetEntitlementUsageCounter_def LockEffectiveSubjectAssignment_def
  by (auto intro!: keeps_rules split: option.splits list.splits)

lemma keeps_calm_findPlan [keeps_rules]: "keeps (calm w) (findPlan ctx pid)"
  unfolding findPlan_def Let_def by (auto intro!: keeps_rules split: list.splits)

lemma keeps_calm_counter [keeps_rules]: "keeps (calm w) (counter_or_zero ctx q)"
  unfolding counter_or_zero_def by (auto intro!: keeps_rules split: sum.splits)

lemma keeps_AssessConsumption: "keeps_var (calm w) (AssessConsumption ctx cmd)"
  unfolding AssessConsumption_def Let_def
  by (auto intro!: keeps_rules split: sum.splits option.splits list.splits)

text \<open>Under hard enforcement an assessment allows exactly the projected values within the limit.\<close>

definition sound_assessment :: "ConsumptionAssessment \<Rightarrow> bool" where
  "sound_assessment a \<longleftrightarrow> ca_Enforcement a = EnforcementHard \<longrightarrow> ca_Allowed a = (ca_Projected a \<le> ca_Limit a)"

lemma yields_rules:
  "(\<And>x. ensures_var (\<lambda>_. True) (k x) Q) \<Longrightarrow> ensures_var (\<lambda>_. True) (try_var v m k) Q"
  "(\<And>r. ensures_var (\<lambda>_. True) (h r) Q) \<Longrightarrow> ensures_var (\<lambda>_. True) (inspect_var n h) Q"
  "(\<And>w. e = None \<Longrightarrow> Q v w) \<Longrightarrow> ensures_var (\<lambda>_. True) (return_var e v) Q"
  by (auto simp: ensures_var_def try_var_eq inspect_var_def return_var_def split: prod.splits)

lemma assess_value_sound [simp]: "sound_assessment (assess_value base plan limit window current projected retry)"
  by (cases window) (simp add: assess_value_def sound_assessment_def Let_def)

lemma sound_advisory: "ca_Enforcement a = EnforcementAdvisory \<Longrightarrow> sound_assessment a"
  by (simp add: sound_assessment_def)

lemma AssessConsumption_yields: "ensures_var (\<lambda>_. True) (AssessConsumption ctx cmd) (\<lambda>a _. sound_assessment a)"
  unfolding AssessConsumption_def Let_def
  by (auto intro!: yields_rules simp: sound_advisory split: sum.splits option.splits list.splits)

lemma AssessConsumption_sound: "AssessConsumption ctx cmd w = ((None, a), u) \<Longrightarrow> sound_assessment a"
  using ensures_varD [OF AssessConsumption_yields] by simp

section \<open>Decisions\<close>

lemma Decisions_Find_ok:
  assumes "Decisions_Find ctx key w = (Inr dcn, u)" "RequireWorkspaceID ctx = Inr ws"
  obtains row where "find_decision ws key (w_db w) = Some row" "dcn_Snapshot dcn = dr_Response row" "w_db u = w_db w"
proof -
  obtain row v where q: "query (find_decision ws key) w = (Inr (Some row), v)" and
    "dcn = FromSnapshot key (dr_Response row) (dr_CreatedAt row)" "u = v"
    using assms by (auto simp: Decisions_Find_def with_workspace_def attempt_eq_Inr split: option.splits)
  then show ?thesis using query_ok [OF q] that [of row] by (simp add: FromSnapshot_def)
qed

lemma keeps_calm_find [keeps_rules]: "keeps (calm w) (Decisions_Find ctx key)" "keeps (calm w) (find_result ctx key)"
  unfolding find_result_def Decisions_Find_def by (auto intro!: keeps_rules split: option.splits)

lemma find_result_ok:
  assumes "find_result ctx key w = (Inr r, u)" "RequireWorkspaceID ctx = Inr ws"
  obtains row where "find_decision ws key (w_db w) = Some row" "r = dr_Response row"
  using assms by (auto simp: find_result_def attempt_eq_Inr elim: Decisions_Find_ok)

lemma find_result_missing:
  assumes "find_result ctx key w = (Inl e, u)" "errors_Is e ErrNotFound" "RequireWorkspaceID ctx = Inr ws"
  shows "find_decision ws key (w_db w) = None"
proof -
  have "Decisions_Find ctx key w = (Inl e, u)" using assms(1) by (simp add: find_result_def attempt_eq_Inl)
  then show ?thesis
    using assms(2,3)
    by (auto simp: Decisions_Find_def with_workspace_def attempt_eq_Inl query_def stmt_def ErrNotFound_def split: option.splits)
qed

text \<open>The state after a decision was stored for a key.\<close>

definition decided :: "string \<Rightarrow> string \<Rightarrow> ConsumeResult \<Rightarrow> db \<Rightarrow> db \<Rightarrow> bool" where
  "decided ws key r d0 d \<longleftrightarrow> (\<exists>t. d = d0\<lparr>db_decisions := db_decisions d0 @ [decision_row ws (FromSnapshot key r t)]\<rparr>)"

lemma find_decision_append:
  "find_decision ws key (d\<lparr>db_decisions := db_decisions d @ [row]\<rparr>) =
    (case find_decision ws key d of Some r \<Rightarrow> Some r
     | None \<Rightarrow> if decision_key row = (ws, key) then Some row else None)"
  by (auto simp: find_decision_def row_find_append split: option.splits)

lemma decision_row_simps [simp]:
  "decision_key (decision_row ws (FromSnapshot key r t)) = (ws, key)"
  "dr_Response (decision_row ws (FromSnapshot key r t)) = r"
  "dr_WorkspaceID (decision_row ws (FromSnapshot key r t)) = ws"
  "dr_IdempotencyKey (decision_row ws (FromSnapshot key r t)) = key"
  by (simp_all add: decision_key_def decision_row_def FromSnapshot_def)

lemma decided_find: "find_decision ws key d0 = None \<Longrightarrow> decided ws key r d0 d \<Longrightarrow> \<exists>row. find_decision ws key d = Some row \<and> dr_Response row = r"
  by (auto simp: decided_def find_decision_append)

text \<open>Storing a result: it is stored, or the result stored before under the key is returned.\<close>

lemma persist_ok:
  assumes run: "persist ctx key result w = (Inr r, u)" and ws: "RequireWorkspaceID ctx = Inr ws"
  shows "case find_decision ws key (w_db w) of
      Some row \<Rightarrow> r = (dr_Response row)\<lparr>cr_Replayed := True\<rparr> \<and> w_db u = w_db w
    | None \<Rightarrow> marshal_result (result\<lparr>cr_Replayed := False\<rparr>) = Inr r \<and> decided ws key r (w_db w) (w_db u)"
proof -
  obtain snapshot stored created where snap: "marshal_result (result\<lparr>cr_Replayed := False\<rparr>) = Inr snapshot"
    and save: "Decisions_Save ctx key snapshot w = (Inr (stored, created), u)"
    and r: "r = (dcn_Snapshot stored)\<lparr>cr_Replayed := \<not> created\<rparr>"
    using run by (auto simp: persist_def attempt_eq_Inr)
  obtain t w1 n w2 where clock: "clock_now w = (Inr t, w1)"
    and ins: "execrows (\<lambda>d. if find_decision ws key d = None then 1 else 0)
      (insert_decision (decision_row ws (FromSnapshot key snapshot t))) w1 = (Inr n, w2)"
    and find: "Decisions_Find ctx key w2 = (Inr stored, u)" and created: "created = (n = 1)"
    using save ws by (auto simp: Decisions_Save_def with_workspace_def attempt_eq_Inr Let_def)
  have w1: "w_db w1 = w_db w" using clock clock_now_db(1) [of w] by simp
  have n: "n = (if find_decision ws key (w_db w) = None then 1 else 0)"
    and w2: "w_db w2 = insert_decision (decision_row ws (FromSnapshot key snapshot t)) (w_db w)"
    using stmt_ok [OF ins [unfolded execrows_def]] w1 by auto
  obtain row where row: "find_decision ws key (w_db w2) = Some row" "dcn_Snapshot stored = dr_Response row" "w_db u = w_db w2"
    by (rule Decisions_Find_ok [OF find ws])
  have "\<not> cr_Replayed snapshot"
    using snap by (auto simp: marshal_result_def try_res_eq_Inr)
  then have flag: "snapshot\<lparr>cr_Replayed := False\<rparr> = snapshot" by (cases snapshot) simp
  show ?thesis
  proof (cases "find_decision ws key (w_db w)")
    case None
    then have "w_db w2 = (w_db w)\<lparr>db_decisions := db_decisions (w_db w) @ [decision_row ws (FromSnapshot key snapshot t)]\<rparr>"
      using w2 by (simp add: insert_decision_def)
    moreover from this have "row = decision_row ws (FromSnapshot key snapshot t)"
      using row(1) None by (simp add: find_decision_append)
    ultimately show ?thesis
      using None row(2,3) r created n snap flag by (auto simp: decided_def)
  next
    case (Some old)
    then have "w_db w2 = w_db w" using w2 by (simp add: insert_decision_def)
    then show ?thesis using Some row r created n by auto
  qed
qed

text \<open>What a stored snapshot keeps of a result.\<close>

lemma marshal_result_ok:
  assumes "marshal_result r = Inr s"
  shows "\<exists>m. s = r\<lparr>cr_Event := (cr_Event r)\<lparr>ur_Metadata := m, ur_Replayed := False\<rparr>\<rparr>"
  using assms by (auto simp: marshal_result_def try_res_eq_Inr)

definition same_event :: "UsageResult \<Rightarrow> UsageResult \<Rightarrow> bool" where
  "same_event a b \<longleftrightarrow> (\<exists>m. a = b\<lparr>ur_Metadata := m, ur_Replayed := False\<rparr>)"

lemma persisted_fields:
  assumes "marshal_result (r\<lparr>cr_Replayed := False\<rparr>) = Inr s"
  shows "cr_Accepted s = cr_Accepted r \<and> cr_EvaluationFailed s = cr_EvaluationFailed r \<and> cr_Quota s = cr_Quota r \<and>
    \<not> cr_Replayed s \<and> same_event (cr_Event s) (cr_Event r)"
  using marshal_result_ok [OF assms] by (auto simp: same_event_def)

section \<open>The contract of \<^verbatim>\<open>Consume\<close>\<close>


text \<open>What a call with a key may return and leave, from the tables \<open>d0\<close>: the five outcomes that
  the code distinguishes.  An outcome that is not a replay stores its result under the key.\<close>

definition over_hard_limit :: "ConsumptionAssessment \<Rightarrow> bool" where
  "over_hard_limit a \<longleftrightarrow> ca_Enforcement a = EnforcementHard \<and> \<not> ca_Projected a \<le> ca_Limit a"

inductive consume_spec :: "string \<Rightarrow> string \<Rightarrow> Command \<Rightarrow> db \<Rightarrow> ConsumeResult \<Rightarrow> db \<Rightarrow> bool"
  for ws key cmd d0 where
  Replay: "find_decision ws key d0 = Some row \<Longrightarrow>
    consume_spec ws key cmd d0 ((dr_Response row)\<lparr>cr_Replayed := True\<rparr>) d0"
| Reject: "find_decision ws key d0 = None \<Longrightarrow> decided ws key r d0 d \<Longrightarrow> \<not> cr_Replayed r \<Longrightarrow>
    \<not> cr_Accepted r \<Longrightarrow> \<not> cr_EvaluationFailed r \<Longrightarrow> over_hard_limit (cr_Quota r) \<Longrightarrow>
    consume_spec ws key cmd d0 r d"
| Fail_closed: "find_decision ws key d0 = None \<Longrightarrow> decided ws key r d0 d \<Longrightarrow> \<not> cr_Replayed r \<Longrightarrow>
    \<not> cr_Accepted r \<Longrightarrow> cr_EvaluationFailed r \<Longrightarrow> ca_FailurePolicy (cr_Quota r) = FailClosed \<Longrightarrow>
    consume_spec ws key cmd d0 r d"
| Existing: "find_decision ws key d0 = None \<Longrightarrow> decided ws key r d0 d \<Longrightarrow> \<not> cr_Replayed r \<Longrightarrow>
    cr_Accepted r \<Longrightarrow> \<not> cr_EvaluationFailed r \<Longrightarrow> stored_under ws key (ur_ID (cr_Event r)) d0 \<Longrightarrow>
    consume_spec ws key cmd d0 r d"
| Record: "find_decision ws key d0 = None \<Longrightarrow> decided ws key r d1 d \<Longrightarrow> \<not> cr_Replayed r \<Longrightarrow>
    cr_Accepted r \<Longrightarrow> \<not> cr_EvaluationFailed r \<Longrightarrow> \<not> over_hard_limit (cr_Quota r) \<Longrightarrow>
    created ws (create_command key cmd) d0 ev d1 \<Longrightarrow> \<not> ur_Replayed ev \<Longrightarrow> same_event (cr_Event r) ev \<Longrightarrow>
    consume_spec ws key cmd d0 r d"
| Record_open: "find_decision ws key d0 = None \<Longrightarrow> decided ws key r d1 d \<Longrightarrow> \<not> cr_Replayed r \<Longrightarrow>
    cr_Accepted r \<Longrightarrow> cr_EvaluationFailed r \<Longrightarrow> ca_FailurePolicy (cr_Quota r) \<noteq> FailClosed \<Longrightarrow>
    created ws (create_command key cmd) d0 ev d1 \<Longrightarrow> same_event (cr_Event r) ev \<Longrightarrow>
    consume_spec ws key cmd d0 r d"

subsection \<open>The parts of the transactions\<close>

lemma find_decision_frame: "db_decisions d' = db_decisions d \<Longrightarrow> find_decision ws key d' = find_decision ws key d"
  by (simp add: find_decision_def)

lemma other_tables_decisions: "other_tables d' = other_tables d \<Longrightarrow> db_decisions d' = db_decisions d"
  unfolding other_tables_def by (drule arg_cong [of _ _ db_decisions]) simp

lemma calm_run: "keeps (calm w) m \<Longrightarrow> m w = (r, u) \<Longrightarrow> w_db u = w_db w \<and> w_in_tx u = w_in_tx w"
  using keepsD [of "calm w" m w] by (simp add: calm_def)

lemma persist_into_ok:
  assumes run: "persist_into ctx key result w = ((None, r), u)" and ws: "RequireWorkspaceID ctx = Inr ws"
  shows "case find_decision ws key (w_db w) of
      Some row \<Rightarrow> r = (dr_Response row)\<lparr>cr_Replayed := True\<rparr> \<and> w_db u = w_db w
    | None \<Rightarrow> marshal_result (result\<lparr>cr_Replayed := False\<rparr>) = Inr r \<and> decided ws key r (w_db w) (w_db u)"
proof -
  obtain x v where "persist ctx key result w = (Inr x, v)" "r = x" "u = v"
    using run by (auto simp: persist_into_def try_var_eq return_var_def)
  then show ?thesis using persist_ok [OF _ ws, of key result w r u] by simp
qed

lemma unless_decided_cases:
  assumes run: "unless_decided ctx key result continue w = ((None, r), u)" and ws: "RequireWorkspaceID ctx = Inr ws"
  obtains (known) row where "find_decision ws key (w_db w) = Some row" "r = (dr_Response row)\<lparr>cr_Replayed := True\<rparr>"
      "w_db u = w_db w"
  | (new) v where "find_decision ws key (w_db w) = None" "w_db v = w_db w" "continue v = ((None, r), u)"
proof -
  obtain x v where find: "find_result ctx key w = (x, v)" by (cases "find_result ctx key w")
  have v: "w_db v = w_db w" using calm_run [OF keeps_calm_find(2) find] by simp
  show ?thesis
  proof (cases x)
    case (Inr existing)
    then show ?thesis
      using run find v find_result_ok [OF _ ws, of key w existing v] known
      by (auto simp: unless_decided_def inspect_var_def return_var_def)
  next
    case (Inl e)
    then show ?thesis
      using run find v find_result_missing [OF _ _ ws, of key w e v] new
      by (auto simp: unless_decided_def inspect_var_def return_var_def split: if_splits)
  qed
qed

lemma create_and_persist_ok:
  assumes run: "create_and_persist limits ctx key cmd result w = ((None, r), u)"
    and ws: "RequireWorkspaceID ctx = Inr ws" and "ledger_ok (w_db w)" and none: "find_decision ws key (w_db w) = None"
  obtains ev d1 where "created ws (create_command key cmd) (w_db w) ev d1" "decided ws key r d1 (w_db u)"
    "marshal_result (result\<lparr>cr_Accepted := True, cr_Event := ev, cr_Replayed := False\<rparr>) = Inr r"
proof -
  obtain ev v where create: "Create limits ctx (create_command key cmd) w = (Inr ev, v)"
    and persist: "persist_into ctx key (result\<lparr>cr_Accepted := True, cr_Event := ev\<rparr>) v = ((None, r), u)"
    using run by (auto simp: create_and_persist_def try_var_eq)
  have "on_db (\<lambda>d. d = w_db w \<and> ledger_ok (w_db w)) w" using assms(3) by (simp add: on_db_def)
  from ensuresD [OF ensures_create [OF ws] create [unfolded Create_def] this]
  have created: "created ws (create_command key cmd) (w_db w) ev (w_db v)" by (simp add: on_db_def)
  then have "find_decision ws key (w_db v) = None"
    using none find_decision_frame [OF other_tables_decisions, of "w_db v" "w_db w"] by (simp add: created_def)
  then show ?thesis
    using that [OF created] persist_into_ok [OF persist ws] by simp
qed

lemma keeps_calm_get: "keeps (calm w) (GetByIdempotencyKey ctx key)"
  unfolding GetByIdempotencyKey_def FindEventByIdempotencyKey_def findByIdempotencyKey_def read_event_def Let_def
  by (auto intro!: keeps_rules split: option.splits sum.splits)

text \<open>No event under the key: the event of a successful \<^verbatim>\<open>Create\<close> is new.\<close>

lemma GetByIdempotencyKey_ok:
  assumes "GetByIdempotencyKey ctx key w = (Inr ev, u)" "RequireWorkspaceID ctx = Inr ws" "events_valid (w_db w)"
    "TrimSpace key = key"
  shows "stored_under ws key (ur_ID ev) (w_db w)"
proof -
  obtain e where "ev = eventResultFromDomain e"
    "read_event (\<lambda>e. ev_idempotencyKey e \<noteq> [] \<and> ev_idempotencyKey e = key) ctx w = (Inr e, u)"
    using assms(1,4)
    by (auto simp: GetByIdempotencyKey_def FindEventByIdempotencyKey_def findByIdempotencyKey_def attempt_eq_Inr inspect_def
        split: if_splits prod.splits sum.splits)
  then show ?thesis
    using read_event_ok [OF _ assms(3,2), of _ e u] by (fastforce simp: stored_under_def eventResultFromDomain_def)
qed

lemma eventFromFields_valid: "valid_event e \<Longrightarrow> eventFromFields e = Inr e"
  by (simp add: valid_event_def eventFromFields_def NewEvent_def Let_def trimmed_TrimSpace NormalizeSubject_valid)

lemma read_event_error:
  assumes "read_event p ctx w = (Inl e, u)" "RequireWorkspaceID ctx = Inr ws" "events_valid (w_db w)"
  shows "e = ErrNoRows \<or> (\<exists>m. e = DriverErr m)"
  using assms
  by (auto simp: read_event_def with_workspace_def attempt_eq_Inl query_def stmt_def events_valid_def eventFromFields_valid
      dest!: row_find_Some split: option.splits prod.splits)

lemma GetByIdempotencyKey_missing:
  assumes run: "GetByIdempotencyKey ctx key w = (Inl e, u)" and ws: "RequireWorkspaceID ctx = Inr ws"
    and key: "TrimSpace key = key" and valid: "events_valid (w_db w)" and missing: "errors_Is e ErrNotFound"
  shows "\<not> stored_under ws key eid (w_db w)"
proof -
  let ?read = "read_event (\<lambda>e. ev_idempotencyKey e \<noteq> [] \<and> ev_idempotencyKey e = key) ctx"
  obtain x where x: "?read w = (Inl x, u)" and "e = (if errors_Is x ErrNoRows then ErrNotFound else x)" if "key \<noteq> []"
    using run key
    by (auto simp: GetByIdempotencyKey_def FindEventByIdempotencyKey_def findByIdempotencyKey_def attempt_eq_Inl inspect_def
        split: if_splits prod.splits sum.splits)
  then have "?read w = (Inl ErrNoRows, u)" if "key \<noteq> []"
    using that read_event_error [OF x [OF that] ws valid] missing by (auto simp: ErrNoRows_def ErrNotFound_def split: if_splits)
  then show ?thesis
    using read_event_no_row [OF _ ws] by (fastforce simp: stored_under_def)
qed

subsection \<open>The refinement\<close>

text \<open>Storing a result in a state without a decision, and in any state.\<close>

lemma persist_into_spec:
  assumes "persist_into ctx key result w = ((None, r), u)" and "RequireWorkspaceID ctx = Inr ws"
    and new: "find_decision ws key (w_db w) = None \<Longrightarrow> decided ws key r (w_db w) (w_db u) \<Longrightarrow>
      cr_Accepted r = cr_Accepted result \<Longrightarrow> cr_EvaluationFailed r = cr_EvaluationFailed result \<Longrightarrow>
      cr_Quota r = cr_Quota result \<Longrightarrow> \<not> cr_Replayed r \<Longrightarrow> same_event (cr_Event r) (cr_Event result) \<Longrightarrow>
      consume_spec ws key cmd (w_db w) r (w_db u)"
  shows "consume_spec ws key cmd (w_db w) r (w_db u)"
proof (cases "find_decision ws key (w_db w)")
  case None
  then have stored: "decided ws key r (w_db w) (w_db u)" "marshal_result (result\<lparr>cr_Replayed := False\<rparr>) = Inr r"
    using persist_into_ok [OF assms(1,2)] by simp_all
  show ?thesis by (rule new [OF None stored(1)]) (simp_all add: persisted_fields [OF stored(2)])
next
  case (Some row)
  then show ?thesis
    using persist_into_ok [OF assms(1,2)] consume_spec.Replay [of ws key "w_db w" row cmd] by simp
qed

lemma unless_decided_spec:
  assumes "unless_decided ctx key result continue w = ((None, r), u)" and "RequireWorkspaceID ctx = Inr ws"
    and new: "\<And>v. find_decision ws key (w_db w) = None \<Longrightarrow> w_db v = w_db w \<Longrightarrow> continue v = ((None, r), u) \<Longrightarrow>
      consume_spec ws key cmd (w_db w) r (w_db u)"
  shows "consume_spec ws key cmd (w_db w) r (w_db u)"
  using assms(1,2)
proof (cases rule: unless_decided_cases)
  case (known row)
  then show ?thesis using consume_spec.Replay [of ws key "w_db w" row] by simp
next
  case (new v)
  then show ?thesis by (rule assms(3))
qed

lemma fields0:
  "\<not> cr_Accepted zero_consume_result" "\<not> cr_Replayed zero_consume_result" "\<not> cr_EvaluationFailed zero_consume_result"
  by (simp_all add: zero_consume_result_def)

text \<open>The branch of the first transaction that looks for the event and records it.\<close>

lemma record_spec:
  assumes run: "inspect_var (GetByIdempotencyKey ctx key) (\<lambda>r. case r of
             Inr existing \<Rightarrow> persist_into ctx key (result\<lparr>cr_Accepted := True, cr_Event := existing\<rparr>)
           | Inl e \<Rightarrow>
               if \<not> errors_Is e ErrNotFound then return_var (Some e) result
               else if ca_Enforcement a = EnforcementHard \<and> \<not> ca_Allowed a
               then persist_into ctx key result
               else create_and_persist limits ctx key cmd result) v = ((None, r), u)"
    and result: "result = zero_consume_result\<lparr>cr_Quota := a\<rparr>" and sound: "sound_assessment a"
    and ws: "RequireWorkspaceID ctx = Inr ws" and key: "TrimSpace key = key"
    and ledger: "ledger_ok (w_db v)" and none: "find_decision ws key (w_db v) = None"
  shows "consume_spec ws key cmd (w_db v) r (w_db u)"
proof -
  have valid: "events_valid (w_db v)" using ledger by (simp add: ledger_ok_def)
  obtain x t where get: "GetByIdempotencyKey ctx key v = (x, t)" by (cases "GetByIdempotencyKey ctx key v")
  have t: "w_db t = w_db v" using calm_run [OF keeps_calm_get get] by simp
  show ?thesis
  proof (cases x)
    case (Inr existing)
    then have persist: "persist_into ctx key (result\<lparr>cr_Accepted := True, cr_Event := existing\<rparr>) t = ((None, r), u)"
      using run get by (simp add: inspect_var_def)
    have under: "stored_under ws key (ur_ID existing) (w_db v)"
      using GetByIdempotencyKey_ok [OF _ ws valid key] get Inr by simp
    have "consume_spec ws key cmd (w_db t) r (w_db u)"
      by (rule persist_into_spec [OF persist ws])
        (use under result t in \<open>auto intro!: consume_spec.Existing simp: fields0 same_event_def\<close>)
    then show ?thesis using t by simp
  next
    case (Inl e)
    note missing = GetByIdempotencyKey_missing [OF get [unfolded Inl] ws key valid]
    consider (reject) "over_hard_limit a" "persist_into ctx key result t = ((None, r), u)" "errors_Is e ErrNotFound"
      | (create) "\<not> over_hard_limit a" "create_and_persist limits ctx key cmd result t = ((None, r), u)" "errors_Is e ErrNotFound"
      using run get Inl sound
      by (auto simp: inspect_var_def return_var_def over_hard_limit_def sound_assessment_def split: if_splits)
    then show ?thesis
    proof cases
      case reject
      have "consume_spec ws key cmd (w_db t) r (w_db u)"
        by (rule persist_into_spec [OF reject(2) ws])
          (use reject(1) result in \<open>auto intro!: consume_spec.Reject simp: fields0\<close>)
      then show ?thesis using t by simp
    next
      case create
      obtain ev d1 where made: "created ws (create_command key cmd) (w_db v) ev d1" "decided ws key r d1 (w_db u)"
        and marshal: "marshal_result (result\<lparr>cr_Accepted := True, cr_Event := ev, cr_Replayed := False\<rparr>) = Inr r"
        using create_and_persist_ok [OF create(2) ws] ledger none t by metis
      have fields: "cr_Accepted r" "\<not> cr_EvaluationFailed r" "cr_Quota r = a" "\<not> cr_Replayed r" "same_event (cr_Event r) ev"
        using marshal_result_ok [OF marshal] result by (auto simp: same_event_def zero_consume_result_def)
      have "\<not> ur_Replayed ev"
        using made(1) missing [OF create(3), of "ur_ID ev"] key stored_under_frame [of d1 "w_db v" ws key "ur_ID ev"]
        by (auto simp: created_def create_command_def simp del: ball_simps)
      then show ?thesis using consume_spec.Record [OF none made(2) _ _ _ _ made(1)] fields create(1) by simp
    qed
  qed
qed

lemma consume_assessed_spec:
  assumes run: "consume_assessed limits ctx key cmd err a w = ((None, r), u)"
    and sound: "err = None \<Longrightarrow> sound_assessment a"
    and ws: "RequireWorkspaceID ctx = Inr ws" and key: "TrimSpace key = key" and ledger: "ledger_ok (w_db w)"
  shows "consume_spec ws key cmd (w_db w) r (w_db u)"
proof (cases err)
  case (Some e)
  then have persist: "persist_into ctx key (zero_consume_result\<lparr>cr_Quota := a, cr_EvaluationFailed := True\<rparr>) w = ((None, r), u)"
    and "ca_FailurePolicy a = FailClosed"
    using run by (auto simp: consume_assessed_def return_var_def Let_def split: if_splits)
  note closed = this
  show ?thesis
  proof (rule persist_into_spec [OF closed(1) ws])
    assume "find_decision ws key (w_db w) = None" "decided ws key r (w_db w) (w_db u)"
      and "cr_Accepted r = cr_Accepted (zero_consume_result\<lparr>cr_Quota := a, cr_EvaluationFailed := True\<rparr>)"
      "cr_EvaluationFailed r = cr_EvaluationFailed (zero_consume_result\<lparr>cr_Quota := a, cr_EvaluationFailed := True\<rparr>)"
      "cr_Quota r = cr_Quota (zero_consume_result\<lparr>cr_Quota := a, cr_EvaluationFailed := True\<rparr>)" "\<not> cr_Replayed r"
    then show "consume_spec ws key cmd (w_db w) r (w_db u)"
      using closed(2) by (intro consume_spec.Fail_closed) (simp_all add: fields0)
  qed
next
  case None
  show ?thesis
    apply (rule unless_decided_spec [OF run [unfolded consume_assessed_def None Let_def option.case] ws])
    subgoal premises prems for v
      using record_spec [OF prems(3) refl sound [OF None] ws key] prems(1,2) ledger by simp
    done
qed

lemma consume_transaction_spec:
  assumes run: "consume_transaction limits ctx key cmd w = ((None, r), u)"
    and ws: "RequireWorkspaceID ctx = Inr ws" and key: "TrimSpace key = key" and ledger: "ledger_ok (w_db w)"
  shows "consume_spec ws key cmd (w_db w) r (w_db u)"
proof -
  let ?cac = "\<lparr>cac_Subject = co_Subject cmd, cac_Meter = co_MeterName cmd, cac_Quantity = co_Quantity cmd, cac_EventTime = co_EventTime cmd\<rparr>"
  obtain err a v where assess: "AssessConsumption ctx ?cac w = ((err, a), v)"
    by (metis prod.collapse)
  have "w_db v = w_db w" using keeps_varD [OF keeps_AssessConsumption, of w w ctx ?cac] assess by (simp add: calm_def)
  moreover have "consume_assessed limits ctx key cmd err a v = ((None, r), u)"
    using run assess by (simp add: consume_transaction_def)
  ultimately show ?thesis
    using consume_assessed_spec [of limits ctx key cmd err a v r u ws] AssessConsumption_sound [of ctx ?cac w a v] assess ws key ledger
    by auto
qed

text \<open>The second transaction, from the result that the first one left.\<close>

lemma fail_open_spec:
  assumes run: "fail_open_transaction limits ctx key cmd (zero_consume_result\<lparr>cr_Quota := a, cr_EvaluationFailed := True\<rparr>) w = ((None, r), u)"
    and ws: "RequireWorkspaceID ctx = Inr ws" and ledger: "ledger_ok (w_db w)" and policy: "ca_FailurePolicy a \<noteq> FailClosed"
  shows "consume_spec ws key cmd (w_db w) r (w_db u)"
proof (rule unless_decided_spec [OF run [unfolded fail_open_transaction_def] ws])
  fix v assume none: "find_decision ws key (w_db w) = None" and v: "w_db v = w_db w"
    and create: "create_and_persist limits ctx key cmd (zero_consume_result\<lparr>cr_Quota := a, cr_EvaluationFailed := True\<rparr>) v = ((None, r), u)"
  obtain ev d1 where made: "created ws (create_command key cmd) (w_db w) ev d1" "decided ws key r d1 (w_db u)"
    and marshal: "marshal_result ((zero_consume_result\<lparr>cr_Quota := a, cr_EvaluationFailed := True\<rparr>)\<lparr>cr_Accepted := True, cr_Event := ev, cr_Replayed := False\<rparr>) = Inr r"
    using create_and_persist_ok [OF create ws] ledger none v by metis
  have fields: "cr_Accepted r" "cr_EvaluationFailed r" "cr_Quota r = a" "\<not> cr_Replayed r" "same_event (cr_Event r) ev"
    using marshal_result_ok [OF marshal] by (auto simp: same_event_def zero_consume_result_def)
  then show "consume_spec ws key cmd (w_db w) r (w_db u)"
    using consume_spec.Record_open [OF none made(2) _ _ _ _ made(1)] policy by simp
qed

subsection \<open>The whole call\<close>

text \<open>A transaction whose error wraps the signal got it from its body.\<close>

lemma signal_from_body:
  assumes "WithinTransaction v0 f w = ((Some e, v), u)" "errors_Is e errFailOpen" "\<not> w_in_tx w"
  obtains t where "f ((drop_fault w)\<lparr>w_in_tx := True\<rparr>) = ((Some e, v), t)" "w_db u = w_db w" "\<not> w_in_tx u"
  using assms by (auto simp: WithinTransaction_def split: if_splits option.splits prod.splits)

lemma transaction_committed:
  assumes "WithinTransaction v0 f w = ((None, v), u)" "\<not> w_in_tx w"
  obtains t where "f ((drop_fault w)\<lparr>w_in_tx := True\<rparr>) = ((None, v), t)" "w_db u = w_db t" "\<not> w_in_tx u"
  using assms by (cases rule: WithinTransaction_cases) auto

lemma consume_transaction_signal:
  assumes "consume_transaction limits ctx key cmd w = ((Some e, result), u)" "errors_Is e errFailOpen"
  obtains a where "result = zero_consume_result\<lparr>cr_Quota := a\<rparr>" "ca_FailurePolicy a \<noteq> FailClosed"
  using assms by (auto simp: consume_transaction_def split: prod.splits dest: consume_assessed_signal)

lemma consume_once_ok:
  assumes run: "consume_once limits ctx key cmd w = (Inr r, u)" and ws: "RequireWorkspaceID ctx = Inr ws"
    and key: "TrimSpace key = key" and ledger: "ledger_ok (w_db w)" and tx: "\<not> w_in_tx w"
  shows "consume_spec ws key cmd (w_db w) r (w_db u) \<and> \<not> w_in_tx u"
proof -
  obtain e v t where first: "WithinTransaction zero_consume_result (consume_transaction limits ctx key cmd) w = ((e, v), t)"
    by (metis prod.collapse)
  show ?thesis
  proof (cases e)
    case None
    then have r: "r = v" "u = t" using run first by (simp_all add: consume_once_def)
    from transaction_committed [OF first [unfolded None] tx] obtain s where
      "consume_transaction limits ctx key cmd ((drop_fault w)\<lparr>w_in_tx := True\<rparr>) = ((None, v), s)"
      "w_db t = w_db s" "\<not> w_in_tx t" .
    then show ?thesis using consume_transaction_spec [OF _ ws key] ledger r by fastforce
  next
    case (Some x)
    let ?open = "v\<lparr>cr_EvaluationFailed := True\<rparr>"
    have signal: "errors_Is x errFailOpen"
      and second: "WithinTransaction ?open (fail_open_transaction limits ctx key cmd ?open) t = ((None, r), u)"
      using run first Some by (auto simp: consume_once_def Let_def split: if_splits prod.splits option.splits)
    from signal_from_body [OF first [unfolded Some] signal tx] obtain s where
      body: "consume_transaction limits ctx key cmd ((drop_fault w)\<lparr>w_in_tx := True\<rparr>) = ((Some x, v), s)"
      and t: "w_db t = w_db w" "\<not> w_in_tx t" .
    from consume_transaction_signal [OF body signal] obtain a where
      a: "v = zero_consume_result\<lparr>cr_Quota := a\<rparr>" "ca_FailurePolicy a \<noteq> FailClosed" .
    from transaction_committed [OF second t(2)] obtain z where
      "fail_open_transaction limits ctx key cmd ?open ((drop_fault t)\<lparr>w_in_tx := True\<rparr>) = ((None, r), z)"
      "w_db u = w_db z" "\<not> w_in_tx u" .
    then show ?thesis using fail_open_spec [OF _ ws _ a(2)] ledger t a(1) by fastforce
  qed
qed

lemma consume_once_error:
  assumes run: "consume_once limits ctx key cmd w = (Inl e, u)" and tx: "\<not> w_in_tx w"
  shows "w_db u = w_db w \<and> \<not> w_in_tx u"
proof -
  have rolled: "w_db t = w_db v \<and> \<not> w_in_tx t" if "WithinTransaction x f v = ((Some y, z), t)" "\<not> w_in_tx v"
    for x :: ConsumeResult and f v y z t
    using that by (cases rule: WithinTransaction_cases) auto
  obtain y v t where first: "WithinTransaction zero_consume_result (consume_transaction limits ctx key cmd) w = ((Some y, v), t)"
    using run by (auto simp: consume_once_def split: prod.splits option.splits)
  note r1 = rolled [OF first tx]
  let ?open = "v\<lparr>cr_EvaluationFailed := True\<rparr>"
  show ?thesis
  proof (cases "errors_Is y errFailOpen")
    case True
    then obtain q where "WithinTransaction ?open (fail_open_transaction limits ctx key cmd ?open) t = ((Some e, q), u)"
      using run first by (auto simp: consume_once_def Let_def split: prod.splits option.splits)
    then show ?thesis using rolled r1 by auto
  next
    case False
    then show ?thesis using run first r1 by (simp add: consume_once_def)
  qed
qed

text \<open>The look-up before the transaction.\<close>

lemma Consume_cases:
  assumes run: "Consume limits ctx cmd w = (r, u)" and tx: "\<not> w_in_tx w"
  obtains (bad) e where "r = Inl e" "w_db u = w_db w" "\<not> w_in_tx u"
  | (known) ws row where "RequireWorkspaceID ctx = Inr ws" "r = Inr ((dr_Response row)\<lparr>cr_Replayed := True\<rparr>)"
      "find_decision ws (TrimSpace (co_IdempotencyKey cmd)) (w_db w) = Some row" "w_db u = w_db w" "\<not> w_in_tx u"
  | (new) ws v where "RequireWorkspaceID ctx = Inr ws" "w_db v = w_db w" "\<not> w_in_tx v"
      "find_decision ws (TrimSpace (co_IdempotencyKey cmd)) (w_db w) = None"
      "consume_once limits ctx (TrimSpace (co_IdempotencyKey cmd)) cmd v = (r, u)"
proof -
  let ?key = "TrimSpace (co_IdempotencyKey cmd)"
  obtain x v where find: "find_result ctx ?key w = (x, v)" by (cases "find_result ctx ?key w")
  have v: "w_db v = w_db w" "\<not> w_in_tx v" using calm_run [OF keeps_calm_find(2) find] tx by simp_all
  have ws: "\<exists>ws. RequireWorkspaceID ctx = Inr ws" if "x = Inr y \<or> (x = Inl e \<and> errors_Is e ErrNotFound)" for y e
  proof (cases "RequireWorkspaceID ctx")
    case (Inl z)
    then show ?thesis
      using find that
      by (auto simp: find_result_def Decisions_Find_def with_workspace_def RequireWorkspaceID_def sentinel_defs split: option.splits)
  qed auto
  show ?thesis
  proof (cases "?key = []")
    case True
    then show ?thesis using run bad tx by (auto simp: Consume_def)
  next
    case False
    then have rest: "(case x of Inr existing \<Rightarrow> return_ok (existing\<lparr>cr_Replayed := True\<rparr>)
       | Inl e \<Rightarrow> if \<not> errors_Is e ErrNotFound then return_err e else consume_once limits ctx ?key cmd) v = (r, u)"
      using run find by (simp add: Consume_def inspect_def Let_def)
    show ?thesis
    proof (cases x)
      case (Inr y)
      obtain ws where ws': "RequireWorkspaceID ctx = Inr ws" using ws Inr by blast
      from find_result_ok [OF find [unfolded Inr] ws'] obtain row where
        "find_decision ws ?key (w_db w) = Some row" "y = dr_Response row" .
      then show ?thesis using known [OF ws'] rest Inr v by auto
    next
      case (Inl e)
      show ?thesis
      proof (cases "errors_Is e ErrNotFound")
        case True
        then obtain ws where ws': "RequireWorkspaceID ctx = Inr ws" using ws Inl by blast
        show ?thesis using new [OF ws' v] rest Inl True find_result_missing [OF find [unfolded Inl] True ws'] by simp
      next
        case False
        then show ?thesis using bad [of e] rest Inl v by auto
      qed
    qed
  qed
qed

lemma Consume_ok:
  assumes run: "Consume limits ctx cmd w = (Inr r, u)" and "ledger_ok (w_db w)" "\<not> w_in_tx w"
  shows "\<not> w_in_tx u \<and> (\<exists>ws. RequireWorkspaceID ctx = Inr ws \<and>
    consume_spec ws (TrimSpace (co_IdempotencyKey cmd)) cmd (w_db w) r (w_db u))"
  using run assms(3)
proof (cases rule: Consume_cases)
  case (known ws row)
  then show ?thesis using consume_spec.Replay [OF known(3)] by auto
next
  case (new ws v)
  then show ?thesis using consume_once_ok [OF new(5,1) TrimSpace_idem] assms(2) by auto
qed simp

lemma Consume_error:
  assumes run: "Consume limits ctx cmd w = (Inl e, u)" and "\<not> w_in_tx w"
  shows "w_db u = w_db w \<and> \<not> w_in_tx u"
  using run assms(2)
proof (cases rule: Consume_cases)
  case (new ws v)
  then show ?thesis using consume_once_error [OF new(5)] by simp
qed simp_all

section \<open>What follows from the contract\<close>

inductive_cases consume_specE: "consume_spec ws key cmd d0 r d"

lemma decided_frames:
  assumes "decided ws key r d0 d"
  shows "ledger_ok d = ledger_ok d0" "db_events d = db_events d0" "db_outbox d = db_outbox d0"
    "db_counters d = db_counters d0" "db_usage_counts d = db_usage_counts d0"
  using assms by (auto simp: decided_def ledger_ok_frame [of "d0\<lparr>db_decisions := x\<rparr>" d0 for x])

lemma consume_spec_ledger:
  assumes "consume_spec ws key cmd d0 r d" and "ledger_ok d0"
  shows "ledger_ok d"
  using assms by (cases rule: consume_spec.cases) (auto simp: decided_frames(1) created_def)

text \<open>Afterwards the key is decided, with the result returned.\<close>

lemma consume_spec_decided:
  assumes "consume_spec ws key cmd d0 r d"
  obtains row where "find_decision ws key d = Some row" "r\<lparr>cr_Replayed := True\<rparr> = (dr_Response row)\<lparr>cr_Replayed := True\<rparr>"
  using assms
proof (cases rule: consume_spec.cases)
  case (Replay row)
  then show ?thesis using that by simp
next
  case (Record d1 ev)
  then have "find_decision ws key d1 = None"
    using find_decision_frame [OF other_tables_decisions, of d1 d0] by (simp add: created_def)
  then show ?thesis using decided_find [OF _ Record(2)] that by auto
next
  case (Record_open d1 ev)
  then have "find_decision ws key d1 = None"
    using find_decision_frame [OF other_tables_decisions, of d1 d0] by (simp add: created_def)
  then show ?thesis using decided_find [OF _ Record_open(2)] that by auto
qed (use decided_find that in \<open>blast+\<close>)

text \<open>A decided key replays: the same result, and nothing changes.\<close>

lemma consume_spec_again:
  assumes "find_decision ws key d = Some row" "consume_spec ws key cmd d r d'"
  shows "r = (dr_Response row)\<lparr>cr_Replayed := True\<rparr> \<and> d' = d"
  using assms(2,1) by (cases rule: consume_spec.cases) auto

subsection \<open>Decisions\<close>

text \<open>A stored decision: its columns are those of its snapshot, and an accepted one names an event that
  is stored in its workspace under its key.\<close>

definition decision_ok :: "db \<Rightarrow> DecisionRow \<Rightarrow> bool" where
  "decision_ok d row \<longleftrightarrow> \<not> cr_Replayed (dr_Response row) \<and>
    row = decision_row (dr_WorkspaceID row) (FromSnapshot (dr_IdempotencyKey row) (dr_Response row) (dr_CreatedAt row)) \<and>
    (dr_Accepted row \<longrightarrow> stored_under (dr_WorkspaceID row) (dr_IdempotencyKey row) (ur_ID (cr_Event (dr_Response row))) d)"

definition decisions_ok :: "db \<Rightarrow> bool" where
  "decisions_ok d \<longleftrightarrow> distinct_keys decision_key (db_decisions d) \<and> (\<forall>row \<in> set (db_decisions d). decision_ok d row)"

lemma stored_under_append:
  "stored_under ws key i d \<Longrightarrow> db_events d' = db_events d @ rows \<Longrightarrow> stored_under ws key i d'"
  by (auto simp: stored_under_def)

lemma decisions_ok_append:
  "decisions_ok d \<Longrightarrow> db_events d' = db_events d @ rows \<Longrightarrow> db_decisions d' = db_decisions d \<Longrightarrow> decisions_ok d'"
  unfolding decisions_ok_def decision_ok_def by (auto intro: stored_under_append)

lemma created_stored_under:
  assumes "created ws (create_command key cmd) d0 ev d1" and key: "TrimSpace key = key" "key \<noteq> []"
  shows "stored_under ws key (ur_ID ev) d1" "\<exists>rows. db_events d1 = db_events d0 @ rows" "db_decisions d1 = db_decisions d0"
proof -
  show "db_decisions d1 = db_decisions d0" using assms(1) by (intro other_tables_decisions) (simp add: created_def)
  show "\<exists>rows. db_events d1 = db_events d0 @ rows" using assms(1) by (auto simp: created_def split: if_splits)
  show "stored_under ws key (ur_ID ev) d1"
  proof (cases "ur_Replayed ev")
    case True
    then show ?thesis using assms(1) key by (simp add: created_def create_command_def)
  next
    case False
    then obtain e row where "ev = eventResultFromDomain e" "ev_idempotencyKey e = key" and row: "stored e row"
      and "db_events d1 = db_events d0 @ [(ws, row)]"
      using assms(1) key by (auto simp: created_def create_command_def)
    moreover have "ev_id row = ev_id e" "ev_idempotencyKey row = ev_idempotencyKey e"
      using row by (auto simp: stored_def stored_form_def try_res_eq_Inr)
    ultimately show ?thesis using key by (simp add: stored_under_def eventResultFromDomain_def)
  qed
qed

lemma decided_decisions_ok:
  assumes dec: "decided ws key r d1 d" and ok: "decisions_ok d1" and none: "find_decision ws key d1 = None"
    and "\<not> cr_Replayed r" and event: "cr_Accepted r \<Longrightarrow> stored_under ws key (ur_ID (cr_Event r)) d1"
  shows "decisions_ok d"
proof -
  obtain t where d: "d = d1\<lparr>db_decisions := db_decisions d1 @ [decision_row ws (FromSnapshot key r t)]\<rparr>"
    using dec by (auto simp: decided_def)
  have fresh: "(ws, key) \<notin> decision_key ` set (db_decisions d1)"
    using none by (auto simp: find_decision_def row_find_None)
  have under: "stored_under w k i d = stored_under w k i d1" for w k i using d by (simp add: stored_under_def)
  have "decision_ok d (decision_row ws (FromSnapshot key r t))"
    using assms(4) event under by (simp add: decision_ok_def decision_row_def FromSnapshot_def)
  moreover have "\<forall>row \<in> set (db_decisions d1). decision_ok d row"
    using ok under by (simp add: decisions_ok_def decision_ok_def)
  ultimately show ?thesis
    using ok d fresh by (auto simp: decisions_ok_def intro: distinct_keys_snoc)
qed

lemma consume_spec_decisions:
  assumes "consume_spec ws key cmd d0 r d" and "decisions_ok d0" and key: "TrimSpace key = key" "key \<noteq> []"
  shows "decisions_ok d"
  using assms(1)
proof (cases rule: consume_spec.cases)
  case (Record d1 ev)
  note made = created_stored_under [OF Record(7) key]
  then have "decisions_ok d1" "find_decision ws key d1 = None"
    using decisions_ok_append [OF assms(2)] Record(1) find_decision_frame [of d1 d0] by auto
  then show ?thesis
    using decided_decisions_ok [OF Record(2)] Record(3,9) made(1) by (auto simp: same_event_def)
next
  case (Record_open d1 ev)
  note made = created_stored_under [OF Record_open(7) key]
  then have "decisions_ok d1" "find_decision ws key d1 = None"
    using decisions_ok_append [OF assms(2)] Record_open(1) find_decision_frame [of d1 d0] by auto
  then show ?thesis
    using decided_decisions_ok [OF Record_open(2)] Record_open(3,8) made(1) by (auto simp: same_event_def)
qed (use assms(2) decided_decisions_ok in blast)+

subsection \<open>Limits\<close>

definition usage_unchanged :: "db \<Rightarrow> db \<Rightarrow> bool" where
  "usage_unchanged d0 d \<longleftrightarrow> db_events d = db_events d0 \<and> db_outbox d = db_outbox d0 \<and>
    db_counters d = db_counters d0 \<and> db_usage_counts d = db_usage_counts d0"

text \<open>Quota is enforced: a replay changes nothing, a rejection leaves no usage and has its reason, and
  usage is recorded only within a hard limit or after an evaluation that was to fail open.\<close>

definition enforces_limit :: "db \<Rightarrow> ConsumeResult \<Rightarrow> db \<Rightarrow> bool" where
  "enforces_limit d0 r d \<longleftrightarrow>
    (if cr_Replayed r then d = d0
     else if \<not> cr_Accepted r
     then usage_unchanged d0 d \<and> (if cr_EvaluationFailed r then ca_FailurePolicy (cr_Quota r) = FailClosed
       else over_hard_limit (cr_Quota r))
     else if cr_EvaluationFailed r then ca_FailurePolicy (cr_Quota r) \<noteq> FailClosed
     else usage_unchanged d0 d \<or> \<not> over_hard_limit (cr_Quota r))"

lemma consume_spec_limit: "consume_spec ws key cmd d0 r d \<Longrightarrow> enforces_limit d0 r d"
  by (cases rule: consume_spec.cases) (auto simp: enforces_limit_def usage_unchanged_def decided_frames)

section \<open>Properties\<close>

text \<open>Claim C2. \<^verbatim>\<open>Consume\<close>, with its two transactions, refines the atomic specification: a call that
  succeeds on a sound ledger did what one rule of \<^verbatim>\<open>consume_spec\<close> allows, for the trimmed key, and
  left no transaction open.\<close>

theorem Consume_refines:
  "ensures (quiet (\<lambda>d. d = d0 \<and> ledger_ok d0)) (Consume limits ctx cmd)
    (\<lambda>r. quiet (\<lambda>d. \<exists>ws. RequireWorkspaceID ctx = Inr ws \<and>
      consume_spec ws (TrimSpace (co_IdempotencyKey cmd)) cmd d0 r d))"
  by (rule ensuresI) (auto simp: quiet_def dest: Consume_ok)

text \<open>Claim C5. \<^verbatim>\<open>Consume\<close> is all or nothing: a call that returns an error, wherever in its two
  transactions it failed, leaves every table as it was.  (The count of throttled events that the
  rate limit records inside the transaction is rolled back with it.)\<close>

theorem Consume_all_or_nothing: "all_or_nothing (Consume limits ctx cmd)"
  by (auto simp: all_or_nothing_def dest: Consume_error)


text \<open>Claim C3. Quota is enforced: when \<^verbatim>\<open>Consume\<close> succeeds, a rejected request left no trace in the usage
  tables and was over a hard limit (or could not be evaluated under a fail-closed policy), and a
  request that recorded usage under a hard limit had its projected value within the limit, unless
  its evaluation failed under a policy that is not fail-closed.\<close>

theorem Consume_enforces_limit:
  "ensures (quiet (\<lambda>d. d = d0 \<and> ledger_ok d0)) (Consume limits ctx cmd) (\<lambda>r. quiet (enforces_limit d0 r))"
  by (rule ensures_weaken [OF Consume_refines]) (auto simp: quiet_def dest: consume_spec_limit)

text \<open>Claim C6. \<^verbatim>\<open>Consume\<close> keeps the integrity of the usage tables and of the decisions: one decision per
  workspace and key, its columns those of its snapshot, and every accepted decision with a stored
  event of its key.\<close>

theorem Consume_invariant: "keeps (quiet (\<lambda>d. ledger_ok d \<and> decisions_ok d)) (Consume limits ctx cmd)"
proof (rule keepsI)
  fix s assume s: "quiet (\<lambda>d. ledger_ok d \<and> decisions_ok d) s"
  obtain r u where run: "Consume limits ctx cmd s = (r, u)" by (cases "Consume limits ctx cmd s")
  show "quiet (\<lambda>d. ledger_ok d \<and> decisions_ok d) (snd (Consume limits ctx cmd s))"
  proof (cases r)
    case (Inl e)
    then show ?thesis using Consume_error run s by (auto simp: quiet_def)
  next
    case (Inr x)
    then have ne: "TrimSpace (co_IdempotencyKey cmd) \<noteq> []" using run by (auto simp: Consume_def split: if_splits)
    from Consume_ok [OF run [unfolded Inr]] s obtain ws where
      "\<not> w_in_tx u" and spec: "consume_spec ws (TrimSpace (co_IdempotencyKey cmd)) cmd (w_db s) x (w_db u)"
      by (auto simp: quiet_def)
    then show ?thesis
      using consume_spec_ledger [OF spec] consume_spec_decisions [OF spec _ TrimSpace_idem ne] s run by (simp add: quiet_def)
  qed
qed

end
