(* ===== verification/LeasedQueue.thy ===== *)
theory LeasedQueue
  imports Prelude
begin

text \<open>
  The contract that the two work queues of the program share: the check jobs of
  \<^verbatim>\<open>adapters/sqlite/queries/plans.sql\<close> and the outbox of \<^verbatim>\<open>queries/usage_outbox.sql\<close>.  A worker
  claims the first row that is due; the claim counts an attempt and leases the row until a time.
  The laws are what the two claim statements have in common; the lemmas are proved once here.
\<close>

section \<open>The contract\<close>

locale leased_queue =
  fixes key :: "'r \<Rightarrow> 'k"
    and attempts :: "'r \<Rightarrow> int"
    and due :: "int \<Rightarrow> int \<Rightarrow> 'r \<Rightarrow> bool"
    and rank :: "'r \<Rightarrow> 'o :: linorder"
    and mark :: "int \<Rightarrow> int \<Rightarrow> string \<Rightarrow> 'r \<Rightarrow> 'r"
    and covers :: "int \<Rightarrow> int \<Rightarrow> bool"
  assumes key_mark: "key (mark now lease token r) = key r"
    and attempts_mark: "attempts (mark now lease token r) = attempts r + 1"
    and due_attempts: "due now n r \<Longrightarrow> attempts r < n"
    and mark_leased: "covers lease later \<Longrightarrow> \<not> due later n (mark now lease token r)"
begin

definition next_row :: "int \<Rightarrow> int \<Rightarrow> 'r list \<Rightarrow> 'r option" where
  "next_row now n rows = (case sort_key rank (filter (due now n) rows) of [] \<Rightarrow> None | r # _ \<Rightarrow> Some r)"

definition claim :: "int \<Rightarrow> int \<Rightarrow> string \<Rightarrow> int \<Rightarrow> 'r list \<Rightarrow> 'r option \<times> 'r list" where
  "claim now lease token n rows =
    (case next_row now n rows of
       None \<Rightarrow> (None, rows)
     | Some r \<Rightarrow> (Some (mark now lease token r), row_update (\<lambda>q. key q = key r) (mark now lease token) rows))"

text \<open>The row that is claimed: due, and of the least rank among the due rows.\<close>

lemma next_row_Some:
  assumes "next_row now n rows = Some r"
  shows "r \<in> set rows" "due now n r" "\<And>q. q \<in> set rows \<Longrightarrow> due now n q \<Longrightarrow> rank r \<le> rank q"
proof -
  obtain qs where qs: "sort_key rank (filter (due now n) rows) = r # qs"
    using assms by (auto simp: next_row_def split: list.splits)
  then have "r \<in> set (filter (due now n) rows)" by (metis list.set_intros(1) set_sort)
  then show "r \<in> set rows" "due now n r" by auto
  have "sorted (map rank (r # qs))" using sorted_sort_key [of rank "filter (due now n) rows"] qs by simp
  moreover have "q \<in> set (r # qs)" if "q \<in> set rows" "due now n q" for q
    using that qs set_sort [of rank "filter (due now n) rows"] by auto
  ultimately show "\<And>q. q \<in> set rows \<Longrightarrow> due now n q \<Longrightarrow> rank r \<le> rank q" by auto
qed

lemma next_row_None: "next_row now n rows = None \<longleftrightarrow> (\<forall>r \<in> set rows. \<not> due now n r)"
proof -
  have "next_row now n rows = None \<longleftrightarrow> filter (due now n) rows = []"
    by (auto simp: next_row_def split: list.splits) (metis length_0_conv length_sort list.simps(3))
  then show ?thesis by (simp add: filter_empty_conv)
qed

lemma claim_None: "claim now lease token n rows = (None, rows') \<longleftrightarrow> rows' = rows \<and> (\<forall>r \<in> set rows. \<not> due now n r)"
  by (auto simp: claim_def next_row_None split: option.splits) (metis next_row_None option.distinct(1))

lemma claim_Some:
  assumes "claim now lease token n rows = (Some c, rows')"
  obtains r where "r \<in> set rows" "due now n r" "c = mark now lease token r"
    "rows' = row_update (\<lambda>q. key q = key r) (mark now lease token) rows"
    "\<And>q. q \<in> set rows \<Longrightarrow> due now n q \<Longrightarrow> rank r \<le> rank q"
proof -
  obtain r where r: "next_row now n rows = Some r" "c = mark now lease token r"
    "rows' = row_update (\<lambda>q. key q = key r) (mark now lease token) rows"
    using assms by (auto simp: claim_def split: option.splits)
  show ?thesis by (rule that [OF next_row_Some(1,2) [OF r(1)] r(2,3) next_row_Some(3) [OF r(1)]])
qed

section \<open>Invariants\<close>

text \<open>Keys stay unique, and nobody is claimed more often than allowed.\<close>

definition bounded :: "int \<Rightarrow> 'r list \<Rightarrow> bool" where
  "bounded n rows \<longleftrightarrow> distinct_keys key rows \<and> (\<forall>r \<in> set rows. 0 \<le> attempts r \<and> attempts r \<le> n)"

lemma keys_claim: "map key (snd (claim now lease token n rows)) = map key rows"
  by (auto simp: claim_def key_mark map_row_update split: option.splits)

lemma claim_bounded:
  assumes "bounded n rows"
  shows "bounded n (snd (claim now lease token n rows))"
proof (cases "next_row now n rows")
  case None
  then show ?thesis using assms by (simp add: claim_def)
next
  case (Some r)
  note r = next_row_Some [OF Some]
  have "0 \<le> attempts q \<and> attempts q \<le> n" if q: "q \<in> set (row_update (\<lambda>q. key q = key r) (mark now lease token) rows)" for q
  proof -
    from q set_row_update [of "\<lambda>q. key q = key r" "mark now lease token" rows]
    consider "q \<in> set rows" | p where "p \<in> set rows" "key p = key r" "q = mark now lease token p" by blast
    then show ?thesis
    proof cases
      case (2 p)
      then have "p = r" using assms r(1) distinct_keys_unique by (fastforce simp: bounded_def)
      then show ?thesis using 2 assms r due_attempts [OF r(2)] by (auto simp: bounded_def attempts_mark)
    qed (use assms in \<open>auto simp: bounded_def\<close>)
  qed
  moreover have "distinct_keys key (row_update (\<lambda>q. key q = key r) (mark now lease token) rows)"
    using assms by (auto simp: bounded_def key_mark intro: distinct_keys_update)
  ultimately show ?thesis using Some by (auto simp: bounded_def claim_def)
qed

text \<open>A row whose attempts are used up is never claimed again, nor changed by a claim.\<close>

lemma exhausted_stays:
  assumes "claim now lease token n rows = (c, rows')" "distinct_keys key rows" "r \<in> set rows" "n \<le> attempts r"
  shows "r \<in> set rows'" "\<And>x. c = Some x \<Longrightarrow> key x \<noteq> key r"
proof -
  have "r \<in> set rows' \<and> (\<forall>x. c = Some x \<longrightarrow> key x \<noteq> key r)"
  proof (cases "next_row now n rows")
    case None
    then show ?thesis using assms by (simp add: claim_def)
  next
    case (Some q)
    note q = next_row_Some [OF Some]
    have "key r \<noteq> key q"
      using assms(2-4) q(1) due_attempts [OF q(2)] distinct_keys_unique by fastforce
    then show ?thesis using Some assms(1,3) by (auto simp: claim_def row_update_def key_mark)
  qed
  then show "r \<in> set rows'" "\<And>x. c = Some x \<Longrightarrow> key x \<noteq> key r" by auto
qed

section \<open>Exclusion\<close>

text \<open>Until its lease ends, a claimed row is not claimed by anybody else.\<close>

lemma claim_exclusive:
  assumes one: "claim now lease token n rows = (Some a, rows1)" and keys: "distinct_keys key rows"
    and two: "claim later lease' token' n' rows1 = (Some b, rows2)" and "covers lease later"
  shows "key b \<noteq> key a"
proof
  assume same: "key b = key a"
  from one obtain r where r: "a = mark now lease token r" "rows1 = row_update (\<lambda>q. key q = key r) (mark now lease token) rows"
    by (rule claim_Some)
  from two obtain q where q: "q \<in> set rows1" "due later n' q" "b = mark later lease' token' q" by (rule claim_Some)
  have "key q = key r" using same r(1) q(3) by (simp add: key_mark)
  with q(1) obtain p where "p \<in> set rows" "q = mark now lease token p"
    unfolding r(2) row_update_def by (auto simp: key_mark split: if_splits)
  then show False using q(2) mark_leased [OF \<open>covers lease later\<close>] by blast
qed

text \<open>A claim that leaves a row alone keeps it; a claimed row has one attempt more, so that an attempt
  number identifies one claim of a row.\<close>

lemma claim_other: "claim now lease token n rows = (Some c, rows') \<Longrightarrow> r \<in> set rows \<Longrightarrow> key r \<noteq> key c \<Longrightarrow> r \<in> set rows'"
  by (erule claim_Some) (auto simp: row_update_def key_mark)

lemma claim_fences:
  assumes "claim now lease token n rows = (Some c, rows')" "distinct_keys key rows" "q \<in> set rows'" "key q = key c"
  shows "attempts q = attempts c"
proof -
  from assms(1) obtain r where r: "r \<in> set rows" "c = mark now lease token r"
    "rows' = row_update (\<lambda>q. key q = key r) (mark now lease token) rows"
    by (rule claim_Some)
  then obtain p where "p \<in> set rows" "key p = key r" "q = mark now lease token p"
    using assms(3,4) by (auto simp: row_update_def key_mark split: if_splits)
  then have "p = r" using assms(2) r(1) distinct_keys_unique by fastforce
  then show ?thesis using r(2) \<open>q = _\<close> by simp
qed

section \<open>Progress\<close>

text \<open>The claims that a queue still allows: every claim uses one up.\<close>

definition budget :: "int \<Rightarrow> 'r list \<Rightarrow> nat" where
  "budget n rows = (\<Sum>r \<leftarrow> rows. nat (n - attempts r))"

lemma budget_update:
  assumes "distinct_keys key rows" "r \<in> set rows" "attempts r < n"
  shows "budget n (row_update (\<lambda>q. key q = key r) (mark now lease token) rows) < budget n rows"
  using assms
proof (induction rows)
  case (Cons q rows)
  show ?case
  proof (cases "q = r")
    case True
    then have "\<forall>p \<in> set rows. key p \<noteq> key r"
      using Cons.prems(1) by (auto simp: distinct_keys_def image_iff)
    then have "row_update (\<lambda>q. key q = key r) (mark now lease token) rows = rows"
      by (simp add: row_update_def map_idI)
    then show ?thesis using True Cons.prems(3) by (simp add: budget_def attempts_mark)
  next
    case False
    then have "r \<in> set rows" "key q \<noteq> key r"
      using Cons.prems by (auto simp: distinct_keys_def)
    then show ?thesis using Cons by (simp add: budget_def distinct_keys_def)
  qed
qed simp

lemma claim_budget:
  assumes "claim now lease token n rows = (Some c, rows')" "distinct_keys key rows"
  shows "budget n rows' < budget n rows"
  using assms(1)
proof (rule claim_Some)
  fix r assume "r \<in> set rows" "due now n r" "rows' = row_update (\<lambda>q. key q = key r) (mark now lease token) rows"
  then show ?thesis using budget_update [OF assms(2)] due_attempts by blast
qed

end

end
