(* ===== verification/Outbox.thy ===== *)
theory Outbox
  imports UsageService EntitlementService
begin

text \<open>
  Delivering outbox messages: \<^verbatim>\<open>src/internal/metering/app/usage/outbox.go\<close>, the outbox operations of
  \<^verbatim>\<open>adapters/sqlite/usage_repository.go\<close> with \<^verbatim>\<open>queries/usage_outbox.sql\<close>, and the worker of
  \<^verbatim>\<open>workers/outbox/worker.go\<close> (one message).  The queue of alerts that the worker also feeds is a
  parameter, given as the call the worker makes; the timeout of its context is not modelled.
\<close>

section \<open>Commands\<close>

record OutboxClaimCommand =
  occ_LockTTL :: duration
  occ_MaxAttempts :: int

record OutboxCompleteCommand =
  ocm_ID :: string
  ocm_ClaimToken :: string

record OutboxFailCommand =
  ofc_ID :: string
  ofc_ClaimToken :: string
  ofc_RetryAfter :: duration
  ofc_MaxAttempts :: int
  ofc_Error :: string

section \<open>The store\<close>

text \<open>\<^verbatim>\<open>julianday\<close> reads a time to the millisecond, rounding the fraction half up.\<close>

definition julian_ms :: "time \<Rightarrow> int" where
  "julian_ms t = (t + 500000) div Millisecond"

definition due_message :: "time \<Rightarrow> int \<Rightarrow> OutboxRow \<Rightarrow> bool" where
  "due_message now maxAttempts m \<longleftrightarrow>
    ob_Attempts m < maxAttempts \<and> julian_ms (ob_NextAttemptAt m) \<le> julian_ms now \<and>
    (ob_Status m = OutboxPending \<or>
     (ob_Status m = OutboxRunning \<and> (case ob_LockedUntil m of None \<Rightarrow> False | Some u \<Rightarrow> julian_ms u \<le> julian_ms now)))"

definition next_message :: "time \<Rightarrow> int \<Rightarrow> db \<Rightarrow> OutboxRow option" where
  "next_message now maxAttempts d =
    (case sort_key (\<lambda>m. ttxt (ob_NextAttemptAt m)) (filter (due_message now maxAttempts) (db_outbox d)) of
       [] \<Rightarrow> None | m # _ \<Rightarrow> Some m)"

definition claimed_message :: "time \<Rightarrow> time \<Rightarrow> string \<Rightarrow> OutboxRow \<Rightarrow> OutboxRow" where
  "claimed_message now lockedUntil token m =
    m\<lparr>ob_Status := OutboxRunning, ob_Attempts := ob_Attempts m + 1, ob_LockedUntil := Some lockedUntil,
      ob_ClaimToken := Some token, ob_UpdatedAt := now\<rparr>"

text \<open>The statement names the row by its rowid; the public id is as unique.\<close>

definition claim_message :: "time \<Rightarrow> time \<Rightarrow> string \<Rightarrow> int \<Rightarrow> db \<Rightarrow> OutboxRow option \<times> db" where
  "claim_message now lockedUntil token maxAttempts d =
    (case next_message now maxAttempts d of
       None \<Rightarrow> (None, d)
     | Some m \<Rightarrow> (Some (claimed_message now lockedUntil token m),
         d\<lparr>db_outbox := row_update (\<lambda>q. ob_PublicID q = ob_PublicID m)
           (claimed_message now lockedUntil token) (db_outbox d)\<rparr>))"

definition outbox_message :: "OutboxRow \<Rightarrow> OutboxMessage" where
  "outbox_message row =
    \<lparr>om_ID = ob_PublicID row, om_WorkspaceID = ob_WorkspaceID row, om_EventID = ob_EventID row,
     om_Subject = ob_Subject row, om_MeterName = ob_MeterName row, om_Quantity = ob_Quantity row,
     om_Metadata = ob_Metadata row, om_Attempts = ob_Attempts row,
     om_ClaimToken = (case ob_ClaimToken row of None \<Rightarrow> [] | Some t \<Rightarrow> t), om_CreatedAt = ob_CreatedAt row\<rparr>"

definition Repo_ClaimOutbox :: "time \<Rightarrow> time \<Rightarrow> string \<Rightarrow> int \<Rightarrow> (world, OutboxMessage) proc" where
  "Repo_ClaimOutbox now lockedUntil token maxAttempts =
    attempt (stmt (\<lambda>d. case claim_message now lockedUntil token maxAttempts d of (row, d') \<Rightarrow> (Inr row, d'))) (\<lambda>row.
    case row of None \<Rightarrow> return_err ErrNotFound | Some m \<Rightarrow> return_ok (outbox_message m))"

definition held_by :: "string \<Rightarrow> string \<Rightarrow> OutboxRow \<Rightarrow> bool" where
  "held_by pid token m \<longleftrightarrow>
    ob_PublicID m = pid \<and> ob_ClaimToken m = Some token \<and> ob_Status m = OutboxRunning"

definition complete_message :: "string \<Rightarrow> string \<Rightarrow> db \<Rightarrow> db" where
  "complete_message pid token d = d\<lparr>db_outbox := row_delete (held_by pid token) (db_outbox d)\<rparr>"

definition Repo_CompleteOutbox :: "string \<Rightarrow> string \<Rightarrow> (world, unit) proc" where
  "Repo_CompleteOutbox pid token = not_found_if_no_row
    (execrows (\<lambda>d. length (filter (held_by pid token) (db_outbox d))) (complete_message pid token))"

definition retried_message :: "time \<Rightarrow> int \<Rightarrow> string \<Rightarrow> time \<Rightarrow> OutboxRow \<Rightarrow> OutboxRow" where
  "retried_message nextAttemptAt maxAttempts lastError now m =
    m\<lparr>ob_Status := (if maxAttempts \<le> ob_Attempts m then OutboxDeadLetter else OutboxPending),
      ob_NextAttemptAt := nextAttemptAt, ob_LockedUntil := None, ob_ClaimToken := None,
      ob_LastError := lastError, ob_UpdatedAt := now\<rparr>"

definition retry_message :: "string \<Rightarrow> string \<Rightarrow> time \<Rightarrow> int \<Rightarrow> string \<Rightarrow> time \<Rightarrow> db \<Rightarrow> db" where
  "retry_message pid token nextAttemptAt maxAttempts lastError now d = d\<lparr>db_outbox :=
    row_update (held_by pid token) (retried_message nextAttemptAt maxAttempts lastError now) (db_outbox d)\<rparr>"

definition RetryOutbox :: "string \<Rightarrow> string \<Rightarrow> time \<Rightarrow> int \<Rightarrow> string \<Rightarrow> time \<Rightarrow> (world, unit) proc" where
  "RetryOutbox pid token nextAttemptAt maxAttempts lastError now = not_found_if_no_row
    (execrows (\<lambda>d. length (filter (held_by pid token) (db_outbox d)))
      (retry_message pid token nextAttemptAt maxAttempts lastError now))"

section \<open>The service\<close>

definition ClaimOutbox :: "OutboxClaimCommand \<Rightarrow> (world, OutboxMessage option) proc" where
  "ClaimOutbox cmd =
    (if occ_LockTTL cmd \<le> 0 \<or> occ_MaxAttempts cmd \<le> 0 then return_err ErrInvalidInput
     else attempt clock_now (\<lambda>now.
     attempt fresh_id (\<lambda>token.
     inspect (Repo_ClaimOutbox now (now + occ_LockTTL cmd) token (occ_MaxAttempts cmd)) (\<lambda>r. case r of
         Inl e \<Rightarrow> if errors_Is e ErrNotFound then return_ok None else return_err e
       | Inr message \<Rightarrow> return_ok (Some message)))))"

definition CompleteOutbox :: "OutboxCompleteCommand \<Rightarrow> (world, unit) proc" where
  "CompleteOutbox cmd =
    (if TrimSpace (ocm_ID cmd) = [] \<or> TrimSpace (ocm_ClaimToken cmd) = [] then return_err ErrInvalidInput
     else attempt clock_now (\<lambda>_. Repo_CompleteOutbox (ocm_ID cmd) (ocm_ClaimToken cmd)))"

definition FailOutbox :: "OutboxFailCommand \<Rightarrow> (world, unit) proc" where
  "FailOutbox cmd =
    (if TrimSpace (ofc_ID cmd) = [] \<or> TrimSpace (ofc_ClaimToken cmd) = [] \<or> ofc_RetryAfter cmd \<le> 0 \<or>
        ofc_MaxAttempts cmd \<le> 0 \<or> TrimSpace (ofc_Error cmd) = []
     then return_err (invalid '': invalid outbox failure'')
     else attempt clock_now (\<lambda>now.
     RetryOutbox (ofc_ID cmd) (ofc_ClaimToken cmd) (now + ofc_RetryAfter cmd) (ofc_MaxAttempts cmd) (ofc_Error cmd) now))"

section \<open>The worker\<close>

text \<open>The loop of \<^verbatim>\<open>retryDelay\<close>, for the number of rounds left.\<close>

primrec retry_doubling :: "nat \<Rightarrow> duration \<Rightarrow> duration" where
  "retry_doubling 0 base = min base Hour"
| "retry_doubling (Suc n) base = (if Hour div 2 \<le> base then Hour else retry_doubling n (base * 2))"

definition retryDelay :: "duration \<Rightarrow> int \<Rightarrow> duration" where
  "retryDelay base0 attempts =
    (let base = (if base0 \<le> 0 then Second else base0) in retry_doubling (nat (attempts - 1)) base)"

record OutboxOptions =
  oo_LockTTL :: duration
  oo_RetryAfter :: duration
  oo_MaxAttempts :: int

definition swallow_not_found :: "(world, unit) proc \<Rightarrow> (world, bool) proc" where
  "swallow_not_found m = inspect m (\<lambda>r. case r of
      Inl e \<Rightarrow> if errors_Is e ErrNotFound then return_ok True else return_err e
    | Inr _ \<Rightarrow> return_ok True)"

text \<open>The two calls that hand a message on.\<close>

definition dispatch_message :: "(ctx \<Rightarrow> OutboxMessage \<Rightarrow> (world, unit) proc) \<Rightarrow> ctx \<Rightarrow> OutboxMessage \<Rightarrow> (world, unit) proc" where
  "dispatch_message enqueue_alerts ctx message =
    attempt (enqueue_alerts ctx message) (\<lambda>_.
    EnqueueForUsageEvents ctx [\<lparr>ue_Subject = om_Subject message, ue_Meter = om_MeterName message,
      ue_Quantity = om_Quantity message\<rparr>])"

definition ProcessOnce ::
  "(ctx \<Rightarrow> OutboxMessage \<Rightarrow> (world, unit) proc) \<Rightarrow> OutboxOptions \<Rightarrow> ctx \<Rightarrow> (world, bool) proc" where
  "ProcessOnce enqueue_alerts options ctx =
    attempt (ClaimOutbox \<lparr>occ_LockTTL = oo_LockTTL options, occ_MaxAttempts = oo_MaxAttempts options\<rparr>) (\<lambda>claimed.
    case claimed of None \<Rightarrow> return_ok False
    | Some message \<Rightarrow>
        (let jobCtx = WithWorkspaceID ctx (om_WorkspaceID message) in
         inspect (dispatch_message enqueue_alerts jobCtx message) (\<lambda>r. case r of
             Inr _ \<Rightarrow> swallow_not_found (CompleteOutbox \<lparr>ocm_ID = om_ID message, ocm_ClaimToken = om_ClaimToken message\<rparr>)
           | Inl e \<Rightarrow> inspect (FailOutbox \<lparr>ofc_ID = om_ID message, ofc_ClaimToken = om_ClaimToken message,
                 ofc_RetryAfter = retryDelay (oo_RetryAfter options) (om_Attempts message),
                 ofc_MaxAttempts = oo_MaxAttempts options, ofc_Error = error_text e\<rparr>) (\<lambda>f. case f of
               Inl failErr \<Rightarrow> if errors_Is failErr ErrNotFound then return_ok True else return_err (JoinErr e failErr)
             | Inr _ \<Rightarrow> return_ok True))))"

end
