(* ===== verification/OutboxSpec.thy ===== *)
theory OutboxSpec
  imports LeasedQueue Outbox UsageLedger
begin

text \<open>
  The outbox as a leased queue and as a state machine: a message is pending, running under a claim
  token, or dead; only the holder of the current token removes it or gives it back.
\<close>

section \<open>The outbox as a leased queue\<close>

definition message_rank :: "OutboxRow \<Rightarrow> string" where
  "message_rank m = ttxt (ob_NextAttemptAt m)"

interpretation message_queue: leased_queue ob_PublicID ob_Attempts due_message message_rank claimed_message
  "\<lambda>lease later. julian_ms later < julian_ms lease"
  by unfold_locales (auto simp: claimed_message_def due_message_def)

lemma next_message_eq: "next_message now n d = message_queue.next_row now n (db_outbox d)"
  unfolding next_message_def message_queue.next_row_def by (simp add: message_rank_def [abs_def])

lemma claim_message_eq:
  "claim_message now lease token n d =
    (case message_queue.claim now lease token n (db_outbox d) of (m, rows) \<Rightarrow> (m, d\<lparr>db_outbox := rows\<rparr>))"
  by (simp add: claim_message_def message_queue.claim_def next_message_eq split: option.splits)

section \<open>The states of a message\<close>

definition message_ok :: "int \<Rightarrow> OutboxRow \<Rightarrow> bool" where
  "message_ok n m \<longleftrightarrow> (case ob_Status m of
      OutboxPending \<Rightarrow> ob_LockedUntil m = None \<and> ob_ClaimToken m = None \<and> 0 \<le> ob_Attempts m \<and> ob_Attempts m < n
    | OutboxRunning \<Rightarrow> ob_LockedUntil m \<noteq> None \<and> ob_ClaimToken m \<noteq> None \<and> 1 \<le> ob_Attempts m \<and> ob_Attempts m \<le> n
    | OutboxDeadLetter \<Rightarrow> ob_LockedUntil m = None \<and> ob_ClaimToken m = None \<and> ob_Attempts m = n)"

definition messages_ok :: "int \<Rightarrow> db \<Rightarrow> bool" where
  "messages_ok n d \<longleftrightarrow> distinct_keys ob_PublicID (db_outbox d) \<and> (\<forall>m \<in> set (db_outbox d). message_ok n m)"

lemma message_ok_claimed: "due_message now n m \<Longrightarrow> message_ok n m \<Longrightarrow> message_ok n (claimed_message now lease token m)"
  by (auto simp: message_ok_def claimed_message_def due_message_def)

lemma message_ok_retried:
  "held_by pid token m \<Longrightarrow> message_ok n m \<Longrightarrow> message_ok n (retried_message t n e now m)"
  by (auto simp: message_ok_def retried_message_def held_by_def)

lemma messages_ok_claim:
  assumes "messages_ok n d"
  shows "messages_ok n (snd (claim_message now lease token n d))"
proof (cases "next_message now n d")
  case None
  then show ?thesis using assms by (simp add: claim_message_def)
next
  case (Some m)
  then have m: "m \<in> set (db_outbox d)" "due_message now n m"
    using message_queue.next_row_Some [of now n "db_outbox d" m] by (simp_all add: next_message_eq)
  have "message_ok n (claimed_message now lease token q)" if "q \<in> set (db_outbox d)" "ob_PublicID q = ob_PublicID m" for q
  proof -
    have "q = m" using assms that m(1) distinct_keys_unique by (fastforce simp: messages_ok_def)
    then show ?thesis using assms m by (auto simp: messages_ok_def intro: message_ok_claimed)
  qed
  then show ?thesis
    using assms Some
    by (auto simp: claim_message_def messages_ok_def claimed_message_def row_update_def intro!: distinct_keys_update [unfolded row_update_def])
qed

lemma keeps_messages_claim: "keeps (on_db (messages_ok n)) (ClaimOutbox \<lparr>occ_LockTTL = ttl, occ_MaxAttempts = n\<rparr>)"
  unfolding ClaimOutbox_def Repo_ClaimOutbox_def
  by (auto intro!: keeps_rules keeps_stmt split: prod.splits sum.splits option.splits) (metis messages_ok_claim snd_conv)

lemma keeps_messages_complete [keeps_rules]: "keeps (on_db (messages_ok n)) (CompleteOutbox cmd)"
  unfolding CompleteOutbox_def Repo_CompleteOutbox_def complete_message_def
  by (auto intro!: keeps_rules keeps_execrows simp: messages_ok_def distinct_keys_delete)

lemma messages_ok_retry: "messages_ok n d \<Longrightarrow> messages_ok n (retry_message pid token t n e now d)"
  unfolding messages_ok_def retry_message_def
  by (auto simp: row_update_def message_ok_retried intro!: distinct_keys_update [unfolded row_update_def])
    (simp add: retried_message_def)

lemma keeps_messages_fail: "ofc_MaxAttempts cmd = n \<Longrightarrow> keeps (on_db (messages_ok n)) (FailOutbox cmd)"
  unfolding FailOutbox_def RetryOutbox_def
  by (auto intro!: keeps_rules keeps_execrows messages_ok_retry)

lemma keeps_messages_enqueue: "0 < n \<Longrightarrow> keeps (on_db (messages_ok n)) (EnqueueUsageEventOutbox (pending_message pid ws e md now))"
  unfolding EnqueueUsageEventOutbox_def
  by (rule keeps_exec_unique) (auto simp: messages_ok_def message_ok_def pending_message_def)

section \<open>The integrity of the ledger\<close>

text \<open>Claiming and giving back change neither which event a message is for nor its id.\<close>

lemma ledger_ok_outbox:
  assumes "ledger_ok d" "distinct_keys ob_PublicID rows" "distinct_keys outbox_key rows"
    "outbox_key ` set rows \<subseteq> outbox_key ` set (db_outbox d)"
  shows "ledger_ok (d\<lparr>db_outbox := rows\<rparr>)"
proof -
  have "outbox_key ` set rows \<subseteq> event_key ` set (db_events d)"
    using assms(1,4) by (auto simp: ledger_ok_def outbox_ok_def simp del: image_subset_iff)
  then show ?thesis
    using assms(1-3) by (simp add: ledger_ok_def events_valid_def counts_ok_def outbox_ok_def bulk_ok_def usage_count_def workspace_events_def)
qed

lemma ledger_ok_update:
  assumes "ledger_ok d" "\<And>m. ob_PublicID (f m) = ob_PublicID m \<and> outbox_key (f m) = outbox_key m"
  shows "ledger_ok (d\<lparr>db_outbox := row_update p f (db_outbox d)\<rparr>)"
proof (rule ledger_ok_outbox [OF assms(1)])
  show "distinct_keys ob_PublicID (row_update p f (db_outbox d))" "distinct_keys outbox_key (row_update p f (db_outbox d))"
    using assms by (auto simp: ledger_ok_def outbox_ok_def intro!: distinct_keys_update)
  have "map outbox_key (row_update p f (db_outbox d)) = map outbox_key (db_outbox d)"
    using assms(2) by (intro map_row_update) simp
  then show "outbox_key ` set (row_update p f (db_outbox d)) \<subseteq> outbox_key ` set (db_outbox d)"
    by (metis list.set_map order_refl)
qed

lemma ledger_ok_claim: "ledger_ok d \<Longrightarrow> ledger_ok (snd (claim_message now lease token n d))"
  by (auto simp: claim_message_def outbox_key_def claimed_message_def intro!: ledger_ok_update split: option.splits)

lemma ledger_ok_complete: "ledger_ok d \<Longrightarrow> ledger_ok (complete_message pid token d)"
  unfolding complete_message_def
  by (rule ledger_ok_outbox) (auto simp: ledger_ok_def outbox_ok_def intro!: distinct_keys_delete)

lemma keeps_ledger_outbox [keeps_rules]:
  "keeps (on_db ledger_ok) (ClaimOutbox c)" "keeps (on_db ledger_ok) (CompleteOutbox m)" "keeps (on_db ledger_ok) (FailOutbox f)"
  unfolding ClaimOutbox_def Repo_ClaimOutbox_def CompleteOutbox_def Repo_CompleteOutbox_def FailOutbox_def RetryOutbox_def retry_message_def
  by (auto intro!: keeps_rules keeps_stmt keeps_execrows ledger_ok_complete ledger_ok_update
      simp: retried_message_def outbox_key_def split: prod.splits sum.splits option.splits)
    (metis ledger_ok_claim snd_conv)

section \<open>Claims\<close>

lemma claim_keeps_ids: "map ob_PublicID (db_outbox (snd (claim_message now lease token n d))) = map ob_PublicID (db_outbox d)"
  using message_queue.keys_claim [of now lease token n "db_outbox d"] by (auto simp: claim_message_eq split: prod.splits)

lemma inspect_return_err: "inspect (return_err e) k = k (Inl e)"
  by (simp add: proc_defs)

lemma ClaimOutbox_ok:
  assumes "ClaimOutbox cmd w = (Inr r, u)"
  obtains now c where "claim_message now (now + occ_LockTTL cmd) (id_text (w_next_id w)) (occ_MaxAttempts cmd) (w_db w) = (c, w_db u)"
    "r = map_option outbox_message c" "w_next_id u = w_next_id w + 1"
proof -
  obtain now w1 w2 where clock: "clock_now w = (Inr now, w1)" and fresh: "fresh_id w1 = (Inr (id_text (w_next_id w1)), w2)"
    and rest: "inspect (Repo_ClaimOutbox now (now + occ_LockTTL cmd) (id_text (w_next_id w1)) (occ_MaxAttempts cmd)) (\<lambda>r. case r of
         Inl e \<Rightarrow> if errors_Is e ErrNotFound then return_ok None else return_err e
       | Inr message \<Rightarrow> return_ok (Some message)) w2 = (Inr r, u)"
    using assms by (auto simp: ClaimOutbox_def attempt_eq_Inr fresh_id_text split: if_splits)
  obtain x where repo: "Repo_ClaimOutbox now (now + occ_LockTTL cmd) (id_text (w_next_id w1)) (occ_MaxAttempts cmd) w2 = (x, u)"
    and r: "case x of Inl e \<Rightarrow> errors_Is e ErrNotFound \<and> r = None | Inr m \<Rightarrow> r = Some m"
  proof -
    obtain y t where y: "Repo_ClaimOutbox now (now + occ_LockTTL cmd) (id_text (w_next_id w1)) (occ_MaxAttempts cmd) w2 = (y, t)"
      by fastforce
    then show ?thesis using that [of y] rest by (cases y) (auto simp: inspect_def split: if_splits)
  qed
  have w2: "w_db w2 = w_db w" "w_next_id w1 = w_next_id w" "w_next_id w2 = w_next_id w + 1"
    using clock fresh by (auto simp: clock_now_def fresh_id_text split: list.splits)
  let ?st = "\<lambda>d. case claim_message now (now + occ_LockTTL cmd) (id_text (w_next_id w)) (occ_MaxAttempts cmd) d of (row, d') \<Rightarrow> (Inr row, d')"
  obtain y where st: "stmt ?st w2 = (y, u)"
    and x: "case y of Inl e \<Rightarrow> x = Inl e | Inr row \<Rightarrow> x = (case row of None \<Rightarrow> Inl ErrNotFound | Some m \<Rightarrow> Inr (outbox_message m))"
    using repo w2(2) by (auto simp: Repo_ClaimOutbox_def attempt_apply split: prod.splits sum.splits option.splits)
  have next_id: "w_next_id u = w_next_id w2"
    using st by (auto simp: stmt_def split: option.splits prod.splits sum.splits)
  have "\<exists>row. y = Inr row"
  proof (cases y)
    case (Inl e)
    then have "\<exists>m. e = DriverErr m" using st by (auto simp: stmt_def split: option.splits prod.splits)
    then show ?thesis using r x Inl by (auto simp: ErrNotFound_def)
  qed auto
  then obtain row where "y = Inr row" ..
  then show ?thesis
    using that [of now row] stmt_ok [of ?st w2 row u] st x r w2 next_id by (auto split: prod.splits option.splits)
qed

lemma claimed_token:
  assumes "claim_message now lease token n d = (Some c, d')"
  shows "ob_ClaimToken c = Some token"
  using assms by (auto simp: claim_message_def claimed_message_def split: option.splits)

text \<open>After a claim, the row of the message bears the token of that claim.\<close>

lemma claim_tokens:
  assumes "claim_message now lease token n d = (Some c, d')" "m \<in> set (db_outbox d')" "ob_PublicID m = ob_PublicID c"
  shows "ob_ClaimToken m = Some token"
  using assms by (auto simp: claim_message_def claimed_message_def row_update_def split: option.splits)

lemma CompleteOutbox_missing:
  assumes "\<forall>m \<in> set (db_outbox (w_db w)). \<not> held_by (ocm_ID cmd) (ocm_ClaimToken cmd) m"
  shows "\<exists>e u. CompleteOutbox cmd w = (Inl e, u) \<and> w_db u = w_db w"
proof -
  obtain now v where clock: "clock_now w = (Inr now, v)" by (cases "w_clock w") (auto simp: clock_now_def)
  then have v: "w_db v = w_db w" using clock_now_db(1) [of w] by simp
  have none: "filter (held_by (ocm_ID cmd) (ocm_ClaimToken cmd)) (db_outbox (w_db v)) = []"
    using assms v by (simp add: filter_empty_conv)
  have "row_delete (held_by (ocm_ID cmd) (ocm_ClaimToken cmd)) (db_outbox (w_db v)) = db_outbox (w_db v)"
    using assms v by (simp add: row_delete_def filter_True)
  then show ?thesis
    using clock v none
    by (auto simp: CompleteOutbox_def Repo_CompleteOutbox_def not_found_if_no_row_def attempt_apply execrows_def stmt_def
        complete_message_def split: option.splits)
qed

definition finish :: "OutboxMessage option \<Rightarrow> (world, unit) proc" where
  "finish a = (case a of None \<Rightarrow> return_err ErrNotFound
    | Some m \<Rightarrow> CompleteOutbox \<lparr>ocm_ID = om_ID m, ocm_ClaimToken = om_ClaimToken m\<rparr>)"

definition fenced :: "OutboxMessage option \<times> OutboxMessage option \<times> (go_error + unit) \<Rightarrow> bool" where
  "fenced abr = (case abr of (Some x, Some y, r) \<Rightarrow> (if om_ID x = om_ID y then r \<noteq> Inr () else True) | _ \<Rightarrow> True)"

definition last_claim_stuck :: "int \<Rightarrow> OutboxMessage option \<times> OutboxMessage option \<Rightarrow> bool" where
  "last_claim_stuck n ab = (case ab of
      (Some x, Some y) \<Rightarrow> (if om_Attempts x = n then om_ID y \<noteq> om_ID x else True) | _ \<Rightarrow> True)"

section \<open>Properties\<close>

text \<open>Claim C17. A worker whose lease was taken over cannot remove the message: when the same message was
  claimed twice, completing it with the first claim fails.\<close>

theorem outbox_fenced:
  "ensures (on_db (messages_ok n))
    (attempt (ClaimOutbox c) (\<lambda>a. attempt (ClaimOutbox c') (\<lambda>b. inspect (finish a) (\<lambda>r. return_ok (a, b, r)))))
    (\<lambda>abr _. fenced abr)"
proof (rule ensuresI, clarify)
  fix s z a b r
  assume "attempt (ClaimOutbox c) (\<lambda>a. attempt (ClaimOutbox c') (\<lambda>b. inspect (finish a) (\<lambda>r. return_ok (a, b, r)))) s = (Inr (a, b, r), z)"
  then obtain u v t where one: "ClaimOutbox c s = (Inr a, u)" and two: "ClaimOutbox c' u = (Inr b, v)"
    and fin: "finish a v = (r, t)"
    by (auto simp: attempt_eq_Inr inspect_eq)
  obtain t1 c1 where c1: "claim_message t1 (t1 + occ_LockTTL c) (id_text (w_next_id s)) (occ_MaxAttempts c) (w_db s) = (c1, w_db u)"
    "a = map_option outbox_message c1" "w_next_id u = w_next_id s + 1" by (rule ClaimOutbox_ok [OF one])
  obtain t2 c2 where c2: "claim_message t2 (t2 + occ_LockTTL c') (id_text (w_next_id u)) (occ_MaxAttempts c') (w_db u) = (c2, w_db v)"
    "b = map_option outbox_message c2" by (rule ClaimOutbox_ok [OF two])
  have "r \<noteq> Inr ()" if xy: "a = Some x" "b = Some y" "om_ID x = om_ID y" for x y
  proof -
    obtain i j where ij: "c1 = Some i" "c2 = Some j" "x = outbox_message i" "y = outbox_message j"
      using xy c1(2) c2(2) by auto
    have "ob_ClaimToken m = Some (id_text (w_next_id s + 1))" if "m \<in> set (db_outbox (w_db v))" "ob_PublicID m = om_ID x" for m
      using claim_tokens [OF c2(1) [unfolded ij(2)] that(1)] that(2) xy(3) ij(4) c1(3) by (simp add: outbox_message_def)
    moreover have "om_ClaimToken x = id_text (w_next_id s)"
      using claimed_token [OF c1(1) [unfolded ij(1)]] ij(3) by (simp add: outbox_message_def)
    ultimately have "\<forall>m \<in> set (db_outbox (w_db v)). \<not> held_by (om_ID x) (om_ClaimToken x) m"
      by (auto simp: held_by_def)
    then show ?thesis
      using CompleteOutbox_missing [of v "\<lparr>ocm_ID = om_ID x, ocm_ClaimToken = om_ClaimToken x\<rparr>"] fin xy(1)
      by (auto simp: finish_def)
  qed
  then show "fenced (a, b, r)" by (auto simp: fenced_def split: option.splits)
qed


text \<open>A message whose last delivery did not report back is stuck: it is never claimed again, and
  stays \<^verbatim>\<open>running\<close>; only a report of the lost worker could bury it.\<close>

lemma outbox_last_attempt_stuck:
  "ensures (on_db (messages_ok n))
    (attempt (ClaimOutbox \<lparr>occ_LockTTL = ttl, occ_MaxAttempts = n\<rparr>) (\<lambda>a.
     attempt (ClaimOutbox \<lparr>occ_LockTTL = ttl', occ_MaxAttempts = n\<rparr>) (\<lambda>b. return_ok (a, b))))
    (\<lambda>ab _. last_claim_stuck n ab)"
proof (rule ensuresI, clarify)
  fix s z a b
  assume s: "on_db (messages_ok n) s" and "attempt (ClaimOutbox \<lparr>occ_LockTTL = ttl, occ_MaxAttempts = n\<rparr>) (\<lambda>a.
     attempt (ClaimOutbox \<lparr>occ_LockTTL = ttl', occ_MaxAttempts = n\<rparr>) (\<lambda>b. return_ok (a, b))) s = (Inr (a, b), z)"
  then obtain u where one: "ClaimOutbox \<lparr>occ_LockTTL = ttl, occ_MaxAttempts = n\<rparr> s = (Inr a, u)"
    and two: "ClaimOutbox \<lparr>occ_LockTTL = ttl', occ_MaxAttempts = n\<rparr> u = (Inr b, z)"
    by (auto simp: attempt_eq_Inr)
  obtain t1 c1 where c1: "claim_message t1 (t1 + ttl) (id_text (w_next_id s)) n (w_db s) = (c1, w_db u)"
    "a = map_option outbox_message c1" by (rule ClaimOutbox_ok [OF one], rule that) auto
  obtain t2 c2 where c2: "claim_message t2 (t2 + ttl') (id_text (w_next_id u)) n (w_db u) = (c2, w_db z)"
    "b = map_option outbox_message c2" by (rule ClaimOutbox_ok [OF two], rule that) auto
  have "om_ID y \<noteq> om_ID x" if xy: "a = Some x" "b = Some y" "om_Attempts x = n" for x y
  proof -
    obtain i j where ij: "c1 = Some i" "c2 = Some j" "x = outbox_message i" "y = outbox_message j"
      using xy c1(2) c2(2) by auto
    obtain rows where q1: "message_queue.claim t1 (t1 + ttl) (id_text (w_next_id s)) n (db_outbox (w_db s)) = (Some i, rows)"
      "w_db u = (w_db s)\<lparr>db_outbox := rows\<rparr>"
      using c1(1) ij(1) by (auto simp: claim_message_eq split: prod.splits)
    obtain rows' where q2: "message_queue.claim t2 (t2 + ttl') (id_text (w_next_id u)) n rows = (Some j, rows')"
      using c2(1) ij(2) q1(2) by (auto simp: claim_message_eq split: prod.splits)
    have keys: "distinct_keys ob_PublicID (db_outbox (w_db s))" using s by (simp add: on_db_def messages_ok_def)
    then have "distinct_keys ob_PublicID rows"
      using message_queue.keys_claim [of t1 "t1 + ttl" "id_text (w_next_id s)" n "db_outbox (w_db s)"] q1(1)
      by (simp add: distinct_keys_def)
    moreover have "i \<in> set rows"
      using q1(1) by (auto elim!: message_queue.claim_Some simp: row_update_def)
    moreover have "ob_Attempts i = n" using xy(3) ij(3) by (simp add: outbox_message_def)
    ultimately show ?thesis
      using message_queue.exhausted_stays(2) [OF q2, of i j] ij(3,4) by (simp add: outbox_message_def)
  qed
  then show "last_claim_stuck n (a, b)" by (auto simp: last_claim_stuck_def split: option.splits)
qed

text \<open>Claim C21. The delay before the next delivery doubles with every attempt, from the configured delay (a
  second when there is none), and is never more than an hour.\<close>

theorem retryDelay_spec:
  "retryDelay base n = min Hour ((if base \<le> 0 then Second else base) * 2 ^ nat (n - 1))"
proof -
  have "0 < b \<Longrightarrow> retry_doubling k b = min Hour (b * 2 ^ k)" for k b
  proof (induction k arbitrary: b)
    case 0
    then show ?case by (simp add: min.commute)
  next
    case (Suc k)
    show ?case
    proof (cases "Hour div 2 \<le> b")
      case True
      have "b * 2 \<le> b * 2 ^ Suc k" using Suc.prems by simp
      moreover have "Hour \<le> b * 2" using True by (simp add: Hour_def Minute_def Second_def)
      ultimately show ?thesis using True by simp
    next
      case False
      then show ?thesis using Suc by (simp add: mult.assoc)
    qed
  qed
  then show ?thesis by (simp add: retryDelay_def Let_def Second_def)
qed

end
