(* ===== verification/CheckJobs.thy ===== *)
theory CheckJobs
  imports LeasedQueue EntitlementService
begin

text \<open>
  The queue of entitlement checks and its worker \<^verbatim>\<open>src/internal/metering/workers/entitlement/worker.go\<close>.
  A check job is a leased row of its workspace, subject and meter; its attempt number is what a
  worker shows when it completes, requeues or buries it.  The cancellation and the timeout of the
  worker's context are not modelled.
\<close>

section \<open>The worker\<close>

record EntitlementWorker =
  ew_lockTTL :: duration
  ew_retryAfter :: duration
  ew_maxAttempts :: int

definition ignore_not_found :: "(world, unit) proc \<Rightarrow> (go_error \<Rightarrow> go_error) \<Rightarrow> (world, bool) proc" where
  "ignore_not_found m f = inspect m (\<lambda>r. case r of
      Inl e \<Rightarrow> if errors_Is e ErrNotFound then return_ok True else return_err (f e)
    | Inr _ \<Rightarrow> return_ok True)"

definition check_failed :: "EntitlementWorker \<Rightarrow> ctx \<Rightarrow> CheckJob \<Rightarrow> go_error \<Rightarrow> (world, bool) proc" where
  "check_failed worker baseCtx job e =
    (if ew_maxAttempts worker \<le> cj_Attempts job
     then ignore_not_found (DeadLetterCheckJob baseCtx \<lparr>dlc_Subject = cj_Subject job, dlc_Meter = cj_MeterName job,
       dlc_Attempts = cj_Attempts job, dlc_Error = error_text e\<rparr>) (JoinErr e)
     else ignore_not_found (FailCheckJob baseCtx \<lparr>flc_Subject = cj_Subject job, flc_Meter = cj_MeterName job,
       flc_Attempts = cj_Attempts job, flc_RetryAfter = ew_retryAfter worker, flc_Error = error_text e\<rparr>) (JoinErr e))"

definition Check_ProcessOnce :: "EntitlementWorker \<Rightarrow> ctx \<Rightarrow> (world, bool) proc" where
  "Check_ProcessOnce worker ctx =
    attempt (ClaimCheckJob ctx \<lparr>clc_LockTTL = ew_lockTTL worker, clc_MaxAttempts = ew_maxAttempts worker\<rparr>) (\<lambda>claimed.
    case claimed of None \<Rightarrow> return_ok False
    | Some job \<Rightarrow>
        (let baseCtx = WithWorkspaceID ctx (cj_WorkspaceID job) in
         inspect (Evaluate baseCtx \<lparr>evc_Subject = cj_Subject job, evc_Meter = cj_MeterName job\<rparr>) (\<lambda>r. case r of
             Inr _ \<Rightarrow> ignore_not_found (CompleteCheckJob baseCtx \<lparr>cmc_Subject = cj_Subject job,
               cmc_Meter = cj_MeterName job, cmc_Attempts = cj_Attempts job\<rparr>) (\<lambda>e. e)
           | Inl e \<Rightarrow> check_failed worker baseCtx job e)))"

text \<open>One round of the worker: at most a batch of jobs, until none is left or one fails.\<close>

primrec drain :: "(world, bool) proc \<Rightarrow> nat \<Rightarrow> (world, unit) proc" where
  "drain process 0 = return_ok ()"
| "drain process (Suc n) = inspect process (\<lambda>r. case r of
      Inl _ \<Rightarrow> return_ok () | Inr ok \<Rightarrow> if ok then drain process n else return_ok ())"

section \<open>The check jobs as a leased queue\<close>

definition job_rank :: "JobRow \<Rightarrow> string \<times> string \<times> string \<times> string \<times> string" where
  "job_rank j = (ttxt (jr_RunAfter j), ttxt (jr_CreatedAt j), jr_WorkspaceID j, jr_Subject j, jr_MeterName j)"

definition lease_job :: "time \<Rightarrow> time \<Rightarrow> string \<Rightarrow> JobRow \<Rightarrow> JobRow" where
  "lease_job now lease token j = claimed_job now lease j"

interpretation check_queue: leased_queue job_key jr_Attempts claimable job_rank lease_job "\<lambda>lease later. \<not> time_text_less lease later"
  by unfold_locales (auto simp: lease_job_def claimed_job_def job_key_def claimable_def unlocked_at_def)

lemma next_job_eq: "next_job now n d = check_queue.next_row now n (db_jobs d)"
  unfolding next_job_def check_queue.next_row_def by (simp add: job_rank_def [abs_def])

lemma claim_job_eq:
  "claim_job now lease n d = (case check_queue.claim now lease [] n (db_jobs d) of (j, rows) \<Rightarrow> (j, d\<lparr>db_jobs := rows\<rparr>))"
proof -
  have "lease_job now lease [] = claimed_job now lease" by (simp add: lease_job_def [abs_def])
  then show ?thesis
    by (simp add: claim_job_def check_queue.claim_def next_job_eq lease_job_def split: option.splits)
qed

section \<open>What every operation keeps\<close>

definition jobs_ok :: "int \<Rightarrow> db \<Rightarrow> bool" where
  "jobs_ok n d \<longleftrightarrow> check_queue.bounded n (db_jobs d) \<and> (\<forall>j \<in> set (db_jobs d). jr_LockedUntil j \<noteq> None \<longrightarrow> 1 \<le> jr_Attempts j)"

lemma set_row_upsert: "set (row_upsert key f r rows) \<subseteq> insert r (set rows \<union> f ` set rows)"
  by (auto simp: row_upsert_def row_update_def)

lemma jobs_ok_enqueue: "0 \<le> n \<Longrightarrow> jobs_ok n d \<Longrightarrow> jobs_ok n (enqueue_job ws subject meterName runAfter now d)"
  unfolding jobs_ok_def check_queue.bounded_def enqueue_job_def
  by (auto intro!: distinct_keys_upsert simp: job_key_def dest!: subsetD [OF set_row_upsert] split: if_splits)

lemma jobs_ok_claim: "jobs_ok n d \<Longrightarrow> jobs_ok n (snd (claim_job now lease n d))"
proof -
  assume ok: "jobs_ok n d"
  obtain c rows where claim: "check_queue.claim now lease [] n (db_jobs d) = (c, rows)"
    by (cases "check_queue.claim now lease [] n (db_jobs d)")
  have "check_queue.bounded n rows"
    using check_queue.claim_bounded [of n "db_jobs d" now lease "[]"] ok claim by (simp add: jobs_ok_def)
  moreover have "jr_LockedUntil j \<noteq> None \<longrightarrow> 1 \<le> jr_Attempts j" if "j \<in> set rows" for j
  proof -
    have "\<forall>j \<in> set (db_jobs d). 0 \<le> jr_Attempts j \<and> (jr_LockedUntil j \<noteq> None \<longrightarrow> 1 \<le> jr_Attempts j)"
      using ok by (auto simp: jobs_ok_def check_queue.bounded_def)
    then show ?thesis
      using claim that
      by (auto simp: check_queue.claim_def lease_job_def claimed_job_def row_update_def split: option.splits if_splits)
  qed
  ultimately show ?thesis using claim by (simp add: claim_job_eq jobs_ok_def)
qed

lemma jobs_ok_update:
  "jobs_ok n d \<Longrightarrow> (\<And>j. job_key (f j) = job_key j \<and> jr_Attempts (f j) = jr_Attempts j \<and> jr_LockedUntil (f j) = None) \<Longrightarrow>
   jobs_ok n (d\<lparr>db_jobs := row_update p f (db_jobs d)\<rparr>)"
  unfolding jobs_ok_def check_queue.bounded_def
  by (auto simp: distinct_keys_update) (auto simp: row_update_def)

lemma jobs_ok_delete: "jobs_ok n d \<Longrightarrow> jobs_ok n (d\<lparr>db_jobs := row_delete p (db_jobs d)\<rparr>)"
  by (auto simp: jobs_ok_def check_queue.bounded_def intro: distinct_keys_delete)

lemma jobs_ok_frame [simp]: "jobs_ok n (d\<lparr>db_dead_letters := x\<rparr>) = jobs_ok n d"
  by (simp add: jobs_ok_def)

lemma keeps_jobs_enqueue: "0 \<le> n \<Longrightarrow> keeps (on_db (jobs_ok n)) (EnqueueForUsageEvents ctx events)"
  unfolding EnqueueForUsageEvents_def EnqueueEntitlementCheckJob_def Let_def
  by (auto intro!: keeps_rules keeps_exec jobs_ok_enqueue split: sum.splits)

lemma keeps_jobs_claim: "clc_MaxAttempts cmd = n \<Longrightarrow> keeps (on_db (jobs_ok n)) (ClaimCheckJob ctx cmd)"
  unfolding ClaimCheckJob_def ClaimEntitlementCheckJob_def
  by (auto intro!: keeps_rules keeps_stmt split: prod.splits) (metis jobs_ok_claim snd_conv)

lemma keeps_jobs_finish [keeps_rules]:
  "keeps (on_db (jobs_ok n)) (CompleteCheckJob ctx c)" "keeps (on_db (jobs_ok n)) (FailCheckJob ctx f)"
  "keeps (on_db (jobs_ok n)) (DeadLetterCheckJob ctx l)"
  unfolding CompleteCheckJob_def FailCheckJob_def DeadLetterCheckJob_def DeleteEntitlementCheckJob_def
    RequeueEntitlementCheckJob_def SaveCheckDeadLetter_def Let_def
  by (auto intro!: keeps_rules keeps_execrows keeps_exec_unique jobs_ok_delete jobs_ok_update simp: job_key_def)

subsection \<open>The worker\<close>

lemma keeps_reads_plans [keeps_rules]:
  "keeps (on_db P) (FindPlans ctx q)" "keeps (on_db P) (FindPlanLimits ctx pid)"
  "keeps (on_db P) (GetEntitlementUsageCounter ctx cq)" "keeps (on_db P) (FindEffectiveSubjectAssignment ctx s t)"
  "keeps (on_db P) (GetEntitlementState ctx sq)"
  unfolding FindPlans_def FindPlanLimits_def GetEntitlementUsageCounter_def FindEffectiveSubjectAssignment_def GetEntitlementState_def
  by (auto intro!: keeps_rules split: option.splits list.splits)

lemma keeps_Meters_Find_db: "keeps (on_db P) (Meters_Find ctx q)"
  unfolding Meters_Find_def by (auto intro!: keeps_rules)

lemma keeps_reads_service [keeps_rules]:
  "keeps (on_db P) (findPlan ctx pid)" "keeps (on_db P) (findSubjectAssignment ctx s)"
  "keeps (on_db P) (counter_or_zero ctx cq)" "keeps (on_db P) (state_or_zero ctx sq)"
  unfolding findPlan_def findSubjectAssignment_def counter_or_zero_def state_or_zero_def Let_def
  by (auto intro!: keeps_rules split: list.splits sum.splits)

lemma keeps_progressItem [keeps_rules]: "keeps (on_db P) (progressItem ctx subject a limit)"
  unfolding progressItem_def Let_def by (auto intro!: keeps_rules keeps_Meters_Find_db split: list.splits prod.splits)

text \<open>An evaluation writes states, snapshots and entitlement events.\<close>

lemma keeps_Evaluate:
  assumes "\<And>d x. P d \<Longrightarrow> P (d\<lparr>db_states := x\<rparr>)" "\<And>d x. P d \<Longrightarrow> P (d\<lparr>db_snapshots := x\<rparr>)"
    "\<And>d x. P d \<Longrightarrow> P (d\<lparr>db_entitlement_events := x\<rparr>)"
  shows "keeps (on_db P) (Evaluate ctx cmd)"
  unfolding Evaluate_def SaveEntitlementState_def SaveEntitlementPeriodSnapshot_def SaveEntitlementEvent_def Let_def
  by (auto intro!: keeps_rules keeps_exec keeps_exec_unique assms split: sum.splits option.splits)

lemma keeps_ignore [keeps_rules]: "keeps P m \<Longrightarrow> keeps P (ignore_not_found m f)"
  unfolding ignore_not_found_def by (auto intro!: keeps_rules split: sum.splits)

lemma keeps_drain: "keeps P process \<Longrightarrow> keeps P (drain process n)"
  by (induction n) (auto intro!: keeps_rules split: sum.splits)

lemma keeps_jobs_ProcessOnce: "ew_maxAttempts worker = n \<Longrightarrow> keeps (on_db (jobs_ok n)) (Check_ProcessOnce worker ctx)"
  unfolding Check_ProcessOnce_def check_failed_def Let_def
  by (auto intro!: keeps_rules keeps_jobs_claim keeps_Evaluate simp: jobs_ok_def split: option.splits sum.splits)

section \<open>Claims\<close>

definition check_key :: "CheckJob \<Rightarrow> string \<times> string \<times> string" where
  "check_key job = (cj_WorkspaceID job, cj_Subject job, cj_MeterName job)"

lemma check_job_fields:
  "check_key (sqliteEntitlementCheckJob j) = job_key j" "cj_Attempts (sqliteEntitlementCheckJob j) = jr_Attempts j"
  by (simp_all add: check_key_def sqliteEntitlementCheckJob_def job_key_def)

lemma ClaimCheckJob_ok:
  assumes "ClaimCheckJob ctx cmd w = (Inr r, u)"
  obtains now c where "claim_job now (now + clc_LockTTL cmd) (clc_MaxAttempts cmd) (w_db w) = (c, w_db u)"
    "r = map_option sqliteEntitlementCheckJob c"
proof -
  from assms obtain now v row where clock: "clock_now w = (Inr now, v)"
    and st: "stmt (\<lambda>d. case claim_job now (now + clc_LockTTL cmd) (clc_MaxAttempts cmd) d of (row, d') \<Rightarrow> (Inr row, d')) v = (Inr row, u)"
    and "r = map_option sqliteEntitlementCheckJob row"
    by (auto simp: ClaimCheckJob_def ClaimEntitlementCheckJob_def attempt_eq_Inr split: if_splits)
  moreover have "w_db v = w_db w" using clock clock_now_db(1) [of w] by simp
  ultimately show ?thesis using that stmt_ok [OF st] by (auto split: prod.splits)
qed

lemma claimed_fields:
  assumes "claim_job now lease n d = (Some c, d')"
  shows "jr_LockedUntil c = Some lease" "jr_UpdatedAt c = now"
  using assms by (auto simp: claim_job_def claimed_job_def split: option.splits)

definition exhausted :: "int \<Rightarrow> string \<times> string \<times> string \<Rightarrow> db \<Rightarrow> bool" where
  "exhausted n k d \<longleftrightarrow> distinct_keys job_key (db_jobs d) \<and> (\<exists>j \<in> set (db_jobs d). job_key j = k \<and> n \<le> jr_Attempts j)"

lemma exhausted_enqueue:
  assumes "exhausted n k d"
  shows "exhausted n k (enqueue_job ws subject meterName runAfter now d)"
proof -
  let ?f = "\<lambda>j. if unlocked_at now j then j\<lparr>jr_RunAfter := (if time_text_less runAfter (jr_RunAfter j) then runAfter else jr_RunAfter j),
                  jr_UpdatedAt := now\<rparr> else j"
  have f: "job_key (?f j) = job_key j" "jr_Attempts (?f j) = jr_Attempts j" for j by (simp_all add: job_key_def)
  have "\<exists>j \<in> set (row_upsert job_key ?f r rows). job_key j = k \<and> n \<le> jr_Attempts j"
    if "j \<in> set rows" "job_key j = k" "n \<le> jr_Attempts j" for r rows j
  proof (cases "job_key r \<in> job_key ` set rows")
    case True
    then have "(if job_key j = job_key r then ?f j else j) \<in> set (row_upsert job_key ?f r rows)"
      using that(1) by (auto simp: row_upsert_def row_update_def)
    then show ?thesis using that(2,3) f by (intro bexI [of _ "if job_key j = job_key r then ?f j else j"]) simp_all
  next
    case False
    then show ?thesis using that by (auto simp: row_upsert_def)
  qed
  then show ?thesis
    using assms by (auto simp: exhausted_def enqueue_job_def job_key_def intro!: distinct_keys_upsert)
qed

lemma keeps_exhausted_enqueue: "keeps (on_db (exhausted n k)) (EnqueueForUsageEvents ctx events)"
  unfolding EnqueueForUsageEvents_def EnqueueEntitlementCheckJob_def Let_def
  by (auto intro!: keeps_rules keeps_exec exhausted_enqueue split: sum.splits)

lemma exhausted_not_claimed:
  assumes "claim_job now lease n d = (Some c, d')" "exhausted n k d"
  shows "job_key c \<noteq> k"
proof -
  obtain rows where claim: "check_queue.claim now lease [] n (db_jobs d) = (Some c, rows)"
    using assms(1) by (auto simp: claim_job_eq split: prod.splits)
  obtain j where j: "j \<in> set (db_jobs d)" "job_key j = k" "n \<le> jr_Attempts j" "distinct_keys job_key (db_jobs d)"
    using assms(2) by (auto simp: exhausted_def)
  show ?thesis using check_queue.exhausted_stays(2) [OF claim j(4,1,3)] j(2) by auto
qed

lemma last_attempt_exhausts:
  assumes "claim_job now lease n d = (Some c, d')" "jobs_ok m d" "jr_Attempts c = n"
  shows "exhausted n (job_key c) d'"
proof -
  obtain rows where claim: "check_queue.claim now lease [] n (db_jobs d) = (Some c, rows)" and d': "d' = d\<lparr>db_jobs := rows\<rparr>"
    using assms(1) by (auto simp: claim_job_eq split: prod.splits)
  have keys: "distinct_keys job_key (db_jobs d)" using assms(2) by (simp add: jobs_ok_def check_queue.bounded_def)
  have "distinct_keys job_key rows"
    using check_queue.keys_claim [of now lease "[]" n "db_jobs d"] claim keys by (simp add: distinct_keys_def)
  moreover obtain r where "r \<in> set (db_jobs d)" "c = lease_job now lease [] r"
    "rows = row_update (\<lambda>q. job_key q = job_key r) (lease_job now lease []) (db_jobs d)"
    using claim by (rule check_queue.claim_Some)
  then have "c \<in> set rows" by (auto simp: row_update_def)
  ultimately show ?thesis using assms(3) d' by (auto simp: exhausted_def)
qed

text \<open>Two claims in a row: the same job only when the first lease had ended by the second claim, and
  never after its last attempt.\<close>

definition exclusive_claims :: "CheckJob option \<times> CheckJob option \<Rightarrow> bool" where
  "exclusive_claims ab = (case ab of
      (Some x, Some y) \<Rightarrow> (if check_key x = check_key y then time_text_less (cj_LockedUntil x) (cj_UpdatedAt y) else True)
    | _ \<Rightarrow> True)"

definition last_claim_final :: "int \<Rightarrow> CheckJob option \<times> CheckJob option \<Rightarrow> bool" where
  "last_claim_final n ab = (case ab of
      (Some x, Some y) \<Rightarrow> (if cj_Attempts x = n then check_key y \<noteq> check_key x else True)
    | _ \<Rightarrow> True)"

section \<open>Properties\<close>

text \<open>Claim C19. Two workers never hold the same check: when two claims, one after the other, return the
  same job, the lease of the first had ended by the clock of the second.\<close>

theorem check_claims_exclusive:
  "ensures (on_db (jobs_ok n))
    (attempt (ClaimCheckJob ctx cmd) (\<lambda>a. attempt (ClaimCheckJob ctx' cmd') (\<lambda>b. return_ok (a, b))))
    (\<lambda>ab _. exclusive_claims ab)"
proof (rule ensuresI, clarify)
  fix s u a b
  assume s: "on_db (jobs_ok n) s"
    and "attempt (ClaimCheckJob ctx cmd) (\<lambda>a. attempt (ClaimCheckJob ctx' cmd') (\<lambda>b. return_ok (a, b))) s = (Inr (a, b), u)"
  then obtain v where one: "ClaimCheckJob ctx cmd s = (Inr a, v)" and two: "ClaimCheckJob ctx' cmd' v = (Inr b, u)"
    by (auto simp: attempt_eq_Inr)
  obtain t1 c1 where c1: "claim_job t1 (t1 + clc_LockTTL cmd) (clc_MaxAttempts cmd) (w_db s) = (c1, w_db v)"
    "a = map_option sqliteEntitlementCheckJob c1" by (rule ClaimCheckJob_ok [OF one])
  obtain t2 c2 where c2: "claim_job t2 (t2 + clc_LockTTL cmd') (clc_MaxAttempts cmd') (w_db v) = (c2, w_db u)"
    "b = map_option sqliteEntitlementCheckJob c2" by (rule ClaimCheckJob_ok [OF two])
  have "time_text_less (cj_LockedUntil x) (cj_UpdatedAt y)"
    if xy: "a = Some x" "b = Some y" "check_key x = check_key y" for x y
  proof (rule ccontr)
    assume live: "\<not> time_text_less (cj_LockedUntil x) (cj_UpdatedAt y)"
    obtain i j where ij: "c1 = Some i" "c2 = Some j" "x = sqliteEntitlementCheckJob i" "y = sqliteEntitlementCheckJob j"
      using xy c1(2) c2(2) by auto
    have "\<not> time_text_less (t1 + clc_LockTTL cmd) t2"
      using live ij claimed_fields [OF c1(1) [unfolded ij(1)]] claimed_fields [OF c2(1) [unfolded ij(2)]]
      by (simp add: sqliteEntitlementCheckJob_def)
    moreover obtain rows1 where q1: "check_queue.claim t1 (t1 + clc_LockTTL cmd) [] (clc_MaxAttempts cmd) (db_jobs (w_db s)) = (Some i, rows1)"
      "w_db v = (w_db s)\<lparr>db_jobs := rows1\<rparr>"
      using c1(1) ij(1) by (auto simp: claim_job_eq split: prod.splits)
    moreover obtain rows2 where q2: "check_queue.claim t2 (t2 + clc_LockTTL cmd') [] (clc_MaxAttempts cmd') rows1 = (Some j, rows2)"
      using c2(1) ij(2) q1(2) by (auto simp: claim_job_eq split: prod.splits)
    moreover have "distinct_keys job_key (db_jobs (w_db s))"
      using s by (simp add: on_db_def jobs_ok_def check_queue.bounded_def)
    ultimately have "job_key j \<noteq> job_key i" using check_queue.claim_exclusive by blast
    then show False using xy(3) ij by (simp add: check_job_fields)
  qed
  then show "exclusive_claims (a, b)" by (auto simp: exclusive_claims_def split: option.splits)
qed

text \<open>Claim C20. A check whose last attempt did not report back is stuck for good: after a claim returned a
  job on its last attempt, enqueuing new usage and claiming again, however much later, never returns
  that job.  (Enqueuing reuses the row and does not reset its attempts.)\<close>

theorem exhausted_check_stuck:
  "ensures (on_db (jobs_ok m))
    (attempt (ClaimCheckJob ctx (cmd\<lparr>clc_MaxAttempts := n\<rparr>)) (\<lambda>a.
     attempt (EnqueueForUsageEvents ctx' events) (\<lambda>_.
     attempt (ClaimCheckJob ctx'' (cmd'\<lparr>clc_MaxAttempts := n\<rparr>)) (\<lambda>b. return_ok (a, b)))))
    (\<lambda>ab _. last_claim_final n ab)"
proof (rule ensuresI, clarify)
  fix s z a b
  assume s: "on_db (jobs_ok m) s" and "attempt (ClaimCheckJob ctx (cmd\<lparr>clc_MaxAttempts := n\<rparr>)) (\<lambda>a.
     attempt (EnqueueForUsageEvents ctx' events) (\<lambda>_.
     attempt (ClaimCheckJob ctx'' (cmd'\<lparr>clc_MaxAttempts := n\<rparr>)) (\<lambda>b. return_ok (a, b)))) s = (Inr (a, b), z)"
  then obtain t u where one: "ClaimCheckJob ctx (cmd\<lparr>clc_MaxAttempts := n\<rparr>) s = (Inr a, t)"
    and enq: "EnqueueForUsageEvents ctx' events t = (Inr (), u)"
    and two: "ClaimCheckJob ctx'' (cmd'\<lparr>clc_MaxAttempts := n\<rparr>) u = (Inr b, z)"
    by (auto simp: attempt_eq_Inr)
  obtain t1 c1 where c1: "claim_job t1 (t1 + clc_LockTTL cmd) n (w_db s) = (c1, w_db t)"
    "a = map_option sqliteEntitlementCheckJob c1" using ClaimCheckJob_ok [OF one] by auto
  obtain t2 c2 where c2: "claim_job t2 (t2 + clc_LockTTL cmd') n (w_db u) = (c2, w_db z)"
    "b = map_option sqliteEntitlementCheckJob c2" using ClaimCheckJob_ok [OF two] by auto
  have "check_key y \<noteq> check_key x" if xy: "a = Some x" "b = Some y" "cj_Attempts x = n" for x y
  proof -
    obtain i j where ij: "c1 = Some i" "c2 = Some j" "x = sqliteEntitlementCheckJob i" "y = sqliteEntitlementCheckJob j"
      using xy c1(2) c2(2) by auto
    have "on_db (exhausted n (job_key i)) t"
      using last_attempt_exhausts [OF c1(1) [unfolded ij(1)], of m] s xy(3) ij(3)
      by (simp add: on_db_def check_job_fields)
    from keepsD [OF keeps_exhausted_enqueue [of n "job_key i" ctx' events] this] have "exhausted n (job_key i) (w_db u)" using enq by (simp add: on_db_def)
    from exhausted_not_claimed [OF c2(1) [unfolded ij(2)] this] show ?thesis using ij by (simp add: check_job_fields)
  qed
  then show "last_claim_final n (a, b)" by (auto simp: last_claim_final_def split: option.splits)
qed

text \<open>Usage that arrives while its check is being evaluated is not checked: enqueuing it while the
  lease runs changes nothing, and the completion of the running check removes the job.\<close>

lemma check_wakeup_lost:
  assumes "distinct_keys job_key (db_jobs d)" "j \<in> set (db_jobs d)" "job_key j = (ws, subject, meterName)"
    and "jr_LockedUntil j = Some lease" "\<not> time_text_less lease now"
  shows "enqueue_job ws subject meterName runAfter now d = d \<and>
    (ws, subject, meterName) \<notin> job_key ` set
      (row_delete (owned_job ws subject meterName (jr_Attempts j)) (db_jobs (enqueue_job ws subject meterName runAfter now d)))"
proof -
  have only: "q = j" if "q \<in> set (db_jobs d)" "job_key q = (ws, subject, meterName)" for q
    using distinct_keys_unique [OF assms(1) that(1) assms(2)] that(2) assms(3) by simp
  have "row_update (\<lambda>q. job_key q = (ws, subject, meterName)) (\<lambda>q. if unlocked_at now q then f q else q) (db_jobs d) = db_jobs d" for f
    unfolding row_update_def using only assms(4,5) by (intro map_idI) (auto simp: unlocked_at_def)
  moreover have "(ws, subject, meterName) \<in> job_key ` set (db_jobs d)" using assms(2,3) by force
  ultimately have "enqueue_job ws subject meterName runAfter now d = d"
    by (simp add: enqueue_job_def row_upsert_def job_key_def)
  then show ?thesis using only by (auto simp: owned_job_def)
qed

lemma check_wakeup_lost_example:
  "let j = \<lparr>jr_WorkspaceID = ''w'', jr_Subject = ''s'', jr_MeterName = ''m'', jr_RunAfter = 0, jr_LockedUntil = Some 9,
      jr_Attempts = 1, jr_CreatedAt = 0, jr_UpdatedAt = 0\<rparr>; d = empty_db\<lparr>db_jobs := [j]\<rparr>
   in enqueue_job ''w'' ''s'' ''m'' 5 9 d = d \<and>
     (''w'', ''s'', ''m'') \<notin> job_key ` set (row_delete (owned_job ''w'' ''s'' ''m'' 1) (db_jobs (enqueue_job ''w'' ''s'' ''m'' 5 9 d)))"
proof -
  let ?j = "\<lparr>jr_WorkspaceID = ''w'', jr_Subject = ''s'', jr_MeterName = ''m'', jr_RunAfter = 0, jr_LockedUntil = Some 9,
      jr_Attempts = 1, jr_CreatedAt = 0, jr_UpdatedAt = 0\<rparr>"
  have "distinct_keys job_key (db_jobs (empty_db\<lparr>db_jobs := [?j]\<rparr>))" by (simp add: distinct_keys_def)
  moreover have "?j \<in> set (db_jobs (empty_db\<lparr>db_jobs := [?j]\<rparr>))" "job_key ?j = (''w'', ''s'', ''m'')"
    "jr_LockedUntil ?j = Some 9" "\<not> time_text_less 9 9"
    by (simp_all add: job_key_def)
  ultimately show ?thesis
    using check_wakeup_lost [of "empty_db\<lparr>db_jobs := [?j]\<rparr>" ?j "''w''" "''s''" "''m''" 9 9 5]
    unfolding Let_def JobRow.select_convs by blast
qed

end
