(* ===== verification/PlanSpec.thy ===== *)
theory PlanSpec
  imports CheckJobs
begin

text \<open>
  Plans, limits and assignments: what the operations of the entitlement service keep of them.  Every
  stored limit is valid and unique in its plan, meter and period; a name has one current version;
  and the assignments of a subject never overlap.
\<close>

section \<open>Valid plans\<close>

definition valid_limit :: "PlanLimit \<Rightarrow> bool" where
  "valid_limit l \<longleftrightarrow> lim_MeterName l \<noteq> [] \<and> lim_Period l \<in> {PeriodDay, PeriodWeek, PeriodMonth, PeriodYear} \<and>
    isFinitePositive (lim_Limit l) \<and> isFinitePositive (lim_WarningPercent l) \<and> \<not> Fin 100 < lim_WarningPercent l \<and>
    lim_Enforcement l \<in> {EnforcementAdvisory, EnforcementHard} \<and> lim_FailurePolicy l \<in> {FailOpen, FailClosed}"

definition valid_plan :: "Plan \<Rightarrow> bool" where
  "valid_plan p \<longleftrightarrow> pl_Name p \<noteq> [] \<and> trimmed (pl_Name p) \<and> RuneCountInString (pl_Name p) \<le> MaxNameRunes \<and> 1 \<le> pl_Version p"

definition limit_slot :: "PlanLimit \<Rightarrow> string" where
  "limit_slot l = limitKey (lim_MeterName l) (lim_Period l)"

lemma normalize_ok:
  "normalizePeriod s = Inr p \<Longrightarrow> p \<in> {PeriodDay, PeriodWeek, PeriodMonth, PeriodYear}"
  "normalizeEnforcement s = Inr e \<Longrightarrow> e \<in> {EnforcementAdvisory, EnforcementHard}"
  "normalizeFailurePolicy s = Inr f \<Longrightarrow> f \<in> {FailOpen, FailClosed}"
  by (auto simp: normalizePeriod_def normalizeEnforcement_def normalizeFailurePolicy_def Let_def split: if_splits)

lemma normalizeLimitCommand_valid:
  "ensures (\<lambda>_. True) (normalizeLimitCommand ctx planID command now) (\<lambda>l _. valid_limit l \<and> lim_PlanID l = planID)"
  by (auto simp: ensures_def normalizeLimitCommand_def Let_def attempt_eq_Inr valid_limit_def DefaultWarningPercent_def
      dest!: normalize_ok split: if_splits)

lemma normalize_limits_valid:
  "ensures (\<lambda>_. True) (normalize_limits ctx planID commands now) (\<lambda>ls _. length ls = length commands \<and>
     (\<forall>l \<in> set ls. valid_limit l \<and> lim_PlanID l = planID) \<and> distinct (map limit_slot ls))"
proof -
  define I where "I = (\<lambda>prev ls (_ :: world). length ls = length (prev :: LimitCommand list) \<and>
     (\<forall>l \<in> set ls. valid_limit l \<and> lim_PlanID l = planID) \<and> distinct (map limit_slot ls))"
  have "ensures (I prev ls) (attempt (normalizeLimitCommand ctx planID command now) (\<lambda>limit.
    if limitKey (lim_MeterName limit) (lim_Period limit) \<in> set (map (\<lambda>l. limitKey (lim_MeterName l) (lim_Period l)) ls)
    then return_err (Errorf ErrInvalidInput '': duplicate limit for meter %q and period %q''
      [SArg (lim_MeterName limit), SArg (period_text (lim_Period limit))])
    else return_ok (ls @ [limit]))) (I (prev @ [command]))" for prev ls command
    using normalizeLimitCommand_valid [of ctx planID command now]
    by (fastforce simp: ensures_def attempt_eq_Inr I_def limit_slot_def split: if_splits)
  then have "ensures (I [] []) (normalize_limits ctx planID commands now) (I commands)"
    unfolding normalize_limits_def by (rule ensures_foreach)
  then show ?thesis by (rule ensures_weaken) (auto simp: I_def)
qed

definition normalized :: "Plan \<Rightarrow> PlanLimit list \<Rightarrow> bool" where
  "normalized plan limits \<longleftrightarrow> valid_plan plan \<and> limits \<noteq> [] \<and> distinct (map limit_slot limits) \<and>
    (\<forall>l \<in> set limits. valid_limit l \<and> lim_PlanID l = pl_ID plan)"

lemma normalizePlan_valid:
  assumes "normalizePlan ctx id0 name description input createdAt w = (Inr (plan, limits), u)"
  shows "normalized plan limits \<and> length limits = length input \<and> pl_Version plan = 1 \<and> pl_IsCurrent plan \<and> pl_ParentPlanID plan = []"
proof -
  from assms obtain pid now v where
    run: "normalize_limits ctx pid input now v = (Inr limits, u)" and plan: "pl_ID plan = pid" "pl_Name plan = TrimSpace name"
      "pl_Version plan = 1" "pl_IsCurrent plan" "pl_ParentPlanID plan = []"
    and "TrimSpace name \<noteq> []" "RuneCountInString (TrimSpace name) \<le> MaxNameRunes" "input \<noteq> []"
    by (auto simp: normalizePlan_def Let_def attempt_eq_Inr split: if_splits)
  then show ?thesis
    using ensuresD [OF normalize_limits_valid run]
    by (auto simp: normalized_def valid_plan_def TrimSpace_trimmed)
qed

lemma keeps_normalizePlan [keeps_rules]:
  "keeps (on_db P) (normalizePlan ctx id0 name description input createdAt)"
  unfolding normalizePlan_def normalize_limits_def normalizeLimitCommand_def Let_def
  by (auto intro!: keeps_rules keeps_Meters_Find_db)

section \<open>The invariant of the plan tables\<close>

definition plans_ok :: "db \<Rightarrow> bool" where
  "plans_ok d \<longleftrightarrow> plans_unique d \<and> limits_unique d \<and> distinct_keys (\<lambda>(w, p). pl_ID p) (db_plans d) \<and>
    (\<forall>(w, p) \<in> set (db_plans d). valid_plan p) \<and> (\<forall>(w, l) \<in> set (db_limits d). valid_limit l)"

lemma plans_ok_frame: "db_plans d' = db_plans d \<Longrightarrow> db_limits d' = db_limits d \<Longrightarrow> plans_ok d' = plans_ok d"
  by (simp add: plans_ok_def plans_unique_def limits_unique_def)

lemma plans_ok_plan: "plans_ok d \<Longrightarrow> (w, p) \<in> set (db_plans d) \<Longrightarrow> valid_plan p"
  by (auto simp: plans_ok_def)

lemma plans_ok_simps [simp]:
  "plans_ok (d\<lparr>db_assignments := x\<rparr>) = plans_ok d" "plans_ok (d\<lparr>db_states := y\<rparr>) = plans_ok d"
  "plans_ok (d\<lparr>db_snapshots := z\<rparr>) = plans_ok d" "plans_ok (d\<lparr>db_entitlement_events := v\<rparr>) = plans_ok d"
  by (simp_all add: plans_ok_def plans_unique_def limits_unique_def)

lemma all_row_upsert:
  "\<forall>q \<in> set rows. P q \<Longrightarrow> P r \<Longrightarrow> (\<And>q. P q \<Longrightarrow> P (f q)) \<Longrightarrow> \<forall>q \<in> set (row_upsert key f r rows). P q"
  by (auto simp: row_upsert_def row_update_def)

lemma all_row_update:
  "\<forall>q \<in> set rows. P q \<Longrightarrow> (\<And>q. P q \<Longrightarrow> P (f q)) \<Longrightarrow> \<forall>q \<in> set (row_update p f rows). P q"
  by (auto simp: row_update_def)

lemma plans_ok_save:
  assumes "plans_ok d" "valid_plan plan" "plans_unique (save_plan_row ws plan d)"
  shows "plans_ok (save_plan_row ws plan d)"
proof -
  have "distinct_keys (\<lambda>(w, p). pl_ID p) (db_plans (save_plan_row ws plan d))"
    using assms(1) unfolding save_plan_row_def
    by (auto simp: plans_ok_def intro!: distinct_keys_upsert)
  moreover have "\<forall>row \<in> set (db_plans (save_plan_row ws plan d)). valid_plan (snd row)"
    by (simp add: save_plan_row_def, rule all_row_upsert)
      (use assms(1,2) in \<open>auto simp: plans_ok_def valid_plan_def\<close>)
  ultimately show ?thesis
    using assms by (auto simp: plans_ok_def limits_unique_def save_plan_row_def)
qed

lemma valid_limit_copy:
  "valid_limit (l\<lparr>lim_PlanID := x\<rparr>) = valid_limit l"
  "valid_limit (l\<lparr>lim_PlanID := x, lim_CreatedAt := t, lim_UpdatedAt := u\<rparr>) = valid_limit l"
  "lim_MeterName l' = lim_MeterName l \<Longrightarrow> lim_Period l' = lim_Period l \<Longrightarrow> lim_Limit l' = lim_Limit l \<Longrightarrow>
   lim_WarningPercent l' = lim_WarningPercent l \<Longrightarrow> lim_Enforcement l' = lim_Enforcement l \<Longrightarrow>
   lim_FailurePolicy l' = lim_FailurePolicy l \<Longrightarrow> valid_limit l \<Longrightarrow> valid_limit l'"
  by (simp_all add: valid_limit_def)

lemma plans_ok_save_limit:
  assumes "plans_ok d" "valid_limit limit" "limits_unique (save_limit_row ws pid limit d)"
  shows "plans_ok (save_limit_row ws pid limit d)"
proof -
  have "\<forall>row \<in> set (db_limits (save_limit_row ws pid limit d)). valid_limit (snd row)"
    by (simp add: save_limit_row_def, rule all_row_upsert)
      (use assms(1,2) in \<open>auto simp: plans_ok_def valid_limit_copy(1) intro: valid_limit_copy(3) [of _ limit]\<close>)
  moreover have "db_plans (save_limit_row ws pid limit d) = db_plans d" by (simp add: save_limit_row_def)
  ultimately show ?thesis
    using assms(1,3) unfolding plans_ok_def plans_unique_def by (simp add: case_prod_beta)
qed

lemma distinct_map_filter: "distinct (map f xs) \<Longrightarrow> distinct (map f (filter p xs))"
  by (induction xs) auto

lemma plans_ok_retire:
  assumes "plans_ok d"
  shows "plans_ok (d\<lparr>db_plans := row_update hit (\<lambda>(w, p). (w, p\<lparr>pl_IsCurrent := False, pl_UpdatedAt := t\<rparr>)) (db_plans d)\<rparr>)"
proof -
  let ?f = "\<lambda>(w, p). (w, p\<lparr>pl_IsCurrent := False, pl_UpdatedAt := t\<rparr>)"
  have "map (\<lambda>(ws, p). (ws, pl_Name p)) (filter (\<lambda>(ws, p). pl_IsCurrent p) (row_update hit ?f rows)) =
      map (\<lambda>(ws, p). (ws, pl_Name p)) (filter (\<lambda>row. \<not> hit row) (filter (\<lambda>(ws, p). pl_IsCurrent p) rows))" for rows
    by (induction rows) auto
  moreover have "distinct (map (\<lambda>(ws, p). (ws, pl_Name p)) (filter (\<lambda>(ws, p). pl_IsCurrent p) (db_plans d)))"
    using assms unfolding plans_ok_def plans_unique_def by blast
  ultimately have "distinct (map (\<lambda>(ws, p). (ws, pl_Name p)) (filter (\<lambda>(ws, p). pl_IsCurrent p) (row_update hit ?f (db_plans d))))"
    by (simp only: distinct_map_filter)
  moreover have "map (\<lambda>(ws, p). (ws, pl_Name p, pl_Version p)) (row_update hit ?f (db_plans d)) =
      map (\<lambda>(ws, p). (ws, pl_Name p, pl_Version p)) (db_plans d)"
    by (rule map_row_update) auto
  moreover have "distinct_keys (\<lambda>(w, p). pl_ID p) (row_update hit ?f (db_plans d))"
    using assms by (auto simp: plans_ok_def intro!: distinct_keys_update)
  moreover have "\<forall>row \<in> set (row_update hit ?f (db_plans d)). valid_plan (snd row)"
    by (rule all_row_update) (use assms in \<open>auto simp: plans_ok_def valid_plan_def\<close>)
  ultimately show ?thesis
    using assms by (auto simp: plans_ok_def plans_unique_def limits_unique_def)
qed

lemma plans_ok_delete_limits: "plans_ok d \<Longrightarrow> plans_ok (d\<lparr>db_limits := row_delete p (db_limits d)\<rparr>)"
  by (auto simp: plans_ok_def plans_unique_def limits_unique_def row_delete_def distinct_map_filter)

lemma plans_ok_delete:
  assumes "plans_ok d"
  shows "plans_ok (delete_plan_rows ws pid d)"
proof -
  let ?f = "\<lambda>(w, p). (w, if pl_ParentPlanID p = pid then p\<lparr>pl_ParentPlanID := []\<rparr> else p)"
  let ?hit = "\<lambda>(w, p). w = ws \<and> pl_ID p = pid"
  have names: "map (\<lambda>(w, p). (w, pl_Name p, pl_Version p)) (map ?f (row_delete ?hit rows)) =
      map (\<lambda>(w, p). (w, pl_Name p, pl_Version p)) (filter (\<lambda>r. \<not> ?hit r) rows)" for rows
    by (induction rows) (auto simp: row_delete_def split: if_splits)
  have current: "map (\<lambda>(w, p). (w, pl_Name p)) (filter (\<lambda>(w, p). pl_IsCurrent p) (map ?f (row_delete ?hit rows))) =
      map (\<lambda>(w, p). (w, pl_Name p)) (filter (\<lambda>r. \<not> ?hit r) (filter (\<lambda>(w, p). pl_IsCurrent p) rows))" for rows
    by (induction rows) (auto simp: row_delete_def split: if_splits)
  have ids: "map (\<lambda>(w, p). pl_ID p) (map ?f (row_delete ?hit rows)) = map (\<lambda>(w, p). pl_ID p) (filter (\<lambda>r. \<not> ?hit r) rows)" for rows
    by (induction rows) (auto simp: row_delete_def split: if_splits)
  have rows: "db_plans (delete_plan_rows ws pid d) = map ?f (row_delete ?hit (db_plans d))"
    by (simp add: delete_plan_rows_def)
  have "plans_unique (delete_plan_rows ws pid d)"
    using assms unfolding plans_ok_def plans_unique_def
    by (simp only: rows names current) (blast intro: distinct_map_filter)
  moreover have "distinct_keys (\<lambda>(w, p). pl_ID p) (db_plans (delete_plan_rows ws pid d))"
    using assms unfolding plans_ok_def distinct_keys_def
    by (simp only: rows ids) (blast intro: distinct_map_filter)
  moreover have "\<forall>(w, p) \<in> set (db_plans (delete_plan_rows ws pid d)). valid_plan p"
    using assms by (auto simp: plans_ok_def delete_plan_rows_def valid_plan_def)
  moreover have "limits_unique (delete_plan_rows ws pid d) \<and> (\<forall>(w, l) \<in> set (db_limits (delete_plan_rows ws pid d)). valid_limit l)"
    using plans_ok_delete_limits [OF assms, of "\<lambda>(w, l). lim_PlanID l = pid"]
    by (auto simp: plans_ok_def limits_unique_def delete_plan_rows_def)
  ultimately show ?thesis by (simp add: plans_ok_def)
qed

section \<open>What the plan operations keep\<close>

lemma keeps_foreach_set:
  "(\<And>x acc. x \<in> set xs \<Longrightarrow> keeps P (f x acc)) \<Longrightarrow> keeps P (foreach xs acc f)"
proof (induction xs arbitrary: acc)
  case Nil
  then show ?case by (simp add: keeps_rules)
next
  case (Cons x xs)
  then show ?case by (simp add: keeps_attempt)
qed

lemma keeps_SavePlan:
  "valid_plan plan \<Longrightarrow> keeps (on_db plans_ok) (SavePlan ctx plan)"
  unfolding SavePlan_def by (auto intro!: keeps_rules keeps_exec_unique plans_ok_save)

lemma keeps_ReplacePlanLimits:
  assumes "\<forall>l \<in> set limits. valid_limit l"
  shows "keeps (on_db plans_ok) (ReplacePlanLimits ctx planID limits)"
  unfolding ReplacePlanLimits_def using assms
  by (auto intro!: keeps_with_workspace keeps_attempt keeps_foreach_set keeps_conflict keeps_exec keeps_exec_unique
      plans_ok_save_limit plans_ok_delete_limits)

lemma keeps_RetirePlan: "keeps (on_db plans_ok) (RetirePlan ctx pid t)"
  unfolding RetirePlan_def Let_def by (auto intro!: keeps_rules keeps_execrows plans_ok_retire)

lemma keeps_Repo_DeletePlan: "keeps (on_db plans_ok) (Repo_DeletePlan ctx pid)"
  unfolding Repo_DeletePlan_def Let_def by (auto intro!: keeps_rules keeps_execrows plans_ok_delete)

text \<open>The operations on assignments, for any predicate that assignment updates keep.\<close>

lemma keeps_assignment_ops:
  assumes "\<And>d x. P d \<Longrightarrow> P (d\<lparr>db_assignments := x\<rparr>)"
  shows "keeps (on_db P) (SaveSubjectAssignment ctx a)" "keeps (on_db P) (Repo_DeleteSubjectAssignment ctx subject)"
  unfolding SaveSubjectAssignment_def Repo_DeleteSubjectAssignment_def CancelPendingPlanSubjectAssignments_def
    EndEffectivePlanSubjectAssignments_def end_rows_def insert_assignment_def Let_def
  by (auto intro!: keeps_rules keeps_exec keeps_exec_unique keeps_execrows assms)

lemma keeps_FindSubjectAssignments [keeps_rules]: "keeps (on_db P) (FindSubjectAssignments ctx q)"
  unfolding FindSubjectAssignments_def by (auto intro!: keeps_rules)

lemma keeps_findPlan [keeps_rules]: "keeps (on_db P) (findPlan ctx pid)"
  unfolding findPlan_def Let_def by (auto intro!: keeps_rules split: list.splits)

lemma keeps_CountAssignments [keeps_rules]: "keeps (on_db P) (CountAssignmentsForPlan ctx pid)"
  unfolding CountAssignmentsForPlan_def by (auto intro!: keeps_rules)

text \<open>A step whose result satisfies a predicate that does not speak of the state.\<close>

lemma keeps_attempt_ensures:
  assumes "keeps P m" "ensures P m (\<lambda>x _. Q x)" "\<And>x. Q x \<Longrightarrow> keeps P (k x)"
  shows "keeps P (attempt m k)"
  by (rule keeps_attempt_run [OF assms(1)]) (blast intro: keepsD [OF assms(3)] ensuresD [OF assms(2)])

lemma normalizePlan_ensures:
  "ensures P (normalizePlan ctx id0 name description input createdAt) (\<lambda>r _. normalized (fst r) (snd r))"
  by (auto simp: ensures_def dest: normalizePlan_valid)

lemma keeps_CreatePlan: "keeps (on_db plans_ok) (CreatePlan ctx cmd)"
  unfolding CreatePlan_def
  by (auto intro!: keeps_attempt_ensures [OF keeps_normalizePlan normalizePlan_ensures] keeps_rules keeps_SavePlan
      keeps_ReplacePlanLimits simp: normalized_def)

lemma ensures_FindPlans:
  "ensures (on_db plans_ok) (FindPlans ctx q) (\<lambda>plans _. \<forall>p \<in> set plans. valid_plan p)"
  unfolding FindPlans_def query_def
  by (auto simp: ensures_def on_db_def order_limit_def attempt_eq_Inr with_workspace_def
      dest!: stmt_ok in_set_takeD; blast dest: plans_ok_plan)

lemma ensures_findPlan: "ensures (on_db plans_ok) (findPlan ctx pid) (\<lambda>r _. valid_plan (plr_Plan r))"
  unfolding findPlan_def Let_def
  by (auto simp: ensures_def attempt_eq_Inr dest!: ensuresD [OF ensures_FindPlans] split: if_splits list.split_asm)

lemma keeps_reassign:
  "(\<And>d x. P d \<Longrightarrow> P (d\<lparr>db_assignments := x\<rparr>)) \<Longrightarrow> keeps (on_db P) (reassign ctx plan now a)"
  unfolding reassign_def Let_def by (auto intro!: keeps_rules keeps_assignment_ops)

lemma keeps_UpdatePlan: "keeps (on_db plans_ok) (UpdatePlan ctx cmd)"
  unfolding UpdatePlan_def Let_def
  by (auto intro!: keeps_attempt_ensures [OF keeps_findPlan ensures_findPlan]
        keeps_attempt_ensures [OF keeps_normalizePlan normalizePlan_ensures] keeps_rules keeps_RetirePlan
        keeps_SavePlan keeps_ReplacePlanLimits keeps_reassign simp: normalized_def valid_plan_def next_version_def
        restamp_limits_def valid_limit_copy(2))

lemma keeps_DeletePlan: "keeps (on_db plans_ok) (DeletePlan ctx pid)"
  unfolding DeletePlan_def Let_def by (auto intro!: keeps_rules keeps_Repo_DeletePlan)

lemma keeps_assignment_service:
  assumes "\<And>d x. P d \<Longrightarrow> P (d\<lparr>db_assignments := x\<rparr>)"
  shows "keeps (on_db P) (AssignSubject ctx a)" "keeps (on_db P) (DeleteSubjectAssignment ctx subject)"
  unfolding AssignSubject_def DeleteSubjectAssignment_def Let_def
  by (auto intro!: keeps_rules keeps_assignment_ops assms split: sum.splits)

section \<open>The assignments of a subject never overlap\<close>

text \<open>The instants a row covers, as the statements compare them: as text.\<close>

definition row_covers :: "string \<Rightarrow> AssignmentRow \<Rightarrow> bool" where
  "row_covers s a \<longleftrightarrow> ttxt (ar_AssignedAt a) \<le> s \<and> (case ar_UnassignedAt a of None \<Rightarrow> True | Some u \<Rightarrow> s < ttxt u)"

definition rows_at :: "string \<Rightarrow> string \<Rightarrow> string \<Rightarrow> AssignmentRow list \<Rightarrow> AssignmentRow list" where
  "rows_at ws subject s rows = filter (\<lambda>a. of_subject ws subject a \<and> row_covers s a) rows"

definition assignments_ok :: "db \<Rightarrow> bool" where
  "assignments_ok d \<longleftrightarrow> (\<forall>ws subject s. length (rows_at ws subject s (db_assignments d)) \<le> 1)"

lemma effective_at_covers: "effective_at t a \<longleftrightarrow> row_covers (ttxt t) a"
  by (auto simp: effective_at_def row_covers_def open_after_def time_text_le_def time_text_less_def split: option.splits)

lemma assignments_ok_frame [simp]:
  "assignments_ok (d\<lparr>db_plans := x\<rparr>) = assignments_ok d" "assignments_ok (d\<lparr>db_limits := y\<rparr>) = assignments_ok d"
  by (simp_all add: assignments_ok_def)

text \<open>An update that shortens the rows it hits.\<close>

lemma rows_at_update:
  assumes "\<And>a. hit a \<Longrightarrow> of_subject ws subject (f a) = of_subject ws subject a"
    and "\<And>a. hit a \<Longrightarrow> row_covers s (f a) \<Longrightarrow> row_covers s a"
  shows "length (rows_at ws subject s (row_update hit f rows)) \<le> length (rows_at ws subject s rows)"
  using assms by (induction rows) (auto simp: rows_at_def)

lemma assignments_ok_end:
  assumes "assignments_ok d" "\<And>a. hit a \<Longrightarrow> open_after t a"
  shows "assignments_ok (end_rows hit t now d)"
proof -
  have "row_covers s a" if "hit a" "row_covers s (a\<lparr>ar_UnassignedAt := Some t, ar_UpdatedAt := now\<rparr>)" for s a
    using that assms(2) [OF that(1)]
    by (auto simp: row_covers_def open_after_def time_text_less_def split: option.splits)
  then have "length (rows_at ws subject s (db_assignments (end_rows hit t now d))) \<le>
      length (rows_at ws subject s (db_assignments d))" for ws subject s
    unfolding end_rows_def by (simp, intro rows_at_update) (auto simp: of_subject_def)
  then show ?thesis using assms(1) unfolding assignments_ok_def by (meson le_trans)
qed

lemma assignments_ok_delete: "assignments_ok d \<Longrightarrow> assignments_ok (d\<lparr>db_assignments := row_delete p (db_assignments d)\<rparr>)"
proof -
  have "length (rows_at ws subject s (row_delete p rows)) \<le> length (rows_at ws subject s rows)" for ws subject s rows
    by (induction rows) (auto simp: rows_at_def row_delete_def)
  then show "assignments_ok d \<Longrightarrow> assignments_ok (d\<lparr>db_assignments := row_delete p (db_assignments d)\<rparr>)"
    by (auto simp: assignments_ok_def) (meson le_trans)
qed

lemma assignments_ok_delete_plan: "assignments_ok d \<Longrightarrow> assignments_ok (delete_plan_rows ws pid d)"
  using assignments_ok_delete [of d "\<lambda>a. ar_PlanID a = pid"]
  by (simp add: delete_plan_rows_def assignments_ok_def)

lemma in_row_update:
  assumes "b \<in> set (row_update p f rows)"
  obtains a where "a \<in> set rows" "b = (if p a then f a else a)"
  using assms by (auto simp: row_update_def)

text \<open>After the two updates of \<^verbatim>\<open>SaveSubjectAssignment\<close>, only a row that starts at the same instant can
  cover a later one.\<close>

lemma closed_row:
  assumes "ttxt now \<le> ttxt t" "ttxt t \<le> s"
    and a: "a = (if of_subject ws subject a0 \<and> time_text_less now (ar_AssignedAt a0) \<and> open_after now a0
        then a0\<lparr>ar_UnassignedAt := Some now, ar_UpdatedAt := now\<rparr> else a0)"
    and b: "b = (if of_subject ws subject a \<and> time_text_less (ar_AssignedAt a) t \<and> open_after t a
        then a\<lparr>ar_UnassignedAt := Some t, ar_UpdatedAt := now\<rparr> else a)"
    and cover: "of_subject ws subject b" "row_covers s b"
  shows "ttxt (ar_AssignedAt b) = ttxt t"
proof (cases "of_subject ws subject a \<and> time_text_less (ar_AssignedAt a) t \<and> open_after t a")
  case True
  then show ?thesis using b cover assms(2) by (auto simp: row_covers_def)
next
  case False
  have "b = a" unfolding b by (rule if_not_P [OF False])
  then have "open_after t a"
    using cover(2) assms(2) by (auto simp: row_covers_def open_after_def time_text_less_def split: option.splits)
  then have ge: "ttxt t \<le> ttxt (ar_AssignedAt a)"
    using False cover(1) \<open>b = a\<close> by (auto simp: time_text_less_def)
  show ?thesis
  proof (cases "of_subject ws subject a0 \<and> time_text_less now (ar_AssignedAt a0) \<and> open_after now a0")
    case True
    then show ?thesis
      using a \<open>open_after t a\<close> assms(1) by (simp add: open_after_def time_text_less_def)
  next
    case no_cancel: False
    have "a = a0" unfolding a by (rule if_not_P [OF no_cancel])
    then have "open_after now a0" using \<open>open_after t a\<close> assms(1)
      by (auto simp: open_after_def time_text_less_def split: option.splits)
    then have "ttxt (ar_AssignedAt a) \<le> ttxt now"
      using no_cancel cover(1) \<open>b = a\<close> \<open>a = a0\<close> by (auto simp: time_text_less_def)
    then show ?thesis using ge assms(1) \<open>b = a\<close> by auto
  qed
qed

lemma assignments_ok_save:
  assumes ok: "assignments_ok d" and le: "ttxt now \<le> ttxt t"
    and d': "d' = EndEffectivePlanSubjectAssignments ws subject t now (CancelPendingPlanSubjectAssignments ws subject now d)"
    and row: "of_subject ws subject r" "ar_AssignedAt r = t"
    and uniq: "assignments_unique (insert_assignment r d')"
  shows "assignments_ok (insert_assignment r d')"
proof -
  have ok': "assignments_ok d'"
    unfolding d' EndEffectivePlanSubjectAssignments_def CancelPendingPlanSubjectAssignments_def
    using ok by (auto intro!: assignments_ok_end)
  have later: "ttxt (ar_AssignedAt b) = ttxt t"
    if "b \<in> set (db_assignments d')" "of_subject ws subject b" "row_covers s b" "ttxt t \<le> s" for b s
  proof -
    have b: "b \<in> set (row_update (\<lambda>a. of_subject ws subject a \<and> time_text_less (ar_AssignedAt a) t \<and> open_after t a)
        (\<lambda>a. a\<lparr>ar_UnassignedAt := Some t, ar_UpdatedAt := now\<rparr>)
        (row_update (\<lambda>a. of_subject ws subject a \<and> time_text_less now (ar_AssignedAt a) \<and> open_after now a)
          (\<lambda>a. a\<lparr>ar_UnassignedAt := Some now, ar_UpdatedAt := now\<rparr>) (db_assignments d)))"
      using that(1) unfolding d' EndEffectivePlanSubjectAssignments_def CancelPendingPlanSubjectAssignments_def end_rows_def
      by simp
    show ?thesis
      by (rule in_row_update [OF b], erule in_row_update, rule closed_row [OF le that(4) _ _ that(2,3)])
  qed
  have "rows_at ws subject s (db_assignments d') = []" if "ttxt t \<le> s" for s
  proof (rule ccontr)
    assume "rows_at ws subject s (db_assignments d') \<noteq> []"
    then obtain b where b: "b \<in> set (db_assignments d')" "of_subject ws subject b" "row_covers s b"
      by (auto simp: rows_at_def filter_empty_conv)
    then have "assignment_key b = assignment_key r"
      using later [OF b that] row by (simp add: assignment_key_def of_subject_def)
    moreover have "assignment_key r \<notin> assignment_key ` set (db_assignments d')"
      using uniq by (simp add: assignments_unique_def insert_assignment_def distinct_keys_def)
    ultimately show False using b(1) by (metis image_eqI)
  qed
  then have "length (rows_at w v s (db_assignments (insert_assignment r d'))) \<le> 1" for w v s
    using ok' row unfolding assignments_ok_def
    by (cases "w = ws \<and> v = subject \<and> ttxt t \<le> s")
      (auto simp: insert_assignment_def rows_at_def of_subject_def row_covers_def)
  then show ?thesis by (simp add: assignments_ok_def)
qed

lemma exec_cases:
  assumes "exec f w = (r, u)"
  obtains e where "r = Inl e" "w_db u = w_db w" | "r = Inr ()" "w_db u = f (w_db w)"
  using assms by (cases r) (auto simp: exec_def stmt_def split: option.splits if_splits prod.splits)

lemma exec_unique_cases:
  assumes "exec_unique ok f w = (r, u)"
  obtains e where "r = Inl e" "w_db u = w_db w" | "r = Inr ()" "w_db u = f (w_db w)" "ok (f (w_db w))"
  using assms by (cases r) (auto simp: exec_unique_def stmt_def split: option.splits if_splits prod.splits)

text \<open>Two updates and a guarded insert: the shape of \<^verbatim>\<open>SaveSubjectAssignment\<close>.\<close>

lemma keeps_update_update_insert:
  assumes "\<And>d. P d \<Longrightarrow> P (f d)" "\<And>d. P d \<Longrightarrow> P (g (f d))" "\<And>d. P d \<Longrightarrow> ok (h (g (f d))) \<Longrightarrow> P (h (g (f d)))"
    and "\<And>x. keeps (on_db P) (k x)"
  shows "keeps (on_db P) (attempt (exec f) (\<lambda>_. attempt (exec g) (\<lambda>_. attempt (conflict_if_unique (exec_unique ok h)) k)))"
proof (rule keepsI)
  fix w assume w: "on_db P w"
  obtain r1 w1 where 1: "exec f w = (r1, w1)" by fastforce
  obtain r2 w2 where 2: "exec g w1 = (r2, w2)" by fastforce
  obtain r3 w3 where 3: "exec_unique ok h w2 = (r3, w3)" by fastforce
  from 1 2 3 w show "on_db P (snd (attempt (exec f) (\<lambda>_. attempt (exec g) (\<lambda>_.
      attempt (conflict_if_unique (exec_unique ok h)) k)) w))"
    using keepsD [OF assms(4), of w3]
    by (auto simp: attempt_def on_db_def conflict_if_unique_def inspect_def assms(1-3) elim!: exec_cases exec_unique_cases
        split: sum.splits)
qed

lemma keeps_assignments_Save:
  assumes "IsZero (sa_AssignedAt a) \<or> \<not> IsZero (sa_UpdatedAt a) \<and> ttxt (sa_UpdatedAt a) \<le> ttxt (sa_AssignedAt a)"
  shows "keeps (on_db assignments_ok) (SaveSubjectAssignment ctx a)"
proof -
  let ?at = "\<lambda>now. if IsZero (sa_AssignedAt a) then now else sa_AssignedAt a"
  let ?row = "\<lambda>ws now. \<lparr>ar_ID = sa_ID a, ar_WorkspaceID = ws, ar_Subject = sa_Subject a, ar_PlanID = sa_PlanID a,
     ar_AssignedAt = ?at now, ar_PeriodAnchorAt = sa_PeriodAnchorAt a, ar_UnassignedAt = None, ar_UpdatedAt = now\<rparr>"
  define step where "step ws now = attempt (exec (CancelPendingPlanSubjectAssignments ws (sa_Subject a) now)) (\<lambda>_.
    attempt (exec (EndEffectivePlanSubjectAssignments ws (sa_Subject a) (?at now) now)) (\<lambda>_.
    attempt (conflict_if_unique (exec_unique assignments_unique (insert_assignment (?row ws now)))) (\<lambda>_.
    return_ok (a\<lparr>sa_AssignedAt := ?at now, sa_UpdatedAt := now\<rparr>))))" for ws now
  have step: "keeps (on_db assignments_ok) (step ws now)" if "ttxt now \<le> ttxt (?at now)" for ws now
    unfolding step_def
  proof (rule keeps_update_update_insert)
    fix d assume d: "assignments_ok d"
    show c: "assignments_ok (CancelPendingPlanSubjectAssignments ws (sa_Subject a) now d)"
      unfolding CancelPendingPlanSubjectAssignments_def using d by (auto intro!: assignments_ok_end)
    show "assignments_ok (EndEffectivePlanSubjectAssignments ws (sa_Subject a) (?at now) now
        (CancelPendingPlanSubjectAssignments ws (sa_Subject a) now d))"
      unfolding EndEffectivePlanSubjectAssignments_def using c by (auto intro!: assignments_ok_end)
  next
    fix d assume "assignments_ok d" and "assignments_unique (insert_assignment (?row ws now)
        (EndEffectivePlanSubjectAssignments ws (sa_Subject a) (?at now) now
          (CancelPendingPlanSubjectAssignments ws (sa_Subject a) now d)))"
    then show "assignments_ok (insert_assignment (?row ws now)
        (EndEffectivePlanSubjectAssignments ws (sa_Subject a) (?at now) now
          (CancelPendingPlanSubjectAssignments ws (sa_Subject a) now d)))"
      by (intro assignments_ok_save [OF _ that refl]) (auto simp: of_subject_def)
  qed (rule keeps_rules)
  have "SaveSubjectAssignment ctx a = with_workspace ctx (\<lambda>ws.
      attempt (if IsZero (sa_UpdatedAt a) then clock_now else return_ok (sa_UpdatedAt a)) (step ws))"
    by (simp add: SaveSubjectAssignment_def step_def [abs_def] Let_def)
  moreover have "keeps (on_db assignments_ok) (attempt (if IsZero (sa_UpdatedAt a) then clock_now else return_ok (sa_UpdatedAt a)) (step ws))" for ws
  proof (cases "IsZero (sa_UpdatedAt a)")
    case True
    then have "keeps (on_db assignments_ok) (step ws now)" for now using assms by (intro step) simp
    with True show ?thesis by (simp add: keeps_attempt keeps_clock)
  next
    case False
    then have "keeps (on_db assignments_ok) (step ws (sa_UpdatedAt a))" using assms by (intro step) auto
    with False show ?thesis by simp
  qed
  ultimately show ?thesis by (simp add: keeps_with_workspace)
qed

text \<open>The operations that do not touch the assignments.\<close>

lemma keeps_plan_ops:
  assumes "\<And>d x. P d \<Longrightarrow> P (d\<lparr>db_plans := x\<rparr>)" "\<And>d x. P d \<Longrightarrow> P (d\<lparr>db_limits := x\<rparr>)"
  shows "keeps (on_db P) (SavePlan ctx plan)" "keeps (on_db P) (RetirePlan ctx pid t)"
    "keeps (on_db P) (ReplacePlanLimits ctx pid limits)"
  unfolding SavePlan_def RetirePlan_def ReplacePlanLimits_def save_plan_row_def save_limit_row_def Let_def
  by (auto intro!: keeps_rules keeps_exec keeps_exec_unique keeps_execrows assms)

lemma keeps_assignments_reassign: "keeps (on_db assignments_ok) (reassign ctx plan now a)"
  unfolding reassign_def Let_def by (auto intro!: keeps_rules keeps_assignments_Save)

lemma keeps_assignments_plans:
  "keeps (on_db assignments_ok) (CreatePlan ctx c)" "keeps (on_db assignments_ok) (UpdatePlan ctx u)"
  "keeps (on_db assignments_ok) (DeletePlan ctx pid)" "keeps (on_db assignments_ok) (DeleteSubjectAssignment ctx subject)"
  unfolding CreatePlan_def UpdatePlan_def DeletePlan_def Repo_DeletePlan_def DeleteSubjectAssignment_def
    Repo_DeleteSubjectAssignment_def Let_def
  by (auto intro!: keeps_rules keeps_plan_ops keeps_assignments_reassign keeps_execrows assignments_ok_end
      assignments_ok_delete_plan)

lemma keeps_assignments_AssignSubject:
  assumes "\<And>now. \<not> IsZero (asc_EffectiveAt cmd) \<Longrightarrow> now \<le> asc_EffectiveAt cmd \<Longrightarrow>
    \<not> IsZero now \<and> ttxt now \<le> ttxt (asc_EffectiveAt cmd)"
  shows "keeps (on_db assignments_ok) (AssignSubject ctx cmd)"
proof -
  define eff where "eff now = (if IsZero (asc_EffectiveAt cmd) \<or> asc_EffectiveAt cmd < now then now
      else asc_EffectiveAt cmd)" for now
  have save: "keeps (on_db assignments_ok) (SaveSubjectAssignment ctx a)"
    if "sa_AssignedAt a = eff (sa_UpdatedAt a)" for a
    using that assms [of "sa_UpdatedAt a"] by (intro keeps_assignments_Save) (auto simp: eff_def)
  show ?thesis
    unfolding AssignSubject_def Let_def eff_def [symmetric] by (auto intro!: keeps_rules save split: sum.splits)
qed

section \<open>All or nothing\<close>

text \<open>A procedure that only reads: the tables and the open transaction stay.\<close>

definition reads_only :: "(world, 'a) proc \<Rightarrow> bool" where
  "reads_only m \<longleftrightarrow> (\<forall>w r u. m w = (r, u) \<longrightarrow> w_db u = w_db w \<and> w_in_tx u = w_in_tx w)"

lemma reads_onlyI:
  assumes "\<And>P. keeps (on_db P) m" "\<And>b. keeps (tx_is b) m"
  shows "reads_only m"
  unfolding reads_only_def
proof (intro allI impI)
  fix w r u assume run: "m w = (r, u)"
  show "w_db u = w_db w \<and> w_in_tx u = w_in_tx w"
    using keepsD [OF assms(1) [of "\<lambda>d. d = w_db w"], of w] keepsD [OF assms(2) [of "w_in_tx w"], of w] run
    by (simp add: on_db_def tx_is_def)
qed

lemma reads_only_keeps:
  assumes "reads_only m"
  shows "keeps (on_db P) m" "keeps (tx_is b) m" "keeps (quiet P) m"
  using assms by (auto simp: reads_only_def keeps_def on_db_def tx_is_def quiet_def) (metis prod.collapse)+

lemma all_or_nothing_attempt:
  assumes "reads_only m" "\<And>x. all_or_nothing (k x)"
  shows "all_or_nothing (attempt m k)"
  unfolding all_or_nothing_def
proof (intro allI impI)
  fix w e u assume out: "\<not> w_in_tx w" and run: "attempt m k w = (Inl e, u)"
  obtain r v where m: "m w = (r, v)" by (cases "m w")
  with assms(1) out have v: "w_db v = w_db w" "\<not> w_in_tx v" by (auto simp: reads_only_def)
  show "w_db u = w_db w"
    using run m v assms(2) by (cases r) (auto simp: attempt_def all_or_nothing_def)
qed

lemma all_or_nothing_reads: "reads_only m \<Longrightarrow> all_or_nothing m"
  by (auto simp: all_or_nothing_def reads_only_def)

lemma all_or_nothing_return: "all_or_nothing (return_ok x)" "all_or_nothing (return_err e)"
  by (auto simp: all_or_nothing_def)

lemma all_or_nothing_transaction: "all_or_nothing (attempt (in_transaction m) (\<lambda>x. return_ok (f x)))"
  "all_or_nothing (in_transaction m)"
  by (auto simp: all_or_nothing_def attempt_def split: prod.splits sum.splits dest: in_transaction_atomic)

lemma all_or_nothing_execrows:
  assumes "\<And>d. n d = 0 \<Longrightarrow> f d = d"
  shows "all_or_nothing (not_found_if_no_row (execrows n f))"
  by (auto simp: all_or_nothing_def not_found_if_no_row_def attempt_def execrows_def stmt_def assms
      split: prod.splits sum.splits option.splits if_splits)

lemma all_or_nothing_if: "all_or_nothing m \<Longrightarrow> all_or_nothing n \<Longrightarrow> all_or_nothing (if b then m else n)"
  by simp

lemma all_or_nothing_workspace: "(\<And>ws. all_or_nothing (k ws)) \<Longrightarrow> all_or_nothing (with_workspace ctx k)"
  unfolding with_workspace_def by (rule all_or_nothing_attempt) (auto simp: reads_only_def)

lemma end_rows_none: "\<forall>a \<in> set (db_assignments d). \<not> hit a \<Longrightarrow> end_rows hit t now d = d"
proof -
  assume none: "\<forall>a \<in> set (db_assignments d). \<not> hit a"
  have "row_update hit (\<lambda>a. a\<lparr>ar_UnassignedAt := Some t, ar_UpdatedAt := now\<rparr>) (db_assignments d) = db_assignments d"
    unfolding row_update_def by (rule map_idI) (use none in auto)
  then show ?thesis by (simp add: end_rows_def)
qed

lemma reads_plan_service:
  "reads_only clock_now" "reads_only fresh_id" "reads_only (lift_res r)" "reads_only (findPlan ctx pid)"
  "reads_only (normalizePlan ctx id0 name description input createdAt)" "reads_only (CountAssignmentsForPlan ctx pid)"
  unfolding findPlan_def normalizePlan_def normalize_limits_def normalizeLimitCommand_def Let_def
    FindPlans_def FindPlanLimits_def Meters_Find_def CountAssignmentsForPlan_def
  by (auto intro!: reads_onlyI keeps_rules split: list.splits)

lemmas all_or_nothing_rules = all_or_nothing_transaction all_or_nothing_return all_or_nothing_attempt
  all_or_nothing_if all_or_nothing_workspace all_or_nothing_execrows reads_plan_service

section \<open>Properties\<close>

text \<open>
  The plan tables stay well formed: every operation on plans and assignments keeps that a
  name has one current version, that versions, plan ids and the limits of a plan are unique, and
  that every stored plan and limit is valid (a positive finite limit, a warning percent in (0, 100],
  a known period, enforcement and failure policy, a trimmed name within the length bound).
\<close>

lemma plan_operations_keep_plans_ok:
  "keeps (on_db plans_ok) (CreatePlan ctx create) \<and> keeps (on_db plans_ok) (UpdatePlan ctx update) \<and>
   keeps (on_db plans_ok) (DeletePlan ctx pid) \<and> keeps (on_db plans_ok) (AssignSubject ctx assign) \<and>
   keeps (on_db plans_ok) (DeleteSubjectAssignment ctx subject)"
  by (auto intro!: keeps_CreatePlan keeps_UpdatePlan keeps_DeletePlan keeps_assignment_service)

text \<open>
  Claim C34. No subject ever has two plans at one instant: plan changes (with the migration of the
  assignments to the new version), plan deletion, unassignment and assignment with immediate effect
  keep that at most one assignment row of a subject covers any instant.
\<close>

theorem assignments_never_overlap:
  "keeps (on_db assignments_ok) (CreatePlan ctx create) \<and> keeps (on_db assignments_ok) (UpdatePlan ctx update) \<and>
   keeps (on_db assignments_ok) (DeletePlan ctx pid) \<and> keeps (on_db assignments_ok) (DeleteSubjectAssignment ctx subject) \<and>
   keeps (on_db assignments_ok) (AssignSubject ctx (assign\<lparr>asc_EffectiveAt := zero_time\<rparr>))"
  by (auto intro!: keeps_assignments_plans keeps_assignments_AssignSubject simp: IsZero_def)

text \<open>
  Claim C35. Every operation on plans and assignments is all or nothing: when it fails, for any reason
  and at any statement, no table has changed.  A new plan version is published together with the
  retirement of the old one, its limits and the migration of its subjects.
\<close>

theorem plan_operations_all_or_nothing:
  "all_or_nothing (CreatePlan ctx create) \<and> all_or_nothing (UpdatePlan ctx update) \<and>
   all_or_nothing (DeletePlan ctx pid) \<and> all_or_nothing (AssignSubject ctx assign) \<and>
   all_or_nothing (DeleteSubjectAssignment ctx subject)"
  unfolding CreatePlan_def UpdatePlan_def DeletePlan_def Repo_DeletePlan_def AssignSubject_def DeleteSubjectAssignment_def
    Repo_DeleteSubjectAssignment_def Let_def case_prod_beta
  by (intro conjI all_or_nothing_rules) (auto simp: filter_empty_conv intro: end_rows_none)

text \<open>
  The repository compares times as RFC 3339 text without trailing zeros, and there the whole
  second is greater than every later instant of the same second: an assignment that takes effect on
  a whole second is not in force during that second, whatever else the tables hold.
\<close>

lemma whole_second_assignment_missed:
  assumes "t0 mod Second = 0" "t0 < t" "t < t0 + Second"
    and "\<forall>a \<in> set (db_assignments d). of_subject ws subject a \<longrightarrow> ar_AssignedAt a = t0"
  shows "effective_assignments ws subject t d = []"
proof -
  have "\<not> effective_at t a" if "ar_AssignedAt a = t0" for a
    using whole_second_text_later [OF assms(1-3)] that
    by (auto simp: effective_at_def time_text_le_def time_text_less_def)
  then have "filter (\<lambda>a. of_subject ws subject a \<and> effective_at t a) (db_assignments d) = []"
    using assms(4) by (auto simp: filter_empty_conv)
  then show ?thesis
    by (simp add: effective_assignments_def joined_assignments_def order_desc_limit_def map_filter_def)
qed

definition scheduled_row :: AssignmentRow where
  "scheduled_row = \<lparr>ar_ID = ''a1'', ar_WorkspaceID = ''w'', ar_Subject = ''s'', ar_PlanID = ''p'',
     ar_AssignedAt = 63902908800 * Second, ar_PeriodAnchorAt = 63902908800 * Second, ar_UnassignedAt = None,
     ar_UpdatedAt = 63902908000 * Second\<rparr>"

lemma whole_second_assignment_missed_example:
  "effective_assignments ''w'' ''s'' (63902908800 * Second + 500 * Millisecond)
     (empty_db\<lparr>db_assignments := [scheduled_row]\<rparr>) = [] \<and>
   ar_AssignedAt scheduled_row < 63902908800 * Second + 500 * Millisecond"
  using whole_second_assignment_missed [of "63902908800 * Second" "63902908800 * Second + 500 * Millisecond"
      "empty_db\<lparr>db_assignments := [scheduled_row]\<rparr>" "''w''" "''s''"]
  by (simp add: scheduled_row_def Second_def Millisecond_def)

end
