(* ===== verification/QuotaSpec.thy ===== *)
theory QuotaSpec
  imports EntitlementService UsageService
begin

text \<open>
  What is assessed and what is counted: the value that an assessment projects for an event is the value of
  the counter once the event has been counted.
\<close>

section \<open>Projection\<close>

text \<open>The counter after one event: the row written for an event without one, or merged into it.\<close>

definition counted :: "string \<Rightarrow> time \<Rightarrow> Event \<Rightarrow> counterWindow \<Rightarrow> EntitlementUsageCounter option \<Rightarrow> EntitlementUsageCounter" where
  "counted ws now event window stored = (case stored of
     None \<Rightarrow> counter_row ws now (new_counter event window)
   | Some c \<Rightarrow> merge_counter (counter_row ws now (new_counter event window)) c)"

text \<open>A stored counter that is usable: it has counted an event, and no bound is NaN.\<close>

definition counter_ok :: "EntitlementUsageCounter \<Rightarrow> bool" where
  "counter_ok c \<longleftrightarrow> 0 < uc_EventCount c \<and> uc_QuantityMin c \<noteq> NaN \<and> uc_QuantityMax c \<noteq> NaN \<and>
     uc_QuantityMin c \<noteq> NInf \<and> uc_QuantityMax c \<noteq> PInf"

text \<open>A value that is a double: rounding keeps it.\<close>

definition is_double :: "f64 \<Rightarrow> bool" where
  "is_double a \<longleftrightarrow> (case a of Fin x \<Rightarrow> round_f64 x = Fin x | _ \<Rightarrow> True)"

lemma double_add_zero: "is_double a \<Longrightarrow> 0 + a = a"
  by (cases a) (simp_all add: is_double_def plus_f64_def zero_f64_def)

lemma min_exact: "a \<noteq> NaN \<Longrightarrow> a \<noteq> NInf \<Longrightarrow> b \<noteq> NaN \<Longrightarrow> b \<noteq> NInf \<Longrightarrow> f64_Min a b = sql_min a b"
  by (cases a; cases b) (auto simp: f64_Min_def sql_min_def)

lemma max_exact: "a \<noteq> NaN \<Longrightarrow> a \<noteq> PInf \<Longrightarrow> b \<noteq> NaN \<Longrightarrow> b \<noteq> PInf \<Longrightarrow> f64_Max a b = sql_max a b"
  by (cases a; cases b) (auto simp: f64_Max_def sql_max_def)

text \<open>
  Claim C36. The projection is exact: for a valid quantity, the value that \<^verbatim>\<open>AssessConsumption\<close> projects
  from the stored counter, or from none, is the value that \<^verbatim>\<open>counterValue\<close> reads once the usage
  transaction has counted the event, for every aggregation, as long as the event's time and the
  counter's times compare as texts the way they compare as times.
\<close>

theorem projection_exact:
  assumes "isFinitePositive q" "is_double q" "q = ev_quantity event" "tm = ev_eventTime event"
    and "case stored of None \<Rightarrow> True | Some c \<Rightarrow> counter_ok c \<and>
      (time_text_less tm (uc_FirstEventTime c) \<longleftrightarrow> tm < uc_FirstEventTime c) \<and>
      (time_text_le (uc_LastEventTime c) tm \<longleftrightarrow> uc_LastEventTime c \<le> tm)"
  shows "counterValue (counted ws now event window stored) agg seconds =
    projectedCounterValue (case stored of None \<Rightarrow> zero_counter | Some c \<Rightarrow> c) agg q tm seconds"
proof (cases stored)
  case None
  then show ?thesis using assms(1-4) double_add_zero [of q]
    by (cases agg) (auto simp: counted_def counterValue_def projectedCounterValue_def counter_row_def new_counter_def
        zero_counter_def isFinitePositive_def)
next
  case (Some c)
  have q: "q \<noteq> NaN" "q \<noteq> NInf" "q \<noteq> PInf" using assms(1) by (auto simp: isFinitePositive_def f64_IsNaN_def f64_IsInf_def)
  have c: "counter_ok c" using assms(5) Some by simp
  then have "f64_Min (uc_QuantityMin c) q = sql_min (uc_QuantityMin c) q" "f64_Max (uc_QuantityMax c) q = sql_max (uc_QuantityMax c) q"
    using q by (auto simp: counter_ok_def min_exact max_exact)
  then show ?thesis using assms c Some
    by (cases agg) (auto simp: counted_def counterValue_def projectedCounterValue_def counter_row_def new_counter_def
        merge_counter_def counter_ok_def not_less)
qed

definition sample_event :: Event where
  "sample_event = \<lparr>ev_id = ''e1'', ev_idempotencyKey = ''k1'', ev_subject = ''s'', ev_meterName = ''m'', ev_quantity = Fin 3,
     ev_eventTime = 0, ev_receivedAt = 0, ev_metadata = fmempty\<rparr>"

theorem projection_exact_witness:
  "counterValue (counted ''w'' 0 sample_event (\<lparr>cw_period = ''day'', cw_from = 0, cw_to = day_ns\<rparr>) None) AggregationSum 0 =
    projectedCounterValue zero_counter AggregationSum (Fin 3) 0 0"
proof -
  have "isFinitePositive (Fin 3)" by (simp add: isFinitePositive_def f64_IsNaN_def f64_IsInf_def)
  moreover have "is_double (Fin 3)" by (simp add: is_double_def f64_simps)
  ultimately have "counterValue (counted ''w'' 0 sample_event (\<lparr>cw_period = ''day'', cw_from = 0, cw_to = day_ns\<rparr>) None) AggregationSum 0 =
    projectedCounterValue (case None of None \<Rightarrow> zero_counter | Some c \<Rightarrow> c) AggregationSum (Fin 3) 0 0"
    by (rule projection_exact) (simp_all add: sample_event_def)
  then show ?thesis by (simp only: option.case)
qed

section \<open>Limits of several periods\<close>

text \<open>The limit that is assessed for a meter has the least period text of the meter's limits.\<close>

definition assesses_least_period :: "PlanResult \<Rightarrow> bool" where
  "assesses_least_period p \<longleftrightarrow> (\<forall>m l. limitForMeter p m = Some l \<longrightarrow>
     (\<forall>l' \<in> set (plr_Limits p). lim_MeterName l' = m \<longrightarrow> period_text (lim_Period l) \<le> period_text (lim_Period l')))"

lemma find_sorted:
  assumes "sorted (map key xs)" "List.find P xs = Some x" "y \<in> set xs" "P y"
  shows "key x \<le> key (y :: 'a) "
  using assms by (induction xs) (auto split: if_splits)

lemma least_period_sorted:
  assumes "sorted (map (\<lambda>l. (lim_MeterName l, period_text (lim_Period l))) (plr_Limits p))"
  shows "assesses_least_period p"
  unfolding assesses_least_period_def limitForMeter_def
proof (intro allI impI ballI)
  fix m l l'
  assume "List.find (\<lambda>limit. lim_MeterName limit = m) (plr_Limits p) = Some l" "l' \<in> set (plr_Limits p)" "lim_MeterName l' = m"
  then show "period_text (lim_Period l) \<le> period_text (lim_Period l')"
    using find_sorted [OF assms, of _ l l'] by (force simp: find_Some_iff)
qed

text \<open>
  Of the limits that a plan has for one meter, only one is ever assessed: the one whose period
  comes first in the alphabet.  A hard monthly or yearly limit next to a daily one is never enforced.
\<close>

lemma plan_assesses_least_period:
  "ensures P (findPlan ctx pid) (\<lambda>plan _. assesses_least_period plan)"
  unfolding findPlan_def Let_def FindPlanLimits_def query_def
  by (auto simp: ensures_def attempt_eq_Inr with_workspace_def intro!: least_period_sorted dest!: stmt_ok
      split: if_splits list.split_asm)

end
