(* ===== verification/RateLimit.thy ===== *)
theory RateLimit
  imports UsageService
begin

text \<open>
  The ingestion rate limit (\<^verbatim>\<open>ConsumeIngestionCapacity\<close>, \<^verbatim>\<open>checkIngestionCapacity\<close>): in a sequence of
  requests whose windows come in order, no window admits more events than the limit; a request that
  carries an earlier window resets the count.
\<close>

section \<open>The window of a workspace\<close>

definition rate_row :: "string \<Rightarrow> db \<Rightarrow> RateRow option" where
  "rate_row ws d = row_find (\<lambda>r. rw_WorkspaceID r = ws) (db_rate_windows d)"

text \<open>The events counted for the window with a text, and the text of the last window.\<close>

definition permitted_in :: "string \<Rightarrow> string \<Rightarrow> db \<Rightarrow> int" where
  "permitted_in ws x d = (case rate_row ws d of None \<Rightarrow> 0
     | Some r \<Rightarrow> if ttxt (rw_WindowStart r) = x then rw_Permitted r else 0)"

definition last_window :: "string \<Rightarrow> db \<Rightarrow> string" where
  "last_window ws d = (case rate_row ws d of None \<Rightarrow> [] | Some r \<Rightarrow> ttxt (rw_WindowStart r))"

lemma rate_row_update:
  assumes "\<And>r. rw_WorkspaceID (f r) = rw_WorkspaceID r"
  shows "row_find (\<lambda>r. rw_WorkspaceID r = ws) (row_update (\<lambda>r. rw_WorkspaceID r = ws) f rows) =
    map_option f (row_find (\<lambda>r. rw_WorkspaceID r = ws) rows)"
  using assms by (induction rows) auto

lemma rate_row_none: "rate_row ws d = None \<Longrightarrow> ws \<notin> rw_WorkspaceID ` set (db_rate_windows d)"
  by (auto simp: rate_row_def row_find_None)

lemma rate_row_some: "rate_row ws d = Some r \<Longrightarrow> rw_WorkspaceID r = ws \<and> r \<in> set (db_rate_windows d)"
  by (auto simp: rate_row_def dest: row_find_Some)

text \<open>The window has not passed \<^term>\<open>y\<close> and counts \<^term>\<open>c\<close> events in it.\<close>

definition window_state :: "string \<Rightarrow> string \<Rightarrow> int \<Rightarrow> db \<Rightarrow> bool" where
  "window_state ws y c d \<longleftrightarrow> last_window ws d \<le> y \<and> permitted_in ws y d = c"

lemma permitted_later: "last_window ws d \<le> y \<Longrightarrow> y < x \<Longrightarrow> permitted_in ws x d = 0"
  by (auto simp: last_window_def permitted_in_def split: option.splits)

lemma reserve_capacity_state:
  assumes "window_state ws (ttxt start) c d" "reserve_capacity ws start n limit now d = (ok, d')"
  shows "ok \<Longrightarrow> window_state ws (ttxt start) (c + n) d' \<and> c + n \<le> limit" "\<not> ok \<Longrightarrow> d' = d"
  using assms
  by (auto simp: window_state_def reserve_capacity_def permitted_in_def last_window_def rate_row_def current_permitted_def
      rate_row_update row_find_append split: option.splits if_splits)

lemma keeps_record_throttled: "keeps (on_db (window_state ws (ttxt start) c)) (record_throttled ws start n now)"
proof -
  let ?new = "\<lparr>rw_WorkspaceID = ws, rw_WindowStart = start, rw_Permitted = 0, rw_Throttled = 0, rw_UpdatedAt = now\<rparr>"
  have insert: "window_state ws (ttxt start) c (d\<lparr>db_rate_windows := row_upsert rw_WorkspaceID (\<lambda>r. r) ?new (db_rate_windows d)\<rparr>)"
    if "window_state ws (ttxt start) c d" for d
  proof (cases "rate_row ws d")
    case None
    then show ?thesis using that rate_row_none [OF None]
      by (auto simp: window_state_def permitted_in_def last_window_def rate_row_def row_upsert_def row_find_append)
  next
    case (Some r)
    then have "row_upsert rw_WorkspaceID (\<lambda>r. r) ?new (db_rate_windows d) = db_rate_windows d"
      using rate_row_some [OF Some] by (auto simp: row_upsert_def row_update_def intro: rev_image_eqI)
    then show ?thesis using that by simp
  qed
  have move: "window_state ws (ttxt start) c (d\<lparr>db_rate_windows := row_update (\<lambda>r. rw_WorkspaceID r = ws)
      (\<lambda>r. r\<lparr>rw_WindowStart := start, rw_Permitted := current_permitted start r,
         rw_Throttled := current_throttled start r + n, rw_UpdatedAt := now\<rparr>) (db_rate_windows d)\<rparr>)"
    if "window_state ws (ttxt start) c d" for d
    using that
    by (auto simp: window_state_def permitted_in_def last_window_def rate_row_def rate_row_update current_permitted_def
        split: option.splits if_splits)
  have other: "window_state ws (ttxt start) c (d\<lparr>db_throttled := x\<rparr>)" if "window_state ws (ttxt start) c d" for d x
    using that by (simp add: window_state_def permitted_in_def last_window_def rate_row_def)
  show ?thesis
    unfolding record_throttled_def by (auto intro!: keeps_rules keeps_exec insert move other)
qed

lemma ConsumeIngestionCapacity_state:
  assumes "RequireWorkspaceID ctx = Inr ws" "window_state ws (ttxt start) c (w_db w)"
    and run: "ConsumeIngestionCapacity ctx start n limit now w = (r, u)"
  shows "if r = Inr True then window_state ws (ttxt start) (c + n) (w_db u) \<and> c + n \<le> limit
    else window_state ws (ttxt start) c (w_db u)"
proof -
  let ?reserve = "stmt (\<lambda>d. case reserve_capacity ws start n limit now d of (ok, d') \<Rightarrow> (Inr ok, d'))"
  obtain q v where q: "?reserve w = (q, v)" by (cases "?reserve w")
  have throttled: "window_state ws (ttxt start) c (w_db (snd (record_throttled ws start n now v)))"
    if "w_db v = w_db w"
    using keepsD [OF keeps_record_throttled, of ws start c v n now] that assms(2) by (simp add: on_db_def)
  show ?thesis
  proof (cases q)
    case (Inl e)
    then have "w_db v = w_db w" using q by (auto simp: stmt_def split: option.splits if_splits prod.splits sum.splits)
    then show ?thesis using run q Inl assms(1,2) by (auto simp: ConsumeIngestionCapacity_def with_workspace_def attempt_def)
  next
    case (Inr ok)
    then have res: "reserve_capacity ws start n limit now (w_db w) = (ok, w_db v)"
      using q by (auto dest!: stmt_ok split: prod.splits)
    note state = reserve_capacity_state [OF assms(2) res]
    show ?thesis
    proof (cases ok)
      case True
      then show ?thesis using run q Inr assms(1) state(1)
        by (auto simp: ConsumeIngestionCapacity_def with_workspace_def attempt_def)
    next
      case False
      then show ?thesis using run q Inr assms(1) state(2) throttled
        by (auto simp: ConsumeIngestionCapacity_def with_workspace_def attempt_def split: prod.splits sum.splits)
    qed
  qed
qed

section \<open>Sequences of requests\<close>

text \<open>What a sequence of requests (window, events, time) is granted: the window and the events of each
  admitted one.\<close>

fun admissions :: "ctx \<Rightarrow> int \<Rightarrow> (time \<times> int \<times> time) list \<Rightarrow> world \<Rightarrow> (time \<times> int) list" where
  "admissions ctx limit [] w = []"
| "admissions ctx limit ((start, n, now) # requests) w =
    (case ConsumeIngestionCapacity ctx start n limit now w of (r, u) \<Rightarrow>
       if r = Inr True then (start, n) # admissions ctx limit requests u else admissions ctx limit requests u)"

definition granted :: "string \<Rightarrow> (time \<times> int) list \<Rightarrow> int" where
  "granted x admitted = sum_list (map snd (filter (\<lambda>(start, n). ttxt start = x) admitted))"

lemma granted_simps [simp]:
  "granted x [] = 0" "granted x ((start, n) # as) = (if ttxt start = x then n else 0) + granted x as"
  by (simp_all add: granted_def)

lemma granted_earlier:
  "\<forall>(start, n, now) \<in> set requests. x < ttxt start \<Longrightarrow> granted x (admissions ctx limit requests w) = 0"
  by (induction requests arbitrary: w) (auto split: prod.splits)

lemma granted_bound:
  assumes "RequireWorkspaceID ctx = Inr ws"
    and "sorted (map (\<lambda>(start, _). ttxt start) requests)"
    and "\<forall>(start, _) \<in> set requests. last_window ws (w_db w) \<le> ttxt start"
    and "permitted_in ws x (w_db w) \<le> limit"
  shows "granted x (admissions ctx limit requests w) \<le> limit - permitted_in ws x (w_db w)"
  using assms(2-4)
proof (induction requests arbitrary: w)
  case Nil
  then show ?case by simp
next
  case (Cons request requests)
  obtain start n now where request: "request = (start, n, now)" by (cases request)
  let ?y = "ttxt start" let ?c = "permitted_in ws (ttxt start) (w_db w)"
  obtain r u where run: "ConsumeIngestionCapacity ctx start n limit now w = (r, u)" by fastforce
  have later: "\<forall>(s, _) \<in> set requests. ?y \<le> ttxt s" using Cons.prems(1) request by auto
  have state: "window_state ws ?y ?c (w_db w)" using Cons.prems(2) request by (simp add: window_state_def)
  note after = ConsumeIngestionCapacity_state [OF assms(1) state run]
  then have last: "last_window ws (w_db u) \<le> ?y" by (auto simp: window_state_def split: if_splits)
  then have IH: "granted x (admissions ctx limit requests u) \<le> limit - permitted_in ws x (w_db u)"
    if "permitted_in ws x (w_db u) \<le> limit"
    using Cons.IH [of u] Cons.prems(1) request later that by fastforce
  consider "x < ?y" | "x = ?y" | "?y < x" by (rule linorder_cases)
  then show ?case
  proof cases
    case 1
    then have "granted x (admissions ctx limit requests u) = 0"
      using later by (intro granted_earlier) fastforce
    then show ?thesis using 1 run request Cons.prems(3) by auto
  next
    case 2
    then show ?thesis using run request Cons.prems(3) after IH by (auto simp: window_state_def split: if_splits)
  next
    case 3
    have "permitted_in ws x (w_db w) = 0" "permitted_in ws x (w_db u) = 0"
      using permitted_later [OF _ 3] last Cons.prems(2) request by auto
    then show ?thesis using 3 run request Cons.prems(3) IH by auto
  qed
qed

text \<open>
  Claim C37. The rate limit holds: when the windows of a sequence of requests come in order (as texts) and the
  workspace has no later window yet, the events admitted in any window, added to those it had
  counted, are at most the limit, whatever statements fail.
\<close>

theorem rate_limit_sound:
  assumes "RequireWorkspaceID ctx = Inr ws"
    and "sorted (map (\<lambda>(start, _). ttxt start) requests)"
    and "\<forall>(start, _) \<in> set requests. last_window ws (w_db w) \<le> ttxt start"
    and "permitted_in ws x (w_db w) \<le> limit"
  shows "permitted_in ws x (w_db w) + granted x (admissions ctx limit requests w) \<le> limit"
  using granted_bound [OF assms] by simp

theorem rate_limit_sound_witness:
  "granted (ttxt 0) (admissions (workspace_ctx ''w'') 1 [(0, 1, 0), (0, 1, 0)] (idle_world empty_db)) \<le> 1"
proof -
  have "RequireWorkspaceID (workspace_ctx ''w'') = Inr ''w''" by code_simp
  moreover have "rate_row ws empty_db = None" for ws by (simp add: rate_row_def empty_db_def)
  ultimately show ?thesis
    using rate_limit_sound [of "workspace_ctx ''w''" "''w''" "[(0, 1, 0), (0, 1, 0)]" "idle_world empty_db" "ttxt 0" 1]
    by (simp add: last_window_def permitted_in_def idle_world_def)
qed

text \<open>
  The order of the windows matters: a request that carries another window than the one stored
  forgets what was counted, so when two processes read the clock on both sides of a boundary and
  their statements interleave, one window is granted twice the limit.
\<close>

lemma rate_limit_reset:
  assumes "RequireWorkspaceID ctx = Inr ws" "ttxt t1 \<noteq> ttxt t2" "w_faults w = []" "rate_row ws (w_db w) = None"
  shows "granted (ttxt t2) (admissions ctx limit [(t2, limit, now), (t1, limit, now), (t2, limit, now)] w) = 2 * limit"
proof -
  have allowed: "\<exists>u. ConsumeIngestionCapacity ctx t limit limit now v = (Inr True, u) \<and> w_faults u = [] \<and>
      (\<exists>r. rate_row ws (w_db u) = Some r \<and> rw_WindowStart r = t)"
    if "w_faults v = []" "\<forall>r. rate_row ws (w_db v) = Some r \<longrightarrow> ttxt (rw_WindowStart r) \<noteq> ttxt t" for t v
  proof (cases "rate_row ws (w_db v)")
    case None
    then show ?thesis using that assms(1)
      by (auto simp: ConsumeIngestionCapacity_def with_workspace_def attempt_def stmt_def next_fault_def drop_fault_def
          reserve_capacity_def rate_row_def row_find_append)
  next
    case (Some r)
    then show ?thesis using that assms(1)
      by (auto simp: ConsumeIngestionCapacity_def with_workspace_def attempt_def stmt_def next_fault_def drop_fault_def
          reserve_capacity_def rate_row_def rate_row_update current_permitted_def)
  qed
  obtain u1 where 1: "ConsumeIngestionCapacity ctx t2 limit limit now w = (Inr True, u1)" "w_faults u1 = []"
      "\<exists>r. rate_row ws (w_db u1) = Some r \<and> rw_WindowStart r = t2"
    using allowed [of w t2] assms by auto
  obtain u2 where 2: "ConsumeIngestionCapacity ctx t1 limit limit now u1 = (Inr True, u2)" "w_faults u2 = []"
      "\<exists>r. rate_row ws (w_db u2) = Some r \<and> rw_WindowStart r = t1"
    using allowed [of u1 t1] assms(2) 1(2,3) by auto
  obtain u3 where 3: "ConsumeIngestionCapacity ctx t2 limit limit now u2 = (Inr True, u3)"
    using allowed [of u2 t2] assms(2) 2(2,3) by auto
  show ?thesis using 1(1) 2(1) 3 assms(2) by simp
qed

lemma rate_limit_reset_example:
  "granted (ttxt Second) (admissions (workspace_ctx ''w'') 5 [(Second, 5, 0), (0, 5, 0), (Second, 5, 0)] (idle_world empty_db)) = 10"
proof -
  have "RequireWorkspaceID (workspace_ctx ''w'') = Inr ''w''" by code_simp
  moreover have "ttxt 0 \<noteq> ttxt Second" by code_simp
  ultimately show ?thesis
    using rate_limit_reset [of "workspace_ctx ''w''" "''w''" 0 Second "idle_world empty_db" 5 0]
    by (simp add: idle_world_def rate_row_def empty_db_def)
qed

end
