(* ===== verification/AlertService.thy ===== *)
theory AlertService
  imports AlertRepo
begin

text \<open>
  The alert service (\<^verbatim>\<open>src/internal/metering/app/alert/service.go\<close>, \<^verbatim>\<open>delivery_jobs.go\<close>) and a round of
  its worker (\<^verbatim>\<open>workers/alert/worker.go\<close>), with their calls, clock readings and early returns.  The
  interface \<^verbatim>\<open>UsageRepository\<close> that the service takes, whose queries are SQL built at run time, and the
  HTTP call of a delivery are parameters.
\<close>

record Aggregate =
  agg_Quantity :: f64
  agg_UsageEvents :: int

record BreakdownItem =
  bri_Value :: string
  bri_Quantity :: f64
  bri_UsageEvents :: int

record UsageRepository =
  ur_Aggregate :: "ctx \<Rightarrow> AggregateQuery \<Rightarrow> (world, Aggregate) proc"
  ur_FindBreakdown :: "ctx \<Rightarrow> BreakdownQuery \<Rightarrow> (world, BreakdownItem list) proc"

section \<open>Lookups\<close>

definition rule_query :: "string \<Rightarrow> string \<Rightarrow> string \<Rightarrow> bool option \<Rightarrow> int \<Rightarrow> RuleQuery" where
  "rule_query rid meterName destinationID enabled limit =
    \<lparr>rlq_ID = rid, rlq_MeterName = meterName, rlq_DestinationID = destinationID, rlq_Enabled = enabled, rlq_Limit = limit\<rparr>"

definition findRule :: "ctx \<Rightarrow> string \<Rightarrow> (world, Rule) proc" where
  "findRule ctx rid0 =
    attempt (lift_res (normalizeRequired rid0 ''alert id is required'')) (\<lambda>rid.
    attempt (FindRules ctx (rule_query rid [] [] None 1)) (\<lambda>rules.
    case rules of [] \<Rightarrow> return_err ErrNotFound | r # _ \<Rightarrow> return_ok r))"

definition findDestination :: "ctx \<Rightarrow> string \<Rightarrow> (world, Destination) proc" where
  "findDestination ctx did0 =
    attempt (lift_res (normalizeRequired did0 ''alert destination id is required'')) (\<lambda>did.
    attempt (FindDestinations ctx did 1) (\<lambda>destinations.
    case destinations of [] \<Rightarrow> return_err ErrNotFound | x # _ \<Rightarrow> return_ok x))"

definition validateRequiredDestinationReference :: "ctx \<Rightarrow> string \<Rightarrow> (world, unit) proc" where
  "validateRequiredDestinationReference ctx did0 =
    attempt (lift_res (normalizeRequired did0 ''alert destination is required'')) (\<lambda>did.
    attempt (findDestination ctx did) (\<lambda>_. return_ok ()))"

definition findMeter :: "ctx \<Rightarrow> string \<Rightarrow> (world, Meter) proc" where
  "findMeter ctx meterName =
    attempt (Meters_Find ctx (meter_named (TrimSpace meterName) 0)) (\<lambda>meters.
    case meters of [] \<Rightarrow> return_err ErrNotFound | m # _ \<Rightarrow> return_ok m)"

section \<open>Rules\<close>

text \<open>The result of a rule: the rule, its destination and its states, as far as they can be read.\<close>

record RuleResult =
  rur_Rule :: Rule
  rur_Destination :: "Destination option"
  rur_State :: "AlertState option"
  rur_States :: "AlertState list"

definition ruleResult :: "ctx \<Rightarrow> Rule \<Rightarrow> (world, RuleResult) proc" where
  "ruleResult ctx rule =
    attempt (if alr_DestinationID rule \<noteq> []
      then inspect (findDestination ctx (alr_DestinationID rule)) (\<lambda>r. case r of
        Inl _ \<Rightarrow> return_ok None | Inr x \<Rightarrow> return_ok (Some x))
      else return_ok None) (\<lambda>destination.
    inspect (FindStates ctx (alr_ID rule) MaxLimit) (\<lambda>r.
      let none = inspect (FindState ctx (alr_ID rule) [] []) (\<lambda>q. return_ok
            \<lparr>rur_Rule = rule, rur_Destination = destination,
             rur_State = (case q of Inl _ \<Rightarrow> None | Inr s \<Rightarrow> s), rur_States = []\<rparr>) in
      case r of
        Inl _ \<Rightarrow> none
      | Inr states \<Rightarrow> if states = [] then none
          else return_ok \<lparr>rur_Rule = rule, rur_Destination = destination, rur_State = primaryState states,
            rur_States = states\<rparr>))"

text \<open>The end of \<^verbatim>\<open>Create\<close> and \<^verbatim>\<open>Update\<close>.\<close>

definition save_and_enqueue :: "ctx \<Rightarrow> Rule \<Rightarrow> time \<Rightarrow> (world, RuleResult) proc" where
  "save_and_enqueue ctx rule now =
    attempt (SaveRule ctx rule) (\<lambda>saved.
    attempt (if alr_Enabled saved then EnqueueEvaluationJob (alr_ID saved) now now else return_ok ()) (\<lambda>_.
    ruleResult ctx saved))"

definition Alert_Create :: "ctx \<Rightarrow> SaveCommand \<Rightarrow> (world, RuleResult) proc" where
  "Alert_Create ctx cmd =
    attempt (findMeter ctx (sc_MeterName cmd)) (\<lambda>_.
    attempt (validateRequiredDestinationReference ctx (sc_DestinationID cmd)) (\<lambda>_.
    attempt clock_now (\<lambda>now.
    attempt (lift_res (ruleFromInput zero_rule cmd now)) (\<lambda>rule.
    attempt fresh_id (\<lambda>rid.
    save_and_enqueue ctx (rule\<lparr>alr_ID := rid, alr_CreatedAt := now, alr_UpdatedAt := now, alr_NextEvaluateAt := now\<rparr>) now)))))"

text \<open>The fields that \<^verbatim>\<open>Update\<close> replaces.\<close>

definition updated_rule :: "Rule \<Rightarrow> UpdateCommand \<Rightarrow> Rule" where
  "updated_rule existing cmd = existing\<lparr>
     alr_Name := (if uc'_Name cmd \<noteq> [] then uc'_Name cmd else alr_Name existing),
     alr_MeterName := (if uc'_MeterName cmd \<noteq> [] then uc'_MeterName cmd else alr_MeterName existing),
     alr_Enabled := (case uc'_Enabled cmd of Some b \<Rightarrow> b | None \<Rightarrow> alr_Enabled existing),
     alr_Subject := (case uc'_Subject cmd of Some s \<Rightarrow> s | None \<Rightarrow> alr_Subject existing),
     alr_Window := (if 0 < uc'_Window cmd then uc'_Window cmd else alr_Window existing),
     alr_Comparator := (if uc'_Comparator cmd \<noteq> [] then comparator_of (uc'_Comparator cmd) else alr_Comparator existing),
     alr_Threshold := (case uc'_Threshold cmd of Some x \<Rightarrow> x | None \<Rightarrow> alr_Threshold existing),
     alr_EvaluationInterval := (if 0 < uc'_EvaluationInterval cmd then uc'_EvaluationInterval cmd else alr_EvaluationInterval existing),
     alr_GroupBy := (case uc'_GroupBy cmd of Some g \<Rightarrow> g | None \<Rightarrow> alr_GroupBy existing),
     alr_DestinationID := (case uc'_DestinationID cmd of Some x \<Rightarrow> x | None \<Rightarrow> alr_DestinationID existing)\<rparr>"

definition Alert_Update :: "ctx \<Rightarrow> UpdateCommand \<Rightarrow> (world, RuleResult) proc" where
  "Alert_Update ctx cmd =
    attempt (findRule ctx (uc'_ID cmd)) (\<lambda>existing.
    attempt (if uc'_MeterName cmd \<noteq> [] then attempt (findMeter ctx (uc'_MeterName cmd)) (\<lambda>_. return_ok ()) else return_ok ()) (\<lambda>_.
    attempt (case uc'_DestinationID cmd of
      Some did \<Rightarrow> validateRequiredDestinationReference ctx did | None \<Rightarrow> return_ok ()) (\<lambda>_.
    attempt clock_now (\<lambda>now.
    attempt (lift_res (validateRule (updated_rule existing cmd)
      (case uc'_Metadata cmd of Some entries \<Rightarrow> entries | None \<Rightarrow> map_entries (alr_Metadata existing)) now)) (\<lambda>rule.
    save_and_enqueue ctx (rule\<lparr>alr_CreatedAt := alr_CreatedAt existing, alr_UpdatedAt := now, alr_NextEvaluateAt := now\<rparr>) now)))))"

definition Alert_Delete :: "ctx \<Rightarrow> string \<Rightarrow> (world, unit) proc" where
  "Alert_Delete ctx rid0 =
    attempt (lift_res (normalizeRequired rid0 ''alert id is required'')) (DeleteRule ctx)"

definition Alert_Get :: "ctx \<Rightarrow> string \<Rightarrow> (world, RuleResult) proc" where
  "Alert_Get ctx rid = attempt (findRule ctx rid) (ruleResult ctx)"

definition Alert_List :: "ctx \<Rightarrow> string \<Rightarrow> string \<Rightarrow> bool option \<Rightarrow> int \<Rightarrow> (world, RuleResult list) proc" where
  "Alert_List ctx meterName destinationID enabled limit =
    attempt (FindRules ctx (rule_query [] meterName destinationID enabled (alert_normalizeLimit limit))) (\<lambda>rules.
    foreach rules [] (\<lambda>rule results. attempt (ruleResult ctx rule) (\<lambda>r. return_ok (results @ [r]))))"

definition DeleteDestination :: "ctx \<Rightarrow> string \<Rightarrow> (world, unit) proc" where
  "DeleteDestination ctx did0 =
    attempt (lift_res (normalizeRequired did0 ''alert destination id is required'')) (\<lambda>did.
    attempt (FindRules ctx (rule_query [] [] did None 1)) (\<lambda>rules.
    if 0 < length rules then return_err (JoinErr ErrConflict (NewError ''alert destination is used by alert rules'' []))
    else Repo_DeleteDestination ctx did))"

section \<open>Usage events\<close>

text \<open>The meters of the events in the order in which they are first met.\<close>

definition event_meters :: "AlertUsageEvent list \<Rightarrow> string list" where
  "event_meters events = foldl (\<lambda>meters e. if TrimSpace (aue_Meter e) \<in> set meters then meters
     else meters @ [TrimSpace (aue_Meter e)]) [] events"

text \<open>The loop over the rules of a meter; the accumulator is the set of rules seen.\<close>

definition enqueue_matching :: "AlertUsageEvent list \<Rightarrow> time \<Rightarrow> Rule \<Rightarrow> string list \<Rightarrow> (world, string list) proc" where
  "enqueue_matching events now rule seen =
    (if alr_ID rule \<in> set seen then return_ok seen
     else if \<not> list_ex (ruleMatchesUsageEvent rule) events then return_ok seen
     else attempt (EnqueueEvaluationJob (alr_ID rule) (now + DefaultEvaluationDelay) now) (\<lambda>_.
       return_ok (alr_ID rule # seen)))"

definition Alert_EnqueueForUsageEvents :: "ctx \<Rightarrow> AlertUsageEvent list \<Rightarrow> (world, unit) proc" where
  "Alert_EnqueueForUsageEvents ctx events =
    attempt clock_now (\<lambda>now.
    attempt (foreach (event_meters events) [] (\<lambda>meterName seen.
      attempt (FindRules ctx (rule_query [] meterName [] (Some True) MaxLimit)) (\<lambda>rules.
      foreach rules seen (enqueue_matching (filter (\<lambda>e. TrimSpace (aue_Meter e) = meterName) events) now)))) (\<lambda>_.
    return_ok ()))"

definition EnqueueDueRules :: "int \<Rightarrow> (world, int) proc" where
  "EnqueueDueRules limit = attempt clock_now (\<lambda>now. EnqueueDueEvaluationJobs now (alert_normalizeLimit limit))"

section \<open>Evaluation jobs\<close>

definition ClaimEvaluationJob :: "duration \<Rightarrow> int \<Rightarrow> (world, EvaluationJob option) proc" where
  "ClaimEvaluationJob lockTTL maxAttempts =
    (if lockTTL \<le> 0 \<or> maxAttempts \<le> 0 then return_err ErrInvalidInput
     else attempt clock_now (\<lambda>now.
     inspect (Repo_ClaimEvaluationJob now (now + lockTTL) maxAttempts) (\<lambda>r. case r of
       Inl e \<Rightarrow> if errors_Is e ErrNotFound then return_ok None else return_err e
     | Inr job \<Rightarrow> return_ok (Some job))))"

definition CompleteEvaluationJob :: "string \<Rightarrow> int \<Rightarrow> (world, unit) proc" where
  "CompleteEvaluationJob rid0 attempts =
    attempt (lift_res (normalizeRequired rid0 ''alert rule id is required'')) (\<lambda>rid.
    if attempts < 1 then return_err ErrInvalidInput else Repo_CompleteEvaluationJob rid attempts)"

definition FailEvaluationJob :: "string \<Rightarrow> int \<Rightarrow> duration \<Rightarrow> (world, unit) proc" where
  "FailEvaluationJob rid0 attempts retryAfter0 =
    attempt (lift_res (normalizeRequired rid0 ''alert rule id is required'')) (\<lambda>rid.
    let retryAfter = (if retryAfter0 \<le> 0 then Minute else retryAfter0) in
    if attempts < 1 then return_err ErrInvalidInput
    else attempt clock_now (\<lambda>now. Repo_RequeueEvaluationJob rid attempts (now + retryAfter) now))"

definition DeadLetterEvaluationJob :: "ctx \<Rightarrow> string \<Rightarrow> int \<Rightarrow> string \<Rightarrow> (world, unit) proc" where
  "DeadLetterEvaluationJob ctx rid0 attempts lastError =
    attempt (lift_res (normalizeRequired rid0 ''alert rule id is required'')) (\<lambda>rid.
    if attempts < 1 \<or> TrimSpace lastError = [] then return_err ErrInvalidInput
    else in_transaction (
      attempt fresh_id (\<lambda>lid.
      attempt clock_now (\<lambda>now.
      attempt (SaveEvaluationDeadLetter ctx \<lparr>edl_ID = lid, edl_RuleID = rid, edl_Attempts = attempts,
        edl_Error = lastError, edl_CreatedAt = now\<rparr>) (\<lambda>_.
      Repo_CompleteEvaluationJob rid attempts)))))"

section \<open>Saving an evaluation\<close>

definition newDeliveryJob ::
  "AlertEvent \<Rightarrow> Rule \<Rightarrow> AlertState \<Rightarrow> Destination option \<Rightarrow> time \<Rightarrow> (world, DeliveryJob) proc" where
  "newDeliveryJob event rule state destination now =
    attempt (lift_res (deliveryPayload rule destination state event)) (\<lambda>payload.
    attempt fresh_id (\<lambda>jid.
    return_ok \<lparr>djb_ID = jid, djb_WorkspaceID = [], djb_EventID = ale_ID event, djb_DestinationID = alr_DestinationID rule,
      djb_Payload = payload, djb_Status = JobPending, djb_Attempts = 0, djb_NextAttemptAt = now,
      djb_LockedUntil = None, djb_LastError = [], djb_CreatedAt = now, djb_UpdatedAt = now, djb_DeliveredAt = None\<rparr>))"

text \<open>The state that an event is about: the first of its group, or the primary state.\<close>

definition state_of_event :: "AlertState list \<Rightarrow> AlertEvent \<Rightarrow> AlertState" where
  "state_of_event states event =
    (case List.find (\<lambda>s. als_GroupKey s = ale_GroupKey event \<and> als_GroupValue s = ale_GroupValue event) states of
       Some s \<Rightarrow> s
     | None \<Rightarrow> (case primaryState states of Some s \<Rightarrow> s
         | None \<Rightarrow> status_state [] AlertStateOK 0 [] zero_time))"

definition delivery_jobs_of ::
  "Rule \<Rightarrow> AlertState list \<Rightarrow> AlertEvent list \<Rightarrow> Destination option \<Rightarrow> time \<Rightarrow> (world, (string, DeliveryJob) fmap) proc" where
  "delivery_jobs_of rule states events destination now = foreach events fmempty (\<lambda>event jobs.
    if ale_Type event = EventEvaluationFailed \<or> alr_DestinationID rule = [] then return_ok jobs
    else attempt (newDeliveryJob event rule (state_of_event states event) destination now) (\<lambda>job.
      return_ok (fmupd (ale_ID event) job jobs)))"

definition save_evaluation_rows ::
  "ctx \<Rightarrow> Rule \<Rightarrow> AlertState list \<Rightarrow> AlertEvent list \<Rightarrow> (string, DeliveryJob) fmap \<Rightarrow> time \<Rightarrow> (world, unit) proc" where
  "save_evaluation_rows ctx rule states events jobs now =
    attempt (foreach states () (\<lambda>state _. SaveState state)) (\<lambda>_.
    attempt (foreach events () (\<lambda>event _.
      attempt (SaveAlertEvent event) (\<lambda>_.
      case fmlookup jobs (ale_ID event) of None \<Rightarrow> return_ok () | Some job \<Rightarrow> SaveDeliveryJob ctx job))) (\<lambda>_.
    UpdateRuleNextEvaluation (alr_ID rule) (now + alr_EvaluationInterval rule) now))"

definition saveEvaluations ::
  "ctx \<Rightarrow> Rule \<Rightarrow> AlertState list \<Rightarrow> AlertEvent list \<Rightarrow> time \<Rightarrow> (world, unit) proc" where
  "saveEvaluations ctx rule states events now =
    attempt (if alr_DestinationID rule \<noteq> []
      then attempt (findDestination ctx (alr_DestinationID rule)) (\<lambda>x. return_ok (Some x)) else return_ok None) (\<lambda>destination.
    attempt (delivery_jobs_of rule states events destination now) (\<lambda>jobs.
    in_transaction (save_evaluation_rows ctx rule states events jobs now)))"

definition saveEvaluation :: "ctx \<Rightarrow> Rule \<Rightarrow> AlertState \<Rightarrow> AlertEvent option \<Rightarrow> time \<Rightarrow> (world, unit) proc" where
  "saveEvaluation ctx rule state event now =
    saveEvaluations ctx rule [state] (case event of None \<Rightarrow> [] | Some e \<Rightarrow> [e]) now"

section \<open>Evaluation\<close>

record AlertEvaluation =
  aev_Rule :: RuleResult
  aev_State :: AlertState
  aev_Events :: "AlertEvent list"

text \<open>An evaluation whose usage cannot be read is saved as an error, which is returned.\<close>

definition evaluation_failed :: "ctx \<Rightarrow> Rule \<Rightarrow> time \<Rightarrow> go_error \<Rightarrow> (world, 'a) proc" where
  "evaluation_failed ctx rule now e =
    attempt fresh_id (\<lambda>eid.
    let state = status_state (alr_ID rule) AlertStateError 0 (error_text e) now;
        event = \<lparr>ale_ID = eid, ale_RuleID = alr_ID rule, ale_GroupKey = [], ale_GroupValue = [],
          ale_Type = EventEvaluationFailed, ale_Value = 0, ale_Message = error_text e, ale_CreatedAt = now\<rparr> in
    inspect (saveEvaluation ctx rule state (Some event) now) (\<lambda>r. case r of
      Inl saveErr \<Rightarrow> return_err (JoinErr e saveErr)
    | Inr _ \<Rightarrow> return_err e))"

definition evaluateGlobal :: "UsageRepository \<Rightarrow> ctx \<Rightarrow> Rule \<Rightarrow> Meter \<Rightarrow> (world, AlertEvaluation) proc" where
  "evaluateGlobal usage ctx rule meter =
    attempt clock_now (\<lambda>now.
    attempt (lift_res (NewAggregateQuery (alr_Subject rule) (alr_MeterName rule) (now - alr_Window rule) now
      (mtr_aggregation meter) (map_entries (alr_Metadata rule)) EmptyFilter)) (\<lambda>q.
    inspect (ur_Aggregate usage ctx q) (\<lambda>r. case r of
      Inl e \<Rightarrow> evaluation_failed ctx rule now e
    | Inr aggregate \<Rightarrow>
        (let nextState = globalState rule (agg_Quantity aggregate) (agg_UsageEvents aggregate) now in
         attempt (FindState ctx (alr_ID rule) [] []) (\<lambda>previous.
         attempt (case transition previous nextState of
             None \<Rightarrow> return_ok None
           | Some kind \<Rightarrow> attempt fresh_id (\<lambda>eid. return_ok (Some (state_event_of eid (alr_ID rule) kind nextState now)))) (\<lambda>event.
         attempt (saveEvaluation ctx rule nextState event now) (\<lambda>_.
         attempt (ruleResult ctx rule) (\<lambda>result.
         return_ok \<lparr>aev_Rule = result, aev_State = nextState,
           aev_Events = (case event of None \<Rightarrow> [] | Some e \<Rightarrow> [e])\<rparr>)))))))) "

text \<open>The loop over the groups that have usage: their states and the events of their changes.\<close>

definition previous_of :: "AlertState list \<Rightarrow> string \<Rightarrow> string \<Rightarrow> AlertState option" where
  "previous_of previousStates groupKey groupValue =
    List.find (\<lambda>s. als_GroupKey s = groupKey \<and> als_GroupValue s = groupValue) (rev previousStates)"

definition group_item ::
  "Rule \<Rightarrow> AlertState list \<Rightarrow> time \<Rightarrow> BreakdownItem \<Rightarrow> AlertState list \<times> AlertEvent list \<Rightarrow>
   (world, AlertState list \<times> AlertEvent list) proc" where
  "group_item rule previousStates now item acc =
    (case acc of (states, events) \<Rightarrow>
     let state = groupedState rule (alr_GroupBy rule) (bri_Value item) (bri_Quantity item) (bri_UsageEvents item) now;
         previous = previous_of previousStates (als_GroupKey state) (als_GroupValue state) in
     attempt (if shouldCreateEvent previous state
       then attempt fresh_id (\<lambda>eid. return_ok (events @ [eventForState eid (alr_ID rule) state (previous \<noteq> None) now]))
       else return_ok events) (\<lambda>events.
     return_ok (states @ [state], events)))"

text \<open>The loop over the groups that had a state and have no usage now.\<close>

definition missing_group ::
  "Rule \<Rightarrow> (string \<times> string) list \<Rightarrow> time \<Rightarrow> AlertState \<Rightarrow> AlertState list \<times> AlertEvent list \<Rightarrow>
   (world, AlertState list \<times> AlertEvent list) proc" where
  "missing_group rule seen now previous acc =
    (case acc of (states, events) \<Rightarrow>
     if (als_GroupKey previous, als_GroupValue previous) \<in> set seen \<or> als_GroupKey previous = [] then return_ok (states, events)
     else let state = (status_state (alr_ID rule) AlertStateNoData 0
           (groupMessage (als_GroupKey previous) (als_GroupValue previous) ''no usage data in alert window'') now)
             \<lparr>als_GroupKey := als_GroupKey previous, als_GroupValue := als_GroupValue previous\<rparr> in
       attempt (if als_Status previous = AlertStateAlerting
         then attempt fresh_id (\<lambda>eid. return_ok (events @ [state_event_of eid (alr_ID rule) EventResolved state now]))
         else return_ok events) (\<lambda>events.
       return_ok (states @ [state], events)))"

definition evaluate_groups ::
  "ctx \<Rightarrow> Rule \<Rightarrow> BreakdownItem list \<Rightarrow> AlertState list \<Rightarrow> time \<Rightarrow> (world, AlertState list \<times> AlertEvent list) proc" where
  "evaluate_groups ctx rule items previousStates now =
    attempt (foreach items ([], []) (group_item rule previousStates now)) (\<lambda>acc.
    attempt (foreach previousStates acc
      (missing_group rule (map (\<lambda>item. (alr_GroupBy rule, bri_Value item)) items) now)) (\<lambda>(states, events).
    return_ok (if states = []
      then [status_state (alr_ID rule) AlertStateNoData 0 ''no usage data in alert window'' now] else states, events)))"

definition evaluateGrouped :: "UsageRepository \<Rightarrow> ctx \<Rightarrow> Rule \<Rightarrow> Meter \<Rightarrow> (world, AlertEvaluation) proc" where
  "evaluateGrouped usage ctx rule meter =
    attempt clock_now (\<lambda>now.
    attempt (lift_res (metadataFilter (map_entries (alr_Metadata rule)))) (\<lambda>f.
    attempt (lift_res (NewBreakdownQuery (alr_MeterName rule) (alr_GroupBy rule) (alr_Subject rule) (now - alr_Window rule) now
      (mtr_aggregation meter) MaxLimit f)) (\<lambda>q.
    inspect (ur_FindBreakdown usage ctx q) (\<lambda>r. case r of
      Inl e \<Rightarrow> evaluation_failed ctx rule now e
    | Inr items \<Rightarrow>
        attempt (FindStates ctx (alr_ID rule) MaxLimit) (\<lambda>previousStates.
        attempt (evaluate_groups ctx rule items previousStates now) (\<lambda>(states, events).
        attempt (saveEvaluations ctx rule states events now) (\<lambda>_.
        attempt (ruleResult ctx rule) (\<lambda>result.
        return_ok \<lparr>aev_Rule = result,
          aev_State = (case primaryState states of Some s \<Rightarrow> s | None \<Rightarrow> status_state [] AlertStateOK 0 [] zero_time),
          aev_Events = events\<rparr>))))))))"

definition Alert_Evaluate :: "UsageRepository \<Rightarrow> ctx \<Rightarrow> string \<Rightarrow> (world, AlertEvaluation) proc" where
  "Alert_Evaluate usage ctx ruleID =
    attempt (findRule ctx ruleID) (\<lambda>rule.
    if \<not> alr_Enabled rule
    then attempt clock_now (\<lambda>now.
      let state = (status_state (alr_ID rule) AlertStateOK 0 ''alert rule is disabled'' now)\<lparr>als_EvaluatedAt := zero_time\<rparr> in
      attempt (SaveState state) (\<lambda>_.
      attempt (ruleResult ctx rule) (\<lambda>result.
      return_ok \<lparr>aev_Rule = result, aev_State = state, aev_Events = []\<rparr>)))
    else attempt (findMeter ctx (alr_MeterName rule)) (\<lambda>meter.
      if alr_GroupBy rule \<noteq> [] then evaluateGrouped usage ctx rule meter else evaluateGlobal usage ctx rule meter))"

section \<open>Deliveries\<close>

definition normalizeTriggerType :: "string \<Rightarrow> go_error + string" where
  "normalizeTriggerType value = (if value = [] \<or> value = ''webhook'' then Inr ''webhook''
     else Inl (JoinErr ErrInvalidInput (NewError ''unsupported trigger type %q'' [SArg value])))"

definition normalizeDeliveryStatus :: "DeliveryStatus \<Rightarrow> go_error + DeliveryStatus" where
  "normalizeDeliveryStatus value = (case value of
     DeliveryStatusOther s \<Rightarrow> Inl (JoinErr ErrInvalidInput (NewError ''unsupported delivery status %q'' [SArg s]))
   | _ \<Rightarrow> Inr value)"

definition RecordDelivery :: "DeliveryCommand \<Rightarrow> (world, Delivery) proc" where
  "RecordDelivery cmd =
    attempt (lift_res (normalizeRequired (dlc'_EventID cmd) ''alert event id is required'')) (\<lambda>eventID.
    attempt (lift_res (normalizeTriggerType (dlc'_TriggerType cmd))) (\<lambda>_.
    attempt (lift_res (normalizeDeliveryStatus (dlc'_Status cmd))) (\<lambda>status.
    if dlc'_StatusCode cmd < 0 then return_err (JoinErr ErrInvalidInput (NewError ''delivery status code cannot be negative'' []))
    else if dlc'_Duration cmd < 0 then return_err (JoinErr ErrInvalidInput (NewError ''delivery duration cannot be negative'' []))
    else attempt clock_now (\<lambda>now.
    attempt fresh_id (\<lambda>did.
    SaveDelivery \<lparr>dlv_ID = did, dlv_EventID = eventID, dlv_Status = status, dlv_StatusCode = dlc'_StatusCode cmd,
      dlv_Error = TrimSpace (dlc'_Error cmd), dlv_Duration = dlc'_Duration cmd,
      dlv_AttemptedAt = (if IsZero (dlc'_AttemptedAt cmd) then now else dlc'_AttemptedAt cmd), dlv_CreatedAt = now\<rparr>)))))"

definition ClaimDeliveryJob :: "ctx \<Rightarrow> duration \<Rightarrow> int \<Rightarrow> (world, (DeliveryJob \<times> Destination option) option) proc" where
  "ClaimDeliveryJob ctx lockTTL0 maxAttempts0 =
    (let lockTTL = (if lockTTL0 \<le> 0 then Minute else lockTTL0);
         maxAttempts = (if maxAttempts0 \<le> 0 then 5 else maxAttempts0) in
     attempt clock_now (\<lambda>now.
     inspect (Repo_ClaimDeliveryJob now (now + lockTTL) maxAttempts) (\<lambda>r. case r of
       Inl e \<Rightarrow> if errors_Is e ErrNotFound then return_ok None else return_err e
     | Inr job \<Rightarrow>
         if djb_DestinationID job \<noteq> []
         then inspect (findDestination (WithWorkspaceID ctx (djb_WorkspaceID job)) (djb_DestinationID job)) (\<lambda>q. case q of
             Inl e \<Rightarrow> if \<not> errors_Is e ErrNotFound then return_err e else return_ok (Some (job, None))
           | Inr destination \<Rightarrow> return_ok (Some (job, Some destination)))
         else return_ok (Some (job, None)))))"

definition CompleteDeliveryJob :: "ctx \<Rightarrow> string \<Rightarrow> int \<Rightarrow> DeliveryCommand \<Rightarrow> (world, unit) proc" where
  "CompleteDeliveryJob ctx jid0 attempts delivery =
    attempt (lift_res (normalizeRequired jid0 ''alert delivery job id is required'')) (\<lambda>jid.
    if attempts < 1 then return_err ErrInvalidInput
    else in_transaction (
      attempt (RecordDelivery delivery) (\<lambda>_.
      attempt clock_now (\<lambda>now. Repo_CompleteDeliveryJob ctx jid attempts now))))"

definition FailDeliveryJob ::
  "ctx \<Rightarrow> string \<Rightarrow> int \<Rightarrow> int \<Rightarrow> duration \<Rightarrow> DeliveryCommand \<Rightarrow> (world, unit) proc" where
  "FailDeliveryJob ctx jid0 attempts maxAttempts retryAfter0 delivery =
    attempt (lift_res (normalizeRequired jid0 ''alert delivery job id is required'')) (\<lambda>jid.
    if attempts < 1 \<or> maxAttempts < 1 then return_err ErrInvalidInput
    else let retryAfter = (if retryAfter0 \<le> 0 then Minute else retryAfter0) in
      attempt clock_now (\<lambda>now.
      in_transaction (
        attempt (RecordDelivery delivery) (\<lambda>_.
        Repo_RetryDeliveryJob ctx jid attempts (now + deliveryRetryDelay retryAfter attempts) maxAttempts (dlc'_Error delivery) now))))"

definition job_status_text :: "DeliveryJobStatus \<Rightarrow> string" where
  "job_status_text s = (case s of JobPending \<Rightarrow> ''pending'' | JobRunning \<Rightarrow> ''running''
     | JobDelivered \<Rightarrow> ''delivered'' | JobDeadLetter \<Rightarrow> ''dead_letter'')"

definition RequeueDeliveryJob :: "ctx \<Rightarrow> string \<Rightarrow> (world, unit) proc" where
  "RequeueDeliveryJob ctx jid0 =
    attempt (lift_res (normalizeRequired jid0 ''alert delivery job id is required'')) (\<lambda>jid.
    attempt clock_now (\<lambda>now.
    inspect (Repo_RequeueDeliveryJob ctx jid now) (\<lambda>r.
      if \<not> (case r of Inl e \<Rightarrow> errors_Is e ErrNotFound | Inr _ \<Rightarrow> False) then lift_res r
      else attempt (FindDeliveryJobStatus ctx jid) (\<lambda>status.
        return_err (JoinErr ErrConflict (NewError ''alert delivery job is %s'' [SArg (job_status_text status)]))))))"

section \<open>The worker\<close>

record AlertWorker =
  aw_lockTTL :: duration
  aw_retryAfter :: duration
  aw_maxAttempts :: int

text \<open>What the HTTP call of a delivery came to.\<close>

record deliveryAttempt =
  da_status :: DeliveryStatus
  da_statusCode :: int
  da_message :: string
  da_duration :: duration
  da_attemptedAt :: time

definition webhookDeliveryTarget :: "Destination option \<Rightarrow> string + string \<times> string" where
  "webhookDeliveryTarget destination = (case destination of
     None \<Rightarrow> Inl ''alert destination is not configured''
   | Some x \<Rightarrow> if \<not> ald_Enabled x then Inl ''alert destination is disabled''
       else if ald_WebhookURL x = [] then Inl ''alert destination webhook url is not configured''
       else Inr (ald_WebhookURL x, ald_WebhookSecret x))"

definition failed_attempt :: "string \<Rightarrow> time \<Rightarrow> deliveryAttempt" where
  "failed_attempt message attemptedAt = \<lparr>da_status = DeliveryFailed, da_statusCode = 0, da_message = message,
     da_duration = 0, da_attemptedAt = attemptedAt\<rparr>"

text \<open>\<^verbatim>\<open>deliverWebhookJob\<close>: the request to the target (URL and secret) at a time is the parameter \<^verbatim>\<open>post\<close>.\<close>

definition deliverWebhookJob ::
  "(string \<times> string \<Rightarrow> DeliveryJob \<Rightarrow> time \<Rightarrow> deliveryAttempt) \<Rightarrow> DeliveryJob \<times> Destination option \<Rightarrow> (world, deliveryAttempt) proc" where
  "deliverWebhookJob post claimed =
    attempt clock_now (\<lambda>attemptedAt.
    case webhookDeliveryTarget (snd claimed) of
      Inl message \<Rightarrow> return_ok (failed_attempt message attemptedAt)
    | Inr target \<Rightarrow> return_ok (post target (fst claimed) attemptedAt))"

definition ignoring_not_found :: "(world, unit) proc \<Rightarrow> (world, bool) proc" where
  "ignoring_not_found m = inspect m (\<lambda>r. case r of
      Inl e \<Rightarrow> if errors_Is e ErrNotFound then return_ok True else return_err e
    | Inr _ \<Rightarrow> return_ok True)"

definition delivery_command :: "DeliveryJob \<Rightarrow> deliveryAttempt \<Rightarrow> DeliveryCommand" where
  "delivery_command job a = \<lparr>dlc'_EventID = djb_EventID job, dlc'_TriggerType = ''webhook'', dlc'_Status = da_status a,
     dlc'_StatusCode = da_statusCode a, dlc'_Error = da_message a, dlc'_Duration = da_duration a,
     dlc'_AttemptedAt = da_attemptedAt a\<rparr>"

definition processDeliveryOnce ::
  "(string \<times> string \<Rightarrow> DeliveryJob \<Rightarrow> time \<Rightarrow> deliveryAttempt) \<Rightarrow> AlertWorker \<Rightarrow> ctx \<Rightarrow> (world, bool) proc" where
  "processDeliveryOnce post worker ctx =
    attempt (ClaimDeliveryJob ctx (aw_lockTTL worker) (aw_maxAttempts worker)) (\<lambda>claimed.
    case claimed of None \<Rightarrow> return_ok False
    | Some (job, destination) \<Rightarrow>
        (let baseCtx = WithWorkspaceID ctx (djb_WorkspaceID job) in
         attempt (deliverWebhookJob post (job, destination)) (\<lambda>a.
         if da_status a = DeliveryDelivered
         then ignoring_not_found (CompleteDeliveryJob baseCtx (djb_ID job) (djb_Attempts job) (delivery_command job a))
         else ignoring_not_found (FailDeliveryJob baseCtx (djb_ID job) (djb_Attempts job) (aw_maxAttempts worker)
           (aw_retryAfter worker) (delivery_command job a)))))"

definition evaluation_not_done :: "AlertWorker \<Rightarrow> ctx \<Rightarrow> EvaluationJob \<Rightarrow> go_error \<Rightarrow> (world, bool) proc" where
  "evaluation_not_done worker failCtx job e =
    (let report = (if aw_maxAttempts worker \<le> evj_Attempts job
         then DeadLetterEvaluationJob failCtx (evj_RuleID job) (evj_Attempts job) (error_text e)
         else FailEvaluationJob (evj_RuleID job) (evj_Attempts job) (aw_retryAfter worker)) in
     inspect report (\<lambda>r. case r of
       Inl f \<Rightarrow> if errors_Is f ErrNotFound then return_ok True else return_err (JoinErr e f)
     | Inr _ \<Rightarrow> return_ok True))"

definition Alert_ProcessOnce ::
  "UsageRepository \<Rightarrow> (string \<times> string \<Rightarrow> DeliveryJob \<Rightarrow> time \<Rightarrow> deliveryAttempt) \<Rightarrow> AlertWorker \<Rightarrow> ctx \<Rightarrow> (world, bool) proc" where
  "Alert_ProcessOnce usage post worker ctx =
    attempt (ClaimEvaluationJob (aw_lockTTL worker) (aw_maxAttempts worker)) (\<lambda>claimed.
    case claimed of None \<Rightarrow> processDeliveryOnce post worker ctx
    | Some job \<Rightarrow>
        (let baseCtx = WithWorkspaceID ctx (evj_WorkspaceID job) in
         inspect (Alert_Evaluate usage baseCtx (evj_RuleID job)) (\<lambda>r. case r of
           Inr _ \<Rightarrow> ignoring_not_found (CompleteEvaluationJob (evj_RuleID job) (evj_Attempts job))
         | Inl e \<Rightarrow> evaluation_not_done worker baseCtx job e)))"

end
