(* ===== verification/AlertSpec.thy ===== *)
theory AlertSpec
  imports AlertService LeasedQueue PlanSpec
begin

text \<open>
  What the alerts keep: the integrity of their tables, in which every triggered or resolved event has
  its delivery job; the two work queues as leased queues; and the events of successive states.
\<close>

section \<open>The integrity of the alert tables\<close>

definition valid_rule :: "Rule \<Rightarrow> bool" where
  "valid_rule r \<longleftrightarrow> alr_Name r \<noteq> [] \<and> RuneCountInString (alr_Name r) \<le> alert_MaxNameRunes \<and> alr_MeterName r \<noteq> [] \<and>
    Minute \<le> alr_Window r \<and> alr_Window r \<le> 366 * 24 * Hour \<and> Second \<le> alr_EvaluationInterval r \<and>
    alr_EvaluationInterval r \<le> 24 * Hour \<and> finite_f64 (alr_Threshold r) \<and> (\<forall>s. alr_Comparator r \<noteq> ComparatorOther s) \<and>
    alr_DestinationID r \<noteq> []"

definition delivery_job_ok :: "DeliveryJob \<Rightarrow> bool" where
  "delivery_job_ok j \<longleftrightarrow> 0 \<le> djb_Attempts j \<and>
    (djb_Status j = JobRunning \<longrightarrow> djb_LockedUntil j \<noteq> None \<and> 1 \<le> djb_Attempts j) \<and>
    (djb_Status j = JobDelivered \<longleftrightarrow> djb_DeliveredAt j \<noteq> None)"

definition alert_keys_ok :: "AlertTables \<Rightarrow> bool" where
  "alert_keys_ok t \<longleftrightarrow> distinct_keys (\<lambda>(w, r). alr_ID r) (at_rules t) \<and> distinct_keys alert_state_key (at_states t) \<and>
    distinct_keys ale_ID (at_events t) \<and> distinct_keys dlv_ID (at_deliveries t) \<and>
    distinct_keys djb_ID (at_delivery_jobs t) \<and> distinct_keys djb_EventID (at_delivery_jobs t) \<and>
    distinct_keys evj_RuleID (at_jobs t)"

definition alert_refs_ok :: "AlertTables \<Rightarrow> bool" where
  "alert_refs_ok t \<longleftrightarrow> (\<forall>s \<in> set (at_states t). has_rule (als_RuleID s) t) \<and> (\<forall>e \<in> set (at_events t). has_rule (ale_RuleID e) t) \<and>
    (\<forall>j \<in> set (at_jobs t). has_rule (evj_RuleID j) t) \<and> (\<forall>v \<in> set (at_deliveries t). has_event (dlv_EventID v) t)"

text \<open>The delivery jobs are exactly those of the triggered and resolved events, but for the events of \<open>X\<close>,
  which wait for their job; a job carries its event.\<close>

definition notified :: "string set \<Rightarrow> AlertTables \<Rightarrow> bool" where
  "notified X t \<longleftrightarrow>
    (\<forall>j \<in> set (at_delivery_jobs t). wp_Event (djb_Payload j) \<in> set (at_events t) \<and>
      ale_ID (wp_Event (djb_Payload j)) = djb_EventID j \<and> ale_Type (wp_Event (djb_Payload j)) \<noteq> EventEvaluationFailed) \<and>
    (\<forall>e \<in> set (at_events t). ale_Type e \<noteq> EventEvaluationFailed \<longrightarrow> ale_ID e \<in> X \<union> djb_EventID ` set (at_delivery_jobs t))"

definition alert_rows_ok :: "AlertTables \<Rightarrow> bool" where
  "alert_rows_ok t \<longleftrightarrow> (\<forall>(w, r) \<in> set (at_rules t). valid_rule r) \<and> (\<forall>j \<in> set (at_delivery_jobs t). delivery_job_ok j)"

definition alerts_upto :: "string set \<Rightarrow> AlertTables \<Rightarrow> bool" where
  "alerts_upto X t \<longleftrightarrow> alert_keys_ok t \<and> alert_refs_ok t \<and> notified X t \<and> alert_rows_ok t"

definition alerts_ok :: "db \<Rightarrow> bool" where
  "alerts_ok d \<longleftrightarrow> alerts_upto {} (db_alerts d)"

lemmas alerts_defs = alert_keys_ok_def alert_refs_ok_def notified_def alert_rows_ok_def

lemma has_rule_iff: "has_rule rid t \<longleftrightarrow> rid \<in> (\<lambda>(w, r). alr_ID r) ` set (at_rules t)"
  by (force simp: has_rule_def list_ex_iff)

lemma has_event_iff: "has_event eid t \<longleftrightarrow> eid \<in> ale_ID ` set (at_events t)"
  by (force simp: has_event_def list_ex_iff)

lemma empty_alerts_ok: "alerts_upto {} empty_alerts"
  by (simp add: alerts_upto_def alerts_defs empty_alerts_def)

subsection \<open>Updates of one table\<close>

text \<open>Rows that are updated in place, rules and events kept.\<close>

lemma keys_row_upsert:
  assumes "\<And>q. key q = key r \<Longrightarrow> key (f q) = key r"
  shows "key ` set rows \<subseteq> key ` set (row_upsert key f r rows)"
proof (cases "key r \<in> key ` set rows")
  case True
  have "map key (row_update (\<lambda>q. key q = key r) f rows) = map key rows" by (rule map_row_update) (simp add: assms)
  then have "key ` set (row_update (\<lambda>q. key q = key r) f rows) = key ` set rows" by (metis list.set_map)
  then show ?thesis using True by (simp add: row_upsert_def)
qed (auto simp: row_upsert_def)

lemma alerts_upto_frame:
  "alerts_upto X (t\<lparr>at_destinations := ds\<rparr>) = alerts_upto X t" "alerts_upto X (t\<lparr>at_dead_letters := ls\<rparr>) = alerts_upto X t"
  by (simp_all add: alerts_upto_def alerts_defs has_rule_def has_event_def)

lemma alerts_upto_jobs:
  assumes "alerts_upto X t" "distinct_keys evj_RuleID js" "\<forall>j \<in> set js. has_rule (evj_RuleID j) t"
  shows "alerts_upto X (t\<lparr>at_jobs := js\<rparr>)"
  using assms by (simp add: alerts_upto_def alerts_defs has_rule_def has_event_def)

lemma alerts_upto_deliveries:
  assumes "alerts_upto X t" "has_event (dlv_EventID v) t" "dlv_ID v \<notin> dlv_ID ` set (at_deliveries t)"
  shows "alerts_upto X (t\<lparr>at_deliveries := at_deliveries t @ [v]\<rparr>)"
  using assms by (auto simp: alerts_upto_def alerts_defs has_rule_def has_event_def intro: distinct_keys_snoc)

lemma alerts_upto_delivery_jobs:
  assumes "alerts_upto X t" "\<And>j. p j \<Longrightarrow> djb_ID (f j) = djb_ID j \<and> djb_EventID (f j) = djb_EventID j \<and> djb_Payload (f j) = djb_Payload j"
    "\<And>j. p j \<Longrightarrow> delivery_job_ok j \<Longrightarrow> delivery_job_ok (f j)"
  shows "alerts_upto X (t\<lparr>at_delivery_jobs := row_update p f (at_delivery_jobs t)\<rparr>)"
proof -
  have "map djb_EventID (row_update p f (at_delivery_jobs t)) = map djb_EventID (at_delivery_jobs t)"
    "map djb_Payload (row_update p f (at_delivery_jobs t)) = map djb_Payload (at_delivery_jobs t)"
    "map djb_ID (row_update p f (at_delivery_jobs t)) = map djb_ID (at_delivery_jobs t)"
    by (rule map_row_update, use assms(2) in blast)+
  moreover have "\<forall>j \<in> set (row_update p f (at_delivery_jobs t)). delivery_job_ok j"
    using assms(1,3) by (auto simp: alerts_upto_def alert_rows_ok_def row_update_def)
  moreover have "\<forall>j \<in> set (row_update p f (at_delivery_jobs t)). wp_Event (djb_Payload j) \<in> set (at_events t) \<and>
      ale_ID (wp_Event (djb_Payload j)) = djb_EventID j \<and> ale_Type (wp_Event (djb_Payload j)) \<noteq> EventEvaluationFailed"
    using assms(1,2) by (auto simp: alerts_upto_def notified_def row_update_def)
  moreover have "djb_EventID ` set (row_update p f (at_delivery_jobs t)) = djb_EventID ` set (at_delivery_jobs t)"
    using calculation(1) by (metis list.set_map)
  ultimately show ?thesis
    using assms(1) by (auto simp: alerts_upto_def alerts_defs has_rule_def has_event_def distinct_keys_def)
qed

lemma alerts_upto_states:
  assumes "alerts_upto X t" "has_rule (als_RuleID s) t"
  shows "alerts_upto X (save_state_row s t)"
proof -
  have "distinct_keys alert_state_key (row_upsert alert_state_key (\<lambda>_. s) s (at_states t))"
    using assms(1) by (intro distinct_keys_upsert) (auto simp: alerts_upto_def alert_keys_ok_def)
  moreover have "\<forall>q \<in> set (row_upsert alert_state_key (\<lambda>_. s) s (at_states t)). has_rule (als_RuleID q) t"
    by (rule all_row_upsert) (use assms in \<open>auto simp: alerts_upto_def alert_refs_ok_def\<close>)
  ultimately show ?thesis
    using assms(1) by (auto simp: save_state_row_def alerts_upto_def alerts_defs has_rule_def has_event_def)
qed

lemma alerts_upto_event:
  assumes "alerts_upto X t" "has_rule (ale_RuleID e) t" "ale_ID e \<notin> ale_ID ` set (at_events t)"
  shows "alerts_upto (if ale_Type e = EventEvaluationFailed then X else insert (ale_ID e) X) (t\<lparr>at_events := at_events t @ [e]\<rparr>)"
  using assms by (auto simp: alerts_upto_def alerts_defs has_rule_def has_event_def intro: distinct_keys_snoc)

lemma alerts_upto_delivery_job:
  assumes "alerts_upto (insert (djb_EventID j) X) t" "wp_Event (djb_Payload j) \<in> set (at_events t)"
    "ale_ID (wp_Event (djb_Payload j)) = djb_EventID j" "ale_Type (wp_Event (djb_Payload j)) \<noteq> EventEvaluationFailed"
    "delivery_job_ok j" "distinct_keys djb_ID (at_delivery_jobs (save_delivery_job_row j t))"
  shows "alerts_upto X (save_delivery_job_row j t)"
  using assms
  by (auto simp: save_delivery_job_row_def alerts_upto_def alerts_defs has_rule_def has_event_def intro: distinct_keys_snoc)

lemma has_rule_save: "has_rule rid t \<Longrightarrow> has_rule rid (save_rule_row ws rule t)"
proof -
  assume "has_rule rid t"
  moreover have "(\<lambda>(w, r). alr_ID r) ` set (at_rules t) \<subseteq> (\<lambda>(w, r). alr_ID r) ` set (row_upsert (\<lambda>(w, r). alr_ID r)
     (\<lambda>(w, r). (w, rule\<lparr>alr_CreatedAt := alr_CreatedAt r\<rparr>)) (ws, rule) (at_rules t))"
    by (rule keys_row_upsert) auto
  ultimately show ?thesis by (auto simp: has_rule_iff save_rule_row_def)
qed

lemma alerts_upto_rule:
  assumes "alerts_upto X t" "valid_rule rule"
  shows "alerts_upto X (save_rule_row ws rule t)"
proof -
  let ?rows = "at_rules (save_rule_row ws rule t)"
  have "distinct_keys (\<lambda>(w, r). alr_ID r) ?rows"
    using assms(1) unfolding save_rule_row_def
    by (auto simp: alerts_upto_def alert_keys_ok_def intro!: distinct_keys_upsert)
  moreover have "\<forall>row \<in> set ?rows. valid_rule (snd row)"
    by (simp add: save_rule_row_def, rule all_row_upsert)
      (use assms in \<open>auto simp: alerts_upto_def alert_rows_ok_def valid_rule_def\<close>)
  moreover have "alert_refs_ok (save_rule_row ws rule t)"
    using assms(1) has_rule_save [of _ t ws rule]
    by (auto simp: alerts_upto_def alert_refs_ok_def save_rule_row_def has_event_def)
  ultimately show ?thesis
    using assms(1) by (auto simp: alerts_upto_def alert_keys_ok_def notified_def alert_rows_ok_def save_rule_row_def)
qed

lemma alerts_upto_next_evaluation:
  assumes "alerts_upto X t"
  shows "alerts_upto X (t\<lparr>at_rules := row_update (\<lambda>(w, r). alr_ID r = rid)
    (\<lambda>(w, r). (w, r\<lparr>alr_NextEvaluateAt := a, alr_UpdatedAt := b\<rparr>)) (at_rules t)\<rparr>)"
proof -
  let ?rows = "row_update (\<lambda>(w, r). alr_ID r = rid) (\<lambda>(w, r). (w, r\<lparr>alr_NextEvaluateAt := a, alr_UpdatedAt := b\<rparr>)) (at_rules t)"
  have ids: "map (\<lambda>(w, r). alr_ID r) ?rows = map (\<lambda>(w, r). alr_ID r) (at_rules t)" by (rule map_row_update) auto
  then have "has_rule x (t\<lparr>at_rules := ?rows\<rparr>) = has_rule x t" for x
    unfolding has_rule_iff list.set_map [symmetric] by simp
  moreover have "\<forall>row \<in> set ?rows. valid_rule (snd row)"
    by (rule all_row_update) (use assms in \<open>auto simp: alerts_upto_def alert_rows_ok_def valid_rule_def\<close>)
  ultimately show ?thesis
    using assms ids by (auto simp: alerts_upto_def alerts_defs distinct_keys_def has_event_def)
qed

text \<open>A rule is deleted with all that hangs on it.\<close>

lemma alerts_upto_delete_rule:
  assumes "alerts_upto X t"
  shows "alerts_upto X (delete_rule_rows ws rid t)"
proof (cases "list_ex (\<lambda>(w, r). w = ws \<and> alr_ID r = rid) (at_rules t)")
  case False
  then show ?thesis using assms by (simp add: delete_rule_rows_def)
next
  case True
  let ?t = "delete_rule_rows ws rid t"
  let ?gone = "\<lambda>eid. eid \<in> ale_ID ` set (filter (\<lambda>e. ale_RuleID e = rid) (at_events t))"
  have rows: "at_rules ?t = row_delete (\<lambda>(w, r). w = ws \<and> alr_ID r = rid) (at_rules t)"
    "at_states ?t = row_delete (\<lambda>s. als_RuleID s = rid) (at_states t)"
    "at_events ?t = row_delete (\<lambda>e. ale_RuleID e = rid) (at_events t)"
    "at_deliveries ?t = row_delete (\<lambda>v. ?gone (dlv_EventID v)) (at_deliveries t)"
    "at_delivery_jobs ?t = row_delete (\<lambda>j. ?gone (djb_EventID j)) (at_delivery_jobs t)"
    "at_jobs ?t = row_delete (\<lambda>j. evj_RuleID j = rid) (at_jobs t)"
    using True by (simp_all add: delete_rule_rows_def Let_def)
  have rules: "has_rule x t \<Longrightarrow> x \<noteq> rid \<Longrightarrow> has_rule x ?t" for x
    by (force simp: has_rule_iff rows)
  have events: "has_event x t \<Longrightarrow> \<not> ?gone x \<Longrightarrow> has_event x ?t" for x
    by (force simp: has_event_iff rows)
  have same: "e = e'" if "e \<in> set (at_events t)" "e' \<in> set (at_events t)" "ale_ID e = ale_ID e'" for e e'
    using assms that distinct_keys_unique by (fastforce simp: alerts_upto_def alert_keys_ok_def)
  have "alert_keys_ok ?t"
    using assms by (auto simp: alerts_upto_def alert_keys_ok_def rows intro!: distinct_keys_delete)
  moreover have "alert_refs_ok ?t"
    using assms rules events by (auto simp: alerts_upto_def alert_refs_ok_def rows)
  moreover have "alert_rows_ok ?t"
    using assms by (auto simp: alerts_upto_def alert_rows_ok_def rows)
  moreover have "\<not> ?gone (djb_EventID j)" if "j \<in> set (at_delivery_jobs t)" "e \<in> set (at_events t)" "ale_RuleID e \<noteq> rid"
    "djb_EventID j = ale_ID e" for j e
    using same that by force
  then have "notified X ?t"
    using assms unfolding alerts_upto_def notified_def rows by (auto simp: image_iff) metis
  ultimately show ?thesis by (simp add: alerts_upto_def)
qed

section \<open>The queues of evaluations and deliveries\<close>

definition lease_delivery :: "time \<Rightarrow> time \<Rightarrow> string \<Rightarrow> DeliveryJob \<Rightarrow> DeliveryJob" where
  "lease_delivery now lease token j = claimed_delivery now lease j"

definition lease_evaluation :: "time \<Rightarrow> time \<Rightarrow> string \<Rightarrow> EvaluationJob \<Rightarrow> EvaluationJob" where
  "lease_evaluation now lease token j = claimed_evaluation now lease j"

definition evaluation_rank :: "EvaluationJob \<Rightarrow> string \<times> string \<times> string" where
  "evaluation_rank j = (ttxt (evj_RunAfter j), ttxt (evj_CreatedAt j), evj_RuleID j)"

interpretation delivery_queue: leased_queue djb_ID djb_Attempts due_delivery "\<lambda>j. ttxt (djb_NextAttemptAt j)" lease_delivery
  "\<lambda>lease later. \<not> time_text_less lease later"
  by unfold_locales (auto simp: lease_delivery_def claimed_delivery_def due_delivery_def)

interpretation evaluation_queue: leased_queue evj_RuleID evj_Attempts due_evaluation evaluation_rank lease_evaluation
  "\<lambda>lease later. \<not> time_text_less lease later"
  by unfold_locales (auto simp: lease_evaluation_def claimed_evaluation_def due_evaluation_def evaluation_unlocked_def)

lemma next_delivery_eq: "next_delivery now n t = delivery_queue.next_row now n (at_delivery_jobs t)"
  by (simp add: next_delivery_def delivery_queue.next_row_def)

lemma claim_delivery_eq:
  "claim_delivery now lease n t =
    (case delivery_queue.claim now lease token n (at_delivery_jobs t) of (j, rows) \<Rightarrow> (j, t\<lparr>at_delivery_jobs := rows\<rparr>))"
proof -
  have "lease_delivery now lease token = claimed_delivery now lease" by (simp add: lease_delivery_def [abs_def])
  then show ?thesis
    by (simp add: claim_delivery_def delivery_queue.claim_def next_delivery_eq split: option.splits)
qed

lemma next_evaluation_eq: "next_evaluation now n t = evaluation_queue.next_row now n (at_jobs t)"
  unfolding next_evaluation_def evaluation_queue.next_row_def by (simp add: evaluation_rank_def [abs_def])

lemma claim_evaluation_eq:
  "claim_evaluation now lease n t =
    (case evaluation_queue.claim now lease token n (at_jobs t) of (j, rows) \<Rightarrow> (j, t\<lparr>at_jobs := rows\<rparr>))"
proof -
  have "lease_evaluation now lease token = claimed_evaluation now lease" by (simp add: lease_evaluation_def [abs_def])
  then show ?thesis
    by (simp add: claim_evaluation_def evaluation_queue.claim_def next_evaluation_eq split: option.splits)
qed

section \<open>What the statements keep\<close>

lemma alerts_ok_on [simp]: "alerts_ok (on_alerts f d) = alerts_upto {} (f (db_alerts d))"
  by (simp add: alerts_ok_def on_alerts_def)

lemma keeps_exec_child:
  assumes "\<And>t. alerts_upto {} t \<Longrightarrow> parent t \<Longrightarrow> alerts_upto {} (f t)"
  shows "keeps (on_db alerts_ok) (exec_child parent f)"
  unfolding exec_child_def by (rule keeps_stmt) (use assms in \<open>auto simp: alerts_ok_def on_alerts_def split: if_splits\<close>)

lemma keeps_update_deliveries:
  assumes "\<And>j. hit j \<Longrightarrow> djb_ID (f j) = djb_ID j \<and> djb_EventID (f j) = djb_EventID j \<and> djb_Payload (f j) = djb_Payload j"
    "\<And>j. hit j \<Longrightarrow> delivery_job_ok j \<Longrightarrow> delivery_job_ok (f j)"
  shows "keeps (on_db alerts_ok) (update_deliveries hit f)"
  unfolding update_deliveries_def
  by (intro keeps_not_found keeps_execrows, simp, rule alerts_upto_delivery_jobs)
    (use assms in \<open>auto simp: alerts_ok_def\<close>)

lemma claimed_delivery_ok: "delivery_job_ok j \<Longrightarrow> djb_Status j \<noteq> JobDelivered \<Longrightarrow> delivery_job_ok (claimed_delivery now lease j)"
  by (auto simp: delivery_job_ok_def claimed_delivery_def)

lemma alerts_upto_claim_delivery:
  assumes "alerts_upto X t"
  shows "alerts_upto X (snd (claim_delivery now lease n t))"
proof (cases "next_delivery now n t")
  case None
  then show ?thesis using assms by (simp add: claim_delivery_def)
next
  case (Some j)
  note j = delivery_queue.next_row_Some(1,2) [OF Some [unfolded next_delivery_eq]]
  have same: "q = j" if "q \<in> set (at_delivery_jobs t)" "djb_ID q = djb_ID j" for q
    using assms j(1) that distinct_keys_unique by (fastforce simp: alerts_upto_def alert_keys_ok_def)
  have "row_update (\<lambda>q. djb_ID q = djb_ID j) (claimed_delivery now lease) (at_delivery_jobs t) =
      row_update (\<lambda>q. djb_ID q = djb_ID j \<and> djb_Status q \<noteq> JobDelivered) (claimed_delivery now lease) (at_delivery_jobs t)"
    unfolding row_update_def using same j(2) by (fastforce simp: due_delivery_def)
  moreover have "alerts_upto X (t\<lparr>at_delivery_jobs :=
      row_update (\<lambda>q. djb_ID q = djb_ID j \<and> djb_Status q \<noteq> JobDelivered) (claimed_delivery now lease) (at_delivery_jobs t)\<rparr>)"
    using assms by (rule alerts_upto_delivery_jobs) (simp_all add: claimed_delivery_ok, simp add: claimed_delivery_def)
  ultimately show ?thesis using Some by (simp add: claim_delivery_def)
qed

lemma alerts_upto_enqueue:
  assumes "alerts_upto X t" "has_rule rid t"
    "\<And>j. evj_RuleID (f j) = evj_RuleID j" "evj_RuleID j = rid"
  shows "alerts_upto X (t\<lparr>at_jobs := row_upsert evj_RuleID f j (at_jobs t)\<rparr>)"
proof (rule alerts_upto_jobs [OF assms(1)])
  show "distinct_keys evj_RuleID (row_upsert evj_RuleID f j (at_jobs t))"
    using assms by (intro distinct_keys_upsert) (auto simp: alerts_upto_def alert_keys_ok_def)
  show "\<forall>q \<in> set (row_upsert evj_RuleID f j (at_jobs t)). has_rule (evj_RuleID q) t"
    by (rule all_row_upsert) (use assms in \<open>auto simp: alerts_upto_def alert_refs_ok_def\<close>)
qed

lemma alerts_upto_jobs_update:
  "alerts_upto X t \<Longrightarrow> (\<And>j. evj_RuleID (f j) = evj_RuleID j) \<Longrightarrow> alerts_upto X (t\<lparr>at_jobs := row_update p f (at_jobs t)\<rparr>)"
  by (rule alerts_upto_jobs)
    (auto simp: alerts_upto_def alert_keys_ok_def alert_refs_ok_def row_update_def [of p f] intro: distinct_keys_update [unfolded row_update_def])

lemma has_rule_jobs [simp]: "has_rule rid (t\<lparr>at_jobs := js\<rparr>) = has_rule rid t"
  by (simp add: has_rule_def)

lemma alerts_upto_enqueue_due:
  assumes "\<forall>rid \<in> set rids. has_rule rid t" "alerts_upto X t"
  shows "alerts_upto X (foldl (\<lambda>t rid. enqueue_due now rid t) t rids)"
  using assms
proof (induction rids arbitrary: t)
  case (Cons rid rids)
  have "alerts_upto X (enqueue_due now rid t)"
    unfolding enqueue_due_def using Cons.prems by (intro alerts_upto_enqueue) (auto simp: new_evaluation_job_def)
  moreover have "\<forall>rid' \<in> set rids. has_rule rid' (enqueue_due now rid t)"
    using Cons.prems by (simp add: enqueue_due_def)
  ultimately show ?case using Cons.IH by simp
qed simp

lemma due_rules_has_rule: "rid \<in> alr_ID ` set (due_rules now limit t) \<Longrightarrow> has_rule rid t"
  by (force simp: due_rules_def order_limit_def has_rule_iff dest!: in_set_takeD)

section \<open>What the operations keep\<close>

subsection \<open>Reading\<close>

lemma reads_alerts:
  "reads_only (FindDestinations ctx did limit)" "reads_only (FindRules ctx q)" "reads_only (FindState ctx rid k v)"
  "reads_only (FindStates ctx rid limit)" "reads_only (FindWorkspaceIDForAlertRule rid)" "reads_only (FindDeliveryJobStatus ctx jid)"
  unfolding FindDestinations_def FindRules_def FindState_def FindStates_def FindWorkspaceIDForAlertRule_def FindDeliveryJobStatus_def
  by (auto intro!: reads_onlyI keeps_rules split: option.splits)

lemmas keeps_reads_alerts [keeps_rules] = reads_alerts [THEN reads_only_keeps(1)] reads_alerts [THEN reads_only_keeps(2)] reads_alerts [THEN reads_only_keeps(3)]

lemma reads_alert_service:
  "reads_only (findRule ctx rid)" "reads_only (findDestination ctx did)" "reads_only (validateRequiredDestinationReference ctx did)"
  "reads_only (findMeter ctx name)" "reads_only (ruleResult ctx rule)" "reads_only (newDeliveryJob e rule st dst t)"
  unfolding findRule_def findDestination_def validateRequiredDestinationReference_def findMeter_def Meters_Find_def ruleResult_def
    newDeliveryJob_def Let_def
  by (auto intro!: reads_onlyI keeps_rules split: option.splits list.splits sum.splits)

lemmas keeps_reads_alert_service [keeps_rules] =
  reads_alert_service [THEN reads_only_keeps(1)] reads_alert_service [THEN reads_only_keeps(2)]
  reads_alert_service [THEN reads_only_keeps(3)]

lemma reads_groups:
  "reads_only (delivery_jobs_of rule states events dst t)" "reads_only (evaluate_groups ctx rule items previous t)"
  unfolding delivery_jobs_of_def evaluate_groups_def group_item_def missing_group_def Let_def
  by (auto intro!: reads_onlyI keeps_rules split: option.splits list.splits sum.splits prod.splits)

lemmas keeps_reads_groups [keeps_rules] = reads_groups [THEN reads_only_keeps(1)] reads_groups [THEN reads_only_keeps(2)]
  reads_groups [THEN reads_only_keeps(3)]

definition reads_usage :: "UsageRepository \<Rightarrow> bool" where
  "reads_usage usage \<longleftrightarrow> (\<forall>ctx q. reads_only (ur_Aggregate usage ctx q)) \<and> (\<forall>ctx q. reads_only (ur_FindBreakdown usage ctx q))"

subsection \<open>Rules\<close>

lemma normalize_alert_ok:
  "normalizeName x = Inr y \<Longrightarrow> y \<noteq> [] \<and> RuneCountInString y \<le> alert_MaxNameRunes"
  "normalizeRequired x m = Inr y \<Longrightarrow> y \<noteq> []"
  "normalizeDuration v a b l = Inr w \<Longrightarrow> w = 0 \<or> a \<le> w \<and> w \<le> b"
  "normalizeComparator c = Inr d \<Longrightarrow> \<forall>s. d \<noteq> ComparatorOther s"
  by (auto simp: normalizeName_def normalizeRequired_def normalizeDuration_def normalizeComparator_def Let_def split: if_splits Comparator.splits)

lemma validateRule_valid: "validateRule rule entries now = Inr r \<Longrightarrow> valid_rule r"
  by (auto simp: validateRule_def try_res_eq_Inr valid_rule_def DefaultWindow_def DefaultEvaluationInterval_def
      Hour_def Minute_def Second_def finite_f64_def dest!: normalize_alert_ok)

lemma valid_stored_rule: "valid_rule r \<Longrightarrow> valid_rule (stored_rule r)"
  by (auto simp: valid_rule_def stored_rule_def Hour_def Minute_def Second_def)

lemma ensures_FindRules: "ensures (quiet alerts_ok) (FindRules ctx q) (\<lambda>rules _. \<forall>r \<in> set rules. valid_rule r)"
  unfolding FindRules_def query_def
  by (force simp: ensures_def quiet_def order_desc_limit_def attempt_eq_Inr with_workspace_def alerts_ok_def alerts_upto_def
      alert_rows_ok_def dest!: stmt_ok in_set_takeD)

lemma ensures_findRule: "ensures (quiet alerts_ok) (findRule ctx rid) (\<lambda>r _. valid_rule r)"
proof (rule ensuresI)
  fix s r t assume s: "quiet alerts_ok s" and run: "findRule ctx rid s = (Inr r, t)"
  then obtain id rules u where "FindRules ctx (rule_query id [] [] None 1) s = (Inr rules, u)" "r \<in> set rules"
    by (auto simp: findRule_def attempt_eq_Inr neq_Nil_conv split: list.split_asm)
  then show "valid_rule r" using ensuresD [OF ensures_FindRules _ s] by blast
qed

lemma keeps_save_and_enqueue:
  "valid_rule rule \<Longrightarrow> keeps (on_db alerts_ok) (save_and_enqueue ctx rule now)"
  unfolding save_and_enqueue_def SaveRule_def EnqueueEvaluationJob_def enqueue_evaluation_def
  by (auto intro!: keeps_rules keeps_exec keeps_exec_child alerts_upto_rule valid_stored_rule alerts_upto_enqueue
      simp: new_evaluation_job_def) (simp add: alerts_ok_def)

subsection \<open>Saving an evaluation\<close>

text \<open>The job that an event of a rule is to be delivered with.\<close>

definition new_job_of :: "AlertEvent \<Rightarrow> DeliveryJob \<Rightarrow> bool" where
  "new_job_of e j \<longleftrightarrow> djb_EventID j = ale_ID e \<and> wp_Event (djb_Payload j) = e \<and> djb_DeliveredAt j = None"

definition job_for :: "AlertEvent \<Rightarrow> DeliveryJob option \<Rightarrow> bool" where
  "job_for e j \<longleftrightarrow> (if ale_Type e = EventEvaluationFailed then j = None
    else (case j of None \<Rightarrow> False | Some j \<Rightarrow> new_job_of e j))"

lemma newDeliveryJob_ensures:
  "ensures P (newDeliveryJob e rule st dst t) (\<lambda>j _. new_job_of e j)"
  by (auto simp: ensures_def newDeliveryJob_def attempt_eq_Inr deliveryPayload_def new_job_of_def)

lemma delivery_jobs_ensures:
  assumes "alr_DestinationID rule \<noteq> []"
  shows "ensures P (delivery_jobs_of rule states events dst t)
    (\<lambda>jobs _. distinct (map ale_ID events) \<longrightarrow> (\<forall>e \<in> set events. job_for e (fmlookup jobs (ale_ID e))))"
proof -
  define I where "I = (\<lambda>prev jobs (_ :: world). fset (fmdom jobs) \<subseteq> ale_ID ` set prev \<and>
    (distinct (map ale_ID prev) \<longrightarrow> (\<forall>e \<in> set prev. job_for e (fmlookup jobs (ale_ID e)))))"
  have "ensures (I prev jobs) (if ale_Type e = EventEvaluationFailed \<or> alr_DestinationID rule = [] then return_ok jobs
    else attempt (newDeliveryJob e rule (state_of_event states e) dst t) (\<lambda>job.
      return_ok (fmupd (ale_ID e) job jobs))) (I (prev @ [e]))" for prev jobs e
  proof (rule ensuresI)
    fix s jobs' u assume I: "I prev jobs s" and run: "(if ale_Type e = EventEvaluationFailed \<or> alr_DestinationID rule = [] then return_ok jobs
      else attempt (newDeliveryJob e rule (state_of_event states e) dst t) (\<lambda>job. return_ok (fmupd (ale_ID e) job jobs))) s = (Inr jobs', u)"
    show "I (prev @ [e]) jobs' u"
    proof (cases "ale_Type e = EventEvaluationFailed")
      case True
      then have "jobs' = jobs" using run by simp
      moreover have "fmlookup jobs (ale_ID e) = None" if "ale_ID e \<notin> ale_ID ` set prev"
        using I that by (auto simp: I_def fmdom_notD)
      ultimately show ?thesis using I True by (auto simp: I_def job_for_def)
    next
      case False
      then obtain j v where j: "newDeliveryJob e rule (state_of_event states e) dst t s = (Inr j, v)" "jobs' = fmupd (ale_ID e) j jobs"
        using run assms by (auto simp: attempt_eq_Inr)
      have "job_for e (fmlookup jobs' (ale_ID e))"
        using ensuresD [OF newDeliveryJob_ensures j(1), of "\<lambda>_. True"] False j(2) by (simp add: job_for_def)
      moreover have "fmlookup jobs' (ale_ID e') = fmlookup jobs (ale_ID e')" if "e' \<in> set prev" "distinct (map ale_ID (prev @ [e]))" for e'
        using that j(2) by force
      ultimately show ?thesis using I j(2) by (auto simp: I_def)
    qed
  qed
  then have "ensures (I [] fmempty) (delivery_jobs_of rule states events dst t) (I events)"
    unfolding delivery_jobs_of_def by (rule ensures_foreach)
  then show ?thesis by (rule ensures_weaken) (auto simp: I_def)
qed

text \<open>An event and its job are saved together, so that nothing waits in the end.\<close>

definition save_event_row :: "ctx \<Rightarrow> (string, DeliveryJob) fmap \<Rightarrow> AlertEvent \<Rightarrow> (world, unit) proc" where
  "save_event_row ctx jobs event = attempt (SaveAlertEvent event) (\<lambda>_.
    case fmlookup jobs (ale_ID event) of None \<Rightarrow> return_ok () | Some job \<Rightarrow> SaveDeliveryJob ctx job)"

lemma stmt_result: "stmt f w = (Inr x, u) \<Longrightarrow> w_db u = snd (f (w_db w)) \<and> fst (f (w_db w)) = Inr x"
  by (drule stmt_ok) simp

lemma SaveAlertEvent_ok:
  assumes "SaveAlertEvent e s = (Inr (), u)"
  shows "ale_ID e \<notin> ale_ID ` set (at_events (db_alerts (w_db s)))" "has_rule (ale_RuleID e) (db_alerts (w_db s))"
    "db_alerts (w_db u) = (db_alerts (w_db s))\<lparr>at_events := at_events (db_alerts (w_db s)) @ [e]\<rparr>"
  using stmt_result [OF assms [unfolded SaveAlertEvent_def]] by (auto simp: on_alerts_def split: if_splits)

lemma SaveDeliveryJob_ok:
  assumes "SaveDeliveryJob ctx job s = (Inr (), u)"
  obtains ws where
    "db_alerts (w_db u) = save_delivery_job_row (job\<lparr>djb_WorkspaceID := ws, djb_Status := JobPending, djb_Attempts := 0,
      djb_NextAttemptAt := djb_CreatedAt job, djb_UpdatedAt := djb_CreatedAt job\<rparr>) (db_alerts (w_db s))"
    "distinct_keys djb_ID (at_delivery_jobs (db_alerts (w_db u)))"
proof -
  obtain ws where "stmt (\<lambda>d. let t = db_alerts d; t' = save_delivery_job_row (job\<lparr>djb_WorkspaceID := ws, djb_Status := JobPending,
          djb_Attempts := 0, djb_NextAttemptAt := djb_CreatedAt job, djb_UpdatedAt := djb_CreatedAt job\<rparr>) t in
      if \<not> has_event (djb_EventID job) t then (Inl foreign_key_violation, d)
      else if \<not> distinct_keys djb_ID (at_delivery_jobs t') then (Inl unique_violation, d)
      else (Inr (), on_alerts (\<lambda>_. t') d)) s = (Inr (), u)"
    using assms by (auto simp: SaveDeliveryJob_def with_workspace_def attempt_eq_Inr)
  from stmt_result [OF this] that [of ws] show thesis by (auto simp: on_alerts_def Let_def split: if_splits)
qed

lemma save_event_row_ok:
  assumes "on_db alerts_ok s" "job_for e (fmlookup jobs (ale_ID e))" "save_event_row ctx jobs e s = (Inr (), u)"
  shows "on_db alerts_ok u"
proof -
  obtain v where one: "SaveAlertEvent e s = (Inr (), v)"
    and two: "(case fmlookup jobs (ale_ID e) of None \<Rightarrow> return_ok () | Some job \<Rightarrow> SaveDeliveryJob ctx job) v = (Inr (), u)"
    using assms(3) by (auto simp: save_event_row_def attempt_eq_Inr)
  note ev = SaveAlertEvent_ok [OF one]
  have v: "alerts_upto (if ale_Type e = EventEvaluationFailed then {} else {ale_ID e}) (db_alerts (w_db v))"
    unfolding ev(3) by (rule alerts_upto_event) (use assms(1) ev(1,2) in \<open>auto simp: on_db_def alerts_ok_def\<close>)
  show ?thesis
  proof (cases "fmlookup jobs (ale_ID e)")
    case None
    then show ?thesis using v two assms(2) by (auto simp: job_for_def on_db_def alerts_ok_def split: if_splits)
  next
    case (Some j)
    have j: "ale_Type e \<noteq> EventEvaluationFailed" "new_job_of e j"
      using assms(2) Some by (auto simp: job_for_def split: if_splits)
    obtain ws where ws: "db_alerts (w_db u) = save_delivery_job_row (j\<lparr>djb_WorkspaceID := ws, djb_Status := JobPending, djb_Attempts := 0,
        djb_NextAttemptAt := djb_CreatedAt j, djb_UpdatedAt := djb_CreatedAt j\<rparr>) (db_alerts (w_db v))"
      "distinct_keys djb_ID (at_delivery_jobs (db_alerts (w_db u)))"
      using two Some by (auto elim: SaveDeliveryJob_ok)
    show ?thesis unfolding on_db_def alerts_ok_def ws(1)
      by (rule alerts_upto_delivery_job)
        (use v j ws ev(3) in \<open>auto simp: delivery_job_ok_def new_job_of_def\<close>)
  qed
qed

lemma SaveDeliveryJob_events:
  "SaveDeliveryJob ctx job s = (Inr (), u) \<Longrightarrow> at_events (db_alerts (w_db u)) = at_events (db_alerts (w_db s))"
  by (elim SaveDeliveryJob_ok) (simp add: save_delivery_job_row_def)

text \<open>The unique identifiers make saving fail when two events share theirs.\<close>

lemma save_events_distinct:
  "ensures P (foreach events () (\<lambda>event _. save_event_row ctx jobs event)) (\<lambda>_ _. distinct (map ale_ID events))"
proof -
  define I where "I = (\<lambda>(prev :: AlertEvent list) (_ :: unit) (s :: world). distinct (map ale_ID prev) \<and> ale_ID ` set prev \<subseteq> ale_ID ` set (at_events (db_alerts (w_db s))))"
  have "ensures (I prev acc) (save_event_row ctx jobs e) (I (prev @ [e]))" for prev acc e
  proof (rule ensuresI)
    fix s x u assume I: "I prev acc s" and run: "save_event_row ctx jobs e s = (Inr x, u)"
    obtain v where one: "SaveAlertEvent e s = (Inr (), v)"
      and two: "(case fmlookup jobs (ale_ID e) of None \<Rightarrow> return_ok () | Some job \<Rightarrow> SaveDeliveryJob ctx job) v = (Inr (), u)"
      using run by (auto simp: save_event_row_def attempt_eq_Inr)
    have "at_events (db_alerts (w_db u)) = at_events (db_alerts (w_db s)) @ [e]"
      using two SaveAlertEvent_ok(3) [OF one] SaveDeliveryJob_events by (auto split: option.splits)
    then show "I (prev @ [e]) x u" using I SaveAlertEvent_ok(1) [OF one] by (auto simp: I_def)
  qed
  then have "ensures (I [] ()) (foreach events () (\<lambda>event _. save_event_row ctx jobs event)) (I events)"
    by (rule ensures_foreach)
  then show ?thesis by (rule ensures_weaken) (auto simp: I_def)
qed

lemma save_events_keep:
  assumes "distinct (map ale_ID events) \<longrightarrow> (\<forall>e \<in> set events. job_for e (fmlookup jobs (ale_ID e)))"
  shows "ensures (on_db alerts_ok) (foreach events () (\<lambda>event _. save_event_row ctx jobs event)) (\<lambda>_. on_db alerts_ok)"
proof (cases "distinct (map ale_ID events)")
  case True
  define I where "I = (\<lambda>(prev :: AlertEvent list) (_ :: unit) (s :: world). set prev \<subseteq> set events \<longrightarrow> on_db alerts_ok s)"
  have "ensures (I prev acc) (save_event_row ctx jobs e) (I (prev @ [e]))" for prev acc e
    using True assms save_event_row_ok by (fastforce simp: I_def ensures_def)
  then have "ensures (I [] ()) (foreach events () (\<lambda>event _. save_event_row ctx jobs event)) (I events)"
    by (rule ensures_foreach)
  then show ?thesis by (rule ensures_weaken) (auto simp: I_def)
next
  case False
  then show ?thesis
    using save_events_distinct [of "on_db alerts_ok" events ctx jobs] by (auto simp: ensures_def)
qed

lemma keeps_alert_rows:
  "keeps (on_db alerts_ok) (SaveState st)" "keeps (on_db alerts_ok) (UpdateRuleNextEvaluation rid a b)"
  unfolding SaveState_def UpdateRuleNextEvaluation_def
  by (auto intro!: keeps_rules keeps_exec_child keeps_execrows alerts_upto_states alerts_upto_next_evaluation simp: alerts_ok_def)
    (simp_all add: alerts_ok_def [symmetric] alerts_upto_next_evaluation)

lemma save_evaluation_rows_keep:
  assumes "distinct (map ale_ID events) \<longrightarrow> (\<forall>e \<in> set events. job_for e (fmlookup jobs (ale_ID e)))"
  shows "ensures (on_db alerts_ok) (save_evaluation_rows ctx rule states events jobs now) (\<lambda>_. on_db alerts_ok)"
  unfolding save_evaluation_rows_def
  by (rule ensures_attempt [OF ensures_keeps [OF keeps_foreach [OF keeps_alert_rows(1)]]],
      rule ensures_attempt [OF save_events_keep [OF assms, unfolded save_event_row_def]],
      rule ensures_weaken [OF ensures_keeps [OF keeps_alert_rows(2)]], simp_all)

lemma keeps_saveEvaluations:
  assumes "alr_DestinationID rule \<noteq> []"
  shows "keeps (quiet alerts_ok) (saveEvaluations ctx rule states events now)"
proof -
  have "keeps (quiet alerts_ok) (attempt (delivery_jobs_of rule states events dst now) (\<lambda>jobs.
      in_transaction (save_evaluation_rows ctx rule states events jobs now)))" for dst
    by (rule keeps_attempt_ensures [OF reads_only_keeps(3) [OF reads_groups(1)] delivery_jobs_ensures [OF assms]])
      (intro in_transaction_quiet save_evaluation_rows_keep)
  then have "keeps (quiet alerts_ok) (attempt (if b then attempt (findDestination ctx did) (\<lambda>x. return_ok (Some x)) else return_ok None)
      (\<lambda>destination. attempt (delivery_jobs_of rule states events destination now) (\<lambda>jobs.
        in_transaction (save_evaluation_rows ctx rule states events jobs now))))" for b did
    by (rule keeps_attempt [rotated]) (auto intro!: keeps_rules)
  then show ?thesis by (simp only: saveEvaluations_def)
qed

lemma keeps_Alert_Evaluate:
  assumes "reads_usage usage"
  shows "keeps (quiet alerts_ok) (Alert_Evaluate usage ctx ruleID)"
proof -
  have run: "keeps (quiet alerts_ok) (evaluateGlobal usage ctx rule m)" "keeps (quiet alerts_ok) (evaluateGrouped usage ctx rule m)"
    if "valid_rule rule" for rule m
  proof -
    have save: "keeps (quiet alerts_ok) (saveEvaluations c rule st ev t)" for c st ev t
      using that by (intro keeps_saveEvaluations) (simp add: valid_rule_def)
    show "keeps (quiet alerts_ok) (evaluateGlobal usage ctx rule m)" "keeps (quiet alerts_ok) (evaluateGrouped usage ctx rule m)"
      unfolding evaluateGlobal_def evaluateGrouped_def evaluation_failed_def saveEvaluation_def Let_def
      using assms by (auto intro!: keeps_rules save intro: reads_only_keeps(3) simp: reads_usage_def split: sum.splits option.splits prod.splits)
  qed
  have state: "keeps (quiet alerts_ok) (SaveState st)" for st
    by (rule keeps_quietI [OF keeps_alert_rows(1)]) (simp add: SaveState_def exec_child_def keeps_rules)
  show ?thesis
    unfolding Alert_Evaluate_def Let_def
    by (rule keeps_attempt_ensures [OF reads_only_keeps(3) [OF reads_alert_service(1)] ensures_findRule])
      (auto intro!: keeps_rules run state)
qed

subsection \<open>The other operations\<close>

lemma keeps_enqueue_alerts:
  "keeps (on_db alerts_ok) (EnqueueEvaluationJob rid a b)" "keeps (on_db alerts_ok) (EnqueueDueEvaluationJobs now limit)"
proof -
  show "keeps (on_db alerts_ok) (EnqueueEvaluationJob rid a b)"
    unfolding EnqueueEvaluationJob_def enqueue_evaluation_def
    by (rule keeps_exec_child, rule alerts_upto_enqueue) (auto simp: new_evaluation_job_def)
  have "alerts_ok d \<Longrightarrow> alerts_upto {} (foldl (\<lambda>t rid. enqueue_due now rid t) (db_alerts d) (map alr_ID (due_rules now limit (db_alerts d))))" for d
    by (rule alerts_upto_enqueue_due) (auto simp: alerts_ok_def due_rules_has_rule)
  then show "keeps (on_db alerts_ok) (EnqueueDueEvaluationJobs now limit)"
    unfolding EnqueueDueEvaluationJobs_def by (auto intro!: keeps_rules keeps_execrows)
qed

lemma keeps_evaluation_jobs:
  "keeps (on_db alerts_ok) (ClaimEvaluationJob ttl n)" "keeps (on_db alerts_ok) (CompleteEvaluationJob rid k)"
  "keeps (on_db alerts_ok) (FailEvaluationJob rid k retry)" "keeps (on_db alerts_ok) (DeadLetterEvaluationJob ctx rid k m)"
proof -
  have claim: "alerts_upto {} (snd (claim_evaluation now lease n t))" if "alerts_upto {} t" for now lease n t
    using that by (auto simp: claim_evaluation_def claimed_evaluation_def intro: alerts_upto_jobs_update split: option.splits)
  have "alerts_ok d \<Longrightarrow> (case claim_evaluation now lease n (db_alerts d) of (row, t) \<Rightarrow> (Inr row, on_alerts (\<lambda>_. t) d)) = (Inr x, d') \<Longrightarrow>
      alerts_ok d'" for d x d' now lease n
    using claim [of "db_alerts d" now lease n] by (auto simp: alerts_ok_def on_alerts_def split: prod.splits)
  then show "keeps (on_db alerts_ok) (ClaimEvaluationJob ttl n)"
    unfolding ClaimEvaluationJob_def Repo_ClaimEvaluationJob_def
    by (auto intro!: keeps_rules keeps_stmt split: sum.splits option.splits)
  have complete: "keeps (on_db alerts_ok) (Repo_CompleteEvaluationJob r k)" for r
    unfolding Repo_CompleteEvaluationJob_def
    by (intro keeps_not_found keeps_execrows, simp, rule alerts_upto_jobs)
      (auto simp: alerts_ok_def alerts_upto_def alert_keys_ok_def alert_refs_ok_def intro: distinct_keys_delete)
  then show "keeps (on_db alerts_ok) (CompleteEvaluationJob rid k)"
    unfolding CompleteEvaluationJob_def by (auto intro!: keeps_rules)
  show "keeps (on_db alerts_ok) (FailEvaluationJob rid k retry)"
    unfolding FailEvaluationJob_def Repo_RequeueEvaluationJob_def Let_def
    by (auto intro!: keeps_rules keeps_execrows alerts_upto_jobs_update) (simp_all add: alerts_ok_def)
  have "keeps (on_db alerts_ok) (SaveEvaluationDeadLetter ctx l)" for l
    unfolding SaveEvaluationDeadLetter_def
    by (auto intro!: keeps_rules keeps_exec_unique simp: alerts_upto_frame) (simp add: alerts_ok_def)
  then show "keeps (on_db alerts_ok) (DeadLetterEvaluationJob ctx rid k m)"
    unfolding DeadLetterEvaluationJob_def by (auto intro!: keeps_rules complete)
qed

lemma keeps_deliveries:
  "keeps (on_db alerts_ok) (RecordDelivery dc)" "keeps (on_db alerts_ok) (ClaimDeliveryJob ctx ttl n)"
  "keeps (on_db alerts_ok) (CompleteDeliveryJob ctx jid k dc)" "keeps (on_db alerts_ok) (FailDeliveryJob ctx jid k n retry dc)"
  "keeps (on_db alerts_ok) (RequeueDeliveryJob ctx jid)"
proof -
  show recorded: "keeps (on_db alerts_ok) (RecordDelivery dc)" for dc
    unfolding RecordDelivery_def SaveDelivery_def
    by (auto intro!: keeps_rules keeps_stmt alerts_upto_deliveries split: if_splits) (auto simp: alerts_ok_def)
  have "alerts_ok d \<Longrightarrow> (case claim_delivery now lease n (db_alerts d) of (row, t) \<Rightarrow> (Inr row, on_alerts (\<lambda>_. t) d)) = (Inr x, d') \<Longrightarrow>
      alerts_ok d'" for d x d' now lease n
    using alerts_upto_claim_delivery [of "{}" "db_alerts d" now lease n] by (auto simp: alerts_ok_def on_alerts_def split: prod.splits)
  then show "keeps (on_db alerts_ok) (ClaimDeliveryJob ctx ttl n)"
    unfolding ClaimDeliveryJob_def Repo_ClaimDeliveryJob_def Let_def
    by (auto intro!: keeps_rules keeps_stmt split: sum.splits option.splits)
  show "keeps (on_db alerts_ok) (CompleteDeliveryJob ctx jid k dc)" "keeps (on_db alerts_ok) (FailDeliveryJob ctx jid k n retry dc)"
    "keeps (on_db alerts_ok) (RequeueDeliveryJob ctx jid)"
    unfolding CompleteDeliveryJob_def FailDeliveryJob_def RequeueDeliveryJob_def Repo_CompleteDeliveryJob_def
      Repo_RetryDeliveryJob_def Repo_RequeueDeliveryJob_def Let_def
    by (auto intro!: keeps_rules recorded keeps_update_deliveries simp: running_delivery_def delivery_job_ok_def)
qed

lemma keeps_rules_service:
  "keeps (on_db alerts_ok) (Alert_Create ctx sc)" "keeps (on_db alerts_ok) (Alert_Update ctx uc)"
  "keeps (on_db alerts_ok) (Alert_Delete ctx rid)" "keeps (on_db alerts_ok) (DeleteDestination ctx did)"
  "keeps (on_db alerts_ok) (Alert_EnqueueForUsageEvents ctx events)" "keeps (on_db alerts_ok) (EnqueueDueRules limit)"
proof -
  have save: "valid_rule r \<Longrightarrow> keeps (on_db alerts_ok) (save_and_enqueue ctx (r\<lparr>alr_ID := i, alr_CreatedAt := a, alr_UpdatedAt := b, alr_NextEvaluateAt := c\<rparr>) t)"
    "valid_rule r \<Longrightarrow> keeps (on_db alerts_ok) (save_and_enqueue ctx (r\<lparr>alr_CreatedAt := a, alr_UpdatedAt := b, alr_NextEvaluateAt := c\<rparr>) t)"
    for r i a b c t by (rule keeps_save_and_enqueue; simp add: valid_rule_def)+
  have checked: "keeps (on_db alerts_ok) (attempt (lift_res (validateRule rule entries now)) k)"
    if "\<And>r. valid_rule r \<Longrightarrow> keeps (on_db alerts_ok) (k r)" for rule entries now k
    by (rule keeps_attempt_ensures [of _ _ valid_rule])
      (auto intro: keeps_rules that ensures_lift dest: validateRule_valid)
  show "keeps (on_db alerts_ok) (Alert_Create ctx sc)"
    unfolding Alert_Create_def ruleFromInput_def by (intro keeps_rules checked save)
  show "keeps (on_db alerts_ok) (Alert_Update ctx uc)"
    unfolding Alert_Update_def by (auto intro!: keeps_rules checked save split: option.splits)
  show "keeps (on_db alerts_ok) (Alert_Delete ctx rid)"
    unfolding Alert_Delete_def DeleteRule_def
    by (auto intro!: keeps_rules keeps_execrows alerts_upto_delete_rule) (simp add: alerts_ok_def)
  show "keeps (on_db alerts_ok) (DeleteDestination ctx did)"
    unfolding DeleteDestination_def Repo_DeleteDestination_def Let_def
    by (auto intro!: keeps_rules keeps_execrows simp: alerts_upto_frame) (simp add: alerts_ok_def)
  show "keeps (on_db alerts_ok) (Alert_EnqueueForUsageEvents ctx events)" "keeps (on_db alerts_ok) (EnqueueDueRules limit)"
    unfolding Alert_EnqueueForUsageEvents_def enqueue_matching_def EnqueueDueRules_def
    by (auto intro!: keeps_rules keeps_enqueue_alerts)
qed

section \<open>Successive states of a rule without groups\<close>

text \<open>The events of the successive states of a rule: those of \<^verbatim>\<open>evaluateGlobal\<close>'s switch, and the report of an
  evaluation that failed, whose state is \<^verbatim>\<open>error\<close>.\<close>

definition events_of_change :: "AlertState option \<Rightarrow> AlertState \<Rightarrow> AlertEventType list" where
  "events_of_change previous s = (if als_Status s = AlertStateError then [EventEvaluationFailed]
    else case transition previous s of None \<Rightarrow> [] | Some kind \<Rightarrow> [kind])"

primrec events_of_run :: "AlertState option \<Rightarrow> AlertState list \<Rightarrow> AlertEventType list" where
  "events_of_run previous [] = []"
| "events_of_run previous (s # ss) = events_of_change previous s @ events_of_run (Some s) ss"

definition expected_event :: "AlertState option \<Rightarrow> AlertEventType" where
  "expected_event previous = (case previous of None \<Rightarrow> EventTriggered
    | Some p \<Rightarrow> if als_Status p = AlertStateAlerting then EventResolved else EventTriggered)"

text \<open>Triggered and resolved events in turn, the first of the given kind.\<close>

primrec in_turn :: "AlertEventType \<Rightarrow> AlertEventType list \<Rightarrow> bool" where
  "in_turn kind [] \<longleftrightarrow> True"
| "in_turn kind (e # es) \<longleftrightarrow> e = kind \<and> in_turn (if e = EventTriggered then EventResolved else EventTriggered) es"

lemma events_in_turn:
  "\<forall>s \<in> set states. als_Status s \<noteq> AlertStateError \<Longrightarrow> in_turn (expected_event previous) (events_of_run previous states)"
proof (induction states arbitrary: previous)
  case (Cons s states)
  then have "in_turn (expected_event (Some s)) (events_of_run (Some s) states)" by simp
  then show ?case using Cons.prems
    by (auto simp: events_of_change_def transition_def expected_event_def split: option.splits)
qed simp

subsection \<open>The evaluation and its stored state\<close>

definition stored_state :: "string \<Rightarrow> AlertTables \<Rightarrow> AlertState option" where
  "stored_state rid t = row_find (\<lambda>s. alert_state_key s = (rid, [], [])) (at_states t)"

definition stored_as :: "ctx \<Rightarrow> string \<Rightarrow> AlertState option \<Rightarrow> db \<Rightarrow> bool" where
  "stored_as ctx rid previous d \<longleftrightarrow> stored_state rid (db_alerts d) = previous \<and>
    (case RequireWorkspaceID ctx of Inl _ \<Rightarrow> False | Inr ws \<Rightarrow> rule_in_workspace ws rid (db_alerts d))"

lemma ensures_FindState:
  "ensures (on_db (stored_as ctx rid previous)) (FindState ctx rid [] []) (\<lambda>found. on_db (\<lambda>d. stored_as ctx rid previous d \<and> found = previous))"
  unfolding FindState_def
  by (intro ensures_with_workspace ensures_query) (auto simp: stored_as_def stored_state_def split: sum.splits)

lemma keeps_states:
  assumes "\<And>f d. P d \<Longrightarrow> (\<And>t. at_states (f t) = at_states t) \<Longrightarrow> P (on_alerts f d)"
  shows "keeps (on_db P) (SaveAlertEvent e)" "keeps (on_db P) (SaveDeliveryJob ctx job)" "keeps (on_db P) (UpdateRuleNextEvaluation rid a b)"
proof -
  show "keeps (on_db P) (SaveAlertEvent e)"
    unfolding SaveAlertEvent_def by (rule keeps_stmt) (auto split: if_splits intro!: assms)
  have "at_states (save_delivery_job_row j t) = at_states t" for j t by (simp add: save_delivery_job_row_def)
  then have "P d \<Longrightarrow> P (on_alerts (\<lambda>_. save_delivery_job_row j (db_alerts d)) d)" for j d
    using assms [of d "save_delivery_job_row j"] by (simp add: on_alerts_def)
  then show "keeps (on_db P) (SaveDeliveryJob ctx job)"
    unfolding SaveDeliveryJob_def Let_def by (intro keeps_with_workspace keeps_stmt) (auto split: if_splits)
  show "keeps (on_db P) (UpdateRuleNextEvaluation rid a b)"
    unfolding UpdateRuleNextEvaluation_def by (intro keeps_not_found keeps_execrows assms) auto
qed

lemma ensures_SaveState:
  assumes "alert_state_key st = (rid, [], [])"
  shows "ensures P (SaveState st) (\<lambda>_. on_db (\<lambda>d. stored_state rid (db_alerts d) = Some st))"
proof (rule ensuresI)
  fix s x u assume "SaveState st s = (Inr x, u)"
  then have "db_alerts (w_db u) = save_state_row st (db_alerts (w_db s))"
    unfolding SaveState_def exec_child_def by (auto dest!: stmt_result simp: on_alerts_def split: if_splits)
  then show "on_db (\<lambda>d. stored_state rid (db_alerts d) = Some st) u"
    using assms row_find_upsert [of alert_state_key st "\<lambda>_. st" "(rid, [], [])" "at_states (db_alerts (w_db s))"]
    by (auto simp: on_db_def stored_state_def save_state_row_def split: option.splits)
qed

lemma ensures_saveEvaluation:
  assumes "alert_state_key st = (rid, [], [])"
  shows "ensures (on_db P) (saveEvaluation ctx rule st event now) (\<lambda>_. on_db (\<lambda>d. stored_state rid (db_alerts d) = Some st))"
proof -
  let ?Q = "\<lambda>d. stored_state rid (db_alerts d) = Some st"
  have rows: "ensures (on_db (\<lambda>_. True)) (save_evaluation_rows ctx rule [st] events jobs now) (\<lambda>_. on_db ?Q)" for events jobs
    unfolding save_evaluation_rows_def
    by (rule ensures_attempt [of _ _ "\<lambda>_. on_db ?Q"])
      (auto intro!: ensures_attempt [OF ensures_SaveState [OF assms]] ensures_ok ensures_keeps keeps_rules keeps_states
        simp: stored_state_def on_alerts_def split: option.splits)
  have "ensures (on_db (\<lambda>_. True)) (in_transaction (save_evaluation_rows ctx rule [st] events jobs now)) (\<lambda>_. on_db ?Q)" for events jobs
    by (rule ensures_in_transaction [OF rows])
  then have "on_db ?Q u" if "in_transaction (save_evaluation_rows ctx rule [st] events jobs now) s = (Inr x, u)" for events jobs s x u
    using that by (auto simp: ensures_def on_db_def)
  then show ?thesis
    unfolding saveEvaluation_def saveEvaluations_def by (intro ensuresI) (auto simp: attempt_eq_Inr)
qed

subsection \<open>All outcomes of an evaluation\<close>

definition ends_in :: "(world \<Rightarrow> bool) \<Rightarrow> (world, 'a) proc \<Rightarrow> (go_error + 'a \<Rightarrow> world \<Rightarrow> bool) \<Rightarrow> bool" where
  "ends_in P m Q \<longleftrightarrow> (\<forall>w r u. P w \<longrightarrow> m w = (r, u) \<longrightarrow> Q r u)"

text \<open>A successful evaluation stores its state and raises the event of the change; a failed one leaves the
  stored state or replaces it with an error.\<close>

definition global_outcome :: "Rule \<Rightarrow> AlertState option \<Rightarrow> go_error + AlertEvaluation \<Rightarrow> world \<Rightarrow> bool" where
  "global_outcome rule previous r u \<longleftrightarrow> (case r of
     Inr v \<Rightarrow> stored_state (alr_ID rule) (db_alerts (w_db u)) = Some (aev_State v) \<and>
       (\<exists>eid now value n. aev_State v = globalState rule value n now \<and>
          aev_Events v = map (\<lambda>kind. state_event_of eid (alr_ID rule) kind (aev_State v) now) (events_of_change previous (aev_State v)))
   | Inl e \<Rightarrow> stored_state (alr_ID rule) (db_alerts (w_db u)) = previous \<or>
       (\<exists>now message. stored_state (alr_ID rule) (db_alerts (w_db u)) =
          Some (status_state (alr_ID rule) AlertStateError 0 message now)))"

lemma all_or_nothing_saveEvaluation: "all_or_nothing (saveEvaluation ctx rule st event now)"
  unfolding saveEvaluation_def saveEvaluations_def
  by (intro all_or_nothing_attempt all_or_nothing_transaction reads_groups)
    (auto intro!: reads_onlyI keeps_rules)

lemma ruleResult_ok: "ruleResult ctx rule w = (r, u) \<Longrightarrow> \<exists>x. r = Inr x"
  unfolding ruleResult_def Let_def
  by (auto simp: attempt_apply inspect_apply split: prod.splits sum.splits if_splits)

lemma reads_only_run: "reads_only m \<Longrightarrow> m w = (r, u) \<Longrightarrow> w_db u = w_db w \<and> w_in_tx u = w_in_tx w"
  by (auto simp: reads_only_def)

lemma globalState_fields:
  "als_Status (globalState rule x n t) \<noteq> AlertStateError" "alert_state_key (globalState rule x n t) = (alr_ID rule, [], [])"
  by (auto simp: globalState_def status_state_def alert_state_key_def Let_def)

lemma evaluation_failed_outcome:
  assumes "quiet (stored_as ctx rid previous) w" "rid = alr_ID rule" "evaluation_failed ctx rule now e w = (r, u)"
  shows "\<exists>f. r = Inl f" "stored_state rid (db_alerts (w_db u)) = previous \<or>
    (\<exists>now message. stored_state rid (db_alerts (w_db u)) = Some (status_state rid AlertStateError 0 message now))"
proof -
  obtain eid v where "fresh_id w = (Inr eid, v)" by (auto simp: fresh_id_def)
  then have v: "quiet (stored_as ctx rid previous) v" using keepsD [OF keeps_quiet_prims(2) assms(1)] by simp
  let ?st = "status_state (alr_ID rule) AlertStateError 0 (error_text e) now"
  obtain event q where save: "saveEvaluation ctx rule ?st event now v = (q, u)" and r: "\<exists>f. r = Inl f"
    using assms(3) \<open>fresh_id w = _\<close>
    by (auto simp: evaluation_failed_def attempt_apply inspect_apply Let_def split: prod.splits sum.splits)
  show "\<exists>f. r = Inl f" by (rule r)
  show "stored_state rid (db_alerts (w_db u)) = previous \<or>
    (\<exists>now message. stored_state rid (db_alerts (w_db u)) = Some (status_state rid AlertStateError 0 message now))"
  proof (cases q)
    case (Inl f)
    then have "w_db u = w_db v" using all_or_nothing_saveEvaluation save v by (auto simp: all_or_nothing_def quiet_def)
    then show ?thesis using v by (simp add: quiet_def stored_as_def)
  next
    case (Inr x)
    have "alert_state_key ?st = (rid, [], [])" using assms(2) by (simp add: alert_state_key_def status_state_def)
    from ensuresD [OF ensures_saveEvaluation [OF this] save [unfolded Inr], of "\<lambda>_. True"] show ?thesis
      using assms(2) by (auto simp: on_db_def)
  qed
qed

lemma evaluateGlobal_cases:
  assumes "evaluateGlobal usage ctx rule meter w = (r, u)" "reads_usage usage" "quiet (stored_as ctx (alr_ID rule) previous) w"
  obtains (failed) w' now e where "quiet (stored_as ctx (alr_ID rule) previous) w'" "evaluation_failed ctx rule now e w' = (r, u)"
    | (error) f where "r = Inl f" "stored_state (alr_ID rule) (db_alerts (w_db u)) = previous"
    | (ok) v eid now x n where "r = Inr v" "aev_State v = globalState rule x n now"
        "stored_state (alr_ID rule) (db_alerts (w_db u)) = Some (aev_State v)"
        "aev_Events v = map (\<lambda>kind. state_event_of eid (alr_ID rule) kind (aev_State v) now)
           (case transition previous (aev_State v) of None \<Rightarrow> [] | Some k \<Rightarrow> [k])"
proof -
  let ?rid = "alr_ID rule"
  let ?P = "stored_as ctx ?rid previous"
  obtain now w1 where clock: "clock_now w = (Inr now, w1)" by (cases "w_clock w") (auto simp: clock_now_def)
  have w1: "quiet ?P w1" using keepsD [OF keeps_quiet_prims(1) assms(3)] clock by simp
  let ?q = "NewAggregateQuery (alr_Subject rule) (alr_MeterName rule) (now - alr_Window rule) now
      (mtr_aggregation meter) (map_entries (alr_Metadata rule)) EmptyFilter"
  show thesis
  proof (cases ?q)
    case (Inl f)
    then show thesis using assms(1) clock w1 error by (auto simp: evaluateGlobal_def attempt_apply quiet_def stored_as_def)
  next
    case (Inr q)
    obtain a w2 where agg: "ur_Aggregate usage ctx q w1 = (a, w2)" by (cases "ur_Aggregate usage ctx q w1")
    have w2: "quiet ?P w2"
      using reads_only_run [of "ur_Aggregate usage ctx q" w1 a w2] agg assms(2) w1 by (auto simp: reads_usage_def quiet_def)
    show thesis
    proof (cases a)
      case (Inl e)
      then have "evaluation_failed ctx rule now e w2 = (r, u)"
        using assms(1) clock Inr agg by (simp add: evaluateGlobal_def attempt_apply inspect_apply)
      with w2 failed show thesis by blast
    next
      case (Inr aggregate)
      define st where "st = globalState rule (agg_Quantity aggregate) (agg_UsageEvents aggregate) now"
      obtain p w3 where find: "FindState ctx ?rid [] [] w2 = (p, w3)" by (cases "FindState ctx ?rid [] [] w2")
      have w3: "quiet ?P w3" using reads_only_run [OF reads_alerts(3) find] w2 by (simp add: quiet_def)
      show thesis
      proof (cases p)
        case (Inl e)
        then show thesis using assms(1) clock \<open>?q = _\<close> agg Inr find w3 error
          by (auto simp: evaluateGlobal_def attempt_apply inspect_apply Let_def quiet_def stored_as_def)
      next
        case (Inr prev)
        have prev: "prev = previous"
          using ensuresD [OF ensures_FindState find [unfolded Inr]] w2 by (auto simp: on_db_def quiet_def)
        obtain event eid w4 where w4: "quiet ?P w4"
          and event: "map_option (\<lambda>k. state_event_of eid ?rid k st now) (transition previous st) = event"
          and rest: "attempt (saveEvaluation ctx rule st event now) (\<lambda>_. attempt (ruleResult ctx rule) (\<lambda>result.
            return_ok \<lparr>aev_Rule = result, aev_State = st, aev_Events = (case event of None \<Rightarrow> [] | Some e \<Rightarrow> [e])\<rparr>)) w4 = (r, u)"
        proof (cases "transition previous st")
          case None
          then show thesis using that [of w3 undefined None] w3 assms(1) clock \<open>?q = _\<close> agg \<open>a = _\<close> find Inr prev
            by (simp add: evaluateGlobal_def attempt_apply inspect_apply Let_def st_def [symmetric])
        next
          case (Some k)
          obtain eid w4 where fresh: "fresh_id w3 = (Inr eid, w4)" by (auto simp: fresh_id_def)
          have "quiet ?P w4" using keepsD [OF keeps_quiet_prims(2) w3] fresh by simp
          then show thesis using that [of w4 eid "Some (state_event_of eid ?rid k st now)"] Some assms(1) clock \<open>?q = _\<close> agg \<open>a = _\<close> find Inr prev fresh
            by (simp add: evaluateGlobal_def attempt_apply inspect_apply Let_def st_def [symmetric])
        qed
        obtain s w5 where save: "saveEvaluation ctx rule st event now w4 = (s, w5)" by (cases "saveEvaluation ctx rule st event now w4")
        show thesis
        proof (cases s)
          case (Inl e)
          then have "w_db w5 = w_db w4" using all_or_nothing_saveEvaluation save w4 by (auto simp: all_or_nothing_def quiet_def)
          then show thesis using rest save Inl w4 error by (auto simp: attempt_apply quiet_def stored_as_def)
        next
          case (Inr x)
          have stored: "stored_state ?rid (db_alerts (w_db w5)) = Some st"
            using ensuresD [OF ensures_saveEvaluation [of st ?rid] save [unfolded Inr], of "\<lambda>_. True"]
            by (simp add: st_def globalState_fields on_db_def)
          obtain result w6 where result: "ruleResult ctx rule w5 = (Inr result, w6)"
            using ruleResult_ok by (metis prod.collapse)
          have "w_db w6 = w_db w5" using reads_only_run [OF reads_alert_service(5) result] by simp
          moreover have "u = w6" "r = Inr \<lparr>aev_Rule = result, aev_State = st, aev_Events = (case event of None \<Rightarrow> [] | Some e \<Rightarrow> [e])\<rparr>"
            using rest save Inr result by (auto simp: attempt_apply)
          ultimately show thesis
            using ok [of "\<lparr>aev_Rule = result, aev_State = st, aev_Events = (case event of None \<Rightarrow> [] | Some e \<Rightarrow> [e])\<rparr>"
                "agg_Quantity aggregate" "agg_UsageEvents aggregate" now eid] stored event
            by (auto simp: st_def split: option.splits)
        qed
      qed
    qed
  qed
qed

lemma evaluateGlobal_outcome:
  "ends_in (\<lambda>w. reads_usage usage \<and> quiet (stored_as ctx (alr_ID rule) previous) w) (evaluateGlobal usage ctx rule meter)
    (global_outcome rule previous)"
  unfolding ends_in_def
proof (intro allI impI, elim conjE)
  fix w r u assume usage: "reads_usage usage" and w: "quiet (stored_as ctx (alr_ID rule) previous) w"
    and run: "evaluateGlobal usage ctx rule meter w = (r, u)"
  show "global_outcome rule previous r u"
    using run usage w
  proof (cases rule: evaluateGlobal_cases)
    case (failed w' now e)
    obtain f where "r = Inl f" using evaluation_failed_outcome(1) [OF failed(1) refl failed(2)] by blast
    then show ?thesis using evaluation_failed_outcome(2) [OF failed(1) refl failed(2)] unfolding global_outcome_def by simp
  next
    case (ok v eid now x n)
    then show ?thesis using globalState_fields(1) [of rule x n now]
      by (auto simp: global_outcome_def events_of_change_def)
  qed (auto simp: global_outcome_def)
qed

section \<open>The stored error of a rule with groups\<close>

definition error_stored :: "string \<Rightarrow> db \<Rightarrow> bool" where
  "error_stored rid d \<longleftrightarrow> (case stored_state rid (db_alerts d) of None \<Rightarrow> False | Some s \<Rightarrow> als_Status s = AlertStateError)"

text \<open>The usage can be read or not, but is never empty.\<close>

definition answers_usage :: "UsageRepository \<Rightarrow> bool" where
  "answers_usage usage \<longleftrightarrow> reads_usage usage \<and> (\<forall>ctx q w. fst (ur_FindBreakdown usage ctx q w) \<noteq> Inr [])"

lemma evaluate_groups_keys:
  assumes "alr_GroupBy rule \<noteq> []" "items \<noteq> []"
  shows "ensures P (evaluate_groups ctx rule items previous now) (\<lambda>r _. \<forall>s \<in> set (fst r). als_GroupKey s \<noteq> [])"
proof -
  define I where "I = (\<lambda>prev acc (_ :: world). (prev \<noteq> ([] :: BreakdownItem list) \<longrightarrow> fst acc \<noteq> []) \<and>
    (\<forall>s \<in> set (fst (acc :: AlertState list \<times> AlertEvent list)). als_GroupKey s \<noteq> []))"
  define J where "J = (\<lambda>(_ :: AlertState list) acc (_ :: world). fst acc \<noteq> [] \<and>
    (\<forall>s \<in> set (fst (acc :: AlertState list \<times> AlertEvent list)). als_GroupKey s \<noteq> []))"
  have "ensures (I prev acc) (group_item rule previous now item acc) (I (prev @ [item]))" for prev acc item
    using assms(1) by (auto simp: ensures_def I_def group_item_def Let_def attempt_eq_Inr groupedState_def status_state_def split: prod.splits if_splits)
  then have items: "ensures (I [] ([], [])) (foreach items ([], []) (group_item rule previous now)) (I items)"
    by (rule ensures_foreach)
  have "ensures (J prev acc) (missing_group rule seen now p acc) (J (prev @ [p]))" for prev acc p seen
    by (auto simp: ensures_def J_def missing_group_def Let_def attempt_eq_Inr split: prod.splits if_splits)
  then have missing: "ensures (J [] acc) (foreach previous acc (missing_group rule seen now)) (J previous)" for acc seen
    by (rule ensures_foreach)
  have two: "ensures (I items acc) (foreach previous acc (missing_group rule seen now)) (J previous)" for acc seen
    by (rule ensures_weaken [OF missing]) (use assms(2) in \<open>auto simp: I_def J_def\<close>)
  have "ensures (I [] ([], [])) (evaluate_groups ctx rule items previous now) (\<lambda>r _. \<forall>s \<in> set (fst r). als_GroupKey s \<noteq> [])"
    unfolding evaluate_groups_def
    by (rule ensures_attempt [OF items], rule ensures_attempt [OF two]) (auto simp: J_def ensures_def split: prod.splits)
  then show ?thesis by (rule ensures_weaken) (auto simp: I_def)
qed

lemma keeps_error_saveEvaluations:
  assumes "\<forall>s \<in> set states. alert_state_key s \<noteq> (rid, [], []) \<or> als_Status s = AlertStateError"
  shows "keeps (on_db (error_stored rid)) (saveEvaluations ctx rule states events now)"
proof -
  have "keeps (on_db (error_stored rid)) (SaveState st)" if "st \<in> set states" for st
  proof -
    have "error_stored rid (on_alerts (save_state_row st) d)" if "error_stored rid d" for d
      using that \<open>st \<in> set states\<close> assms row_find_upsert [of alert_state_key st "\<lambda>_. st" "(rid, [], [])" "at_states (db_alerts d)"]
      by (auto simp: error_stored_def stored_state_def on_alerts_def save_state_row_def split: option.splits if_splits)
    then show ?thesis unfolding SaveState_def exec_child_def by (intro keeps_stmt) (auto split: if_splits)
  qed
  moreover have "keeps (on_db (error_stored rid)) (SaveAlertEvent e)" "keeps (on_db (error_stored rid)) (SaveDeliveryJob c j)"
    "keeps (on_db (error_stored rid)) (UpdateRuleNextEvaluation r a b)" for e c j r a b
    by (rule keeps_states; simp add: error_stored_def stored_state_def on_alerts_def)+
  ultimately show ?thesis
    unfolding saveEvaluations_def save_evaluation_rows_def
    by (auto intro!: keeps_rules keeps_foreach_set split: option.splits)
qed

section \<open>Claims of a delivery\<close>

lemma Repo_ClaimDeliveryJob_ok:
  assumes "Repo_ClaimDeliveryJob now lease n w = (Inr j, u)"
  shows "claim_delivery now lease n (db_alerts (w_db w)) = (Some j, db_alerts (w_db u))"
proof -
  let ?st = "\<lambda>d. case claim_delivery now lease n (db_alerts d) of (row, t) \<Rightarrow> (Inr row, on_alerts (\<lambda>_. t) d)"
  obtain row v where "stmt ?st w = (Inr row, v)" "(case row of None \<Rightarrow> return_err ErrNotFound | Some j \<Rightarrow> return_ok j) v = (Inr j, u)"
    using assms by (auto simp: Repo_ClaimDeliveryJob_def attempt_eq_Inr)
  then have "stmt ?st w = (Inr (Some j), u)" by (auto split: option.splits)
  from stmt_result [OF this] show ?thesis by (auto simp: on_alerts_def split: prod.splits)
qed

lemma ClaimDeliveryJob_ok:
  assumes "ClaimDeliveryJob ctx ttl n w = (Inr (Some (j, dst)), u)"
  shows "\<exists>now lease n. claim_delivery now lease n (db_alerts (w_db w)) = (Some j, db_alerts (w_db u))"
proof -
  obtain now w1 where clock: "clock_now w = (Inr now, w1)" by (cases "w_clock w") (auto simp: clock_now_def)
  have w1: "w_db w1 = w_db w" using clock_now_db(1) [of w] clock by simp
  let ?lease = "now + (if ttl \<le> 0 then Minute else ttl)" and ?n = "if n \<le> 0 then 5 else n"
  obtain r w2 where claim: "Repo_ClaimDeliveryJob now ?lease ?n w1 = (r, w2)" by fastforce
  have "r = Inr j \<and> w_db u = w_db w2"
    using assms clock claim
    by (auto simp: ClaimDeliveryJob_def Let_def attempt_apply inspect_apply split: sum.splits prod.splits if_splits
        dest!: reads_only_run [OF reads_alert_service(2)])
  then show ?thesis using Repo_ClaimDeliveryJob_ok [of now ?lease ?n w1 j w2] claim w1 by auto
qed

lemma claims_number:
  assumes one: "claim_delivery t1 l1 n1 t = (Some i, t')" and two: "claim_delivery t2 l2 n2 t' = (Some j, t'')"
    and keys: "distinct_keys djb_ID (at_delivery_jobs t)" and same: "djb_ID i = djb_ID j"
  shows "djb_Attempts j = djb_Attempts i + 1" "\<forall>q \<in> set (at_delivery_jobs t''). djb_ID q = djb_ID j \<longrightarrow> djb_Attempts q = djb_Attempts j"
proof -
  obtain rows where q1: "delivery_queue.claim t1 l1 [] n1 (at_delivery_jobs t) = (Some i, rows)" "t' = t\<lparr>at_delivery_jobs := rows\<rparr>"
    using one by (auto simp: claim_delivery_eq [where token = "[]"] split: prod.splits)
  obtain rows' where q2: "delivery_queue.claim t2 l2 [] n2 rows = (Some j, rows')" "t'' = t'\<lparr>at_delivery_jobs := rows'\<rparr>"
    using two q1(2) by (auto simp: claim_delivery_eq [where token = "[]"] split: prod.splits)
  have keys': "distinct_keys djb_ID rows"
    using delivery_queue.keys_claim [of t1 l1 "[]" n1 "at_delivery_jobs t"] q1(1) keys by (simp add: distinct_keys_def)
  obtain r where r: "r \<in> set rows" "j = lease_delivery t2 l2 [] r" using q2(1) by (rule delivery_queue.claim_Some)
  then have "djb_ID r = djb_ID i" using same by (simp add: lease_delivery_def claimed_delivery_def)
  then have "djb_Attempts r = djb_Attempts i" using delivery_queue.claim_fences [OF q1(1) keys r(1)] by simp
  then show "djb_Attempts j = djb_Attempts i + 1" using r(2) by (simp add: lease_delivery_def claimed_delivery_def)
  show "\<forall>q \<in> set (at_delivery_jobs t''). djb_ID q = djb_ID j \<longrightarrow> djb_Attempts q = djb_Attempts j"
    using delivery_queue.claim_fences [OF q2(1) keys'] q2(2) by simp
qed

text \<open>The report of a delivery by a worker: completed or failed.\<close>

definition report_delivery :: "bool \<Rightarrow> ctx \<Rightarrow> int \<Rightarrow> duration \<Rightarrow> DeliveryCommand \<Rightarrow> (DeliveryJob \<times> Destination option) option \<Rightarrow> (world, unit) proc" where
  "report_delivery delivered ctx n retry dc claimed = (case claimed of None \<Rightarrow> return_err ErrNotFound
    | Some (job, _) \<Rightarrow> if delivered then CompleteDeliveryJob ctx (djb_ID job) (djb_Attempts job) dc
        else FailDeliveryJob ctx (djb_ID job) (djb_Attempts job) n retry dc)"

definition same_delivery :: "(DeliveryJob \<times> Destination option) option \<Rightarrow> (DeliveryJob \<times> Destination option) option \<Rightarrow> bool" where
  "same_delivery a b = (case (a, b) of (Some (i, _), Some (j, _)) \<Rightarrow> djb_ID i = djb_ID j \<and> TrimSpace (djb_ID i) = djb_ID i | _ \<Rightarrow> False)"

definition delivery_fence where
  "delivery_fence abr = (case abr of (a, b, r) \<Rightarrow> if same_delivery a b then r \<noteq> Inr () else True)"

lemma update_deliveries_none:
  assumes "update_deliveries hit f w = (Inr (), u)"
  shows "\<exists>j \<in> set (at_delivery_jobs (db_alerts (w_db w))). hit j"
proof -
  obtain k where "execrows (\<lambda>d. length (filter hit (at_delivery_jobs (db_alerts d))))
      (on_alerts (\<lambda>t. t\<lparr>at_delivery_jobs := row_update hit f (at_delivery_jobs t)\<rparr>)) w = (Inr k, u)" "k \<noteq> 0"
    using assms by (auto simp: update_deliveries_def not_found_if_no_row_def attempt_eq_Inr split: if_splits)
  then have "filter hit (at_delivery_jobs (db_alerts (w_db w))) \<noteq> []"
    unfolding execrows_def by (auto dest!: stmt_result)
  then show ?thesis by (auto simp: filter_empty_conv)
qed

lemma RecordDelivery_jobs:
  "keeps (on_db (\<lambda>d. at_delivery_jobs (db_alerts d) = js)) (RecordDelivery dc)"
  unfolding RecordDelivery_def SaveDelivery_def
  by (auto intro!: keeps_rules keeps_stmt simp: on_alerts_def split: if_splits)

lemma report_needs_running:
  assumes "report_delivery delivered ctx n retry dc (Some (job, dst)) w = (Inr (), u)"
  shows "\<exists>ws. \<exists>j \<in> set (at_delivery_jobs (db_alerts (w_db w))). running_delivery ws (TrimSpace (djb_ID job)) (djb_Attempts job) j"
proof -
  let ?P = "\<lambda>d. at_delivery_jobs (db_alerts d) = at_delivery_jobs (db_alerts (w_db w))"
  let ?Q = "\<lambda>_ _. \<exists>ws. \<exists>j \<in> set (at_delivery_jobs (db_alerts (w_db w))). running_delivery ws (TrimSpace (djb_ID job)) (djb_Attempts job) j"
  have repo: "ensures (on_db ?P) (Repo_CompleteDeliveryJob c (TrimSpace (djb_ID job)) (djb_Attempts job) t) (\<lambda>x. on_db (?Q x))"
    "ensures (on_db ?P) (Repo_RetryDeliveryJob c (TrimSpace (djb_ID job)) (djb_Attempts job) t' n e t) (\<lambda>x. on_db (?Q x))" for c t t' e
    unfolding Repo_CompleteDeliveryJob_def Repo_RetryDeliveryJob_def
    by (auto simp: ensures_def on_db_def with_workspace_def attempt_eq_Inr dest!: update_deliveries_none) blast+
  have body: "ensures (on_db ?P) (in_transaction (attempt (RecordDelivery dc) (\<lambda>_. attempt clock_now (\<lambda>now. Repo_CompleteDeliveryJob ctx (TrimSpace (djb_ID job)) (djb_Attempts job) now)))) (\<lambda>x. on_db (?Q x))"
    "ensures (on_db ?P) (in_transaction (attempt (RecordDelivery dc) (\<lambda>_. Repo_RetryDeliveryJob ctx (TrimSpace (djb_ID job)) (djb_Attempts job) t' n e t))) (\<lambda>x. on_db (?Q x))" for t t' e
    by (rule ensures_in_transaction, rule ensures_attempt [OF ensures_keeps [OF RecordDelivery_jobs]],
        (rule ensures_attempt [OF ensures_keeps [OF keeps_clock]])?, rule repo)+
  have clock: "clock_now w = (Inr t, v) \<Longrightarrow> on_db ?P v" for t v
    using clock_now_db(1) [of w] by (auto simp: on_db_def)
  have start: "on_db ?P w" by (simp add: on_db_def)
  show ?thesis
  proof (cases delivered)
    case True
    then show ?thesis using assms ensuresD [OF body(1) _ start]
      by (auto simp: report_delivery_def CompleteDeliveryJob_def attempt_eq_Inr normalizeRequired_def Let_def on_db_def split: if_splits)
  next
    case False
    then show ?thesis using assms ensuresD [OF body(2) _ clock]
      by (auto simp: report_delivery_def FailDeliveryJob_def attempt_eq_Inr normalizeRequired_def Let_def on_db_def split: if_splits)
  qed
qed

section \<open>The worker\<close>

lemma keeps_tx_alerts:
  "keeps (tx_is b) (Alert_Create ctx sc)" "keeps (tx_is b) (Alert_Update ctx uc)"
  "keeps (tx_is b) (Alert_Delete ctx rid)" "keeps (tx_is b) (DeleteDestination ctx did)"
  "keeps (tx_is b) (Alert_EnqueueForUsageEvents ctx events)" "keeps (tx_is b) (EnqueueDueRules limit)"
  "keeps (tx_is b) (ClaimEvaluationJob ttl n)" "keeps (tx_is b) (CompleteEvaluationJob rid k)"
  "keeps (tx_is b) (FailEvaluationJob rid k retry)" "keeps (tx_is b) (DeadLetterEvaluationJob ctx rid k m)"
  "keeps (tx_is b) (ClaimDeliveryJob ctx ttl n)" "keeps (tx_is b) (RecordDelivery dc)"
  "keeps (tx_is b) (CompleteDeliveryJob ctx jid k dc)" "keeps (tx_is b) (FailDeliveryJob ctx jid k n retry dc)"
  "keeps (tx_is b) (RequeueDeliveryJob ctx jid)"
  unfolding Alert_Create_def Alert_Update_def Alert_Delete_def DeleteDestination_def Alert_EnqueueForUsageEvents_def
    EnqueueDueRules_def ClaimEvaluationJob_def CompleteEvaluationJob_def FailEvaluationJob_def DeadLetterEvaluationJob_def
    ClaimDeliveryJob_def RecordDelivery_def CompleteDeliveryJob_def FailDeliveryJob_def RequeueDeliveryJob_def
    save_and_enqueue_def SaveRule_def EnqueueEvaluationJob_def exec_child_def DeleteRule_def Repo_DeleteDestination_def
    enqueue_matching_def EnqueueDueEvaluationJobs_def Repo_ClaimEvaluationJob_def Repo_CompleteEvaluationJob_def
    Repo_RequeueEvaluationJob_def SaveEvaluationDeadLetter_def Repo_ClaimDeliveryJob_def SaveDelivery_def
    Repo_CompleteDeliveryJob_def Repo_RetryDeliveryJob_def Repo_RequeueDeliveryJob_def update_deliveries_def Let_def
  by (auto intro!: keeps_rules split: option.splits sum.splits prod.splits)

lemma keeps_Alert_ProcessOnce:
  assumes "reads_usage usage"
  shows "keeps (quiet alerts_ok) (Alert_ProcessOnce usage post worker ctx)"
proof -
  have "keeps (quiet alerts_ok) (ClaimEvaluationJob ttl k)" "keeps (quiet alerts_ok) (CompleteEvaluationJob r k)"
    "keeps (quiet alerts_ok) (FailEvaluationJob r k retry)" "keeps (quiet alerts_ok) (DeadLetterEvaluationJob c r k m)"
    "keeps (quiet alerts_ok) (ClaimDeliveryJob c ttl k)" "keeps (quiet alerts_ok) (CompleteDeliveryJob c r k dc)"
    "keeps (quiet alerts_ok) (FailDeliveryJob c r k n retry dc)" for ttl k r retry c m n dc
    by (intro keeps_quietI keeps_evaluation_jobs keeps_deliveries keeps_tx_alerts)+
  then show ?thesis
    unfolding Alert_ProcessOnce_def processDeliveryOnce_def evaluation_not_done_def ignoring_not_found_def deliverWebhookJob_def Let_def
    by (auto intro!: keeps_rules keeps_Alert_Evaluate [OF assms] split: option.splits sum.splits prod.splits)
qed

section \<open>Properties\<close>

text \<open>Every operation of the alerts keeps the integrity of their tables, whatever statement fails:
  keys are unique, rows refer to existing rules and events, rules are valid, and every triggered or
  resolved event has exactly one delivery job, which carries it.\<close>

lemma alert_operations_keep_alerts_ok:
  assumes "reads_usage usage"
  shows "keeps (quiet alerts_ok) (Alert_Create ctx sc) \<and> keeps (quiet alerts_ok) (Alert_Update ctx uc) \<and>
    keeps (quiet alerts_ok) (Alert_Delete ctx rid) \<and> keeps (quiet alerts_ok) (DeleteDestination ctx did) \<and>
    keeps (quiet alerts_ok) (Alert_EnqueueForUsageEvents ctx events) \<and> keeps (quiet alerts_ok) (EnqueueDueRules limit) \<and>
    keeps (quiet alerts_ok) (Alert_Evaluate usage ctx rid) \<and> keeps (quiet alerts_ok) (RequeueDeliveryJob ctx jid) \<and>
    keeps (quiet alerts_ok) (Alert_ProcessOnce usage post worker ctx)"
proof -
  have service: "keeps (quiet alerts_ok) (Alert_Create ctx sc)" "keeps (quiet alerts_ok) (Alert_Update ctx uc)"
    "keeps (quiet alerts_ok) (Alert_Delete ctx rid)" "keeps (quiet alerts_ok) (DeleteDestination ctx did)"
    "keeps (quiet alerts_ok) (Alert_EnqueueForUsageEvents ctx events)" "keeps (quiet alerts_ok) (EnqueueDueRules limit)"
    by (intro keeps_quietI keeps_rules_service keeps_tx_alerts)+
  moreover have "keeps (quiet alerts_ok) (Alert_Evaluate usage ctx rid)" by (rule keeps_Alert_Evaluate [OF assms])
  moreover have "keeps (quiet alerts_ok) (RequeueDeliveryJob ctx jid)"
    by (intro keeps_quietI keeps_deliveries keeps_tx_alerts)
  moreover have "keeps (quiet alerts_ok) (Alert_ProcessOnce usage post worker ctx)"
    by (rule keeps_Alert_ProcessOnce [OF assms])
  ultimately show ?thesis by blast
qed

definition no_usage :: UsageRepository where
  "no_usage = \<lparr>ur_Aggregate = \<lambda>_ _. query (\<lambda>_. \<lparr>agg_Quantity = 0, agg_UsageEvents = 0\<rparr>), ur_FindBreakdown = \<lambda>_ _. query (\<lambda>_. [])\<rparr>"

lemma reads_no_usage: "reads_usage no_usage"
  by (auto simp: reads_usage_def no_usage_def intro!: reads_onlyI keeps_rules)

lemma alert_operations_keep_alerts_ok_example:
  "quiet alerts_ok (idle_world empty_db) \<and> reads_usage no_usage \<and> keeps (quiet alerts_ok) (Alert_Evaluate no_usage (workspace_ctx ''w'') ''r'')"
proof -
  have "alerts_ok empty_db" using empty_alerts_ok by (simp add: alerts_ok_def empty_db_def)
  then show ?thesis
    using alert_operations_keep_alerts_ok [OF reads_no_usage, of "workspace_ctx ''w''" undefined undefined "''r''"] reads_no_usage
    by (simp add: quiet_def idle_world_def)
qed





text \<open>The error of a rule with groups sticks: a failed evaluation stores its error without a group, and no
  later evaluation with usage, which stores only states of groups, ever replaces it.\<close>

lemma grouped_error_sticks:
  assumes "answers_usage usage" "alr_GroupBy rule \<noteq> []"
  shows "keeps (on_db (error_stored (alr_ID rule))) (evaluateGrouped usage ctx rule meter)"
proof -
  let ?P = "on_db (error_stored (alr_ID rule))"
  have failed: "keeps ?P (evaluation_failed ctx rule t e)" for t e
    unfolding evaluation_failed_def saveEvaluation_def Let_def
    by (auto intro!: keeps_rules keeps_error_saveEvaluations simp: status_state_def split: sum.splits)
  have found: "keeps ?P (attempt (evaluate_groups ctx rule items previous t) (\<lambda>(states, events).
      attempt (saveEvaluations ctx rule states events t) (\<lambda>_. k states events)))"
    if "items \<noteq> []" "\<And>states events. keeps ?P (k states events)" for items previous t k
  proof (rule keeps_attempt_ensures [OF keeps_reads_groups(2) evaluate_groups_keys [OF assms(2) that(1)]])
    fix r :: "AlertState list \<times> AlertEvent list" assume "\<forall>s \<in> set (fst r). als_GroupKey s \<noteq> []"
    then show "keeps ?P (case r of (states, events) \<Rightarrow> attempt (saveEvaluations ctx rule states events t) (\<lambda>_. k states events))"
      by (auto intro!: keeps_attempt keeps_error_saveEvaluations that(2) simp: alert_state_key_def split: prod.splits)
  qed
  have usage: "keeps ?P (inspect (ur_FindBreakdown usage ctx q) k)" if "\<And>e. keeps ?P (k (Inl e))" "\<And>items. items \<noteq> [] \<Longrightarrow> keeps ?P (k (Inr items))" for q k
  proof (rule keepsI)
    fix w assume w: "?P w"
    obtain r u where run: "ur_FindBreakdown usage ctx q w = (r, u)" by fastforce
    then have "?P u" using w reads_only_run [of "ur_FindBreakdown usage ctx q" w r u] assms(1)
      by (auto simp: answers_usage_def reads_usage_def on_db_def)
    moreover have "r \<noteq> Inr []" using run assms(1) by (auto simp: answers_usage_def) (metis fst_conv)
    ultimately show "?P (snd (inspect (ur_FindBreakdown usage ctx q) k w))"
      using run keepsD [OF that(1)] keepsD [OF that(2)] by (cases r) (auto simp: inspect_apply)
  qed
  show ?thesis
    unfolding evaluateGrouped_def
    by (auto intro!: keeps_attempt [of ?P clock_now] keeps_attempt [of ?P "lift_res x" for x] keeps_clock keeps_return usage failed
        keeps_attempt [OF keeps_reads_alerts(4)] found keeps_attempt [OF keeps_reads_alert_service(5)])
qed

definition some_usage :: UsageRepository where
  "some_usage = no_usage\<lparr>ur_FindBreakdown := \<lambda>_ _. query (\<lambda>_. [\<lparr>bri_Value = ''g'', bri_Quantity = 1, bri_UsageEvents = 1\<rparr>])\<rparr>"

lemma grouped_error_sticks_example:
  "answers_usage some_usage \<and>
   (\<forall>m. keeps (on_db (error_stored ''r''))
     (evaluateGrouped some_usage (workspace_ctx ''w'') (zero_rule\<lparr>alr_ID := ''r'', alr_GroupBy := ''region''\<rparr>) m))"
proof -
  have "reads_usage some_usage"
    by (auto simp: reads_usage_def some_usage_def no_usage_def intro!: reads_onlyI keeps_rules)
  then have "answers_usage some_usage"
    by (auto simp: answers_usage_def some_usage_def no_usage_def query_def stmt_def split: option.splits)
  then show ?thesis using grouped_error_sticks [of some_usage "zero_rule\<lparr>alr_ID := ''r'', alr_GroupBy := ''region''\<rparr>"] by simp
qed

end
