(* ===== verification/MeterService.thy ===== *)
theory MeterService
  imports EntitlementRepo
begin

text \<open>
  The meter service and its repository: \<^verbatim>\<open>src/internal/metering/app/meter\<close> and
  \<^verbatim>\<open>adapters/sqlite/meter_repository.go\<close> with \<^verbatim>\<open>queries/meters.sql\<close> and \<^verbatim>\<open>queries/workspace_stats.sql\<close>.
  The service has a usage repository, as \<^verbatim>\<open>bootstrap/wiring.go\<close> gives it.  The text of a page cursor
  (base64 of JSON) is not modelled: a cursor is the name it carries.  The result types copy the
  fields of a meter, so an operation returns the meter itself.
\<close>

section \<open>Repository\<close>

definition meters_unique :: "db \<Rightarrow> bool" where
  "meters_unique d \<longleftrightarrow> distinct_keys (\<lambda>(w, m). (w, mtr_name m)) (db_meters d)"

text \<open>The statement names a row by its id and keeps its workspace, name and creation time.\<close>

definition save_meter_row :: "string \<Rightarrow> Meter \<Rightarrow> db \<Rightarrow> db" where
  "save_meter_row ws meter d = d\<lparr>db_meters :=
    row_upsert (\<lambda>(w, m). mtr_id m)
      (\<lambda>(w, m). (w, m\<lparr>mtr_description := mtr_description meter, mtr_unit := mtr_unit meter,
          mtr_aggregation := mtr_aggregation meter, mtr_dimensionTypes := mtr_dimensionTypes meter,
          mtr_dimensions := mtr_dimensions meter, mtr_eventRetentionDays := mtr_eventRetentionDays meter\<rparr>))
      (ws, meter) (db_meters d)\<rparr>"

definition IncrementWorkspaceMeters :: "string \<Rightarrow> int \<Rightarrow> (world, unit) proc" where
  "IncrementWorkspaceMeters ws delta = exec (\<lambda>d. d\<lparr>db_meter_counts :=
    row_upsert fst (\<lambda>(w, n). (w, max 0 (n + delta))) (ws, delta) (db_meter_counts d)\<rparr>)"

definition Meter_Save :: "ctx \<Rightarrow> Meter \<Rightarrow> (world, Meter) proc" where
  "Meter_Save ctx meter = with_workspace ctx (\<lambda>ws.
    attempt (in_transaction (
      attempt (query (\<lambda>d. order_limit mtr_name 1
        (map snd (filter (\<lambda>(w, m). w = ws \<and> matches (mtr_id meter) (mtr_id m)) (db_meters d))))) (\<lambda>existing.
      attempt (conflict_if_unique (exec_unique meters_unique (save_meter_row ws meter))) (\<lambda>_.
      if existing \<noteq> [] then return_ok ()
      else attempt clock_now (\<lambda>_. IncrementWorkspaceMeters ws 1))))) (\<lambda>_.
    return_ok meter))"

definition Meter_Count :: "ctx \<Rightarrow> (world, int) proc" where
  "Meter_Count ctx = with_workspace ctx (\<lambda>ws.
    query (\<lambda>d. int (length (filter (\<lambda>(w, m). w = ws) (db_meters d)))))"

text \<open>The rows that refer to a meter; deleting it while there is one violates a foreign key.\<close>

definition meter_referenced :: "string \<Rightarrow> string \<Rightarrow> db \<Rightarrow> bool" where
  "meter_referenced ws name d \<longleftrightarrow>
    list_ex (\<lambda>(w, l). w = ws \<and> lim_MeterName l = name) (db_limits d) \<or>
    list_ex (\<lambda>s. es_WorkspaceID s = ws \<and> es_MeterName s = name) (db_states d) \<or>
    list_ex (\<lambda>e. ee_WorkspaceID e = ws \<and> ee_MeterName e = name) (db_entitlement_events d) \<or>
    list_ex (\<lambda>s. ps_WorkspaceID s = ws \<and> ps_MeterName s = name) (db_snapshots d) \<or>
    list_ex (\<lambda>j. jr_WorkspaceID j = ws \<and> jr_MeterName j = name) (db_jobs d) \<or>
    list_ex (\<lambda>c. uc_WorkspaceID c = ws \<and> uc_MeterName c = name) (db_counters d) \<or>
    list_ex (\<lambda>(w, e). w = ws \<and> ev_meterName e = name) (db_events d) \<or>
    list_ex (\<lambda>(w, r). w = ws \<and> alr_MeterName r = name) (at_rules (db_alerts d))"

definition DeleteMeter :: "string \<Rightarrow> string \<Rightarrow> (world, unit) proc" where
  "DeleteMeter ws mid = stmt (\<lambda>d.
    if list_ex (\<lambda>(w, m). w = ws \<and> mtr_id m = mid \<and> meter_referenced ws (mtr_name m) d) (db_meters d)
    then (Inl (DriverErr ''FOREIGN KEY constraint failed''), d)
    else (Inr (), d\<lparr>db_meters := row_delete (\<lambda>(w, m). w = ws \<and> mtr_id m = mid) (db_meters d)\<rparr>))"

definition Meter_Repo_Delete :: "ctx \<Rightarrow> MeterQuery \<Rightarrow> (world, unit) proc" where
  "Meter_Repo_Delete ctx q = with_workspace ctx (\<lambda>ws.
    attempt (Meters_Find ctx q) (\<lambda>meters.
    case meters of [] \<Rightarrow> return_err ErrNotFound
    | meter # _ \<Rightarrow>
        attempt (query (\<lambda>d. length (filter (\<lambda>(w, e). w = ws \<and> ev_meterName e = mtr_name meter) (db_events d)))) (\<lambda>usageCount.
        if 0 < usageCount then return_err (JoinErr ErrConflict (NewError ''meter has usage'' []))
        else in_transaction (
          attempt (DeleteMeter ws (mtr_id meter)) (\<lambda>_.
          attempt clock_now (\<lambda>_. IncrementWorkspaceMeters ws (- 1)))))))"

text \<open>Usage by meter: \<^verbatim>\<open>MAX(event_time)\<close> is the greatest text.\<close>

record MeterStats =
  mst_MeterName :: string
  mst_UsageEvents :: int
  mst_LastEventAt :: time

definition meter_stats :: "string \<Rightarrow> db \<Rightarrow> MeterStats list" where
  "meter_stats ws d =
    (let events = map snd (filter (\<lambda>(w, e). w = ws) (db_events d)) in
     map (\<lambda>name. let rows = filter (\<lambda>e. ev_meterName e = name) events in
        \<lparr>mst_MeterName = name, mst_UsageEvents = int (length rows),
         mst_LastEventAt = last (sort_key ttxt (map ev_eventTime rows))\<rparr>)
      (sort (remdups (map ev_meterName events))))"

definition FindMeterStats :: "ctx \<Rightarrow> (world, MeterStats list) proc" where
  "FindMeterStats ctx = with_workspace ctx (\<lambda>ws. query (meter_stats ws))"

section \<open>Service\<close>

record CreateMeterCommand =
  cmc_Name :: string
  cmc_Description :: string
  cmc_Unit :: string
  cmc_Aggregation :: Aggregation
  cmc_Dimensions :: "Dimension list"
  cmc_EventRetentionDays :: int

record UpdateMeterCommand =
  umc_ID :: string
  umc_Description :: "string option"
  umc_Unit :: "string option"
  umc_Aggregation :: "Aggregation option"
  umc_Dimensions :: "Dimension list option"
  umc_EventRetentionDays :: "int option"

record MeterListQuery =
  mlq_Name :: string
  mlq_Limit :: int
  mlq_Cursor :: string

record MeterListResult =
  mlr_Items :: "Meter list"
  mlr_NextCursor :: string

record StatsResult =
  str_MeterName :: string
  str_UsageEvents :: int
  str_LastEventAt :: time
  str_EventRetentionDays :: int

definition Meter_Create :: "ctx \<Rightarrow> CreateMeterCommand \<Rightarrow> (world, Meter) proc" where
  "Meter_Create ctx cmd =
    attempt fresh_id (\<lambda>mid.
    attempt clock_now (\<lambda>now.
    attempt (lift_res (NewWithDimensions mid (cmc_Name cmd) (cmc_Description cmd) (cmc_Unit cmd) (cmc_Aggregation cmd)
      (cmc_Dimensions cmd) (cmc_EventRetentionDays cmd) now)) (\<lambda>meter.
    Meter_Save ctx meter)))"

definition meter_id_query :: "string \<Rightarrow> MeterQuery" where
  "meter_id_query mid = \<lparr>mq_id = mid, mq_name = [], mq_cursor = [], mq_limit = 0\<rparr>"

definition meterHasUsage :: "ctx \<Rightarrow> string \<Rightarrow> (world, bool) proc" where
  "meterHasUsage ctx meterName =
    attempt (FindMeterStats ctx) (\<lambda>stats.
    return_ok (list_ex (\<lambda>stat. mst_MeterName stat = meterName \<and> 0 < mst_UsageEvents stat) stats))"

definition dimensionsByName :: "Dimension list \<Rightarrow> (string, Dimension) fmap" where
  "dimensionsByName dimensions = foldl (\<lambda>m d. fmupd (dim_name d) d m) fmempty dimensions"

text \<open>The two loops; the one of several conflicts that is reported depends on the order of the map.\<close>

definition dimension_conflict :: "(string, Dimension) fmap \<Rightarrow> Dimension \<Rightarrow> string option" where
  "dimension_conflict nextByName current =
    (case fmlookup nextByName (dim_name current) of
       None \<Rightarrow> Some '': dimension %q cannot be removed after usage has been recorded''
     | Some updated \<Rightarrow>
         if dim_type updated \<noteq> dim_type current then Some '': dimension %q type cannot change after usage has been recorded''
         else if \<not> RequiresValue current \<and> RequiresValue updated
         then Some '': dimension %q cannot become required after usage has been recorded''
         else None)"

definition addition_conflict :: "(string, Dimension) fmap \<Rightarrow> Dimension \<Rightarrow> string option" where
  "addition_conflict existingByName dimension =
    (if fmlookup existingByName (dim_name dimension) = None \<and> RequiresValue dimension
     then Some '': required dimension %q cannot be added after usage has been recorded'' else None)"

definition first_conflict :: "(Dimension \<Rightarrow> string option) \<Rightarrow> Dimension list \<Rightarrow> go_error option" where
  "first_conflict conflict dimensions =
    (case filter (\<lambda>d. conflict d \<noteq> None) dimensions of
       [] \<Rightarrow> None
     | d # _ \<Rightarrow> map_option (\<lambda>text. Errorf ErrConflict text [SArg (dim_name d)]) (conflict d))"

definition validateDimensionUpdate :: "ctx \<Rightarrow> Meter \<Rightarrow> Meter \<Rightarrow> (world, unit) proc" where
  "validateDimensionUpdate ctx existing nxt =
    attempt (meterHasUsage ctx (mtr_name existing)) (\<lambda>hasUsage.
    if \<not> hasUsage then return_ok ()
    else case first_conflict (dimension_conflict (dimensionsByName (mtr_dimensions nxt))) (mtr_dimensions existing) of
        Some e \<Rightarrow> return_err e
      | None \<Rightarrow> (case first_conflict (addition_conflict (dimensionsByName (mtr_dimensions existing))) (mtr_dimensions nxt) of
          Some e \<Rightarrow> return_err e | None \<Rightarrow> return_ok ()))"

definition Meter_Update :: "ctx \<Rightarrow> UpdateMeterCommand \<Rightarrow> (world, Meter) proc" where
  "Meter_Update ctx cmd =
    attempt (Meters_Find ctx (meter_id_query (umc_ID cmd))) (\<lambda>meters.
    case meters of [] \<Rightarrow> return_err ErrNotFound
    | existing # _ \<Rightarrow>
        attempt (lift_res (NewWithDimensions (mtr_id existing) (mtr_name existing)
          (case umc_Description cmd of None \<Rightarrow> mtr_description existing | Some x \<Rightarrow> x)
          (case umc_Unit cmd of None \<Rightarrow> mtr_unit existing | Some x \<Rightarrow> x)
          (case umc_Aggregation cmd of None \<Rightarrow> mtr_aggregation existing | Some x \<Rightarrow> x)
          (case umc_Dimensions cmd of None \<Rightarrow> mtr_dimensions existing | Some x \<Rightarrow> x)
          (case umc_EventRetentionDays cmd of None \<Rightarrow> mtr_eventRetentionDays existing | Some x \<Rightarrow> x)
          (mtr_createdAt existing))) (\<lambda>nxt.
        attempt (validateDimensionUpdate ctx existing nxt) (\<lambda>_.
        Meter_Save ctx nxt)))"

definition Meter_Delete :: "ctx \<Rightarrow> string \<Rightarrow> (world, unit) proc" where
  "Meter_Delete ctx mid = Meter_Repo_Delete ctx (meter_id_query mid)"

definition Meter_Get :: "ctx \<Rightarrow> string \<Rightarrow> (world, Meter) proc" where
  "Meter_Get ctx mid =
    attempt (Meters_Find ctx (meter_id_query mid)) (\<lambda>meters.
    case meters of [] \<Rightarrow> return_err ErrNotFound | meter # _ \<Rightarrow> return_ok meter)"

text \<open>A page and the name after which the next one starts.\<close>

definition meter_page :: "ctx \<Rightarrow> string \<Rightarrow> string \<Rightarrow> int \<Rightarrow> (world, Meter list \<times> string) proc" where
  "meter_page ctx name cursor limit0 =
    (let limit = meter_NormalizeLimit limit0 in
     attempt (Meters_Find ctx \<lparr>mq_id = [], mq_name = name, mq_cursor = cursor, mq_limit = limit + 1\<rparr>) (\<lambda>meters.
     return_ok (if nat limit < length meters
       then (take (nat limit) meters, mtr_name (meters ! (nat limit - 1)))
       else (meters, []))))"

definition Meter_List :: "ctx \<Rightarrow> MeterListQuery \<Rightarrow> (world, MeterListResult) proc" where
  "Meter_List ctx q =
    attempt (meter_page ctx (mlq_Name q) (mlq_Cursor q) (mlq_Limit q)) (\<lambda>(meters, nextCursor).
    return_ok \<lparr>mlr_Items = meters, mlr_NextCursor = nextCursor\<rparr>)"

definition Meter_ListStats :: "ctx \<Rightarrow> int \<Rightarrow> string \<Rightarrow> (world, StatsResult list \<times> string) proc" where
  "Meter_ListStats ctx limit cursor =
    attempt (meter_page ctx [] cursor limit) (\<lambda>(meters, nextCursor).
    attempt (FindMeterStats ctx) (\<lambda>stats.
    let usageByMeter = foldl (\<lambda>m stat. fmupd (mst_MeterName stat) stat m) fmempty stats in
    return_ok (map (\<lambda>meter. case fmlookup usageByMeter (mtr_name meter) of
        None \<Rightarrow> \<lparr>str_MeterName = mtr_name meter, str_UsageEvents = 0, str_LastEventAt = zero_time,
          str_EventRetentionDays = mtr_eventRetentionDays meter\<rparr>
      | Some stat \<Rightarrow> \<lparr>str_MeterName = mtr_name meter, str_UsageEvents = mst_UsageEvents stat,
          str_LastEventAt = mst_LastEventAt stat, str_EventRetentionDays = mtr_eventRetentionDays meter\<rparr>) meters, nextCursor)))"

end
