(* ===== verification/MeterSpec.thy ===== *)
theory MeterSpec
  imports MeterService PlanSpec UsageLedger
begin

text \<open>
  What the meter service keeps and returns: the meters stay well formed with unique names, a meter reads back
  as it was written, the pages of the listing, and what a change of dimensions may do once there is usage.
\<close>

section \<open>The constructor is idempotent\<close>

definition graphic :: "char \<Rightarrow> bool" where
  "graphic c \<longleftrightarrow> 33 \<le> code c \<and> code c < 128"

lemma fields_aux_parts:
  assumes "part \<in> set (fields_aux p acc s)"
  shows "part \<noteq> [] \<and> set part \<subseteq> set acc \<union> {c \<in> set s. \<not> p c}"
  using assms by (induction p acc s rule: fields_aux.induct) (fastforce split: if_splits)+

lemma Join_graphic_ends:
  assumes "parts \<noteq> []" "\<forall>part \<in> set parts. part \<noteq> [] \<and> (\<forall>c \<in> set part. graphic c)"
  shows "Join parts sep \<noteq> [] \<and> graphic (hd (Join parts sep)) \<and> graphic (last (Join parts sep))"
  using assms by (induction parts sep rule: Join.induct) auto

lemma dimension_byte_graphic: "dimension_byte c \<Longrightarrow> graphic c \<and> graphic (upper_byte c)"
  by (auto simp: dimension_byte_def graphic_def upper_byte_def is_alnum_def is_upper_def is_lower_def is_digit_def)

lemma split_on_bytes: "\<forall>p \<in> set (split_on d s). list_all P p \<Longrightarrow> c \<in> set s \<Longrightarrow> P c \<or> c = d"
proof (induction s)
  case (Cons x s)
  then show ?case by (cases "split_on d s") (auto split: if_splits)
qed simp

lemma dimension_pattern_bytes: "dimensionNamePattern name \<Longrightarrow> c \<in> set name \<Longrightarrow> dimension_byte c \<or> c = CHR ''.''"
  using split_on_bytes [of "CHR ''.''" name dimension_byte c] by (auto simp: dimensionNamePattern_def Split_str_def list_all_iff)

lemma humanize_trimmed:
  assumes "dimensionNamePattern name"
  shows "TrimSpace (humanizeDimensionName name) = humanizeDimensionName name"
proof -
  let ?parts = "map (\<lambda>part. case part of [] \<Rightarrow> [] | c # rest \<Rightarrow> upper_byte c # rest)
    (FieldsFunc (\<lambda>r. r = CHR ''.'' \<or> r = CHR ''_'' \<or> r = CHR ''-'') name)"
  have "part \<noteq> [] \<and> (\<forall>c \<in> set part. graphic c)" if "part \<in> set ?parts" for part
  proof -
    from that obtain raw where "raw \<in> set (FieldsFunc (\<lambda>r. r = CHR ''.'' \<or> r = CHR ''_'' \<or> r = CHR ''-'') name)"
      and part: "part = (case raw of [] \<Rightarrow> [] | c # rest \<Rightarrow> upper_byte c # rest)" by auto
    then have "raw \<noteq> []" "\<forall>c \<in> set raw. dimension_byte c"
      using fields_aux_parts dimension_pattern_bytes [OF assms] by (fastforce simp: FieldsFunc_def)+
    then show ?thesis using part dimension_byte_graphic by (auto split: list.splits)
  qed
  then have "?parts = [] \<or> trimmed (Join ?parts '' '')"
    using Join_graphic_ends [of ?parts "'' ''"] by (auto simp: graphic_def intro!: trimmed_alnum_ends)
  then show ?thesis
    by (elim disjE) (simp_all add: humanizeDimensionName_def trimmed_TrimSpace)
qed

lemma NewDimension_idem:
  assumes "NewDimension n t dn ds r dep = Inr d"
  shows "NewDimension (dim_name d) (dim_type d) (dim_displayName d) (dim_description d) (dim_required d) [dim_deprecated d] = Inr d"
proof -
  let ?name = "TrimSpace n"
  have ok: "?name \<noteq> []" "dimensionNamePattern ?name" "\<not> IsReservedDimensionName ?name" "isSupportedMetadataType t"
    and d: "d = \<lparr>dim_name = ?name, dim_displayName = (if TrimSpace dn = [] then humanizeDimensionName ?name else TrimSpace dn),
      dim_description = TrimSpace ds, dim_type = t, dim_required = r,
      dim_deprecated = (case dep of [] \<Rightarrow> False | b # _ \<Rightarrow> b)\<rparr>"
    using assms by (auto simp: NewDimension_def Let_def)
  show ?thesis
    using ok by (auto simp: d NewDimension_def Let_def humanize_trimmed)
qed

lemma normalizeDimensions_idem:
  assumes "normalizeDimensions ds = Inr (out, schema)"
  shows "normalizeDimensions out = Inr (out, schema)"
proof -
  define stable where "stable acc \<longleftrightarrow> fold_res normalize_dimension_step (fst acc) ([], fmempty) = Inr acc"
    for acc :: "Dimension list \<times> (string, MetadataType) fmap"
  have "stable acc'" if stab: "stable acc" and step: "normalize_dimension_step x acc = Inr acc'" for x acc acc'
  proof -
    obtain prev schema where acc: "acc = (prev, schema)" by (cases acc)
    from step obtain d where d: "NewDimension (dim_name x) (dim_type x) (dim_displayName x) (dim_description x) (dim_required x) [dim_deprecated x] = Inr d"
      and "fmlookup schema (dim_name d) = None" "acc' = (prev @ [d], fmupd (dim_name d) (dim_type d) schema)"
      by (auto simp: normalize_dimension_step_def acc try_res_eq_Inr)
    then show ?thesis
      using stab NewDimension_idem [OF d] by (simp add: stable_def acc fold_res_append normalize_dimension_step_def)
  qed
  then have "stable (out, schema)"
    using fold_res_invariant [of normalize_dimension_step ds "([], fmempty)" "(out, schema)" stable] assms
    by (auto simp: normalizeDimensions_def stable_def)
  then show ?thesis by (simp add: stable_def normalizeDimensions_def)
qed

lemma meterFromFields_idem:
  assumes "NewWithDimensions i n ds u a dims days t = Inr m"
  shows "meterFromFields m = Inr m"
proof -
  obtain out schema days' where dims: "normalizeDimensions dims = Inr (out, schema)" and days: "normalizeEventRetentionDays days = Inr days'"
    and "TrimSpace i \<noteq> []" "TrimSpace n \<noteq> []" "TrimSpace u \<noteq> []" "\<not> IsZero t"
    and agg: "IsSupportedAggregation (if a = AggregationOther [] then AggregationSum else a)"
    and m: "m = \<lparr>mtr_id = i, mtr_name = TrimSpace n, mtr_description = TrimSpace ds, mtr_unit = TrimSpace u,
      mtr_aggregation = (if a = AggregationOther [] then AggregationSum else a), mtr_dimensionTypes = schema, mtr_dimensions = out,
      mtr_eventRetentionDays = days', mtr_createdAt = t\<rparr>"
    using assms unfolding NewWithDimensions_def Let_def by (simp add: try_res_eq_Inr) (auto)
  moreover have "normalizeEventRetentionDays days' = Inr days'"
    using normalizeEventRetentionDays_range [OF days] by (simp add: normalizeEventRetentionDays_def)
  moreover have "mtr_aggregation m \<noteq> AggregationOther []" using agg m by auto
  ultimately show ?thesis
    using normalizeDimensions_idem [OF dims] by (auto simp: meterFromFields_def NewWithDimensions_def Let_def)
qed

section \<open>The tables\<close>

text \<open>Ids and, in a workspace, names are unique; a stored meter is one that the constructor accepts as it is.\<close>

definition meters_ok :: "db \<Rightarrow> bool" where
  "meters_ok d \<longleftrightarrow> distinct_keys (\<lambda>(w, m). mtr_id m) (db_meters d) \<and> meters_unique d \<and>
    (\<forall>row \<in> set (db_meters d). meterFromFields (snd row) = Inr (snd row))"

lemma map_res_id: "\<forall>x \<in> set xs. f x = Inr x \<Longrightarrow> map_res f xs = Inr xs"
  by (induction xs) auto

lemma in_order_limit: "x \<in> set (order_limit key n rows) \<Longrightarrow> x \<in> set rows"
  by (auto simp: order_limit_def dest: in_set_takeD)

lemma Meters_Find_ok:
  assumes "Meters_Find ctx q w = (Inr meters, u)" "meters_ok (w_db w)"
  obtains ws where "RequireWorkspaceID ctx = Inr ws" "w_db u = w_db w"
    "meters = order_limit mtr_name (meter_NormalizeLimit (mq_limit q)) (map snd (filter (\<lambda>(w, m). w = ws \<and>
      matches (mq_id q) (mtr_id m) \<and> matches (mq_name q) (mtr_name m) \<and> (mq_cursor q = [] \<or> mq_cursor q < mtr_name m)) (db_meters (w_db w))))"
proof -
  define sel where "sel ws d = order_limit mtr_name (meter_NormalizeLimit (mq_limit q)) (map snd (filter (\<lambda>(w, m). w = ws \<and>
      matches (mq_id q) (mtr_id m) \<and> matches (mq_name q) (mtr_name m) \<and> (mq_cursor q = [] \<or> mq_cursor q < mtr_name m)) (db_meters d)))"
    for ws and d :: db
  from assms(1) obtain ws rows v where ws: "RequireWorkspaceID ctx = Inr ws" and q: "query (sel ws) w = (Inr rows, u)"
    and rows: "map_res meterFromFields rows = Inr meters"
    by (auto simp: Meters_Find_def with_workspace_def attempt_eq_Inr sel_def [abs_def])
  note sel = query_ok [OF q]
  have "map_res meterFromFields rows = Inr rows"
    using assms(2) sel by (intro map_res_id) (force simp: sel_def meters_ok_def dest!: in_order_limit)
  then show thesis using that ws sel rows by (simp add: sel_def)
qed

lemma keeps_reads_meters [keeps_rules]: "keeps (on_db P) (Meters_Find ctx q)" "keeps (tx_is b) (Meters_Find ctx q)"
  unfolding Meters_Find_def by (auto intro!: keeps_rules)

lemma meters_ok_frame: "db_meters e = db_meters d \<Longrightarrow> meters_ok d \<Longrightarrow> meters_ok e"
  by (simp add: meters_ok_def meters_unique_def)

text \<open>Writing a meter over the row with its id.\<close>

lemma meterFromFields_fields:
  assumes "meterFromFields m = Inr m" "meterFromFields r = Inr r"
  shows "meterFromFields (r\<lparr>mtr_description := mtr_description m, mtr_unit := mtr_unit m, mtr_aggregation := mtr_aggregation m,
    mtr_dimensionTypes := mtr_dimensionTypes m, mtr_dimensions := mtr_dimensions m, mtr_eventRetentionDays := mtr_eventRetentionDays m\<rparr>) =
   Inr (r\<lparr>mtr_description := mtr_description m, mtr_unit := mtr_unit m, mtr_aggregation := mtr_aggregation m,
    mtr_dimensionTypes := mtr_dimensionTypes m, mtr_dimensions := mtr_dimensions m, mtr_eventRetentionDays := mtr_eventRetentionDays m\<rparr>)"
  using assms by (cases m; cases r) (auto simp: meterFromFields_def NewWithDimensions_def Let_def try_res_eq_Inr split: if_splits)

lemma meters_ok_save:
  assumes "meters_ok d" "meterFromFields m = Inr m" "meters_unique (save_meter_row ws m d)"
  shows "meters_ok (save_meter_row ws m d)"
proof -
  have "distinct_keys (\<lambda>(w, m). mtr_id m) (db_meters (save_meter_row ws m d))"
    using assms(1) unfolding save_meter_row_def by (auto simp: meters_ok_def intro!: distinct_keys_upsert)
  moreover have "\<forall>row \<in> set (db_meters (save_meter_row ws m d)). meterFromFields (snd row) = Inr (snd row)"
    by (simp add: save_meter_row_def, rule all_row_upsert)
      (use assms(1,2) in \<open>auto simp: meters_ok_def meterFromFields_fields\<close>)
  ultimately show ?thesis using assms(3) by (auto simp: meters_ok_def)
qed

lemma keeps_IncrementWorkspaceMeters [keeps_rules]: "keeps (on_db meters_ok) (IncrementWorkspaceMeters ws delta)"
  unfolding IncrementWorkspaceMeters_def by (rule keeps_exec) (erule meters_ok_frame [rotated], simp)

lemma keeps_Meter_Save: "meterFromFields m = Inr m \<Longrightarrow> keeps (on_db meters_ok) (Meter_Save ctx m)"
  unfolding Meter_Save_def by (auto intro!: keeps_rules keeps_exec_unique meters_ok_save)

lemma keeps_Meter_Delete: "keeps (on_db meters_ok) (Meter_Delete ctx mid)"
proof -
  have "meters_ok d \<Longrightarrow> meters_ok (d\<lparr>db_meters := row_delete p (db_meters d)\<rparr>)" for p d
    by (auto simp: meters_ok_def meters_unique_def intro: distinct_keys_delete)
  then have "keeps (on_db meters_ok) (DeleteMeter ws mid)" for ws mid
    unfolding DeleteMeter_def by (intro keeps_stmt) (auto split: if_splits)
  then show ?thesis
    unfolding Meter_Delete_def Meter_Repo_Delete_def by (auto intro!: keeps_rules split: list.splits)
qed

lemma reads_meter_service:
  "reads_only (Meters_Find ctx q)" "reads_only (meterHasUsage ctx name)" "reads_only (validateDimensionUpdate ctx m m')"
  "reads_only (Meter_Get ctx mid)" "reads_only (Meter_List ctx mq)" "reads_only (Meter_ListStats ctx limit cursor)"
  unfolding validateDimensionUpdate_def meterHasUsage_def FindMeterStats_def Meter_Get_def Meter_List_def Meter_ListStats_def
    meter_page_def Let_def
  by (auto intro!: reads_onlyI keeps_rules split: list.splits option.splits)

lemma keeps_Meter_changes:
  "keeps (on_db meters_ok) (Meter_Create ctx cmd)" "keeps (on_db meters_ok) (Meter_Update ctx ucmd)"
proof -
  have checked: "keeps (on_db meters_ok) (attempt (lift_res (NewWithDimensions i n ds u a dims days t)) k)"
    if "\<And>m. meterFromFields m = Inr m \<Longrightarrow> keeps (on_db meters_ok) (k m)" for i n ds u a dims days t k
    using that meterFromFields_idem by (cases "NewWithDimensions i n ds u a dims days t") (auto intro: keeps_rules)
  show "keeps (on_db meters_ok) (Meter_Create ctx cmd)"
    unfolding Meter_Create_def by (intro keeps_rules checked keeps_Meter_Save)
  show "keeps (on_db meters_ok) (Meter_Update ctx ucmd)"
    unfolding Meter_Update_def
    by (auto intro!: keeps_rules checked keeps_Meter_Save reads_only_keeps(1) [OF reads_meter_service(3)] split: list.splits)
qed

section \<open>Reading back\<close>

lemma filter_key: "distinct_keys key rows \<Longrightarrow> x \<in> set rows \<Longrightarrow> filter (\<lambda>r. key r = key x) rows = [x]"
proof (induction rows)
  case (Cons r rows)
  show ?case
  proof (cases "r = x")
    case True
    then have "filter (\<lambda>r. key r = key x) rows = []" using Cons.prems by (auto simp: distinct_keys_def filter_empty_conv image_iff)
    with True show ?thesis by simp
  next
    case False
    then have "x \<in> set rows" "key r \<noteq> key x" using Cons.prems by (auto simp: distinct_keys_def image_iff)
    with Cons show ?thesis by (simp add: distinct_keys_def)
  qed
qed simp

definition owned :: "string \<Rightarrow> Meter \<Rightarrow> db \<Rightarrow> bool" where
  "owned ws m d \<longleftrightarrow> (\<forall>(w, r) \<in> set (db_meters d). mtr_id r = mtr_id m \<longrightarrow>
    w = ws \<and> mtr_name r = mtr_name m \<and> mtr_createdAt r = mtr_createdAt m)"

lemma saved_row:
  assumes "owned ws m d"
  shows "(ws, m) \<in> set (db_meters (save_meter_row ws m d))"
proof (cases "mtr_id m \<in> (\<lambda>(w, r). mtr_id r) ` set (db_meters d)")
  case True
  let ?f = "\<lambda>(w :: string, r). (w, r\<lparr>mtr_description := mtr_description m, mtr_unit := mtr_unit m, mtr_aggregation := mtr_aggregation m,
    mtr_dimensionTypes := mtr_dimensionTypes m, mtr_dimensions := mtr_dimensions m, mtr_eventRetentionDays := mtr_eventRetentionDays m\<rparr>)"
  obtain r where r: "(ws, r) \<in> set (db_meters d)" "mtr_id r = mtr_id m" "mtr_name r = mtr_name m" "mtr_createdAt r = mtr_createdAt m"
    using True assms by (fastforce simp: owned_def)
  then have "(ws, m) = ?f (ws, r)" by (cases m; cases r) simp
  moreover have "?f (ws, r) \<in> set (row_update (\<lambda>q. (case q of (w, r) \<Rightarrow> mtr_id r) = mtr_id m) ?f (db_meters d))"
    unfolding row_update_def set_map by (rule image_eqI [OF _ r(1)]) (simp add: r(2))
  ultimately show ?thesis using True by (simp add: save_meter_row_def row_upsert_def)
next
  case False
  then show ?thesis by (auto simp: save_meter_row_def row_upsert_def)
qed

lemma Meter_Save_ok:
  assumes "Meter_Save ctx m w = (Inr m', u)"
  obtains ws where "RequireWorkspaceID ctx = Inr ws" "m' = m" "db_meters (w_db u) = db_meters (save_meter_row ws m (w_db w))"
    "meters_unique (save_meter_row ws m (w_db w))"
proof -
  define body where "body ws = attempt (query (\<lambda>d. order_limit mtr_name 1
        (map snd (filter (\<lambda>(w, r). w = ws \<and> matches (mtr_id m) (mtr_id r)) (db_meters d))))) (\<lambda>existing.
      attempt (conflict_if_unique (exec_unique meters_unique (save_meter_row ws m))) (\<lambda>_.
      if existing \<noteq> [] then return_ok () else attempt clock_now (\<lambda>_. IncrementWorkspaceMeters ws 1)))" for ws
  obtain ws where ws: "RequireWorkspaceID ctx = Inr ws" and tx: "in_transaction (body ws) w = (Inr (), u)" and "m' = m"
    using assms by (auto simp: Meter_Save_def with_workspace_def attempt_eq_Inr body_def)
  have body: "db_meters (w_db v) = db_meters (save_meter_row ws m (w_db s)) \<and> meters_unique (save_meter_row ws m (w_db s))"
    if run: "body ws s = (Inr (), v)" for s v
  proof -
    obtain existing s1 y s2 where q: "query (\<lambda>d. order_limit mtr_name 1
          (map snd (filter (\<lambda>(w, r). w = ws \<and> matches (mtr_id m) (mtr_id r)) (db_meters d)))) s = (Inr existing, s1)"
      and save: "conflict_if_unique (exec_unique meters_unique (save_meter_row ws m)) s1 = (Inr y, s2)"
      and rest: "(if existing \<noteq> [] then return_ok () else attempt clock_now (\<lambda>_. IncrementWorkspaceMeters ws 1)) s2 = (Inr (), v)"
      using run unfolding body_def attempt_eq_Inr by blast
    have "exec_unique meters_unique (save_meter_row ws m) s1 = (Inr (), s2)"
      using save by (cases "exec_unique meters_unique (save_meter_row ws m) s1")
        (auto simp: conflict_if_unique_def inspect_apply split: sum.splits if_splits)
    then have "w_db s2 = save_meter_row ws m (w_db s)" "meters_unique (save_meter_row ws m (w_db s))"
      using query_ok [OF q] by (auto simp: exec_unique_def dest!: stmt_ok split: if_splits)
    moreover have "keeps (on_db (\<lambda>d. db_meters d = db_meters (w_db s2)))
        (if existing \<noteq> [] then return_ok () else attempt clock_now (\<lambda>_. IncrementWorkspaceMeters ws 1))"
      unfolding IncrementWorkspaceMeters_def by (intro keeps_rules keeps_exec) simp
    then have "db_meters (w_db v) = db_meters (w_db s2)" using keepsD [of _ _ s2] rest by (fastforce simp: on_db_def)
    ultimately show ?thesis by simp
  qed
  from tx show thesis
  proof (cases rule: in_transaction_cases)
    case ran
    then show ?thesis using body that ws \<open>m' = m\<close> by blast
  next
    case (committed x v)
    then show ?thesis using body [of "(drop_fault w)\<lparr>w_in_tx := True\<rparr>" v] that ws \<open>m' = m\<close> by auto
  qed simp
qed

lemma Meter_Get_saved:
  assumes save: "Meter_Save ctx m w = (Inr m', u)" and ok: "meters_ok (w_db w)" and stable: "meterFromFields m = Inr m"
    and own: "\<And>ws. RequireWorkspaceID ctx = Inr ws \<Longrightarrow> owned ws m (w_db w)" and "next_fault u = None"
  shows "m' = m \<and> (\<exists>v. Meter_Get ctx (mtr_id m) u = (Inr m, v))"
proof -
  from save obtain ws where ws: "RequireWorkspaceID ctx = Inr ws" "m' = m"
    and rows: "db_meters (w_db u) = db_meters (save_meter_row ws m (w_db w))" "meters_unique (save_meter_row ws m (w_db w))"
    by (rule Meter_Save_ok)
  let ?rows = "db_meters (w_db u)"
  have "meters_ok (w_db u)"
    using meters_ok_save [OF ok stable rows(2)] by (rule meters_ok_frame [rotated]) (simp add: rows(1))
  then have distinct: "distinct_keys (\<lambda>(w, m). mtr_id m) ?rows" by (simp add: meters_ok_def)
  have mem: "(ws, m) \<in> set ?rows" using saved_row [OF own [OF ws(1)]] rows(1) by simp
  have "mtr_id m \<noteq> []" using stable by (auto simp: meterFromFields_def NewWithDimensions_def Let_def)
  then have "filter (\<lambda>(w, r). w = ws \<and> matches (mtr_id m) (mtr_id r)) ?rows = filter (\<lambda>row. (case row of (w, r) \<Rightarrow> mtr_id r) = (case (ws, m) of (w, r) \<Rightarrow> mtr_id r)) ?rows"
    using distinct_keys_unique [OF distinct mem] by (intro filter_cong) (auto simp: matches_def)
  then have found: "filter (\<lambda>(w, r). w = ws \<and> matches (mtr_id m) (mtr_id r)) ?rows = [(ws, m)]"
    using filter_key [OF distinct mem] by simp
  have "Meters_Find ctx (meter_id_query (mtr_id m)) u = (Inr [m], drop_fault u)"
    using ws(1) assms(5) found stable
    by (simp add: Meters_Find_def with_workspace_def meter_id_query_def query_def stmt_def attempt_apply matches_def [of "[]"]
        order_limit_def meter_NormalizeLimit_def)
  then show ?thesis using ws(2) by (simp add: Meter_Get_def attempt_apply)
qed

section \<open>Changes of dimensions\<close>

lemma dimensionsByName_lookup:
  assumes "distinct (map dim_name ds)"
  shows "fmlookup (dimensionsByName ds) name = map_of (map (\<lambda>d. (dim_name d, d)) ds) name"
proof -
  have "fmlookup (foldl (\<lambda>m d. fmupd (dim_name d) d m) m ds) name =
      (case map_of (map (\<lambda>d. (dim_name d, d)) ds) name of None \<Rightarrow> fmlookup m name | Some d \<Rightarrow> Some d)" for m
    using assms
  proof (induction ds arbitrary: m)
    case (Cons d ds)
    have "dim_name d = name \<Longrightarrow> map_of (map (\<lambda>d. (dim_name d, d)) ds) name = None"
      using Cons.prems by (auto simp: map_of_eq_None_iff image_image)
    then show ?case using Cons.IH [of "fmupd (dim_name d) d m"] Cons.prems by (auto split: option.splits)
  qed simp
  then show ?thesis by (auto simp: dimensionsByName_def split: option.splits)
qed

lemma dimensionsByName_Some:
  "distinct (map dim_name ds) \<Longrightarrow> fmlookup (dimensionsByName ds) name = Some d \<longleftrightarrow> d \<in> set ds \<and> dim_name d = name"
  by (auto simp: dimensionsByName_lookup map_of_eq_Some_iff comp_def)

lemma dimensionsByName_None:
  "distinct (map dim_name ds) \<Longrightarrow> fmlookup (dimensionsByName ds) name = None \<longleftrightarrow> name \<notin> dim_name ` set ds"
  by (auto simp: dimensionsByName_lookup map_of_eq_None_iff image_image)

lemma first_conflict_None: "first_conflict conflict ds = None \<longleftrightarrow> (\<forall>d \<in> set ds. conflict d = None)"
proof (cases "filter (\<lambda>d. conflict d \<noteq> None) ds")
  case Nil
  then show ?thesis by (simp add: first_conflict_def filter_empty_conv)
next
  case (Cons d rest)
  then have "d \<in> set (filter (\<lambda>d. conflict d \<noteq> None) ds)" by simp
  then show ?thesis using Cons by (auto simp: first_conflict_def)
qed

text \<open>Dimensions that accept what earlier ones accepted.\<close>

definition compatible_dimensions :: "Dimension list \<Rightarrow> Dimension list \<Rightarrow> bool" where
  "compatible_dimensions old new \<longleftrightarrow>
    (\<forall>d \<in> set old. \<exists>d' \<in> set new. dim_name d' = dim_name d \<and> dim_type d' = dim_type d) \<and>
    (\<forall>d' \<in> set new. RequiresValue d' \<longrightarrow> (\<exists>d \<in> set old. dim_name d = dim_name d' \<and> RequiresValue d))"

lemma no_conflict_compatible:
  assumes "distinct (map dim_name old)" "distinct (map dim_name new)"
    "first_conflict (dimension_conflict (dimensionsByName new)) old = None"
    "first_conflict (addition_conflict (dimensionsByName old)) new = None"
  shows "compatible_dimensions old new"
  unfolding compatible_dimensions_def
proof (intro conjI ballI impI)
  fix d assume d: "d \<in> set old"
  then have none: "dimension_conflict (dimensionsByName new) d = None" using assms(3) by (simp add: first_conflict_None)
  then obtain d' where "fmlookup (dimensionsByName new) (dim_name d) = Some d'" "dim_type d' = dim_type d"
    by (auto simp: dimension_conflict_def split: option.splits if_splits)
  then show "\<exists>d' \<in> set new. dim_name d' = dim_name d \<and> dim_type d' = dim_type d"
    using assms(2) by (auto simp: dimensionsByName_Some)
next
  fix d' assume d': "d' \<in> set new" "RequiresValue d'"
  then have "dim_name d' \<in> dim_name ` set old"
    using assms(1,4) by (auto simp: first_conflict_None addition_conflict_def dimensionsByName_None split: if_splits)
  then obtain d where d: "d \<in> set old" "dim_name d = dim_name d'" by auto
  have "fmlookup (dimensionsByName new) (dim_name d) = Some d'"
    using d d' assms(2) by (simp add: dimensionsByName_Some)
  moreover have "dimension_conflict (dimensionsByName new) d = None" using assms(3) d(1) by (simp add: first_conflict_None)
  ultimately show "\<exists>d \<in> set old. dim_name d = dim_name d' \<and> RequiresValue d"
    using d d'(2) by (auto simp: dimension_conflict_def split: if_splits)
qed

section \<open>Updates\<close>

lemma NewWithDimensions_fields:
  assumes "NewWithDimensions i n ds u a dims days t = Inr m"
  shows "mtr_id m = i" "mtr_name m = TrimSpace n" "mtr_createdAt m = t"
  using assms by (auto simp: NewWithDimensions_def Let_def try_res_eq_Inr split: if_splits)

lemma Meter_Update_ok:
  assumes "Meter_Update ctx cmd w = (Inr m, u)" "meters_ok (w_db w)"
  obtains ws old w1 w2 where "RequireWorkspaceID ctx = Inr ws" "(ws, old) \<in> set (db_meters (w_db w))"
    "umc_ID cmd = [] \<or> mtr_id old = umc_ID cmd" "meterFromFields m = Inr m" "mtr_id m = mtr_id old"
    "mtr_name m = mtr_name old" "mtr_createdAt m = mtr_createdAt old" "w_db w1 = w_db w"
    "validateDimensionUpdate ctx old m w1 = (Inr (), w2)" "Meter_Save ctx m w2 = (Inr m, u)" "w_db w2 = w_db w"
proof -
  obtain meters w1 where find: "Meters_Find ctx (meter_id_query (umc_ID cmd)) w = (Inr meters, w1)"
    using assms(1) by (auto simp: Meter_Update_def attempt_eq_Inr)
  then obtain old rest where meters: "meters = old # rest"
    using assms(1) by (cases meters) (auto simp: Meter_Update_def attempt_apply)
  from assms(1) find obtain nxt w2 where new: "\<exists>ds un a dims days. NewWithDimensions (mtr_id old) (mtr_name old) ds un a dims days (mtr_createdAt old) = Inr nxt"
    and valid: "validateDimensionUpdate ctx old nxt w1 = (Inr (), w2)" and save: "Meter_Save ctx nxt w2 = (Inr m, u)"
    unfolding Meter_Update_def by (auto simp: meters attempt_apply split: sum.splits prod.splits) blast
  have m: "m = nxt" using save by (rule Meter_Save_ok)
  obtain ws where ws: "RequireWorkspaceID ctx = Inr ws" and w1: "w_db w1 = w_db w"
    and old: "(ws, old) \<in> set (db_meters (w_db w))" "matches (umc_ID cmd) (mtr_id old)"
  proof (rule Meters_Find_ok [OF find assms(2)])
    fix ws assume ws: "RequireWorkspaceID ctx = Inr ws" "w_db w1 = w_db w"
      and sel: "meters = order_limit mtr_name (meter_NormalizeLimit (mq_limit (meter_id_query (umc_ID cmd)))) (map snd (filter (\<lambda>(w, m). w = ws \<and>
        matches (mq_id (meter_id_query (umc_ID cmd))) (mtr_id m) \<and> matches (mq_name (meter_id_query (umc_ID cmd))) (mtr_name m) \<and>
        (mq_cursor (meter_id_query (umc_ID cmd)) = [] \<or> mq_cursor (meter_id_query (umc_ID cmd)) < mtr_name m)) (db_meters (w_db w))))"
    have "old \<in> set meters" by (simp add: meters)
    then show thesis using that [OF ws] unfolding sel by (auto simp: meter_id_query_def dest!: in_order_limit)
  qed
  have "meterFromFields old = Inr old" using old(1) assms(2) by (force simp: meters_ok_def)
  then have "mtr_name old = TrimSpace (mtr_name old)" unfolding meterFromFields_def by (rule NewWithDimensions_fields(2))
  moreover have "w_db w2 = w_db w" using reads_meter_service(3) valid w1 by (auto simp: reads_only_def)
  moreover from new have "mtr_id m = mtr_id old" "mtr_name m = TrimSpace (mtr_name old)" "mtr_createdAt m = mtr_createdAt old" "meterFromFields m = Inr m"
    unfolding m by (auto dest: NewWithDimensions_fields meterFromFields_idem)
  ultimately show thesis using that ws old w1 valid save m by (simp add: matches_def)
qed

section \<open>Properties\<close>

text \<open>Claim C10. A meter reads back as it was written: once a meter was created, or changed, reading it by its id
  returns exactly the meter that the operation returned, with its dimensions, description and retention as they
  were normalised (for a new meter, when no other has its id).\<close>

theorem meter_reads_back:
  assumes "meters_ok (w_db w)" "next_fault u = None"
    and "Meter_Update ctx changes w = (Inr m, u) \<or>
      Meter_Create ctx cmd w = (Inr m, u) \<and> (\<forall>row \<in> set (db_meters (w_db w)). mtr_id (snd row) \<noteq> id_text (w_next_id w))"
  shows "\<exists>v. Meter_Get ctx (mtr_id m) u = (Inr m, v)"
  using assms(3)
proof
  assume "Meter_Update ctx changes w = (Inr m, u)"
  then obtain ws old w1 w2 where up: "RequireWorkspaceID ctx = Inr ws" "(ws, old) \<in> set (db_meters (w_db w))"
    "meterFromFields m = Inr m" "mtr_id m = mtr_id old" "mtr_name m = mtr_name old" "mtr_createdAt m = mtr_createdAt old"
    and save: "Meter_Save ctx m w2 = (Inr m, u)" and w2: "w_db w2 = w_db w"
    using assms(1) by (elim Meter_Update_ok)
  have "owned ws m (w_db w2)"
    using assms(1) distinct_keys_unique [of _ _ "(ws, old)"] up(2,4-6) w2 by (fastforce simp: owned_def meters_ok_def)
  then show ?thesis using Meter_Get_saved [OF save _ up(3)] assms(1,2) w2 up(1) by auto
next
  assume create: "Meter_Create ctx cmd w = (Inr m, u) \<and> (\<forall>row \<in> set (db_meters (w_db w)). mtr_id (snd row) \<noteq> id_text (w_next_id w))"
  then obtain now w1 nxt where "clock_now (w\<lparr>w_next_id := w_next_id w + 1\<rparr>) = (Inr now, w1)"
    and new: "NewWithDimensions (id_text (w_next_id w)) (cmc_Name cmd) (cmc_Description cmd) (cmc_Unit cmd) (cmc_Aggregation cmd)
      (cmc_Dimensions cmd) (cmc_EventRetentionDays cmd) now = Inr nxt" and save: "Meter_Save ctx nxt w1 = (Inr m, u)"
    by (auto simp: Meter_Create_def attempt_eq_Inr fresh_id_text)
  then have w1: "w_db w1 = w_db w" using clock_now_db(1) [of "w\<lparr>w_next_id := w_next_id w + 1\<rparr>"] by simp
  have "mtr_id nxt = id_text (w_next_id w)" using new by (auto simp: NewWithDimensions_def Let_def try_res_eq_Inr split: if_splits)
  then have "owned ws nxt (w_db w1)" for ws using create w1 by (auto simp: owned_def)
  then show ?thesis using Meter_Get_saved [OF save _ meterFromFields_idem [OF new]] assms(1,2) w1 by auto
qed

definition requests_meter :: Meter where
  "requests_meter = \<lparr>mtr_id = ''m1'', mtr_name = ''requests'', mtr_description = [], mtr_unit = ''call'', mtr_aggregation = AggregationSum,
     mtr_dimensionTypes = fmempty, mtr_dimensions = [], mtr_eventRetentionDays = 90, mtr_createdAt = 1\<rparr>"

definition rename_unit :: UpdateMeterCommand where
  "rename_unit = \<lparr>umc_ID = ''m1'', umc_Description = None, umc_Unit = Some ''request'', umc_Aggregation = None,
     umc_Dimensions = None, umc_EventRetentionDays = None\<rparr>"

definition one_meter_db :: db where
  "one_meter_db = empty_db\<lparr>db_meters := [(''w'', requests_meter)]\<rparr>"

lemma one_meter_ok: "meters_ok one_meter_db"
  by (simp add: meters_ok_def meters_unique_def one_meter_db_def requests_meter_def meterFromFields_def NewWithDimensions_def
      normalizeDimensions_def normalizeEventRetentionDays_def MaxEventRetentionDays_def IsZero_def zero_time_def distinct_keys_def
      TrimSpace_plain)

lemma update_runs:
  "\<exists>u. Meter_Update (workspace_ctx ''w'') rename_unit (idle_world one_meter_db) = (Inr (requests_meter\<lparr>mtr_unit := ''request''\<rparr>), u) \<and>
    next_fault u = None"
  by (simp add: Meter_Update_def rename_unit_def Meters_Find_def meter_id_query_def with_workspace_def RequireWorkspaceID_def
      WorkspaceIDFromContext_def workspace_ctx_def TrimSpace_plain attempt_apply query_def stmt_def next_fault_def drop_fault_def
      idle_world_def one_meter_db_def empty_db_def order_limit_def meter_NormalizeLimit_def matches_def requests_meter_def
      meterFromFields_def NewWithDimensions_def normalizeDimensions_def normalizeEventRetentionDays_def MaxEventRetentionDays_def
      IsZero_def zero_time_def validateDimensionUpdate_def meterHasUsage_def FindMeterStats_def meter_stats_def Meter_Save_def
      in_transaction_def WithinTransaction_def as_body_def conflict_if_unique_def inspect_apply exec_unique_def save_meter_row_def
      row_upsert_def row_update_def meters_unique_def distinct_keys_def)

theorem meter_reads_back_witness:
  "\<exists>u v. Meter_Update (workspace_ctx ''w'') rename_unit (idle_world one_meter_db) = (Inr (requests_meter\<lparr>mtr_unit := ''request''\<rparr>), u) \<and>
    Meter_Get (workspace_ctx ''w'') ''m1'' u = (Inr (requests_meter\<lparr>mtr_unit := ''request''\<rparr>), v)"
proof -
  obtain u where run: "Meter_Update (workspace_ctx ''w'') rename_unit (idle_world one_meter_db) = (Inr (requests_meter\<lparr>mtr_unit := ''request''\<rparr>), u)"
    "next_fault u = None"
    using update_runs by blast
  have "meters_ok (w_db (idle_world one_meter_db))" using one_meter_ok by (simp add: idle_world_def)
  from meter_reads_back [OF this run(2) disjI1 [OF run(1)]] run(1) show ?thesis by (auto simp: requests_meter_def)
qed

text \<open>Claim C26. Once usage was recorded for a meter, no change of it makes its recorded metadata invalid by what
  was declared: an update that succeeds keeps every dimension with its type, and requires a value only where
  one was required before.\<close>

theorem meter_update_compatible:
  assumes "Meter_Update ctx cmd w = (Inr m, u)" "meters_ok (w_db w)" "umc_ID cmd \<noteq> []"
    and "RequireWorkspaceID ctx = Inr ws" "(ws, old) \<in> set (db_meters (w_db w))" "mtr_id old = umc_ID cmd"
    and "(ws, event) \<in> set (db_events (w_db w))" "ev_meterName event = mtr_name old"
  shows "compatible_dimensions (mtr_dimensions old) (mtr_dimensions m)"
proof -
  obtain old' w1 w2 where up: "(ws, old') \<in> set (db_meters (w_db w))" "mtr_id old' = umc_ID cmd" "meterFromFields m = Inr m"
    and w1: "w_db w1 = w_db w" and valid: "validateDimensionUpdate ctx old' m w1 = (Inr (), w2)"
    using assms(1-4) by (elim Meter_Update_ok) auto
  have old: "old' = old"
    using assms(2,5,6) up(1,2) distinct_keys_unique [of "\<lambda>(w, m). mtr_id m" "db_meters (w_db w)" "(ws, old')" "(ws, old)"]
    by (simp add: meters_ok_def)
  let ?stats = "meter_stats ws (w_db w)"
  have "mtr_name old \<in> set (map mst_MeterName ?stats)" using assms(7,8) by (force simp: meter_stats_def Let_def)
  moreover have "\<forall>stat \<in> set ?stats. 0 < mst_UsageEvents stat"
    by (fastforce simp: meter_stats_def Let_def filter_empty_conv)
  ultimately have "list_ex (\<lambda>stat. mst_MeterName stat = mtr_name old \<and> 0 < mst_UsageEvents stat) ?stats"
    by (auto simp: list_ex_iff)
  then have none: "first_conflict (dimension_conflict (dimensionsByName (mtr_dimensions m))) (mtr_dimensions old) = None"
    "first_conflict (addition_conflict (dimensionsByName (mtr_dimensions old))) (mtr_dimensions m) = None"
    using valid w1 assms(4) unfolding old
    by (auto simp: validateDimensionUpdate_def meterHasUsage_def FindMeterStats_def with_workspace_def attempt_eq_Inr
        dest!: query_ok split: option.splits)
  have "valid_meter old" "valid_meter m"
    using assms(2,5) up(3) NewWithDimensions_valid by (fastforce simp: meters_ok_def meterFromFields_def)+
  then show ?thesis using no_conflict_compatible [OF _ _ none] by (simp add: valid_meter_def)
qed

definition region :: Dimension where
  "region = \<lparr>dim_name = ''region'', dim_displayName = ''Region'', dim_description = [], dim_type = MetadataString,
     dim_required = False, dim_deprecated = False\<rparr>"

definition add_region :: UpdateMeterCommand where
  "add_region = \<lparr>umc_ID = ''m1'', umc_Description = None, umc_Unit = None, umc_Aggregation = None,
     umc_Dimensions = Some [region], umc_EventRetentionDays = None\<rparr>"

definition one_call :: Event where
  "one_call = \<lparr>ev_id = ''e1'', ev_idempotencyKey = [], ev_subject = ''s'', ev_meterName = ''requests'', ev_quantity = 1,
     ev_eventTime = 1, ev_receivedAt = 1, ev_metadata = fmempty\<rparr>"

definition used_meter_db :: db where
  "used_meter_db = one_meter_db\<lparr>db_events := [(''w'', one_call)]\<rparr>"

lemma region_ok: "normalizeDimensions [region] = Inr ([region], fmupd ''region'' MetadataString fmempty)"
  by (simp add: normalizeDimensions_def normalize_dimension_step_def NewDimension_def region_def TrimSpace_plain dimensionNamePattern_def
      Split_str_def IsReservedDimensionName_def dimension_byte_def is_alnum_def is_upper_def is_lower_def is_digit_def)

lemma no_dimensions: "normalizeDimensions [] = Inr ([], fmempty)"
  by (simp add: normalizeDimensions_def)

lemma region_optional: "dim_name region = ''region''" "\<not> RequiresValue region"
  by (simp_all add: region_def RequiresValue_def)

lemma add_region_runs:
  "\<exists>m u. Meter_Update (workspace_ctx ''w'') add_region (idle_world used_meter_db) = (Inr m, u) \<and> mtr_dimensions m = [region]"
  by (simp add: Meter_Update_def add_region_def Meters_Find_def meter_id_query_def with_workspace_def RequireWorkspaceID_def
      WorkspaceIDFromContext_def workspace_ctx_def TrimSpace_plain attempt_apply query_def stmt_def next_fault_def drop_fault_def
      idle_world_def used_meter_db_def one_call_def one_meter_db_def empty_db_def order_limit_def meter_NormalizeLimit_def matches_def
      requests_meter_def region_ok no_dimensions region_optional meterFromFields_def NewWithDimensions_def normalizeEventRetentionDays_def
      MaxEventRetentionDays_def
      IsZero_def zero_time_def validateDimensionUpdate_def meterHasUsage_def FindMeterStats_def meter_stats_def Meter_Save_def
      in_transaction_def WithinTransaction_def as_body_def conflict_if_unique_def inspect_apply exec_unique_def save_meter_row_def
      row_upsert_def row_update_def meters_unique_def distinct_keys_def first_conflict_def addition_conflict_def
      dimensionsByName_def)

theorem meter_update_compatible_witness:
  "\<exists>m u. Meter_Update (workspace_ctx ''w'') add_region (idle_world used_meter_db) = (Inr m, u) \<and> mtr_dimensions m = [region] \<and>
    compatible_dimensions [] [region]"
proof -
  obtain m u where run: "Meter_Update (workspace_ctx ''w'') add_region (idle_world used_meter_db) = (Inr m, u)" "mtr_dimensions m = [region]"
    using add_region_runs by blast
  have ok: "meters_ok (w_db (idle_world used_meter_db))"
    by (simp add: idle_world_def) (rule meters_ok_frame [OF _ one_meter_ok], simp add: used_meter_db_def)
  have "compatible_dimensions (mtr_dimensions requests_meter) (mtr_dimensions m)"
    by (rule meter_update_compatible [OF run(1) ok, of "''w''" _ one_call])
      (simp_all add: add_region_def RequireWorkspaceID_def WorkspaceIDFromContext_def workspace_ctx_def TrimSpace_plain
        idle_world_def used_meter_db_def one_meter_db_def requests_meter_def one_call_def)
  then show ?thesis using run by (auto simp: requests_meter_def)
qed

text \<open>Claim C27. The pages of the meters: a page holds the first meters, in the order of their names, after its cursor,
  and names the last of them as the next cursor when there are more.  But a page of 500, the largest size, never
  has a next cursor: the repository caps at 500 the 501 rows that the service asks for to see whether there are more.\<close>

theorem meter_pages:
  assumes "Meter_List ctx q w = (Inr r, u)" "meters_ok (w_db w)" "RequireWorkspaceID ctx = Inr ws"
  defines "all \<equiv> sort_key mtr_name (map snd (filter (\<lambda>(w, m). w = ws \<and> matches (mlq_Name q) (mtr_name m) \<and>
      (mlq_Cursor q = [] \<or> mlq_Cursor q < mtr_name m)) (db_meters (w_db w))))"
    and "n \<equiv> nat (meter_NormalizeLimit (mlq_Limit q))"
  shows "mlr_Items r = take n all \<and> mlr_NextCursor r = (if n < length all \<and> n < 500 then mtr_name (all ! (n - 1)) else [])"
proof -
  let ?q = "\<lparr>mq_id = [], mq_name = mlq_Name q, mq_cursor = mlq_Cursor q, mq_limit = meter_NormalizeLimit (mlq_Limit q) + 1\<rparr>"
  obtain meters v where find: "Meters_Find ctx ?q w = (Inr meters, v)"
    and r: "r = (if n < length meters then \<lparr>mlr_Items = take n meters, mlr_NextCursor = mtr_name (meters ! (n - 1))\<rparr>
      else \<lparr>mlr_Items = meters, mlr_NextCursor = []\<rparr>)"
    using assms(1) by (auto simp: Meter_List_def meter_page_def Let_def attempt_eq_Inr n_def split: if_splits)
  have meters: "meters = take (nat (meter_NormalizeLimit (meter_NormalizeLimit (mlq_Limit q) + 1))) all"
    by (rule Meters_Find_ok [OF find assms(2)]) (use assms(3) in \<open>simp add: order_limit_def all_def matches_def [of "[]"]\<close>)
  have n: "nat (meter_NormalizeLimit (meter_NormalizeLimit (mlq_Limit q) + 1)) = (if n < 500 then n + 1 else n)" "1 \<le> n"
    by (auto simp: meter_NormalizeLimit_def n_def)
  show ?thesis
  proof (cases "n < length all \<and> n < 500")
    case True
    then have "n < length meters" "take n meters = take n all" "meters ! (n - 1) = all ! (n - 1)"
      unfolding meters n using n(2) by simp_all
    then show ?thesis using True r by simp
  next
    case False
    then have "\<not> n < length meters" "meters = take n all" unfolding meters n by auto
    then show ?thesis using False r by auto
  qed
qed

theorem meter_pages_witness:
  "\<exists>r u. Meter_List (workspace_ctx ''w'') \<lparr>mlq_Name = [], mlq_Limit = 1, mlq_Cursor = []\<rparr> (idle_world one_meter_db) = (Inr r, u) \<and>
    mlr_Items r = [requests_meter] \<and> mlr_NextCursor r = []"
proof -
  let ?q = "\<lparr>mlq_Name = [], mlq_Limit = 1, mlq_Cursor = []\<rparr>"
  have ws: "RequireWorkspaceID (workspace_ctx ''w'') = Inr ''w''"
    by (simp add: RequireWorkspaceID_def WorkspaceIDFromContext_def workspace_ctx_def TrimSpace_plain)
  have ok: "meters_ok (w_db (idle_world one_meter_db))" using one_meter_ok by (simp add: idle_world_def)
  then have "meterFromFields requests_meter = Inr requests_meter" by (simp add: meters_ok_def idle_world_def one_meter_db_def)
  then obtain r u where run: "Meter_List (workspace_ctx ''w'') ?q (idle_world one_meter_db) = (Inr r, u)"
    by (simp add: Meter_List_def meter_page_def Meters_Find_def with_workspace_def ws attempt_apply query_def stmt_def next_fault_def
        idle_world_def one_meter_db_def order_limit_def meter_NormalizeLimit_def matches_def)
  from meter_pages [OF run ok ws] run show ?thesis
    by (simp add: idle_world_def one_meter_db_def meter_NormalizeLimit_def matches_def)
qed

end
