(* ===== verification/Frames.thy ===== *)
theory Frames
  imports ConsumptionSpec OutboxSpec PlanSpec AlertSpec MeterSpec AuthSpec
begin

text \<open>
  What the operations of each service leave alone.  A predicate on the tables that survives the
  statements of a service (one locale for each says which) survives its operations, with their
  transactions and failures.  It is proved once and used for the invariants of the other components.
\<close>

section \<open>Usage\<close>

lemma insert_event_row_appends: "\<exists>new. fst (foldl (insert_event_row ws) (rows, ids) events) = rows @ new"
proof (induction events arbitrary: rows ids)
  case (Cons e events)
  show ?case
  proof (cases "list_ex (taken ws e) rows")
    case False
    then show ?thesis using Cons.IH [of "rows @ [(ws, e)]" "ids @ [ev_id e]"] by auto
  qed (use Cons.IH in simp)
qed simp

locale usage_frame =
  fixes P :: "db \<Rightarrow> bool"
  assumes frame_events: "P d \<Longrightarrow> P (d\<lparr>db_events := db_events d @ rows\<rparr>)"
    and frame_counters: "P d \<Longrightarrow> P (d\<lparr>db_counters := c\<rparr>)"
    and frame_usage_counts: "P d \<Longrightarrow> P (d\<lparr>db_usage_counts := u\<rparr>)"
    and frame_bulk: "P d \<Longrightarrow> P (d\<lparr>db_bulk := b\<rparr>)"
    and frame_ingestions: "P d \<Longrightarrow> P (d\<lparr>db_ingestions := i\<rparr>)"
    and frame_rate_windows: "P d \<Longrightarrow> P (d\<lparr>db_rate_windows := r\<rparr>)"
    and frame_throttled: "P d \<Longrightarrow> P (d\<lparr>db_throttled := t\<rparr>)"
    and frame_enqueue: "keeps (on_db P) (EnqueueUsageEventOutbox (pending_message pid ws e md now))"
begin

lemma keeps_insert_statement: "keeps (on_db P) (insert_statement ws events)"
  unfolding insert_statement_def
proof (rule keeps_stmt)
  fix d x d' assume "P d" and run: "(if list_ex (\<lambda>e. ev_quantity e = NaN) events then (Inl null_quantity, d)
    else case insert_event_rows ws events d of (ids, d') \<Rightarrow> (Inr ids, d')) = (Inr x, d')"
  then have "d' = d\<lparr>db_events := fst (foldl (insert_event_row ws) (db_events d, []) events)\<rparr>"
    by (auto simp: insert_event_rows_def split: if_splits prod.splits)
  moreover obtain new where "fst (foldl (insert_event_row ws) (db_events d, []) events) = db_events d @ new"
    using insert_event_row_appends by blast
  ultimately show "P d'" using frame_events [OF \<open>P d\<close>] by simp
qed

lemma keeps_saveEventBatch: "keeps (on_db P) (saveEventBatch ctx ws events)"
  unfolding saveEventBatch_def insertUsageEvents_def applyAcceptedUsage_def IncrementEntitlementUsageCounter_def
    IncrementWorkspaceUsageEvents_def increment_counter_def
  by (auto intro!: keeps_rules keeps_insert_statement keeps_exec frame_counters frame_usage_counts split: prod.splits)

lemma keeps_EnqueueOutbox: "keeps (on_db P) (EnqueueOutbox ctx events now)"
  unfolding EnqueueOutbox_def by (auto intro!: keeps_rules frame_enqueue)

lemma keeps_ingestion: "keeps (on_db P) (saveIngestionRun ctx cmd)"
  by (rule keeps_saveIngestionRun) (rule frame_ingestions)

lemma keeps_capacity: "keeps (on_db P) (checkIngestionCapacity limits ctx n)"
  by (rule checkIngestionCapacity_keeps(1)) (rule frame_rate_windows frame_throttled; assumption)+

lemma keeps_save_with_outbox: "keeps (on_db P) (save_with_outbox ctx kind e)"
  unfolding save_with_outbox_def Usage_Save_def Let_def
  by (auto intro!: keeps_rules keeps_saveEventBatch keeps_EnqueueOutbox keeps_ingestion)

lemma keeps_SaveBulk: "keeps (on_db P) (SaveBulk ctx key events)"
  unfolding SaveBulk_def save_new_bulk_def SaveBulkUsageIngestion_def
  by (auto intro!: keeps_rules keeps_saveEventBatch keeps_execrows frame_bulk split: sum.splits option.splits)

lemma keeps_save_bulk_with_outbox: "keeps (on_db P) (save_bulk_with_outbox ctx kind key events failed)"
  unfolding save_bulk_with_outbox_def
  by (auto intro!: keeps_rules keeps_SaveBulk keeps_EnqueueOutbox keeps_ingestion split: prod.splits)

lemma keeps_usage_create: "keeps (on_db P) (create limits ctx kind cmd)"
  unfolding create_def by (auto intro!: keeps_rules keeps_capacity keeps_save_with_outbox)

lemma keeps_bulk_step: "keeps (on_db P) (foreach commands acc (bulk_event_step ctx))"
  by (rule keepsI) (rule calm_on_db [OF keeps_bulk_loop])

lemma keeps_usage_createBulk: "keeps (on_db P) (createBulk limits ctx kind key commands n)"
  unfolding createBulk_def Let_def
  by (auto intro!: keeps_attempt keeps_if keeps_return keeps_capacity keeps_bulk_step keeps_ingestion keeps_in_transaction
      keeps_save_bulk_with_outbox split: prod.splits)

end

section \<open>Consumption\<close>

lemma keeps_var_WithinTransaction:
  assumes "keeps_var (on_db P) f"
  shows "keeps_var (on_db P) (WithinTransaction v0 f)"
proof (unfold keeps_var_def, intro allI impI)
  fix w assume w: "on_db P w"
  obtain e v u where run: "WithinTransaction v0 f w = ((e, v), u)" by (metis prod.collapse)
  from run show "on_db P (snd (WithinTransaction v0 f w))"
  proof (cases rule: WithinTransaction_cases)
    case ran
    then show ?thesis using keeps_varD [OF assms w] run by simp
  next
    case (committed t)
    have "on_db P ((drop_fault w)\<lparr>w_in_tx := True\<rparr>)" using w by (simp add: on_db_def)
    from keeps_varD [OF assms this] show ?thesis using committed run by (simp add: on_db_def)
  next
    case (rolled_back x)
    then show ?thesis using w run by (simp add: on_db_def)
  qed
qed

locale consume_frame = usage_frame +
  assumes frame_decisions: "P d \<Longrightarrow> P (d\<lparr>db_decisions := v\<rparr>)"
    and frame_prunes: "P d \<Longrightarrow> P (d\<lparr>db_decision_prunes := q\<rparr>)"
begin

lemma keeps_find: "keeps (on_db P) (find_result ctx key)" "keeps (on_db P) (GetByIdempotencyKey ctx key)"
  unfolding find_result_def Decisions_Find_def GetByIdempotencyKey_def Let_def
  by (auto intro!: keeps_rules split: option.splits)

lemma keeps_persist: "keeps_var (on_db P) (persist_into ctx key result)"
proof -
  have "P d \<Longrightarrow> P (insert_decision row d)" for row d by (auto simp: insert_decision_def intro: frame_decisions split: option.splits)
  then have "keeps (on_db P) (Decisions_Save ctx key snapshot)" for snapshot
    unfolding Decisions_Save_def Decisions_Find_def Let_def
    by (auto intro!: keeps_rules keeps_execrows split: option.splits)
  then show ?thesis unfolding persist_into_def persist_def by (auto intro!: keeps_rules split: prod.splits)
qed

lemma keeps_create_and_persist: "keeps_var (on_db P) (create_and_persist limits ctx key cmd result)"
  unfolding create_and_persist_def Create_def by (auto intro!: keeps_rules keeps_usage_create keeps_persist)

lemma keeps_unless: "keeps_var (on_db P) k \<Longrightarrow> keeps_var (on_db P) (unless_decided ctx key result k)"
  unfolding unless_decided_def by (auto intro!: keeps_rules keeps_find split: sum.splits)

lemma keeps_consume_transaction: "keeps_var (on_db P) (consume_transaction limits ctx key cmd)"
proof (unfold keeps_var_def, intro allI impI)
  fix w assume w: "on_db P w"
  let ?cmd = "\<lparr>cac_Subject = co_Subject cmd, cac_Meter = co_MeterName cmd, cac_Quantity = co_Quantity cmd, cac_EventTime = co_EventTime cmd\<rparr>"
  obtain err a u where assess: "AssessConsumption ctx ?cmd w = ((err, a), u)" by (metis prod.collapse)
  have "on_db P u"
    using keeps_varD [OF keeps_AssessConsumption [of w ctx ?cmd], of w] assess w by (simp add: calm_def on_db_def)
  moreover have "keeps_var (on_db P) (consume_assessed limits ctx key cmd err a)"
    unfolding consume_assessed_def Let_def
    by (auto intro!: keeps_rules keeps_persist keeps_unless keeps_find keeps_create_and_persist split: option.splits sum.splits)
  ultimately show "on_db P (snd (consume_transaction limits ctx key cmd w))"
    using assess by (auto simp: consume_transaction_def keeps_var_def)
qed

lemma keeps_consume_once: "keeps (on_db P) (consume_once limits ctx key cmd)"
proof (rule keepsI)
  fix w assume w: "on_db P w"
  let ?one = "WithinTransaction zero_consume_result (consume_transaction limits ctx key cmd)"
  obtain e result u where one: "?one w = ((e, result), u)" by (metis prod.collapse)
  have u: "on_db P u"
    using keeps_varD [OF keeps_var_WithinTransaction [where ?v0.0 = zero_consume_result,
      OF keeps_consume_transaction [of limits ctx key cmd]] w] one by simp
  let ?result = "result\<lparr>cr_EvaluationFailed := True\<rparr>"
  let ?two = "WithinTransaction ?result (fail_open_transaction limits ctx key cmd ?result)"
  obtain e' result' v where two: "?two u = ((e', result'), v)" by (metis prod.collapse)
  have "keeps_var (on_db P) (fail_open_transaction limits ctx key cmd ?result)"
    unfolding fail_open_transaction_def by (intro keeps_unless keeps_create_and_persist)
  from keeps_varD [OF keeps_var_WithinTransaction [where ?v0.0 = "?result", OF this] u] two have "on_db P v" by simp
  then show "on_db P (snd (consume_once limits ctx key cmd w))"
    using one two u by (auto simp: consume_once_def Let_def split: option.splits)
qed

lemma keeps_Consume: "keeps (on_db P) (Consume limits ctx cmd)"
  unfolding Consume_def Let_def by (auto intro!: keeps_rules keeps_find keeps_consume_once split: sum.splits)

end

lemma keeps_PruneDecisions:
  assumes "\<And>ws t d. P d \<Longrightarrow> P (d\<lparr>db_decisions := row_delete (expired_decision ws t) (db_decisions d)\<rparr>)"
    and "\<And>d x. P d \<Longrightarrow> P (d\<lparr>db_decision_prunes := x\<rparr>)"
  shows "keeps_var (on_db P) (PruneDecisions ctx cmd)"
proof -
  have "keeps_var (on_db P) (prune_transaction ctx result)" for result
    unfolding prune_transaction_def CountExpired_def PruneExpired_def SavePruneRun_def Let_def
    by (auto intro!: keeps_rules keeps_execrows keeps_exec_unique assms)
  then show ?thesis
    unfolding PruneDecisions_def Let_def by (auto intro!: keeps_rules keeps_var_WithinTransaction)
qed

section \<open>Meters\<close>

locale meter_frame =
  fixes P :: "db \<Rightarrow> bool"
  assumes frame_meters: "P d \<Longrightarrow> P (d\<lparr>db_meters := ms\<rparr>)"
    and frame_meter_counts: "P d \<Longrightarrow> P (d\<lparr>db_meter_counts := c\<rparr>)"
begin

lemma keeps_meter_save: "keeps (on_db P) (Meter_Save ctx m)"
  unfolding Meter_Save_def IncrementWorkspaceMeters_def save_meter_row_def
  by (auto intro!: keeps_rules keeps_exec keeps_exec_unique frame_meters frame_meter_counts)

lemma keeps_meters:
  "keeps (on_db P) (Meter_Create ctx cmd)" "keeps (on_db P) (Meter_Update ctx ucmd)" "keeps (on_db P) (Meter_Delete ctx mid)"
  unfolding Meter_Create_def Meter_Update_def Meter_Delete_def Meter_Repo_Delete_def DeleteMeter_def IncrementWorkspaceMeters_def
  by (auto intro!: keeps_rules keeps_meter_save keeps_stmt keeps_exec frame_meters frame_meter_counts
      reads_only_keeps(1) [OF reads_meter_service(3)] split: list.splits if_splits)

end

section \<open>Plans, checks, alerts and the outbox\<close>

locale check_frame =
  fixes P :: "db \<Rightarrow> bool"
  assumes frame_states: "P d \<Longrightarrow> P (d\<lparr>db_states := s\<rparr>)"
    and frame_snapshots: "P d \<Longrightarrow> P (d\<lparr>db_snapshots := n\<rparr>)"
    and frame_entitlement_events: "P d \<Longrightarrow> P (d\<lparr>db_entitlement_events := v\<rparr>)"
begin

lemma keeps_evaluation: "keeps (on_db P) (Evaluate ctx cmd)"
  by (rule keeps_Evaluate) (rule frame_states frame_snapshots frame_entitlement_events, assumption)+

end

locale plan_frame = check_frame +
  assumes frame_plans: "P d \<Longrightarrow> P (d\<lparr>db_plans := ps\<rparr>)"
    and frame_limits: "P d \<Longrightarrow> P (d\<lparr>db_limits := ls\<rparr>)"
    and frame_assignments: "P d \<Longrightarrow> P (d\<lparr>db_assignments := as\<rparr>)"
begin

lemma frame_delete_plan: "P d \<Longrightarrow> P (delete_plan_rows ws pid d)"
  unfolding delete_plan_rows_def
  by (intro frame_plans frame_limits frame_assignments frame_states frame_entitlement_events frame_snapshots)

lemma keeps_plan_service:
  "keeps (on_db P) (CreatePlan ctx c)" "keeps (on_db P) (UpdatePlan ctx u)" "keeps (on_db P) (DeletePlan ctx pid)"
  "keeps (on_db P) (AssignSubject ctx a)" "keeps (on_db P) (DeleteSubjectAssignment ctx subject)"
proof -
  show "keeps (on_db P) (CreatePlan ctx c)" "keeps (on_db P) (UpdatePlan ctx u)" "keeps (on_db P) (DeletePlan ctx pid)"
    unfolding CreatePlan_def UpdatePlan_def DeletePlan_def Repo_DeletePlan_def Let_def
    by (auto intro!: keeps_rules keeps_plan_ops keeps_reassign keeps_execrows frame_plans frame_limits frame_assignments frame_delete_plan)
  show "keeps (on_db P) (AssignSubject ctx a)" "keeps (on_db P) (DeleteSubjectAssignment ctx subject)"
    by (rule keeps_assignment_service, rule frame_assignments, assumption)+
qed

end

text \<open>The jobs of the checks, which the outbox feeds.\<close>

locale queue_frame = check_frame +
  assumes frame_jobs: "P d \<Longrightarrow> P (d\<lparr>db_jobs := j\<rparr>)"
    and frame_dead_letters: "P d \<Longrightarrow> P (d\<lparr>db_dead_letters := l\<rparr>)"
begin

lemma keeps_enqueue_checks: "keeps (on_db P) (EnqueueForUsageEvents ctx events)"
  unfolding EnqueueForUsageEvents_def EnqueueEntitlementCheckJob_def enqueue_job_def Let_def
  by (auto intro!: keeps_rules keeps_exec frame_jobs split: sum.splits)

lemma keeps_check_jobs:
  "keeps (on_db P) (ClaimCheckJob ctx cmd)" "keeps (on_db P) (CompleteCheckJob ctx c)"
  "keeps (on_db P) (FailCheckJob ctx f)" "keeps (on_db P) (DeadLetterCheckJob ctx q)"
  unfolding ClaimCheckJob_def ClaimEntitlementCheckJob_def claim_job_def CompleteCheckJob_def FailCheckJob_def
    DeadLetterCheckJob_def DeleteEntitlementCheckJob_def RequeueEntitlementCheckJob_def SaveCheckDeadLetter_def Let_def
  by (auto intro!: keeps_rules keeps_stmt keeps_execrows keeps_exec_unique frame_jobs frame_dead_letters
      split: prod.splits option.splits)

lemma keeps_check_worker: "keeps (on_db P) (Check_ProcessOnce worker ctx)"
  unfolding Check_ProcessOnce_def check_failed_def Let_def
  by (auto intro!: keeps_rules keeps_check_jobs keeps_evaluation split: option.splits sum.splits)

end

locale alert_frame =
  fixes P :: "db \<Rightarrow> bool"
  assumes frame_alerts: "P d \<Longrightarrow> P (d\<lparr>db_alerts := t\<rparr>)"
begin

lemma frame_on_alerts: "P d \<Longrightarrow> P (on_alerts f d)"
  by (simp add: on_alerts_def frame_alerts)

lemma keeps_child: "keeps (on_db P) (exec_child parent f)"
  unfolding exec_child_def by (rule keeps_stmt) (auto intro: frame_on_alerts split: if_splits)

lemma keeps_delivery_updates: "keeps (on_db P) (update_deliveries hit f)"
  unfolding update_deliveries_def by (auto intro!: keeps_rules keeps_execrows frame_on_alerts)

lemma keeps_save_rows:
  "keeps (on_db P) (SaveState st)" "keeps (on_db P) (SaveAlertEvent event)" "keeps (on_db P) (SaveDeliveryJob ctx job)"
  "keeps (on_db P) (SaveDelivery dlv)" "keeps (on_db P) (UpdateRuleNextEvaluation rid a b)"
  "keeps (on_db P) (EnqueueEvaluationJob rid a b)" "keeps (on_db P) (SaveRule ctx rule)"
  unfolding SaveState_def SaveAlertEvent_def SaveDeliveryJob_def SaveDelivery_def UpdateRuleNextEvaluation_def
    EnqueueEvaluationJob_def SaveRule_def Let_def
  by (auto intro!: keeps_rules keeps_stmt keeps_exec keeps_execrows keeps_child frame_on_alerts split: if_splits)

lemma keeps_alert_rules:
  "keeps (on_db P) (Alert_Create ctx sc)" "keeps (on_db P) (Alert_Update ctx uc)" "keeps (on_db P) (Alert_Delete ctx rid)"
  "keeps (on_db P) (DeleteDestination ctx did)" "keeps (on_db P) (Alert_EnqueueForUsageEvents ctx events)"
  "keeps (on_db P) (EnqueueDueRules limit)"
  unfolding Alert_Create_def Alert_Update_def Alert_Delete_def DeleteDestination_def Alert_EnqueueForUsageEvents_def
    EnqueueDueRules_def save_and_enqueue_def DeleteRule_def Repo_DeleteDestination_def enqueue_matching_def
    EnqueueDueEvaluationJobs_def Let_def
  by (auto intro!: keeps_rules keeps_save_rows keeps_execrows frame_on_alerts split: option.splits)

lemma keeps_alert_evaluation:
  assumes "reads_usage usage"
  shows "keeps (on_db P) (Alert_Evaluate usage ctx rid)"
proof -
  have save: "keeps (on_db P) (saveEvaluations c rule st ev t)" for c rule st ev t
    unfolding saveEvaluations_def save_evaluation_rows_def
    by (auto intro!: keeps_rules keeps_save_rows split: option.splits)
  show ?thesis
    unfolding Alert_Evaluate_def evaluateGlobal_def evaluateGrouped_def evaluation_failed_def saveEvaluation_def Let_def
    using assms by (auto intro!: keeps_rules save keeps_save_rows intro: reads_only_keeps(1)
        simp: reads_usage_def split: sum.splits option.splits prod.splits)
qed

lemma keeps_alert_deliveries:
  "keeps (on_db P) (RecordDelivery dc)" "keeps (on_db P) (ClaimDeliveryJob ctx ttl n)"
  "keeps (on_db P) (CompleteDeliveryJob ctx jid k dc)" "keeps (on_db P) (FailDeliveryJob ctx jid k n retry dc)"
  "keeps (on_db P) (RequeueDeliveryJob ctx jid)"
  unfolding RecordDelivery_def ClaimDeliveryJob_def Repo_ClaimDeliveryJob_def CompleteDeliveryJob_def FailDeliveryJob_def
    RequeueDeliveryJob_def Repo_CompleteDeliveryJob_def Repo_RetryDeliveryJob_def Repo_RequeueDeliveryJob_def Let_def
  by (auto intro!: keeps_rules keeps_stmt keeps_delivery_updates keeps_save_rows frame_on_alerts
      split: sum.splits option.splits prod.splits)

lemma keeps_alert_jobs:
  "keeps (on_db P) (ClaimEvaluationJob ttl n)" "keeps (on_db P) (CompleteEvaluationJob rid k)"
  "keeps (on_db P) (FailEvaluationJob rid k retry)" "keeps (on_db P) (DeadLetterEvaluationJob ctx rid k m)"
  unfolding ClaimEvaluationJob_def Repo_ClaimEvaluationJob_def CompleteEvaluationJob_def FailEvaluationJob_def
    DeadLetterEvaluationJob_def Repo_CompleteEvaluationJob_def Repo_RequeueEvaluationJob_def SaveEvaluationDeadLetter_def Let_def
  by (auto intro!: keeps_rules keeps_stmt keeps_execrows keeps_exec_unique frame_on_alerts
      split: sum.splits option.splits prod.splits)

lemma keeps_alert_worker:
  "reads_usage usage \<Longrightarrow> keeps (on_db P) (Alert_ProcessOnce usage post worker ctx)"
  unfolding Alert_ProcessOnce_def processDeliveryOnce_def evaluation_not_done_def ignoring_not_found_def deliverWebhookJob_def Let_def
  by (auto intro!: keeps_rules keeps_alert_jobs keeps_alert_deliveries keeps_alert_evaluation split: option.splits sum.splits prod.splits)

end

text \<open>The worker of the outbox, for a predicate that the statements on messages and the two queues keep.\<close>

lemma keeps_outbox_worker:
  assumes "\<And>c m. keeps (on_db P) (enqueue_alerts c m)" "\<And>c es. keeps (on_db P) (EnqueueForUsageEvents c es)"
    and "keeps (on_db P) (ClaimOutbox \<lparr>occ_LockTTL = oo_LockTTL options, occ_MaxAttempts = oo_MaxAttempts options\<rparr>)"
    and "\<And>c. keeps (on_db P) (CompleteOutbox c)"
    and "\<And>f. ofc_MaxAttempts f = oo_MaxAttempts options \<Longrightarrow> keeps (on_db P) (FailOutbox f)"
  shows "keeps (on_db P) (ProcessOnce enqueue_alerts options ctx)"
  unfolding ProcessOnce_def dispatch_message_def swallow_not_found_def Let_def
  by (auto intro!: keeps_rules assms split: option.splits sum.splits)

locale outbox_frame =
  fixes P :: "db \<Rightarrow> bool"
  assumes frame_outbox: "P d \<Longrightarrow> P (d\<lparr>db_outbox := b\<rparr>)"
begin

lemma keeps_outbox:
  "keeps (on_db P) (ClaimOutbox c)" "keeps (on_db P) (CompleteOutbox m)" "keeps (on_db P) (FailOutbox f)"
  unfolding ClaimOutbox_def Repo_ClaimOutbox_def claim_message_def CompleteOutbox_def Repo_CompleteOutbox_def complete_message_def
    FailOutbox_def RetryOutbox_def retry_message_def
  by (auto intro!: keeps_rules keeps_stmt keeps_execrows frame_outbox split: prod.splits sum.splits option.splits)

end

section \<open>Authentication\<close>

text \<open>The requests of the authentication service, whatever password library and tracker of last uses it has.\<close>

inductive auth_step :: "world \<Rightarrow> world \<Rightarrow> bool" where
  create_user: "auth_step w (snd (CreateUser bc cmd w))"
| login: "auth_step w (snd (Login bc lcmd w))"
| external_login: "auth_step w (snd (LoginWithExternalIdentity xcmd w))"
| switch_workspace: "auth_step w (snd (SwitchWorkspace uid ws w))"
| authenticate: "auth_step w (snd (AuthenticateSessionPrincipal token w))"
| authenticate_key: "auth_step w (fst (snd (AuthenticateAPIKeyPrincipal token (w, uses))))"
| refresh: "auth_step w (snd (RefreshSession token w))"
| logout: "auth_step w (snd (DeleteSession token w))"
| create_key: "auth_step w (snd (CreateAPIKey ctx kcmd w))"
| rotate_key: "auth_step w (snd (RotateAPIKey ctx rcmd w))"
| delete_key: "auth_step w (snd (DeleteAPIKey ctx uid kid w))"
| update_member: "auth_step w (snd (UpdateWorkspaceMember prn ucmd w))"
| remove_member: "auth_step w (snd (RemoveWorkspaceMember prn uid w))"
| invite: "auth_step w (snd (session_request token (\<lambda>prn. CreateWorkspaceInvitation prn icmd) w))"
| accept: "auth_step w (snd (AcceptWorkspaceInvitation prn token w))"
| revoke_invitation: "auth_step w (snd (RevokeWorkspaceInvitation prn iid w))"

locale auth_frame =
  fixes P :: "db \<Rightarrow> bool"
  assumes frame_auth: "P d \<Longrightarrow> P (d\<lparr>db_auth := t\<rparr>)"
begin

lemma frame_on_auth: "P d \<Longrightarrow> P (on_auth f d)"
  by (simp add: on_auth_def frame_auth)

lemma keeps_auth_statements:
  "keeps (on_db P) (insert_auth check unique parents f)" "keeps (on_db P) (query_auth g)" "keeps (on_db P) (update_auth_rows n f)"
  "keeps (on_db P) (exec (on_auth f))"
  unfolding insert_auth_def query_auth_def update_auth_rows_def
  by (auto intro!: keeps_rules keeps_stmt keeps_execrows keeps_exec frame_on_auth split: if_splits)

lemma keeps_auth_reads:
  "keeps (on_db P) (FindUserByID uid)" "keeps (on_db P) (FindUserByEmail email)"
  "keeps (on_db P) (FindIdentityByProviderSubject p s)" "keeps (on_db P) (FindDefaultWorkspaceByUserID uid)"
  "keeps (on_db P) (FindWorkspaceAccess ws uid)" "keeps (on_db P) (CountWorkspaceOwners ws)"
  "keeps (on_db P) (Repo_ListWorkspaceInvitations ws)" "keeps (on_db P) (FindWorkspaceInvitationByTokenHash h)"
  "keeps (on_db P) (FindSessionByTokenHash h k now)" "keeps (on_db P) (FindAPIKeyPrincipalByTokenHash h)"
  "keeps (on_db P) (FindAPIKeyByID ctx uid kid)"
  "keeps (on_db P) (newSessionToken pre)" "keeps (on_db P) (hashPassword bc pw)" "keeps (on_db P) (apiKeyEvent key ty rel eff t0)"
  unfolding FindUserByID_def FindUserByEmail_def FindIdentityByProviderSubject_def FindDefaultWorkspaceByUserID_def FindWorkspaceAccess_def
    CountWorkspaceOwners_def Repo_ListWorkspaceInvitations_def FindWorkspaceInvitationByTokenHash_def FindSessionByTokenHash_def
    FindAPIKeyPrincipalByTokenHash_def FindAPIKeyByID_def newSessionToken_def hashPassword_def apiKeyEvent_def
  by (auto intro!: keeps_rules keeps_auth_statements)

lemma keeps_auth_sessions:
  "keeps (on_db P) (ensureDefaultWorkspace u)" "keeps (on_db P) (issue_sessions user)"
  "keeps (on_db P) (createLoginResultForWorkspace u ws)" "keeps (on_db P) (createLoginResult u)"
  "keeps (on_db P) (authenticateToken token kind)" "keeps (on_db P) (AuthenticateSessionPrincipal token)"
  unfolding ensureDefaultWorkspace_def issue_sessions_def createLoginResultForWorkspace_def createLoginResult_def
    AuthenticateSessionPrincipal_def AuthenticateSession_def authenticateToken_def
    SaveWorkspace_def SaveWorkspaceMembership_def insert_membership_def save_session_of_def SaveSession_def Let_def
  by (auto intro!: keeps_rules keeps_auth_statements keeps_auth_reads split: option.splits)

lemma keeps_auth_users:
  "keeps (on_db P) (CreateUser bc cmd)" "keeps (on_db P) (Login bc lcmd)" "keeps (on_db P) (SwitchWorkspace uid ws)"
  "keeps (on_db P) (LoginWithExternalIdentity xcmd)" "keeps (on_db P) (RefreshSession token)" "keeps (on_db P) (DeleteSession token)"
  unfolding CreateUser_def Login_def SwitchWorkspace_def LoginWithExternalIdentity_def external_user_def RefreshSession_def DeleteSession_def
    DeleteSessionByTokenHash_def SaveUser_def SaveIdentity_def Let_def
  by (auto intro!: keeps_rules keeps_auth_statements keeps_auth_reads keeps_auth_sessions split: option.splits sum.splits)

lemma keeps_auth_keys:
  "keeps (on_db P) (CreateAPIKey ctx ccmd)" "keeps (on_db P) (RotateAPIKey ctx rcmd)" "keeps (on_db P) (DeleteAPIKey ctx uid kid)"
  "keeps (on_db P) (UpdateAPIKeyLastUsed kid now)"
  unfolding CreateAPIKey_def RotateAPIKey_def DeleteAPIKey_def UpdateAPIKeyLastUsed_def Repo_CreateAPIKey_def Repo_RotateAPIKey_def
    RevokeAPIKey_def saveAPIKey_def saveAPIKeyEvent_def revoke_keys_def Let_def
  by (auto intro!: keeps_rules keeps_auth_statements keeps_auth_reads split: option.splits)

lemma keeps_auth_members:
  "keeps (on_db P) (UpdateWorkspaceMember prn ucmd)" "keeps (on_db P) (RemoveWorkspaceMember prn uid)"
  "keeps (on_db P) (session_request token (\<lambda>prn. CreateWorkspaceInvitation prn icmd))" "keeps (on_db P) (AcceptWorkspaceInvitation prn token)"
  "keeps (on_db P) (RevokeWorkspaceInvitation prn iid)"
  unfolding session_request_def UpdateWorkspaceMember_def RemoveWorkspaceMember_def CreateWorkspaceInvitation_def AcceptWorkspaceInvitation_def
    RevokeWorkspaceInvitation_def retire_invitation_def Repo_RevokeWorkspaceInvitation_def UpdateWorkspaceMembershipRole_def
    DeleteWorkspaceMembership_def SaveWorkspaceInvitation_def Repo_AcceptWorkspaceInvitation_def
    insert_membership_def invitationByToken_def check_owners_left_def check_not_member_def as_role_def Let_def
  by (auto intro!: keeps_rules keeps_auth_statements keeps_auth_reads keeps_auth_sessions split: option.splits)

lemma keeps_key_request: "keeps (\<lambda>(w, r). on_db P w) (AuthenticateAPIKeyPrincipal token)"
  by (intro keeps_key_authentication keeps_auth_keys keeps_auth_reads keeps_rules)

lemma auth_step_frame: "auth_step w v \<Longrightarrow> on_db P w \<Longrightarrow> on_db P v"
proof (induction rule: auth_step.induct)
  case (authenticate_key w token uses)
  then show ?case using keepsD [OF keeps_key_request, of "(w, uses)" token] by (auto split: prod.splits)
qed (auto intro: keeps_auth_users [THEN keepsD] keepsD [OF keeps_auth_sessions(6)] keeps_auth_keys [THEN keepsD] keeps_auth_members [THEN keepsD])

end

lemma auth_step_ok: "auth_step w v \<Longrightarrow> quiet auth_ok w \<Longrightarrow> quiet auth_ok v"
proof (induction rule: auth_step.induct)
  case (authenticate w token)
  have "keeps (quiet auth_ok) (AuthenticateSessionPrincipal token)"
    by (intro keeps_auth_okI rows.keeps_authenticate owned.keeps_authenticate trail.keeps_authenticate keeps_tx_logins)
  from keepsD [OF this authenticate] show ?case .
next
  case (authenticate_key w token uses)
  then show ?case using keepsD [OF keeps_auth_ok_key, of "(w, uses)" token] by (auto split: prod.splits)
qed (auto intro: keeps_users [THEN keepsD] keeps_key_service [THEN keepsD] keeps_workspace_service [THEN keepsD])

end
