(* ===== verification/SavedQueryService.thy ===== *)
theory SavedQueryService
  imports AuthSpec
begin

text \<open>
  The saved queries of the users: the repository
  (\<^verbatim>\<open>src/internal/metering/adapters/sqlite/saved_query_repository.go\<close>, \<^verbatim>\<open>queries/saved_queries.sql\<close>), the
  service (\<^verbatim>\<open>src/internal/metering/app/savedquery/service.go\<close>), the invariant of the table and what the
  operations of one user leave to the others.
\<close>

section \<open>Commands\<close>

text \<open>What decoding the text of a query into a map yields: nothing but space, an error of the decoder, or
  an object (\<^verbatim>\<open>null\<close> is the empty one).\<close>

datatype RawQuery = RawBlank | RawUndecodable string | RawObject metadata

record SavedSaveCommand =
  svc_UserID :: string
  svc_Name :: string
  svc_Query :: RawQuery
  svc_GroupBy :: "string list"
  svc_BucketSize :: string
  svc_Limit :: int
  svc_Pinned :: bool
  svc_Position :: int

record SavedUpdateCommand =
  suc_ID :: string
  suc_UserID :: string
  suc_Name :: string
  suc_Query :: RawQuery
  suc_GroupBy :: "string list"
  suc_BucketSize :: string
  suc_Limit :: int
  suc_Pinned :: "bool option"
  suc_Position :: "int option"

section \<open>Normalisation\<close>

definition saved_DefaultLimit :: int where "saved_DefaultLimit = 500"
definition saved_MaxNameRunes :: nat where "saved_MaxNameRunes = 120"

definition saved_normalizeName :: "string \<Rightarrow> go_error + string" where
  "saved_normalizeName value0 =
    (let value = TrimSpace value0 in
     reject_if (value = []) (join_invalid ''name is required'') (
     reject_if (saved_MaxNameRunes < RuneCountInString value) (join_invalid ''name is too long'') (
     Inr value)))"

definition normalizeQuery :: "RawQuery \<Rightarrow> go_error + metadata" where
  "normalizeQuery value = (case value of
     RawBlank \<Rightarrow> Inl (join_invalid ''query is required'')
   | RawUndecodable msg \<Rightarrow> Inl (JoinErr ErrInvalidInput (NewError msg []))
   | RawObject decoded \<Rightarrow> reject_if (decoded = fmempty) (join_invalid ''query is required'') (Inr decoded))"

definition normalizeBucketSize :: "string \<Rightarrow> go_error + string" where
  "normalizeBucketSize value =
    (let size = TrimSpace value in
     if size = [] \<or> size = ''day'' then Inr ''day''
     else if size = ''hour'' then Inr ''hour''
     else if size = ''month'' then Inr ''month''
     else Inl (join_invalid ''unsupported bucket size''))"

definition saved_normalizeLimit :: "int \<Rightarrow> int" where
  "saved_normalizeLimit value = (if value \<le> 0 then saved_DefaultLimit else if MaxLimit < value then MaxLimit else value)"

definition normalizePosition :: "int \<Rightarrow> int" where
  "normalizePosition value = (if value < 0 then 0 else value)"

definition savedQueryFromInput ::
  "string \<Rightarrow> string \<Rightarrow> string \<Rightarrow> RawQuery \<Rightarrow> string list \<Rightarrow> string \<Rightarrow> int \<Rightarrow> time \<Rightarrow> (world, SavedQuery) proc" where
  "savedQueryFromInput qid uid0 name0 raw groupBy0 bucketSize0 limit createdAt0 =
    attempt (lift_res (normalizeRequired uid0 ''user id is required'')) (\<lambda>uid.
    attempt (lift_res (saved_normalizeName name0)) (\<lambda>name.
    attempt (lift_res (normalizeQuery raw)) (\<lambda>q.
    attempt (lift_res (NormalizeGroupBy groupBy0)) (\<lambda>groupBy.
    attempt (lift_res (normalizeBucketSize bucketSize0)) (\<lambda>bucketSize.
    attempt clock_now (\<lambda>now.
    let createdAt = (if IsZero createdAt0 then now else createdAt0) in
    return_ok \<lparr>sq_ID = TrimSpace qid, sq_UserID = uid, sq_Name = name, sq_Query = q, sq_GroupBy = groupBy,
      sq_BucketSize = bucketSize, sq_Limit = saved_normalizeLimit limit, sq_Pinned = False, sq_Position = 0,
      sq_CreatedAt = createdAt, sq_UpdatedAt = createdAt\<rparr>))))))"

section \<open>Repository\<close>

definition saved_unique :: "SavedQuery list \<Rightarrow> bool" where
  "saved_unique rows \<longleftrightarrow> distinct_keys sq_ID rows \<and> distinct_keys (\<lambda>q. (sq_UserID q, sq_Name q)) rows"

text \<open>The upsert: a row with the id is changed but for its user and its time of creation.\<close>

definition changed_query :: "SavedQuery \<Rightarrow> SavedQuery \<Rightarrow> SavedQuery" where
  "changed_query q row = q\<lparr>sq_ID := sq_ID row, sq_UserID := sq_UserID row, sq_CreatedAt := sq_CreatedAt row\<rparr>"

definition upsert_query :: "SavedQuery \<Rightarrow> SavedQuery list \<Rightarrow> SavedQuery list" where
  "upsert_query q rows = row_upsert sq_ID (changed_query q) q rows"

definition has_query :: "string \<Rightarrow> SavedQuery list \<Rightarrow> bool" where
  "has_query qid rows = list_ex (\<lambda>q. sq_ID q = qid) rows"

definition SaveSavedQuery :: "SavedQuery \<Rightarrow> (world, SavedQuery) proc" where
  "SaveSavedQuery q =
    attempt (conflict_if_unique (stmt (\<lambda>d.
      let rows = upsert_query q (db_saved_queries d) in
      if \<not> saved_unique rows then (Inl unique_violation, d)
      else if \<not> has_query (sq_ID q) (db_saved_queries d) \<and> \<not> has_user (sq_UserID q) (db_auth d) then (Inl foreign_key_violation, d)
      else (Inr (), d\<lparr>db_saved_queries := rows\<rparr>)))) (\<lambda>_. return_ok q)"

definition query_of :: "string \<Rightarrow> string \<Rightarrow> SavedQuery \<Rightarrow> bool" where
  "query_of uid qid q \<longleftrightarrow> sq_UserID q = uid \<and> sq_ID q = qid"

text \<open>Pinned first, then by position, the latest change first.\<close>

definition saved_order :: "SavedQuery list \<Rightarrow> SavedQuery list" where
  "saved_order rows = sort_key (\<lambda>q. (\<not> sq_Pinned q, sq_Position q)) (rev (sort_key (\<lambda>q. (ttxt (sq_UpdatedAt q), sq_ID q)) rows))"

definition FindSavedQueries :: "string \<Rightarrow> string \<Rightarrow> (world, SavedQuery list) proc" where
  "FindSavedQueries uid qid =
    (if qid \<noteq> [] then query (\<lambda>d. case row_find (query_of uid qid) (db_saved_queries d) of None \<Rightarrow> [] | Some q \<Rightarrow> [q])
     else query (\<lambda>d. saved_order (filter (\<lambda>q. sq_UserID q = uid) (db_saved_queries d))))"

definition DeleteSavedQuery :: "string \<Rightarrow> string \<Rightarrow> (world, unit) proc" where
  "DeleteSavedQuery uid qid = not_found_if_no_row (execrows
     (\<lambda>d. length (filter (query_of uid qid) (db_saved_queries d)))
     (\<lambda>d. d\<lparr>db_saved_queries := row_delete (query_of uid qid) (db_saved_queries d)\<rparr>))"

section \<open>Service\<close>

text \<open>A result has the fields of the stored query but its user.\<close>

definition SavedQuery_Create :: "SavedSaveCommand \<Rightarrow> (world, SavedQuery) proc" where
  "SavedQuery_Create cmd =
    attempt clock_now (\<lambda>now.
    attempt (savedQueryFromInput [] (svc_UserID cmd) (svc_Name cmd) (svc_Query cmd) (svc_GroupBy cmd) (svc_BucketSize cmd) (svc_Limit cmd) now) (\<lambda>q.
    attempt fresh_id (\<lambda>qid.
    SaveSavedQuery (q\<lparr>sq_ID := qid, sq_Pinned := svc_Pinned cmd, sq_Position := normalizePosition (svc_Position cmd)\<rparr>))))"

definition SavedQuery_List :: "string \<Rightarrow> (world, SavedQuery list) proc" where
  "SavedQuery_List uid0 =
    attempt (lift_res (normalizeRequired uid0 ''user id is required'')) (\<lambda>uid. FindSavedQueries uid [])"

definition updated_query :: "SavedUpdateCommand \<Rightarrow> SavedQuery \<Rightarrow> time \<Rightarrow> SavedQuery \<Rightarrow> SavedQuery" where
  "updated_query cmd existing now q = q\<lparr>
     sq_Pinned := (case suc_Pinned cmd of None \<Rightarrow> sq_Pinned existing | Some b \<Rightarrow> b),
     sq_Position := (case suc_Position cmd of None \<Rightarrow> sq_Position existing | Some p \<Rightarrow> normalizePosition p),
     sq_UpdatedAt := now\<rparr>"

definition SavedQuery_Update :: "SavedUpdateCommand \<Rightarrow> (world, SavedQuery) proc" where
  "SavedQuery_Update cmd =
    attempt (lift_res (normalizeRequired (suc_ID cmd) ''saved query id is required'')) (\<lambda>qid.
    attempt (lift_res (normalizeRequired (suc_UserID cmd) ''user id is required'')) (\<lambda>uid.
    attempt (FindSavedQueries uid qid) (\<lambda>found.
    case found of [] \<Rightarrow> return_err ErrNotFound
    | existing # _ \<Rightarrow>
        attempt (savedQueryFromInput qid uid (suc_Name cmd) (suc_Query cmd) (suc_GroupBy cmd) (suc_BucketSize cmd) (suc_Limit cmd)
          (sq_CreatedAt existing)) (\<lambda>q.
        attempt clock_now (\<lambda>now.
        SaveSavedQuery (updated_query cmd existing now q))))))"

definition SavedQuery_Delete :: "string \<Rightarrow> string \<Rightarrow> (world, unit) proc" where
  "SavedQuery_Delete qid0 uid0 =
    attempt (lift_res (normalizeRequired qid0 ''saved query id is required'')) (\<lambda>qid.
    attempt (lift_res (normalizeRequired uid0 ''user id is required'')) (\<lambda>uid.
    DeleteSavedQuery uid qid))"

section \<open>The invariant\<close>

definition saved_query_ok :: "SavedQuery \<Rightarrow> bool" where
  "saved_query_ok q \<longleftrightarrow> sq_Name q \<noteq> [] \<and> trimmed (sq_Name q) \<and> RuneCountInString (sq_Name q) \<le> saved_MaxNameRunes \<and>
     sq_Query q \<noteq> fmempty \<and> good_group (sq_GroupBy q) \<and> length (sq_GroupBy q) \<le> MaxGroupBy \<and>
     sq_BucketSize q \<in> {''hour'', ''day'', ''month''} \<and> 1 \<le> sq_Limit q \<and> sq_Limit q \<le> MaxLimit \<and> 0 \<le> sq_Position q"

definition saved_ok :: "db \<Rightarrow> bool" where
  "saved_ok d \<longleftrightarrow> saved_unique (db_saved_queries d) \<and>
     (\<forall>q \<in> set (db_saved_queries d). saved_query_ok q \<and> has_user (sq_UserID q) (db_auth d))"

lemma normalizePosition_nonneg [simp]: "0 \<le> normalizePosition n"
  by (simp add: normalizePosition_def)

lemma savedQueryFromInput_ok:
  assumes "savedQueryFromInput qid uid name raw groupBy size0 limit created w = (Inr q, u)"
  shows "saved_query_ok q" "sq_UserID q = TrimSpace uid" "sq_ID q = TrimSpace qid" "w_db u = w_db w" "w_next_id u = w_next_id w"
proof -
  have limit: "1 \<le> saved_normalizeLimit limit \<and> saved_normalizeLimit limit \<le> MaxLimit"
    by (simp add: saved_normalizeLimit_def saved_DefaultLimit_def MaxLimit_def)
  have raw: "normalizeQuery raw = Inr m \<Longrightarrow> m \<noteq> fmempty" for m
    by (auto simp: normalizeQuery_def split: RawQuery.splits)
  have bucket: "normalizeBucketSize size0 = Inr b \<Longrightarrow> b \<in> {''hour'', ''day'', ''month''}" for b
    by (auto simp: normalizeBucketSize_def Let_def split: if_splits)
  have clock: "clock_now v = (r, v') \<Longrightarrow> w_db v' = w_db v \<and> w_next_id v' = w_next_id v" for v r v'
    by (auto simp: clock_now_def split: list.splits)
  show "saved_query_ok q" "sq_UserID q = TrimSpace uid" "sq_ID q = TrimSpace qid" "w_db u = w_db w" "w_next_id u = w_next_id w"
    using assms limit
    by (auto simp: savedQueryFromInput_def attempt_eq_Inr lift_res_def Let_def saved_query_ok_def saved_normalizeName_def normalizeRequired_def
        TrimSpace_trimmed dest!: raw bucket NormalizeGroupBy_good clock)
qed

lemma saved_ok_upsert:
  assumes "saved_ok d" "saved_query_ok q" "saved_unique (upsert_query q (db_saved_queries d))"
    "has_query (sq_ID q) (db_saved_queries d) \<or> has_user (sq_UserID q) (db_auth d)"
  shows "saved_ok (d\<lparr>db_saved_queries := upsert_query q (db_saved_queries d)\<rparr>)"
proof (cases "has_query (sq_ID q) (db_saved_queries d)")
  case True
  then have "upsert_query q (db_saved_queries d) = row_update (\<lambda>r. sq_ID r = sq_ID q) (changed_query q) (db_saved_queries d)"
    by (auto simp: upsert_query_def row_upsert_def has_query_def list_ex_iff image_iff)
  moreover have "saved_query_ok (changed_query q r)" "sq_UserID (changed_query q r) = sq_UserID r" for r
    using assms(2) by (simp_all add: changed_query_def saved_query_ok_def)
  ultimately show ?thesis
    using assms(1,3) by (auto simp: saved_ok_def row_update_def)
next
  case False
  then have "upsert_query q (db_saved_queries d) = db_saved_queries d @ [q]"
    by (auto simp: upsert_query_def row_upsert_def has_query_def list_ex_iff)
  then show ?thesis using assms False by (auto simp: saved_ok_def)
qed

lemma keeps_SaveSavedQuery: "saved_query_ok q \<Longrightarrow> keeps (on_db saved_ok) (SaveSavedQuery q)"
  unfolding SaveSavedQuery_def Let_def
  by (auto intro!: keeps_rules keeps_stmt intro: saved_ok_upsert split: if_splits)

lemma saved_query_ok_fields [simp]:
  "saved_query_ok (q\<lparr>sq_ID := i\<rparr>) = saved_query_ok q" "saved_query_ok (q\<lparr>sq_Pinned := b\<rparr>) = saved_query_ok q"
  "saved_query_ok (q\<lparr>sq_UpdatedAt := t\<rparr>) = saved_query_ok q"
  "saved_query_ok q \<Longrightarrow> 0 \<le> p \<Longrightarrow> saved_query_ok (q\<lparr>sq_Position := p\<rparr>)"
  by (simp_all add: saved_query_ok_def)

lemma keeps_from_input:
  assumes "\<And>q. saved_query_ok q \<Longrightarrow> keeps (on_db saved_ok) (k q)"
  shows "keeps (on_db saved_ok) (attempt (savedQueryFromInput qid uid name raw groupBy size0 limit created) k)"
proof (rule keeps_attempt_run)
  show "keeps (on_db saved_ok) (savedQueryFromInput qid uid name raw groupBy size0 limit created)"
    unfolding savedQueryFromInput_def Let_def by (auto intro!: keeps_rules)
qed (use assms savedQueryFromInput_ok(1) in \<open>auto intro: keepsD\<close>)

lemma FindSavedQueries_rows:
  "ensures (on_db P) (FindSavedQueries uid qid) (\<lambda>found. on_db (\<lambda>d. P d \<and> set found \<subseteq> set (db_saved_queries d)))"
  unfolding FindSavedQueries_def
  by (auto intro!: ensures_if ensures_query simp: saved_order_def dest: row_find_Some [OF sym] split: option.splits)

lemma keeps_FindSavedQueries [keeps_rules]: "keeps (on_db P) (FindSavedQueries uid qid)"
  unfolding FindSavedQueries_def by (auto intro!: keeps_rules)

lemma keeps_update_existing:
  assumes "\<And>q. saved_query_ok q \<Longrightarrow> keeps (on_db saved_ok) (k q)"
  shows "keeps (on_db saved_ok) (attempt (FindSavedQueries uid qid) (\<lambda>found. case found of [] \<Rightarrow> return_err ErrNotFound | q # _ \<Rightarrow> k q))"
proof (rule keeps_attempt_run [OF keeps_FindSavedQueries])
  fix s found t
  assume s: "on_db saved_ok s" "FindSavedQueries uid qid s = (Inr found, t)" "on_db saved_ok t"
  show "on_db saved_ok (snd ((case found of [] \<Rightarrow> return_err ErrNotFound | q # _ \<Rightarrow> k q) t))"
  proof (cases found)
    case (Cons q qs)
    then have "saved_query_ok q"
      using ensuresD [OF FindSavedQueries_rows s(2,1)] by (auto simp: on_db_def saved_ok_def)
    then show ?thesis using keepsD [OF assms s(3)] Cons by simp
  qed (use s(3) in simp)
qed

lemma updated_query_ok: "saved_query_ok q \<Longrightarrow> saved_query_ok old \<Longrightarrow> saved_query_ok (updated_query cmd old now q)"
  by (auto simp: updated_query_def saved_query_ok_def split: option.splits)

lemma keeps_saved_queries:
  "keeps (on_db saved_ok) (SavedQuery_Create cmd)" "keeps (on_db saved_ok) (SavedQuery_Update ucmd)"
  "keeps (on_db saved_ok) (SavedQuery_Delete qid uid)"
proof -
  show "keeps (on_db saved_ok) (SavedQuery_Create cmd)"
    unfolding SavedQuery_Create_def
    by (intro keeps_attempt [OF keeps_clock] keeps_from_input keeps_attempt [OF keeps_fresh_id] keeps_SaveSavedQuery) simp
  show "keeps (on_db saved_ok) (SavedQuery_Delete qid uid)"
    unfolding SavedQuery_Delete_def DeleteSavedQuery_def
    by (auto intro!: keeps_rules keeps_execrows simp: saved_ok_def saved_unique_def distinct_keys_delete)
  show "keeps (on_db saved_ok) (SavedQuery_Update ucmd)"
    unfolding SavedQuery_Update_def
    by (intro keeps_attempt [OF keeps_return(3)] keeps_update_existing keeps_from_input keeps_attempt [OF keeps_clock]
        keeps_SaveSavedQuery updated_query_ok)
qed

section \<open>The queries of other users\<close>

text \<open>The rows of the others, with ids that are unique and that the source of identifiers has returned.\<close>

definition others_rows :: "string \<Rightarrow> SavedQuery list \<Rightarrow> world \<Rightarrow> bool" where
  "others_rows uid rows w \<longleftrightarrow> filter (\<lambda>q. sq_UserID q \<noteq> uid) (db_saved_queries (w_db w)) = rows \<and>
     distinct_keys sq_ID (db_saved_queries (w_db w)) \<and>
     (\<forall>q \<in> set (db_saved_queries (w_db w)). \<exists>k < w_next_id w. sq_ID q = id_text k)"

text \<open>The id belongs to a query of the user, or to none and comes from the source of identifiers.\<close>

definition own_id :: "string \<Rightarrow> SavedQuery list \<Rightarrow> string \<Rightarrow> world \<Rightarrow> bool" where
  "own_id uid rows qid w \<longleftrightarrow> others_rows uid rows w \<and>
     ((\<exists>r \<in> set (db_saved_queries (w_db w)). query_of uid qid r) \<or>
      (\<not> has_query qid (db_saved_queries (w_db w)) \<and> (\<exists>k < w_next_id w. qid = id_text k)))"

lemma filter_update_others:
  "(\<And>r. r \<in> set rows \<Longrightarrow> p r \<Longrightarrow> \<not> q r \<and> \<not> q (f r)) \<Longrightarrow> filter q (row_update p f rows) = filter q rows"
  by (induction rows) auto

lemma others_upsert:
  assumes own: "own_id uid rows (sq_ID q) w" and user: "sq_UserID q = uid"
    and v: "db_saved_queries (w_db v) = upsert_query q (db_saved_queries (w_db w))" "w_next_id v = w_next_id w"
  shows "others_rows uid rows v"
proof (cases "sq_ID q \<in> sq_ID ` set (db_saved_queries (w_db w))")
  case True
  let ?rows = "db_saved_queries (w_db w)" and ?hit = "\<lambda>r. sq_ID r = sq_ID q"
  have w: "others_rows uid rows w" using own by (simp add: own_id_def)
  obtain r0 where r0: "r0 \<in> set ?rows" "sq_ID r0 = sq_ID q" "sq_UserID r0 = uid"
    using own True by (auto simp: own_id_def query_of_def has_query_def list_ex_iff)
  have mine: "sq_UserID r = uid" if "r \<in> set ?rows" "?hit r" for r
    using distinct_keys_unique [of sq_ID ?rows r r0] w r0 that by (simp add: others_rows_def)
  have upd: "db_saved_queries (w_db v) = row_update ?hit (changed_query q) ?rows"
    using v(1) True by (simp add: upsert_query_def row_upsert_def)
  have ids: "map sq_ID (row_update ?hit (changed_query q) ?rows) = map sq_ID ?rows"
    by (rule map_row_update) (simp add: changed_query_def)
  have others: "filter (\<lambda>r. sq_UserID r \<noteq> uid) (row_update ?hit (changed_query q) ?rows) = filter (\<lambda>r. sq_UserID r \<noteq> uid) ?rows"
    by (rule filter_update_others) (simp add: mine changed_query_def)
  have "\<exists>k < w_next_id w. sq_ID r = id_text k" if "r \<in> set (row_update ?hit (changed_query q) ?rows)" for r
  proof -
    have "sq_ID r \<in> set (map sq_ID ?rows)" unfolding ids [symmetric] using that by simp
    then show ?thesis using w by (auto simp: others_rows_def)
  qed
  then show ?thesis using w others ids v(2) unfolding others_rows_def upd distinct_keys_def by simp
next
  case False
  then have fresh: "db_saved_queries (w_db v) = db_saved_queries (w_db w) @ [q]" "\<exists>k < w_next_id w. sq_ID q = id_text k"
    using own v(1) by (auto simp: own_id_def upsert_query_def row_upsert_def has_query_def list_ex_iff query_of_def image_iff)
  then show ?thesis
    using own user v(2) False distinct_keys_snoc [of sq_ID "db_saved_queries (w_db w)" q] by (auto simp: own_id_def others_rows_def)
qed

lemma leads_SaveSavedQuery: "sq_UserID q = uid \<Longrightarrow> leads (own_id uid rows (sq_ID q)) (SaveSavedQuery q) (others_rows uid rows)"
proof (unfold leads_def, intro allI impI)
  fix w assume user: "sq_UserID q = uid" and own: "own_id uid rows (sq_ID q) w"
  let ?v = "snd (SaveSavedQuery q w)"
  have "w_next_id ?v = w_next_id w"
    and "db_saved_queries (w_db ?v) = db_saved_queries (w_db w) \<or> db_saved_queries (w_db ?v) = upsert_query q (db_saved_queries (w_db w))"
    by (auto simp: SaveSavedQuery_def attempt_def conflict_if_unique_def inspect_def stmt_def return_ok_def return_err_def Let_def
        split: option.splits sum.splits prod.splits)
  then show "others_rows uid rows ?v"
    using others_upsert [OF own user, of ?v] own by (auto simp: own_id_def others_rows_def)
qed

text \<open>Predicates that hold of the tables and the next identifier alone.\<close>

definition settled :: "(world \<Rightarrow> bool) \<Rightarrow> bool" where
  "settled P \<longleftrightarrow> (\<forall>w v. w_db v = w_db w \<and> w_next_id v = w_next_id w \<and> P w \<longrightarrow> P v)"

lemma settledD: "settled P \<Longrightarrow> P w \<Longrightarrow> w_db v = w_db w \<Longrightarrow> w_next_id v = w_next_id w \<Longrightarrow> P v"
  by (auto simp: settled_def)

lemma settled_rows: "settled (others_rows uid rows)" "settled (own_id uid rows qid)"
  by (simp_all add: settled_def own_id_def others_rows_def)

lemma clock_now_id [simp]: "w_next_id (snd (clock_now w)) = w_next_id w"
  by (simp add: clock_now_def split: list.splits)

lemma query_id: "w_db (snd (query f w)) = w_db w \<and> w_next_id (snd (query f w)) = w_next_id w"
  by (simp add: query_def stmt_def drop_fault_def split: option.splits)

lemma query_run: "query f w = (Inr x, u) \<Longrightarrow> x = f (w_db w) \<and> w_db u = w_db w \<and> w_next_id u = w_next_id w"
  using query_id [of f w] by (auto dest: query_ok)

lemma keeps_settled:
  assumes "settled P"
  shows "keeps P clock_now" "keeps P (query f)" "keeps P (FindSavedQueries uid qid)"
    "keeps P (savedQueryFromInput qid uid name raw groupBy size0 limit created)"
proof -
  show clock: "keeps P clock_now" by (rule keepsI, rule settledD [OF assms]) simp_all
  show query: "keeps P (query f)" for f by (rule keepsI, rule settledD [OF assms]) (simp_all add: query_id)
  show "keeps P (FindSavedQueries uid qid)" unfolding FindSavedQueries_def by (simp add: query)
  show "keeps P (savedQueryFromInput qid uid name raw groupBy size0 limit created)"
    unfolding savedQueryFromInput_def Let_def by (auto intro!: keeps_rules clock)
qed

lemma ensures_from_input:
  "settled P \<Longrightarrow> ensures P (savedQueryFromInput qid uid name raw groupBy size0 limit created)
    (\<lambda>q s. P s \<and> sq_UserID q = TrimSpace uid \<and> sq_ID q = TrimSpace qid)"
  by (rule ensuresI) (auto dest: savedQueryFromInput_ok(2-5) settledD)

lemma leads_pure: "(b \<Longrightarrow> leads P m Q) \<Longrightarrow> leads (\<lambda>s. P s \<and> b) m Q"
  by (simp add: leads_def)

lemma others_Create: "keeps (others_rows (TrimSpace (svc_UserID cmd)) rows) (SavedQuery_Create cmd)"
proof -
  let ?uid = "TrimSpace (svc_UserID cmd)"
  let ?P = "others_rows ?uid rows"
  have grow: "others_rows uid rows (w\<lparr>w_next_id := Suc (w_next_id w)\<rparr>)" if "others_rows uid rows w" for uid w
    using that by (auto simp: others_rows_def intro: less_SucI)
  have fresh: "ensures ?P fresh_id (\<lambda>qid. own_id ?uid rows qid)"
    by (rule ensuresI) (auto simp: fresh_id_text own_id_def grow has_query_def list_ex_iff others_rows_def)
  have "keeps ?P fresh_id" by (rule keepsI) (simp add: fresh_id_text grow)
  then have save: "leads ?P (attempt fresh_id (\<lambda>qid. SaveSavedQuery (q\<lparr>sq_ID := qid, sq_Pinned := b, sq_Position := p\<rparr>))) ?P"
    if "sq_UserID q = ?uid" for q b p
    using leads_SaveSavedQuery [of "q\<lparr>sq_ID := qid, sq_Pinned := b, sq_Position := p\<rparr>" ?uid rows for qid] that
    by (intro leads_attempt [OF _ _ fresh]) simp_all
  show ?thesis
    unfolding SavedQuery_Create_def keeps_leads
    by (rule leads_attempt [OF _ _ ensures_keeps], (rule keeps_settled settled_rows)+, assumption, (rule keeps_settled settled_rows)+,
        rule leads_attempt [OF _ _ ensures_from_input], (rule keeps_settled settled_rows)+, assumption, (rule settled_rows)+,
        rule leads_pure, rule save, elim conjE)
qed

lemma others_Update: "keeps (others_rows (TrimSpace (suc_UserID cmd)) rows) (SavedQuery_Update cmd)"
proof -
  let ?uid = "TrimSpace (suc_UserID cmd)" and ?qid = "TrimSpace (suc_ID cmd)"
  let ?P = "others_rows ?uid rows" and ?R = "own_id ?uid rows ?qid"
  have weak: "?R s \<Longrightarrow> ?P s" for s by (simp add: own_id_def)
  have save: "leads ?R (SaveSavedQuery (updated_query cmd old now q)) ?P" if "sq_UserID q = ?uid" "sq_ID q = ?qid" for old now q
    using leads_SaveSavedQuery [of "updated_query cmd old now q" ?uid rows] that by (simp add: updated_query_def)
  have timed: "leads ?R (attempt clock_now (\<lambda>now. SaveSavedQuery (updated_query cmd old now q))) ?P"
    if "sq_UserID q = ?uid" "sq_ID q = ?qid" for old q
    by (rule leads_attempt [OF keeps_settled(1) weak ensures_keeps [OF keeps_settled(1)] save]) (simp_all add: settled_rows that)
  have change: "leads ?R (attempt (savedQueryFromInput ?qid ?uid (suc_Name cmd) (suc_Query cmd) (suc_GroupBy cmd) (suc_BucketSize cmd)
      (suc_Limit cmd) (sq_CreatedAt old)) (\<lambda>q. attempt clock_now (\<lambda>now. SaveSavedQuery (updated_query cmd old now q)))) ?P" for old
    by (rule leads_attempt [OF keeps_settled(4) weak ensures_from_input]) (auto simp: settled_rows intro!: leads_pure timed)
  have found: "ensures ?P (FindSavedQueries ?uid ?qid) (\<lambda>found s. ?P s \<and> (found \<noteq> [] \<longrightarrow> ?R s))" if "?qid \<noteq> []"
  proof (rule ensuresI)
    fix s found t assume s: "?P s" and run: "FindSavedQueries ?uid ?qid s = (Inr found, t)"
    have t: "found = (case row_find (query_of ?uid ?qid) (db_saved_queries (w_db s)) of None \<Rightarrow> [] | Some q \<Rightarrow> [q])"
      "w_db t = w_db s" "w_next_id t = w_next_id s"
      using query_run [OF run [unfolded FindSavedQueries_def if_P [OF that]]] by simp_all
    moreover have "?P t" by (rule settledD [OF settled_rows(1) s t(2,3)])
    ultimately show "?P t \<and> (found \<noteq> [] \<longrightarrow> ?R t)"
      using row_find_Some [of "query_of ?uid ?qid" "db_saved_queries (w_db s)"] by (auto simp: own_id_def split: option.splits)
  qed
  have step: "leads (\<lambda>s. ?P s \<and> (found \<noteq> [] \<longrightarrow> ?R s)) (case found of [] \<Rightarrow> return_err ErrNotFound | old # _ \<Rightarrow>
      attempt (savedQueryFromInput ?qid ?uid (suc_Name cmd) (suc_Query cmd) (suc_GroupBy cmd) (suc_BucketSize cmd)
      (suc_Limit cmd) (sq_CreatedAt old)) (\<lambda>q. attempt clock_now (\<lambda>now. SaveSavedQuery (updated_query cmd old now q)))) ?P" for found
    using change by (cases found) (auto simp: leads_def)
  have required: "normalizeRequired s msg = Inr x \<Longrightarrow> x = TrimSpace s \<and> x \<noteq> []" for s msg x
    by (auto simp: normalizeRequired_def Let_def split: if_splits)
  show ?thesis
    unfolding SavedQuery_Update_def keeps_leads
    by (rule leads_lift, rule leads_lift)
      (auto dest!: required intro!: leads_attempt [OF keeps_settled(3) _ found step] simp: settled_rows)
qed

lemma others_Delete: "keeps (others_rows (TrimSpace uid) rows) (SavedQuery_Delete qid uid)"
proof -
  let ?P = "others_rows (TrimSpace uid) rows"
  have cut: "?P v" if "?P w" "w_next_id v = w_next_id w" "db_saved_queries (w_db v) = row_delete (query_of (TrimSpace uid) i) (db_saved_queries (w_db w))"
    for v w i
    using that distinct_keys_delete [of sq_ID "db_saved_queries (w_db w)" "query_of (TrimSpace uid) i"]
    by (auto simp: others_rows_def row_delete_def query_of_def simp del: not_imp de_Morgan_conj intro: filter_cong)
  have "keeps ?P (execrows n (\<lambda>d. d\<lparr>db_saved_queries := row_delete (query_of (TrimSpace uid) i) (db_saved_queries d)\<rparr>))" for n i
    by (rule keepsI) (auto simp: execrows_def stmt_def drop_fault_def intro: cut settledD [OF settled_rows(1)] split: option.splits)
  then have "keeps ?P (DeleteSavedQuery (TrimSpace uid) i)" for i
    unfolding DeleteSavedQuery_def by (rule keeps_not_found)
  moreover have "normalizeRequired uid msg = Inr x \<Longrightarrow> x = TrimSpace uid" for msg x
    by (auto simp: normalizeRequired_def Let_def split: if_splits)
  ultimately show ?thesis
    unfolding SavedQuery_Delete_def keeps_leads by (auto intro!: leads_lift)
qed

text \<open>Claim C28. Whatever a user does with saved queries, created, changed or deleted, whether it succeeds or fails, the queries of
  all other users stay exactly as they are.\<close>

theorem saved_queries_isolated:
  "keeps (others_rows (TrimSpace (svc_UserID cmd)) rows) (SavedQuery_Create cmd) \<and>
   keeps (others_rows (TrimSpace (suc_UserID ucmd)) rows) (SavedQuery_Update ucmd) \<and>
   keeps (others_rows (TrimSpace uid) rows) (SavedQuery_Delete qid uid)"
  by (intro conjI others_Create others_Update others_Delete)

end
