(* ===== verification/ExportJobs.thy ===== *)
theory ExportJobs
  imports LeasedQueue UsageRepo
begin

text \<open>
  The export jobs: their part of the repository
  (\<^verbatim>\<open>src/internal/metering/adapters/sqlite/usage_repository.go\<close>, \<^verbatim>\<open>queries/usage_runs.sql\<close>) and of the
  usage service (\<^verbatim>\<open>src/internal/metering/app/usage/export_jobs.go\<close>).  A NULL time is the zero
  time and a NULL token the empty text, as the repository reads them.  \<^verbatim>\<open>json_valid\<close> stands for
  \<^verbatim>\<open>json.Valid\<close>; the text of a page cursor is taken as the time and the id it carries.
\<close>

section \<open>Commands\<close>

record ExportJobCreateCommand =
  xjc_Kind :: ExportJobKind
  xjc_Format :: ExportJobFormat
  xjc_QueryJSON :: string

record ExportJobClaimCommand =
  xcl_LockTTL :: duration
  xcl_MaxAttempts :: int

record ExportJobCompleteCommand =
  xcc_ID :: string
  xcc_ClaimToken :: string
  xcc_ArtifactPath :: string
  xcc_ArtifactSize :: int

record ExportJobFailCommand =
  xfc_ID :: string
  xfc_ClaimToken :: string
  xfc_ErrorMessage :: string

record ExportJobRenewCommand =
  xrc_ID :: string
  xrc_ClaimToken :: string
  xrc_LockTTL :: duration

record ExportCleanupRunCommand =
  xru_WorkspaceID :: string
  xru_ExpiredBefore :: time
  xru_FilesDeleted :: int
  xru_BytesReclaimed :: int
  xru_Failures :: int

section \<open>Statements\<close>

definition insert_export_job :: "ExportJob \<Rightarrow> (world, unit) proc" where
  "insert_export_job job = exec_unique (\<lambda>d. distinct_keys ej_id (db_export_jobs d))
     (\<lambda>d. d\<lparr>db_export_jobs := db_export_jobs d @ [job\<lparr>ej_claimToken := [], ej_expiredAt := zero_time\<rparr>]\<rparr>)"

text \<open>An update of the job with an id that returns the new row; the id is the primary key.\<close>

definition update_export_job :: "(ExportJob \<Rightarrow> bool) \<Rightarrow> (ExportJob \<Rightarrow> ExportJob) \<Rightarrow> (world, ExportJob option) proc" where
  "update_export_job hit f = stmt (\<lambda>d. (Inr (map_option f (row_find hit (db_export_jobs d))),
     d\<lparr>db_export_jobs := row_update hit f (db_export_jobs d)\<rparr>))"

definition returned_job :: "(string \<Rightarrow> bool) \<Rightarrow> (world, ExportJob option) proc \<Rightarrow> (world, ExportJob) proc" where
  "returned_job json_valid m = attempt m (\<lambda>row. case row of None \<Rightarrow> return_err ErrNotFound | Some j \<Rightarrow> lift_res (NewExportJob json_valid j))"

definition export_in :: "string \<Rightarrow> string \<Rightarrow> ExportJob \<Rightarrow> bool" where
  "export_in ws jid j \<longleftrightarrow> ej_id j = jid \<and> ej_workspaceID j = ws"

definition held_export :: "string \<Rightarrow> string \<Rightarrow> string \<Rightarrow> ExportJob \<Rightarrow> bool" where
  "held_export ws jid token j \<longleftrightarrow>
     export_in ws jid j \<and> ej_status j = ExportJobRunning \<and> token \<noteq> [] \<and> ej_claimToken j = token"

definition due_export :: "time \<Rightarrow> int \<Rightarrow> ExportJob \<Rightarrow> bool" where
  "due_export now maxAttempts j \<longleftrightarrow>
     (ej_status j = ExportJobQueued \<or>
      ej_status j = ExportJobRunning \<and> \<not> IsZero (ej_lockedUntil j) \<and> time_text_less (ej_lockedUntil j) now) \<and>
     ej_attempts j < maxAttempts"

definition export_rank :: "ExportJob \<Rightarrow> string \<times> string" where
  "export_rank j = (ttxt (ej_createdAt j), ej_id j)"

definition claimed_export :: "time \<Rightarrow> time \<Rightarrow> string \<Rightarrow> ExportJob \<Rightarrow> ExportJob" where
  "claimed_export now lockedUntil token j = j\<lparr>ej_status := ExportJobRunning, ej_attempts := ej_attempts j + 1,
     ej_lockedUntil := lockedUntil, ej_claimToken := token, ej_errorMessage := [], ej_updatedAt := now\<rparr>"

interpretation export_queue: leased_queue ej_id ej_attempts due_export export_rank claimed_export
  "\<lambda>lease later. \<not> time_text_less lease later"
  by unfold_locales (auto simp: claimed_export_def due_export_def)

definition next_export :: "time \<Rightarrow> int \<Rightarrow> ExportJob list \<Rightarrow> ExportJob option" where
  "next_export now maxAttempts rows = (case sort_key export_rank (filter (due_export now maxAttempts) rows) of [] \<Rightarrow> None | j # _ \<Rightarrow> Some j)"

definition claim_export :: "time \<Rightarrow> time \<Rightarrow> string \<Rightarrow> int \<Rightarrow> db \<Rightarrow> ExportJob option \<times> db" where
  "claim_export now lockedUntil token maxAttempts d =
    (case next_export now maxAttempts (db_export_jobs d) of
       None \<Rightarrow> (None, d)
     | Some j \<Rightarrow> (Some (claimed_export now lockedUntil token j),
         d\<lparr>db_export_jobs := row_update (\<lambda>q. ej_id q = ej_id j) (claimed_export now lockedUntil token) (db_export_jobs d)\<rparr>))"

definition completed_export :: "string \<Rightarrow> int \<Rightarrow> time \<Rightarrow> ExportJob \<Rightarrow> ExportJob" where
  "completed_export path bytes now j = j\<lparr>ej_status := ExportJobCompleted, ej_artifactPath := path, ej_artifactSize := bytes,
     ej_lockedUntil := zero_time, ej_claimToken := [], ej_errorMessage := [], ej_updatedAt := now, ej_completedAt := now\<rparr>"

definition failed_export :: "string \<Rightarrow> time \<Rightarrow> ExportJob \<Rightarrow> ExportJob" where
  "failed_export msg now j = j\<lparr>ej_status := ExportJobFailed, ej_errorMessage := msg, ej_lockedUntil := zero_time, ej_claimToken := [],
     ej_updatedAt := now, ej_completedAt := now\<rparr>"

definition canceled_export :: "time \<Rightarrow> ExportJob \<Rightarrow> ExportJob" where
  "canceled_export now j = j\<lparr>ej_status := ExportJobCanceled, ej_errorMessage := ''canceled by user'', ej_lockedUntil := zero_time,
     ej_claimToken := [], ej_updatedAt := now, ej_completedAt := now\<rparr>"

definition retried_export :: "time \<Rightarrow> ExportJob \<Rightarrow> ExportJob" where
  "retried_export now j = j\<lparr>ej_status := ExportJobQueued, ej_errorMessage := [], ej_attempts := 0, ej_lockedUntil := zero_time,
     ej_claimToken := [], ej_artifactPath := [], ej_artifactSize := 0, ej_updatedAt := now, ej_completedAt := zero_time\<rparr>"

definition expirable_export :: "string \<Rightarrow> string \<Rightarrow> ExportJob \<Rightarrow> bool" where
  "expirable_export ws jid j \<longleftrightarrow> export_in ws jid j \<and> ej_status j = ExportJobCompleted \<and> IsZero (ej_expiredAt j)"

definition expired_export :: "time \<Rightarrow> ExportJob \<Rightarrow> ExportJob" where
  "expired_export now j = j\<lparr>ej_expiredAt := now, ej_updatedAt := now\<rparr>"

section \<open>Repository\<close>

definition SaveExportJob :: "ExportJob \<Rightarrow> (world, ExportJob) proc" where
  "SaveExportJob job = attempt (insert_export_job job) (\<lambda>_. return_ok job)"

definition FindExportJob :: "(string \<Rightarrow> bool) \<Rightarrow> ctx \<Rightarrow> string \<Rightarrow> (world, ExportJob) proc" where
  "FindExportJob json_valid ctx jid = with_workspace ctx (\<lambda>ws.
    returned_job json_valid (query (\<lambda>d. row_find (export_in ws jid) (db_export_jobs d))))"

definition before_cursor :: "RunQuery \<Rightarrow> time \<Rightarrow> string \<Rightarrow> bool" where
  "before_cursor q createdAt rid \<longleftrightarrow> \<not> RunQuery_HasCursor q \<or> ttxt createdAt < ttxt (rq_createdAt q) \<or>
     ttxt createdAt = ttxt (rq_createdAt q) \<and> rid < rq_id q"

definition FindExportJobs :: "(string \<Rightarrow> bool) \<Rightarrow> ctx \<Rightarrow> RunQuery \<Rightarrow> (world, ExportJob list) proc" where
  "FindExportJobs json_valid ctx q = with_workspace ctx (\<lambda>ws.
    attempt (query (\<lambda>d. order_desc_limit export_rank (rq_limit q)
      (filter (\<lambda>j. ej_workspaceID j = ws \<and> before_cursor q (ej_createdAt j) (ej_id j)) (db_export_jobs d)))) (\<lambda>rows.
    lift_res (map_res (NewExportJob json_valid) rows)))"

text \<open>A cut-off without a value is NULL, and no row is before it.\<close>

definition FindExpiredExportJobs :: "(string \<Rightarrow> bool) \<Rightarrow> time \<Rightarrow> int \<Rightarrow> (world, ExportJob list) proc" where
  "FindExpiredExportJobs json_valid expiredBefore limit =
    attempt (query (\<lambda>d. order_limit (\<lambda>j. (ttxt (ej_completedAt j), ej_id j)) limit
      (filter (\<lambda>j. ej_status j = ExportJobCompleted \<and> IsZero (ej_expiredAt j) \<and> \<not> IsZero expiredBefore \<and>
         time_text_less (ej_completedAt j) expiredBefore) (db_export_jobs d)))) (\<lambda>rows.
    lift_res (map_res (NewExportJob json_valid) rows))"

definition Repo_ExpireExportJob :: "ctx \<Rightarrow> string \<Rightarrow> time \<Rightarrow> (world, bool) proc" where
  "Repo_ExpireExportJob ctx jid expiredAt = with_workspace ctx (\<lambda>ws.
    attempt (update_export_job (expirable_export ws jid) (expired_export expiredAt)) (\<lambda>row. return_ok (row \<noteq> None)))"

definition SaveExportCleanupRun :: "ctx \<Rightarrow> ExportCleanupRun \<Rightarrow> (world, ExportCleanupRun) proc" where
  "SaveExportCleanupRun ctx run = with_workspace ctx (\<lambda>ws.
    if ws \<noteq> ecr_workspaceID run then return_err ErrInvalidInput
    else attempt (exec_unique (\<lambda>d. distinct_keys ecr_id (db_export_cleanups d))
      (\<lambda>d. d\<lparr>db_export_cleanups := db_export_cleanups d @ [run]\<rparr>)) (\<lambda>_. return_ok run))"

definition Repo_ClaimExportJob :: "(string \<Rightarrow> bool) \<Rightarrow> time \<Rightarrow> time \<Rightarrow> string \<Rightarrow> int \<Rightarrow> (world, ExportJob) proc" where
  "Repo_ClaimExportJob json_valid now lockedUntil token maxAttempts =
    returned_job json_valid (stmt (\<lambda>d. case claim_export now lockedUntil token maxAttempts d of (row, d') \<Rightarrow> (Inr row, d')))"

definition Repo_RenewExportJobLease :: "ctx \<Rightarrow> string \<Rightarrow> string \<Rightarrow> time \<Rightarrow> time \<Rightarrow> (world, unit) proc" where
  "Repo_RenewExportJobLease ctx jid token lockedUntil now = with_workspace ctx (\<lambda>ws.
    attempt (update_export_job (held_export ws jid token) (\<lambda>j. j\<lparr>ej_lockedUntil := lockedUntil, ej_updatedAt := now\<rparr>)) (\<lambda>row.
    if row = None then return_err ErrNotFound else return_ok ()))"

definition Repo_CompleteExportJob :: "(string \<Rightarrow> bool) \<Rightarrow> ctx \<Rightarrow> string \<Rightarrow> string \<Rightarrow> string \<Rightarrow> int \<Rightarrow> time \<Rightarrow> (world, ExportJob) proc" where
  "Repo_CompleteExportJob json_valid ctx jid token path bytes now = with_workspace ctx (\<lambda>ws.
    returned_job json_valid (update_export_job (held_export ws jid token) (completed_export path bytes now)))"

definition Repo_FailExportJob :: "(string \<Rightarrow> bool) \<Rightarrow> ctx \<Rightarrow> string \<Rightarrow> string \<Rightarrow> string \<Rightarrow> time \<Rightarrow> (world, ExportJob) proc" where
  "Repo_FailExportJob json_valid ctx jid token msg now = with_workspace ctx (\<lambda>ws.
    returned_job json_valid (update_export_job (held_export ws jid token) (failed_export msg now)))"

definition Repo_CancelExportJob :: "(string \<Rightarrow> bool) \<Rightarrow> ctx \<Rightarrow> string \<Rightarrow> time \<Rightarrow> (world, ExportJob) proc" where
  "Repo_CancelExportJob json_valid ctx jid now = with_workspace ctx (\<lambda>ws.
    returned_job json_valid (update_export_job
      (\<lambda>j. export_in ws jid j \<and> (ej_status j = ExportJobQueued \<or> ej_status j = ExportJobRunning)) (canceled_export now)))"

definition Repo_RetryExportJob :: "(string \<Rightarrow> bool) \<Rightarrow> ctx \<Rightarrow> string \<Rightarrow> time \<Rightarrow> (world, ExportJob) proc" where
  "Repo_RetryExportJob json_valid ctx jid now = with_workspace ctx (\<lambda>ws.
    returned_job json_valid (update_export_job
      (\<lambda>j. export_in ws jid j \<and> (ej_status j = ExportJobFailed \<or> ej_status j = ExportJobCanceled)) (retried_export now)))"

section \<open>Service\<close>

text \<open>A result copies the fields of the job.\<close>

definition CreateExportJob :: "(string \<Rightarrow> bool) \<Rightarrow> ctx \<Rightarrow> ExportJobCreateCommand \<Rightarrow> (world, ExportJob) proc" where
  "CreateExportJob json_valid ctx cmd = with_workspace ctx (\<lambda>ws.
    attempt clock_now (\<lambda>now.
    attempt fresh_id (\<lambda>jid.
    attempt (lift_res (NewExportJob json_valid \<lparr>ej_id = jid, ej_workspaceID = ws,
      ej_kind = (if xjc_Kind cmd = ExportJobKindOther [] then ExportJobUsageBuckets else xjc_Kind cmd), ej_status = ExportJobQueued,
      ej_format = (if xjc_Format cmd = ExportJobFormatOther [] then ExportJobCSV else xjc_Format cmd), ej_queryJSON = xjc_QueryJSON cmd,
      ej_errorMessage = [], ej_attempts = 0, ej_lockedUntil = zero_time, ej_claimToken = [], ej_artifactPath = [], ej_artifactSize = 0,
      ej_createdAt = now, ej_updatedAt = now, ej_completedAt = zero_time, ej_expiredAt = zero_time\<rparr>)) SaveExportJob)))"

definition GetExportJob :: "(string \<Rightarrow> bool) \<Rightarrow> ctx \<Rightarrow> string \<Rightarrow> (world, ExportJob) proc" where
  "GetExportJob json_valid ctx jid = FindExportJob json_valid ctx jid"

definition ListExportJobs :: "(string \<Rightarrow> bool) \<Rightarrow> ctx \<Rightarrow> int \<Rightarrow> time \<times> string \<Rightarrow> (world, ExportJob list \<times> (time \<times> string) option) proc" where
  "ListExportJobs json_valid ctx limit0 cursor =
    (let limit = NormalizeLimit limit0 in
     attempt (FindExportJobs json_valid ctx (NewRunQuery (limit + 1) (fst cursor) (snd cursor))) (\<lambda>jobs.
     if nat limit < length jobs
     then return_ok (take (nat limit) jobs, Some (ej_createdAt (jobs ! (nat limit - 1)), ej_id (jobs ! (nat limit - 1))))
     else return_ok (jobs, None)))"

definition ClaimExportJob :: "(string \<Rightarrow> bool) \<Rightarrow> ExportJobClaimCommand \<Rightarrow> (world, ExportJob option) proc" where
  "ClaimExportJob json_valid cmd =
    (if xcl_LockTTL cmd \<le> 0 then return_err ErrInvalidInput
     else if xcl_MaxAttempts cmd \<le> 0 then return_err ErrInvalidInput
     else attempt clock_now (\<lambda>now.
       attempt fresh_id (\<lambda>token.
       inspect (Repo_ClaimExportJob json_valid now (now + xcl_LockTTL cmd) token (xcl_MaxAttempts cmd)) (\<lambda>r. case r of
         Inl e \<Rightarrow> if errors_Is e ErrNotFound then return_ok None else return_err e
       | Inr job \<Rightarrow> return_ok (Some job)))))"

definition RenewExportJobLease :: "ctx \<Rightarrow> ExportJobRenewCommand \<Rightarrow> (world, unit) proc" where
  "RenewExportJobLease ctx cmd =
    (if TrimSpace (xrc_ID cmd) = [] \<or> TrimSpace (xrc_ClaimToken cmd) = [] \<or> xrc_LockTTL cmd \<le> 0 then return_err ErrInvalidInput
     else attempt clock_now (\<lambda>now.
       Repo_RenewExportJobLease ctx (xrc_ID cmd) (xrc_ClaimToken cmd) (now + xrc_LockTTL cmd) now))"

definition CompleteExportJob :: "(string \<Rightarrow> bool) \<Rightarrow> ctx \<Rightarrow> ExportJobCompleteCommand \<Rightarrow> (world, ExportJob) proc" where
  "CompleteExportJob json_valid ctx cmd = attempt clock_now (\<lambda>now.
    Repo_CompleteExportJob json_valid ctx (xcc_ID cmd) (xcc_ClaimToken cmd) (xcc_ArtifactPath cmd) (xcc_ArtifactSize cmd) now)"

definition FailExportJob :: "(string \<Rightarrow> bool) \<Rightarrow> ctx \<Rightarrow> ExportJobFailCommand \<Rightarrow> (world, ExportJob) proc" where
  "FailExportJob json_valid ctx cmd = attempt clock_now (\<lambda>now.
    Repo_FailExportJob json_valid ctx (xfc_ID cmd) (xfc_ClaimToken cmd) (xfc_ErrorMessage cmd) now)"

definition CancelExportJob :: "(string \<Rightarrow> bool) \<Rightarrow> ctx \<Rightarrow> string \<Rightarrow> (world, ExportJob) proc" where
  "CancelExportJob json_valid ctx jid =
    attempt (FindExportJob json_valid ctx jid) (\<lambda>current.
    if ej_status current \<noteq> ExportJobQueued \<and> ej_status current \<noteq> ExportJobRunning then return_err ErrConflict
    else attempt clock_now (\<lambda>now. Repo_CancelExportJob json_valid ctx jid now))"

definition RetryExportJob :: "(string \<Rightarrow> bool) \<Rightarrow> ctx \<Rightarrow> string \<Rightarrow> (world, ExportJob) proc" where
  "RetryExportJob json_valid ctx jid =
    attempt (FindExportJob json_valid ctx jid) (\<lambda>current.
    if ej_status current \<noteq> ExportJobFailed \<and> ej_status current \<noteq> ExportJobCanceled then return_err ErrConflict
    else attempt clock_now (\<lambda>now. Repo_RetryExportJob json_valid ctx jid now))"

definition ListExpiredExportJobs :: "(string \<Rightarrow> bool) \<Rightarrow> time \<Rightarrow> int \<Rightarrow> (world, ExportJob list) proc" where
  "ListExpiredExportJobs json_valid expiredBefore limit =
    (if IsZero expiredBefore \<or> limit \<le> 0 \<or> 1000 < limit then return_err ErrInvalidInput
     else FindExpiredExportJobs json_valid expiredBefore limit)"

definition ExpireExportJob :: "ctx \<Rightarrow> string \<Rightarrow> (world, bool) proc" where
  "ExpireExportJob ctx jid =
    (if TrimSpace jid = [] then return_err ErrInvalidInput
     else attempt clock_now (\<lambda>now. Repo_ExpireExportJob ctx jid now))"

definition RecordExportCleanupRun :: "ctx \<Rightarrow> ExportCleanupRunCommand \<Rightarrow> (world, ExportCleanupRun) proc" where
  "RecordExportCleanupRun ctx cmd =
    attempt fresh_id (\<lambda>rid.
    attempt clock_now (\<lambda>now.
    attempt (lift_res (NewExportCleanupRun rid (xru_WorkspaceID cmd) (xru_ExpiredBefore cmd) (xru_FilesDeleted cmd)
      (xru_BytesReclaimed cmd) (xru_Failures cmd) now)) (SaveExportCleanupRun ctx)))"

end
