(* ===== verification/ExportSpec.thy ===== *)
theory ExportSpec
  imports ExportJobs OutboxSpec
begin

text \<open>
  The life of an export job: the invariant of the table, completed exports that stay as they are, and
  claim tokens that fence a worker whose lease was taken over.
\<close>

section \<open>The invariant\<close>

definition export_ok :: "ExportJob \<Rightarrow> bool" where
  "export_ok j \<longleftrightarrow> trimmed (ej_id j) \<and> 0 \<le> ej_attempts j \<and>
     (ej_status j = ExportJobRunning \<longrightarrow> ej_claimToken j \<noteq> [] \<and> 1 \<le> ej_attempts j) \<and>
     (ej_status j \<noteq> ExportJobRunning \<longrightarrow> ej_claimToken j = [] \<and> IsZero (ej_lockedUntil j)) \<and>
     (ej_status j \<noteq> ExportJobCompleted \<longrightarrow> ej_artifactPath j = [] \<and> ej_artifactSize j = 0 \<and> IsZero (ej_expiredAt j)) \<and>
     (ej_status j = ExportJobQueued \<or> ej_status j = ExportJobRunning \<or> finished (ej_status j))"

definition exports_ok :: "db \<Rightarrow> bool" where
  "exports_ok d \<longleftrightarrow> distinct_keys ej_id (db_export_jobs d) \<and> (\<forall>j \<in> set (db_export_jobs d). export_ok j)"

lemma IsZero_zero [simp]: "IsZero zero_time"
  by (simp add: IsZero_def)

lemmas export_marks = claimed_export_def completed_export_def failed_export_def canceled_export_def retried_export_def expired_export_def
lemmas export_hits = held_export_def export_in_def expirable_export_def

text \<open>The changes an operation makes to a job, but for a claim.\<close>

inductive export_change :: "(ExportJob \<Rightarrow> bool) \<Rightarrow> (ExportJob \<Rightarrow> ExportJob) \<Rightarrow> bool" where
  renewed: "export_change (held_export ws jid token) (\<lambda>j. j\<lparr>ej_lockedUntil := lease, ej_updatedAt := now\<rparr>)"
| completed: "export_change (held_export ws jid token) (completed_export path bytes now)"
| failed: "export_change (held_export ws jid token) (failed_export msg now)"
| canceled: "export_change (\<lambda>j. export_in ws jid j \<and> (ej_status j = ExportJobQueued \<or> ej_status j = ExportJobRunning)) (canceled_export now)"
| retried: "export_change (\<lambda>j. export_in ws jid j \<and> (ej_status j = ExportJobFailed \<or> ej_status j = ExportJobCanceled)) (retried_export now)"
| expired: "export_change (expirable_export ws jid) (expired_export now)"

lemma export_change_id: "export_change hit f \<Longrightarrow> ej_id (f j) = ej_id j"
  by (induction rule: export_change.induct) (simp_all add: export_marks)

lemma export_change_ok: "export_change hit f \<Longrightarrow> export_ok j \<Longrightarrow> hit j \<Longrightarrow> export_ok (f j)"
  by (induction rule: export_change.induct) (auto simp: export_ok_def export_hits export_marks finished_def)

lemma export_change_completed:
  "export_change hit f \<Longrightarrow> hit j \<Longrightarrow> ej_status j = ExportJobCompleted \<Longrightarrow>
    ej_status (f j) = ExportJobCompleted \<and> ej_artifactPath (f j) = ej_artifactPath j \<and> ej_artifactSize (f j) = ej_artifactSize j \<and>
    ej_completedAt (f j) = ej_completedAt j"
  by (induction rule: export_change.induct) (auto simp: export_hits export_marks)

inductive export_step :: "(string \<Rightarrow> bool) \<Rightarrow> world \<Rightarrow> world \<Rightarrow> bool" for jv :: "string \<Rightarrow> bool" where
  create: "export_step jv w (snd (CreateExportJob jv ctx ncmd w))"
| claim: "export_step jv w (snd (ClaimExportJob jv ccmd w))"
| renew: "export_step jv w (snd (RenewExportJobLease ctx rcmd w))"
| complete: "export_step jv w (snd (CompleteExportJob jv ctx dcmd w))"
| fail: "export_step jv w (snd (FailExportJob jv ctx fcmd w))"
| cancel: "export_step jv w (snd (CancelExportJob jv ctx jid w))"
| retry: "export_step jv w (snd (RetryExportJob jv ctx jid w))"
| expire: "export_step jv w (snd (ExpireExportJob ctx jid w))"
| cleanup: "export_step jv w (snd (RecordExportCleanupRun ctx ucmd w))"

section \<open>What survives the operations\<close>

lemma keeps_returned: "keeps P m \<Longrightarrow> keeps P (returned_job jv m)"
  unfolding returned_job_def by (rule keeps_attempt) (auto intro!: keeps_rules split: option.splits)

lemma keeps_find_export: "keeps (on_db P) (FindExportJob jv ctx jid)"
  unfolding FindExportJob_def by (intro keeps_with_workspace keeps_returned keeps_query)

lemma id_text_nonempty [simp]: "id_text n \<noteq> []"
  by (simp add: id_text_def)

lemma NewExportJob_fields:
  "NewExportJob jv a = Inr j \<Longrightarrow> j = a\<lparr>ej_id := TrimSpace (ej_id a), ej_workspaceID := TrimSpace (ej_workspaceID a),
     ej_queryJSON := TrimSpace (ej_queryJSON a), ej_errorMessage := TrimSpace (ej_errorMessage a),
     ej_artifactPath := TrimSpace (ej_artifactPath a), ej_claimToken := TrimSpace (ej_claimToken a)\<rparr>"
  by (auto simp: NewExportJob_def Let_def)

locale export_store =
  fixes P :: "db \<Rightarrow> bool"
  assumes created: "P d \<Longrightarrow> export_ok j \<Longrightarrow> ej_status j = ExportJobQueued \<Longrightarrow> distinct_keys ej_id (db_export_jobs d @ [j]) \<Longrightarrow>
      P (d\<lparr>db_export_jobs := db_export_jobs d @ [j]\<rparr>)"
    and claimed: "P d \<Longrightarrow> next_export now n (db_export_jobs d) = Some j \<Longrightarrow> token \<noteq> [] \<Longrightarrow>
      P (d\<lparr>db_export_jobs := row_update (\<lambda>q. ej_id q = ej_id j) (claimed_export now lease token) (db_export_jobs d)\<rparr>)"
    and changed: "P d \<Longrightarrow> export_change hit f \<Longrightarrow> P (d\<lparr>db_export_jobs := row_update hit f (db_export_jobs d)\<rparr>)"
    and cleaned: "P d \<Longrightarrow> P (d\<lparr>db_export_cleanups := runs\<rparr>)"
begin

lemma keeps_update: "export_change hit f \<Longrightarrow> keeps (on_db P) (update_export_job hit f)"
  unfolding update_export_job_def by (rule keeps_stmt) (auto intro: changed)

lemma keeps_repo_changes:
  "keeps (on_db P) (Repo_RenewExportJobLease ctx jid token lease now)" "keeps (on_db P) (Repo_CompleteExportJob jv ctx jid token path bytes now)"
  "keeps (on_db P) (Repo_FailExportJob jv ctx jid token msg now)" "keeps (on_db P) (Repo_CancelExportJob jv ctx jid now)"
  "keeps (on_db P) (Repo_RetryExportJob jv ctx jid now)" "keeps (on_db P) (Repo_ExpireExportJob ctx jid now)"
  unfolding Repo_RenewExportJobLease_def Repo_CompleteExportJob_def Repo_FailExportJob_def Repo_CancelExportJob_def Repo_RetryExportJob_def
    Repo_ExpireExportJob_def
  by (auto intro!: keeps_rules keeps_returned keeps_update intro: export_change.intros)

lemma keeps_repo_claim: "token \<noteq> [] \<Longrightarrow> keeps (on_db P) (Repo_ClaimExportJob jv now lease token n)"
  unfolding Repo_ClaimExportJob_def
  by (intro keeps_returned keeps_stmt) (auto simp: claim_export_def claimed split: option.splits)

lemma keeps_save_export:
  "export_ok (j\<lparr>ej_claimToken := [], ej_expiredAt := zero_time\<rparr>) \<Longrightarrow> ej_status j = ExportJobQueued \<Longrightarrow> keeps (on_db P) (SaveExportJob j)"
  unfolding SaveExportJob_def insert_export_job_def
  by (intro keeps_attempt keeps_return keeps_exec_unique) (rule created, simp_all)

lemma keeps_new_export:
  assumes "ej_status a = ExportJobQueued" "ej_attempts a = 0" "ej_lockedUntil a = zero_time" "ej_artifactPath a = []" "ej_artifactSize a = 0"
  shows "keeps (on_db P) (attempt (lift_res (NewExportJob jv a)) SaveExportJob)"
proof (cases "NewExportJob jv a")
  case (Inr j)
  then have "keeps (on_db P) (SaveExportJob j)"
    using assms NewExportJob_fields [OF Inr] by (intro keeps_save_export) (simp_all add: export_ok_def TrimSpace_trimmed)
  then show ?thesis using Inr by (simp add: keeps_def attempt_def)
qed (simp add: keeps_def attempt_def)

lemma keeps_export_claim: "keeps (on_db P) (ClaimExportJob jv ccmd)"
  unfolding ClaimExportJob_def
  by (intro keeps_if keeps_return keeps_attempt [OF keeps_clock] keeps_attempt_fresh keeps_inspect keeps_repo_claim)
    (auto simp: on_db_def intro!: keeps_rules split: sum.splits)

lemma keeps_export_jobs:
  "keeps (on_db P) (CreateExportJob jv ctx ncmd)" "keeps (on_db P) (RenewExportJobLease ctx rcmd)"
  "keeps (on_db P) (CompleteExportJob jv ctx dcmd)" "keeps (on_db P) (FailExportJob jv ctx fcmd)"
  "keeps (on_db P) (CancelExportJob jv ctx jid)" "keeps (on_db P) (RetryExportJob jv ctx jid)" "keeps (on_db P) (ExpireExportJob ctx jid)"
  "keeps (on_db P) (RecordExportCleanupRun ctx ucmd)"
proof -
  show "keeps (on_db P) (CreateExportJob jv ctx ncmd)"
    unfolding CreateExportJob_def
    by (intro keeps_with_workspace keeps_attempt [OF keeps_clock] keeps_attempt [OF keeps_fresh_id] keeps_new_export) simp_all
  show "keeps (on_db P) (RecordExportCleanupRun ctx ucmd)"
    unfolding RecordExportCleanupRun_def SaveExportCleanupRun_def by (auto intro!: keeps_rules keeps_exec_unique cleaned)
  show "keeps (on_db P) (RenewExportJobLease ctx rcmd)" "keeps (on_db P) (CompleteExportJob jv ctx dcmd)"
    "keeps (on_db P) (FailExportJob jv ctx fcmd)" "keeps (on_db P) (CancelExportJob jv ctx jid)" "keeps (on_db P) (RetryExportJob jv ctx jid)"
    "keeps (on_db P) (ExpireExportJob ctx jid)"
    unfolding RenewExportJobLease_def CompleteExportJob_def FailExportJob_def CancelExportJob_def RetryExportJob_def ExpireExportJob_def
    by (auto intro!: keeps_rules keeps_repo_changes keeps_find_export)
qed

lemma export_step_kept: "export_step jv w v \<Longrightarrow> on_db P w \<Longrightarrow> on_db P v"
  by (induction rule: export_step.induct) (auto intro: keepsD [OF keeps_export_claim] keeps_export_jobs [THEN keepsD])

end

section \<open>The invariant is kept\<close>

lemma next_exportD: "next_export now n rows = Some j \<Longrightarrow> j \<in> set rows \<and> due_export now n j"
  using export_queue.next_row_Some [of now n rows j] by (simp add: next_export_def export_queue.next_row_def)

lemma exports_ok_update:
  assumes "exports_ok d" "\<And>j. ej_id (f j) = ej_id j" "\<And>j. j \<in> set (db_export_jobs d) \<Longrightarrow> export_ok j \<Longrightarrow> hit j \<Longrightarrow> export_ok (f j)"
  shows "exports_ok (d\<lparr>db_export_jobs := row_update hit f (db_export_jobs d)\<rparr>)"
  using assms distinct_keys_update [of ej_id "db_export_jobs d" hit f] by (auto simp: exports_ok_def row_update_def)

lemma due_unique:
  assumes "distinct_keys ej_id rows" "next_export now n rows = Some j" "q \<in> set rows" "ej_id q = ej_id j"
  shows "due_export now n q"
  using assms next_exportD [OF assms(2)] distinct_keys_unique [of ej_id rows q j] by simp

interpretation exports: export_store exports_ok
proof
  fix d now n j lease and token :: string
  assume d: "exports_ok d" and j: "next_export now n (db_export_jobs d) = Some j" and token: "token \<noteq> []"
  show "exports_ok (d\<lparr>db_export_jobs := row_update (\<lambda>q. ej_id q = ej_id j) (claimed_export now lease token) (db_export_jobs d)\<rparr>)"
  proof (rule exports_ok_update [OF d])
    fix q assume q: "q \<in> set (db_export_jobs d)" "export_ok q" "ej_id q = ej_id j"
    then have "due_export now n q" using d j due_unique by (auto simp: exports_ok_def)
    then show "export_ok (claimed_export now lease token q)"
      using q(2) token by (auto simp: export_ok_def export_marks due_export_def)
  qed (simp add: export_marks)
next
  fix d hit f
  assume d: "exports_ok d" and f: "export_change hit f"
  show "exports_ok (d\<lparr>db_export_jobs := row_update hit f (db_export_jobs d)\<rparr>)"
    by (rule exports_ok_update [OF d]) (simp_all add: export_change_id [OF f] export_change_ok [OF f])
qed (auto simp: exports_ok_def)

lemma export_step_ok: "export_step jv w v \<Longrightarrow> on_db exports_ok w \<Longrightarrow> on_db exports_ok v"
  by (rule exports.export_step_kept)

section \<open>Completed exports\<close>

definition completed_as :: "string \<Rightarrow> string \<Rightarrow> int \<Rightarrow> time \<Rightarrow> db \<Rightarrow> bool" where
  "completed_as jid path bytes t d \<longleftrightarrow> distinct_keys ej_id (db_export_jobs d) \<and>
     (\<exists>j \<in> set (db_export_jobs d). ej_id j = jid \<and> ej_status j = ExportJobCompleted \<and> ej_artifactPath j = path \<and>
        ej_artifactSize j = bytes \<and> ej_completedAt j = t)"

lemma completed_row_update:
  assumes "completed_as jid path bytes t d" "\<And>j. hit j \<Longrightarrow> ej_id (f j) = ej_id j"
    "\<And>j. j \<in> set (db_export_jobs d) \<Longrightarrow> hit j \<Longrightarrow> ej_status j = ExportJobCompleted \<Longrightarrow>
       ej_status (f j) = ExportJobCompleted \<and> ej_artifactPath (f j) = ej_artifactPath j \<and> ej_artifactSize (f j) = ej_artifactSize j \<and>
       ej_completedAt (f j) = ej_completedAt j"
  shows "completed_as jid path bytes t (d\<lparr>db_export_jobs := row_update hit f (db_export_jobs d)\<rparr>)"
proof -
  obtain j where j: "j \<in> set (db_export_jobs d)" "ej_id j = jid" "ej_status j = ExportJobCompleted" "ej_artifactPath j = path"
    "ej_artifactSize j = bytes" "ej_completedAt j = t"
    using assms(1) by (auto simp: completed_as_def)
  let ?g = "if hit j then f j else j"
  have "?g \<in> set (row_update hit f (db_export_jobs d))" using j(1) by (auto simp: row_update_def)
  moreover have "ej_id ?g = jid \<and> ej_status ?g = ExportJobCompleted \<and> ej_artifactPath ?g = path \<and> ej_artifactSize ?g = bytes \<and> ej_completedAt ?g = t"
    using j assms(2) [of j] assms(3) [OF j(1)] by auto
  moreover have "distinct_keys ej_id (row_update hit f (db_export_jobs d))"
    using assms(1,2) by (auto simp: completed_as_def intro: distinct_keys_update)
  ultimately show ?thesis unfolding completed_as_def by auto
qed

interpretation completed_exports: export_store "completed_as jid path bytes t" for jid path bytes t
proof
  fix d now n j lease and token :: string
  assume d: "completed_as jid path bytes t d" and j: "next_export now n (db_export_jobs d) = Some j"
  show "completed_as jid path bytes t (d\<lparr>db_export_jobs := row_update (\<lambda>q. ej_id q = ej_id j) (claimed_export now lease token) (db_export_jobs d)\<rparr>)"
  proof (rule completed_row_update [OF d])
    fix q assume "q \<in> set (db_export_jobs d)" "ej_id q = ej_id j" "ej_status q = ExportJobCompleted"
    moreover then have "due_export now n q" using d j due_unique by (auto simp: completed_as_def)
    ultimately show "ej_status (claimed_export now lease token q) = ExportJobCompleted \<and>
        ej_artifactPath (claimed_export now lease token q) = ej_artifactPath q \<and>
        ej_artifactSize (claimed_export now lease token q) = ej_artifactSize q \<and> ej_completedAt (claimed_export now lease token q) = ej_completedAt q"
      by (simp add: due_export_def)
  qed (simp add: export_marks)
next
  fix d hit f
  assume d: "completed_as jid path bytes t d" and f: "export_change hit f"
  show "completed_as jid path bytes t (d\<lparr>db_export_jobs := row_update hit f (db_export_jobs d)\<rparr>)"
    by (rule completed_row_update [OF d]) (simp_all add: export_change_id [OF f] export_change_completed [OF f])
qed (auto simp: completed_as_def)

text \<open>Claim C29. A completed export is final: no operation on export jobs, whether it succeeds or fails, changes the status, the artifact
  or the time of completion of a job that has completed.\<close>

theorem completed_export_final:
  "keeps (on_db (completed_as jid path bytes t)) (CreateExportJob jv ctx ncmd) \<and>
   keeps (on_db (completed_as jid path bytes t)) (ClaimExportJob jv ccmd) \<and>
   keeps (on_db (completed_as jid path bytes t)) (RenewExportJobLease ctx rcmd) \<and>
   keeps (on_db (completed_as jid path bytes t)) (CompleteExportJob jv ctx dcmd) \<and>
   keeps (on_db (completed_as jid path bytes t)) (FailExportJob jv ctx fcmd) \<and>
   keeps (on_db (completed_as jid path bytes t)) (CancelExportJob jv ctx kid) \<and>
   keeps (on_db (completed_as jid path bytes t)) (RetryExportJob jv ctx kid) \<and>
   keeps (on_db (completed_as jid path bytes t)) (ExpireExportJob ctx kid)"
  by (intro conjI completed_exports.keeps_export_claim completed_exports.keeps_export_jobs)

section \<open>Claims\<close>

lemma ClaimExportJob_ok:
  assumes "ClaimExportJob jv cmd w = (Inr (Some job), u)"
  obtains now j where "claim_export now (now + xcl_LockTTL cmd) (id_text (w_next_id w)) (xcl_MaxAttempts cmd) (w_db w) = (Some j, w_db u)"
    "NewExportJob jv j = Inr job" "w_next_id u = w_next_id w + 1"
proof -
  obtain now w1 where clock: "clock_now w = (Inr now, w1)" by (cases "w_clock w") (auto simp: clock_now_def)
  then have w1: "w_db w1 = w_db w" "w_next_id w1 = w_next_id w" by (auto simp: clock_now_def split: list.splits)
  let ?w2 = "w1\<lparr>w_next_id := w_next_id w1 + 1\<rparr>"
  have run: "Repo_ClaimExportJob jv now (now + xcl_LockTTL cmd) (id_text (w_next_id w)) (xcl_MaxAttempts cmd) ?w2 = (Inr job, u)"
    using assms clock w1
    by (auto simp: ClaimExportJob_def attempt_apply fresh_id_text inspect_apply split: if_splits prod.splits sum.splits)
  then obtain j v where j: "stmt (\<lambda>d. case claim_export now (now + xcl_LockTTL cmd) (id_text (w_next_id w)) (xcl_MaxAttempts cmd) d of (row, d') \<Rightarrow> (Inr row, d')) ?w2
      = (Inr (Some j), v)" "NewExportJob jv j = Inr job" "u = v"
    by (auto simp: Repo_ClaimExportJob_def returned_job_def attempt_eq_Inr lift_res_def split: option.splits)
  then have "claim_export now (now + xcl_LockTTL cmd) (id_text (w_next_id w)) (xcl_MaxAttempts cmd) (w_db w) = (Some j, w_db u)"
    using stmt_ok [OF j(1)] w1 by (auto split: prod.splits)
  moreover have "w_next_id u = w_next_id w + 1"
    using j(1,3) w1 by (auto simp: stmt_def drop_fault_fields split: option.splits sum.splits prod.splits)
  ultimately show thesis using that j(2) by blast
qed

text \<open>What a worker may report of a job it claimed.\<close>

datatype export_report = ExportDone string int | ExportFailure string | ExportAlive duration

fun report_export :: "(string \<Rightarrow> bool) \<Rightarrow> ctx \<Rightarrow> export_report \<Rightarrow> ExportJob \<Rightarrow> (world, unit) proc" where
  "report_export jv ctx (ExportDone path bytes) j = attempt (CompleteExportJob jv ctx \<lparr>xcc_ID = ej_id j, xcc_ClaimToken = ej_claimToken j,
     xcc_ArtifactPath = path, xcc_ArtifactSize = bytes\<rparr>) (\<lambda>_. return_ok ())"
| "report_export jv ctx (ExportFailure msg) j = attempt (FailExportJob jv ctx \<lparr>xfc_ID = ej_id j, xfc_ClaimToken = ej_claimToken j,
     xfc_ErrorMessage = msg\<rparr>) (\<lambda>_. return_ok ())"
| "report_export jv ctx (ExportAlive ttl) j = RenewExportJobLease ctx \<lparr>xrc_ID = ej_id j, xrc_ClaimToken = ej_claimToken j, xrc_LockTTL = ttl\<rparr>"

lemma returned_run: "returned_job jv m w = (Inr j, u) \<Longrightarrow> \<exists>row. m w = (Inr (Some row), u)"
  by (auto simp: returned_job_def attempt_eq_Inr lift_res_def split: option.splits)

lemma update_export_hit: "update_export_job hit f w = (Inr (Some row), u) \<Longrightarrow> \<exists>j \<in> set (db_export_jobs (w_db w)). hit j"
  by (auto simp: update_export_job_def dest!: stmt_ok row_find_Some)

lemma report_needs_held:
  assumes "report_export jv ctx rep j w = (Inr x, u)"
  shows "\<exists>ws. \<exists>q \<in> set (db_export_jobs (w_db w)). held_export ws (ej_id j) (ej_claimToken j) q"
proof -
  have clock: "clock_now v = (r, v') \<Longrightarrow> w_db v' = w_db v" for v r v' using clock_now_db(1) [of v] by simp
  show ?thesis
    using assms
    by (cases rep)
      (auto simp: CompleteExportJob_def Repo_CompleteExportJob_def FailExportJob_def Repo_FailExportJob_def RenewExportJobLease_def
        Repo_RenewExportJobLease_def with_workspace_def attempt_eq_Inr lift_res_def split: if_splits
        dest!: clock returned_run update_export_hit, blast+)
qed

definition export_fence :: "ExportJob option \<times> ExportJob option \<times> (go_error + unit) \<Rightarrow> bool" where
  "export_fence abr = (case abr of (Some a, Some b, r) \<Rightarrow> (if ej_id a = ej_id b then r \<noteq> Inr () else True) | _ \<Rightarrow> True)"

text \<open>Claim C30. A worker whose export was claimed again is fenced: when two claims return the same job, neither completing, nor failing nor
  renewing it with the token of the first claim succeeds.\<close>

theorem export_fenced:
  "ensures (on_db exports_ok)
    (attempt (ClaimExportJob jv c) (\<lambda>a. attempt (ClaimExportJob jv c') (\<lambda>b.
     inspect (case a of None \<Rightarrow> return_err ErrNotFound | Some j \<Rightarrow> report_export jv ctx rep j) (\<lambda>r. return_ok (a, b, r)))))
    (\<lambda>abr _. export_fence abr)"
proof (rule ensuresI, clarify)
  fix s z a b r
  assume s: "on_db exports_ok s" and "attempt (ClaimExportJob jv c) (\<lambda>a. attempt (ClaimExportJob jv c') (\<lambda>b.
     inspect (case a of None \<Rightarrow> return_err ErrNotFound | Some j \<Rightarrow> report_export jv ctx rep j) (\<lambda>r. return_ok (a, b, r)))) s = (Inr (a, b, r), z)"
  then obtain u v t where one: "ClaimExportJob jv c s = (Inr a, u)" and two: "ClaimExportJob jv c' u = (Inr b, v)"
    and fin: "(case a of None \<Rightarrow> return_err ErrNotFound | Some j \<Rightarrow> report_export jv ctx rep j) v = (r, t)"
    by (auto simp: attempt_eq_Inr inspect_eq)
  have u: "exports_ok (w_db u)" using keepsD [OF exports.keeps_export_claim s] one by (metis on_db_def snd_conv)
  have "r \<noteq> Inr ()" if ab: "a = Some x" "b = Some y" "ej_id x = ej_id y" for x y
  proof
    assume "r = Inr ()"
    then have "report_export jv ctx rep x v = (Inr (), t)" using fin ab(1) by simp
    then obtain ws q where q: "q \<in> set (db_export_jobs (w_db v))" "held_export ws (ej_id x) (ej_claimToken x) q"
      using report_needs_held by blast
    obtain t1 i where i: "claim_export t1 (t1 + xcl_LockTTL c) (id_text (w_next_id s)) (xcl_MaxAttempts c) (w_db s) = (Some i, w_db u)"
      "NewExportJob jv i = Inr x" "w_next_id u = w_next_id s + 1" by (rule ClaimExportJob_ok [OF one [unfolded ab(1)]])
    obtain t2 j where j: "claim_export t2 (t2 + xcl_LockTTL c') (id_text (w_next_id u)) (xcl_MaxAttempts c') (w_db u) = (Some j, w_db v)"
      "NewExportJob jv j = Inr y" by (rule ClaimExportJob_ok [OF two [unfolded ab(2)]])
    obtain p where p: "p \<in> set (db_export_jobs (w_db u))" "j = claimed_export t2 (t2 + xcl_LockTTL c') (id_text (w_next_id u)) p"
      "db_export_jobs (w_db v) = row_update (\<lambda>q. ej_id q = ej_id p) (claimed_export t2 (t2 + xcl_LockTTL c') (id_text (w_next_id u))) (db_export_jobs (w_db u))"
      using j(1) by (auto simp: claim_export_def dest!: next_exportD split: option.splits) (metis db.select_convs(24) db.surjective db.update_convs(24))
    have "ej_id p = ej_id y" using NewExportJob_fields [OF j(2)] p(1,2) u trimmed_TrimSpace [of "ej_id p"] by (simp add: claimed_export_def exports_ok_def export_ok_def)
    then have "ej_claimToken q = id_text (w_next_id u)"
      using q p(3) ab(3) by (auto simp: held_export_def export_in_def row_update_def claimed_export_def split: if_splits)
    moreover have "ej_claimToken x = id_text (w_next_id s)"
      using NewExportJob_fields [OF i(2)] i(1) by (auto simp: claim_export_def claimed_export_def split: option.splits)
    ultimately show False using q(2) i(3) id_text_inject by (simp add: held_export_def)
  qed
  then show "export_fence (a, b, r)" by (auto simp: export_fence_def split: option.splits)
qed

end
