(* ===== verification/DeskFrames.thy ===== *)
theory DeskFrames
  imports Frames SavedQueryService ExportSpec
begin

text \<open>
  The requests for saved queries and export jobs beside the other services: their steps, what survives
  them, and the references of saved queries to users across the requests for users and sessions.
\<close>

section \<open>The steps\<close>

inductive desk_step :: "(string \<Rightarrow> bool) \<Rightarrow> world \<Rightarrow> world \<Rightarrow> bool" for jv :: "string \<Rightarrow> bool" where
  save_query: "desk_step jv w (snd (SavedQuery_Create scmd w))"
| update_query: "desk_step jv w (snd (SavedQuery_Update ucmd w))"
| delete_query: "desk_step jv w (snd (SavedQuery_Delete qid uid w))"
| export: "export_step jv w v \<Longrightarrow> desk_step jv w v"

section \<open>What survives them\<close>

locale query_frame =
  fixes P :: "db \<Rightarrow> bool"
  assumes frame_saved: "P d \<Longrightarrow> P (d\<lparr>db_saved_queries := queries\<rparr>)"
begin

lemma keeps_save_query: "keeps (on_db P) (SaveSavedQuery q)"
  unfolding SaveSavedQuery_def Let_def by (auto intro!: keeps_rules keeps_stmt frame_saved split: if_splits)

lemma keeps_query_requests:
  "keeps (on_db P) (SavedQuery_Create scmd)" "keeps (on_db P) (SavedQuery_Update ucmd)" "keeps (on_db P) (SavedQuery_Delete qid uid)"
  unfolding SavedQuery_Create_def SavedQuery_Update_def SavedQuery_Delete_def savedQueryFromInput_def DeleteSavedQuery_def Let_def
  by (auto intro!: keeps_rules keeps_save_query keeps_execrows frame_saved split: list.splits)

end

locale desk_frame = query_frame +
  assumes frame_exports: "P d \<Longrightarrow> P (d\<lparr>db_export_jobs := jobs\<rparr>)"
    and frame_cleanups: "P d \<Longrightarrow> P (d\<lparr>db_export_cleanups := runs\<rparr>)"

sublocale desk_frame \<subseteq> export_store P
  by unfold_locales (simp_all add: frame_exports frame_cleanups)

context desk_frame
begin

lemma desk_step_frame: "desk_step jv w v \<Longrightarrow> on_db P w \<Longrightarrow> on_db P v"
  by (induction rule: desk_step.induct) (auto intro: keeps_query_requests [THEN keepsD] export_step_kept)

end

section \<open>The invariant of both\<close>

definition desk_ok :: "db \<Rightarrow> bool" where
  "desk_ok d \<longleftrightarrow> saved_ok d \<and> exports_ok d"

lemma saved_ok_tables: "db_saved_queries e = db_saved_queries d \<Longrightarrow> db_auth e = db_auth d \<Longrightarrow> saved_ok d \<Longrightarrow> saved_ok e"
  by (simp add: saved_ok_def)

lemma desk_ok_tables:
  "db_saved_queries e = db_saved_queries d \<Longrightarrow> db_export_jobs e = db_export_jobs d \<Longrightarrow> db_auth e = db_auth d \<Longrightarrow> desk_ok d \<Longrightarrow> desk_ok e"
  by (simp add: desk_ok_def saved_ok_def exports_ok_def)

interpretation saved_exports: export_store saved_ok
  by unfold_locales (erule saved_ok_tables [rotated 2], simp, simp)+

interpretation exports_saved: query_frame exports_ok
  by unfold_locales (simp add: exports_ok_def)

lemma desk_step_ok: "desk_step jv w v \<Longrightarrow> on_db desk_ok w \<Longrightarrow> on_db desk_ok v"
proof -
  assume "desk_step jv w v" "on_db desk_ok w"
  then have "on_db saved_ok w" "on_db exports_ok w" by (simp_all add: on_db_def desk_ok_def)
  with \<open>desk_step jv w v\<close> have "on_db saved_ok v \<and> on_db exports_ok v"
    by (induction rule: desk_step.induct)
      (auto intro: keeps_saved_queries [THEN keepsD] exports_saved.keeps_query_requests [THEN keepsD] saved_exports.export_step_kept export_step_ok)
  then show ?thesis by (simp add: on_db_def desk_ok_def)
qed

section \<open>No transaction is left open\<close>

lemma keeps_tx_saved_queries:
  "keeps (tx_is b) (SavedQuery_Create scmd)" "keeps (tx_is b) (SavedQuery_Update ucmd)" "keeps (tx_is b) (SavedQuery_Delete qid uid)"
  unfolding SavedQuery_Create_def SavedQuery_Update_def SavedQuery_Delete_def savedQueryFromInput_def DeleteSavedQuery_def SaveSavedQuery_def
    FindSavedQueries_def Let_def
  by (auto intro!: keeps_rules split: list.splits)

lemma keeps_tx_export_jobs:
  "keeps (tx_is b) (CreateExportJob jv ctx ncmd)" "keeps (tx_is b) (ClaimExportJob jv ccmd)" "keeps (tx_is b) (RenewExportJobLease ctx rcmd)"
  "keeps (tx_is b) (CompleteExportJob jv ctx dcmd)" "keeps (tx_is b) (FailExportJob jv ctx fcmd)"
  "keeps (tx_is b) (CancelExportJob jv ctx jid)" "keeps (tx_is b) (RetryExportJob jv ctx jid)" "keeps (tx_is b) (ExpireExportJob ctx jid)"
  "keeps (tx_is b) (RecordExportCleanupRun ctx ucmd)"
  unfolding CreateExportJob_def ClaimExportJob_def RenewExportJobLease_def CompleteExportJob_def FailExportJob_def CancelExportJob_def
    RetryExportJob_def ExpireExportJob_def RecordExportCleanupRun_def SaveExportCleanupRun_def Repo_ClaimExportJob_def
    Repo_RenewExportJobLease_def Repo_CompleteExportJob_def Repo_FailExportJob_def Repo_CancelExportJob_def Repo_RetryExportJob_def
    Repo_ExpireExportJob_def SaveExportJob_def insert_export_job_def FindExportJob_def update_export_job_def
  by (auto intro!: keeps_rules keeps_returned split: sum.splits)

lemma desk_step_tx: "desk_step jv w v \<Longrightarrow> tx_is b w \<Longrightarrow> tx_is b v"
proof (induction rule: desk_step.induct)
  case (export w v)
  then show ?case by (induction rule: export_step.induct) (auto intro: keeps_tx_export_jobs [THEN keepsD])
qed (auto intro: keeps_tx_saved_queries [THEN keepsD])

section \<open>Users stay\<close>

interpretation users_stay: auth_statements "has_user uid" for uid
  by unfold_locales (auto simp: has_user_def)

interpretation users_stay: member_statements "has_user uid" for uid
  by unfold_locales (auto simp: has_user_def)

interpretation users_stay: key_statements "has_user uid" for uid
  by unfold_locales (auto simp: has_user_def)

lemma auth_step_users: "auth_step w v \<Longrightarrow> of_auth (has_user x) w \<Longrightarrow> of_auth (has_user x) v"
proof (induction rule: auth_step.induct)
  case (authenticate_key w token uses)
  have "keeps (\<lambda>(w, r). of_auth (has_user x) w) (AuthenticateAPIKeyPrincipal token)"
    by (intro keeps_key_authentication users_stay.keeps_use_key keeps_auth_finders keeps_auth_prims)
  from keepsD [OF this, of "(w, uses)"] show ?case using authenticate_key by (auto split: prod.splits)
next
  case (invite w token icmd)
  have "keeps (of_auth (has_user x)) (session_request token (\<lambda>prn. CreateWorkspaceInvitation prn icmd))"
    using users_stay.keeps_members users_stay.keeps_authenticate by (auto simp: session_request_def intro!: keeps_rules)
  from keepsD [OF this invite] show ?case .
qed (auto intro: users_stay.keeps_create_user [THEN keepsD] users_stay.keeps_logins [THEN keepsD] users_stay.keeps_external_login [THEN keepsD]
    users_stay.keeps_authenticate [THEN keepsD] users_stay.keeps_refresh [THEN keepsD] users_stay.keeps_members [THEN keepsD]
    users_stay.keeps_keys [THEN keepsD] users_stay.keeps_revoke_invitation [THEN keepsD])

interpretation desk_rows: auth_frame "\<lambda>d. db_saved_queries d = queries \<and> db_export_jobs d = jobs" for queries jobs
  by unfold_locales simp

lemma auth_step_desk: "auth_step w v \<Longrightarrow> on_db desk_ok w \<Longrightarrow> on_db desk_ok v"
proof -
  assume step: "auth_step w v" and w: "on_db desk_ok w"
  have rows: "db_saved_queries (w_db v) = db_saved_queries (w_db w)" "db_export_jobs (w_db v) = db_export_jobs (w_db w)"
    using desk_rows.auth_step_frame [OF step, of "db_saved_queries (w_db w)" "db_export_jobs (w_db w)"] by (simp_all add: on_db_def)
  have "has_user x (db_auth (w_db w)) \<Longrightarrow> has_user x (db_auth (w_db v))" for x
    using auth_step_users [OF step, of x] by (simp add: of_auth_def on_db_def)
  with w rows show ?thesis by (simp add: on_db_def desk_ok_def saved_ok_def exports_ok_def)
qed

end
