(* ===== verification/SystemSpec.thy ===== *)
theory SystemSpec
  imports DeskFrames
begin

text \<open>
  The services together on one store: the steps of a running server (the requests of its API and the
  rounds of its workers, \<^verbatim>\<open>src/internal/app\<close>), the states they reach, and what holds in all of
  them.  An operation runs to its end before the next one starts; any of its statements may fail, and
  the clock and the schedule of failures may change in any way between two operations.
\<close>

section \<open>Steps\<close>

record deployment =
  dp_limits :: IngestionLimits
  dp_checks :: EntitlementWorker
  dp_outbox :: OutboxOptions
  dp_alerts :: AlertWorker
  dp_usage :: UsageRepository
  dp_json :: "string \<Rightarrow> bool"
  dp_post :: "string \<times> string \<Rightarrow> DeliveryJob \<Rightarrow> time \<Rightarrow> deliveryAttempt"

text \<open>The call the outbox worker makes to the alerts.\<close>

definition enqueue_alerts :: "ctx \<Rightarrow> OutboxMessage \<Rightarrow> (world, unit) proc" where
  "enqueue_alerts ctx message = Alert_EnqueueForUsageEvents ctx
    [\<lparr>aue_Subject = om_Subject message, aue_Meter = om_MeterName message, aue_Metadata = om_Metadata message\<rparr>]"

inductive step :: "deployment \<Rightarrow> world \<Rightarrow> world \<Rightarrow> bool" for s :: deployment where
  usage: "step s w (snd (create (dp_limits s) ctx kind cmd w))"
| bulk: "step s w (snd (createBulk (dp_limits s) ctx kind key cmds n w))"
| consume: "step s w (snd (Consume (dp_limits s) ctx ccmd w))"
| prune: "step s w (snd (PruneDecisions ctx pcmd w))"
| create_meter: "step s w (snd (Meter_Create ctx mcmd w))"
| update_meter: "step s w (snd (Meter_Update ctx mchanges w))"
| delete_meter: "step s w (snd (Meter_Delete ctx mid w))"
| create_plan: "step s w (snd (CreatePlan ctx plan w))"
| update_plan: "step s w (snd (UpdatePlan ctx changes w))"
| delete_plan: "step s w (snd (DeletePlan ctx pid w))"
| assign: "step s w (snd (AssignSubject ctx a w))"
| unassign: "step s w (snd (DeleteSubjectAssignment ctx subject w))"
| evaluate: "step s w (snd (Evaluate ctx ecmd w))"
| create_rule: "step s w (snd (Alert_Create ctx rule w))"
| update_rule: "step s w (snd (Alert_Update ctx rchanges w))"
| delete_rule: "step s w (snd (Alert_Delete ctx rid w))"
| delete_destination: "step s w (snd (DeleteDestination ctx did w))"
| evaluate_rule: "step s w (snd (Alert_Evaluate (dp_usage s) ctx rid w))"
| requeue_delivery: "step s w (snd (RequeueDeliveryJob ctx jid w))"
| schedule_rules: "step s w (snd (EnqueueDueRules limit w))"
| check_worker: "step s w (snd (Check_ProcessOnce (dp_checks s) ctx w))"
| outbox_worker: "step s w (snd (ProcessOnce enqueue_alerts (dp_outbox s) ctx w))"
| alert_worker: "step s w (snd (Alert_ProcessOnce (dp_usage s) (dp_post s) (dp_alerts s) ctx w))"
| auth: "auth_step w v \<Longrightarrow> step s w v"
| desk: "desk_step (dp_json s) w v \<Longrightarrow> step s w v"
| outside: "w_db v = w_db w \<Longrightarrow> w_in_tx v = w_in_tx w \<Longrightarrow> w_next_id w \<le> w_next_id v \<Longrightarrow> step s w v"

inductive_cases step_elim: "step s w v"

inductive reachable :: "deployment \<Rightarrow> world \<Rightarrow> bool" for s :: deployment where
  start: "w_db w = empty_db \<Longrightarrow> \<not> w_in_tx w \<Longrightarrow> reachable s w"
| step: "reachable s w \<Longrightarrow> step s w v \<Longrightarrow> reachable s v"

text \<open>Settings as the server starts with them: the workers have attempts, and the repository that
  the alerts read usage through only reads.\<close>

definition configured :: "deployment \<Rightarrow> bool" where
  "configured s \<longleftrightarrow> 0 \<le> ew_maxAttempts (dp_checks s) \<and> 0 < oo_MaxAttempts (dp_outbox s) \<and> reads_usage (dp_usage s)"

section \<open>The frames of the invariants\<close>

text \<open>A predicate that no service but that of the meters touches.\<close>

locale table_frame = consume_frame P + plan_frame P + queue_frame P + alert_frame P + outbox_frame P
  for P :: "db \<Rightarrow> bool"
begin

lemma step_frame:
  assumes "configured s" "step s w v" "on_db P w"
    and meters: "\<And>ctx c. keeps (on_db P) (Meter_Create ctx c)" "\<And>ctx u. keeps (on_db P) (Meter_Update ctx u)"
      "\<And>ctx i. keeps (on_db P) (Meter_Delete ctx i)"
    and requests: "\<And>u v. auth_step u v \<Longrightarrow> on_db P u \<Longrightarrow> on_db P v"
    and desks: "\<And>u v. desk_step (dp_json s) u v \<Longrightarrow> on_db P u \<Longrightarrow> on_db P v"
  shows "on_db P v"
proof -
  have outbox: "keeps (on_db P) (ProcessOnce enqueue_alerts (dp_outbox s) ctx)" for ctx
    unfolding enqueue_alerts_def [abs_def]
    by (rule keeps_outbox_worker) (intro keeps_alert_rules keeps_enqueue_checks keeps_outbox)+
  have usage: "reads_usage (dp_usage s)" using assms(1) by (simp add: configured_def)
  from assms(2) show ?thesis
  proof (cases rule: step.cases)
    case auth
    from requests [OF this assms(3)] show ?thesis .
  next
    case desk
    from desks [OF this assms(3)] show ?thesis .
  next
    case outside
    then show ?thesis using assms(3) by (simp add: on_db_def)
  qed (use assms(3) in \<open>auto intro: keepsD [OF keeps_usage_create] keepsD [OF keeps_usage_createBulk] keepsD [OF keeps_Consume]
        keeps_varD [OF keeps_PruneDecisions [of P, OF frame_decisions frame_prunes]] keeps_plan_service [THEN keepsD]
        keepsD [OF keeps_evaluation] keeps_alert_rules [THEN keepsD] keepsD [OF keeps_alert_evaluation [OF usage]]
        keeps_alert_deliveries [THEN keepsD] keepsD [OF keeps_check_worker] keepsD [OF outbox]
        keepsD [OF keeps_alert_worker [OF usage]] meters [THEN keepsD]\<close>)
qed

end


lemma ledger_ok_tables:
  "db_events e = db_events d \<Longrightarrow> db_usage_counts e = db_usage_counts d \<Longrightarrow> db_outbox e = db_outbox d \<Longrightarrow> db_bulk e = db_bulk d \<Longrightarrow>
   ledger_ok d \<Longrightarrow> ledger_ok e"
  by (simp add: ledger_ok_def events_valid_def counts_ok_def outbox_ok_def bulk_ok_def usage_count_def workspace_events_def)

lemma decisions_ok_tables:
  "db_events e = db_events d \<Longrightarrow> db_decisions e = db_decisions d \<Longrightarrow> decisions_ok d \<Longrightarrow> decisions_ok e"
  using decisions_ok_append [of d e "[]"] by simp

lemma plans_ok_tables: "db_plans e = db_plans d \<Longrightarrow> db_limits e = db_limits d \<Longrightarrow> plans_ok d \<Longrightarrow> plans_ok e"
  using plans_ok_frame by blast

lemma jobs_ok_tables: "db_jobs e = db_jobs d \<Longrightarrow> jobs_ok n d \<Longrightarrow> jobs_ok n e"
  by (simp add: jobs_ok_def)

lemma messages_ok_tables: "db_outbox e = db_outbox d \<Longrightarrow> messages_ok n d \<Longrightarrow> messages_ok n e"
  by (simp add: messages_ok_def)

lemma alerts_ok_tables: "db_alerts e = db_alerts d \<Longrightarrow> alerts_ok d \<Longrightarrow> alerts_ok e"
  by (simp add: alerts_ok_def)

text \<open>A statement on messages leaves every other table.\<close>

lemma keeps_enqueue_frame:
  assumes "\<And>d b. P d \<Longrightarrow> P (d\<lparr>db_outbox := b\<rparr>)"
  shows "keeps (on_db P) (EnqueueUsageEventOutbox row)"
  unfolding EnqueueUsageEventOutbox_def by (rule keeps_exec_unique) (simp add: assms)

interpretation ledger_meter: meter_frame ledger_ok by unfold_locales (erule ledger_ok_tables [rotated 4], simp, simp, simp, simp)+
interpretation ledger_plan: plan_frame ledger_ok by unfold_locales (erule ledger_ok_tables [rotated 4], simp, simp, simp, simp)+
interpretation ledger_check: queue_frame ledger_ok by unfold_locales (erule ledger_ok_tables [rotated 4], simp, simp, simp, simp)+
interpretation ledger_alert: alert_frame ledger_ok by unfold_locales (erule ledger_ok_tables [rotated 4], simp, simp, simp, simp)

interpretation decisions_usage: usage_frame decisions_ok
  by unfold_locales (erule decisions_ok_append, simp, simp,
    (erule decisions_ok_tables [rotated 2], simp, simp)+, rule keeps_enqueue_frame, erule decisions_ok_tables [rotated 2], simp, simp)
interpretation decisions_meter: meter_frame decisions_ok by unfold_locales (erule decisions_ok_tables [rotated 2], simp, simp)+
interpretation decisions_plan: plan_frame decisions_ok by unfold_locales (erule decisions_ok_tables [rotated 2], simp, simp)+
interpretation decisions_check: queue_frame decisions_ok by unfold_locales (erule decisions_ok_tables [rotated 2], simp, simp)+
interpretation decisions_alert: alert_frame decisions_ok by unfold_locales (erule decisions_ok_tables [rotated 2], simp, simp)
interpretation decisions_outbox: outbox_frame decisions_ok by unfold_locales (erule decisions_ok_tables [rotated 2], simp, simp)

interpretation plans_consume: consume_frame plans_ok
  by unfold_locales (rule keeps_enqueue_frame | erule plans_ok_tables [rotated 2], simp, simp)+
interpretation plans_meter: meter_frame plans_ok by unfold_locales (erule plans_ok_tables [rotated 2], simp, simp)+
interpretation plans_check: queue_frame plans_ok by unfold_locales (erule plans_ok_tables [rotated 2], simp, simp)+
interpretation plans_alert: alert_frame plans_ok by unfold_locales (erule plans_ok_tables [rotated 2], simp, simp)
interpretation plans_outbox: outbox_frame plans_ok by unfold_locales (erule plans_ok_tables [rotated 2], simp, simp)

interpretation jobs_consume: consume_frame "jobs_ok n" for n
  by unfold_locales (rule keeps_enqueue_frame | erule jobs_ok_tables [rotated], simp)+
interpretation jobs_meter: meter_frame "jobs_ok n" for n by unfold_locales (erule jobs_ok_tables [rotated], simp)+
interpretation jobs_plan: plan_frame "jobs_ok n" for n by unfold_locales (erule jobs_ok_tables [rotated], simp)+
interpretation jobs_alert: alert_frame "jobs_ok n" for n by unfold_locales (erule jobs_ok_tables [rotated], simp)
interpretation jobs_outbox: outbox_frame "jobs_ok n" for n by unfold_locales (erule jobs_ok_tables [rotated], simp)

interpretation messages_meter: meter_frame "messages_ok n" for n by unfold_locales (erule messages_ok_tables [rotated], simp)+
interpretation messages_plan: plan_frame "messages_ok n" for n by unfold_locales (erule messages_ok_tables [rotated], simp)+
interpretation messages_check: queue_frame "messages_ok n" for n by unfold_locales (erule messages_ok_tables [rotated], simp)+
interpretation messages_alert: alert_frame "messages_ok n" for n by unfold_locales (erule messages_ok_tables [rotated], simp)

lemma messages_consume: "0 < n \<Longrightarrow> consume_frame (messages_ok n)"
  by unfold_locales ((rule keeps_messages_enqueue | erule messages_ok_tables [rotated], simp), assumption?)+

interpretation alerts_consume: consume_frame alerts_ok
  by unfold_locales (rule keeps_enqueue_frame | erule alerts_ok_tables [rotated], simp)+
interpretation alerts_meter: meter_frame alerts_ok by unfold_locales (erule alerts_ok_tables [rotated], simp)+
interpretation alerts_plan: plan_frame alerts_ok by unfold_locales (erule alerts_ok_tables [rotated], simp)+
interpretation alerts_check: queue_frame alerts_ok by unfold_locales (erule alerts_ok_tables [rotated], simp)+
interpretation alerts_outbox: outbox_frame alerts_ok by unfold_locales (erule alerts_ok_tables [rotated], simp)

lemma auth_ok_tables: "db_auth e = db_auth d \<Longrightarrow> auth_ok d \<Longrightarrow> auth_ok e"
  by (simp add: auth_ok_def)

interpretation auth_all: table_frame auth_ok
  by unfold_locales (rule keeps_enqueue_frame | erule auth_ok_tables [rotated], simp)+
interpretation auth_meter: meter_frame auth_ok by unfold_locales (erule auth_ok_tables [rotated], simp)+

interpretation desk_all: table_frame desk_ok
  by unfold_locales (rule keeps_enqueue_frame | erule desk_ok_tables [rotated 3], simp, simp, simp)+
interpretation desk_meter: meter_frame desk_ok by unfold_locales (erule desk_ok_tables [rotated 3], simp, simp, simp)+

interpretation ledger_auth: auth_frame ledger_ok by unfold_locales (erule ledger_ok_tables [rotated 4], simp, simp, simp, simp)
interpretation decisions_auth: auth_frame decisions_ok by unfold_locales (erule decisions_ok_tables [rotated 2], simp, simp)
interpretation plans_auth: auth_frame plans_ok by unfold_locales (erule plans_ok_tables [rotated 2], simp, simp)
interpretation jobs_auth: auth_frame "jobs_ok n" for n by unfold_locales (erule jobs_ok_tables [rotated], simp)
interpretation messages_auth: auth_frame "messages_ok n" for n by unfold_locales (erule messages_ok_tables [rotated], simp)
interpretation alerts_auth: auth_frame alerts_ok by unfold_locales (erule alerts_ok_tables [rotated], simp)
interpretation meters_auth: auth_frame meters_ok by unfold_locales (erule meters_ok_frame [rotated], simp)

interpretation ledger_desk: desk_frame ledger_ok by unfold_locales (erule ledger_ok_tables [rotated 4], simp, simp, simp, simp)+
interpretation decisions_desk: desk_frame decisions_ok by unfold_locales (erule decisions_ok_tables [rotated 2], simp, simp)+
interpretation plans_desk: desk_frame plans_ok by unfold_locales (erule plans_ok_tables [rotated 2], simp, simp)+
interpretation jobs_desk: desk_frame "jobs_ok n" for n by unfold_locales (erule jobs_ok_tables [rotated], simp)+
interpretation messages_desk: desk_frame "messages_ok n" for n by unfold_locales (erule messages_ok_tables [rotated], simp)+
interpretation alerts_desk: desk_frame alerts_ok by unfold_locales (erule alerts_ok_tables [rotated], simp)+
interpretation auth_desk: desk_frame auth_ok by unfold_locales (erule auth_ok_tables [rotated], simp)+
interpretation meters_desk: desk_frame meters_ok by unfold_locales (erule meters_ok_frame [rotated], simp)+

interpretation meters_all: table_frame meters_ok
  by unfold_locales (rule keeps_enqueue_frame | erule meters_ok_frame [rotated], simp)+

text \<open>The usage that was recorded: rows are only appended.\<close>

definition extends :: "(string \<times> Event) list \<Rightarrow> db \<Rightarrow> bool" where
  "extends rows d \<longleftrightarrow> (\<exists>new. db_events d = rows @ new)"

lemma extends_tables: "db_events e = db_events d \<Longrightarrow> extends rows d \<Longrightarrow> extends rows e"
  by (simp add: extends_def)

lemma extends_append: "extends rows d \<Longrightarrow> extends rows (d\<lparr>db_events := db_events d @ new\<rparr>)"
  by (auto simp: extends_def)

interpretation recorded: table_frame "extends rows" for rows
  by unfold_locales (erule extends_append | rule keeps_enqueue_frame | erule extends_tables [rotated], simp)+


interpretation recorded_meter: meter_frame "extends rows" for rows by unfold_locales (erule extends_tables [rotated], simp)+
interpretation recorded_auth: auth_frame "extends rows" for rows by unfold_locales (erule extends_tables [rotated], simp)
interpretation recorded_desk: desk_frame "extends rows" for rows by unfold_locales (erule extends_tables [rotated], simp)+

section \<open>The invariant\<close>

definition system_ok :: "deployment \<Rightarrow> world \<Rightarrow> bool" where
  "system_ok s w \<longleftrightarrow> quiet (\<lambda>d. ledger_ok d \<and> decisions_ok d) w \<and> on_db (jobs_ok (ew_maxAttempts (dp_checks s))) w \<and>
    on_db (messages_ok (oo_MaxAttempts (dp_outbox s))) w \<and> on_db plans_ok w \<and>
    on_db meters_ok w \<and> quiet alerts_ok w \<and> quiet auth_ok w \<and> on_db desk_ok w"

lemma system_keepsI:
  assumes "keeps (quiet (\<lambda>d. ledger_ok d \<and> decisions_ok d)) m" "keeps (on_db (jobs_ok (ew_maxAttempts (dp_checks s)))) m"
    "keeps (on_db (messages_ok (oo_MaxAttempts (dp_outbox s)))) m" "keeps (on_db plans_ok) m" "keeps (on_db meters_ok) m" "keeps (on_db auth_ok) m" "keeps (on_db desk_ok) m"
    "keeps (on_db alerts_ok) m \<or> keeps (quiet alerts_ok) m"
  shows "keeps (system_ok s) m"
  using assms unfolding keeps_def system_ok_def quiet_def on_db_def by blast

lemma system_keeps_closed:
  assumes "keeps (tx_is False) m" "keeps (on_db ledger_ok) m" "keeps (on_db decisions_ok) m"
    "keeps (on_db (jobs_ok (ew_maxAttempts (dp_checks s)))) m" "keeps (on_db (messages_ok (oo_MaxAttempts (dp_outbox s)))) m"
    "keeps (on_db plans_ok) m" "keeps (on_db meters_ok) m" "keeps (on_db auth_ok) m" "keeps (on_db desk_ok) m"
    "keeps (on_db alerts_ok) m \<or> keeps (quiet alerts_ok) m"
  shows "keeps (system_ok s) m"
  using assms unfolding keeps_def system_ok_def quiet_def on_db_def tx_is_def by blast

lemma keeps_tx_plans:
  "keeps (tx_is b) (CreatePlan ctx c)" "keeps (tx_is b) (UpdatePlan ctx u)" "keeps (tx_is b) (DeletePlan ctx pid)"
  "keeps (tx_is b) (AssignSubject ctx a)" "keeps (tx_is b) (DeleteSubjectAssignment ctx subject)"
  unfolding CreatePlan_def UpdatePlan_def DeletePlan_def AssignSubject_def DeleteSubjectAssignment_def findPlan_def normalizePlan_def
    normalize_limits_def normalizeLimitCommand_def FindPlans_def FindPlanLimits_def Meters_Find_def CountAssignmentsForPlan_def
    SavePlan_def RetirePlan_def ReplacePlanLimits_def Repo_DeletePlan_def reassign_def SaveSubjectAssignment_def
    Repo_DeleteSubjectAssignment_def FindSubjectAssignments_def findSubjectAssignment_def FindEffectiveSubjectAssignment_def Let_def
  by (auto intro!: keeps_rules split: list.splits sum.splits option.splits)

lemma keeps_tx_checks:
  "keeps (tx_is b) (Evaluate ctx cmd)" "keeps (tx_is b) (EnqueueForUsageEvents ctx events)"
  "keeps (tx_is b) (ClaimCheckJob ctx ccmd)" "keeps (tx_is b) (CompleteCheckJob ctx fin)"
  "keeps (tx_is b) (FailCheckJob ctx f)" "keeps (tx_is b) (DeadLetterCheckJob ctx l)"
  unfolding Evaluate_def EnqueueForUsageEvents_def ClaimCheckJob_def CompleteCheckJob_def FailCheckJob_def DeadLetterCheckJob_def
    findSubjectAssignment_def FindEffectiveSubjectAssignment_def progressItem_def counter_or_zero_def state_or_zero_def findPlan_def
    GetEntitlementUsageCounter_def GetEntitlementState_def Meters_Find_def FindPlans_def FindPlanLimits_def
    SaveEntitlementState_def SaveEntitlementPeriodSnapshot_def SaveEntitlementEvent_def EnqueueEntitlementCheckJob_def
    ClaimEntitlementCheckJob_def DeleteEntitlementCheckJob_def RequeueEntitlementCheckJob_def SaveCheckDeadLetter_def Let_def
  by (auto intro!: keeps_rules split: list.splits sum.splits option.splits prod.splits)

lemma keeps_tx_outbox:
  "keeps (tx_is b) (ClaimOutbox c)" "keeps (tx_is b) (CompleteOutbox m)" "keeps (tx_is b) (FailOutbox f)"
  unfolding ClaimOutbox_def Repo_ClaimOutbox_def CompleteOutbox_def Repo_CompleteOutbox_def FailOutbox_def RetryOutbox_def
  by (auto intro!: keeps_rules split: sum.splits option.splits prod.splits)

lemma keeps_tx_workers:
  "keeps (tx_is b) (Check_ProcessOnce worker ctx)" "keeps (tx_is b) (ProcessOnce enqueue_alerts options ctx)"
  unfolding Check_ProcessOnce_def check_failed_def ProcessOnce_def dispatch_message_def swallow_not_found_def enqueue_alerts_def Let_def
  by (auto intro!: keeps_rules keeps_tx_checks keeps_tx_outbox keeps_tx_alerts split: option.splits sum.splits)

lemma keeps_tx_prune: "keeps_var (tx_is False) (PruneDecisions ctx cmd)"
proof -
  have "keeps_var (tx_is False) (WithinTransaction v0 f)" for v0 :: 'v and f
  proof (unfold keeps_var_def, intro allI impI)
    fix w assume w: "tx_is False w"
    obtain e v u where run: "WithinTransaction v0 f w = ((e, v), u)" by (metis prod.collapse)
    then have "\<not> w_in_tx u" using w by (cases rule: WithinTransaction_cases) (auto simp: tx_is_def)
    then show "tx_is False (snd (WithinTransaction v0 f w))" using run by (simp add: tx_is_def)
  qed
  then show ?thesis unfolding PruneDecisions_def Let_def by (auto intro!: keeps_rules)
qed

subsection \<open>Every operation keeps it\<close>

lemma system_usage:
  assumes "configured s"
  shows "keeps (system_ok s) (create limits ctx kind cmd)" "keeps (system_ok s) (createBulk limits ctx kind key cmds n)"
    "keeps (system_ok s) (Consume limits ctx ccmd)"
proof -
  have messages: "consume_frame (messages_ok (oo_MaxAttempts (dp_outbox s)))"
    using assms by (intro messages_consume) (simp add: configured_def)
  note usage = consume_frame.axioms(1) [OF messages]
  show "keeps (system_ok s) (create limits ctx kind cmd)"
    using keepsD [OF keeps_create] keepsD [OF decisions_usage.keeps_usage_create]
    by (intro system_keepsI jobs_consume.keeps_usage_create usage_frame.keeps_usage_create [OF usage] plans_consume.keeps_usage_create
        meters_all.keeps_usage_create auth_all.keeps_usage_create desk_all.keeps_usage_create disjI1 alerts_consume.keeps_usage_create) (auto simp: keeps_def quiet_def on_db_def)
  show "keeps (system_ok s) (createBulk limits ctx kind key cmds n)"
    using keepsD [OF keeps_createBulk] keepsD [OF decisions_usage.keeps_usage_createBulk]
    by (intro system_keepsI jobs_consume.keeps_usage_createBulk usage_frame.keeps_usage_createBulk [OF usage]
        plans_consume.keeps_usage_createBulk meters_all.keeps_usage_createBulk auth_all.keeps_usage_createBulk desk_all.keeps_usage_createBulk disjI1 alerts_consume.keeps_usage_createBulk) (auto simp: keeps_def quiet_def on_db_def)
  show "keeps (system_ok s) (Consume limits ctx ccmd)"
    by (intro system_keepsI Consume_invariant jobs_consume.keeps_Consume consume_frame.keeps_Consume [OF messages]
        plans_consume.keeps_Consume meters_all.keeps_Consume auth_all.keeps_Consume desk_all.keeps_Consume disjI1 alerts_consume.keeps_Consume)
qed

lemma decisions_ok_prune: "decisions_ok d \<Longrightarrow> decisions_ok (d\<lparr>db_decisions := row_delete p (db_decisions d)\<rparr>)"
  by (auto simp: decisions_ok_def decision_ok_def stored_under_def intro: distinct_keys_delete)

lemma system_prune: "keeps_var (system_ok s) (PruneDecisions ctx cmd)"
proof -
  let ?op = "PruneDecisions ctx cmd"
  have "keeps_var (on_db ledger_ok) ?op"
    by (rule keeps_PruneDecisions) (erule ledger_ok_tables [rotated 4], simp, simp, simp, simp)+
  moreover have "keeps_var (on_db decisions_ok) ?op"
    by (rule keeps_PruneDecisions, erule decisions_ok_prune) (erule decisions_ok_tables [rotated 2], simp, simp)
  moreover have "keeps_var (on_db (jobs_ok n)) ?op" "keeps_var (on_db (messages_ok n)) ?op" for n
    by (rule keeps_PruneDecisions; erule jobs_ok_tables [rotated] messages_ok_tables [rotated], simp)+
  moreover have "keeps_var (on_db plans_ok) ?op"
    by (rule keeps_PruneDecisions) (erule plans_ok_tables [rotated 2], simp, simp)+
  moreover have "keeps_var (on_db meters_ok) ?op"
    by (rule keeps_PruneDecisions) (erule meters_ok_frame [rotated], simp)+
  moreover have "keeps_var (on_db alerts_ok) ?op"
    by (rule keeps_PruneDecisions) (erule alerts_ok_tables [rotated], simp)+
  moreover have "keeps_var (on_db auth_ok) ?op"
    by (rule keeps_PruneDecisions) (erule auth_ok_tables [rotated], simp)+
  moreover have "keeps_var (on_db desk_ok) ?op"
    by (rule keeps_PruneDecisions) (erule desk_ok_tables [rotated 3], simp, simp, simp)+
  ultimately show ?thesis
    using keeps_tx_prune [of ctx cmd] unfolding keeps_var_def system_ok_def quiet_def on_db_def tx_is_def by blast
qed

lemma system_plans:
  "keeps (system_ok s) (CreatePlan ctx c)" "keeps (system_ok s) (UpdatePlan ctx u)" "keeps (system_ok s) (DeletePlan ctx pid)"
  "keeps (system_ok s) (AssignSubject ctx a)" "keeps (system_ok s) (DeleteSubjectAssignment ctx subject)"
  by (intro system_keeps_closed keeps_tx_plans ledger_plan.keeps_plan_service decisions_plan.keeps_plan_service
      jobs_plan.keeps_plan_service messages_plan.keeps_plan_service keeps_CreatePlan keeps_UpdatePlan keeps_DeletePlan
      keeps_assignment_service meters_all.keeps_plan_service auth_all.keeps_plan_service desk_all.keeps_plan_service disjI1 alerts_plan.keeps_plan_service; simp)+

lemma keeps_tx_meters:
  "keeps (tx_is b) (Meter_Create ctx cmd)" "keeps (tx_is b) (Meter_Update ctx ucmd)" "keeps (tx_is b) (Meter_Delete ctx mid)"
  unfolding Meter_Create_def Meter_Update_def Meter_Delete_def Meter_Repo_Delete_def Meter_Save_def DeleteMeter_def IncrementWorkspaceMeters_def
  by (auto intro!: keeps_rules reads_only_keeps(2) [OF reads_meter_service(3)] split: list.splits)

lemma system_meters:
  "keeps (system_ok s) (Meter_Create ctx cmd)" "keeps (system_ok s) (Meter_Update ctx ucmd)" "keeps (system_ok s) (Meter_Delete ctx mid)"
  by (intro system_keeps_closed keeps_tx_meters ledger_meter.keeps_meters decisions_meter.keeps_meters jobs_meter.keeps_meters
      messages_meter.keeps_meters plans_meter.keeps_meters keeps_Meter_changes keeps_Meter_Delete auth_meter.keeps_meters desk_meter.keeps_meters disjI1 alerts_meter.keeps_meters)+

lemma system_evaluate: "keeps (system_ok s) (Evaluate ctx cmd)"
proof -
  have "keeps (on_db (jobs_ok n)) (Evaluate ctx cmd)" for n
    by (rule keeps_Evaluate) (erule jobs_ok_tables [rotated], simp)+
  then show ?thesis
    by (intro system_keeps_closed keeps_tx_checks ledger_plan.keeps_evaluation decisions_plan.keeps_evaluation
        messages_plan.keeps_evaluation plans_check.keeps_evaluation meters_all.keeps_evaluation auth_all.keeps_evaluation desk_all.keeps_evaluation disjI1 alerts_plan.keeps_evaluation)
qed

lemma system_check_worker: "keeps (system_ok s) (Check_ProcessOnce (dp_checks s) ctx)"
  by (intro system_keeps_closed keeps_tx_workers ledger_check.keeps_check_worker decisions_check.keeps_check_worker
      keeps_jobs_ProcessOnce refl messages_check.keeps_check_worker plans_check.keeps_check_worker meters_all.keeps_check_worker auth_all.keeps_check_worker desk_all.keeps_check_worker disjI1
      alerts_check.keeps_check_worker)

lemma system_outbox_worker:
  assumes "configured s"
  shows "keeps (system_ok s) (ProcessOnce enqueue_alerts (dp_outbox s) ctx)"
proof -
  have "keeps (on_db (jobs_ok (ew_maxAttempts (dp_checks s)))) (EnqueueForUsageEvents c es)" for c es
    using assms by (intro keeps_jobs_enqueue) (simp add: configured_def)
  then show ?thesis
    unfolding enqueue_alerts_def [abs_def]
    by (intro system_keeps_closed keeps_tx_workers [unfolded enqueue_alerts_def [abs_def]] keeps_outbox_worker disjI1
        ledger_alert.keeps_alert_rules decisions_alert.keeps_alert_rules jobs_alert.keeps_alert_rules messages_alert.keeps_alert_rules
        plans_alert.keeps_alert_rules meters_all.keeps_alert_rules auth_all.keeps_alert_rules desk_all.keeps_alert_rules keeps_rules_service ledger_check.keeps_enqueue_checks decisions_check.keeps_enqueue_checks
        messages_check.keeps_enqueue_checks plans_check.keeps_enqueue_checks meters_all.keeps_enqueue_checks auth_all.keeps_enqueue_checks desk_all.keeps_enqueue_checks alerts_check.keeps_enqueue_checks
        keeps_ledger_outbox decisions_outbox.keeps_outbox jobs_outbox.keeps_outbox plans_outbox.keeps_outbox meters_all.keeps_outbox auth_all.keeps_outbox desk_all.keeps_outbox alerts_outbox.keeps_outbox
        keeps_messages_claim keeps_messages_complete keeps_messages_fail)
qed

lemma system_alerts:
  assumes "reads_usage usage"
  shows "keeps (system_ok s) (Alert_Create ctx sc)" "keeps (system_ok s) (Alert_Update ctx uc)" "keeps (system_ok s) (Alert_Delete ctx rid)"
    "keeps (system_ok s) (DeleteDestination ctx did)" "keeps (system_ok s) (EnqueueDueRules limit)"
    "keeps (system_ok s) (RequeueDeliveryJob ctx jid)"
    "keeps (system_ok s) (Alert_Evaluate usage ctx rid)" "keeps (system_ok s) (Alert_ProcessOnce usage post worker ctx)"
proof -
  show "keeps (system_ok s) (Alert_Create ctx sc)" "keeps (system_ok s) (Alert_Update ctx uc)" "keeps (system_ok s) (Alert_Delete ctx rid)"
    "keeps (system_ok s) (DeleteDestination ctx did)" "keeps (system_ok s) (EnqueueDueRules limit)"
    by (intro system_keeps_closed keeps_tx_alerts ledger_alert.keeps_alert_rules decisions_alert.keeps_alert_rules
        jobs_alert.keeps_alert_rules messages_alert.keeps_alert_rules plans_alert.keeps_alert_rules meters_all.keeps_alert_rules auth_all.keeps_alert_rules desk_all.keeps_alert_rules disjI1 keeps_rules_service)+
  show "keeps (system_ok s) (RequeueDeliveryJob ctx jid)"
    by (intro system_keeps_closed keeps_tx_alerts ledger_alert.keeps_alert_deliveries decisions_alert.keeps_alert_deliveries
        jobs_alert.keeps_alert_deliveries messages_alert.keeps_alert_deliveries plans_alert.keeps_alert_deliveries meters_all.keeps_alert_deliveries auth_all.keeps_alert_deliveries desk_all.keeps_alert_deliveries disjI1 keeps_deliveries)
  have quietly: "keeps (system_ok s) m"
    if "keeps (quiet alerts_ok) m" "keeps (on_db ledger_ok) m" "keeps (on_db decisions_ok) m" "\<And>n. keeps (on_db (jobs_ok n)) m"
      "\<And>n. keeps (on_db (messages_ok n)) m" "keeps (on_db plans_ok) m" "keeps (on_db meters_ok) m" "keeps (on_db auth_ok) m" "keeps (on_db desk_ok) m" for m :: "(world, 'a) proc"
    using that unfolding keeps_def system_ok_def quiet_def on_db_def by blast
  show "keeps (system_ok s) (Alert_Evaluate usage ctx rid)"
    using assms by (intro quietly keeps_Alert_Evaluate ledger_alert.keeps_alert_evaluation decisions_alert.keeps_alert_evaluation
        jobs_alert.keeps_alert_evaluation messages_alert.keeps_alert_evaluation plans_alert.keeps_alert_evaluation
        meters_all.keeps_alert_evaluation auth_all.keeps_alert_evaluation desk_all.keeps_alert_evaluation)
  show "keeps (system_ok s) (Alert_ProcessOnce usage post worker ctx)"
    using assms by (intro quietly keeps_Alert_ProcessOnce ledger_alert.keeps_alert_worker decisions_alert.keeps_alert_worker
        jobs_alert.keeps_alert_worker messages_alert.keeps_alert_worker plans_alert.keeps_alert_worker
        meters_all.keeps_alert_worker auth_all.keeps_alert_worker desk_all.keeps_alert_worker)
qed

lemma system_auth:
  assumes "auth_step w v" "system_ok s w"
  shows "system_ok s v"
  using assms(2) auth_step_ok [OF assms(1)] ledger_auth.auth_step_frame [OF assms(1)] decisions_auth.auth_step_frame [OF assms(1)]
    jobs_auth.auth_step_frame [OF assms(1)] messages_auth.auth_step_frame [OF assms(1)] plans_auth.auth_step_frame [OF assms(1)]
    meters_auth.auth_step_frame [OF assms(1)] alerts_auth.auth_step_frame [OF assms(1)] auth_step_desk [OF assms(1)]
  unfolding system_ok_def quiet_def on_db_def by blast

lemma system_desk:
  assumes "desk_step jv w v" "system_ok s w"
  shows "system_ok s v"
  using assms(2) desk_step_ok [OF assms(1)] desk_step_tx [OF assms(1), of False] ledger_desk.desk_step_frame [OF assms(1)]
    decisions_desk.desk_step_frame [OF assms(1)] jobs_desk.desk_step_frame [OF assms(1)] messages_desk.desk_step_frame [OF assms(1)]
    plans_desk.desk_step_frame [OF assms(1)] meters_desk.desk_step_frame [OF assms(1)] alerts_desk.desk_step_frame [OF assms(1)]
    auth_desk.desk_step_frame [OF assms(1)]
  unfolding system_ok_def quiet_def on_db_def tx_is_def by blast

lemma system_step:
  assumes "configured s" "step s w v" "system_ok s w"
  shows "system_ok s v"
proof -
  have reads: "reads_usage (dp_usage s)" using assms(1) by (simp add: configured_def)
  note keep = system_usage [OF assms(1), THEN keepsD, OF assms(3)] keeps_varD [OF system_prune assms(3)]
    system_plans [THEN keepsD, OF assms(3)] system_meters [THEN keepsD, OF assms(3)] keepsD [OF system_evaluate assms(3)] keepsD [OF system_check_worker assms(3)]
    keepsD [OF system_outbox_worker [OF assms(1)] assms(3)] system_alerts [OF reads, THEN keepsD, OF assms(3)]
  from assms(2) show ?thesis
  proof (cases rule: step.cases)
    case outside
    then show ?thesis using assms(3) by (simp add: system_ok_def quiet_def on_db_def)
  next
    case auth
    then show ?thesis using assms(3) by (rule system_auth)
  next
    case desk
    then show ?thesis using assms(3) by (rule system_desk)
  qed (use keep in simp_all)
qed

lemma system_start: "w_db w = empty_db \<Longrightarrow> \<not> w_in_tx w \<Longrightarrow> system_ok s w"
  using empty_alerts_ok empty_auth_ok
  by (auto simp: system_ok_def quiet_def on_db_def empty_db_def ledger_ok_def events_unique_def events_valid_def counts_ok_def
      usage_count_def workspace_events_def outbox_ok_def bulk_ok_def decisions_ok_def jobs_ok_def messages_ok_def plans_ok_def
      plans_unique_def limits_unique_def meters_ok_def meters_unique_def alerts_ok_def desk_ok_def saved_ok_def saved_unique_def exports_ok_def check_queue.bounded_def distinct_keys_def)

section \<open>Properties\<close>


definition small_deployment :: deployment where
  "small_deployment = \<lparr>dp_limits = \<lparr>il_MaxBatchEvents = 0, il_RateEvents = 0, il_RateWindow = 0\<rparr>, dp_checks = \<lparr>ew_lockTTL = Minute, ew_retryAfter = Minute, ew_maxAttempts = 5\<rparr>,
     dp_outbox = \<lparr>oo_LockTTL = Minute, oo_RetryAfter = Second, oo_MaxAttempts = 5\<rparr>,
     dp_alerts = \<lparr>aw_lockTTL = Minute, aw_retryAfter = Minute, aw_maxAttempts = 5\<rparr>, dp_usage = no_usage, dp_json = \<lambda>_. True,
     dp_post = \<lambda>_ _. failed_attempt []\<rparr>"

lemma small_configured: "configured small_deployment"
  using reads_no_usage by (simp add: configured_def small_deployment_def)

definition requests_command :: CreateMeterCommand where
  "requests_command = \<lparr>cmc_Name = ''requests'', cmc_Description = [], cmc_Unit = ''call'', cmc_Aggregation = AggregationSum,
     cmc_Dimensions = [], cmc_EventRetentionDays = 0\<rparr>"

definition one_unit :: CreateCommand where
  "one_unit = \<lparr>crc_Index = 0, crc_IdempotencyKey = ''k'', crc_Subject = ''s'', crc_MeterName = ''requests'', crc_Quantity = 1,
     crc_EventTime = Second, crc_Metadata = fmempty\<rparr>"

text \<open>A server that made a meter and recorded usage for it.\<close>

definition metered_world :: world where
  "metered_world = snd (Meter_Create (workspace_ctx ''w'') requests_command ((idle_world empty_db)\<lparr>w_now := Second\<rparr>))"

definition busy_world :: world where
  "busy_world = snd (create (dp_limits small_deployment) (workspace_ctx ''w'') [] one_unit metered_world)"

lemma metered_reachable: "reachable small_deployment metered_world"
proof -
  have "reachable small_deployment ((idle_world empty_db)\<lparr>w_now := Second\<rparr>)"
    by (rule reachable.start) (simp_all add: idle_world_def)
  then show ?thesis unfolding metered_world_def by (rule reachable.step) (rule step.create_meter)
qed

lemma busy_reachable: "reachable small_deployment busy_world"
  unfolding busy_world_def by (rule reachable.step [OF metered_reachable]) (rule step.usage)


text \<open>Claim C11. Recorded usage is neither changed nor lost: every operation but the retention pruning of
  meters, which is not a step here, leaves the rows of the usage ledger as they are and at most appends
  new ones, and so does every sequence of operations.\<close>

theorem recorded_usage_is_kept:
  assumes "configured s" "step s w v"
  shows "\<exists>new. db_events (w_db v) = db_events (w_db w) @ new"
proof -
  have "on_db (extends (db_events (w_db w))) w" by (simp add: on_db_def extends_def)
  from recorded.step_frame [OF assms this recorded_meter.keeps_meters recorded_auth.auth_step_frame recorded_desk.desk_step_frame] show ?thesis by (simp add: on_db_def extends_def)
qed

theorem recorded_usage_is_kept_witness:
  "\<exists>new. db_events (w_db busy_world) = db_events (w_db metered_world) @ new"
  unfolding busy_world_def by (rule recorded_usage_is_kept [OF small_configured step.usage])

end
