(* ===== verification/Draining.thy ===== *)
theory Draining
  imports SystemSpec
begin

text \<open>
  The queues drain: a round of a worker that handles a row uses up one of the attempts its queue still
  has, so however long a worker runs, whatever the clock reads and whatever statements fail, only as many
  rounds find work as there are attempts left.
\<close>

section \<open>Attempts left\<close>

context leased_queue
begin

lemma budget_delete: "budget n (row_delete p rows) \<le> budget n rows"
  by (induction rows) (simp_all add: budget_def row_delete_def)

lemma budget_unchanged: "(\<And>r. attempts (f r) = attempts r) \<Longrightarrow> budget n (row_update p f rows) = budget n rows"
  by (induction rows) (simp_all add: budget_def row_update_def)

end

section \<open>Rounds\<close>

text \<open>The rounds, each with the clock and the failures it meets, that handled a row.\<close>

fun working_rounds :: "(world, bool) proc \<Rightarrow> (time list \<times> string option list) list \<Rightarrow> world \<Rightarrow> nat" where
  "working_rounds process [] w = 0"
| "working_rounds process ((clock, faults) # rounds) w =
    (case process (w\<lparr>w_clock := clock, w_faults := faults\<rparr>) of
       (r, u) \<Rightarrow> (if r = Inr True then 1 else 0) + working_rounds process rounds u)"

locale draining =
  fixes process :: "(world, bool) proc" and backlog :: "db \<Rightarrow> nat" and ok :: "db \<Rightarrow> bool"
  assumes keeps_ok: "keeps (on_db ok) process"
    and works: "on_db ok w \<Longrightarrow> process w = (Inr True, u) \<Longrightarrow> backlog (w_db u) < backlog (w_db w)"
    and rests: "on_db ok w \<Longrightarrow> process w = (r, u) \<Longrightarrow> backlog (w_db u) \<le> backlog (w_db w)"
begin

lemma working_rounds_le: "on_db ok w \<Longrightarrow> working_rounds process rounds w \<le> backlog (w_db w)"
proof (induction rounds arbitrary: w)
  case (Cons round rounds)
  obtain clock faults where round: "round = (clock, faults)" by (cases round)
  let ?w = "w\<lparr>w_clock := clock, w_faults := faults\<rparr>"
  obtain r u where run: "process ?w = (r, u)" by (cases "process ?w")
  have w: "on_db ok ?w" using Cons.prems by (simp add: on_db_def)
  then have "on_db ok u" using keepsD [OF keeps_ok w] run by simp
  then have "working_rounds process rounds u \<le> backlog (w_db u)" by (rule Cons.IH)
  then show ?case using works [OF w, of u] rests [OF w run] run round by (cases "r = Inr True") auto
qed simp

end

section \<open>Checks\<close>

lemma clock_reads: "clock_now w = (r, u) \<Longrightarrow> (\<exists>now. r = Inr now) \<and> w_db u = w_db w"
  by (auto simp: clock_now_def split: list.splits)

lemma fresh_reads: "fresh_id w = (r, u) \<Longrightarrow> (\<exists>i. r = Inr i) \<and> w_db u = w_db w"
  by (auto simp: fresh_id_def)

definition checks_left :: "int \<Rightarrow> db \<Rightarrow> nat" where
  "checks_left n d = check_queue.budget n (db_jobs d)"

lemma check_rest_keeps:
  "keeps (on_db (\<lambda>d. checks_left n d \<le> b)) (Evaluate ctx cmd)"
  "keeps (on_db (\<lambda>d. checks_left n d \<le> b)) (CompleteCheckJob ctx c)"
  "keeps (on_db (\<lambda>d. checks_left n d \<le> b)) (FailCheckJob ctx f)"
  "keeps (on_db (\<lambda>d. checks_left n d \<le> b)) (DeadLetterCheckJob ctx l)"
proof -
  show "keeps (on_db (\<lambda>d. checks_left n d \<le> b)) (Evaluate ctx cmd)"
    by (rule keeps_Evaluate) (simp_all add: checks_left_def)
  show "keeps (on_db (\<lambda>d. checks_left n d \<le> b)) (CompleteCheckJob ctx c)" "keeps (on_db (\<lambda>d. checks_left n d \<le> b)) (FailCheckJob ctx f)"
    "keeps (on_db (\<lambda>d. checks_left n d \<le> b)) (DeadLetterCheckJob ctx l)"
    unfolding CompleteCheckJob_def FailCheckJob_def DeadLetterCheckJob_def DeleteEntitlementCheckJob_def
      RequeueEntitlementCheckJob_def SaveCheckDeadLetter_def Let_def
    by (auto intro!: keeps_rules keeps_execrows keeps_exec_unique simp: checks_left_def check_queue.budget_unchanged
        intro: order_trans [OF check_queue.budget_delete])
qed

lemma check_handled_keeps:
  "keeps (on_db (\<lambda>d. checks_left n d \<le> b)) (let baseCtx = WithWorkspaceID ctx (cj_WorkspaceID job) in
     inspect (Evaluate baseCtx \<lparr>evc_Subject = cj_Subject job, evc_Meter = cj_MeterName job\<rparr>) (\<lambda>r. case r of
         Inr _ \<Rightarrow> ignore_not_found (CompleteCheckJob baseCtx \<lparr>cmc_Subject = cj_Subject job,
               cmc_Meter = cj_MeterName job, cmc_Attempts = cj_Attempts job\<rparr>) (\<lambda>e. e)
       | Inl e \<Rightarrow> check_failed worker baseCtx job e))"
  unfolding check_failed_def Let_def by (auto intro!: keeps_rules check_rest_keeps split: sum.splits)

lemma ClaimCheckJob_left:
  assumes "ClaimCheckJob ctx cmd w = (r, u)" "jobs_ok n (w_db w)" "clc_MaxAttempts cmd = n"
  shows "case r of Inr (Some j) \<Rightarrow> checks_left n (w_db u) < checks_left n (w_db w) | _ \<Rightarrow> w_db u = w_db w"
proof (cases r)
  case (Inl e)
  then show ?thesis
    using assms(1)
    by (auto simp: ClaimCheckJob_def ClaimEntitlementCheckJob_def attempt_eq_Inl dest!: stmt_err clock_reads split: if_splits)
next
  case (Inr c)
  then obtain now j where claim: "claim_job now (now + clc_LockTTL cmd) n (w_db w) = (j, w_db u)"
    and c: "c = map_option sqliteEntitlementCheckJob j"
    using assms(1,3) by (auto elim: ClaimCheckJob_ok)
  show ?thesis
  proof (cases j)
    case None
    then show ?thesis using claim c Inr by (auto simp: claim_job_def split: option.splits)
  next
    case (Some row)
    have "distinct_keys job_key (db_jobs (w_db w))" using assms(2) by (simp add: jobs_ok_def check_queue.bounded_def)
    then show ?thesis
      using claim c Inr Some check_queue.claim_budget [of now "now + clc_LockTTL cmd" "[]" n "db_jobs (w_db w)" row]
      by (auto simp: claim_job_eq checks_left_def dest!: sym [of "_\<lparr>db_jobs := _\<rparr>"] split: prod.splits)
  qed
qed

lemma Check_ProcessOnce_left:
  assumes "Check_ProcessOnce worker ctx w = (r, u)" "jobs_ok (ew_maxAttempts worker) (w_db w)"
  shows "checks_left (ew_maxAttempts worker) (w_db u) < checks_left (ew_maxAttempts worker) (w_db w) \<or>
    r \<noteq> Inr True \<and> w_db u = w_db w"
proof -
  let ?n = "ew_maxAttempts worker"
  obtain c v where claim: "ClaimCheckJob ctx \<lparr>clc_LockTTL = ew_lockTTL worker, clc_MaxAttempts = ?n\<rparr> w = (c, v)" by fastforce
  note left = ClaimCheckJob_left [OF this assms(2)]
  show ?thesis
  proof (cases "\<exists>job. c = Inr (Some job)")
    case True
    then obtain job where "c = Inr (Some job)" ..
    then have "checks_left ?n (w_db v) < checks_left ?n (w_db w)" using left by simp
    moreover have "on_db (\<lambda>d. checks_left ?n d \<le> checks_left ?n (w_db v)) u"
      using keepsD [OF check_handled_keeps [of ?n "checks_left ?n (w_db v)" ctx job worker], of v] assms(1) claim \<open>c = _\<close>
      by (simp add: Check_ProcessOnce_def attempt_apply on_db_def)
    ultimately show ?thesis by (simp add: on_db_def)
  next
    case False
    then show ?thesis using left assms(1) claim by (auto simp: Check_ProcessOnce_def attempt_apply split: sum.splits option.splits)
  qed
qed

interpretation checks_drain: draining "Check_ProcessOnce worker ctx" "checks_left (ew_maxAttempts worker)" "jobs_ok (ew_maxAttempts worker)"
  for worker ctx
proof unfold_locales
  show "keeps (on_db (jobs_ok (ew_maxAttempts worker))) (Check_ProcessOnce worker ctx)" for worker ctx
    by (rule keeps_jobs_ProcessOnce [OF refl])
next
  fix worker ctx w u assume "on_db (jobs_ok (ew_maxAttempts worker)) w" "Check_ProcessOnce worker ctx w = (Inr True, u)"
  then show "checks_left (ew_maxAttempts worker) (w_db u) < checks_left (ew_maxAttempts worker) (w_db w)"
    using Check_ProcessOnce_left by (fastforce simp: on_db_def)
next
  fix worker ctx w r u assume "on_db (jobs_ok (ew_maxAttempts worker)) w" "Check_ProcessOnce worker ctx w = (r, u)"
  then show "checks_left (ew_maxAttempts worker) (w_db u) \<le> checks_left (ew_maxAttempts worker) (w_db w)"
    using Check_ProcessOnce_left by (fastforce simp: on_db_def)
qed

section \<open>The outbox\<close>

definition messages_left :: "int \<Rightarrow> db \<Rightarrow> nat" where
  "messages_left n d = message_queue.budget n (db_outbox d)"

definition at_most_left :: "int \<Rightarrow> nat \<Rightarrow> db \<Rightarrow> bool" where
  "at_most_left n b d \<longleftrightarrow> messages_left n d \<le> b"

lemma at_most_left_tables: "db_outbox e = db_outbox d \<Longrightarrow> at_most_left n b d \<Longrightarrow> at_most_left n b e"
  by (simp add: at_most_left_def messages_left_def)

interpretation left_alert: alert_frame "at_most_left n b" for n b by unfold_locales (erule at_most_left_tables [rotated], simp)
interpretation left_check: queue_frame "at_most_left n b" for n b by unfold_locales (erule at_most_left_tables [rotated], simp)+

lemma message_rest_keeps:
  "keeps (on_db (at_most_left n b)) (CompleteOutbox c)" "keeps (on_db (at_most_left n b)) (FailOutbox f)"
  unfolding CompleteOutbox_def Repo_CompleteOutbox_def complete_message_def FailOutbox_def RetryOutbox_def retry_message_def
  by (auto intro!: keeps_rules keeps_execrows simp: at_most_left_def messages_left_def message_queue.budget_unchanged retried_message_def
      intro: order_trans [OF message_queue.budget_delete])

lemma message_handled_keeps:
  "keeps (on_db (at_most_left n b)) (let jobCtx = WithWorkspaceID ctx (om_WorkspaceID message) in
     inspect (dispatch_message enqueue_alerts jobCtx message) (\<lambda>r. case r of
         Inr _ \<Rightarrow> swallow_not_found (CompleteOutbox \<lparr>ocm_ID = om_ID message, ocm_ClaimToken = om_ClaimToken message\<rparr>)
       | Inl e \<Rightarrow> inspect (FailOutbox \<lparr>ofc_ID = om_ID message, ofc_ClaimToken = om_ClaimToken message,
             ofc_RetryAfter = retryDelay (oo_RetryAfter options) (om_Attempts message),
             ofc_MaxAttempts = oo_MaxAttempts options, ofc_Error = error_text e\<rparr>) (\<lambda>f. case f of
           Inl failErr \<Rightarrow> if errors_Is failErr ErrNotFound then return_ok True else return_err (JoinErr e failErr)
         | Inr _ \<Rightarrow> return_ok True)))"
  unfolding Let_def dispatch_message_def swallow_not_found_def enqueue_alerts_def
  by (auto intro!: keeps_rules message_rest_keeps left_alert.keeps_alert_rules left_check.keeps_enqueue_checks split: sum.splits)

lemma claim_fails: "Repo_ClaimOutbox now until token n w = (Inl e, u) \<Longrightarrow> e = ErrNotFound \<or> w_db u = w_db w"
  by (auto simp: Repo_ClaimOutbox_def attempt_eq_Inl split: option.splits dest!: stmt_err)

lemma ClaimOutbox_left:
  assumes "ClaimOutbox cmd w = (r, u)" "messages_ok n (w_db w)" "occ_MaxAttempts cmd = n"
  shows "case r of Inr (Some m) \<Rightarrow> messages_left n (w_db u) < messages_left n (w_db w) | _ \<Rightarrow> w_db u = w_db w"
proof (cases r)
  case (Inl e)
  show ?thesis
  proof (cases "occ_LockTTL cmd \<le> 0 \<or> occ_MaxAttempts cmd \<le> 0")
    case True
    then show ?thesis using assms(1) Inl by (auto simp: ClaimOutbox_def)
  next
    case False
    obtain q v where clock: "clock_now w = (q, v)" by fastforce
    then obtain now where q: "q = Inr now" and v: "w_db v = w_db w" using clock_reads by blast
    obtain p v' where fresh: "fresh_id v = (p, v')" by fastforce
    then obtain token where p: "p = Inr token" and v': "w_db v' = w_db w" using fresh_reads v by fastforce
    obtain x t where claim: "Repo_ClaimOutbox now (now + occ_LockTTL cmd) token (occ_MaxAttempts cmd) v' = (x, t)" by fastforce
    then have "x = Inl e" "\<not> errors_Is e ErrNotFound" "t = u"
      using assms(1) Inl False clock q fresh p
      by (auto simp: ClaimOutbox_def attempt_apply inspect_apply split: sum.splits if_splits)
    moreover have "errors_Is ErrNotFound ErrNotFound" by (simp add: ErrNotFound_def)
    ultimately have "w_db u = w_db v'" using claim_fails [of now "now + occ_LockTTL cmd" token "occ_MaxAttempts cmd" v' e u] claim by auto
    then show ?thesis using v' Inl by simp
  qed
next
  case (Inr c)
  then obtain now j where claim: "claim_message now (now + occ_LockTTL cmd) (id_text (w_next_id w)) n (w_db w) = (j, w_db u)"
    and c: "c = map_option outbox_message j"
    using assms(1,3) by (auto elim: ClaimOutbox_ok)
  show ?thesis
  proof (cases j)
    case None
    then show ?thesis using claim c Inr by (auto simp: claim_message_def split: option.splits)
  next
    case (Some row)
    have "distinct_keys ob_PublicID (db_outbox (w_db w))" using assms(2) by (simp add: messages_ok_def)
    then show ?thesis
      using claim c Inr Some message_queue.claim_budget [of now "now + occ_LockTTL cmd" "id_text (w_next_id w)" n "db_outbox (w_db w)" row]
      by (auto simp: claim_message_eq messages_left_def dest!: sym [of "_\<lparr>db_outbox := _\<rparr>"] split: prod.splits)
  qed
qed

lemma ProcessOnce_left:
  assumes "ProcessOnce enqueue_alerts options ctx w = (r, u)" "messages_ok (oo_MaxAttempts options) (w_db w)"
  shows "messages_left (oo_MaxAttempts options) (w_db u) < messages_left (oo_MaxAttempts options) (w_db w) \<or>
    r \<noteq> Inr True \<and> w_db u = w_db w"
proof -
  let ?n = "oo_MaxAttempts options"
  obtain c v where claim: "ClaimOutbox \<lparr>occ_LockTTL = oo_LockTTL options, occ_MaxAttempts = ?n\<rparr> w = (c, v)" by fastforce
  note left = ClaimOutbox_left [OF this assms(2)]
  show ?thesis
  proof (cases "\<exists>m. c = Inr (Some m)")
    case True
    then obtain m where m: "c = Inr (Some m)" ..
    then have "messages_left ?n (w_db v) < messages_left ?n (w_db w)" using left by simp
    moreover have "on_db (at_most_left ?n (messages_left ?n (w_db v))) u"
      using keepsD [OF message_handled_keeps [of ?n "messages_left ?n (w_db v)" ctx m options], of v] assms(1) claim m
      by (simp add: ProcessOnce_def attempt_apply on_db_def at_most_left_def)
    ultimately show ?thesis by (simp add: on_db_def at_most_left_def)
  next
    case False
    then show ?thesis using left assms(1) claim by (auto simp: ProcessOnce_def attempt_apply split: sum.splits option.splits)
  qed
qed

lemma keeps_messages_ProcessOnce:
  "keeps (on_db (messages_ok (oo_MaxAttempts options))) (ProcessOnce enqueue_alerts options ctx)"
  unfolding enqueue_alerts_def [abs_def]
  by (rule keeps_outbox_worker) (intro messages_alert.keeps_alert_rules messages_check.keeps_enqueue_checks keeps_messages_claim
      keeps_messages_complete keeps_messages_fail; assumption?)+

interpretation outbox_drain: draining "ProcessOnce enqueue_alerts options ctx" "messages_left (oo_MaxAttempts options)"
  "messages_ok (oo_MaxAttempts options)" for options ctx
proof unfold_locales
  show "keeps (on_db (messages_ok (oo_MaxAttempts options))) (ProcessOnce enqueue_alerts options ctx)" for options ctx
    by (rule keeps_messages_ProcessOnce)
next
  fix options ctx w u assume "on_db (messages_ok (oo_MaxAttempts options)) w" "ProcessOnce enqueue_alerts options ctx w = (Inr True, u)"
  then show "messages_left (oo_MaxAttempts options) (w_db u) < messages_left (oo_MaxAttempts options) (w_db w)"
    using ProcessOnce_left by (fastforce simp: on_db_def)
next
  fix options ctx w r u assume "on_db (messages_ok (oo_MaxAttempts options)) w" "ProcessOnce enqueue_alerts options ctx w = (r, u)"
  then show "messages_left (oo_MaxAttempts options) (w_db u) \<le> messages_left (oo_MaxAttempts options) (w_db w)"
    using ProcessOnce_left by (fastforce simp: on_db_def)
qed

section \<open>Properties\<close>

text \<open>Claim C9. The workers come to an end with what there is: from any state the server reaches, and without new usage,
  at most as many rounds of the check worker find a check as its jobs have attempts left, and at most as many
  rounds of the outbox worker find a message as its messages have, whatever fails and whatever the clock reads.
  So no failing check or message keeps a worker busy for ever.\<close>

theorem queues_drain:
  assumes "configured s" "reachable s w"
  shows "working_rounds (Check_ProcessOnce (dp_checks s) ctx) rounds w \<le>
      (\<Sum>j \<leftarrow> db_jobs (w_db w). nat (ew_maxAttempts (dp_checks s) - jr_Attempts j)) \<and>
    working_rounds (ProcessOnce enqueue_alerts (dp_outbox s) ctx) rounds w \<le>
      (\<Sum>m \<leftarrow> db_outbox (w_db w). nat (oo_MaxAttempts (dp_outbox s) - ob_Attempts m))"
proof -
  have "system_ok s w" using assms(2) by (induction rule: reachable.induct) (auto intro: system_start system_step [OF assms(1)])
  then show ?thesis
    using checks_drain.working_rounds_le [of "dp_checks s" w ctx rounds] outbox_drain.working_rounds_le [of "dp_outbox s" w ctx rounds]
    by (simp add: system_ok_def checks_left_def check_queue.budget_def messages_left_def message_queue.budget_def)
qed

theorem queues_drain_witness:
  "working_rounds (ProcessOnce enqueue_alerts (dp_outbox small_deployment) (workspace_ctx ''w'')) [([], []), ([], [None, Some ''disk full''])]
    busy_world \<le> (\<Sum>m \<leftarrow> db_outbox (w_db busy_world). nat (5 - ob_Attempts m))"
  using queues_drain [OF small_configured busy_reachable, of "workspace_ctx ''w''" "[([], []), ([], [None, Some ''disk full''])]"]
  by (simp add: small_deployment_def)

end
