(* ===== verification/Retention.thy ===== *)
theory Retention
  imports Outbox
begin

text \<open>
  Retention: the service's \<^verbatim>\<open>PruneEvents\<close> (\<^verbatim>\<open>src/internal/metering/app/usage/prune.go\<close>), which aggregates
  the events older than the retention of their meter into hourly rollups and deletes them
  (\<^verbatim>\<open>src/internal/metering/adapters/sqlite/usage_rollups.go\<close>, \<^verbatim>\<open>usage_repository.go\<close>).  The sum that SQLite
  computes of the quantities of a group is a parameter, \<^verbatim>\<open>sql_sum\<close>: its rounding is the database's.  The
  SQLite repository has no \<^verbatim>\<open>TryPruneLock\<close>.
\<close>

section \<open>Rollups\<close>

text \<open>\<^verbatim>\<open>strftime('%Y-%m-%dT%H:00:00Z', t)\<close> reads a time to the millisecond.\<close>

definition hour_bucket :: "time \<Rightarrow> time" where
  "hour_bucket t = time_Truncate (julian_ms t * Millisecond) Hour"

definition event_rank :: "Event \<Rightarrow> int \<times> string" where
  "event_rank e = (julian_ms (ev_eventTime e), ev_id e)"

text \<open>What the rows of a group have in common, and the unique key of the rollups.\<close>

type_synonym rollup_group = "string \<times> string \<times> string \<times> time \<times> metadata"

definition event_group :: "string \<Rightarrow> Event \<Rightarrow> rollup_group" where
  "event_group ws e = (ws, ev_meterName e, ev_subject e, hour_bucket (ev_eventTime e), ev_metadata e)"

definition rollup_group :: "Rollup \<Rightarrow> rollup_group" where
  "rollup_group r = (ru_WorkspaceID r, ru_MeterName r, ru_Subject r, ru_BucketStart r, ru_Metadata r)"

text \<open>The row that a group of events yields.\<close>

definition fragment :: "(f64 list \<Rightarrow> f64) \<Rightarrow> time \<Rightarrow> string \<Rightarrow> Event list \<Rightarrow> Rollup" where
  "fragment sql_sum now ws es =
    (let first = hd (sort_key event_rank es); latest = last (sort_key event_rank es); quantities = map ev_quantity es in
     \<lparr>ru_WorkspaceID = ws, ru_MeterName = ev_meterName first, ru_Subject = ev_subject first,
      ru_BucketStart = hour_bucket (ev_eventTime first), ru_Metadata = ev_metadata first,
      ru_EventCount = int (length es), ru_QuantitySum = sql_sum quantities,
      ru_QuantityMin = foldl sql_min (hd quantities) (tl quantities),
      ru_QuantityMax = foldl sql_max (hd quantities) (tl quantities),
      ru_FirstQuantity = ev_quantity first, ru_FirstEventTime = ev_eventTime first, ru_FirstEventID = ev_id first,
      ru_LastQuantity = ev_quantity latest, ru_LastEventTime = ev_eventTime latest, ru_LastEventID = ev_id latest,
      ru_RolledUpAt = now\<rparr>)"

definition fragments :: "(f64 list \<Rightarrow> f64) \<Rightarrow> time \<Rightarrow> string \<Rightarrow> Event list \<Rightarrow> Rollup list" where
  "fragments sql_sum now ws es =
    map (\<lambda>g. fragment sql_sum now ws (filter (\<lambda>e. event_group ws e = g) es)) (remdups (map (event_group ws) es))"

text \<open>The update on conflict; its right-hand sides read the stored row.\<close>

definition earlier_first :: "Rollup \<Rightarrow> Rollup \<Rightarrow> bool" where
  "earlier_first new old \<longleftrightarrow> julian_ms (ru_FirstEventTime new) < julian_ms (ru_FirstEventTime old) \<or>
     julian_ms (ru_FirstEventTime new) = julian_ms (ru_FirstEventTime old) \<and> ru_FirstEventID new < ru_FirstEventID old"

definition later_last :: "Rollup \<Rightarrow> Rollup \<Rightarrow> bool" where
  "later_last new old \<longleftrightarrow> julian_ms (ru_LastEventTime old) < julian_ms (ru_LastEventTime new) \<or>
     julian_ms (ru_LastEventTime new) = julian_ms (ru_LastEventTime old) \<and> ru_LastEventID old < ru_LastEventID new"

definition merged_rollup :: "Rollup \<Rightarrow> Rollup \<Rightarrow> Rollup" where
  "merged_rollup new old = old\<lparr>
     ru_EventCount := ru_EventCount old + ru_EventCount new,
     ru_QuantitySum := ru_QuantitySum old + ru_QuantitySum new,
     ru_QuantityMin := sql_min (ru_QuantityMin old) (ru_QuantityMin new),
     ru_QuantityMax := sql_max (ru_QuantityMax old) (ru_QuantityMax new),
     ru_FirstQuantity := (if earlier_first new old then ru_FirstQuantity new else ru_FirstQuantity old),
     ru_FirstEventTime := (if julian_ms (ru_FirstEventTime new) < julian_ms (ru_FirstEventTime old)
       then ru_FirstEventTime new else ru_FirstEventTime old),
     ru_FirstEventID := (if earlier_first new old then ru_FirstEventID new else ru_FirstEventID old),
     ru_LastQuantity := (if later_last new old then ru_LastQuantity new else ru_LastQuantity old),
     ru_LastEventTime := (if julian_ms (ru_LastEventTime old) < julian_ms (ru_LastEventTime new)
       then ru_LastEventTime new else ru_LastEventTime old),
     ru_LastEventID := (if later_last new old then ru_LastEventID new else ru_LastEventID old),
     ru_RolledUpAt := ru_RolledUpAt new\<rparr>"

definition merge_rollups :: "Rollup list \<Rightarrow> Rollup list \<Rightarrow> Rollup list" where
  "merge_rollups new rows = foldl (\<lambda>rs r. row_upsert rollup_group (merged_rollup r) r rs) rows new"

section \<open>Repository\<close>

definition prunable :: "string \<Rightarrow> PruneQuery \<Rightarrow> string \<times> Event \<Rightarrow> bool" where
  "prunable ws q row \<longleftrightarrow> fst row = ws \<and> ev_meterName (snd row) = pq_meterName q \<and> time_text_less (ev_eventTime (snd row)) (pq_before q)"

definition prunable_events :: "string \<Rightarrow> PruneQuery \<Rightarrow> db \<Rightarrow> Event list" where
  "prunable_events ws q d = map snd (filter (prunable ws q) (db_events d))"

definition null_sum :: go_error where
  "null_sum = DriverErr ''NOT NULL constraint failed: usage_hourly_rollups.quantity_sum''"

definition insert_rollups :: "(f64 list \<Rightarrow> f64) \<Rightarrow> time \<Rightarrow> string \<Rightarrow> PruneQuery \<Rightarrow> (world, int) proc" where
  "insert_rollups sql_sum now ws q = stmt (\<lambda>d.
    let new = fragments sql_sum now ws (prunable_events ws q d); rows = merge_rollups new (db_rollups d) in
    if list_ex (\<lambda>r. ru_QuantitySum r = NaN) rows then (Inl null_sum, d)
    else (Inr (int (length new)), d\<lparr>db_rollups := rows\<rparr>))"

definition run_key :: "RollupRun \<Rightarrow> string \<times> string \<times> time" where
  "run_key r = (rr_WorkspaceID r, rr_MeterName r, rr_FinalizedThrough r)"

definition saveRollupRun :: "string \<Rightarrow> PruneQuery \<Rightarrow> int \<Rightarrow> int \<Rightarrow> (world, unit) proc" where
  "saveRollupRun ws q sourceEvents rollupRows = attempt clock_now (\<lambda>now.
    exec (\<lambda>d. d\<lparr>db_rollup_runs := row_upsert run_key id
      \<lparr>rr_WorkspaceID = ws, rr_MeterName = pq_meterName q, rr_FinalizedThrough = pq_before q, rr_SourceEvents = sourceEvents,
       rr_RollupRows = rollupRows, rr_CreatedAt = now\<rparr> (db_rollup_runs d)\<rparr>))"

definition rollUpPrunableEvents :: "(f64 list \<Rightarrow> f64) \<Rightarrow> string \<Rightarrow> PruneQuery \<Rightarrow> (world, int) proc" where
  "rollUpPrunableEvents sql_sum ws q =
    attempt (query (\<lambda>d. int (length (prunable_events ws q d)))) (\<lambda>sourceCount.
    if sourceCount = 0 then attempt (saveRollupRun ws q 0 0) (\<lambda>_. return_ok 0)
    else attempt clock_now (\<lambda>now.
      attempt (insert_rollups sql_sum now ws q) (\<lambda>rollupRows.
      attempt (saveRollupRun ws q sourceCount rollupRows) (\<lambda>_. return_ok sourceCount))))"

definition Repo_PruneEvents :: "(f64 list \<Rightarrow> f64) \<Rightarrow> ctx \<Rightarrow> PruneQuery \<Rightarrow> (world, int) proc" where
  "Repo_PruneEvents sql_sum ctx q = with_workspace ctx (\<lambda>ws.
    attempt (rollUpPrunableEvents sql_sum ws q) (\<lambda>sourceCount.
    attempt (execrows (\<lambda>d. length (filter (prunable ws q) (db_events d)))
      (\<lambda>d. d\<lparr>db_events := row_delete (prunable ws q) (db_events d)\<rparr>)) (\<lambda>deleted.
    if int deleted \<noteq> sourceCount
    then return_err (NewError ''usage rollup verification failed: materialized %d events but deleted %d'' [IArg sourceCount, IArg (int deleted)])
    else attempt (if 0 < deleted then IncrementWorkspaceUsageEvents ws (- int deleted) else return_ok ()) (\<lambda>_.
      return_ok (int deleted)))))"

definition CountPrunableEvents :: "ctx \<Rightarrow> PruneQuery \<Rightarrow> (world, int) proc" where
  "CountPrunableEvents ctx q = with_workspace ctx (\<lambda>ws. query (\<lambda>d. int (length (prunable_events ws q d))))"

definition IncrementWorkspacePruneRuns :: "string \<Rightarrow> (world, unit) proc" where
  "IncrementWorkspacePruneRuns ws = exec (\<lambda>d. d\<lparr>db_prune_counts :=
    row_upsert fst (\<lambda>(w, n). (w, max 0 (n + 1))) (ws, 1) (db_prune_counts d)\<rparr>)"

definition SavePruneRun :: "ctx \<Rightarrow> PruneRun \<Rightarrow> (world, PruneRun) proc" where
  "SavePruneRun ctx run = with_workspace ctx (\<lambda>ws.
    attempt (exec_unique (\<lambda>d. distinct_keys (\<lambda>(_, r). pr_id r) (db_prune_runs d))
      (\<lambda>d. d\<lparr>db_prune_runs := db_prune_runs d @ [(ws, run)]\<rparr>)) (\<lambda>_.
    attempt (IncrementWorkspacePruneRuns ws) (\<lambda>_. return_ok run)))"

section \<open>Service\<close>

text \<open>The complete hours before the retention of the meter.\<close>

definition prune_cutoff :: "time \<Rightarrow> Meter \<Rightarrow> time" where
  "prune_cutoff now m = time_Truncate (AddDate now 0 0 (- mtr_eventRetentionDays m)) Hour"

definition prunableEventCount :: "(f64 list \<Rightarrow> f64) \<Rightarrow> ctx \<Rightarrow> bool \<Rightarrow> PruneQuery \<Rightarrow> (world, int) proc" where
  "prunableEventCount sql_sum ctx dryRun q = (if dryRun then CountPrunableEvents ctx q else Repo_PruneEvents sql_sum ctx q)"

text \<open>The result is made of the run.\<close>

definition PruneEvents :: "(f64 list \<Rightarrow> f64) \<Rightarrow> ctx \<Rightarrow> bool \<Rightarrow> (world, PruneRun) proc" where
  "PruneEvents sql_sum ctx dryRun =
    attempt (Meters_Find ctx (meter_named [] 500)) (\<lambda>meters.
    attempt clock_now (\<lambda>now.
    attempt (lift_res (map_res (\<lambda>m. NewPruneQuery (mtr_name m) (prune_cutoff now m)) meters)) (\<lambda>queries.
    in_transaction (
      attempt (foreach queries (0, []) (\<lambda>q (total, runMeters).
        attempt (prunableEventCount sql_sum ctx dryRun q) (\<lambda>deleted.
        attempt (lift_res (NewPruneRunMeter (pq_meterName q) (pq_before q) deleted)) (\<lambda>runMeter.
        return_ok (total + deleted, runMeters @ [runMeter]))))) (\<lambda>(total, runMeters).
      attempt fresh_id (\<lambda>rid.
      attempt (lift_res (NewPruneRun rid dryRun total runMeters now)) (SavePruneRun ctx)))))))"

end
