(* ===== verification/TimeText.thy ===== *)
theory TimeText
  imports GoTime
begin

text \<open>
  The texts of times that the store compares (\<^verbatim>\<open>formatTime\<close>,
  \<^verbatim>\<open>src/internal/metering/adapters/sqlite/sqlite.go\<close>): for years of at most four digits their order is
  the order of the times, to the second.
\<close>

section \<open>Dates in order\<close>

lemma year_yday_range:
  assumes "year_yday n = (y, yd)"
  shows "0 \<le> yd" "yd < (if is_leap y then 366 else 365)"
proof -
  define a where "a = n div 146097"
  define r where "r = n mod 146097"
  define c where "c = min 3 (r div 36524)"
  define r1 where "r1 = r - c * 36524"
  define q where "q = r1 div 1461"
  define r2 where "r2 = r1 - q * 1461"
  define b where "b = min 3 (r2 div 365)"
  have r: "0 \<le> r" "r < 146097" by (auto simp: r_def)
  have c: "0 \<le> c" "c \<le> 3" "0 \<le> r1" "r1 \<le> 36523 \<or> c = 3 \<and> r1 = 36524" using r by (auto simp: c_def r1_def min_def)
  have q: "0 \<le> q" "q \<le> 24" "0 \<le> r2" "r2 \<le> 1460" using c by (auto simp: q_def r2_def)
  have last: "c = 3" if "q = 24" "r2 = 1460" using that c by (auto simp: r2_def)
  have b: "0 \<le> b" "b \<le> 3" "0 \<le> r2 - b * 365" "r2 - b * 365 \<le> 365" "r2 - b * 365 = 365 \<Longrightarrow> b = 3 \<and> r2 = 1460"
  proof -
    have "r2 - r2 div 365 * 365 < 365" by (simp add: minus_div_mult_eq_mod)
    then show "0 \<le> b" "b \<le> 3" "0 \<le> r2 - b * 365" "r2 - b * 365 \<le> 365" "r2 - b * 365 = 365 \<Longrightarrow> b = 3 \<and> r2 = 1460"
      using q by (auto simp: b_def min_def split: if_splits)
  qed
  have y: "y = 400 * a + 100 * c + 4 * q + b + 1" and yd: "yd = r2 - b * 365"
    using assms unfolding year_yday_def Let_def a_def [symmetric] r_def [symmetric] c_def [symmetric]
      r1_def [symmetric] q_def [symmetric] r2_def [symmetric] b_def [symmetric] by simp_all
  show "0 \<le> yd" using b yd by simp
  have "is_leap y" if "yd = 365"
  proof -
    have b3: "b = 3" "r2 = 1460" using that b yd by auto
    have shape: "y = 4 * (100 * a + 25 * c + q + 1)" using y b3 by simp
    show ?thesis
    proof (cases "q = 24")
      case True
      then have "y = 400 * (a + 1)" using shape last b3 by simp
      then show ?thesis by (simp add: is_leap_def)
    next
      case False
      have "y = 4 * (q + 1) + (4 * a + c) * 100" using shape by simp
      then have "y mod 100 = 4 * (q + 1) mod 100" by (simp only: mod_mult_self1)
      moreover have "0 < 4 * (q + 1)" "4 * (q + 1) < 100" using False q by auto
      ultimately have "y mod 100 \<noteq> 0" by (simp only: mod_pos_pos_trivial less_imp_le)
      then have "\<not> 100 dvd y" by (simp only: dvd_eq_mod_eq_0 not_False_eq_True)
      moreover have "4 dvd y" unfolding shape by (rule dvd_triv_left)
      ultimately show ?thesis by (simp add: is_leap_def)
    qed
  qed
  then show "yd < (if is_leap y then 366 else 365)" using b yd by (cases "yd = 365") auto
qed

lemma days_before_year_mono: "y \<le> z \<Longrightarrow> days_before_year y \<le> days_before_year z"
proof (induction z rule: int_ge_induct)
  case (step i)
  then show ?case using days_before_year_Suc [of i] by (auto split: if_splits)
qed simp

lemma month_of_yday_bounds:
  assumes "0 \<le> n" "n < (if l then 366 else 365)"
  shows "days_before_month l (month_of_yday l n) \<le> n" "n < days_before_month l (month_of_yday l n + 1)"
  using assms by (auto simp: month_of_yday_def split: if_splits)

lemma month_of_yday_mono: "m \<le> n \<Longrightarrow> month_of_yday l m \<le> month_of_yday l n"
  by (simp add: month_of_yday_def)

text \<open>A later day has a later date.\<close>

lemma date_order:
  assumes "n1 < n2" "date_of_days n1 = (y1, m1, d1)" "date_of_days n2 = (y2, m2, d2)"
  shows "y1 < y2 \<or> y1 = y2 \<and> (m1 < m2 \<or> m1 = m2 \<and> d1 < d2)"
proof -
  obtain yd1 yd2 where yd: "year_yday n1 = (y1, yd1)" "year_yday n2 = (y2, yd2)"
    using assms(2,3) by (cases "year_yday n1"; cases "year_yday n2") (auto simp: date_of_days_def Let_def)
  note days = year_yday_days [OF yd(1)] year_yday_days [OF yd(2)]
  note range = year_yday_range [OF yd(1)] year_yday_range [OF yd(2)]
  show ?thesis
  proof (cases "y1 = y2")
    case True
    then have "yd1 < yd2" using assms(1) days by simp
    moreover from this have "month_of_yday (is_leap y1) yd1 \<le> month_of_yday (is_leap y1) yd2" by (intro month_of_yday_mono) simp
    ultimately show ?thesis using assms(2,3) yd True by (auto simp: date_of_days_def Let_def)
  next
    case False
    have "\<not> y2 < y1"
    proof
      assume "y2 < y1"
      then have "days_before_year (y2 + 1) \<le> days_before_year y1" by (intro days_before_year_mono) simp
      then show False using assms(1) days range days_before_year_Suc [of y2] by (auto split: if_splits)
    qed
    then show ?thesis using False by simp
  qed
qed

lemma day_of_month_range: "date_of_days n = (y, m, d) \<Longrightarrow> 1 \<le> d \<and> d \<le> 31"
proof -
  assume date: "date_of_days n = (y, m, d)"
  obtain yd where yd: "year_yday n = (y, yd)" "m = month_of_yday (is_leap y) yd" "d = yd - days_before_month (is_leap y) m + 1"
    using date by (cases "year_yday n") (auto simp: date_of_days_def Let_def)
  note range = month_of_yday_bounds [OF year_yday_range [OF yd(1)]]
  have "1 \<le> m" "m \<le> 12" using date_month_range [OF date] by auto
  then have "days_before_month l (m + 1) - days_before_month l m \<le> 31" for l by (cases rule: month_cases) auto
  from this [of "is_leap y"] show ?thesis using range yd(2,3) by auto
qed

section \<open>Fixed-width fields in order\<close>

lemma digits_length [simp]: "length (digits w n) = w"
  by (induction w arbitrary: n) simp_all

lemma quotient_order:
  fixes m n k :: nat
  assumes "m < n"
  shows "m div k < n div k \<or> m div k = n div k \<and> m mod k < n mod k"
proof (cases "m div k = n div k")
  case True
  then show ?thesis using assms div_mult_mod_eq [of m k] div_mult_mod_eq [of n k] by (metis nat_add_left_cancel_less)
next
  case False
  then show ?thesis using assms div_le_mono [of m n k] by simp
qed

lemma digit_less: "a < 10 \<Longrightarrow> b < 10 \<Longrightarrow> (char_of (48 + a) :: char) < char_of (48 + b) \<longleftrightarrow> a < (b :: nat)"
  by (simp add: less_char_def)

lemma same_length_less: "length a = length b \<Longrightarrow> a @ x < b @ y \<longleftrightarrow> a < b \<or> a = b \<and> x < (y :: string)"
  by (induction a b rule: list_induct2) auto

lemma digits_less: "m < 10 ^ w \<Longrightarrow> n < 10 ^ w \<Longrightarrow> digits w m < digits w n \<longleftrightarrow> m < n"
proof (induction w arbitrary: m n)
  case (Suc w)
  have parts: "m div 10 < 10 ^ w" "n div 10 < 10 ^ w" using Suc.prems by auto
  have eq: "digits w (m div 10) = digits w (n div 10) \<longleftrightarrow> m div 10 = n div 10"
    using Suc.IH [OF parts] Suc.IH [OF parts(2,1)] by (metis less_irrefl linorder_neqE_nat)
  have "m < n \<longleftrightarrow> m div 10 < n div 10 \<or> m div 10 = n div 10 \<and> m mod 10 < n mod 10"
    using quotient_order [of m n 10] quotient_order [of n m 10] by (cases m n rule: linorder_cases) auto
  then show ?case using Suc.IH [OF parts] by (simp add: same_length_less eq digit_less)
qed simp

lemma field_less:
  assumes "m < 10 ^ w" "n < 10 ^ w" "m < n \<or> m = n \<and> x < y"
  shows "digits w m @ x < digits w n @ y"
  using assms digits_less [OF assms(1,2)] by (auto simp: same_length_less)

section \<open>Times in order\<close>

lemma clock_order:
  fixes s1 s2 :: nat
  assumes "s1 < s2"
  shows "s1 div 3600 < s2 div 3600 \<or> s1 div 3600 = s2 div 3600 \<and>
    (s1 div 60 mod 60 < s2 div 60 mod 60 \<or> s1 div 60 mod 60 = s2 div 60 mod 60 \<and> s1 mod 60 < s2 mod 60)"
proof -
  have hours: "s div 60 div 60 = s div 3600" for s :: nat by (simp add: div_mult2_eq [symmetric])
  have same: "s1 div 60 = s2 div 60 \<Longrightarrow> s1 div 3600 = s2 div 3600" using hours [of s1] hours [of s2] by simp
  show ?thesis using quotient_order [OF assms, of 60] quotient_order [of "s1 div 60" "s2 div 60" 60] same unfolding hours by auto
qed

lemma text_later:
  assumes "json_time_ok t" "json_time_ok u" "t div Second < u div Second"
  shows "time_text_less t u"
proof -
  obtain y1 m1 d1 y2 m2 d2 where date: "date_of_days (day_number t) = (y1, m1, d1)" "date_of_days (day_number u) = (y2, m2, d2)"
    by (cases "date_of_days (day_number t)"; cases "date_of_days (day_number u)") auto
  have years: "nat y1 < 10 ^ 4" "nat y2 < 10 ^ 4" "y1 < 10000" "y2 < 10000" "0 \<le> y1" "0 \<le> y2"
    using assms(1,2) date by (auto simp: json_time_ok_def nat_less_iff)
  have months: "1 \<le> m1" "m1 \<le> 12" "1 \<le> m2" "m2 \<le> 12" using date_month_range [OF date(1)] date_month_range [OF date(2)] by auto
  have days: "1 \<le> d1" "d1 \<le> 31" "1 \<le> d2" "d2 \<le> 31" using day_of_month_range [OF date(1)] day_of_month_range [OF date(2)] by auto
  define s1 s2 where "s1 = nat (time_of_day t div Second)" and "s2 = nat (time_of_day u div Second)"
  have s: "s1 = nat (t div Second mod 86400)" "s2 = nat (u div Second mod 86400)" "s1 < 86400" "s2 < 86400"
    by (simp_all add: s1_def s2_def in_seconds nat_less_iff)
  have later: "day_number t < day_number u \<or> day_number t = day_number u \<and> s1 < s2"
    unfolding in_seconds(1) s(1,2) using assms(3) by (smt (verit) div_mult_mod_eq nat_mono_iff pos_mod_sign zdiv_mono1)
  let ?clock = "\<lambda>s f. digits 2 (s div 3600) @ '':'' @ digits 2 (s div 60 mod 60) @ '':'' @ digits 2 (s mod 60) @ f"
  have clock: "?clock s1 f < ?clock s2 g" if "s1 < s2" for f g
  proof -
    have small: "x mod 60 < 10 ^ 2" for x :: nat by (rule order_less_trans [of _ 60]) simp_all
    show ?thesis using clock_order [OF that] s(3,4) by (intro field_less) (auto intro!: field_less small simp: append_less_same)
  qed
  have "pad4 y1 @ ''-'' @ digits 2 (nat m1) @ ''-'' @ digits 2 (nat d1) @ ''T'' @ ?clock s1 f
      < pad4 y2 @ ''-'' @ digits 2 (nat m2) @ ''-'' @ digits 2 (nat d2) @ ''T'' @ ?clock s2 g" for f g
  proof (cases "day_number t < day_number u")
    case True
    from date_order [OF True date] show ?thesis
      using years months days unfolding pad4_def if_P [OF years(3)] if_P [OF years(4)]
      by (intro field_less) (auto intro!: field_less simp: append_less_same)
  next
    case False
    then have "y1 = y2" "m1 = m2" "d1 = d2" "s1 < s2" using later date by simp_all
    then show ?thesis using clock by (simp add: append_less_same del: append_assoc add: append_assoc)
  qed
  then show ?thesis
    unfolding time_text_less_def format_rfc3339nano_def date Let_def case_prod_conv s1_def [symmetric] s2_def [symmetric] by simp
qed

lemma text_less_second:
  assumes "json_time_ok t" "json_time_ok u" "time_text_less t u"
  shows "t div Second \<le> u div Second"
proof (rule ccontr)
  assume "\<not> ?thesis"
  then have "time_text_less u t" using text_later [OF assms(2,1)] by simp
  then show False using assms(3) by (simp add: time_text_less_def)
qed

end
