(* ===== verification/RetentionSpec.thy ===== *)
theory RetentionSpec
  imports Retention UsageLedger TimeText
begin

text \<open>
  What retention keeps: the events of an hour and a set of dimensions and the rollup of them carry the
  same count, least and greatest quantity, first and last event, and sum (of whole numbers), however the
  usage is split between the two.  Each of these is a measure in a commutative monoid.
\<close>

section \<open>Measures\<close>

definition total :: "('m \<Rightarrow> 'm \<Rightarrow> 'm) \<Rightarrow> 'm \<Rightarrow> 'm list \<Rightarrow> 'm" where
  "total join z xs = foldr join xs z"

text \<open>The measure of all the usage of a group that the store has, raw or rolled up.\<close>

definition retained :: "('m \<Rightarrow> 'm \<Rightarrow> 'm) \<Rightarrow> 'm \<Rightarrow> (Event \<Rightarrow> 'm) \<Rightarrow> (Rollup \<Rightarrow> 'm) \<Rightarrow> rollup_group \<Rightarrow> db \<Rightarrow> 'm" where
  "retained join z event rollup g d =
    join (total join z (map (event \<circ> snd) (filter (\<lambda>row. event_group (fst row) (snd row) = g) (db_events d))))
      (total join z (map rollup (filter (\<lambda>r. rollup_group r = g) (db_rollups d))))"

definition rollups_unique :: "db \<Rightarrow> bool" where
  "rollups_unique d \<longleftrightarrow> distinct_keys rollup_group (db_rollups d)"

lemma merged_group [simp]: "rollup_group (merged_rollup r q) = rollup_group q"
  by (simp add: rollup_group_def merged_rollup_def)

lemma rollups_unique_merge: "distinct_keys rollup_group rows \<Longrightarrow> distinct_keys rollup_group (merge_rollups new rows)"
  unfolding merge_rollups_def by (induction new arbitrary: rows) (simp_all add: distinct_keys_upsert)

lemma sort_key_ends:
  assumes "es \<noteq> []"
  shows "hd (sort_key key es) \<in> set es" "last (sort_key key es) \<in> set es"
    "e \<in> set es \<Longrightarrow> key (hd (sort_key key es)) \<le> key e" "e \<in> set es \<Longrightarrow> key e \<le> key (last (sort_key key es))"
proof -
  have ne: "sort_key key es \<noteq> []" using assms by (metis length_sort list.size(3) length_0_conv)
  show "hd (sort_key key es) \<in> set es" "last (sort_key key es) \<in> set es"
    using hd_in_set [OF ne] last_in_set [OF ne] by simp_all
  have sorted: "sorted (map key (sort_key key es))" by simp
  show "key (hd (sort_key key es)) \<le> key e" if "e \<in> set es"
    using that ne sorted by (cases "sort_key key es") (auto simp flip: set_sort [of key es])
  show "key e \<le> key (last (sort_key key es))" if "e \<in> set es"
  proof -
    have "sort_key key es = butlast (sort_key key es) @ [last (sort_key key es)]" using ne by simp
    then have "sorted (map key (butlast (sort_key key es)) @ [key (last (sort_key key es))])" using sorted by (metis list.map(1,2) map_append)
    moreover have "e \<in> set (butlast (sort_key key es) @ [last (sort_key key es)])" using that ne by simp
    ultimately show ?thesis by (auto simp: sorted_append)
  qed
qed

lemma fragment_group:
  assumes "es \<noteq> []" "\<And>e. e \<in> set es \<Longrightarrow> event_group ws e = g"
  shows "rollup_group (fragment s now ws es) = g"
  using assms(2) [OF sort_key_ends(1) [OF assms(1), of event_rank]]
  by (simp add: fragment_def rollup_group_def event_group_def Let_def)

locale rollup_measure =
  fixes join :: "'m \<Rightarrow> 'm \<Rightarrow> 'm" and z :: 'm and good :: "'m \<Rightarrow> bool" and event :: "Event \<Rightarrow> 'm" and rollup :: "Rollup \<Rightarrow> 'm"
    and summing :: "(f64 list \<Rightarrow> f64) \<Rightarrow> bool"
  assumes assoc: "join (join a b) c = join a (join b c)"
    and commute: "join a b = join b a"
    and unit: "join z a = a"
    and good_join: "good (join a b) \<Longrightarrow> good a"
    and fragment_measure: "summing s \<Longrightarrow> es \<noteq> [] \<Longrightarrow> good (total join z (map event es)) \<Longrightarrow>
      rollup (fragment s now ws es) = total join z (map event es)"
    and merge_measure: "good (join (rollup old) (rollup new)) \<Longrightarrow> rollup (merged_rollup new old) = join (rollup old) (rollup new)"
begin

lemma left_commute: "join a (join b c) = join b (join a c)"
  by (metis assoc commute)

lemmas ac = assoc commute left_commute

lemma unit_right [simp]: "join a z = a"
  using unit commute by metis

lemma total_simps [simp]: "total join z [] = z" "total join z (x # xs) = join x (total join z xs)"
  by (simp_all add: total_def)

lemma total_append: "total join z (xs @ ys) = join (total join z xs) (total join z ys)"
  by (induction xs) (simp_all add: unit assoc)

lemma total_split:
  "total join z (map f (filter q xs)) = join (total join z (map f (filter (\<lambda>x. q x \<and> p x) xs))) (total join z (map f (filter (\<lambda>x. q x \<and> \<not> p x) xs)))"
  by (induction xs) (simp_all add: unit ac)

abbreviation measured :: "rollup_group \<Rightarrow> Rollup list \<Rightarrow> 'm" where
  "measured g rows \<equiv> total join z (map rollup (filter (\<lambda>r. rollup_group r = g) rows))"

lemma measured_update:
  assumes "distinct_keys rollup_group rows" "q \<in> set rows" "rollup_group q = rollup_group r" "good (join (measured (rollup_group r) rows) (rollup r))"
  shows "measured (rollup_group r) (row_update (\<lambda>q. rollup_group q = rollup_group r) (merged_rollup r) rows)
    = join (measured (rollup_group r) rows) (rollup r)"
proof -
  have one: "filter (\<lambda>p. rollup_group p = rollup_group r) rows = [q]"
    using assms(1-3) by (induction rows) (auto simp: distinct_keys_def filter_empty_conv image_iff)
  have "filter (\<lambda>p. rollup_group p = rollup_group r) (row_update (\<lambda>q. rollup_group q = rollup_group r) (merged_rollup r) rows)
      = map (merged_rollup r) (filter (\<lambda>p. rollup_group p = rollup_group r) rows)"
    by (induction rows) (auto simp: row_update_def)
  then show ?thesis using one merge_measure [of q r] assms(4) by simp
qed

lemma measured_upsert:
  assumes "distinct_keys rollup_group rows" "good (join (measured g rows) (measured g [r]))"
  shows "measured g (row_upsert rollup_group (merged_rollup r) r rows) = join (measured g rows) (measured g [r])"
proof (cases "rollup_group r \<in> rollup_group ` set rows")
  case True
  then have upd: "row_upsert rollup_group (merged_rollup r) r rows = row_update (\<lambda>q. rollup_group q = rollup_group r) (merged_rollup r) rows"
    by (simp add: row_upsert_def)
  show ?thesis
  proof (cases "rollup_group r = g")
    case False
    then have "filter (\<lambda>q. rollup_group q = g) (row_update (\<lambda>q. rollup_group q = rollup_group r) (merged_rollup r) rows)
        = filter (\<lambda>q. rollup_group q = g) rows"
      by (induction rows) (auto simp: row_update_def)
    then show ?thesis using False upd by simp
  next
    case hit: True
    obtain q where "q \<in> set rows" "rollup_group q = rollup_group r" using True by auto
    then show ?thesis using measured_update [OF assms(1), of q r] assms(2) hit upd by simp
  qed
next
  case False
  then show ?thesis by (simp add: row_upsert_def total_append)
qed

lemma measured_merge:
  assumes "distinct_keys rollup_group rows" "good (join (measured g rows) (measured g new))"
  shows "measured g (merge_rollups new rows) = join (measured g rows) (measured g new)"
  using assms
proof (induction new arbitrary: rows)
  case Nil
  then show ?case by (simp add: merge_rollups_def)
next
  case (Cons r new)
  let ?rows = "row_upsert rollup_group (merged_rollup r) r rows"
  have split: "measured g (r # new) = join (measured g [r]) (measured g new)" by (simp add: assoc unit)
  then have good: "good (join (join (measured g rows) (measured g [r])) (measured g new))" using Cons.prems(2) by (simp add: assoc)
  have one: "measured g ?rows = join (measured g rows) (measured g [r])"
    by (rule measured_upsert [OF Cons.prems(1) good_join [OF good]])
  have "distinct_keys rollup_group ?rows" using Cons.prems(1) by (rule distinct_keys_upsert) simp
  then have "measured g (merge_rollups new ?rows) = join (measured g ?rows) (measured g new)"
    by (rule Cons.IH) (use good one in simp)
  then show ?case using one split by (simp add: merge_rollups_def assoc)
qed

lemma measured_fragments:
  assumes "summing s" "good (total join z (map event (filter (\<lambda>e. event_group ws e = g) es)))"
  shows "measured g (fragments s now ws es) = total join z (map event (filter (\<lambda>e. event_group ws e = g) es))"
proof -
  let ?F = "\<lambda>g. fragment s now ws (filter (\<lambda>e. event_group ws e = g) es)" and ?gs = "remdups (map (event_group ws) es)"
  have key: "rollup_group (?F h) = h" if "h \<in> set ?gs" for h
    using that by (intro fragment_group) (auto simp: filter_empty_conv)
  have pick: "filter (\<lambda>r. rollup_group r = g) (map ?F hs) = (if g \<in> set hs then [?F g] else [])"
    if "distinct hs" "set hs \<subseteq> set ?gs" for hs
    using that by (induction hs) (auto simp: key)
  show ?thesis
  proof (cases "g \<in> set ?gs")
    case True
    then have "filter (\<lambda>e. event_group ws e = g) es \<noteq> []" by (auto simp: filter_empty_conv)
    then show ?thesis using fragment_measure [OF assms(1) _ assms(2)] pick [of ?gs] True by (simp add: fragments_def)
  next
    case False
    then have "filter (\<lambda>e. event_group ws e = g) es = []" by (auto simp: filter_empty_conv)
    then show ?thesis using pick [of ?gs] False by (simp add: fragments_def)
  qed
qed

text \<open>Rolling events up and deleting them leaves the measure.\<close>

lemma retained_prune:
  assumes "rollups_unique d" "summing s" "good (retained join z event rollup g d)"
    and "db_events d' = row_delete (prunable ws q) (db_events d)"
    and "db_rollups d' = merge_rollups (fragments s now ws (prunable_events ws q d)) (db_rollups d)"
  shows "retained join z event rollup g d' = retained join z event rollup g d"
proof -
  let ?in = "\<lambda>row. event_group (fst row) (snd row) = g"
  let ?all = "total join z (map (event \<circ> snd) (filter ?in (db_events d)))"
  let ?kept = "total join z (map (event \<circ> snd) (filter (\<lambda>x. ?in x \<and> \<not> prunable ws q x) (db_events d)))"
  let ?old = "total join z (map (event \<circ> snd) (filter (\<lambda>x. ?in x \<and> prunable ws q x) (db_events d)))"
  have all: "?all = join ?old ?kept" by (rule total_split)
  have "map (event \<circ> snd) (filter (\<lambda>x. ?in x \<and> prunable ws q x) rows) = map event (filter (\<lambda>e. event_group ws e = g) (map snd (filter (prunable ws q) rows)))" for rows
    by (induction rows) (auto simp: prunable_def)
  then have old: "?old = total join z (map event (filter (\<lambda>e. event_group ws e = g) (prunable_events ws q d)))"
    by (simp add: prunable_events_def)
  have shape: "retained join z event rollup g d = join (join (measured g (db_rollups d)) ?old) ?kept"
    unfolding retained_def all by (subst commute) (rule assoc [symmetric])
  have good: "good (join (join (measured g (db_rollups d)) ?old) ?kept)"
    using assms(3) by (simp add: shape)
  then have "good (join ?old (measured g (db_rollups d)))" by (subst commute) (rule good_join)
  then have good_old: "good ?old" by (rule good_join)
  have new: "measured g (fragments s now ws (prunable_events ws q d)) = ?old"
    using measured_fragments [OF assms(2)] good_old old by simp
  have rows: "measured g (db_rollups d') = join (measured g (db_rollups d)) ?old"
    using measured_merge [of "db_rollups d" g "fragments s now ws (prunable_events ws q d)"] assms(1,5) new good_join [OF good]
    by (simp add: rollups_unique_def)
  have "filter ?in (row_delete (prunable ws q) (db_events d)) = filter (\<lambda>x. ?in x \<and> \<not> prunable ws q x) (db_events d)"
    by (simp add: row_delete_def conj_commute)
  then have "retained join z event rollup g d' = join ?kept (join (measured g (db_rollups d)) ?old)"
    unfolding retained_def rows assms(4) by (rule arg_cong)
  also have "\<dots> = join (join (measured g (db_rollups d)) ?old) ?kept" by (rule commute)
  finally show ?thesis by (simp only: shape)
qed

end

section \<open>The measures of a rollup\<close>

fun opt_join :: "('a \<Rightarrow> 'a \<Rightarrow> 'a) \<Rightarrow> 'a option \<Rightarrow> 'a option \<Rightarrow> 'a option" where
  "opt_join f None y = y"
| "opt_join f x None = x"
| "opt_join f (Some a) (Some b) = Some (f a b)"

lemma opt_join_None [simp]: "opt_join f x None = x"
  by (cases x) simp_all

lemma opt_join_laws:
  assumes "\<And>a b c. f (f a b) c = f a (f b c)" "\<And>a b. f a b = f b a"
  shows "opt_join f (opt_join f x y) w = opt_join f x (opt_join f y w)" "opt_join f x y = opt_join f y x"
  using assms by (cases x; cases y; cases w; simp)+

lemma opt_join_min [simp]: "opt_join min (Some a) (x :: 'a :: linorder option) \<noteq> None"
  by (cases x) simp_all

lemma total_min: "es \<noteq> [] \<Longrightarrow> total (opt_join min) None (map (\<lambda>e. Some (f e :: 'k :: linorder)) es) = Some (Min (f ` set es))"
  by (induction es rule: induct_list012) (simp_all add: total_def)

lemma total_max: "es \<noteq> [] \<Longrightarrow> total (opt_join max) None (map (\<lambda>e. Some (f e :: 'k :: linorder)) es) = Some (Max (f ` set es))"
  by (induction es rule: induct_list012) (simp_all add: total_def)

subsection \<open>Events\<close>

definition events_retained :: "rollup_group \<Rightarrow> db \<Rightarrow> int" where
  "events_retained = retained (+) 0 (\<lambda>_. 1) ru_EventCount"

interpretation counting: rollup_measure "(+)" "0 :: int" "\<lambda>_. True" "\<lambda>_. 1" ru_EventCount "\<lambda>_. True"
proof
  fix s :: "f64 list \<Rightarrow> f64" and es :: "Event list" and now ws
  have "total (+) (0 :: int) (map (\<lambda>_. 1) es) = int (length es)" by (induction es) (simp_all add: total_def)
  then show "ru_EventCount (fragment s now ws es) = total (+) 0 (map (\<lambda>_. 1) es)" by (simp add: fragment_def Let_def)
qed (simp_all add: merged_rollup_def)

subsection \<open>The first and the last event\<close>

definition rollup_first :: "Rollup \<Rightarrow> int \<times> string" where
  "rollup_first r = (julian_ms (ru_FirstEventTime r), ru_FirstEventID r)"

definition rollup_last :: "Rollup \<Rightarrow> int \<times> string" where
  "rollup_last r = (julian_ms (ru_LastEventTime r), ru_LastEventID r)"

definition first_retained :: "rollup_group \<Rightarrow> db \<Rightarrow> (int \<times> string) option" where
  "first_retained = retained (opt_join min) None (\<lambda>e. Some (event_rank e)) (\<lambda>r. Some (rollup_first r))"

definition last_retained :: "rollup_group \<Rightarrow> db \<Rightarrow> (int \<times> string) option" where
  "last_retained = retained (opt_join max) None (\<lambda>e. Some (event_rank e)) (\<lambda>r. Some (rollup_last r))"

lemma fragment_ends:
  assumes "es \<noteq> []"
  shows "rollup_first (fragment s now ws es) = Min (event_rank ` set es)" "rollup_last (fragment s now ws es) = Max (event_rank ` set es)"
proof -
  have "event_rank (hd (sort_key event_rank es)) = Min (event_rank ` set es)" "event_rank (last (sort_key event_rank es)) = Max (event_rank ` set es)"
    using sort_key_ends [OF assms, where key = event_rank] by (auto intro!: Min_eqI [symmetric] Max_eqI [symmetric])
  then show "rollup_first (fragment s now ws es) = Min (event_rank ` set es)" "rollup_last (fragment s now ws es) = Max (event_rank ` set es)"
    by (simp_all add: rollup_first_def rollup_last_def fragment_def Let_def event_rank_def)
qed

lemma merged_ends:
  "rollup_first (merged_rollup new old) = min (rollup_first old) (rollup_first new)"
  "rollup_last (merged_rollup new old) = max (rollup_last old) (rollup_last new)"
  by (auto simp: rollup_first_def rollup_last_def merged_rollup_def earlier_first_def later_last_def min_def max_def less_eq_prod_def)

interpretation firsts: rollup_measure "opt_join min" None "\<lambda>_. True" "\<lambda>e. Some (event_rank e)" "\<lambda>r. Some (rollup_first r)" "\<lambda>_. True"
  by unfold_locales (auto simp: fragment_ends merged_ends total_min min.assoc intro: opt_join_laws min.commute)

interpretation lasts: rollup_measure "opt_join max" None "\<lambda>_. True" "\<lambda>e. Some (event_rank e)" "\<lambda>r. Some (rollup_last r)" "\<lambda>_. True"
  by unfold_locales (auto simp: fragment_ends merged_ends total_max max.assoc intro: opt_join_laws max.commute)

subsection \<open>The least and the greatest quantity\<close>

text \<open>The order of quantities; a NaN, which the tables exclude, spoils what it meets.\<close>

fun low_rank :: "f64 \<Rightarrow> int \<times> rat" where
  "low_rank NaN = (-2, 0)" | "low_rank NInf = (-1, 0)" | "low_rank (Fin x) = (0, x)" | "low_rank PInf = (1, 0)"

fun high_rank :: "f64 \<Rightarrow> int \<times> rat" where
  "high_rank NaN = (2, 0)" | "high_rank NInf = (-1, 0)" | "high_rank (Fin x) = (0, x)" | "high_rank PInf = (1, 0)"

definition least_retained :: "rollup_group \<Rightarrow> db \<Rightarrow> (int \<times> rat) option" where
  "least_retained = retained (opt_join min) None (\<lambda>e. Some (low_rank (ev_quantity e))) (\<lambda>r. Some (low_rank (ru_QuantityMin r)))"

definition greatest_retained :: "rollup_group \<Rightarrow> db \<Rightarrow> (int \<times> rat) option" where
  "greatest_retained = retained (opt_join max) None (\<lambda>e. Some (high_rank (ev_quantity e))) (\<lambda>r. Some (high_rank (ru_QuantityMax r)))"

lemma rank_NaN: "low_rank a = low_rank NaN \<longleftrightarrow> a = NaN" "high_rank a = high_rank NaN \<longleftrightarrow> a = NaN"
  "low_rank NaN \<le> low_rank a" "high_rank a \<le> high_rank NaN"
  by (cases a; simp)+

lemma rank_min: "low_rank a \<noteq> low_rank NaN \<Longrightarrow> low_rank b \<noteq> low_rank NaN \<Longrightarrow> low_rank (sql_min a b) = min (low_rank a) (low_rank b)"
  by (cases a; cases b) (auto simp: sql_min_def min_def)

lemma rank_max: "high_rank a \<noteq> high_rank NaN \<Longrightarrow> high_rank b \<noteq> high_rank NaN \<Longrightarrow> high_rank (sql_max a b) = max (high_rank a) (high_rank b)"
  by (cases a; cases b) (auto simp: sql_max_def max_def)

lemma foldl_min:
  "\<forall>q \<in> set (a # qs). q \<noteq> NaN \<Longrightarrow> low_rank (foldl sql_min a qs) = Min (low_rank ` set (a # qs)) \<and> foldl sql_min a qs \<noteq> NaN"
proof (induction qs arbitrary: a)
  case (Cons b qs)
  have "sql_min a b \<noteq> NaN" using Cons.prems by (auto simp: sql_min_def)
  then have "low_rank (foldl sql_min (sql_min a b) qs) = Min (low_rank ` set (sql_min a b # qs)) \<and> foldl sql_min (sql_min a b) qs \<noteq> NaN"
    using Cons by simp
  moreover have "low_rank (sql_min a b) = min (low_rank a) (low_rank b)" using Cons.prems by (intro rank_min) (simp_all add: rank_NaN(1) del: low_rank.simps)
  ultimately show ?case by (cases "qs = []") (simp_all add: min.assoc)
qed simp

lemma foldl_max:
  "\<forall>q \<in> set (a # qs). q \<noteq> NaN \<Longrightarrow> high_rank (foldl sql_max a qs) = Max (high_rank ` set (a # qs)) \<and> foldl sql_max a qs \<noteq> NaN"
proof (induction qs arbitrary: a)
  case (Cons b qs)
  have "sql_max a b \<noteq> NaN" using Cons.prems by (auto simp: sql_max_def)
  then have "high_rank (foldl sql_max (sql_max a b) qs) = Max (high_rank ` set (sql_max a b # qs)) \<and> foldl sql_max (sql_max a b) qs \<noteq> NaN"
    using Cons by simp
  moreover have "high_rank (sql_max a b) = max (high_rank a) (high_rank b)" using Cons.prems by (intro rank_max) (simp_all add: rank_NaN(2) del: high_rank.simps)
  ultimately show ?case by (cases "qs = []") (simp_all add: max.assoc)
qed simp

lemma least_real:
  assumes "es \<noteq> []" "Min ((\<lambda>e. low_rank (ev_quantity e)) ` set es) \<noteq> low_rank NaN" "e \<in> set es"
  shows "ev_quantity e \<noteq> NaN"
proof
  assume nan: "ev_quantity e = NaN"
  have "Min ((\<lambda>e. low_rank (ev_quantity e)) ` set es) = low_rank NaN"
  proof (rule Min_eqI)
    show "low_rank NaN \<in> (\<lambda>e. low_rank (ev_quantity e)) ` set es" using assms(3) nan by (metis image_eqI)
  qed (use rank_NaN(3) in auto)
  then show False using assms(2) by simp
qed

lemma greatest_real:
  assumes "es \<noteq> []" "Max ((\<lambda>e. high_rank (ev_quantity e)) ` set es) \<noteq> high_rank NaN" "e \<in> set es"
  shows "ev_quantity e \<noteq> NaN"
proof
  assume nan: "ev_quantity e = NaN"
  have "Max ((\<lambda>e. high_rank (ev_quantity e)) ` set es) = high_rank NaN"
  proof (rule Max_eqI)
    show "high_rank NaN \<in> (\<lambda>e. high_rank (ev_quantity e)) ` set es" using assms(3) nan by (metis image_eqI)
  qed (use rank_NaN(4) in auto)
  then show False using assms(2) by simp
qed

text \<open>Only real numbers and infinities have been measured.\<close>

definition low_real :: "(int \<times> rat) option \<Rightarrow> bool" where
  "low_real m \<longleftrightarrow> (case m of None \<Rightarrow> True | Some x \<Rightarrow> low_rank NaN < x)"

definition high_real :: "(int \<times> rat) option \<Rightarrow> bool" where
  "high_real m \<longleftrightarrow> (case m of None \<Rightarrow> True | Some x \<Rightarrow> x < high_rank NaN)"

interpretation leasts: rollup_measure "opt_join min" None low_real "\<lambda>e. Some (low_rank (ev_quantity e))"
  "\<lambda>r. Some (low_rank (ru_QuantityMin r))" "\<lambda>_. True"
proof
  fix es :: "Event list" and s now ws
  assume es: "es \<noteq> []" and good: "low_real (total (opt_join min) None (map (\<lambda>e. Some (low_rank (ev_quantity e))) es))"
  note min = total_min [OF es, of "\<lambda>e. low_rank (ev_quantity e)"]
  have "\<forall>q \<in> set (map ev_quantity es). q \<noteq> NaN" using least_real [OF es] good by (auto simp: min low_real_def)
  then have "low_rank (ru_QuantityMin (fragment s now ws es)) = Min (low_rank ` set (map ev_quantity es))"
    using foldl_min [of "hd (map ev_quantity es)" "tl (map ev_quantity es)"] es by (cases es) (simp_all add: fragment_def Let_def)
  then show "Some (low_rank (ru_QuantityMin (fragment s now ws es))) = total (opt_join min) None (map (\<lambda>e. Some (low_rank (ev_quantity e))) es)"
    by (simp add: min image_image)
next
  fix old new :: Rollup
  assume "low_real (opt_join min (Some (low_rank (ru_QuantityMin old))) (Some (low_rank (ru_QuantityMin new))))"
  then have "low_rank (ru_QuantityMin old) \<noteq> low_rank NaN" "low_rank (ru_QuantityMin new) \<noteq> low_rank NaN"
    by (auto simp: low_real_def simp del: low_rank.simps)
  then show "Some (low_rank (ru_QuantityMin (merged_rollup new old)))
      = opt_join min (Some (low_rank (ru_QuantityMin old))) (Some (low_rank (ru_QuantityMin new)))"
    using rank_min by (simp add: merged_rollup_def)
next
  fix a b assume "low_real (opt_join min a b)"
  then show "low_real a" by (cases a; cases b) (simp_all add: low_real_def del: low_rank.simps)
qed (auto simp: min.assoc intro: opt_join_laws min.commute)

interpretation greatests: rollup_measure "opt_join max" None high_real "\<lambda>e. Some (high_rank (ev_quantity e))"
  "\<lambda>r. Some (high_rank (ru_QuantityMax r))" "\<lambda>_. True"
proof
  fix es :: "Event list" and s now ws
  assume es: "es \<noteq> []" and good: "high_real (total (opt_join max) None (map (\<lambda>e. Some (high_rank (ev_quantity e))) es))"
  note max = total_max [OF es, of "\<lambda>e. high_rank (ev_quantity e)"]
  have "\<forall>q \<in> set (map ev_quantity es). q \<noteq> NaN" using greatest_real [OF es] good by (auto simp: max high_real_def)
  then have "high_rank (ru_QuantityMax (fragment s now ws es)) = Max (high_rank ` set (map ev_quantity es))"
    using foldl_max [of "hd (map ev_quantity es)" "tl (map ev_quantity es)"] es by (cases es) (simp_all add: fragment_def Let_def)
  then show "Some (high_rank (ru_QuantityMax (fragment s now ws es))) = total (opt_join max) None (map (\<lambda>e. Some (high_rank (ev_quantity e))) es)"
    by (simp add: max image_image)
next
  fix old new :: Rollup
  assume "high_real (opt_join max (Some (high_rank (ru_QuantityMax old))) (Some (high_rank (ru_QuantityMax new))))"
  then have "high_rank (ru_QuantityMax old) \<noteq> high_rank NaN" "high_rank (ru_QuantityMax new) \<noteq> high_rank NaN"
    by (auto simp: high_real_def simp del: high_rank.simps)
  then show "Some (high_rank (ru_QuantityMax (merged_rollup new old)))
      = opt_join max (Some (high_rank (ru_QuantityMax old))) (Some (high_rank (ru_QuantityMax new)))"
    using rank_max by (simp add: merged_rollup_def)
next
  fix a b assume "high_real (opt_join max a b)"
  then show "high_real a" by (cases a; cases b) (simp_all add: high_real_def del: high_rank.simps)
qed (auto simp: max.assoc intro: opt_join_laws max.commute)

subsection \<open>The sum of whole quantities\<close>

text \<open>A measure of whole numbers; \<^verbatim>\<open>None\<close> when one is not whole.  Below \<open>2\<^sup>5\<^sup>3\<close> their sums are exact.\<close>

definition whole_of :: "f64 \<Rightarrow> nat option" where
  "whole_of q = (case q of Fin x \<Rightarrow> if 0 \<le> x \<and> of_int \<lfloor>x\<rfloor> = x then Some (nat \<lfloor>x\<rfloor>) else None | _ \<Rightarrow> None)"

definition whole_join :: "nat option \<Rightarrow> nat option \<Rightarrow> nat option" where
  "whole_join a b = (case (a, b) of (Some m, Some n) \<Rightarrow> Some (m + n) | _ \<Rightarrow> None)"

definition exact :: "nat option \<Rightarrow> bool" where
  "exact m \<longleftrightarrow> (case m of None \<Rightarrow> False | Some n \<Rightarrow> n < 2 ^ 53)"

definition sum_retained :: "rollup_group \<Rightarrow> db \<Rightarrow> nat option" where
  "sum_retained = retained whole_join (Some 0) (\<lambda>e. whole_of (ev_quantity e)) (\<lambda>r. whole_of (ru_QuantitySum r))"

text \<open>What is asked of the database's sum: it is exact on whole numbers with a sum below \<open>2\<^sup>5\<^sup>3\<close>.\<close>

definition sums_exactly :: "(f64 list \<Rightarrow> f64) \<Rightarrow> bool" where
  "sums_exactly s \<longleftrightarrow> (\<forall>ns :: nat list. sum_list ns < 2 ^ 53 \<longrightarrow> s (map (\<lambda>n. Fin (of_nat n)) ns) = Fin (of_nat (sum_list ns)))"

lemma whole_of_nat [simp]: "whole_of (Fin (of_nat n)) = Some n"
  by (simp add: whole_of_def)

lemma whole_ofD: "whole_of q = Some n \<Longrightarrow> q = Fin (of_nat n)"
  by (auto simp: whole_of_def of_nat_nat split: f64.splits if_splits)

lemma whole_join_Some: "whole_join a b = Some n \<longleftrightarrow> (\<exists>k m. a = Some k \<and> b = Some m \<and> n = k + m)"
  by (auto simp: whole_join_def split: option.splits)

lemma total_whole:
  "total whole_join (Some 0) (map (\<lambda>e. whole_of (ev_quantity e)) es) = Some n \<Longrightarrow>
    \<exists>ns. map ev_quantity es = map (\<lambda>n. Fin (of_nat n)) ns \<and> sum_list ns = n"
proof (induction es arbitrary: n)
  case (Cons e es)
  then obtain k m where "whole_of (ev_quantity e) = Some k" "total whole_join (Some 0) (map (\<lambda>e. whole_of (ev_quantity e)) es) = Some m" "n = k + m"
    by (auto simp: total_def whole_join_Some)
  moreover from this(2) obtain ns where "map ev_quantity es = map (\<lambda>n. Fin (of_nat n)) ns" "sum_list ns = m" using Cons.IH by blast
  ultimately show ?case by (intro exI [of _ "k # ns"]) (simp add: whole_ofD)
qed (simp add: total_def)

interpretation sumsof: rollup_measure whole_join "Some 0" exact "\<lambda>e. whole_of (ev_quantity e)" "\<lambda>r. whole_of (ru_QuantitySum r)" sums_exactly
proof
  fix s :: "f64 list \<Rightarrow> f64" and es :: "Event list" and now ws
  assume s: "sums_exactly s" and good: "exact (total whole_join (Some 0) (map (\<lambda>e. whole_of (ev_quantity e)) es))"
  then obtain n where n: "total whole_join (Some 0) (map (\<lambda>e. whole_of (ev_quantity e)) es) = Some n" "n < 2 ^ 53"
    by (auto simp: exact_def split: option.splits)
  obtain ns where "map ev_quantity es = map (\<lambda>n. Fin (of_nat n)) ns" "sum_list ns = n" using total_whole [OF n(1)] by blast
  then show "whole_of (ru_QuantitySum (fragment s now ws es)) = total whole_join (Some 0) (map (\<lambda>e. whole_of (ev_quantity e)) es)"
    using s n by (simp add: fragment_def Let_def sums_exactly_def)
next
  fix old new :: Rollup
  assume "exact (whole_join (whole_of (ru_QuantitySum old)) (whole_of (ru_QuantitySum new)))"
  then obtain m n where mn: "ru_QuantitySum old = Fin (of_nat m)" "ru_QuantitySum new = Fin (of_nat n)" "m + n < 2 ^ 53"
    by (auto simp: exact_def whole_join_def dest!: whole_ofD split: option.splits)
  then have "Fin (of_nat m) + Fin (of_nat n) = Fin (of_nat (m + n))" using whole_add [of "int m" "int n"] by simp
  then show "whole_of (ru_QuantitySum (merged_rollup new old)) = whole_join (whole_of (ru_QuantitySum old)) (whole_of (ru_QuantitySum new))"
    using mn by (simp add: merged_rollup_def whole_join_def del: of_nat_add f64_ops)
qed (auto simp: whole_join_def exact_def split: option.splits)

section \<open>The procedures\<close>

text \<open>The rollups are made and the events are still there.\<close>

definition rolled_up :: "(f64 list \<Rightarrow> f64) \<Rightarrow> string \<Rightarrow> PruneQuery \<Rightarrow> (db \<Rightarrow> bool) \<Rightarrow> int \<Rightarrow> db \<Rightarrow> bool" where
  "rolled_up s ws q P n d \<longleftrightarrow> (\<exists>d0 now. P d0 \<and> n = int (length (prunable_events ws q d0)) \<and> db_events d = db_events d0 \<and>
     db_usage_counts d = db_usage_counts d0 \<and> db_rollups d = merge_rollups (fragments s now ws (prunable_events ws q d0)) (db_rollups d0))"

lemma rolled_up_runs: "rolled_up s ws q P n d \<Longrightarrow> rolled_up s ws q P n (d\<lparr>db_rollup_runs := rs\<rparr>)"
  by (simp add: rolled_up_def)

lemma keeps_saveRollupRun: "keeps (on_db (rolled_up s ws q P n)) (saveRollupRun ws q a b)"
  unfolding saveRollupRun_def by (intro keeps_attempt keeps_clock keeps_exec rolled_up_runs)

lemma ensures_rollUp: "ensures (on_db P) (rollUpPrunableEvents s ws q) (\<lambda>n. on_db (rolled_up s ws q P n))"
proof -
  let ?count = "\<lambda>d. int (length (prunable_events ws q d))"
  have none: "P d \<Longrightarrow> ?count d = 0 \<Longrightarrow> rolled_up s ws q P 0 d" for d
    unfolding rolled_up_def by (intro exI [of _ d]) (simp add: fragments_def merge_rollups_def)
  have insert: "ensures (on_db (\<lambda>d. P d \<and> ?count d = n)) (insert_rollups s now ws q) (\<lambda>_. on_db (rolled_up s ws q P n))" for n now
    unfolding insert_rollups_def Let_def
    by (rule ensures_stmt) (auto simp: rolled_up_def split: if_splits)
  have rest: "ensures (on_db (\<lambda>d. P d \<and> ?count d = n)) (if n = 0 then attempt (saveRollupRun ws q 0 0) (\<lambda>_. return_ok 0)
      else attempt clock_now (\<lambda>now. attempt (insert_rollups s now ws q) (\<lambda>rows. attempt (saveRollupRun ws q n rows) (\<lambda>_. return_ok n))))
      (\<lambda>n. on_db (rolled_up s ws q P n))" for n
  proof (rule ensures_if)
    assume "n = 0"
    then show "ensures (on_db (\<lambda>d. P d \<and> ?count d = n)) (attempt (saveRollupRun ws q 0 0) (\<lambda>_. return_ok 0)) (\<lambda>n. on_db (rolled_up s ws q P n))"
      by (intro ensures_weaken [OF ensures_attempt [OF ensures_keeps [OF keeps_saveRollupRun [where s = s and P = P and n = 0]] ensures_ok]])
        (auto simp: on_db_def intro: none)
  next
    show "ensures (on_db (\<lambda>d. P d \<and> ?count d = n)) (attempt clock_now (\<lambda>now. attempt (insert_rollups s now ws q) (\<lambda>rows.
        attempt (saveRollupRun ws q n rows) (\<lambda>_. return_ok n)))) (\<lambda>n. on_db (rolled_up s ws q P n))"
      by (intro ensures_attempt [OF ensures_keeps [OF keeps_clock]] ensures_attempt [OF insert]
          ensures_attempt [OF ensures_keeps [OF keeps_saveRollupRun]] ensures_ok)
  qed
  have "ensures (on_db P) (query ?count) (\<lambda>n. on_db (\<lambda>d. P d \<and> ?count d = n))" by (rule ensures_query) simp
  then show ?thesis unfolding rollUpPrunableEvents_def by (rule ensures_attempt) (rule rest)
qed

lemma length_prunable: "length (filter (prunable ws q) (db_events d)) = length (prunable_events ws q d)"
  by (simp add: prunable_events_def)

text \<open>A predicate that holds again when the prunable events are deleted and counted off.\<close>

definition survives_prune :: "(f64 list \<Rightarrow> f64) \<Rightarrow> (db \<Rightarrow> bool) \<Rightarrow> bool" where
  "survives_prune s P \<longleftrightarrow> (\<forall>ws q d d' now. P d \<longrightarrow> db_events d' = row_delete (prunable ws q) (db_events d) \<longrightarrow>
     db_rollups d' = merge_rollups (fragments s now ws (prunable_events ws q d)) (db_rollups d) \<longrightarrow>
     db_usage_counts d' = (if prunable_events ws q d = [] then db_usage_counts d
       else row_upsert fst (\<lambda>(w, n). (w, max 0 (n - int (length (prunable_events ws q d))))) (ws, - int (length (prunable_events ws q d))) (db_usage_counts d)) \<longrightarrow>
     P d')"

lemma ensures_repo_prune:
  assumes "survives_prune s P"
  shows "ensures (on_db P) (Repo_PruneEvents s ctx q) (\<lambda>_. on_db P)"
proof -
  define gone where "gone ws n d' \<longleftrightarrow> (\<exists>d now. P d \<and> n = length (prunable_events ws q d) \<and> db_events d' = row_delete (prunable ws q) (db_events d) \<and>
     db_rollups d' = merge_rollups (fragments s now ws (prunable_events ws q d)) (db_rollups d) \<and> db_usage_counts d' = db_usage_counts d)" for ws n and d' :: db
  have delete: "ensures (on_db (rolled_up s ws q P m)) (execrows (\<lambda>d. length (filter (prunable ws q) (db_events d)))
      (\<lambda>d. d\<lparr>db_events := row_delete (prunable ws q) (db_events d)\<rparr>)) (\<lambda>n. on_db (gone ws n))" for ws m
  proof (rule ensures_execrows)
    fix d assume "rolled_up s ws q P m d"
    then obtain d0 now where "P d0" "db_events d = db_events d0" "db_usage_counts d = db_usage_counts d0"
      "db_rollups d = merge_rollups (fragments s now ws (prunable_events ws q d0)) (db_rollups d0)"
      unfolding rolled_up_def by blast
    then show "gone ws (length (filter (prunable ws q) (db_events d))) (d\<lparr>db_events := row_delete (prunable ws q) (db_events d)\<rparr>)"
      unfolding gone_def by (intro exI [of _ d0] exI [of _ now]) (simp add: length_prunable)
  qed
  have restored: "P d'" if "gone ws n d" "db_events d' = db_events d" "db_rollups d' = db_rollups d"
    "db_usage_counts d' = (if n = 0 then db_usage_counts d else row_upsert fst (\<lambda>(w, k). (w, max 0 (k - int n))) (ws, - int n) (db_usage_counts d))"
    for ws n d and d' :: db
  proof -
    note gone = that(1)
    obtain d0 now where d0: "P d0" "n = length (prunable_events ws q d0)" "db_events d = row_delete (prunable ws q) (db_events d0)"
      "db_rollups d = merge_rollups (fragments s now ws (prunable_events ws q d0)) (db_rollups d0)" "db_usage_counts d = db_usage_counts d0"
      using gone unfolding gone_def by blast
    show ?thesis
      by (rule assms [unfolded survives_prune_def, rule_format, OF d0(1), of _ ws q now]) (use d0 that(2-4) in simp_all)
  qed
  have count: "ensures (on_db (gone ws n)) (if 0 < n then IncrementWorkspaceUsageEvents ws (- int n) else return_ok ()) (\<lambda>_. on_db P)" for ws n
  proof (rule ensures_if)
    assume "0 < n"
    then show "ensures (on_db (gone ws n)) (IncrementWorkspaceUsageEvents ws (- int n)) (\<lambda>_. on_db P)"
      unfolding IncrementWorkspaceUsageEvents_def by (intro ensures_exec) (rule restored, assumption, simp_all)
  next
    assume "\<not> 0 < n"
    then show "ensures (on_db (gone ws n)) (return_ok ()) (\<lambda>_. on_db P)"
      by (intro ensures_ok) (auto simp: on_db_def intro: restored)
  qed
  show ?thesis
    unfolding Repo_PruneEvents_def
    by (intro ensures_with_workspace ensures_attempt [OF ensures_rollUp] ensures_attempt [OF delete] ensures_if ensures_err
        ensures_attempt [OF count] ensures_ok)
qed

lemma prune_keeps:
  assumes "survives_prune s P" "\<And>d rs. P d \<Longrightarrow> P (d\<lparr>db_prune_runs := rs\<rparr>)" "\<And>d cs. P d \<Longrightarrow> P (d\<lparr>db_prune_counts := cs\<rparr>)"
  shows "keeps (quiet P) (PruneEvents s ctx dry)"
proof -
  have prune: "ensures (on_db P) (prunableEventCount s ctx dry q) (\<lambda>_. on_db P)" for q
    unfolding prunableEventCount_def CountPrunableEvents_def
    by (intro ensures_if ensures_repo_prune [OF assms(1)] ensures_keeps) (auto intro!: keeps_rules)
  have loop: "ensures (on_db P) (foreach queries acc (\<lambda>q (total, runMeters).
        attempt (prunableEventCount s ctx dry q) (\<lambda>deleted.
        attempt (lift_res (NewPruneRunMeter (pq_meterName q) (pq_before q) deleted)) (\<lambda>runMeter.
        return_ok (total + deleted, runMeters @ [runMeter]))))) (\<lambda>_. on_db P)" for queries acc
    by (rule ensures_foreach [of "\<lambda>_ _. on_db P"])
      (auto intro!: ensures_attempt [OF prune] ensures_attempt [OF ensures_keeps [OF keeps_return(3)]] ensures_ok)
  have save: "keeps (on_db P) (SavePruneRun ctx run)" for run
    unfolding SavePruneRun_def IncrementWorkspacePruneRuns_def by (auto intro!: keeps_rules keeps_exec_unique keeps_exec assms(2,3))
  show ?thesis
    unfolding PruneEvents_def Meters_Find_def with_workspace_def
    by (intro keeps_attempt keeps_return keeps_quiet_prims in_transaction_quiet ensures_attempt [OF loop])
      (auto intro!: ensures_attempt [OF ensures_keeps] ensures_keeps keeps_rules save)
qed

section \<open>What survives\<close>

context rollup_measure
begin

lemma measure_survives:
  "summing s \<Longrightarrow> good m \<Longrightarrow> survives_prune s (\<lambda>d. rollups_unique d \<and> retained join z event rollup g d = m)"
  unfolding survives_prune_def
  by (intro allI impI conjI) (auto simp: rollups_unique_def intro: rollups_unique_merge, rule trans [OF retained_prune], auto simp: rollups_unique_def)

lemma prune_keeps_measure:
  "summing s \<Longrightarrow> good m \<Longrightarrow> keeps (quiet (\<lambda>d. rollups_unique d \<and> retained join z event rollup g d = m)) (PruneEvents s ctx dry)"
  by (rule prune_keeps [OF measure_survives]) (simp_all add: rollups_unique_def retained_def)

end

lemma keeps_bad: "(\<And>s. \<not> P s) \<Longrightarrow> keeps P m"
  by (simp add: keeps_def)

lemma counts_survive: "survives_prune s counts_ok"
  unfolding survives_prune_def
proof (intro allI impI)
  fix ws q and d d' :: db
  assume d: "counts_ok d" and events: "db_events d' = row_delete (prunable ws q) (db_events d)"
    and counts: "db_usage_counts d' = (if prunable_events ws q d = [] then db_usage_counts d
      else row_upsert fst (\<lambda>(w, n). (w, max 0 (n - int (length (prunable_events ws q d))))) (ws, - int (length (prunable_events ws q d))) (db_usage_counts d))"
  let ?n = "length (prunable_events ws q d)"
  have added: "db_usage_counts d' = (if ?n = 0 then db_usage_counts d else add_count ws (- int ?n) (db_usage_counts d))"
    using counts by (simp add: add_count_def)
  have cut: "length (filter (\<lambda>row. fst row = v) (row_delete p rows)) + length (filter (\<lambda>row. fst row = v \<and> p row) rows)
      = length (filter (\<lambda>row. fst row = v) rows)" for v and p :: "string \<times> Event \<Rightarrow> bool" and rows
    by (induction rows) (auto simp: row_delete_def)
  have mine: "filter (\<lambda>row. fst row = v \<and> prunable ws q row) rows = (if v = ws then filter (prunable ws q) rows else [])" for v rows
    by (induction rows) (auto simp: prunable_def)
  have both: "length (filter (\<lambda>row. fst row = v) (row_delete (prunable ws q) rows)) + (if v = ws then length (filter (prunable ws q) rows) else 0)
      = length (filter (\<lambda>row. fst row = v) rows)" for v rows
    using cut [of v "prunable ws q" rows] unfolding mine by (cases "v = ws") simp_all
  have len: "length (workspace_events v d') + (if v = ws then ?n else 0) = length (workspace_events v d)" for v
    using both [of v "db_events d"] by (cases "v = ws") (simp_all add: workspace_events_def prunable_events_def events)
  have "usage_count v d' = usage_count v d - (if v = ws then int ?n else 0)" for v
  proof (cases "?n = 0 \<or> v \<noteq> ws")
    case True
    then show ?thesis using added by (auto simp: usage_count_def map_of_add_count)
  next
    case False
    then have "usage_count ws d \<noteq> 0" "int ?n \<le> usage_count ws d" using d len [of ws] by (auto simp: counts_ok_def)
    then show ?thesis using added False by (auto simp: usage_count_def map_of_add_count split: option.splits)
  qed
  then have "usage_count v d' = int (length (workspace_events v d'))" for v
    using d len [of v] by (auto simp: counts_ok_def split: if_splits)
  moreover have "distinct_keys fst (db_usage_counts d')"
    using d added by (auto simp: counts_ok_def intro: distinct_add_count)
  ultimately show "counts_ok d'" by (simp add: counts_ok_def)
qed

section \<open>Properties\<close>

text \<open>Claim C31. Retention loses no usage: for every workspace, meter, subject, hour and set of dimensions, the number of events, the first
  and the last event and the least and the greatest quantity, taken over raw events and rollups together, are the same after
  pruning as before, whether it succeeds or fails; and the event counts of the workspaces stay right.\<close>

theorem prune_conserves_usage:
  "keeps (quiet (\<lambda>d. rollups_unique d \<and> events_retained g d = n)) (PruneEvents s ctx dry) \<and>
   keeps (quiet (\<lambda>d. rollups_unique d \<and> first_retained g d = m)) (PruneEvents s ctx dry) \<and>
   keeps (quiet (\<lambda>d. rollups_unique d \<and> last_retained g d = m)) (PruneEvents s ctx dry) \<and>
   keeps (quiet (\<lambda>d. rollups_unique d \<and> low_real x \<and> least_retained g d = x)) (PruneEvents s ctx dry) \<and>
   keeps (quiet (\<lambda>d. rollups_unique d \<and> high_real x \<and> greatest_retained g d = x)) (PruneEvents s ctx dry) \<and>
   keeps (quiet counts_ok) (PruneEvents s ctx dry)"
proof (intro conjI)
  show "keeps (quiet (\<lambda>d. rollups_unique d \<and> events_retained g d = n)) (PruneEvents s ctx dry)"
    unfolding events_retained_def by (rule counting.prune_keeps_measure) simp_all
  show "keeps (quiet (\<lambda>d. rollups_unique d \<and> first_retained g d = m)) (PruneEvents s ctx dry)"
    unfolding first_retained_def by (rule firsts.prune_keeps_measure) simp_all
  show "keeps (quiet (\<lambda>d. rollups_unique d \<and> last_retained g d = m)) (PruneEvents s ctx dry)"
    unfolding last_retained_def by (rule lasts.prune_keeps_measure) simp_all
  show "keeps (quiet (\<lambda>d. rollups_unique d \<and> low_real x \<and> least_retained g d = x)) (PruneEvents s ctx dry)"
    using leasts.prune_keeps_measure [where s = s and m = x and g = g and ctx = ctx and dry = dry] by (cases "low_real x") (simp_all add: least_retained_def keeps_bad quiet_def)
  show "keeps (quiet (\<lambda>d. rollups_unique d \<and> high_real x \<and> greatest_retained g d = x)) (PruneEvents s ctx dry)"
    using greatests.prune_keeps_measure [where s = s and m = x and g = g and ctx = ctx and dry = dry] by (cases "high_real x") (simp_all add: greatest_retained_def keeps_bad quiet_def)
  show "keeps (quiet counts_ok) (PruneEvents s ctx dry)"
    by (rule prune_keeps [OF counts_survive]) (simp_all add: counts_ok_def usage_count_def workspace_events_def)
qed

text \<open>Claim C32. Retention keeps sums: when the quantities are whole numbers with a sum below \<open>2\<^sup>5\<^sup>3\<close> and the database's own sum is
  exact on such numbers, pruning leaves the sum over raw events and rollups as it was.\<close>

theorem prune_keeps_sums:
  assumes "sums_exactly s"
  shows "keeps (quiet (\<lambda>d. rollups_unique d \<and> exact m \<and> sum_retained g d = m)) (PruneEvents s ctx dry)"
  using sumsof.prune_keeps_measure [OF assms, where m = m and g = g and ctx = ctx and dry = dry] by (cases "exact m") (simp_all add: sum_retained_def keeps_bad quiet_def)

lemma foldl_sums_exactly: "sums_exactly (foldl (+) (Fin 0))"
proof -
  have "foldl (+) (Fin (of_nat a)) (map (\<lambda>n. Fin (of_nat n)) ns) = Fin (of_nat (a + sum_list ns))"
    if "a + sum_list ns < 2 ^ 53" for a and ns :: "nat list"
    using that
  proof (induction ns arbitrary: a)
    case (Cons n ns)
    then have "Fin (of_nat a) + Fin (of_nat n) = Fin (of_nat (a + n))" using whole_add [of "int a" "int n"] by simp
    then show ?case using Cons.IH [of "a + n"] Cons.prems by (simp del: f64_ops add: add.assoc)
  qed simp
  from this [of 0] show ?thesis by (simp add: sums_exactly_def)
qed

theorem prune_keeps_sums_witness:
  "keeps (quiet (\<lambda>d. rollups_unique d \<and> exact (Some 7) \<and> sum_retained (''w'', ''requests'', ''s'', 0, fmempty) d = Some 7))
    (PruneEvents (foldl (+) (Fin 0)) (workspace_ctx ''w'') False)"
  by (rule prune_keeps_sums [OF foldl_sums_exactly])

subsection \<open>What is kept as it is\<close>

lemma keeps_in_workspace: "(\<And>ws. RequireWorkspaceID ctx = Inr ws \<Longrightarrow> keeps P (k ws)) \<Longrightarrow> keeps P (with_workspace ctx k)"
  by (cases "RequireWorkspaceID ctx") (auto simp: with_workspace_def attempt_def keeps_def)

lemma keeps_row_prune:
  assumes "\<And>ws. RequireWorkspaceID ctx = Inr ws \<Longrightarrow> \<not> prunable ws q row"
  shows "keeps (on_db (\<lambda>d. row \<in> set (db_events d))) (prunableEventCount s ctx dry q)"
proof -
  have roll: "keeps (on_db (\<lambda>d. row \<in> set (db_events d))) (rollUpPrunableEvents s ws q)" for ws
    unfolding rollUpPrunableEvents_def insert_rollups_def saveRollupRun_def Let_def
    by (auto intro!: keeps_rules keeps_exec keeps_stmt split: if_splits)
  have "keeps (on_db (\<lambda>d. row \<in> set (db_events d))) (Repo_PruneEvents s ctx q)"
    unfolding Repo_PruneEvents_def IncrementWorkspaceUsageEvents_def
    by (rule keeps_in_workspace) (auto intro!: keeps_rules keeps_exec keeps_execrows roll simp: assms)
  then show ?thesis unfolding prunableEventCount_def CountPrunableEvents_def by (auto intro!: keeps_rules)
qed

lemma keeps_foreach_in: "(\<And>x acc. x \<in> set xs \<Longrightarrow> keeps P (body x acc)) \<Longrightarrow> keeps P (foreach xs acc body)"
proof (induction xs arbitrary: acc)
  case (Cons a xs)
  have "keeps P (foreach xs b body)" for b by (rule Cons.IH) (simp add: Cons.prems)
  then show ?case using Cons.prems [of a acc] by (simp add: keeps_attempt)
qed (simp add: keeps_rules)

lemma Meters_Find_run:
  assumes "Meters_Find ctx q w = (Inr ms, u)"
  obtains ws where "RequireWorkspaceID ctx = Inr ws" "w_db u = w_db w" "fst (clock_now u) = fst (clock_now w)"
    "\<And>m. m \<in> set ms \<Longrightarrow> \<exists>row. (ws, row) \<in> set (db_meters (w_db w)) \<and> meterFromFields row = Inr m"
proof -
  obtain ws where ws: "RequireWorkspaceID ctx = Inr ws" using assms by (cases "RequireWorkspaceID ctx") (auto simp: Meters_Find_def with_workspace_def attempt_def)
  let ?rows = "order_limit mtr_name (meter_NormalizeLimit (mq_limit q)) (map snd (filter (\<lambda>(w, m). w = ws \<and> matches (mq_id q) (mtr_id m) \<and>
      matches (mq_name q) (mtr_name m) \<and> (mq_cursor q = [] \<or> mq_cursor q < mtr_name m)) (db_meters (w_db w))))"
  have ms: "map_res meterFromFields ?rows = Inr ms" and u: "w_db u = w_db w" "fst (clock_now u) = fst (clock_now w)"
    using assms ws by (auto simp: Meters_Find_def with_workspace_def attempt_eq_Inr query_def stmt_def drop_fault_def clock_now_def
        split: option.splits list.splits)
  have "\<exists>row. (ws, row) \<in> set (db_meters (w_db w)) \<and> meterFromFields row = Inr m" if m: "m \<in> set ms" for m
  proof -
    obtain row where row: "row \<in> set ?rows" "meterFromFields row = Inr m" using map_res_set [OF ms m] by blast
    then have "(ws, row) \<in> set (db_meters (w_db w))" by (auto simp: order_limit_def dest!: in_set_takeD)
    then show ?thesis using row(2) by blast
  qed
  with ws u show thesis by (rule that)
qed

lemma cutoff_less:
  assumes "time_text_less (ev_eventTime e) (prune_cutoff now m)" "json_time_ok (ev_eventTime e)" "json_time_ok (prune_cutoff now m)"
  shows "ev_eventTime e < now - mtr_eventRetentionDays m * day_ns + Second"
proof -
  have cut: "prune_cutoff now m \<le> now - mtr_eventRetentionDays m * day_ns"
    by (simp add: prune_cutoff_def AddDate_days time_Truncate_def Hour_def)
  have "ev_eventTime e div Second \<le> prune_cutoff now m div Second" by (rule text_less_second [OF assms(2,3,1)])
  moreover have "ev_eventTime e < (ev_eventTime e div Second) * Second + Second" "(prune_cutoff now m div Second) * Second \<le> prune_cutoff now m"
    by (auto simp: Second_def)
  moreover from calculation(1) have "(ev_eventTime e div Second) * Second \<le> (prune_cutoff now m div Second) * Second"
    by (simp add: Second_def)
  ultimately show ?thesis using cut by linarith
qed

lemma keeps_prune_round:
  assumes "\<And>q ws. q \<in> set queries \<Longrightarrow> RequireWorkspaceID ctx = Inr ws \<Longrightarrow> \<not> prunable ws q row"
  shows "keeps (on_db (\<lambda>d. row \<in> set (db_events d))) (in_transaction (
      attempt (foreach queries (0, []) (\<lambda>q (total, runMeters).
        attempt (prunableEventCount s ctx dry q) (\<lambda>deleted.
        attempt (lift_res (NewPruneRunMeter (pq_meterName q) (pq_before q) deleted)) (\<lambda>runMeter.
        return_ok (total + deleted, runMeters @ [runMeter]))))) (\<lambda>(total, runMeters).
      attempt fresh_id (\<lambda>rid.
      attempt (lift_res (NewPruneRun rid dry total runMeters now)) (SavePruneRun ctx)))))"
  unfolding SavePruneRun_def IncrementWorkspacePruneRuns_def
  by (intro keeps_in_transaction keeps_attempt keeps_foreach_in)
    (auto intro!: keeps_rules keeps_row_prune keeps_exec keeps_exec_unique dest: assms)

lemma kept_attempt:
  assumes "keeps P m" "P s" "\<And>x t. m s = (Inr x, t) \<Longrightarrow> P t \<Longrightarrow> P (snd (k x t))"
  shows "P (snd (attempt m k s))"
  using assms keepsD [OF assms(1,2)] by (auto simp: attempt_apply split: prod.splits sum.splits)

lemma keeps_find_meters: "keeps (on_db P) (Meters_Find ctx q)"
  unfolding Meters_Find_def by (auto intro!: keeps_rules)


definition retention_meter :: Meter where
  "retention_meter = \<lparr>mtr_id = ''m1'', mtr_name = ''requests'', mtr_description = [], mtr_unit = ''call'', mtr_aggregation = AggregationSum,
     mtr_dimensionTypes = fmempty, mtr_dimensions = [], mtr_eventRetentionDays = 90, mtr_createdAt = 1\<rparr>"

definition young_event :: Event where
  "young_event = \<lparr>ev_id = ''id-0'', ev_idempotencyKey = [], ev_subject = ''s'', ev_meterName = ''requests'', ev_quantity = 1,
     ev_eventTime = 100 * day_ns, ev_receivedAt = 100 * day_ns, ev_metadata = fmempty\<rparr>"

definition retention_world :: world where
  "retention_world = (idle_world (empty_db\<lparr>db_meters := [(''w'', retention_meter)], db_events := [(''w'', young_event)]\<rparr>))\<lparr>w_now := 120 * day_ns\<rparr>"

lemma retention_meter_reads: "meterFromFields retention_meter = Inr retention_meter"
  by (simp add: retention_meter_def meterFromFields_def NewWithDimensions_def normalizeDimensions_def normalizeEventRetentionDays_def
      MaxEventRetentionDays_def IsZero_def zero_time_def TrimSpace_plain)

lemma retention_dates: "json_time_ok (100 * day_ns)" "json_time_ok (prune_cutoff (120 * day_ns) retention_meter)"
  by code_simp+


end
