(* ===== verification/Spec2Isabelle.thy ===== *)
theory Spec2Isabelle
  imports AuthAccess ConsumptionSpec OutboxSpec PlanSpec QuotaSpec RateLimit UsageQuery AlertSpec MeterSpec SystemSpec Draining RetentionSpec
begin

text \<open>
  A verification of open-spanner, a Go server that meters usage: customers send usage events, the server
  stores them, counts them per quota window, decides whether a subject may still consume, and raises alerts.
  All file names below are under \<^verbatim>\<open>src/\<close>.

  The program and how its parts interact.  A request enters through the HTTP or gRPC adapters and calls one
  operation of an application service (\<^verbatim>\<open>internal/metering/app/meter\<close>, \<^verbatim>\<open>usage\<close>, \<^verbatim>\<open>entitlement\<close>, \<^verbatim>\<open>consumption\<close>,
  \<^verbatim>\<open>alert\<close>, \<^verbatim>\<open>savedquery\<close>), after the auth service (\<^verbatim>\<open>internal/auth\<close>) has found who asks, for which workspace, and
  whether the role or the scopes of the API key allow it.  The service checks its arguments with the domain types (\<^verbatim>\<open>internal/metering/domain\<close>), reads and
  writes the store through a repository (\<^verbatim>\<open>internal/metering/adapters/sqlite\<close>), and often runs several
  repository calls inside \<^verbatim>\<open>WithinTransaction\<close>.  Recording usage has side effects that other parts pick up:
  it adds the events to the quota counters of the entitlement repository, appends a message to the usage
  outbox, and enqueues entitlement checks and alert evaluations.  Three workers
  (\<^verbatim>\<open>internal/metering/workers/outbox\<close>, \<^verbatim>\<open>entitlement\<close>, \<^verbatim>\<open>alert\<close>) claim rows of those queues under a lease,
  process them, and complete them, retry them later, or bury them as dead letters.

  The shape of the model.  A function of the Go code is a HOL function with the same name.  A function that
  touches the store is a state transformer on \<^verbatim>\<open>world\<close> (theory Store): the tables \<^verbatim>\<open>db\<close>, the flag of the open
  transaction, and three streams that stand for what the program cannot determine: the readings of the
  clock, the fresh identifiers and random tokens, and the failures of single statements (every statement
  may fail, whatever the state).  A result \<^verbatim>\<open>(T, error)\<close> of Go is a pair of an optional error and a value,
  so that what a function returns beside an error is modelled too.  \<^verbatim>\<open>Prelude\<close> has that monad with
  \<^verbatim>\<open>attempt\<close> for the pattern \<^verbatim>\<open>if err != nil { return ..., err }\<close>, the errors of
  \<^verbatim>\<open>internal/metering/domain/errors.go\<close>, and the properties of programs that the theorems use:
  \<^verbatim>\<open>keeps P\<close> (the operation preserves \<^verbatim>\<open>P\<close>, failing or not), \<^verbatim>\<open>ensures\<close> (what a successful run
  guarantees) and \<^verbatim>\<open>all_or_nothing\<close> (an operation that returns an error leaves the tables as they were).

  The theories, from the language to the system.

    Language and library.  \<^verbatim>\<open>GoStrings\<close> (package strings on byte strings), \<^verbatim>\<open>GoTime\<close> (time.Time with its civil
    calendar, AddDate, Truncate, and the two text formats the store compares), \<^verbatim>\<open>Float64\<close> (float64 as IEEE
    values: finite dyadic numbers with rounding, infinities, NaN), \<^verbatim>\<open>GoAny\<close> and \<^verbatim>\<open>GoFmt\<close> (values of type any,
    as they come out of JSON, and what fmt prints of them), \<^verbatim>\<open>GoCrypto\<close> (SHA-256, base64 and hexadecimal; bcrypt
    is a parameter).

    Domain types.  \<^verbatim>\<open>Meter\<close> (meters, dimensions, metadata), \<^verbatim>\<open>UsageDomain\<close> (events, subjects, bulk results),
    \<^verbatim>\<open>UsageQuery\<close> (queries and filters), \<^verbatim>\<open>EntitlementTypes\<close> and \<^verbatim>\<open>EntitlementCalc\<close> (plans, limits, states, quota
    windows), \<^verbatim>\<open>AlertTypes\<close> (rules, states, deliveries), \<^verbatim>\<open>AuthTypes\<close> (users, workspaces, sessions, API keys, the
    rules of roles and scopes), \<^verbatim>\<open>SavedQueryTypes\<close>, \<^verbatim>\<open>RollupTypes\<close> (hourly rollups).

    Store and repositories.  \<^verbatim>\<open>Store\<close> (the tables, WithinTransaction, unique constraints, the workspace of a
    request), \<^verbatim>\<open>UsageBatch\<close> (counters of a batch), \<^verbatim>\<open>EntitlementRepo\<close>, \<^verbatim>\<open>UsageRepo\<close>, \<^verbatim>\<open>AlertRepo\<close>, \<^verbatim>\<open>AuthRepo\<close>, and the
    repository parts of \<^verbatim>\<open>MeterService\<close>, \<^verbatim>\<open>SavedQueryService\<close> and \<^verbatim>\<open>ExportJobs\<close>.

    Services and workers.  \<^verbatim>\<open>UsageService\<close>, \<^verbatim>\<open>EntitlementService\<close>, \<^verbatim>\<open>Consumption\<close>, \<^verbatim>\<open>Outbox\<close>, \<^verbatim>\<open>CheckJobs\<close>,
    \<^verbatim>\<open>AlertService\<close>, \<^verbatim>\<open>MeterService\<close>, \<^verbatim>\<open>AuthService\<close> (logins, sessions, keys, members, the authorizer with Casbin as a
    parameter), \<^verbatim>\<open>SavedQueryService\<close>, \<^verbatim>\<open>ExportJobs\<close>, \<^verbatim>\<open>Retention\<close> (pruning of old events into hourly rollups), and the round of each worker as \<^verbatim>\<open>ProcessOnce\<close>, \<^verbatim>\<open>Check_ProcessOnce\<close> and
    \<^verbatim>\<open>Alert_ProcessOnce\<close>.

    Specifications.  \<^verbatim>\<open>UsageLedger\<close> (the integrity of the usage tables, what a create and a bulk create
    record), \<^verbatim>\<open>ConsumptionSpec\<close> (the atomic specification of Consume that the code refines, idempotence,
    enforcement of hard limits; its last branch rests on \<^verbatim>\<open>FailOpenSignal\<close>, which shows that the fail-open
    marker error never escapes), \<^verbatim>\<open>PlanSpec\<close> (plans and assignments), \<^verbatim>\<open>QuotaSpec\<close> (what is assessed is what
    is counted), \<^verbatim>\<open>RateLimit\<close>, \<^verbatim>\<open>OutboxSpec\<close>, \<^verbatim>\<open>AlertSpec\<close>, \<^verbatim>\<open>MeterSpec\<close>,
    \<^verbatim>\<open>AuthSpec\<close> (the invariant of the auth tables: keys, references, owners, the audit trail of API keys), \<^verbatim>\<open>AuthAccess\<close>
    (who gets in and what an authenticated request may do), \<^verbatim>\<open>ExportSpec\<close> (completed exports are final, lost workers are
    fenced), \<^verbatim>\<open>RetentionSpec\<close> (pruning loses no usage: six measures of usage, as interpretations of one locale of
    commutative monoids, are the same over events and rollups before and after, and young events stay; \<^verbatim>\<open>TimeText\<close>
    relates the order of the stored texts to the order of times); \<^verbatim>\<open>SavedQueryService\<close> ends with the invariant of saved queries and their isolation by user.
    \<^verbatim>\<open>LeasedQueue\<close> states once, as locales, the contract of a work queue with leases; the outbox, the check
    jobs, the export jobs and the two alert queues are its interpretations.

    The system.  \<^verbatim>\<open>Frames\<close> proves what each service leaves alone, as locales over a predicate on the tables
    that survives the statements of that service; \<^verbatim>\<open>DeskFrames\<close> does so for saved queries and export jobs.  \<^verbatim>\<open>SystemSpec\<close> composes the services into one step relation
    (a request or a worker round from any state to any state its operation can produce) and shows that every
    reachable state satisfies the invariants of all components.  \<^verbatim>\<open>Draining\<close> shows that the queues drain: the
    rounds that find work use up a measure.

  Correspondence of state.  One field of \<^verbatim>\<open>db\<close> is one table of
  \<^verbatim>\<open>adapters/sqlite/migrations/001_init.up.sql\<close>, a list of records in insertion order; a record field is a
  column.  A repository method that is one SQL statement is one function on the list, read off the
  statement in \<^verbatim>\<open>adapters/sqlite/queries\<close>.  Columns of times hold the texts that \<^verbatim>\<open>formatTime\<close> writes,
  because the statements compare texts; where this differs from comparing times the theorems say so.
  Integers are mathematical integers where the code cannot reach the bounds of int64 (limits of pages,
  attempts, days) and are wrapped where it can; quantities are \<^verbatim>\<open>float64\<close> with rounding.

  Bounds and fuel.  Loops over slices are structural recursion.  The search for the quota window of a time is
  a recursion with a termination proof: every window lasts at least a day.  Finding the decimal point of a
  float64 takes at most 330 steps by tens, more than the decimal exponents of doubles (-324 to 308).
  A worker round handles one row; the loop around it is a relation.

  What the model leaves out, and how.
    - Operations run one after another.  Every interleaving of whole requests and worker rounds is a path of
      the step relation, but two requests that overlap in time outside a transaction are not; where the code
      is exposed to this, the manifest lists it as a finding.
    - Text that crosses the border of the process (JSON of requests and of stored snapshots, cursors) is
      taken as the value it stands for.
    - The HTTP and gRPC adapters, the SDKs and generated code under \<^verbatim>\<open>openapi\<close>, \<^verbatim>\<open>sdk\<close>, \<^verbatim>\<open>sqlitedb\<close>,
      \<^verbatim>\<open>postgresdb\<close>: decoding and encoding.
    - The Postgres adapters: the operations of the SQLite adapters over another database.
    - Queries of usage and their SQL text (\<^verbatim>\<open>usage_dynamic_sql.go\<close>); where an alert or an assessment queries
      usage, the answer is a parameter of the model.  The sum that SQLite computes when it rolls up events is
      a parameter as well.
    - The files that exports are written to, the workers that run exports, retention and repair, subject
      listings, monitoring and repair of rollups, configuration, start-up and metrics.  Retention is not a
      step of \<^verbatim>\<open>SystemSpec\<close>: an accepted decision or an outbox message may outlive a pruned event, and its
      invariant says that they do not.
    - Foreign keys are modelled where an operation can run into them (deletion of a meter or a plan, rows of the
      auth tables, saved queries of a user); elsewhere, that the workspace of a request exists is left to the caller.
\<close>

end
